(* ===== verification/Prelude.thy ===== *)
theory Prelude
  imports Main "HOL-Library.Word"
begin

text \<open>
  Shared vocabulary of the development: the error results of the sources, names for the
  machine words and pointers the components use, the collections of rewrite rules
  (\<^theory_text>\<open>dev_bits\<close> for the device constants, \<^theory_text>\<open>asm_simps\<close> for the list operations
  of the audio session manager, \<^theory_text>\<open>sess_simps\<close> for the session record), and the generic lemmas
  on lists and masked words that more than one component needs.
\<close>

unbundle bit_operations_syntax

named_theorems dev_bits "values of the device and route constants"
named_theorems sess_simps "how the session operations act on the parts of the state"
named_theorems asm_simps "how the instance-list operations act on the parts of the state"

text \<open>
  The error codes of \<^verbatim>\<open>mm_error.h\<close> that the sources return.  Their numbers are not under
  \<^verbatim>\<open>src/\<close>; only the fact that the names differ is used.
\<close>

datatype mm_err =
    MM_ERROR_NONE
  | MM_ERROR_SOUND_INTERNAL
  | MM_ERROR_INVALID_ARGUMENT
  | MM_ERROR_SOUND_INVALID_POINTER
  | MM_ERROR_SOUND_INVALID_STATE
  | MM_ERROR_SOUND_INVALID_FILE
  | MM_ERROR_SOUND_UNSUPPORTED_MEDIA_TYPE
  | MM_ERROR_SOUND_NO_FREE_SPACE
  | MM_ERROR_SOUND_NO_DATA
  | MM_ERROR_SOUND_FILE_NOT_FOUND
  | MM_ERROR_SOUND_DEVICE_BUSY
  | MM_ERROR_SOUND_DEVICE_NOT_OPENED
  | MM_ERROR_SOUND_VOLUME_NO_INSTANCE
  | MM_ERROR_SOUND_VOLUME_CAPTURE_ONLY
  | MM_ERROR_OUT_OF_MEMORY
  | MM_ERROR_OUT_OF_STORAGE
  | MM_ERROR_END_OF_FILE
  | MM_ERROR_CLASS
  | MM_ERROR_SOUND_INVALID_PATH
  | MM_ERROR_SOUND_DEVICE_INVALID_SAMPLERATE
  | MM_ERROR_SOUND_DEVICE_INVALID_CHANNEL
  | MM_ERROR_SOUND_DEVICE_INVALID_FORMAT
  | MM_ERROR_COMMON_OUT_OF_RANGE
  | MM_ERROR_COMMON_UNKNOWN
  | MM_ERROR_COMMON_NO_FREE_SPACE
  | MM_ERROR_POLICY_BLOCKED
  | MM_ERROR_POLICY_RESTRICTED
  | MM_ERROR_POLICY_INTERNAL
  | MM_ERROR_OTHER int

type_synonym ptr = "32 word"
type_synonym dev = "32 word"
type_synonym pid = int

section \<open>Lists\<close>

text \<open>Updating the first element that satisfies a test, the shape of every search-and-assign
  loop of the sources.\<close>

fun update_first :: "('a \<Rightarrow> bool) \<Rightarrow> ('a \<Rightarrow> 'a) \<Rightarrow> 'a list \<Rightarrow> 'a list" where
  "update_first P f [] = []"
| "update_first P f (x # xs) = (if P x then f x # xs else x # update_first P f xs)"

text \<open>Removing the first element that satisfies a test.\<close>

fun remove_first :: "('a \<Rightarrow> bool) \<Rightarrow> 'a list \<Rightarrow> 'a list" where
  "remove_first P [] = []"
| "remove_first P (x # xs) = (if P x then xs else x # remove_first P xs)"

lemma length_update_first [simp]: "length (update_first P f xs) = length xs"
  by (induction xs) auto

lemma map_update_first_keep:
  "(\<And>x. g (f x) = g x) \<Longrightarrow> map g (update_first P f xs) = map g xs"
  by (induction xs) auto

lemma map_update_first_id:
  "(\<And>x. g (f x) = g x) \<Longrightarrow> g ` set (update_first P f xs) = g ` set xs"
  by (induction xs) auto

lemma update_first_none:
  "(\<And>x. x \<in> set xs \<Longrightarrow> \<not> P x) \<Longrightarrow> update_first P f xs = xs"
  by (induction xs) auto

lemma set_update_first_subset:
  "set (update_first P f xs) \<subseteq> set xs \<union> f ` {x \<in> set xs. P x}"
  by (induction xs) auto

lemma set_remove_first_subset: "set (remove_first P xs) \<subseteq> set xs"
  by (induction xs) auto

lemma distinct_map_remove_first:
  "distinct (map g xs) \<Longrightarrow> distinct (map g (remove_first P xs))"
  by (induction xs) (use set_remove_first_subset in fastforce)+

lemma remove_first_none: "(\<And>x. x \<in> set xs \<Longrightarrow> \<not> P x) \<Longrightarrow> remove_first P xs = xs"
  by (induction xs) auto

lemma length_remove_first_le: "length (remove_first P xs) \<le> length xs"
  by (induction xs) auto

lemma length_remove_first_less:
  "x \<in> set xs \<Longrightarrow> P x \<Longrightarrow> length (remove_first P xs) < length xs"
  by (induction xs) auto

lemma remove_first_filter:
  assumes "distinct (map g xs)"
  shows "remove_first (\<lambda>x. g x = k) xs = filter (\<lambda>x. g x \<noteq> k) xs"
  using assms by (induction xs) (auto simp: image_iff intro!: filter_True [symmetric])

text \<open>An indexed update read back at a valid index, wherever the update went.\<close>

lemma nth_update_any: "j < length xs \<Longrightarrow> xs[i := x] ! j = (if i = j then x else xs ! j)"
  by (cases "i < length xs") (auto simp: nth_list_update)

section \<open>Masked words\<close>

lemma and_mask_absorb:
  fixes a m x :: "'a::len word"
  assumes "m AND x = x"
  shows "a AND x = (a AND m) AND x"
  using assms by (simp add: and.assoc)

lemma or_and_disjoint:
  fixes a m k x :: "'a::len word"
  assumes "m AND k = 0"
  shows "((a AND m) OR x) AND k = x AND k"
  using assms by (simp add: bit.conj_disj_distrib2 and.assoc)

lemma or_and_same:
  fixes a m x :: "'a::len word"
  shows "((a AND m) OR x) AND m = (a AND m) OR (x AND m)"
  by (simp add: bit.conj_disj_distrib2 and.assoc)

end
