(* ===== verification/Routes.thy ===== *)
theory Routes
  imports Prelude
begin

text \<open>
  The device and route words of \<^verbatim>\<open>include/mm_sound.h\<close> and the helpers of
  \<^verbatim>\<open>common/mm_sound_utils.c\<close>: the table of valid routes, the validity test (a linear search) and
  the split of a route into its input device (low byte) and output device (second byte).
\<close>

section \<open>Device bits\<close>

definition IN_NONE :: dev where [dev_bits]: "IN_NONE = 0x00"
definition IN_MIC :: dev where [dev_bits]: "IN_MIC = 0x01"
definition IN_WIRED :: dev where [dev_bits]: "IN_WIRED = 0x02"
definition IN_BT_SCO :: dev where [dev_bits]: "IN_BT_SCO = 0x04"

definition OUT_NONE :: dev where [dev_bits]: "OUT_NONE = 0x00"
definition OUT_SPEAKER :: dev where [dev_bits]: "OUT_SPEAKER = 0x0100"
definition OUT_RECEIVER :: dev where [dev_bits]: "OUT_RECEIVER = 0x0200"
definition OUT_WIRED :: dev where [dev_bits]: "OUT_WIRED = 0x0400"
definition OUT_BT_SCO :: dev where [dev_bits]: "OUT_BT_SCO = 0x0800"
definition OUT_BT_A2DP :: dev where [dev_bits]: "OUT_BT_A2DP = 0x1000"
definition OUT_DOCK :: dev where [dev_bits]: "OUT_DOCK = 0x2000"

section \<open>Routes\<close>

type_synonym route = "32 word"

definition g_valid_route :: "route list" where
  "g_valid_route =
    [OUT_SPEAKER, OUT_WIRED, OUT_BT_A2DP,
     IN_MIC, IN_WIRED, IN_MIC OR OUT_RECEIVER,
     IN_MIC OR OUT_SPEAKER, IN_MIC OR OUT_WIRED,
     IN_WIRED OR OUT_WIRED, IN_BT_SCO OR OUT_BT_SCO]"

definition MM_SOUND_ROUTE_NUM :: nat where "MM_SOUND_ROUTE_NUM = 10"

text \<open>The declared enumeration of routes, which has one more member than the table.\<close>

definition declared_routes :: "route list" where
  "declared_routes =
    [OUT_SPEAKER, OUT_WIRED, OUT_BT_A2DP, OUT_DOCK, IN_MIC, IN_WIRED,
     IN_MIC OR OUT_RECEIVER, IN_MIC OR OUT_SPEAKER, IN_MIC OR OUT_WIRED,
     IN_WIRED OR OUT_WIRED, IN_BT_SCO OR OUT_BT_SCO]"

fun route_search :: "route list \<Rightarrow> route \<Rightarrow> bool" where
  "route_search [] r = False"
| "route_search (x # xs) r = (if x = r then True else route_search xs r)"

definition mm_sound_is_route_valid :: "route \<Rightarrow> bool" where
  "mm_sound_is_route_valid r = route_search g_valid_route r"

definition get_devices_from_route :: "route \<Rightarrow> dev \<times> dev" where
  "get_devices_from_route r = (r AND 0x00FF, r AND 0xFF00)"

lemma route_search_iff: "route_search xs r \<longleftrightarrow> r \<in> set xs"
  by (induction xs) auto

lemma g_valid_route_values:
  "g_valid_route = [0x100, 0x400, 0x1000, 1, 2, 0x201, 0x101, 0x401, 0x402, 0x804]"
  by (simp add: g_valid_route_def dev_bits)

end
