(* ===== verification/Session_State.thy ===== *)
theory Session_State
  imports Routes
begin

text \<open>
  The state of the session manager (\<^verbatim>\<open>server/mm_sound_mgr_session.c\<close>), its enumerations
  (\<^verbatim>\<open>server/include/mm_sound_mgr_session.h\<close>) and its bit macros.  The record \<^verbatim>\<open>sess\<close> holds the
  static variable \<^verbatim>\<open>g_info\<close> of the session manager, the two callback lists of
  \<^verbatim>\<open>server/mm_sound_mgr_device.c\<close>, and \<^verbatim>\<open>calls\<close>, the log (newest first) of the calls that leave the
  sources: audio-system paths, PulseAudio sinks, callback messages.  Results of those calls come
  from the record \<^verbatim>\<open>sess_env\<close>, as functions of the log, so that two equal calls may have different
  results.
\<close>

section \<open>Enumerations\<close>

datatype session_state = SESSION_END | SESSION_START

datatype session_id =
  SESSION_MEDIA | SESSION_VOICECALL | SESSION_VOIP | SESSION_FMRADIO | SESSION_NOTIFICATION

text \<open>The sub-session is stored as the integer the client sent.\<close>

definition SUBSESSION_VOICE :: int where [sess_simps]: "SUBSESSION_VOICE = 0"
definition SUBSESSION_RINGTONE :: int where [sess_simps]: "SUBSESSION_RINGTONE = 1"
definition SUBSESSION_MEDIA :: int where [sess_simps]: "SUBSESSION_MEDIA = 2"
definition SUBSESSION_NUM :: int where [sess_simps]: "SUBSESSION_NUM = 3"

datatype device_type = DEVICE_BUILTIN | DEVICE_WIRED | DEVICE_BT_A2DP | DEVICE_BT_SCO | DEVICE_DOCK

datatype noti = NO_NOTI | DO_NOTI

definition EARJACK_WITH_MIC :: int where [sess_simps]: "EARJACK_WITH_MIC = 2"

text \<open>The names of the audio-system interface; their numbers are not under \<^verbatim>\<open>src/\<close>.\<close>

datatype av_gain =
    GAIN_EX_KEYTONE | GAIN_EX_RINGTONE | GAIN_EX_CALLTONE | GAIN_EX_VOICECALL
  | GAIN_EX_VIDEOCALL | GAIN_EX_FMRADIO

datatype av_path =
    PATH_EX_NONE | PATH_EX_SPK | PATH_EX_RECV | PATH_EX_HEADSET | PATH_EX_BTHEADSET
  | PATH_EX_A2DP | PATH_EX_DOCK | PATH_EX_MIC | PATH_EX_HEADSETMIC | PATH_EX_BTMIC
  | PATH_EX_FMINPUT

datatype av_option = PATH_OPTION_NONE | PATH_OPTION_DUAL_OUT

section \<open>State\<close>

text \<open>An entry of a callback list (\<^verbatim>\<open>_mm_sound_mgr_device_param_t\<close>); callback 0 is the null pointer.\<close>

record cb_param =
  cp_pid :: pid
  cp_route :: route
  cp_callback :: ptr
  cp_cbdata :: ptr

datatype cb_msg =
    ActiveDeviceCb pid dev dev ptr ptr
  | AvailableRouteCb pid "route list" bool ptr ptr

text \<open>A path argument is \<^verbatim>\<open>None\<close> where the C variable is still uninitialised at the call.\<close>

datatype out_call =
    PulseSetDefaultSink string
  | AvSetPathEx av_gain "av_path option" "av_path option" av_option
  | AvSetExtDeviceFM session_state
  | CbSndMsg cb_msg
  | VolumeRefresh
  | PlayDockSound bool
  | AsmPauseProcess int

record sess =
  asm_handle :: int
  device_available :: dev
  device_active :: dev
  session :: session_id
  subsession :: int
  bt_name :: string
  default_sink_name :: string
  active_cbs :: "cb_param list"
  avail_cbs :: "cb_param list"
  calls :: "out_call list"

record sess_env =
  avsys_ok :: "out_call list \<Rightarrow> bool"
  send_ret :: "out_call list \<Rightarrow> mm_err"
  sound_play :: "out_call list \<Rightarrow> bool"
  stack_routes :: "route list"

definition out_call :: "out_call \<Rightarrow> sess \<Rightarrow> sess" where
  "out_call c s = s\<lparr>calls := c # calls s\<rparr>"

section \<open>Bit macros\<close>

definition OUT_ANY :: dev where [dev_bits]: "OUT_ANY = 0xFF00"
definition IN_ANY :: dev where [dev_bits]: "IN_ANY = 0x00FF"
definition OUT_FILTER :: dev where [dev_bits]: "OUT_FILTER = 0x00FF"
definition IN_FILTER :: dev where [dev_bits]: "IN_FILTER = 0xFF00"

definition SET_AVAILABLE :: "dev \<Rightarrow> sess \<Rightarrow> sess" where
  "SET_AVAILABLE x s = s\<lparr>device_available := device_available s OR x\<rparr>"

definition UNSET_AVAILABLE :: "dev \<Rightarrow> sess \<Rightarrow> sess" where
  "UNSET_AVAILABLE x s = s\<lparr>device_available := device_available s AND NOT x\<rparr>"

definition RESET_ACTIVE :: "dev \<Rightarrow> sess \<Rightarrow> sess" where
  "RESET_ACTIVE x s = s\<lparr>device_active := device_active s AND x\<rparr>"

definition SET_ACTIVE :: "dev \<Rightarrow> sess \<Rightarrow> sess" where
  "SET_ACTIVE x s = s\<lparr>device_active := device_active s OR x\<rparr>"

definition UNSET_ACTIVE :: "dev \<Rightarrow> sess \<Rightarrow> sess" where
  "UNSET_ACTIVE x s = s\<lparr>device_active := device_active s AND NOT x\<rparr>"

definition SET_PLAYBACK_ONLY_ACTIVE :: "dev \<Rightarrow> sess \<Rightarrow> sess" where
  "SET_PLAYBACK_ONLY_ACTIVE x s = SET_ACTIVE x (RESET_ACTIVE OUT_FILTER s)"

definition SET_CAPTURE_ONLY_ACTIVE :: "dev \<Rightarrow> sess \<Rightarrow> sess" where
  "SET_CAPTURE_ONLY_ACTIVE x s = SET_ACTIVE x (RESET_ACTIVE IN_FILTER s)"

definition IS_ACTIVE :: "dev \<Rightarrow> sess \<Rightarrow> bool" where
  "IS_ACTIVE x s = (device_active s AND x \<noteq> 0)"

definition IS_AVAILABLE :: "dev \<Rightarrow> sess \<Rightarrow> bool" where
  "IS_AVAILABLE x s = (device_available s AND x \<noteq> 0)"

definition GET_ACTIVE_PLAYBACK :: "sess \<Rightarrow> dev" where
  "GET_ACTIVE_PLAYBACK s = device_active s AND OUT_ANY"

definition GET_ACTIVE_CAPTURE :: "sess \<Rightarrow> dev" where
  "GET_ACTIVE_CAPTURE s = device_active s AND IN_ANY"

definition GET_AVAILABLE_PLAYBACK :: "sess \<Rightarrow> dev" where
  "GET_AVAILABLE_PLAYBACK s = device_available s AND OUT_ANY"

definition GET_AVAILABLE_CAPTURE :: "sess \<Rightarrow> dev" where
  "GET_AVAILABLE_CAPTURE s = device_available s AND IN_ANY"

definition IS_COMMUNICATION_SESSION :: "sess \<Rightarrow> bool" where
  "IS_COMMUNICATION_SESSION s = (session s = SESSION_VOICECALL \<or> session s = SESSION_VOIP)"

definition IS_NOTIFICATION_SESSION :: "sess \<Rightarrow> bool" where
  "IS_NOTIFICATION_SESSION s = (session s = SESSION_NOTIFICATION)"

text \<open>\<^verbatim>\<open>MMSoundMgrSessionIsDeviceAvailable\<close> and its variant without the lock: playback first.\<close>

definition is_device_available :: "dev \<Rightarrow> dev \<Rightarrow> sess \<Rightarrow> bool" where
  "is_device_available playback capture s =
    (if playback = OUT_NONE then IS_AVAILABLE capture s
     else if capture = IN_NONE then IS_AVAILABLE playback s
     else IS_AVAILABLE playback s \<and> IS_AVAILABLE capture s)"

definition get_available_devices :: "sess \<Rightarrow> dev \<times> dev" where
  "get_available_devices s = (GET_AVAILABLE_PLAYBACK s, GET_AVAILABLE_CAPTURE s)"

definition get_device_active :: "sess \<Rightarrow> dev \<times> dev" where
  "get_device_active s = (GET_ACTIVE_PLAYBACK s, GET_ACTIVE_CAPTURE s)"

lemmas bit_macros =
  SET_AVAILABLE_def UNSET_AVAILABLE_def RESET_ACTIVE_def SET_ACTIVE_def UNSET_ACTIVE_def
  SET_PLAYBACK_ONLY_ACTIVE_def SET_CAPTURE_ONLY_ACTIVE_def

lemmas bit_tests =
  IS_ACTIVE_def IS_AVAILABLE_def GET_ACTIVE_PLAYBACK_def GET_ACTIVE_CAPTURE_def
  GET_AVAILABLE_PLAYBACK_def GET_AVAILABLE_CAPTURE_def

lemma out_call_fields [simp]:
  "asm_handle (out_call c s) = asm_handle s"
  "device_available (out_call c s) = device_available s"
  "device_active (out_call c s) = device_active s"
  "session (out_call c s) = session s"
  "subsession (out_call c s) = subsession s"
  "bt_name (out_call c s) = bt_name s"
  "default_sink_name (out_call c s) = default_sink_name s"
  "active_cbs (out_call c s) = active_cbs s"
  "avail_cbs (out_call c s) = avail_cbs s"
  "calls (out_call c s) = c # calls s"
  by (simp_all add: out_call_def)

end
