(* ===== verification/Device.thy ===== *)
theory Device
  imports Session_State
begin

text \<open>
  The device manager (\<^verbatim>\<open>server/mm_sound_mgr_device.c\<close>): the two per-process callback lists, the
  lists of available and changed routes, and the delivery of callback messages.  The interface
  \<^verbatim>\<open>pid_registry\<close> states what the clients of a callback list rely on; it is interpreted on both
  lists.
\<close>

section \<open>Callback lists\<close>

text \<open>The search-or-append loop of the two add functions: an existing entry of the process keeps its
  route and gets the new callback and data, otherwise a copy is appended.\<close>

fun cb_list_add :: "cb_param \<Rightarrow> cb_param list \<Rightarrow> cb_param list" where
  "cb_list_add p [] = [p]"
| "cb_list_add p (c # cs) =
    (if cp_pid c = cp_pid p
     then c\<lparr>cp_callback := cp_callback p, cp_cbdata := cp_cbdata p\<rparr> # cs
     else c # cb_list_add p cs)"

fun cb_list_remove :: "pid \<Rightarrow> cb_param list \<Rightarrow> cb_param list" where
  "cb_list_remove k [] = []"
| "cb_list_remove k (c # cs) = (if cp_pid c = k then cs else c # cb_list_remove k cs)"

definition add_active_device_callback :: "cb_param \<Rightarrow> sess \<Rightarrow> mm_err \<times> sess" where
  "add_active_device_callback p s =
    (MM_ERROR_NONE, s\<lparr>active_cbs := cb_list_add p (active_cbs s)\<rparr>)"

definition remove_active_device_callback :: "cb_param \<Rightarrow> sess \<Rightarrow> mm_err \<times> sess" where
  "remove_active_device_callback p s =
    (MM_ERROR_NONE, s\<lparr>active_cbs := cb_list_remove (cp_pid p) (active_cbs s)\<rparr>)"

definition add_available_route_callback :: "cb_param \<Rightarrow> sess \<Rightarrow> mm_err \<times> sess" where
  "add_available_route_callback p s =
    (MM_ERROR_NONE, s\<lparr>avail_cbs := cb_list_add p (avail_cbs s)\<rparr>)"

definition remove_available_route_callback :: "cb_param \<Rightarrow> sess \<Rightarrow> mm_err \<times> sess" where
  "remove_available_route_callback p s =
    (MM_ERROR_NONE, s\<lparr>avail_cbs := cb_list_remove (cp_pid p) (avail_cbs s)\<rparr>)"

section \<open>Delivery\<close>

text \<open>One loop iteration: an entry with a callback gets a message; the result of the last send is
  the result of the loop.\<close>

fun send_callbacks ::
  "sess_env \<Rightarrow> (cb_param \<Rightarrow> cb_msg) \<Rightarrow> cb_param list \<Rightarrow> mm_err \<Rightarrow> sess \<Rightarrow> mm_err \<times> sess" where
  "send_callbacks E mk [] ret s = (ret, s)"
| "send_callbacks E mk (c # cs) ret s =
    (if cp_callback c \<noteq> 0
     then let s' = out_call (CbSndMsg (mk c)) s
          in send_callbacks E mk cs (send_ret E (calls s')) s'
     else send_callbacks E mk cs ret s)"

definition active_device_callback :: "sess_env \<Rightarrow> dev \<Rightarrow> dev \<Rightarrow> sess \<Rightarrow> mm_err \<times> sess" where
  "active_device_callback E device_in device_out s =
    send_callbacks E
      (\<lambda>c. ActiveDeviceCb (cp_pid c) device_in device_out (cp_callback c) (cp_cbdata c))
      (active_cbs s) MM_ERROR_NONE s"

text \<open>Whether a route is affected by a change of the given devices.\<close>

definition route_is_changed :: "sess \<Rightarrow> dev \<Rightarrow> dev \<Rightarrow> route \<Rightarrow> bool" where
  "route_is_changed s device_in device_out r =
    (let (rin, rout) = get_devices_from_route r;
         changed1 =
           (if device_in \<noteq> IN_NONE \<and> device_in = rin then
              (if device_out \<noteq> OUT_NONE \<and> device_out = rout then True
               else if rout = OUT_NONE then True
               else is_device_available rout IN_NONE s)
            else False)
     in if \<not> changed1 \<and> device_out \<noteq> OUT_NONE \<and> device_out = rout then
          (if rin = IN_NONE then True else is_device_available OUT_NONE rin s)
        else changed1)"

text \<open>The loop that stores the selected routes into the fixed array of the message, which starts as
  uninitialised memory: index \<^verbatim>\<open>k\<close> is the number of routes stored so far.\<close>

fun store_routes :: "(route \<Rightarrow> bool) \<Rightarrow> route list \<Rightarrow> nat \<Rightarrow> route list \<Rightarrow> nat \<times> route list" where
  "store_routes P [] k arr = (k, arr)"
| "store_routes P (r # rs) k arr =
    (if P r then store_routes P rs (Suc k) (arr[k := r]) else store_routes P rs k arr)"

definition available_device_callback ::
  "sess_env \<Rightarrow> dev \<Rightarrow> dev \<Rightarrow> bool \<Rightarrow> sess \<Rightarrow> mm_err \<times> sess" where
  "available_device_callback E device_in device_out available s =
    (let (n, routes) =
       store_routes (route_is_changed s device_in device_out) g_valid_route 0 (stack_routes E)
     in send_callbacks E
          (\<lambda>c. AvailableRouteCb (cp_pid c) routes available (cp_callback c) (cp_cbdata c))
          (avail_cbs s) MM_ERROR_NONE s)"

section \<open>Route queries\<close>

definition is_route_available :: "route \<Rightarrow> sess \<Rightarrow> mm_err \<times> bool" where
  "is_route_available r s =
    (let (i, ou) = get_devices_from_route r in (MM_ERROR_NONE, is_device_available ou i s))"

text \<open>\<^verbatim>\<open>foreach_available_route_cb\<close> fills the route array of the client's message in place.\<close>

definition foreach_available_route :: "sess \<Rightarrow> route list \<Rightarrow> mm_err \<times> nat \<times> route list" where
  "foreach_available_route s arr =
    (MM_ERROR_NONE,
     store_routes (\<lambda>r. let (i, ou) = get_devices_from_route r in is_device_available ou i s)
       g_valid_route 0 arr)"

section \<open>Storing into the array\<close>

lemma store_routes_count:
  "fst (store_routes P rs k arr) = k + length (filter P rs)"
  by (induction rs arbitrary: k arr) auto

lemma store_routes_length [simp]:
  "length (snd (store_routes P rs k arr)) = length arr"
  by (induction rs arbitrary: k arr) auto

lemma store_routes_array:
  assumes "k + length (filter P rs) \<le> length arr"
  shows "snd (store_routes P rs k arr)
    = take k arr @ filter P rs @ drop (k + length (filter P rs)) arr"
  using assms
proof (induction rs arbitrary: k arr)
  case (Cons r rs)
  show ?case
  proof (cases "P r")
    case True
    with Cons.prems have "k < length arr" by simp
    with True Cons show ?thesis
      by (simp add: take_Suc_conv_app_nth)
  qed (use Cons in simp)
qed simp

lemma length_filter_g_valid_route: "length (filter P g_valid_route) \<le> MM_SOUND_ROUTE_NUM"
  using length_filter_le [of P g_valid_route]
  by (simp add: g_valid_route_def MM_SOUND_ROUTE_NUM_def)

section \<open>The registry interface\<close>

locale pid_registry =
  fixes inv :: "'s \<Rightarrow> bool"
    and lookup :: "'s \<Rightarrow> pid \<Rightarrow> (ptr \<times> ptr) option"
    and add :: "cb_param \<Rightarrow> 's \<Rightarrow> 's"
    and remove :: "cb_param \<Rightarrow> 's \<Rightarrow> 's"
  assumes inv_add: "inv s \<Longrightarrow> inv (add p s)"
    and inv_remove: "inv s \<Longrightarrow> inv (remove p s)"
    and lookup_add:
      "inv s \<Longrightarrow> lookup (add p s) = (lookup s)(cp_pid p \<mapsto> (cp_callback p, cp_cbdata p))"
    and lookup_remove: "inv s \<Longrightarrow> lookup (remove p s) = (lookup s)(cp_pid p := None)"
begin

lemma add_twice_last_wins:
  assumes "inv s" "cp_pid p = cp_pid q"
  shows "lookup (add q (add p s)) = lookup (add q s)"
  using assms by (simp add: inv_add lookup_add)

lemma add_other_pid:
  assumes "inv s" "cp_pid p \<noteq> cp_pid q"
  shows "lookup (add q (add p s)) = lookup (add p (add q s))"
  using assms by (simp add: inv_add lookup_add fun_upd_twist)

lemma remove_after_add:
  assumes "inv s"
  shows "lookup (remove p (add p s)) = lookup (remove p s)"
  using assms by (simp add: inv_add lookup_add lookup_remove)

lemma inv_fold:
  assumes "inv s"
  shows "inv (fold (\<lambda>(b, p) s. if b then add p s else remove p s) ops s)"
  using assms
proof (induction ops arbitrary: s)
  case (Cons op ops)
  then show ?case by (cases op) (simp add: inv_add inv_remove)
qed simp

lemma lookup_fold:
  assumes "inv s"
  shows "lookup (fold (\<lambda>(b, p) s. if b then add p s else remove p s) ops s) =
    fold (\<lambda>(b, p) m. m(cp_pid p := (if b then Some (cp_callback p, cp_cbdata p) else None))) ops (lookup s)"
  using assms
proof (induction ops arbitrary: s)
  case (Cons op ops)
  then show ?case
    by (cases op) (simp add: inv_add inv_remove lookup_add lookup_remove)
qed simp

end

text \<open>The abstraction: at most one entry per process, looked up by process id.\<close>

definition cb_lookup :: "cb_param list \<Rightarrow> pid \<Rightarrow> (ptr \<times> ptr) option" where
  "cb_lookup cs = map_of (map (\<lambda>c. (cp_pid c, (cp_callback c, cp_cbdata c))) cs)"

abbreviation pids_distinct :: "cb_param list \<Rightarrow> bool" where
  "pids_distinct cs \<equiv> distinct (map cp_pid cs)"

lemma cb_list_add_pids:
  "cp_pid ` set (cb_list_add p cs) = insert (cp_pid p) (cp_pid ` set cs)"
  by (induction cs) auto

lemma cb_list_add_distinct: "pids_distinct cs \<Longrightarrow> pids_distinct (cb_list_add p cs)"
proof (induction cs)
  case (Cons c cs)
  then show ?case using cb_list_add_pids [of p cs] by (auto simp flip: set_map)
qed simp

lemma cb_list_remove_subset: "cp_pid ` set (cb_list_remove k cs) \<subseteq> cp_pid ` set cs"
  by (induction cs) auto

lemma cb_list_remove_distinct: "pids_distinct cs \<Longrightarrow> pids_distinct (cb_list_remove k cs)"
proof (induction cs)
  case (Cons c cs)
  then show ?case using cb_list_remove_subset [of k cs] by auto
qed simp

lemma cb_lookup_add:
  "cb_lookup (cb_list_add p cs) = (cb_lookup cs)(cp_pid p \<mapsto> (cp_callback p, cp_cbdata p))"
  by (induction cs) (auto simp: cb_lookup_def)

lemma cb_lookup_none: "k \<notin> cp_pid ` set cs \<Longrightarrow> cb_lookup cs k = None"
  by (induction cs) (auto simp: cb_lookup_def)

lemma cb_lookup_remove:
  "pids_distinct cs \<Longrightarrow> cb_lookup (cb_list_remove k cs) = (cb_lookup cs)(k := None)"
proof (induction cs)
  case (Cons c cs)
  have Eq: "cb_lookup (x # xs) = (cb_lookup xs)(cp_pid x \<mapsto> (cp_callback x, cp_cbdata x))"
    for x xs by (simp add: cb_lookup_def)
  show ?case
  proof (cases "cp_pid c = k")
    case True
    with Cons.prems have "cb_lookup cs k = None" by (intro cb_lookup_none) auto
    with True show ?thesis by (simp add: Eq fun_eq_iff)
  next
    case False
    with Cons show ?thesis by (auto simp: Eq fun_eq_iff)
  qed
qed (simp add: cb_lookup_def)

interpretation active_reg: pid_registry
  "\<lambda>s. pids_distinct (active_cbs s)" "\<lambda>s. cb_lookup (active_cbs s)"
  "\<lambda>p s. snd (add_active_device_callback p s)" "\<lambda>p s. snd (remove_active_device_callback p s)"
  by unfold_locales
    (simp_all add: add_active_device_callback_def remove_active_device_callback_def
      cb_list_add_distinct cb_list_remove_distinct cb_lookup_add cb_lookup_remove)

interpretation avail_reg: pid_registry
  "\<lambda>s. pids_distinct (avail_cbs s)" "\<lambda>s. cb_lookup (avail_cbs s)"
  "\<lambda>p s. snd (add_available_route_callback p s)" "\<lambda>p s. snd (remove_available_route_callback p s)"
  by unfold_locales
    (simp_all add: add_available_route_callback_def remove_available_route_callback_def
      cb_list_add_distinct cb_list_remove_distinct cb_lookup_add cb_lookup_remove)

end
