(* ===== verification/Session.thy ===== *)
theory Session
  imports Device
begin

text \<open>
  The session manager proper (\<^verbatim>\<open>server/mm_sound_mgr_session.c\<close>): how the active devices become an
  audio path, how sessions start and end, and how a client activates devices.  The handlers that
  pause other applications through the audio session manager are in \<^verbatim>\<open>Session_Events\<close>.
\<close>

definition DEFAULT_SINK_BT :: string where "DEFAULT_SINK_BT = ''bluez''"
definition DEFAULT_SINK_ALSA :: string where "DEFAULT_SINK_ALSA = ''alsa''"

section \<open>Audio path of the active devices\<close>

definition av_set_path_ex ::
  "sess_env \<Rightarrow> av_gain \<Rightarrow> av_path option \<Rightarrow> av_path option \<Rightarrow> av_option \<Rightarrow> sess \<Rightarrow> bool \<times> sess" where
  "av_set_path_ex E g ou i opt s =
    (let s' = out_call (AvSetPathEx g ou i opt) s in (avsys_ok E (calls s'), s'))"

definition path_in :: "sess \<Rightarrow> av_path option" where
  "path_in s =
    (if IS_ACTIVE IN_MIC s then Some PATH_EX_MIC
     else if IS_ACTIVE IN_WIRED s then Some PATH_EX_HEADSETMIC
     else if IS_ACTIVE IN_BT_SCO s then Some PATH_EX_BTMIC
     else None)"

definition path_out :: "sess \<Rightarrow> av_path option" where
  "path_out s =
    (if IS_ACTIVE OUT_SPEAKER s then Some PATH_EX_SPK
     else if IS_ACTIVE OUT_RECEIVER s then Some PATH_EX_RECV
     else if IS_ACTIVE OUT_WIRED s then Some PATH_EX_HEADSET
     else if IS_ACTIVE OUT_BT_SCO s then Some PATH_EX_BTHEADSET
     else if IS_ACTIVE OUT_BT_A2DP s then Some PATH_EX_A2DP
     else if IS_ACTIVE OUT_DOCK s then Some PATH_EX_DOCK
     else None)"

text \<open>Gain, output, input and option for the current session and sub-session; \<^verbatim>\<open>snd\<close> is the sound
  setting read for a ringtone.\<close>

definition path_choice ::
  "bool \<Rightarrow> sess \<Rightarrow> av_gain \<times> av_path option \<times> av_path option \<times> av_option" where
  "path_choice snd_on s =
    (case session s of
       SESSION_MEDIA \<Rightarrow> (GAIN_EX_KEYTONE, path_out s, path_in s, PATH_OPTION_NONE)
     | SESSION_NOTIFICATION \<Rightarrow> (GAIN_EX_KEYTONE, path_out s, path_in s, PATH_OPTION_NONE)
     | SESSION_FMRADIO \<Rightarrow> (GAIN_EX_FMRADIO, path_out s, Some PATH_EX_FMINPUT, PATH_OPTION_NONE)
     | _ \<Rightarrow>
         if subsession s = SUBSESSION_RINGTONE then
           (if snd_on
            then (GAIN_EX_RINGTONE, Some PATH_EX_SPK, Some PATH_EX_NONE, PATH_OPTION_DUAL_OUT)
            else (GAIN_EX_RINGTONE, Some PATH_EX_HEADSET, Some PATH_EX_NONE, PATH_OPTION_NONE))
         else if subsession s = SUBSESSION_MEDIA then
           (GAIN_EX_CALLTONE, path_out s, Some PATH_EX_NONE, PATH_OPTION_NONE)
         else
           ((if session s = SESSION_VOICECALL then GAIN_EX_VOICECALL else GAIN_EX_VIDEOCALL),
            path_out s, path_in s, PATH_OPTION_NONE))"

definition set_sound_path_for_current_active :: "sess_env \<Rightarrow> sess \<Rightarrow> mm_err \<times> sess" where
  "set_sound_path_for_current_active E s =
    (if IS_NOTIFICATION_SESSION s then (MM_ERROR_NONE, s)
     else
       (let s1 = out_call (PulseSetDefaultSink
                   (if IS_ACTIVE OUT_BT_A2DP s then DEFAULT_SINK_BT else DEFAULT_SINK_ALSA)) s;
            (g, ou, i, opt) = path_choice (sound_play E (calls s1)) s1;
            (ok, s2) = av_set_path_ex E g ou i opt s1
        in (if ok then MM_ERROR_NONE else MM_ERROR_SOUND_INTERNAL, s2)))"

definition set_path_with_notification :: "sess_env \<Rightarrow> noti \<Rightarrow> sess \<Rightarrow> sess" where
  "set_path_with_notification E noti s =
    (let (ret, s1) = set_sound_path_for_current_active E s
     in if ret \<noteq> MM_ERROR_NONE then s1
        else if noti = DO_NOTI
        then snd (active_device_callback E (GET_ACTIVE_CAPTURE s1) (GET_ACTIVE_PLAYBACK s1) s1)
        else s1)"

definition set_sound_path_to_dual :: "sess_env \<Rightarrow> sess \<Rightarrow> mm_err \<times> sess" where
  "set_sound_path_to_dual E s =
    (let (ok, s1) = av_set_path_ex E GAIN_EX_KEYTONE (Some PATH_EX_SPK) (Some PATH_EX_NONE)
                      PATH_OPTION_DUAL_OUT s
     in (if ok then MM_ERROR_NONE else MM_ERROR_SOUND_INTERNAL, s1))"

section \<open>Routes of the sessions\<close>

text \<open>The device switch at the start of a call: speaker to receiver, A2DP to SCO.\<close>

definition comm_start_active :: "sess \<Rightarrow> sess" where
  "comm_start_active s =
    (if IS_ACTIVE OUT_SPEAKER s then SET_PLAYBACK_ONLY_ACTIVE OUT_RECEIVER s
     else if IS_ACTIVE OUT_BT_A2DP s then
       SET_CAPTURE_ONLY_ACTIVE IN_BT_SCO (SET_PLAYBACK_ONLY_ACTIVE OUT_BT_SCO s)
     else s)"

text \<open>The device switch at the end of a call.\<close>

definition comm_end_active :: "sess \<Rightarrow> sess" where
  "comm_end_active s =
    (if IS_ACTIVE OUT_RECEIVER s then SET_PLAYBACK_ONLY_ACTIVE OUT_SPEAKER s
     else if IS_ACTIVE OUT_BT_SCO s then
       (let s1 = SET_PLAYBACK_ONLY_ACTIVE OUT_BT_A2DP s
        in if IS_AVAILABLE IN_WIRED s1 then SET_CAPTURE_ONLY_ACTIVE IN_WIRED s1
           else SET_CAPTURE_ONLY_ACTIVE IN_MIC s1)
     else if IS_ACTIVE OUT_SPEAKER s \<or> IS_ACTIVE OUT_WIRED s then s
     else SET_CAPTURE_ONLY_ACTIVE IN_MIC (SET_PLAYBACK_ONLY_ACTIVE OUT_SPEAKER s))"

definition set_playback_route_communication ::
  "sess_env \<Rightarrow> session_state \<Rightarrow> sess \<Rightarrow> mm_err \<times> sess" where
  "set_playback_route_communication E state s =
    (case state of
       SESSION_START \<Rightarrow>
         (let s1 = SET_AVAILABLE OUT_RECEIVER s;
              (ret, s2) = available_device_callback E IN_NONE OUT_RECEIVER True s1
          in if ret \<noteq> MM_ERROR_NONE then (ret, s2)
             else (ret, set_path_with_notification E DO_NOTI (comm_start_active s2)))
     | SESSION_END \<Rightarrow>
         (let s1 = UNSET_AVAILABLE OUT_RECEIVER s;
              (ret, s2) = available_device_callback E IN_NONE OUT_RECEIVER False s1
          in if ret \<noteq> MM_ERROR_NONE then (ret, s2)
             else
               (let gain = (if session s2 = SESSION_VOICECALL then GAIN_EX_VOICECALL
                            else if session s2 = SESSION_VOIP then GAIN_EX_VIDEOCALL
                            else GAIN_EX_VOICECALL);
                    (ok, s3) = av_set_path_ex E gain (Some PATH_EX_NONE) (Some PATH_EX_NONE)
                                 PATH_OPTION_NONE s2
                in if \<not> ok then (MM_ERROR_SOUND_INTERNAL, s3)
                   else (ret, set_path_with_notification E DO_NOTI (comm_end_active s3)))))"

definition fmradio_out :: "sess \<Rightarrow> av_path option" where
  "fmradio_out s =
    (if IS_ACTIVE OUT_SPEAKER s then Some PATH_EX_SPK
     else if IS_ACTIVE OUT_WIRED s then Some PATH_EX_HEADSET
     else if IS_ACTIVE OUT_BT_A2DP s then Some PATH_EX_A2DP
     else None)"

definition set_ext_device_fm :: "sess_env \<Rightarrow> session_state \<Rightarrow> mm_err \<Rightarrow> sess \<Rightarrow> mm_err \<times> sess" where
  "set_ext_device_fm E state ret s =
    (let s' = out_call (AvSetExtDeviceFM state) s
     in (if avsys_ok E (calls s') then ret else MM_ERROR_SOUND_INTERNAL, s'))"

definition set_playback_route_fmradio ::
  "sess_env \<Rightarrow> session_state \<Rightarrow> sess \<Rightarrow> mm_err \<times> sess" where
  "set_playback_route_fmradio E state s =
    (case state of
       SESSION_START \<Rightarrow>
         (let (ok, s1) = av_set_path_ex E GAIN_EX_FMRADIO (fmradio_out s) (Some PATH_EX_FMINPUT)
                           PATH_OPTION_NONE s
          in if \<not> ok then (MM_ERROR_SOUND_INTERNAL, s1)
             else set_ext_device_fm E state MM_ERROR_NONE s1)
     | SESSION_END \<Rightarrow>
         (let (ok, s1) = av_set_path_ex E GAIN_EX_FMRADIO (Some PATH_EX_NONE) (Some PATH_EX_NONE)
                           PATH_OPTION_NONE s
          in if \<not> ok then (MM_ERROR_SOUND_INTERNAL, s1)
             else set_ext_device_fm E state MM_ERROR_NONE
                    (set_path_with_notification E NO_NOTI s1)))"

definition set_playback_route_notification ::
  "sess_env \<Rightarrow> session_state \<Rightarrow> sess \<Rightarrow> mm_err \<times> sess" where
  "set_playback_route_notification E state s =
    (case state of
       SESSION_START \<Rightarrow> set_sound_path_to_dual E s
     | SESSION_END \<Rightarrow> (MM_ERROR_NONE, set_path_with_notification E NO_NOTI s))"

section \<open>Selection by priority\<close>

definition select_playback_active_device :: "sess \<Rightarrow> sess" where
  "select_playback_active_device s =
    (if IS_ACTIVE OUT_ANY s then s
     else if IS_AVAILABLE OUT_BT_A2DP s then SET_ACTIVE OUT_BT_A2DP s
     else if IS_AVAILABLE OUT_DOCK s then SET_ACTIVE OUT_DOCK s
     else if IS_AVAILABLE OUT_WIRED s then SET_ACTIVE OUT_WIRED s
     else SET_ACTIVE OUT_SPEAKER s)"

definition select_capture_active_device :: "sess \<Rightarrow> sess" where
  "select_capture_active_device s =
    (if IS_ACTIVE IN_ANY s then s
     else if IS_AVAILABLE IN_BT_SCO s \<and> IS_COMMUNICATION_SESSION s then SET_ACTIVE IN_BT_SCO s
     else if IS_AVAILABLE IN_WIRED s then SET_ACTIVE IN_WIRED s
     else SET_ACTIVE IN_MIC s)"

section \<open>Sessions\<close>

definition set_session :: "sess_env \<Rightarrow> session_id \<Rightarrow> session_state \<Rightarrow> sess \<Rightarrow> mm_err \<times> sess" where
  "set_session E se state s =
    (let s1 = s\<lparr>session := (case state of SESSION_START \<Rightarrow> se | SESSION_END \<Rightarrow> SESSION_MEDIA)\<rparr>;
         s2 = (case se of
                 SESSION_MEDIA \<Rightarrow> s1
               | SESSION_VOICECALL \<Rightarrow> snd (set_playback_route_communication E state s1)
               | SESSION_VOIP \<Rightarrow> snd (set_playback_route_communication E state s1)
               | SESSION_FMRADIO \<Rightarrow> snd (set_playback_route_fmradio E state s1)
               | SESSION_NOTIFICATION \<Rightarrow> snd (set_playback_route_notification E state s1))
     in (MM_ERROR_NONE, s2))"

definition set_subsession :: "sess_env \<Rightarrow> int \<Rightarrow> sess \<Rightarrow> mm_err \<times> sess" where
  "set_subsession E ss s =
    (MM_ERROR_NONE, set_path_with_notification E NO_NOTI (s\<lparr>subsession := ss\<rparr>))"

section \<open>Activation by a client\<close>

definition set_device_active :: "sess_env \<Rightarrow> dev \<Rightarrow> dev \<Rightarrow> mm_err \<Rightarrow> sess \<Rightarrow> mm_err \<times> sess" where
  "set_device_active E playback capture vol_ret s =
    (if (playback \<noteq> 0 \<and> \<not> IS_AVAILABLE playback s) \<or> (capture \<noteq> 0 \<and> \<not> IS_AVAILABLE capture s)
     then (MM_ERROR_INVALID_ARGUMENT, s)
     else
       (let s1 = (if playback \<noteq> 0 then SET_PLAYBACK_ONLY_ACTIVE playback s else s);
            s2 = (if capture \<noteq> 0 then SET_CAPTURE_ONLY_ACTIVE capture s1 else s1)
        in (vol_ret,
            if device_active s \<noteq> device_active s2
            then set_path_with_notification E DO_NOTI (out_call VolumeRefresh s2)
            else s2)))"

text \<open>\<^verbatim>\<open>_mm_sound_mgr_device_set_active_route\<close> asks whether the route is available, ignores the answer
  and the result of the activation, and reports success.\<close>

definition set_active_route :: "sess_env \<Rightarrow> route \<Rightarrow> mm_err \<Rightarrow> sess \<Rightarrow> mm_err \<times> sess" where
  "set_active_route E r vol_ret s =
    (let (i, ou) = get_devices_from_route r;
         (ret, is_available) = is_route_available r s
     in (ret, snd (set_device_active E ou i vol_ret s)))"

end
