(* ===== verification/Asm_List.thy ===== *)
theory Asm_List
  imports Session
begin

text \<open>
  The instance list of the audio session manager (\<^verbatim>\<open>server/mm_sound_mgr_asm.c\<close>): one node per
  registered sound, the functions that search and change the list, and the derived status words.
  The C list ends in a dummy node, which no loop visits; the model's list holds the visited nodes,
  the head first.  Enumerators follow the string tables of the source.
\<close>

section \<open>Enumerations\<close>

datatype asm_event =
    ASM_EVENT_SHARE_MMPLAYER | ASM_EVENT_SHARE_MMCAMCORDER | ASM_EVENT_SHARE_MMSOUND
  | ASM_EVENT_SHARE_OPENAL | ASM_EVENT_SHARE_AVSYSTEM
  | ASM_EVENT_EXCLUSIVE_MMPLAYER | ASM_EVENT_EXCLUSIVE_MMCAMCORDER | ASM_EVENT_EXCLUSIVE_MMSOUND
  | ASM_EVENT_EXCLUSIVE_OPENAL | ASM_EVENT_EXCLUSIVE_AVSYSTEM
  | ASM_EVENT_NOTIFY | ASM_EVENT_CALL | ASM_EVENT_SHARE_FMRADIO | ASM_EVENT_EXCLUSIVE_FMRADIO
  | ASM_EVENT_EARJACK_UNPLUG | ASM_EVENT_ALARM | ASM_EVENT_VIDEOCALL | ASM_EVENT_MONITOR
  | ASM_EVENT_RICH_CALL

datatype asm_sstate =
    ASM_STATE_NONE | ASM_STATE_PLAYING | ASM_STATE_WAITING | ASM_STATE_STOP | ASM_STATE_PAUSE
  | ASM_STATE_PAUSE_BY_APP | ASM_STATE_ALTER_PLAYING | ASM_STATE_IGNORE

datatype asm_request =
    ASM_REQUEST_REGISTER | ASM_REQUEST_UNREGISTER | ASM_REQUEST_GETSTATE | ASM_REQUEST_GETMYSTATE
  | ASM_REQUEST_SETSTATE | ASM_REQUEST_EMERGENT_EXIT | ASM_REQUEST_DUMP
  | ASM_REQUEST_SET_SUBSESSION | ASM_REQUEST_GET_SUBSESSION

datatype asm_resume = ASM_NEED_NOT_RESUME | ASM_NEED_RESUME

datatype asm_command =
    ASM_COMMAND_NONE | ASM_COMMAND_WAIT | ASM_COMMAND_PLAY | ASM_COMMAND_STOP
  | ASM_COMMAND_PAUSE | ASM_COMMAND_RESUME

datatype asm_event_source =
    ASM_EVENT_SOURCE_CALL_START | ASM_EVENT_SOURCE_CALL_END | ASM_EVENT_SOURCE_EARJACK_UNPLUG
  | ASM_EVENT_SOURCE_RESOURCE_CONFLICT | ASM_EVENT_SOURCE_ALARM_START
  | ASM_EVENT_SOURCE_ALARM_END | ASM_EVENT_SOURCE_OTHER_APP | ASM_EVENT_SOURCE_OTHER_PLAYER_APP

datatype asm_cb_res =
    ASM_CB_RES_IGNORE | ASM_CB_RES_NONE | ASM_CB_RES_PLAYING | ASM_CB_RES_STOP | ASM_CB_RES_PAUSE
  | ASM_CB_RES_OTHER int

text \<open>The commands are numbered in the order of \<^verbatim>\<open>ASM_sound_command_str\<close>.\<close>

fun command_code :: "asm_command \<Rightarrow> int" where
  "command_code ASM_COMMAND_NONE = 0"
| "command_code ASM_COMMAND_WAIT = 1"
| "command_code ASM_COMMAND_PLAY = 2"
| "command_code ASM_COMMAND_STOP = 3"
| "command_code ASM_COMMAND_PAUSE = 4"
| "command_code ASM_COMMAND_RESUME = 5"

section \<open>State\<close>

type_synonym resource = "32 word"

record inst =
  instance_id :: pid
  sound_handle :: int
  sound_event :: asm_event
  sound_state :: asm_sstate
  need_resume :: asm_resume
  mm_resource :: resource
  monitor_active :: bool
  monitor_dirty :: bool

record reply =
  rp_instance :: pid
  rp_alloc_handle :: int
  rp_cmd_handle :: int
  rp_command :: int
  rp_state :: asm_sstate
  rp_privilege :: bool

datatype asm_call =
    CbCommand pid int asm_command asm_event_source "32 word"
  | CloseDescriptor int
  | RemovePipes pid int
  | SndReply reply

text \<open>What happens to a command sent to a client: where the pipes fail, or what is read back.\<close>

datatype client_reply =
  CmdPipeFail | RetPipeFail | CmdWriteFail | PollFail | PollTimeout | CbResult int

text \<open>Constants of \<^verbatim>\<open>audio-session-manager.h\<close>, which is not under \<^verbatim>\<open>src/\<close>.\<close>

record asm_cfg =
  sound_status :: "asm_event \<Rightarrow> 32 word"
  STATUS_NONE :: "32 word"
  RESOURCE_NONE :: "32 word"
  SERVER_HANDLE_MAX :: nat
  source_code :: "asm_event_source \<Rightarrow> 32 word"
  cb_decode :: "int \<Rightarrow> asm_cb_res"

text \<open>Answers of the system during one request.\<close>

record asm_env =
  proc_readable :: "int \<Rightarrow> bool"
  client :: "asm_call list \<Rightarrow> client_reply"
  cookie_ok :: bool
  senv :: sess_env

record asm =
  insts :: "inst list"
  g_status_playing :: "32 word"
  g_status_pause :: "32 word"
  vconf_status :: "32 word"
  is_gcf :: bool
  asess :: sess
  acalls :: "asm_call list"

definition SERVER_HANDLE_MAX_COUNT :: nat where "SERVER_HANDLE_MAX_COUNT = 256"

definition asm_log :: "asm_call \<Rightarrow> asm \<Rightarrow> asm" where
  "asm_log c s = s\<lparr>acalls := c # acalls s\<rparr>"

section \<open>Searching\<close>

definition is_need_resume :: "asm_event \<Rightarrow> bool" where
  "is_need_resume ev =
    (case ev of ASM_EVENT_CALL \<Rightarrow> True | ASM_EVENT_RICH_CALL \<Rightarrow> True
     | ASM_EVENT_VIDEOCALL \<Rightarrow> True | ASM_EVENT_ALARM \<Rightarrow> True | _ \<Rightarrow> False)"

definition is_monitor_of :: "pid \<Rightarrow> inst \<Rightarrow> bool" where
  "is_monitor_of p x = (instance_id x = p \<and> sound_event x = ASM_EVENT_MONITOR)"

fun find_clean_monitor_handle :: "pid \<Rightarrow> inst list \<Rightarrow> int option" where
  "find_clean_monitor_handle p [] = None"
| "find_clean_monitor_handle p (x # xs) =
    (if is_monitor_of p x
     then (if \<not> monitor_dirty x \<and> sound_handle x \<noteq> -1 then Some (sound_handle x) else None)
     else find_clean_monitor_handle p xs)"

fun isPlayingNow :: "inst list \<Rightarrow> bool" where
  "isPlayingNow [] = False"
| "isPlayingNow (x # xs) = (if sound_state x = ASM_STATE_PLAYING then True else isPlayingNow xs)"

fun isItPlayingNow :: "pid \<Rightarrow> int \<Rightarrow> inst list \<Rightarrow> bool" where
  "isItPlayingNow p h [] = False"
| "isItPlayingNow p h (x # xs) =
    (if instance_id x = p \<and> sound_handle x = h
     then (if sound_state x = ASM_STATE_PLAYING then True else isItPlayingNow p h xs)
     else isItPlayingNow p h xs)"

definition isPIDExist :: "asm_env \<Rightarrow> pid \<Rightarrow> bool" where
  "isPIDExist E p = (if p > 999999 \<or> p < 2 then False else proc_readable E p)"

fun reorder_state :: "asm_sstate \<Rightarrow> int" where
  "reorder_state ASM_STATE_IGNORE = 0"
| "reorder_state ASM_STATE_NONE = 0"
| "reorder_state ASM_STATE_WAITING = 1"
| "reorder_state ASM_STATE_STOP = 1"
| "reorder_state ASM_STATE_PAUSE = 2"
| "reorder_state ASM_STATE_PAUSE_BY_APP = 2"
| "reorder_state ASM_STATE_PLAYING = 3"
| "reorder_state ASM_STATE_ALTER_PLAYING = 0"

fun find_process_status :: "pid \<Rightarrow> asm_sstate \<Rightarrow> inst list \<Rightarrow> asm_sstate" where
  "find_process_status p res [] = res"
| "find_process_status p res (x # xs) =
    (if instance_id x = p \<and> reorder_state (sound_state x) \<ge> reorder_state res
     then find_process_status p (sound_state x) xs
     else find_process_status p res xs)"

definition asm_find_process_status :: "pid \<Rightarrow> inst list \<Rightarrow> asm_sstate" where
  "asm_find_process_status p xs = find_process_status p ASM_STATE_NONE xs"

fun asm_find_list :: "asm_request \<Rightarrow> int \<Rightarrow> inst list \<Rightarrow> asm_sstate" where
  "asm_find_list rq h [] = ASM_STATE_NONE"
| "asm_find_list rq h (x # xs) =
    (if rq = ASM_REQUEST_GETSTATE \<and> sound_handle x = h then sound_state x
     else asm_find_list rq h xs)"

fun mark_handles :: "inst list \<Rightarrow> bool list \<Rightarrow> bool list" where
  "mark_handles [] info = info"
| "mark_handles (x # xs) info = mark_handles xs (info[nat (sound_handle x) := True])"

text \<open>The index loop: \<^verbatim>\<open>n\<close> rounds are left, \<^verbatim>\<open>i\<close> is the index looked at.\<close>

fun first_free :: "bool list \<Rightarrow> nat \<Rightarrow> nat \<Rightarrow> nat option" where
  "first_free info i 0 = None"
| "first_free info i (Suc n) = (if \<not> info ! i then Some i else first_free info (Suc i) n)"

definition asm_get_empty_handle :: "asm_cfg \<Rightarrow> inst list \<Rightarrow> int" where
  "asm_get_empty_handle c xs =
    (case first_free (mark_handles xs (replicate SERVER_HANDLE_MAX_COUNT False)) 0
            (SERVER_HANDLE_MAX c) of
       Some i \<Rightarrow> int i
     | None \<Rightarrow> -1)"

section \<open>Changing the list\<close>

fun status_bits :: "asm_cfg \<Rightarrow> asm_sstate \<Rightarrow> inst list \<Rightarrow> 32 word \<Rightarrow> 32 word" where
  "status_bits c st [] w = w"
| "status_bits c st (x # xs) w =
    status_bits c st xs (if sound_state x = st then w OR sound_status c (sound_event x) else w)"

definition updatePhoneStatus :: "asm_cfg \<Rightarrow> asm \<Rightarrow> asm" where
  "updatePhoneStatus c s =
    s\<lparr>g_status_playing := status_bits c ASM_STATE_PLAYING (insts s) 0,
      g_status_pause := status_bits c ASM_STATE_PAUSE (insts s) 0,
      vconf_status := status_bits c ASM_STATE_PLAYING (insts s) 0\<rparr>"

definition update_monitor_active :: "pid \<Rightarrow> inst list \<Rightarrow> inst list" where
  "update_monitor_active p xs =
    (let active = (\<exists>x \<in> set xs. instance_id x = p \<and> sound_event x \<noteq> ASM_EVENT_MONITOR \<and>
                     sound_state x = ASM_STATE_PLAYING)
     in update_first (is_monitor_of p) (\<lambda>x. x\<lparr>monitor_active := active\<rparr>) xs)"

definition set_all_monitor_clean :: "inst list \<Rightarrow> inst list" where
  "set_all_monitor_clean xs =
    map (\<lambda>x. if sound_event x = ASM_EVENT_MONITOR then x\<lparr>monitor_dirty := False\<rparr> else x) xs"

definition set_monitor_dirty :: "pid \<Rightarrow> inst list \<Rightarrow> inst list" where
  "set_monitor_dirty p xs = update_first (is_monitor_of p) (\<lambda>x. x\<lparr>monitor_dirty := True\<rparr>) xs"

definition asm_register_list ::
  "asm_cfg \<Rightarrow> pid \<Rightarrow> int \<Rightarrow> asm_event \<Rightarrow> asm_sstate \<Rightarrow> resource \<Rightarrow> asm \<Rightarrow> asm" where
  "asm_register_list c p h ev st res s =
    updatePhoneStatus c
      (s\<lparr>insts := \<lparr>instance_id = p, sound_handle = h, sound_event = ev, sound_state = st,
                   need_resume = ASM_NEED_NOT_RESUME, mm_resource = res, monitor_active = False,
                   monitor_dirty = False\<rparr> # insts s\<rparr>)"

definition asm_unregister_list :: "asm_cfg \<Rightarrow> int \<Rightarrow> asm \<Rightarrow> pid \<times> asm" where
  "asm_unregister_list c h s =
    ((case find (\<lambda>x. sound_handle x = h) (insts s) of Some x \<Rightarrow> instance_id x | None \<Rightarrow> -1),
     updatePhoneStatus c (s\<lparr>insts := remove_first (\<lambda>x. sound_handle x = h) (insts s)\<rparr>))"

text \<open>The dead nodes are unlinked; \<^verbatim>\<open>Asm_Heap\<close> has the pointer program and its defect.\<close>

fun drop_dead :: "asm_env \<Rightarrow> inst list \<Rightarrow> inst list" where
  "drop_dead E [] = []"
| "drop_dead E (x # xs) =
    (if \<not> isPIDExist E (instance_id x) then drop_dead E xs else x # drop_dead E xs)"

definition check_dead_process :: "asm_cfg \<Rightarrow> asm_env \<Rightarrow> asm \<Rightarrow> asm" where
  "check_dead_process c E s = updatePhoneStatus c (s\<lparr>insts := drop_dead E (insts s)\<rparr>)"

definition asm_change_state_list ::
  "asm_cfg \<Rightarrow> pid \<Rightarrow> int \<Rightarrow> asm_sstate \<Rightarrow> resource \<Rightarrow> asm \<Rightarrow> asm" where
  "asm_change_state_list c p h st res s =
    (if st = ASM_STATE_IGNORE then s
     else
       updatePhoneStatus c
         (s\<lparr>insts := update_monitor_active p
              (update_first (\<lambda>x. instance_id x = p \<and> sound_handle x = h)
                (\<lambda>x. x\<lparr>sound_state := st, mm_resource := res\<rparr>) (insts s))\<rparr>))"

definition asm_change_need_resume_list :: "pid \<Rightarrow> int \<Rightarrow> asm_resume \<Rightarrow> inst list \<Rightarrow> inst list" where
  "asm_change_need_resume_list p h r xs =
    update_first (\<lambda>x. instance_id x = p \<and> sound_handle x = h) (\<lambda>x. x\<lparr>need_resume := r\<rparr>) xs"

text \<open>Leaving: remove the sound of the first node of the process, then start again at the head.\<close>

function emergent_exit :: "asm_cfg \<Rightarrow> pid \<Rightarrow> asm \<Rightarrow> asm" where
  "emergent_exit c p s =
    (case find (\<lambda>x. instance_id x = p) (insts s) of
       None \<Rightarrow> s
     | Some x \<Rightarrow>
         (let (i, s1) = asm_unregister_list c (sound_handle x) s;
              s2 = (if i \<noteq> -1 then asm_log (RemovePipes i (sound_handle x)) s1 else s1)
          in emergent_exit c p s2))"
  by pat_completeness auto

termination
proof (relation "measure (\<lambda>(c, p, s). length (insts s))", goal_cases)
  case (2 c p s x ab i s1 s2)
  then have "x \<in> set (insts s)" by (auto simp: find_Some_iff)
  then have "length (remove_first (\<lambda>y. sound_handle y = sound_handle x) (insts s)) < length (insts s)"
    by (intro length_remove_first_less) auto
  with 2 show ?case
    by (auto simp: asm_unregister_list_def updatePhoneStatus_def asm_log_def split: if_splits)
qed simp

declare emergent_exit.simps [simp del]

section \<open>Callbacks to the clients\<close>

definition callback_word :: "asm_cfg \<Rightarrow> int \<Rightarrow> asm_command \<Rightarrow> asm_event_source \<Rightarrow> 32 word" where
  "callback_word c h cmd src =
    (0x0000FFFF AND word_of_int h) OR push_bit 16 (word_of_int (command_code cmd))
      OR push_bit 24 (source_code c src)"

text \<open>When the command pipe cannot be opened, the error path closes descriptor 0: \<^verbatim>\<open>fd\<close> still has its
  initial value.\<close>

definition do_callback ::
  "asm_cfg \<Rightarrow> asm_env \<Rightarrow> pid \<Rightarrow> int \<Rightarrow> asm_command \<Rightarrow> asm_event_source \<Rightarrow> asm \<Rightarrow> asm_cb_res \<times> asm" where
  "do_callback c E p h cmd src s =
    (let s1 = asm_log (CbCommand p h cmd src (callback_word c h cmd src)) s in
     case client E (acalls s1) of
       CmdPipeFail \<Rightarrow> (cb_decode c (-1), asm_log (CloseDescriptor 0) s1)
     | RetPipeFail \<Rightarrow> (cb_decode c (-1), s1)
     | CmdWriteFail \<Rightarrow> (cb_decode c (-1), s1)
     | PollFail \<Rightarrow> (if cmd = ASM_COMMAND_RESUME then (ASM_CB_RES_NONE, s1) else (cb_decode c (-1), s1))
     | PollTimeout \<Rightarrow> (if cmd = ASM_COMMAND_RESUME then (ASM_CB_RES_NONE, s1) else (cb_decode c 0, s1))
     | CbResult b \<Rightarrow> (if cmd = ASM_COMMAND_RESUME then (ASM_CB_RES_NONE, s1) else (cb_decode c b, s1)))"

text \<open>Resuming after a call or an alarm: the loop changes the node it stands on.\<close>

fun resume_nodes ::
  "asm_cfg \<Rightarrow> asm_env \<Rightarrow> asm_event_source \<Rightarrow> inst list \<Rightarrow> asm \<Rightarrow> inst list \<times> asm" where
  "resume_nodes c E src [] s = ([], s)"
| "resume_nodes c E src (x # xs) s =
    (if need_resume x = ASM_NEED_RESUME then
       (let (res, s1) = do_callback c E (instance_id x) (sound_handle x) ASM_COMMAND_RESUME src s;
            x1 = (case res of ASM_CB_RES_PLAYING \<Rightarrow> x\<lparr>sound_state := ASM_STATE_PLAYING\<rparr> | _ \<Rightarrow> x);
            (ys, s2) = resume_nodes c E src xs s1
        in (x1\<lparr>need_resume := ASM_NEED_NOT_RESUME\<rparr> # ys, s2))
     else
       (let (ys, s1) = resume_nodes c E src xs s in (x # ys, s1)))"

definition asm_do_all_resume_callback ::
  "asm_cfg \<Rightarrow> asm_env \<Rightarrow> asm_event_source \<Rightarrow> asm \<Rightarrow> asm" where
  "asm_do_all_resume_callback c E src s =
    (let (ys, s1) = resume_nodes c E src (insts s) s in s1\<lparr>insts := ys\<rparr>)"

end
