(* ===== verification/Asm_Policy.thy ===== *)
theory Asm_Policy
  imports Asm_List
begin

text \<open>
  The sound policy (\<^verbatim>\<open>__asm_compare_priority_matrix\<close>): the priority matrix, what happens to one
  playing instance when another sound asks to play, the loop over the playing instances, the loop
  over paused instances that hold a wanted resource, and the reply.
\<close>

section \<open>The priority matrix\<close>

datatype asm_case =
    ASM_CASE_NONE | ASM_CASE_1PLAY_2STOP | ASM_CASE_1PLAY_2ALTER_PLAY | ASM_CASE_1PLAY_2WAIT
  | ASM_CASE_1ALTER_PLAY_2PLAY | ASM_CASE_1STOP_2PLAY | ASM_CASE_1PAUSE_2PLAY
  | ASM_CASE_1VIRTUAL_2PLAY | ASM_CASE_1PLAY_2PLAY_MIX

text \<open>Numbered in the order of \<^verbatim>\<open>ASM_sound_cases_str\<close>.\<close>

definition asm_cases :: "asm_case list" where
  "asm_cases =
    [ASM_CASE_NONE, ASM_CASE_1PLAY_2STOP, ASM_CASE_1PLAY_2ALTER_PLAY, ASM_CASE_1PLAY_2WAIT,
     ASM_CASE_1ALTER_PLAY_2PLAY, ASM_CASE_1STOP_2PLAY, ASM_CASE_1PAUSE_2PLAY,
     ASM_CASE_1VIRTUAL_2PLAY, ASM_CASE_1PLAY_2PLAY_MIX]"

fun event_index :: "asm_event \<Rightarrow> nat" where
  "event_index ASM_EVENT_SHARE_MMPLAYER = 0"
| "event_index ASM_EVENT_SHARE_MMCAMCORDER = 1"
| "event_index ASM_EVENT_SHARE_MMSOUND = 2"
| "event_index ASM_EVENT_SHARE_OPENAL = 3"
| "event_index ASM_EVENT_SHARE_AVSYSTEM = 4"
| "event_index ASM_EVENT_EXCLUSIVE_MMPLAYER = 5"
| "event_index ASM_EVENT_EXCLUSIVE_MMCAMCORDER = 6"
| "event_index ASM_EVENT_EXCLUSIVE_MMSOUND = 7"
| "event_index ASM_EVENT_EXCLUSIVE_OPENAL = 8"
| "event_index ASM_EVENT_EXCLUSIVE_AVSYSTEM = 9"
| "event_index ASM_EVENT_NOTIFY = 10"
| "event_index ASM_EVENT_CALL = 11"
| "event_index ASM_EVENT_SHARE_FMRADIO = 12"
| "event_index ASM_EVENT_EXCLUSIVE_FMRADIO = 13"
| "event_index ASM_EVENT_EARJACK_UNPLUG = 14"
| "event_index ASM_EVENT_ALARM = 15"
| "event_index ASM_EVENT_VIDEOCALL = 16"
| "event_index ASM_EVENT_MONITOR = 17"
| "event_index ASM_EVENT_RICH_CALL = 18"

text \<open>Rows: the sound that plays; columns: the sound that asks.\<close>

definition ASM_sound_case :: "nat list list" where
  "ASM_sound_case =
    [[8, 8, 8, 8, 8,  6, 6, 6, 6, 6,  8, 8, 8, 6, 6,  6, 6, 8, 8],
     [8, 8, 8, 8, 8,  5, 5, 5, 5, 5,  8, 5, 8, 5, 8,  5, 5, 8, 5],
     [8, 8, 8, 8, 8,  5, 5, 5, 5, 5,  8, 5, 8, 5, 5,  5, 5, 8, 5],
     [8, 8, 8, 8, 8,  5, 5, 5, 5, 5,  8, 5, 8, 5, 6,  5, 5, 8, 5],
     [8, 8, 8, 8, 8,  5, 5, 5, 5, 5,  8, 5, 8, 5, 8,  5, 5, 8, 5],
     [6, 6, 6, 6, 6,  6, 6, 6, 6, 6,  8, 8, 6, 6, 6,  6, 6, 8, 8],
     [5, 5, 5, 5, 5,  5, 5, 5, 5, 5,  8, 5, 5, 5, 8,  5, 5, 8, 5],
     [5, 5, 5, 5, 5,  5, 5, 5, 5, 5,  8, 5, 5, 5, 5,  5, 5, 8, 5],
     [5, 5, 5, 5, 5,  5, 5, 5, 5, 5,  8, 5, 5, 5, 6,  5, 5, 8, 5],
     [5, 5, 5, 5, 5,  5, 5, 5, 5, 5,  8, 5, 5, 5, 8,  5, 5, 8, 5],
     [8, 8, 8, 8, 8,  8, 8, 8, 8, 8,  8, 5, 8, 8, 8,  5, 5, 8, 5],
     [1, 1, 1, 1, 1,  1, 1, 1, 1, 1,  8, 0, 1, 1, 8,  8, 1, 8, 0],
     [8, 8, 8, 8, 8,  5, 5, 5, 5, 5,  8, 5, 5, 5, 5,  5, 5, 8, 5],
     [5, 5, 5, 5, 5,  5, 5, 5, 5, 5,  8, 5, 5, 5, 5,  5, 5, 8, 5],
     [8, 8, 8, 8, 8,  8, 8, 8, 8, 8,  8, 8, 8, 8, 8,  8, 8, 8, 8],
     [1, 1, 1, 1, 1,  1, 1, 1, 1, 1,  8, 5, 1, 1, 8,  8, 5, 8, 5],
     [1, 1, 1, 1, 1,  1, 1, 1, 1, 1,  8, 1, 1, 1, 8,  8, 0, 8, 1],
     [8, 8, 8, 8, 8,  8, 8, 8, 8, 8,  8, 8, 8, 8, 8,  8, 8, 8, 8],
     [1, 8, 1, 1, 1,  1, 1, 1, 1, 1,  8, 0, 1, 1, 8,  8, 1, 8, 0]]"

definition sound_case :: "asm_event \<Rightarrow> asm_event \<Rightarrow> asm_case" where
  "sound_case cur new = asm_cases ! (ASM_sound_case ! event_index cur ! event_index new)"

text \<open>The test mode of \<^verbatim>\<open>VCONFKEY_ADMIN_GCF_TEST\<close> mixes everything.\<close>

definition effective_case :: "bool \<Rightarrow> asm_event \<Rightarrow> asm_event \<Rightarrow> asm_case" where
  "effective_case gcf cur new =
    (if gcf \<and> sound_case cur new \<noteq> ASM_CASE_1PLAY_2PLAY_MIX then ASM_CASE_1PLAY_2PLAY_MIX
     else sound_case cur new)"

section \<open>One conflict\<close>

record asm_req =
  rq_pid :: pid
  rq_handle :: int
  rq_id :: asm_request
  rq_event :: asm_event
  rq_state :: asm_sstate
  rq_resource :: resource

text \<open>\<^verbatim>\<open>ASM_SND_MSG_SET\<close>.\<close>

definition snd_msg_set :: "int \<Rightarrow> int \<Rightarrow> asm_command \<Rightarrow> asm_sstate \<Rightarrow> reply \<Rightarrow> reply" where
  "snd_msg_set alloc h cmd st m =
    m\<lparr>rp_alloc_handle := alloc, rp_cmd_handle := h, rp_command := command_code cmd, rp_state := st\<rparr>"

text \<open>\<^verbatim>\<open>unsigned short resource_status = a & b\<close> keeps sixteen bits.\<close>

definition resource_status :: "resource \<Rightarrow> resource \<Rightarrow> 32 word" where
  "resource_status a b = ucast (ucast (a AND b) :: 16 word)"

definition stop_event_source :: "asm_event \<Rightarrow> asm_event_source" where
  "stop_event_source ev =
    (case ev of
       ASM_EVENT_CALL \<Rightarrow> ASM_EVENT_SOURCE_CALL_START
     | ASM_EVENT_RICH_CALL \<Rightarrow> ASM_EVENT_SOURCE_CALL_START
     | ASM_EVENT_VIDEOCALL \<Rightarrow> ASM_EVENT_SOURCE_CALL_START
     | ASM_EVENT_EARJACK_UNPLUG \<Rightarrow> ASM_EVENT_SOURCE_EARJACK_UNPLUG
     | ASM_EVENT_ALARM \<Rightarrow> ASM_EVENT_SOURCE_ALARM_START
     | _ \<Rightarrow> ASM_EVENT_SOURCE_OTHER_APP)"

definition is_mmplayer :: "asm_event \<Rightarrow> bool" where
  "is_mmplayer ev = (ev = ASM_EVENT_SHARE_MMPLAYER \<or> ev = ASM_EVENT_EXCLUSIVE_MMPLAYER)"

definition pause_event_source :: "asm_event \<Rightarrow> asm_event \<Rightarrow> asm_event_source" where
  "pause_event_source cur ev =
    (if is_mmplayer ev \<and> is_mmplayer cur then ASM_EVENT_SOURCE_OTHER_PLAYER_APP
     else stop_event_source ev)"

text \<open>The monitor handle of the interrupted process is told first, once per request.\<close>

definition stop_monitor ::
  "asm_cfg \<Rightarrow> asm_env \<Rightarrow> pid \<Rightarrow> asm_event_source \<Rightarrow> bool \<Rightarrow> asm \<Rightarrow> asm" where
  "stop_monitor c E p src resume s =
    (case find_clean_monitor_handle p (insts s) of
       None \<Rightarrow> s
     | Some h \<Rightarrow>
         (let s1 = snd (do_callback c E p h ASM_COMMAND_STOP src s);
              s2 = s1\<lparr>insts := set_monitor_dirty p (insts s1)\<rparr>
          in if resume
             then s2\<lparr>insts := asm_change_need_resume_list p h ASM_NEED_RESUME (insts s2)\<rparr>
             else s2))"

definition mark_resume :: "asm_event \<Rightarrow> pid \<Rightarrow> int \<Rightarrow> asm \<Rightarrow> asm" where
  "mark_resume ev p h s =
    (if is_need_resume ev
     then s\<lparr>insts := asm_change_need_resume_list p h ASM_NEED_RESUME (insts s)\<rparr> else s)"

definition asm_set_session ::
  "asm_env \<Rightarrow> session_id \<Rightarrow> session_state \<Rightarrow> asm \<Rightarrow> asm" where
  "asm_set_session E se st s = s\<lparr>asess := snd (set_session (senv E) se st (asess s))\<rparr>"

definition is_fmradio :: "asm_event \<Rightarrow> bool" where
  "is_fmradio ev = (ev = ASM_EVENT_SHARE_FMRADIO \<or> ev = ASM_EVENT_EXCLUSIVE_FMRADIO)"

definition end_fmradio_session :: "asm_env \<Rightarrow> asm \<Rightarrow> asm" where
  "end_fmradio_session E s =
    (if session (asess s) = SESSION_FMRADIO then asm_set_session E SESSION_FMRADIO SESSION_END s
     else s)"

text \<open>\<^verbatim>\<open>ASM_CASE_1STOP_2PLAY\<close> for an instance of another process.\<close>

definition conflict_stop :: "asm_cfg \<Rightarrow> asm_env \<Rightarrow> asm_req \<Rightarrow> inst \<Rightarrow> asm \<Rightarrow> asm" where
  "conflict_stop c E r x s =
    (let src = (if resource_status (mm_resource x) (rq_resource r) \<noteq> RESOURCE_NONE c
                then ASM_EVENT_SOURCE_RESOURCE_CONFLICT else stop_event_source (rq_event r));
         s1 = stop_monitor c E (instance_id x) src (is_need_resume (rq_event r)) s;
         (res, s2) = do_callback c E (instance_id x) (sound_handle x) ASM_COMMAND_STOP src s1;
         s3 = mark_resume (rq_event r) (instance_id x) (sound_handle x) s2;
         s4 = asm_change_state_list c (instance_id x) (sound_handle x)
                (if res = ASM_CB_RES_STOP then ASM_STATE_STOP else ASM_STATE_NONE)
                (RESOURCE_NONE c) s3
     in if is_fmradio (sound_event x) then end_fmradio_session E s4 else s4)"

text \<open>\<^verbatim>\<open>ASM_CASE_1PAUSE_2PLAY\<close> for an instance of another process.\<close>

definition pause_update :: "asm_cfg \<Rightarrow> asm_cb_res \<Rightarrow> resource \<Rightarrow> asm_sstate \<times> resource" where
  "pause_update c res held =
    (case res of
       ASM_CB_RES_PAUSE \<Rightarrow> (ASM_STATE_PAUSE, held)
     | ASM_CB_RES_NONE \<Rightarrow> (ASM_STATE_NONE, RESOURCE_NONE c)
     | ASM_CB_RES_STOP \<Rightarrow> (ASM_STATE_NONE, RESOURCE_NONE c)
     | ASM_CB_RES_IGNORE \<Rightarrow> (ASM_STATE_IGNORE, held)
     | _ \<Rightarrow> (ASM_STATE_NONE, held))"

definition conflict_pause :: "asm_cfg \<Rightarrow> asm_env \<Rightarrow> asm_req \<Rightarrow> inst \<Rightarrow> asm \<Rightarrow> asm" where
  "conflict_pause c E r x s =
    (let conflict = resource_status (mm_resource x) (rq_resource r) \<noteq> RESOURCE_NONE c;
         src = (if conflict then ASM_EVENT_SOURCE_RESOURCE_CONFLICT
                else pause_event_source (sound_event x) (rq_event r));
         cmd = (if conflict then ASM_COMMAND_STOP else ASM_COMMAND_PAUSE);
         s1 = stop_monitor c E (instance_id x) src (is_need_resume (rq_event r)) s;
         (res, s2) = do_callback c E (instance_id x) (sound_handle x) cmd src s1;
         s3 = mark_resume (rq_event r) (instance_id x) (sound_handle x) s2;
         (st, held) = pause_update c res (mm_resource x)
     in asm_change_state_list c (instance_id x) (sound_handle x) st held s3)"

text \<open>\<^verbatim>\<open>ASM_CASE_1PLAY_2PLAY_MIX\<close> for an instance of another process: only a resource conflict
  stops it.\<close>

definition mix_update :: "asm_cfg \<Rightarrow> asm_cb_res \<Rightarrow> resource \<Rightarrow> asm_sstate \<times> resource" where
  "mix_update c res held =
    (case res of
       ASM_CB_RES_NONE \<Rightarrow> (ASM_STATE_NONE, RESOURCE_NONE c)
     | ASM_CB_RES_STOP \<Rightarrow> (ASM_STATE_NONE, RESOURCE_NONE c)
     | ASM_CB_RES_IGNORE \<Rightarrow> (ASM_STATE_IGNORE, held)
     | _ \<Rightarrow> (ASM_STATE_NONE, held))"

definition conflict_mix :: "asm_cfg \<Rightarrow> asm_env \<Rightarrow> asm_req \<Rightarrow> inst \<Rightarrow> asm \<Rightarrow> asm" where
  "conflict_mix c E r x s =
    (if resource_status (mm_resource x) (rq_resource r) \<noteq> 0 then
       (let src = ASM_EVENT_SOURCE_RESOURCE_CONFLICT;
            s1 = stop_monitor c E (instance_id x) src (is_need_resume (rq_event r)) s;
            (res, s2) = do_callback c E (instance_id x) (sound_handle x) ASM_COMMAND_STOP src s1;
            (st, held) = mix_update c res (mm_resource x)
        in asm_change_state_list c (instance_id x) (sound_handle x) st held s2)
     else s)"

section \<open>The loop over playing instances\<close>

text \<open>Registering or changing the state of the asking instance.\<close>

definition enter_request :: "asm_cfg \<Rightarrow> asm_req \<Rightarrow> asm \<Rightarrow> asm" where
  "enter_request c r s =
    (if rq_id r = ASM_REQUEST_REGISTER
     then asm_register_list c (rq_pid r) (rq_handle r) (rq_event r) (rq_state r) (rq_resource r) s
     else asm_change_state_list c (rq_pid r) (rq_handle r) (rq_state r) (rq_resource r) s)"

text \<open>What the loop carries: whether the asking instance has been entered, the reply, the state.\<close>

type_synonym policy = "bool \<times> reply \<times> asm"

definition enter_once :: "asm_cfg \<Rightarrow> asm_req \<Rightarrow> asm_command \<Rightarrow> bool \<Rightarrow> reply \<Rightarrow> asm \<Rightarrow> policy" where
  "enter_once c r cmd upd m s =
    (True, snd_msg_set (rq_handle r) (rq_handle r) cmd (rq_state r) m,
     if upd then s else enter_request c r s)"

text \<open>The body of the loop for a playing node of somebody else; the flag of the result says whether
  the rest of the list is skipped.\<close>

definition policy_node ::
  "asm_cfg \<Rightarrow> asm_env \<Rightarrow> asm_req \<Rightarrow> inst \<Rightarrow> bool \<Rightarrow> reply \<Rightarrow> asm \<Rightarrow> bool \<times> policy" where
  "policy_node c E r x upd m s =
    (if rq_state r = ASM_STATE_PLAYING then
       (case effective_case (is_gcf s) (sound_event x) (rq_event r) of
          ASM_CASE_1PLAY_2STOP \<Rightarrow>
            (if instance_id x = rq_pid r then (False, enter_once c r ASM_COMMAND_PLAY upd m s)
             else (True, upd,
                   snd_msg_set (rq_handle r) (rq_handle r) ASM_COMMAND_STOP (rq_state r) m, s))
        | ASM_CASE_1STOP_2PLAY \<Rightarrow>
            (False, enter_once c r ASM_COMMAND_PLAY upd m
               (if instance_id x = rq_pid r then s else conflict_stop c E r x s))
        | ASM_CASE_1PAUSE_2PLAY \<Rightarrow>
            (False, enter_once c r ASM_COMMAND_PLAY upd m
               (if instance_id x = rq_pid r then s else conflict_pause c E r x s))
        | ASM_CASE_1PLAY_2PLAY_MIX \<Rightarrow>
            (False, enter_once c r ASM_COMMAND_PLAY upd m
               (if instance_id x = rq_pid r then s else conflict_mix c E r x s))
        | _ \<Rightarrow>
            (False, upd,
             snd_msg_set (rq_handle r) (rq_handle r) ASM_COMMAND_NONE (rq_state r) m, s))
     else (False, enter_once c r ASM_COMMAND_NONE upd m s))"

text \<open>The cursor is a position counted from the end of the list, because a registration puts a node
  in front: with \<^verbatim>\<open>Suc n\<close> nodes left the cursor is on the node that \<^verbatim>\<open>n\<close> nodes follow.\<close>

definition node_at :: "nat \<Rightarrow> inst list \<Rightarrow> inst" where
  "node_at n xs = xs ! (length xs - Suc n)"

fun playing_loop ::
  "asm_cfg \<Rightarrow> asm_env \<Rightarrow> asm_req \<Rightarrow> nat \<Rightarrow> bool \<Rightarrow> reply \<Rightarrow> asm \<Rightarrow> policy" where
  "playing_loop c E r 0 upd m s = (upd, m, s)"
| "playing_loop c E r (Suc n) upd m s =
    (let x = node_at n (insts s)
     in if sound_state x \<noteq> ASM_STATE_PLAYING then playing_loop c E r n upd m s
        else if instance_id x = rq_pid r \<and> sound_handle x = rq_handle r
        then playing_loop c E r n upd m s
        else
          (let (skip, upd1, m1, s1) = policy_node c E r x upd m s
           in if skip then (upd1, m1, s1) else playing_loop c E r n upd1 m1 s1))"

section \<open>The loop over paused instances\<close>

definition conflict_paused :: "asm_cfg \<Rightarrow> asm_env \<Rightarrow> asm_req \<Rightarrow> inst \<Rightarrow> asm \<Rightarrow> asm" where
  "conflict_paused c E r x s =
    (if rq_state r = ASM_STATE_PLAYING \<and>
        sound_case (sound_event x) (rq_event r) \<in> {ASM_CASE_1PAUSE_2PLAY, ASM_CASE_1STOP_2PLAY} \<and>
        instance_id x \<noteq> rq_pid r \<and>
        resource_status (mm_resource x) (rq_resource r) \<noteq> RESOURCE_NONE c
     then
       (let s1 = stop_monitor c E (instance_id x) ASM_EVENT_SOURCE_RESOURCE_CONFLICT False s;
            s2 = snd (do_callback c E (instance_id x) (sound_handle x) ASM_COMMAND_STOP
                        ASM_EVENT_SOURCE_RESOURCE_CONFLICT s1)
        in asm_change_state_list c (instance_id x) (sound_handle x) ASM_STATE_NONE
             (RESOURCE_NONE c) s2)
     else s)"

fun paused_loop :: "asm_cfg \<Rightarrow> asm_env \<Rightarrow> asm_req \<Rightarrow> nat \<Rightarrow> asm \<Rightarrow> asm" where
  "paused_loop c E r 0 s = s"
| "paused_loop c E r (Suc n) s =
    (let x = node_at n (insts s)
     in if sound_state x \<noteq> ASM_STATE_PAUSE then paused_loop c E r n s
        else if instance_id x = rq_pid r \<and> sound_handle x = rq_handle r
        then paused_loop c E r n
               (if rq_id r = ASM_REQUEST_SETSTATE
                then asm_change_state_list c (rq_pid r) (rq_handle r) (rq_state r) (rq_resource r) s
                else s)
        else paused_loop c E r n (conflict_paused c E r x s))"

section \<open>The whole comparison\<close>

text \<open>\<^verbatim>\<open>m\<close> is the reply buffer, uninitialised but for the fields the caller set; with no return buffer
  the reply goes out as a message.\<close>

definition asm_compare_priority_matrix ::
  "asm_cfg \<Rightarrow> asm_env \<Rightarrow> bool \<Rightarrow> reply \<Rightarrow> asm_req \<Rightarrow> asm \<Rightarrow> reply \<times> asm" where
  "asm_compare_priority_matrix c E has_ret m r s =
    (let no_conflict = (STATUS_NONE c = g_status_playing s);
         (m1, s1) =
           (if no_conflict
            then (snd_msg_set (rq_handle r) (-1) ASM_COMMAND_NONE (rq_state r) m, s)
            else
              (let (upd, m', s') = playing_loop c E r (length (insts s)) False m s
               in (m', s'\<lparr>insts := set_all_monitor_clean (insts s')\<rparr>)));
         s2 = (if STATUS_NONE c \<noteq> g_status_pause s1 \<and> rq_resource r \<noteq> RESOURCE_NONE c \<and>
                  (rp_command m1 = command_code ASM_COMMAND_PLAY \<or> no_conflict)
               then paused_loop c E r (length (insts s1)) s1 else s1);
         s3 = (if no_conflict then enter_request c r s2 else s2);
         m2 = m1\<lparr>rp_instance := rq_pid r\<rparr>
     in (m2, if has_ret then s3 else asm_log (SndReply m2) s3))"

end
