(* ===== verification/Asm_Server.thy ===== *)
theory Asm_Server
  imports Asm_Policy
begin

text \<open>
  The request handler of the audio session manager (\<^verbatim>\<open>__asm_process_message\<close>), one definition per
  request, composed by the dispatch.  The reply buffer is a local variable of the C function and
  starts uninitialised: it is the argument \<^verbatim>\<open>junk\<close>.  Requests that do not reach the audio session
  manager through the message queue pass a return buffer (\<^verbatim>\<open>has_ret\<close>).
\<close>

definition set_ret :: "bool \<Rightarrow> reply \<Rightarrow> asm \<Rightarrow> asm" where
  "set_ret has_ret m s = (if has_ret then s else asm_log (SndReply m) s)"

definition check_privilege :: "asm_env \<Rightarrow> bool" where
  "check_privilege E = cookie_ok E"

section \<open>Register\<close>

definition start_call_session :: "asm_env \<Rightarrow> asm_event \<Rightarrow> asm \<Rightarrow> asm" where
  "start_call_session E ev s =
    (if ev = ASM_EVENT_CALL \<or> ev = ASM_EVENT_RICH_CALL
     then asm_set_session E SESSION_VOICECALL SESSION_START s
     else if ev = ASM_EVENT_VIDEOCALL then asm_set_session E SESSION_VOIP SESSION_START s
     else s)"

definition process_register ::
  "asm_cfg \<Rightarrow> asm_env \<Rightarrow> bool \<Rightarrow> reply \<Rightarrow> asm_req \<Rightarrow> asm \<Rightarrow> reply \<times> asm" where
  "process_register c E has_ret junk r s =
    (if \<not> check_privilege E then
       (let m = junk\<lparr>rp_instance := rq_pid r, rp_alloc_handle := -1, rp_cmd_handle := -1,
                     rp_privilege := False\<rparr>
        in (m, set_ret has_ret m s))
     else
       (let m = junk\<lparr>rp_privilege := True\<rparr>;
            s1 = check_dead_process c E s;
            h = asm_get_empty_handle c (insts s1)
        in if h = -1 then
             (let m1 = m\<lparr>rp_instance := rq_pid r, rp_alloc_handle := -1, rp_cmd_handle := -1\<rparr>
              in (m1, set_ret has_ret m1 s1))
           else
             (let (m1, s2) = asm_compare_priority_matrix c E has_ret m (r\<lparr>rq_handle := h\<rparr>) s1
              in (m1, start_call_session E (rq_event r) s2))))"

section \<open>Unregister\<close>

definition process_unregister ::
  "asm_cfg \<Rightarrow> asm_env \<Rightarrow> reply \<Rightarrow> asm_req \<Rightarrow> asm \<Rightarrow> reply \<times> asm" where
  "process_unregister c E junk r s =
    (let s1 = snd (asm_unregister_list c (rq_handle r) s)
     in (junk,
         case rq_event r of
           ASM_EVENT_CALL \<Rightarrow>
             asm_do_all_resume_callback c E ASM_EVENT_SOURCE_CALL_END
               (asm_set_session E SESSION_VOICECALL SESSION_END s1)
         | ASM_EVENT_RICH_CALL \<Rightarrow>
             asm_do_all_resume_callback c E ASM_EVENT_SOURCE_CALL_END
               (asm_set_session E SESSION_VOICECALL SESSION_END s1)
         | ASM_EVENT_VIDEOCALL \<Rightarrow>
             asm_do_all_resume_callback c E ASM_EVENT_SOURCE_CALL_END
               (asm_set_session E SESSION_VOIP SESSION_END s1)
         | ASM_EVENT_ALARM \<Rightarrow>
             asm_do_all_resume_callback c E ASM_EVENT_SOURCE_ALARM_END
               (asm_set_session E SESSION_NOTIFICATION SESSION_END s1)
         | _ \<Rightarrow> s1))"

section \<open>Set state\<close>

definition start_media_session :: "asm_env \<Rightarrow> asm_event \<Rightarrow> asm \<Rightarrow> asm" where
  "start_media_session E ev s =
    (if ev = ASM_EVENT_ALARM then
       (if session (asess s) = SESSION_NOTIFICATION then s
        else asm_set_session E SESSION_NOTIFICATION SESSION_START s)
     else if is_fmradio ev then
       (if session (asess s) = SESSION_FMRADIO then s
        else asm_set_session E SESSION_FMRADIO SESSION_START s)
     else s)"

definition process_setstate ::
  "asm_cfg \<Rightarrow> asm_env \<Rightarrow> bool \<Rightarrow> reply \<Rightarrow> asm_req \<Rightarrow> asm \<Rightarrow> reply \<times> asm" where
  "process_setstate c E has_ret junk r s =
    (let s1 = check_dead_process c E s
     in if rq_state r = ASM_STATE_PLAYING then
          (if isItPlayingNow (rq_pid r) (rq_handle r) (insts s1) then
             (let s2 = asm_change_state_list c (rq_pid r) (rq_handle r) (rq_state r) (rq_resource r) s1;
                  m = junk\<lparr>rp_cmd_handle := rq_handle r,
                           rp_command := command_code ASM_COMMAND_NONE,
                           rp_state := rq_state r, rp_instance := rq_pid r\<rparr>
              in (m, set_ret has_ret m s2))
           else
             (let (m, s2) = asm_compare_priority_matrix c E has_ret junk r s1
              in (m,
                  if rp_command m = command_code ASM_COMMAND_PLAY \<or>
                     rp_command m = command_code ASM_COMMAND_NONE
                  then start_media_session E (rq_event r) s2 else s2)))
        else
          (let s2 = asm_change_state_list c (rq_pid r) (rq_handle r) (rq_state r) (rq_resource r) s1
           in (junk,
               if rq_state r = ASM_STATE_STOP \<and> is_fmradio (rq_event r)
               then end_fmradio_session E s2 else s2)))"

section \<open>Queries and sub-sessions\<close>

definition process_getstate :: "bool \<Rightarrow> reply \<Rightarrow> asm_req \<Rightarrow> asm \<Rightarrow> reply \<times> asm" where
  "process_getstate has_ret junk r s =
    (let m = junk\<lparr>rp_instance := rq_pid r,
                  rp_state := asm_find_list (rq_id r) (rq_handle r) (insts s)\<rparr>
     in (m, set_ret has_ret m s))"

definition process_getmystate ::
  "asm_cfg \<Rightarrow> asm_env \<Rightarrow> bool \<Rightarrow> reply \<Rightarrow> asm_req \<Rightarrow> asm \<Rightarrow> reply \<times> asm" where
  "process_getmystate c E has_ret junk r s =
    (let s1 = check_dead_process c E s;
         m = junk\<lparr>rp_instance := rq_pid r,
                  rp_state := asm_find_process_status (rq_pid r) (insts s1)\<rparr>
     in (m, set_ret has_ret m s1))"

text \<open>The requested sub-session travels in the event field; an invalid one is reported and then set
  all the same.\<close>

definition process_set_subsession ::
  "asm_env \<Rightarrow> bool \<Rightarrow> reply \<Rightarrow> asm_req \<Rightarrow> asm \<Rightarrow> reply \<times> asm" where
  "process_set_subsession E has_ret junk r s =
    (let sub = int (event_index (rq_event r));
         s1 = s\<lparr>asess := snd (set_subsession (senv E) sub (asess s))\<rparr>;
         m = junk\<lparr>rp_instance := rq_pid r\<rparr>
     in (m, set_ret has_ret m s1))"

definition process_get_subsession :: "bool \<Rightarrow> reply \<Rightarrow> asm_req \<Rightarrow> asm \<Rightarrow> reply \<times> asm" where
  "process_get_subsession has_ret junk r s =
    (let m = junk\<lparr>rp_instance := rq_pid r, rp_command := subsession (asess s)\<rparr>
     in (m, set_ret has_ret m s))"

section \<open>Dispatch\<close>

definition asm_process_message ::
  "asm_cfg \<Rightarrow> asm_env \<Rightarrow> bool \<Rightarrow> reply \<Rightarrow> asm_req \<Rightarrow> asm \<Rightarrow> reply \<times> asm" where
  "asm_process_message c E has_ret junk r s =
    (case rq_id r of
       ASM_REQUEST_REGISTER \<Rightarrow> process_register c E has_ret junk r s
     | ASM_REQUEST_UNREGISTER \<Rightarrow> process_unregister c E junk r s
     | ASM_REQUEST_SETSTATE \<Rightarrow> process_setstate c E has_ret junk r s
     | ASM_REQUEST_GETSTATE \<Rightarrow> process_getstate has_ret junk r s
     | ASM_REQUEST_GETMYSTATE \<Rightarrow> process_getmystate c E has_ret junk r s
     | ASM_REQUEST_DUMP \<Rightarrow> (junk, s)
     | ASM_REQUEST_SET_SUBSESSION \<Rightarrow> process_set_subsession E has_ret junk r s
     | ASM_REQUEST_GET_SUBSESSION \<Rightarrow> process_get_subsession has_ret junk r s
     | ASM_REQUEST_EMERGENT_EXIT \<Rightarrow> (junk, emergent_exit c (rq_pid r) s))"

text \<open>The server starts with no instance; the message loop then serves one request after another,
  each with its own environment and its own uninitialised reply.\<close>

definition asm_init :: "bool \<Rightarrow> sess \<Rightarrow> asm" where
  "asm_init gcf ss =
    \<lparr>insts = [], g_status_playing = 0, g_status_pause = 0, vconf_status = 0, is_gcf = gcf,
     asess = ss, acalls = []\<rparr>"

fun asm_main_run :: "asm_cfg \<Rightarrow> (asm_env \<times> reply \<times> asm_req) list \<Rightarrow> asm \<Rightarrow> asm" where
  "asm_main_run c [] s = s"
| "asm_main_run c ((E, junk, r) # rs) s =
    asm_main_run c rs (snd (asm_process_message c E False junk r s))"

end
