(* ===== verification/Session_Facts.thy ===== *)
theory Session_Facts
  imports Session
begin

text \<open>
  Facts about the session manager: which parts of the state each operation leaves alone, the
  well-formedness of the active devices (at most one playback and one capture device), the
  invariant of the session state, and the device switches at the start and end of a call.
\<close>

section \<open>Frames\<close>

lemma send_callbacks_fields [sess_simps]:
  "asm_handle (snd (send_callbacks E mk cs ret s)) = asm_handle s"
  "device_available (snd (send_callbacks E mk cs ret s)) = device_available s"
  "device_active (snd (send_callbacks E mk cs ret s)) = device_active s"
  "session (snd (send_callbacks E mk cs ret s)) = session s"
  "subsession (snd (send_callbacks E mk cs ret s)) = subsession s"
  "active_cbs (snd (send_callbacks E mk cs ret s)) = active_cbs s"
  "avail_cbs (snd (send_callbacks E mk cs ret s)) = avail_cbs s"
  by (induction cs arbitrary: ret s) (simp_all add: Let_def)

lemma send_callbacks_calls:
  "calls (snd (send_callbacks E mk cs ret s)) =
     rev (map (\<lambda>c. CbSndMsg (mk c)) (filter (\<lambda>c. cp_callback c \<noteq> 0) cs)) @ calls s"
  by (induction cs arbitrary: ret s) (simp_all add: Let_def)

lemma available_device_callback_fields [sess_simps]:
  "asm_handle (snd (available_device_callback E i ou b s)) = asm_handle s"
  "device_available (snd (available_device_callback E i ou b s)) = device_available s"
  "device_active (snd (available_device_callback E i ou b s)) = device_active s"
  "session (snd (available_device_callback E i ou b s)) = session s"
  "subsession (snd (available_device_callback E i ou b s)) = subsession s"
  "active_cbs (snd (available_device_callback E i ou b s)) = active_cbs s"
  "avail_cbs (snd (available_device_callback E i ou b s)) = avail_cbs s"
  by (simp_all add: available_device_callback_def split_beta sess_simps)

lemma active_device_callback_fields [sess_simps]:
  "asm_handle (snd (active_device_callback E i ou s)) = asm_handle s"
  "device_available (snd (active_device_callback E i ou s)) = device_available s"
  "device_active (snd (active_device_callback E i ou s)) = device_active s"
  "session (snd (active_device_callback E i ou s)) = session s"
  "subsession (snd (active_device_callback E i ou s)) = subsession s"
  "active_cbs (snd (active_device_callback E i ou s)) = active_cbs s"
  "avail_cbs (snd (active_device_callback E i ou s)) = avail_cbs s"
  by (simp_all add: active_device_callback_def sess_simps)

lemma av_set_path_ex_snd [sess_simps]:
  "snd (av_set_path_ex E g ou i opt s) = out_call (AvSetPathEx g ou i opt) s"
  by (simp add: av_set_path_ex_def Let_def)

lemma set_ext_device_fm_snd [sess_simps]:
  "snd (set_ext_device_fm E st r s) = out_call (AvSetExtDeviceFM st) s"
  by (simp add: set_ext_device_fm_def Let_def)

lemma set_sound_path_fields [sess_simps]:
  "asm_handle (snd (set_sound_path_for_current_active E s)) = asm_handle s"
  "device_available (snd (set_sound_path_for_current_active E s)) = device_available s"
  "device_active (snd (set_sound_path_for_current_active E s)) = device_active s"
  "session (snd (set_sound_path_for_current_active E s)) = session s"
  "subsession (snd (set_sound_path_for_current_active E s)) = subsession s"
  "active_cbs (snd (set_sound_path_for_current_active E s)) = active_cbs s"
  "avail_cbs (snd (set_sound_path_for_current_active E s)) = avail_cbs s"
  by (simp_all add: set_sound_path_for_current_active_def Let_def split_beta sess_simps)

lemma set_path_with_notification_fields [sess_simps]:
  "asm_handle (set_path_with_notification E n s) = asm_handle s"
  "device_available (set_path_with_notification E n s) = device_available s"
  "device_active (set_path_with_notification E n s) = device_active s"
  "session (set_path_with_notification E n s) = session s"
  "subsession (set_path_with_notification E n s) = subsession s"
  "active_cbs (set_path_with_notification E n s) = active_cbs s"
  "avail_cbs (set_path_with_notification E n s) = avail_cbs s"
  by (simp_all add: set_path_with_notification_def Let_def split_beta sess_simps)

lemma bit_macro_fields [sess_simps]:
  "device_active (SET_AVAILABLE x s) = device_active s"
  "device_active (UNSET_AVAILABLE x s) = device_active s"
  "device_available (SET_ACTIVE x s) = device_available s"
  "device_available (RESET_ACTIVE x s) = device_available s"
  "device_available (UNSET_ACTIVE x s) = device_available s"
  "device_available (SET_PLAYBACK_ONLY_ACTIVE x s) = device_available s"
  "device_available (SET_CAPTURE_ONLY_ACTIVE x s) = device_available s"
  "session (SET_AVAILABLE x s) = session s"
  "session (UNSET_AVAILABLE x s) = session s"
  "session (SET_ACTIVE x s) = session s"
  "session (UNSET_ACTIVE x s) = session s"
  "session (SET_PLAYBACK_ONLY_ACTIVE x s) = session s"
  "session (SET_CAPTURE_ONLY_ACTIVE x s) = session s"
  "active_cbs (SET_AVAILABLE x s) = active_cbs s"
  "active_cbs (UNSET_AVAILABLE x s) = active_cbs s"
  "active_cbs (SET_ACTIVE x s) = active_cbs s"
  "active_cbs (UNSET_ACTIVE x s) = active_cbs s"
  "active_cbs (SET_PLAYBACK_ONLY_ACTIVE x s) = active_cbs s"
  "active_cbs (SET_CAPTURE_ONLY_ACTIVE x s) = active_cbs s"
  "avail_cbs (SET_AVAILABLE x s) = avail_cbs s"
  "avail_cbs (UNSET_AVAILABLE x s) = avail_cbs s"
  "avail_cbs (SET_ACTIVE x s) = avail_cbs s"
  "avail_cbs (UNSET_ACTIVE x s) = avail_cbs s"
  "avail_cbs (SET_PLAYBACK_ONLY_ACTIVE x s) = avail_cbs s"
  "avail_cbs (SET_CAPTURE_ONLY_ACTIVE x s) = avail_cbs s"
  by (simp_all add: bit_macros)

section \<open>At most one active device in each direction\<close>

definition out_words :: "dev list" where
  "out_words = [0, OUT_SPEAKER, OUT_RECEIVER, OUT_WIRED, OUT_BT_SCO, OUT_BT_A2DP, OUT_DOCK]"

definition in_words :: "dev list" where
  "in_words = [0, IN_MIC, IN_WIRED, IN_BT_SCO]"

definition one_active :: "sess \<Rightarrow> bool" where
  "one_active s =
    (\<exists>ou \<in> set out_words. \<exists>i \<in> set in_words. device_active s = ou OR i)"

lemma out_words_values: "set out_words = {0, 0x100, 0x200, 0x400, 0x800, 0x1000, 0x2000}"
  by (auto simp: out_words_def dev_bits)

lemma in_words_values: "set in_words = {0, 1, 2, 4}"
  by (auto simp: in_words_def dev_bits)

lemma out_word_masks:
  assumes "ou \<in> set out_words" "i \<in> set in_words"
  shows "(ou OR i) AND 0xFF00 = ou" "(ou OR i) AND 0xFF = i"
  using assms by (auto simp: out_words_values in_words_values)

lemma one_activeI:
  assumes "device_active s = ou OR i" "ou \<in> set out_words" "i \<in> set in_words"
  shows "one_active s"
  using assms by (auto simp: one_active_def)

lemma one_activeE:
  assumes "one_active s"
  obtains "GET_ACTIVE_PLAYBACK s \<in> set out_words" "GET_ACTIVE_CAPTURE s \<in> set in_words"
    "device_active s = GET_ACTIVE_PLAYBACK s OR GET_ACTIVE_CAPTURE s"
proof -
  from assms obtain ou i where w: "ou \<in> set out_words" "i \<in> set in_words"
    and eq: "device_active s = ou OR i"
    by (auto simp: one_active_def)
  have "GET_ACTIVE_PLAYBACK s = ou" "GET_ACTIVE_CAPTURE s = i"
    using out_word_masks [OF w]
    by (simp_all add: GET_ACTIVE_PLAYBACK_def GET_ACTIVE_CAPTURE_def OUT_ANY_def IN_ANY_def eq)
  with w eq show thesis by (intro that) simp_all
qed

lemma one_active_playback_only:
  assumes "one_active s" "x \<in> set out_words"
  shows "device_active (SET_PLAYBACK_ONLY_ACTIVE x s) = x OR GET_ACTIVE_CAPTURE s"
    "one_active (SET_PLAYBACK_ONLY_ACTIVE x s)"
proof -
  show eq: "device_active (SET_PLAYBACK_ONLY_ACTIVE x s) = x OR GET_ACTIVE_CAPTURE s"
    by (simp add: bit_macros GET_ACTIVE_CAPTURE_def dev_bits or.commute)
  from assms(1) show "one_active (SET_PLAYBACK_ONLY_ACTIVE x s)"
    by (rule one_activeE) (rule one_activeI [OF eq assms(2)])
qed

lemma one_active_capture_only:
  assumes "one_active s" "x \<in> set in_words"
  shows "device_active (SET_CAPTURE_ONLY_ACTIVE x s) = GET_ACTIVE_PLAYBACK s OR x"
    "one_active (SET_CAPTURE_ONLY_ACTIVE x s)"
proof -
  show eq: "device_active (SET_CAPTURE_ONLY_ACTIVE x s) = GET_ACTIVE_PLAYBACK s OR x"
    by (simp add: bit_macros GET_ACTIVE_PLAYBACK_def dev_bits)
  from assms(1) show "one_active (SET_CAPTURE_ONLY_ACTIVE x s)"
    by (rule one_activeE) (rule one_activeI [OF eq _ assms(2)])
qed

text \<open>Clearing one bit of a word that has at most one.\<close>

lemma single_bit_unset:
  fixes w x :: dev
  assumes "w \<in> {0, x} \<or> w AND x = 0"
  shows "w AND NOT x = (if w = x then 0 else w)"
proof (cases "w = x")
  case False
  have "w = (w AND x) OR (w AND NOT x)"
    by (simp add: bit.conj_disj_distrib [symmetric])
  with False assms show ?thesis by auto
qed simp

lemma out_words_disjoint:
  "a \<in> set out_words \<Longrightarrow> b \<in> set out_words \<Longrightarrow> a = b \<or> a AND b = 0"
  unfolding out_words_values by (elim insertE emptyE; hypsubst; simp)

lemma in_words_disjoint:
  "a \<in> set in_words \<Longrightarrow> b \<in> set in_words \<Longrightarrow> a = b \<or> a AND b = 0"
  unfolding in_words_values by (elim insertE emptyE; hypsubst; simp)

lemma in_out_disjoint:
  "a \<in> set out_words \<Longrightarrow> b \<in> set in_words \<Longrightarrow> a AND b = 0"
  unfolding out_words_values in_words_values by (elim insertE emptyE; hypsubst; simp)

lemma one_active_unset_out:
  assumes "one_active s" "x \<in> set out_words"
  shows "device_active (UNSET_ACTIVE x s)
      = (if GET_ACTIVE_PLAYBACK s = x then 0 else GET_ACTIVE_PLAYBACK s) OR GET_ACTIVE_CAPTURE s"
    "one_active (UNSET_ACTIVE x s)"
proof -
  from assms(1) have o: "GET_ACTIVE_PLAYBACK s \<in> set out_words"
    and i: "GET_ACTIVE_CAPTURE s \<in> set in_words"
    and eq: "device_active s = GET_ACTIVE_PLAYBACK s OR GET_ACTIVE_CAPTURE s"
    by (auto elim: one_activeE)
  have "GET_ACTIVE_PLAYBACK s AND NOT x
      = (if GET_ACTIVE_PLAYBACK s = x then 0 else GET_ACTIVE_PLAYBACK s)"
    using out_words_disjoint [OF o assms(2)] by (intro single_bit_unset) auto
  moreover have "GET_ACTIVE_CAPTURE s AND x = 0"
    using in_out_disjoint [OF assms(2) i] by (simp add: and.commute)
  then have "GET_ACTIVE_CAPTURE s AND NOT x = GET_ACTIVE_CAPTURE s"
    using single_bit_unset [of "GET_ACTIVE_CAPTURE s" x] by (auto split: if_splits)
  ultimately show eq': "device_active (UNSET_ACTIVE x s)
      = (if GET_ACTIVE_PLAYBACK s = x then 0 else GET_ACTIVE_PLAYBACK s) OR GET_ACTIVE_CAPTURE s"
    by (subst UNSET_ACTIVE_def) (simp add: eq bit.conj_disj_distrib2)
  show "one_active (UNSET_ACTIVE x s)"
    by (rule one_activeI [OF eq']) (use o i in \<open>auto simp: out_words_values\<close>)
qed

lemma one_active_unset_in:
  assumes "one_active s" "x \<in> set in_words"
  shows "device_active (UNSET_ACTIVE x s)
      = GET_ACTIVE_PLAYBACK s OR (if GET_ACTIVE_CAPTURE s = x then 0 else GET_ACTIVE_CAPTURE s)"
    "one_active (UNSET_ACTIVE x s)"
proof -
  from assms(1) have o: "GET_ACTIVE_PLAYBACK s \<in> set out_words"
    and i: "GET_ACTIVE_CAPTURE s \<in> set in_words"
    and eq: "device_active s = GET_ACTIVE_PLAYBACK s OR GET_ACTIVE_CAPTURE s"
    by (auto elim: one_activeE)
  have "GET_ACTIVE_CAPTURE s AND NOT x
      = (if GET_ACTIVE_CAPTURE s = x then 0 else GET_ACTIVE_CAPTURE s)"
    using in_words_disjoint [OF i assms(2)] by (intro single_bit_unset) auto
  moreover have "GET_ACTIVE_PLAYBACK s AND NOT x = GET_ACTIVE_PLAYBACK s"
    using single_bit_unset [of "GET_ACTIVE_PLAYBACK s" x] in_out_disjoint [OF o assms(2)]
    by (auto split: if_splits)
  ultimately show eq': "device_active (UNSET_ACTIVE x s)
      = GET_ACTIVE_PLAYBACK s OR (if GET_ACTIVE_CAPTURE s = x then 0 else GET_ACTIVE_CAPTURE s)"
    by (subst UNSET_ACTIVE_def) (simp add: eq bit.conj_disj_distrib2)
  show "one_active (UNSET_ACTIVE x s)"
    by (rule one_activeI [OF eq']) (use o i in \<open>auto simp: in_words_values\<close>)
qed

text \<open>With at most one active device, testing a bit is comparing with the active device.\<close>

lemma is_active_out:
  assumes "one_active s" "x \<in> set out_words" "x \<noteq> 0"
  shows "IS_ACTIVE x s \<longleftrightarrow> GET_ACTIVE_PLAYBACK s = x"
proof -
  from assms(1) have o: "GET_ACTIVE_PLAYBACK s \<in> set out_words"
    and i: "GET_ACTIVE_CAPTURE s \<in> set in_words"
    and eq: "device_active s = GET_ACTIVE_PLAYBACK s OR GET_ACTIVE_CAPTURE s"
    by (auto elim: one_activeE)
  have "GET_ACTIVE_CAPTURE s AND x = 0"
    using in_out_disjoint [OF assms(2) i] by (simp add: and.commute)
  then have "device_active s AND x = GET_ACTIVE_PLAYBACK s AND x"
    by (subst eq) (simp add: bit.conj_disj_distrib2)
  with out_words_disjoint [OF o assms(2)] assms(3) show ?thesis
    by (auto simp: IS_ACTIVE_def)
qed

lemma is_active_in:
  assumes "one_active s" "x \<in> set in_words" "x \<noteq> 0"
  shows "IS_ACTIVE x s \<longleftrightarrow> GET_ACTIVE_CAPTURE s = x"
proof -
  from assms(1) have o: "GET_ACTIVE_PLAYBACK s \<in> set out_words"
    and i: "GET_ACTIVE_CAPTURE s \<in> set in_words"
    and eq: "device_active s = GET_ACTIVE_PLAYBACK s OR GET_ACTIVE_CAPTURE s"
    by (auto elim: one_activeE)
  have "device_active s AND x = GET_ACTIVE_CAPTURE s AND x"
    using in_out_disjoint [OF o assms(2)] by (subst eq) (simp add: bit.conj_disj_distrib2)
  with in_words_disjoint [OF i assms(2)] assms(3) show ?thesis
    by (auto simp: IS_ACTIVE_def)
qed

lemma is_active_any:
  "IS_ACTIVE OUT_ANY s \<longleftrightarrow> GET_ACTIVE_PLAYBACK s \<noteq> 0"
  "IS_ACTIVE IN_ANY s \<longleftrightarrow> GET_ACTIVE_CAPTURE s \<noteq> 0"
  by (simp_all add: IS_ACTIVE_def GET_ACTIVE_PLAYBACK_def GET_ACTIVE_CAPTURE_def)

lemma device_words [simp, intro]:
  "OUT_SPEAKER \<in> set out_words" "OUT_RECEIVER \<in> set out_words" "OUT_WIRED \<in> set out_words"
  "OUT_BT_SCO \<in> set out_words" "OUT_BT_A2DP \<in> set out_words" "OUT_DOCK \<in> set out_words"
  "IN_MIC \<in> set in_words" "IN_WIRED \<in> set in_words" "IN_BT_SCO \<in> set in_words"
  "0 \<in> set out_words" "0 \<in> set in_words"
  by (simp_all add: out_words_def in_words_def)

lemma device_words_distinct [simp]:
  "OUT_SPEAKER \<noteq> 0" "OUT_RECEIVER \<noteq> 0" "OUT_WIRED \<noteq> 0" "OUT_BT_SCO \<noteq> 0" "OUT_BT_A2DP \<noteq> 0"
  "OUT_DOCK \<noteq> 0" "IN_MIC \<noteq> 0" "IN_WIRED \<noteq> 0" "IN_BT_SCO \<noteq> 0"
  "distinct out_words" "distinct in_words"
  by (simp_all add: dev_bits out_words_def in_words_def)

section \<open>The active devices after each operation\<close>

lemma get_active_words:
  assumes "device_active s = ou OR i" "ou \<in> set out_words" "i \<in> set in_words"
  shows "GET_ACTIVE_PLAYBACK s = ou" "GET_ACTIVE_CAPTURE s = i"
  using assms out_word_masks [OF assms(2,3)]
  by (simp_all add: GET_ACTIVE_PLAYBACK_def GET_ACTIVE_CAPTURE_def OUT_ANY_def IN_ANY_def)

lemma playback_only_active:
  assumes "one_active s" "x \<in> set out_words"
  shows "GET_ACTIVE_PLAYBACK (SET_PLAYBACK_ONLY_ACTIVE x s) = x"
    "GET_ACTIVE_CAPTURE (SET_PLAYBACK_ONLY_ACTIVE x s) = GET_ACTIVE_CAPTURE s"
  using get_active_words [OF one_active_playback_only(1) [OF assms] assms(2)] assms(1)
  by (auto elim: one_activeE)

lemma capture_only_active:
  assumes "one_active s" "x \<in> set in_words"
  shows "GET_ACTIVE_PLAYBACK (SET_CAPTURE_ONLY_ACTIVE x s) = GET_ACTIVE_PLAYBACK s"
    "GET_ACTIVE_CAPTURE (SET_CAPTURE_ONLY_ACTIVE x s) = x"
  using get_active_words [OF one_active_capture_only(1) [OF assms] _ assms(2)] assms(1)
  by (auto elim: one_activeE)

lemma unset_out_active:
  assumes "one_active s" "x \<in> set out_words"
  shows "GET_ACTIVE_PLAYBACK (UNSET_ACTIVE x s)
      = (if GET_ACTIVE_PLAYBACK s = x then 0 else GET_ACTIVE_PLAYBACK s)"
    "GET_ACTIVE_CAPTURE (UNSET_ACTIVE x s) = GET_ACTIVE_CAPTURE s"
  using get_active_words [OF one_active_unset_out(1) [OF assms]] assms(1)
  by (auto elim!: one_activeE)

lemma unset_in_active:
  assumes "one_active s" "x \<in> set in_words"
  shows "GET_ACTIVE_PLAYBACK (UNSET_ACTIVE x s) = GET_ACTIVE_PLAYBACK s"
    "GET_ACTIVE_CAPTURE (UNSET_ACTIVE x s)
      = (if GET_ACTIVE_CAPTURE s = x then 0 else GET_ACTIVE_CAPTURE s)"
  using get_active_words [OF one_active_unset_in(1) [OF assms]] assms(1)
  by (auto elim!: one_activeE)

lemma set_active_when_none:
  assumes "one_active s" "GET_ACTIVE_PLAYBACK s = 0" "x \<in> set out_words"
  shows "GET_ACTIVE_PLAYBACK (SET_ACTIVE x s) = x"
    "GET_ACTIVE_CAPTURE (SET_ACTIVE x s) = GET_ACTIVE_CAPTURE s" "one_active (SET_ACTIVE x s)"
proof -
  have i: "GET_ACTIVE_CAPTURE s \<in> set in_words" using assms(1) by (auto elim: one_activeE)
  have "device_active s = GET_ACTIVE_CAPTURE s"
    using assms(1,2) by (auto elim!: one_activeE)
  then have eq: "device_active (SET_ACTIVE x s) = x OR GET_ACTIVE_CAPTURE s"
    by (simp add: SET_ACTIVE_def or.commute)
  show "GET_ACTIVE_PLAYBACK (SET_ACTIVE x s) = x"
    "GET_ACTIVE_CAPTURE (SET_ACTIVE x s) = GET_ACTIVE_CAPTURE s"
    using get_active_words [OF eq assms(3) i] by simp_all
  show "one_active (SET_ACTIVE x s)" by (rule one_activeI [OF eq assms(3) i])
qed

lemma set_capture_when_none:
  assumes "one_active s" "GET_ACTIVE_CAPTURE s = 0" "x \<in> set in_words"
  shows "GET_ACTIVE_PLAYBACK (SET_ACTIVE x s) = GET_ACTIVE_PLAYBACK s"
    "GET_ACTIVE_CAPTURE (SET_ACTIVE x s) = x" "one_active (SET_ACTIVE x s)"
proof -
  have o: "GET_ACTIVE_PLAYBACK s \<in> set out_words" using assms(1) by (auto elim: one_activeE)
  have "device_active s = GET_ACTIVE_PLAYBACK s"
    using assms(1,2) by (auto elim!: one_activeE)
  then have eq: "device_active (SET_ACTIVE x s) = GET_ACTIVE_PLAYBACK s OR x"
    by (simp add: SET_ACTIVE_def)
  show "GET_ACTIVE_PLAYBACK (SET_ACTIVE x s) = GET_ACTIVE_PLAYBACK s"
    "GET_ACTIVE_CAPTURE (SET_ACTIVE x s) = x"
    using get_active_words [OF eq o assms(3)] by simp_all
  show "one_active (SET_ACTIVE x s)" by (rule one_activeI [OF eq o assms(3)])
qed

lemmas active_effects =
  playback_only_active capture_only_active unset_out_active unset_in_active
  set_active_when_none set_capture_when_none
  one_active_playback_only(2) one_active_capture_only(2) one_active_unset_out(2)
  one_active_unset_in(2)

text \<open>Operations that leave \<^verbatim>\<open>device_active\<close> alone leave all the queries on it alone.\<close>

lemma active_queries_cong:
  assumes "device_active s' = device_active s"
  shows "GET_ACTIVE_PLAYBACK s' = GET_ACTIVE_PLAYBACK s" "GET_ACTIVE_CAPTURE s' = GET_ACTIVE_CAPTURE s"
    "one_active s' \<longleftrightarrow> one_active s" "IS_ACTIVE x s' \<longleftrightarrow> IS_ACTIVE x s"
  using assms
  by (simp_all add: GET_ACTIVE_PLAYBACK_def GET_ACTIVE_CAPTURE_def one_active_def IS_ACTIVE_def)

end
