(* ===== verification/Session_Inv.thy ===== *)
theory Session_Inv
  imports Session_Facts
begin

text \<open>
  The invariant of the session state and the abstract specification of the device switches.
  \<^verbatim>\<open>sess_inv\<close> says: at most one playback and one capture device is active, the built-in speaker
  and microphone are always available, the SCO devices come and go together, a wired microphone
  implies a wired output, and each callback list has at most one entry per process.
\<close>

section \<open>Availability\<close>

lemma is_available_set:
  "IS_AVAILABLE y (SET_AVAILABLE x s) \<longleftrightarrow> IS_AVAILABLE y s \<or> x AND y \<noteq> 0"
  by (simp add: IS_AVAILABLE_def SET_AVAILABLE_def bit.conj_disj_distrib2 or_eq_0_iff)

lemma is_available_unset_other:
  assumes "x AND y = 0"
  shows "IS_AVAILABLE y (UNSET_AVAILABLE x s) \<longleftrightarrow> IS_AVAILABLE y s"
proof -
  have "y = (x AND y) OR (NOT x AND y)"
    by (simp add: bit.conj_disj_distrib2 [symmetric])
  with assms have "NOT x AND y = y" by simp
  then show ?thesis
    by (simp add: IS_AVAILABLE_def UNSET_AVAILABLE_def and.assoc)
qed

lemma is_available_unset_same: "\<not> IS_AVAILABLE x (UNSET_AVAILABLE x s)"
  by (simp add: IS_AVAILABLE_def UNSET_AVAILABLE_def and.assoc)

lemma available_cong:
  assumes "device_available s' = device_available s"
  shows "IS_AVAILABLE x s' \<longleftrightarrow> IS_AVAILABLE x s"
  using assms by (simp add: IS_AVAILABLE_def)

definition avail_wf :: "sess \<Rightarrow> bool" where
  "avail_wf s \<longleftrightarrow>
     IS_AVAILABLE OUT_SPEAKER s \<and> IS_AVAILABLE IN_MIC s \<and>
     (IS_AVAILABLE IN_WIRED s \<longrightarrow> IS_AVAILABLE OUT_WIRED s) \<and>
     (IS_AVAILABLE IN_BT_SCO s \<longleftrightarrow> IS_AVAILABLE OUT_BT_SCO s)"

definition sess_inv :: "sess \<Rightarrow> bool" where
  "sess_inv s \<longleftrightarrow>
     one_active s \<and> avail_wf s \<and> pids_distinct (active_cbs s) \<and> pids_distinct (avail_cbs s)"

lemma sess_invI:
  assumes "one_active s" "avail_wf s" "pids_distinct (active_cbs s)" "pids_distinct (avail_cbs s)"
  shows "sess_inv s"
  using assms by (simp add: sess_inv_def)

lemma avail_wf_cong: "device_available s' = device_available s \<Longrightarrow> avail_wf s' \<longleftrightarrow> avail_wf s"
  by (simp add: avail_wf_def IS_AVAILABLE_def)

text \<open>Steps that touch only the log, the session and the names keep the invariant.\<close>

lemma sess_inv_cong:
  assumes "device_available s' = device_available s" "device_active s' = device_active s"
    "active_cbs s' = active_cbs s" "avail_cbs s' = avail_cbs s"
  shows "sess_inv s' \<longleftrightarrow> sess_inv s"
  using assms avail_wf_cong [OF assms(1)] active_queries_cong(3) [OF assms(2)]
  by (simp add: sess_inv_def)

lemma sess_inv_active:
  assumes "sess_inv s" "one_active s'" "device_available s' = device_available s"
    "active_cbs s' = active_cbs s" "avail_cbs s' = avail_cbs s"
  shows "sess_inv s'"
  using assms avail_wf_cong [OF assms(3)] by (simp add: sess_inv_def)

lemma sess_inv_available:
  assumes "sess_inv s" "avail_wf s'" "device_active s' = device_active s"
    "active_cbs s' = active_cbs s" "avail_cbs s' = avail_cbs s"
  shows "sess_inv s'"
  using assms active_queries_cong(3) [OF assms(3)] by (simp add: sess_inv_def)

lemma sess_inv_path [simp]: "sess_inv (set_path_with_notification E n s) \<longleftrightarrow> sess_inv s"
  by (rule sess_inv_cong) (simp_all add: sess_simps)

lemma sess_inv_avail_cb [simp]: "sess_inv (snd (available_device_callback E i ou b s)) \<longleftrightarrow> sess_inv s"
  by (rule sess_inv_cong) (simp_all add: sess_simps)

lemma sess_inv_active_cb [simp]: "sess_inv (snd (active_device_callback E i ou s)) \<longleftrightarrow> sess_inv s"
  by (rule sess_inv_cong) (simp_all add: sess_simps)

lemma sess_inv_out_call [simp]: "sess_inv (out_call c s) \<longleftrightarrow> sess_inv s"
  by (rule sess_inv_cong) simp_all

lemma sess_inv_session [simp]:
  "sess_inv (s\<lparr>session := x\<rparr>) \<longleftrightarrow> sess_inv s" "sess_inv (s\<lparr>subsession := y\<rparr>) \<longleftrightarrow> sess_inv s"
  "sess_inv (s\<lparr>asm_handle := h\<rparr>) \<longleftrightarrow> sess_inv s" "sess_inv (s\<lparr>bt_name := n\<rparr>) \<longleftrightarrow> sess_inv s"
  "sess_inv (s\<lparr>default_sink_name := n\<rparr>) \<longleftrightarrow> sess_inv s"
  by (rule sess_inv_cong; simp)+

lemma sess_inv_playback_only [simp]:
  "sess_inv s \<Longrightarrow> x \<in> set out_words \<Longrightarrow> sess_inv (SET_PLAYBACK_ONLY_ACTIVE x s)"
  by (rule sess_inv_active [of s]) (auto simp: sess_inv_def sess_simps active_effects)

lemma sess_inv_capture_only [simp]:
  "sess_inv s \<Longrightarrow> x \<in> set in_words \<Longrightarrow> sess_inv (SET_CAPTURE_ONLY_ACTIVE x s)"
  by (rule sess_inv_active [of s]) (auto simp: sess_inv_def sess_simps active_effects)

lemma sess_inv_unset_out [simp]:
  "sess_inv s \<Longrightarrow> x \<in> set out_words \<Longrightarrow> sess_inv (UNSET_ACTIVE x s)"
  by (rule sess_inv_active [of s]) (auto simp: sess_inv_def sess_simps active_effects)

lemma sess_inv_unset_in [simp]:
  "sess_inv s \<Longrightarrow> x \<in> set in_words \<Longrightarrow> sess_inv (UNSET_ACTIVE x s)"
  by (rule sess_inv_active [of s]) (auto simp: sess_inv_def sess_simps active_effects)

lemma select_fields [sess_simps]:
  "device_available (select_playback_active_device s) = device_available s"
  "session (select_playback_active_device s) = session s"
  "active_cbs (select_playback_active_device s) = active_cbs s"
  "avail_cbs (select_playback_active_device s) = avail_cbs s"
  "device_available (select_capture_active_device s) = device_available s"
  "session (select_capture_active_device s) = session s"
  "active_cbs (select_capture_active_device s) = active_cbs s"
  "avail_cbs (select_capture_active_device s) = avail_cbs s"
  by (simp_all add: select_playback_active_device_def select_capture_active_device_def sess_simps)

lemma select_one_active:
  assumes "one_active s"
  shows "one_active (select_playback_active_device s)" "one_active (select_capture_active_device s)"
  using assms
  by (simp_all add: select_playback_active_device_def select_capture_active_device_def
      is_active_any set_active_when_none set_capture_when_none)

lemma sess_inv_select [simp]:
  assumes "sess_inv s"
  shows "sess_inv (select_playback_active_device s)" "sess_inv (select_capture_active_device s)"
  using assms
  by (rule sess_inv_active [of s]; simp add: sess_simps select_one_active sess_inv_def)+

section \<open>Device switches of a call\<close>

text \<open>The abstract specification, on the pair of active devices (playback, capture).\<close>

definition call_start_spec :: "dev \<times> dev \<Rightarrow> dev \<times> dev" where
  "call_start_spec d =
    (if fst d = OUT_SPEAKER then (OUT_RECEIVER, snd d)
     else if fst d = OUT_BT_A2DP then (OUT_BT_SCO, IN_BT_SCO)
     else d)"

definition call_end_spec :: "bool \<Rightarrow> dev \<times> dev \<Rightarrow> dev \<times> dev" where
  "call_end_spec wired_mic d =
    (if fst d = OUT_RECEIVER then (OUT_SPEAKER, snd d)
     else if fst d = OUT_BT_SCO then (OUT_BT_A2DP, if wired_mic then IN_WIRED else IN_MIC)
     else if fst d = OUT_SPEAKER \<or> fst d = OUT_WIRED then d
     else (OUT_SPEAKER, IN_MIC))"

lemma out_ne [simp]:
  "OUT_SPEAKER \<noteq> OUT_BT_A2DP" "OUT_SPEAKER \<noteq> OUT_RECEIVER" "OUT_SPEAKER \<noteq> OUT_WIRED"
  "OUT_SPEAKER \<noteq> OUT_BT_SCO" "OUT_SPEAKER \<noteq> OUT_DOCK" "OUT_RECEIVER \<noteq> OUT_BT_A2DP"
  "OUT_RECEIVER \<noteq> OUT_WIRED" "OUT_RECEIVER \<noteq> OUT_BT_SCO" "OUT_RECEIVER \<noteq> OUT_DOCK"
  "OUT_WIRED \<noteq> OUT_BT_A2DP" "OUT_WIRED \<noteq> OUT_BT_SCO" "OUT_WIRED \<noteq> OUT_DOCK"
  "OUT_BT_SCO \<noteq> OUT_BT_A2DP" "OUT_BT_SCO \<noteq> OUT_DOCK" "OUT_BT_A2DP \<noteq> OUT_DOCK"
  by (simp_all add: dev_bits)

lemmas out_ne_sym [simp] = out_ne [symmetric]

lemma in_ne [simp]: "IN_MIC \<noteq> IN_WIRED" "IN_MIC \<noteq> IN_BT_SCO" "IN_WIRED \<noteq> IN_BT_SCO"
  by (simp_all add: dev_bits)

lemmas in_ne_sym [simp] = in_ne [symmetric]

lemma comm_start_active_spec:
  assumes "one_active s"
  shows "get_device_active (comm_start_active s) = call_start_spec (get_device_active s)"
    "one_active (comm_start_active s)"
  using assms
  by (auto simp: comm_start_active_def get_device_active_def call_start_spec_def is_active_out
      active_effects)

lemma comm_end_active_spec:
  assumes "one_active s"
  shows "get_device_active (comm_end_active s)
      = call_end_spec (IS_AVAILABLE IN_WIRED s) (get_device_active s)"
    "one_active (comm_end_active s)"
proof -
  have "IS_AVAILABLE IN_WIRED (SET_PLAYBACK_ONLY_ACTIVE x s) = IS_AVAILABLE IN_WIRED s" for x
    by (rule available_cong) (simp add: sess_simps)
  with assms show "get_device_active (comm_end_active s)
      = call_end_spec (IS_AVAILABLE IN_WIRED s) (get_device_active s)"
    "one_active (comm_end_active s)"
    by (auto simp: comm_end_active_def get_device_active_def call_end_spec_def is_active_out
        active_effects Let_def)
qed

lemma comm_switch_fields [sess_simps]:
  "device_available (comm_start_active s) = device_available s"
  "session (comm_start_active s) = session s"
  "active_cbs (comm_start_active s) = active_cbs s"
  "avail_cbs (comm_start_active s) = avail_cbs s"
  "device_available (comm_end_active s) = device_available s"
  "session (comm_end_active s) = session s"
  "active_cbs (comm_end_active s) = active_cbs s"
  "avail_cbs (comm_end_active s) = avail_cbs s"
  by (simp_all add: comm_start_active_def comm_end_active_def Let_def sess_simps)

lemma sess_inv_comm_start [simp]: "sess_inv s \<Longrightarrow> sess_inv (comm_start_active s)"
  by (rule sess_inv_active [of s]) (auto simp: sess_simps sess_inv_def comm_start_active_spec)

lemma sess_inv_comm_end [simp]: "sess_inv s \<Longrightarrow> sess_inv (comm_end_active s)"
  by (rule sess_inv_active [of s]) (auto simp: sess_simps sess_inv_def comm_end_active_spec)

lemma avail_wf_receiver:
  assumes "avail_wf s"
  shows "avail_wf (SET_AVAILABLE OUT_RECEIVER s)" "avail_wf (UNSET_AVAILABLE OUT_RECEIVER s)"
proof -
  have z: "OUT_RECEIVER AND OUT_SPEAKER = 0" "OUT_RECEIVER AND IN_MIC = 0"
    "OUT_RECEIVER AND IN_WIRED = 0" "OUT_RECEIVER AND OUT_WIRED = 0"
    "OUT_RECEIVER AND IN_BT_SCO = 0" "OUT_RECEIVER AND OUT_BT_SCO = 0"
    by (simp_all add: dev_bits)
  from assms show "avail_wf (SET_AVAILABLE OUT_RECEIVER s)" "avail_wf (UNSET_AVAILABLE OUT_RECEIVER s)"
    by (simp_all add: avail_wf_def is_available_set is_available_unset_other z)
qed

lemma sess_inv_receiver [simp]:
  assumes "sess_inv s"
  shows "sess_inv (SET_AVAILABLE OUT_RECEIVER s)" "sess_inv (UNSET_AVAILABLE OUT_RECEIVER s)"
  using assms
  by (rule sess_inv_available [of s]; simp add: sess_simps avail_wf_receiver sess_inv_def)+

section \<open>The operations keep the invariant\<close>

lemma sess_inv_communication [simp]:
  "sess_inv s \<Longrightarrow> sess_inv (snd (set_playback_route_communication E st s))"
  by (cases st) (simp_all add: set_playback_route_communication_def Let_def split_beta sess_simps)

lemma sess_inv_set_session [simp]: "sess_inv s \<Longrightarrow> sess_inv (snd (set_session E se st s))"
  by (cases se; cases st)
    (simp_all add: set_session_def set_playback_route_fmradio_def
      set_playback_route_notification_def set_sound_path_to_dual_def Let_def split_beta sess_simps)

lemma sess_inv_set_subsession [simp]: "sess_inv s \<Longrightarrow> sess_inv (snd (set_subsession E x s))"
  by (simp add: set_subsession_def)

lemma sess_inv_set_device_active [simp]:
  "sess_inv s \<Longrightarrow> ou \<in> set out_words \<Longrightarrow> i \<in> set in_words \<Longrightarrow>
    sess_inv (snd (set_device_active E ou i r s))"
  by (simp add: set_device_active_def Let_def)

lemma valid_route_devices:
  assumes "mm_sound_is_route_valid r" "get_devices_from_route r = (i, ou)"
  shows "i \<in> set in_words" "ou \<in> set out_words"
  using assms
  by (auto simp: mm_sound_is_route_valid_def route_search_iff g_valid_route_values
      get_devices_from_route_def in_words_values out_words_values)

lemma sess_inv_set_active_route [simp]:
  assumes "sess_inv s" "mm_sound_is_route_valid r"
  shows "sess_inv (snd (set_active_route E r v s))"
  using assms valid_route_devices [OF assms(2)]
  by (cases "get_devices_from_route r")
    (auto simp: set_active_route_def is_route_available_def Let_def)

lemma sess_inv_registry [simp]:
  assumes "sess_inv s"
  shows "sess_inv (snd (add_active_device_callback p s))"
    "sess_inv (snd (remove_active_device_callback p s))"
    "sess_inv (snd (add_available_route_callback p s))"
    "sess_inv (snd (remove_available_route_callback p s))"
  using assms
  by (auto simp: sess_inv_def add_active_device_callback_def remove_active_device_callback_def
      add_available_route_callback_def remove_available_route_callback_def cb_list_add_distinct
      cb_list_remove_distinct one_active_def avail_wf_def IS_AVAILABLE_def)

end
