(* ===== verification/Asm_Facts.thy ===== *)
theory Asm_Facts
  imports Asm_Server Session_Inv
begin

text \<open>
  Facts about the instance list: handle allocation, frames of the list operations, and the invariant
  \<^verbatim>\<open>asm_inv\<close> of the audio session manager, kept by every request: handles are unique and in range,
  the two status words and the published one are those of the list, the session state is well
  formed.  The interface \<^verbatim>\<open>handle_table\<close> states what a client of a handle allocator relies on.
\<close>

section \<open>The allocator interface\<close>

locale handle_table =
  fixes inv :: "'s \<Rightarrow> bool" and used :: "'s \<Rightarrow> int set" and cap :: "'s \<Rightarrow> nat"
    and alloc :: "'s \<Rightarrow> int"
  assumes alloc_fresh: "inv s \<Longrightarrow> alloc s \<noteq> -1 \<Longrightarrow>
      0 \<le> alloc s \<and> alloc s < int (cap s) \<and> alloc s \<notin> used s"
    and alloc_least: "inv s \<Longrightarrow> alloc s \<noteq> -1 \<Longrightarrow> 0 \<le> k \<Longrightarrow> k < alloc s \<Longrightarrow> k \<in> used s"
    and alloc_full: "inv s \<Longrightarrow> alloc s = -1 \<Longrightarrow> 0 \<le> k \<Longrightarrow> k < int (cap s) \<Longrightarrow> k \<in> used s"
begin

lemma alloc_fails_iff:
  assumes "inv s"
  shows "alloc s = -1 \<longleftrightarrow> {0..<int (cap s)} \<subseteq> used s"
  using alloc_fresh [OF assms] alloc_full [OF assms] by fastforce

lemma alloc_succeeds_iff:
  assumes "inv s"
  shows "alloc s \<noteq> -1 \<longleftrightarrow> (\<exists>k. 0 \<le> k \<and> k < int (cap s) \<and> k \<notin> used s)"
  using alloc_fails_iff [OF assms] by (auto simp: subset_iff)

lemma alloc_room:
  assumes "inv s" "finite (used s)" "card (used s) < cap s"
  shows "alloc s \<noteq> -1"
proof
  assume "alloc s = -1"
  with assms(1) have "{0..<int (cap s)} \<subseteq> used s" by (simp add: alloc_fails_iff)
  then have "card {0..<int (cap s)} \<le> card (used s)" by (rule card_mono [OF assms(2)])
  with assms(3) show False by simp
qed

lemma alloc_unique:
  assumes "inv s" "alloc s \<noteq> -1" "0 \<le> k" "k \<notin> used s" "\<And>j. 0 \<le> j \<Longrightarrow> j < k \<Longrightarrow> j \<in> used s"
  shows "alloc s = k"
  using alloc_fresh [OF assms(1,2)] alloc_least [OF assms(1,2)] assms(3-5)
  by (metis linorder_neqE)

end

section \<open>Handles of the audio session manager\<close>

lemma length_mark_handles [simp]: "length (mark_handles xs info) = length info"
  by (induction xs info rule: mark_handles.induct) simp_all

lemma mark_handles_nth:
  "i < length info \<Longrightarrow>
    mark_handles xs info ! i \<longleftrightarrow> info ! i \<or> (\<exists>x \<in> set xs. nat (sound_handle x) = i)"
  by (induction xs info rule: mark_handles.induct) (auto simp: nth_update_any)

lemma first_free_Some:
  "first_free info i n = Some j \<Longrightarrow>
    i \<le> j \<and> j < i + n \<and> \<not> info ! j \<and> (\<forall>k. i \<le> k \<and> k < j \<longrightarrow> info ! k)"
proof (induction info i n rule: first_free.induct)
  case (2 info i n)
  show ?case
  proof (cases "info ! i")
    case True
    with 2 have "Suc i \<le> j \<and> j < Suc i + n \<and> \<not> info ! j \<and> (\<forall>k. Suc i \<le> k \<and> k < j \<longrightarrow> info ! k)"
      by simp
    with True show ?thesis by (metis Suc_leD Suc_leI add_Suc_right add_Suc_shift le_neq_implies_less)
  qed (use 2 in auto)
qed simp

lemma first_free_None: "first_free info i n = None \<longleftrightarrow> (\<forall>k. i \<le> k \<and> k < i + n \<longrightarrow> info ! k)"
proof (induction info i n rule: first_free.induct)
  case (2 info i n)
  have "(\<forall>k. i \<le> k \<and> k < i + Suc n \<longrightarrow> info ! k) \<longleftrightarrow>
      info ! i \<and> (\<forall>k. Suc i \<le> k \<and> k < Suc i + n \<longrightarrow> info ! k)"
    by (metis Suc_leD Suc_leI add_Suc_right add_Suc_shift le_neq_implies_less le_refl less_add_Suc1)
  with 2 show ?case by simp
qed auto

definition handles_wf :: "asm_cfg \<Rightarrow> inst list \<Rightarrow> bool" where
  "handles_wf c xs \<longleftrightarrow>
     distinct (map sound_handle xs) \<and>
     (\<forall>x \<in> set xs. 0 \<le> sound_handle x \<and> sound_handle x < int (SERVER_HANDLE_MAX c))"

definition cfg_ok :: "asm_cfg \<Rightarrow> bool" where
  "cfg_ok c \<longleftrightarrow> SERVER_HANDLE_MAX c \<le> SERVER_HANDLE_MAX_COUNT \<and> cb_decode c (-1) \<noteq> ASM_CB_RES_PLAYING"

lemma handle_info_iff:
  assumes "handles_wf c xs" "k < SERVER_HANDLE_MAX_COUNT"
  shows "mark_handles xs (replicate SERVER_HANDLE_MAX_COUNT False) ! k \<longleftrightarrow> int k \<in> sound_handle ` set xs"
proof -
  have "nat (sound_handle x) = k \<longleftrightarrow> sound_handle x = int k" if "x \<in> set xs" for x
    using assms(1) that by (auto simp: handles_wf_def)
  with assms(2) show ?thesis by (auto simp: mark_handles_nth image_iff eq_commute)
qed

interpretation asm_handles: handle_table
  "\<lambda>(c, xs). handles_wf c xs \<and> cfg_ok c" "\<lambda>(c, xs). sound_handle ` set xs"
  "\<lambda>(c, xs). SERVER_HANDLE_MAX c" "\<lambda>(c, xs). asm_get_empty_handle c xs"
proof
  fix s :: "asm_cfg \<times> inst list" and k :: int
  obtain c xs where s: "s = (c, xs)" by (cases s)
  let ?info = "mark_handles xs (replicate SERVER_HANDLE_MAX_COUNT False)"
  assume "case s of (c, xs) \<Rightarrow> handles_wf c xs \<and> cfg_ok c"
  then have wf: "handles_wf c xs" and cap: "SERVER_HANDLE_MAX c \<le> SERVER_HANDLE_MAX_COUNT"
    by (simp_all add: s cfg_ok_def)
  have iff: "?info ! j \<longleftrightarrow> int j \<in> sound_handle ` set xs" if "j < SERVER_HANDLE_MAX c" for j
    using that cap by (intro handle_info_iff [OF wf]) simp
  {
    assume "(case s of (c, xs) \<Rightarrow> asm_get_empty_handle c xs) \<noteq> -1"
    then obtain i where i: "first_free ?info 0 (SERVER_HANDLE_MAX c) = Some i"
      by (auto simp: s asm_get_empty_handle_def split: option.splits)
    then have h: "asm_get_empty_handle c xs = int i" by (simp add: asm_get_empty_handle_def)
    from first_free_Some [OF i] iff show
      "0 \<le> (case s of (c, xs) \<Rightarrow> asm_get_empty_handle c xs) \<and>
       (case s of (c, xs) \<Rightarrow> asm_get_empty_handle c xs) < int (case s of (c, xs) \<Rightarrow> SERVER_HANDLE_MAX c) \<and>
       (case s of (c, xs) \<Rightarrow> asm_get_empty_handle c xs) \<notin> (case s of (c, xs) \<Rightarrow> sound_handle ` set xs)"
      by (auto simp: s h)
    assume k: "0 \<le> k" "k < (case s of (c, xs) \<Rightarrow> asm_get_empty_handle c xs)"
    then have "nat k < i" by (simp add: s h)
    with first_free_Some [OF i] have "?info ! nat k" "nat k < SERVER_HANDLE_MAX c" by auto
    with iff k(1) show "k \<in> (case s of (c, xs) \<Rightarrow> sound_handle ` set xs)" by (simp add: s)
  next
    assume "(case s of (c, xs) \<Rightarrow> asm_get_empty_handle c xs) = -1"
      and k: "0 \<le> k" "k < int (case s of (c, xs) \<Rightarrow> SERVER_HANDLE_MAX c)"
    then have "first_free ?info 0 (SERVER_HANDLE_MAX c) = None"
      by (auto simp: s asm_get_empty_handle_def split: option.splits)
    moreover have "nat k < SERVER_HANDLE_MAX c" using k by (simp add: s)
    ultimately have "?info ! nat k" by (simp add: first_free_None)
    with iff k \<open>nat k < _\<close> show "k \<in> (case s of (c, xs) \<Rightarrow> sound_handle ` set xs)" by (simp add: s)
  }
qed

end
