(* ===== verification/Asm_Inv.thy ===== *)
theory Asm_Inv
  imports Asm_Facts
begin

text \<open>
  The invariant of the audio session manager and its preservation, one lemma per operation and one
  per request, summed up for the message loop.
\<close>

section \<open>What the list operations keep\<close>

text \<open>Handles, and the pairs of event and state that determine the status words.\<close>

abbreviation handles :: "inst list \<Rightarrow> int list" where
  "handles xs \<equiv> map sound_handle xs"

abbreviation owners :: "inst list \<Rightarrow> (pid \<times> int) list" where
  "owners xs \<equiv> map (\<lambda>x. (instance_id x, sound_handle x)) xs"

abbreviation sounds :: "inst list \<Rightarrow> (asm_event \<times> asm_sstate) list" where
  "sounds xs \<equiv> map (\<lambda>x. (sound_event x, sound_state x)) xs"

lemma status_bits_cong:
  "sounds xs = sounds ys \<Longrightarrow> status_bits c st xs w = status_bits c st ys w"
proof (induction xs arbitrary: ys w)
  case (Cons x xs)
  from Cons.prems obtain y ys' where ys: "ys = y # ys'" and eq: "sounds xs = sounds ys'"
    and xy: "sound_event x = sound_event y" "sound_state x = sound_state y"
    by (cases ys) auto
  show ?case by (simp add: ys xy Cons.IH [OF eq])
qed simp

lemma handles_owners:
  assumes "owners xs = owners ys"
  shows "handles xs = handles ys"
  using arg_cong [OF assms, of "map snd"] by (simp add: comp_def)

lemma handles_wf_cong:
  assumes "handles xs = handles ys"
  shows "handles_wf c xs \<longleftrightarrow> handles_wf c ys"
proof -
  have "sound_handle ` set xs = sound_handle ` set ys"
    using arg_cong [OF assms, of set] by simp
  then have "(\<forall>x \<in> set xs. 0 \<le> sound_handle x \<and> sound_handle x < n) \<longleftrightarrow>
      (\<forall>x \<in> set ys. 0 \<le> sound_handle x \<and> sound_handle x < n)" for n
    by (metis (mono_tags, lifting) imageE imageI)
  with assms show ?thesis by (simp add: handles_wf_def)
qed

lemma update_monitor_active_keeps [asm_simps]:
  "owners (update_monitor_active p xs) = owners xs" "sounds (update_monitor_active p xs) = sounds xs"
  "length (update_monitor_active p xs) = length xs"
  by (simp_all add: update_monitor_active_def Let_def map_update_first_keep)

lemma set_monitor_dirty_keeps [asm_simps]:
  "owners (set_monitor_dirty p xs) = owners xs" "sounds (set_monitor_dirty p xs) = sounds xs"
  by (simp_all add: set_monitor_dirty_def map_update_first_keep)

lemma set_all_monitor_clean_keeps [asm_simps]:
  "owners (set_all_monitor_clean xs) = owners xs" "sounds (set_all_monitor_clean xs) = sounds xs"
  by (auto simp: set_all_monitor_clean_def)

lemma change_need_resume_keeps [asm_simps]:
  "owners (asm_change_need_resume_list p h r xs) = owners xs"
  "sounds (asm_change_need_resume_list p h r xs) = sounds xs"
  by (simp_all add: asm_change_need_resume_list_def map_update_first_keep)

lemma update_state_owners [asm_simps]:
  "owners (update_first P (\<lambda>x. x\<lparr>sound_state := st, mm_resource := res\<rparr>) xs) = owners xs"
  by (rule map_update_first_keep) simp

lemma updatePhoneStatus_fields [asm_simps]:
  "insts (updatePhoneStatus c s) = insts s" "asess (updatePhoneStatus c s) = asess s"
  "acalls (updatePhoneStatus c s) = acalls s" "is_gcf (updatePhoneStatus c s) = is_gcf s"
  by (simp_all add: updatePhoneStatus_def)

lemma asm_log_fields [asm_simps]:
  "insts (asm_log x s) = insts s" "asess (asm_log x s) = asess s" "is_gcf (asm_log x s) = is_gcf s"
  "g_status_playing (asm_log x s) = g_status_playing s"
  "g_status_pause (asm_log x s) = g_status_pause s" "vconf_status (asm_log x s) = vconf_status s"
  by (simp_all add: asm_log_def)

lemma do_callback_fields [asm_simps]:
  "insts (snd (do_callback c E p h cmd src s)) = insts s"
  "asess (snd (do_callback c E p h cmd src s)) = asess s"
  "is_gcf (snd (do_callback c E p h cmd src s)) = is_gcf s"
  "g_status_playing (snd (do_callback c E p h cmd src s)) = g_status_playing s"
  "g_status_pause (snd (do_callback c E p h cmd src s)) = g_status_pause s"
  "vconf_status (snd (do_callback c E p h cmd src s)) = vconf_status s"
  by (simp_all add: do_callback_def Let_def asm_simps split: client_reply.split)

lemma asm_set_session_fields [asm_simps]:
  "insts (asm_set_session E se st s) = insts s" "is_gcf (asm_set_session E se st s) = is_gcf s"
  "g_status_playing (asm_set_session E se st s) = g_status_playing s"
  "g_status_pause (asm_set_session E se st s) = g_status_pause s"
  "vconf_status (asm_set_session E se st s) = vconf_status s"
  "acalls (asm_set_session E se st s) = acalls s"
  by (simp_all add: asm_set_session_def)

text \<open>Resuming keeps all states: the answer to a resume command is never that the client plays.\<close>

lemma do_callback_resume:
  "cb_decode c (-1) \<noteq> ASM_CB_RES_PLAYING \<Longrightarrow>
    fst (do_callback c E p h ASM_COMMAND_RESUME src s) \<noteq> ASM_CB_RES_PLAYING"
  by (simp add: do_callback_def Let_def split: client_reply.split)

lemma resume_nodes_keeps:
  assumes "cb_decode c (-1) \<noteq> ASM_CB_RES_PLAYING"
  shows "fst (resume_nodes c E src xs s) = map (\<lambda>x. x\<lparr>need_resume := ASM_NEED_NOT_RESUME\<rparr>) xs"
proof (induction xs arbitrary: s)
  case (Cons x xs)
  have "x\<lparr>need_resume := ASM_NEED_NOT_RESUME\<rparr> = x" if "need_resume x \<noteq> ASM_NEED_RESUME"
    using that by (cases x; cases "need_resume x") simp_all
  with Cons do_callback_resume [OF assms] show ?case
    by (auto simp: Let_def split_beta split: asm_cb_res.split)
qed simp

lemma resume_nodes_fields [asm_simps]:
  "insts (snd (resume_nodes c E src xs s)) = insts s"
  "asess (snd (resume_nodes c E src xs s)) = asess s"
  "is_gcf (snd (resume_nodes c E src xs s)) = is_gcf s"
  "g_status_playing (snd (resume_nodes c E src xs s)) = g_status_playing s"
  "g_status_pause (snd (resume_nodes c E src xs s)) = g_status_pause s"
  "vconf_status (snd (resume_nodes c E src xs s)) = vconf_status s"
  by (induction xs arbitrary: s) (simp_all add: Let_def split_beta asm_simps)

section \<open>The invariant\<close>

definition status_ok :: "asm_cfg \<Rightarrow> asm \<Rightarrow> bool" where
  "status_ok c s \<longleftrightarrow>
     g_status_playing s = status_bits c ASM_STATE_PLAYING (insts s) 0 \<and>
     g_status_pause s = status_bits c ASM_STATE_PAUSE (insts s) 0 \<and>
     vconf_status s = g_status_playing s"

definition asm_inv :: "asm_cfg \<Rightarrow> asm \<Rightarrow> bool" where
  "asm_inv c s \<longleftrightarrow> handles_wf c (insts s) \<and> status_ok c s \<and> sess_inv (asess s)"

lemma status_ok_update [simp]: "status_ok c (updatePhoneStatus c s)"
  by (simp add: status_ok_def updatePhoneStatus_def)

text \<open>A step that keeps owners, sounds and status words keeps the invariant.\<close>

lemma asm_inv_same:
  assumes "asm_inv c s" "owners (insts s') = owners (insts s)" "sounds (insts s') = sounds (insts s)"
    "g_status_playing s' = g_status_playing s" "g_status_pause s' = g_status_pause s"
    "vconf_status s' = vconf_status s" "sess_inv (asess s')"
  shows "asm_inv c s'"
  using assms handles_wf_cong [OF handles_owners [OF assms(2)]] status_bits_cong [OF assms(3)]
  by (simp add: asm_inv_def status_ok_def)

text \<open>A step that ends in a status update needs only the handles.\<close>

lemma asm_inv_updated:
  assumes "handles_wf c (insts s)" "sess_inv (asess s)"
  shows "asm_inv c (updatePhoneStatus c s)"
  using assms by (simp add: asm_inv_def asm_simps)

lemma handles_wf_filter:
  assumes "handles_wf c xs"
  shows "handles_wf c (drop_dead E xs)" "handles_wf c (remove_first P xs)"
proof -
  have "set (drop_dead E xs) \<subseteq> set xs" "distinct (handles xs) \<Longrightarrow> distinct (handles (drop_dead E xs))"
    by (induction xs) auto
  with assms show "handles_wf c (drop_dead E xs)" by (auto simp: handles_wf_def)
  from assms set_remove_first_subset [of P xs] distinct_map_remove_first [of sound_handle xs P]
  show "handles_wf c (remove_first P xs)" by (auto simp: handles_wf_def)
qed

lemma asm_inv_sess: "asm_inv c s \<Longrightarrow> sess_inv (asess s)"
  by (simp add: asm_inv_def)

lemma asm_inv_log [simp]: "asm_inv c s \<Longrightarrow> asm_inv c (asm_log x s)"
  by (rule asm_inv_same [of c s]) (simp_all add: asm_simps asm_inv_sess)

lemma asm_inv_callback [simp]: "asm_inv c s \<Longrightarrow> asm_inv c (snd (do_callback c E p h cmd src s))"
  by (rule asm_inv_same [of c s]) (simp_all add: asm_simps asm_inv_sess)

lemma asm_inv_set_session [simp]: "asm_inv c s \<Longrightarrow> asm_inv c (asm_set_session E se st s)"
  by (rule asm_inv_same [of c s])
    (simp_all add: asm_simps asm_inv_sess asm_set_session_def)

lemma asm_inv_asess [simp]: "asm_inv c s \<Longrightarrow> sess_inv x \<Longrightarrow> asm_inv c (s\<lparr>asess := x\<rparr>)"
  by (rule asm_inv_same [of c s]) simp_all

lemma asm_inv_need_resume [simp]:
  "asm_inv c s \<Longrightarrow> asm_inv c (s\<lparr>insts := asm_change_need_resume_list p h r (insts s)\<rparr>)"
  by (rule asm_inv_same [of c s]) (simp_all add: asm_simps asm_inv_sess)

lemma asm_inv_dirty [simp]: "asm_inv c s \<Longrightarrow> asm_inv c (s\<lparr>insts := set_monitor_dirty p (insts s)\<rparr>)"
  by (rule asm_inv_same [of c s]) (simp_all add: asm_simps asm_inv_sess)

lemma asm_inv_clean [simp]: "asm_inv c s \<Longrightarrow> asm_inv c (s\<lparr>insts := set_all_monitor_clean (insts s)\<rparr>)"
  by (rule asm_inv_same [of c s]) (simp_all add: asm_simps asm_inv_sess)

lemma asm_inv_change_state [simp]:
  "asm_inv c s \<Longrightarrow> asm_inv c (asm_change_state_list c p h st res s)"
proof -
  assume s: "asm_inv c s"
  let ?s = "s\<lparr>insts := update_monitor_active p
    (update_first (\<lambda>x. instance_id x = p \<and> sound_handle x = h)
      (\<lambda>x. x\<lparr>sound_state := st, mm_resource := res\<rparr>) (insts s))\<rparr>"
  have "owners (insts ?s) = owners (insts s)"
    by (simp add: asm_simps)
  from handles_wf_cong [OF handles_owners [OF this]] s
  have "handles_wf c (insts ?s)" "sess_inv (asess ?s)" by (simp_all add: asm_inv_def)
  with s show ?thesis unfolding asm_change_state_list_def by (simp add: asm_inv_updated)
qed

lemma asm_inv_check_dead [simp]: "asm_inv c s \<Longrightarrow> asm_inv c (check_dead_process c E s)"
  unfolding check_dead_process_def
  by (rule asm_inv_updated) (simp_all add: asm_inv_def handles_wf_filter)

lemma asm_inv_unregister [simp]: "asm_inv c s \<Longrightarrow> asm_inv c (snd (asm_unregister_list c h s))"
  unfolding asm_unregister_list_def
  by (simp, rule asm_inv_updated) (simp_all add: asm_inv_def handles_wf_filter)

lemma asm_inv_register:
  assumes "asm_inv c s" "0 \<le> h" "h < int (SERVER_HANDLE_MAX c)" "h \<notin> sound_handle ` set (insts s)"
  shows "asm_inv c (asm_register_list c p h ev st res s)"
  unfolding asm_register_list_def
  by (rule asm_inv_updated) (use assms in \<open>auto simp: asm_inv_def handles_wf_def\<close>)

lemma asm_inv_resume_all:
  assumes "asm_inv c s" "cfg_ok c"
  shows "asm_inv c (asm_do_all_resume_callback c E src s)"
proof -
  from assms(2) have "cb_decode c (-1) \<noteq> ASM_CB_RES_PLAYING" by (simp add: cfg_ok_def)
  from resume_nodes_keeps [OF this]
  show ?thesis
    by (intro asm_inv_same [OF assms(1)])
      (simp_all add: asm_do_all_resume_callback_def split_beta asm_simps asm_inv_sess [OF assms(1)]
        comp_def)
qed

lemma asm_inv_emergent_exit: "asm_inv c s \<Longrightarrow> asm_inv c (emergent_exit c p s)"
proof (induction c p s rule: emergent_exit.induct)
  case (1 c p s)
  show ?case
  proof (cases "find (\<lambda>x. instance_id x = p) (insts s)")
    case (Some x)
    show ?thesis
      by (subst emergent_exit.simps) (use 1 Some in \<open>simp add: Let_def split_beta\<close>)
  qed (subst emergent_exit.simps, use 1 in simp)
qed

section \<open>The policy keeps the invariant\<close>

text \<open>The conflict handlers change states but neither add nor remove nodes.\<close>

lemma change_state_owners [asm_simps]:
  "owners (insts (asm_change_state_list c p h st res s)) = owners (insts s)"
  "is_gcf (asm_change_state_list c p h st res s) = is_gcf s"
  "asess (asm_change_state_list c p h st res s) = asess s"
  "acalls (asm_change_state_list c p h st res s) = acalls s"
  by (simp_all add: asm_change_state_list_def asm_simps)

lemma stop_monitor_owners [asm_simps]:
  "owners (insts (stop_monitor c E p src b s)) = owners (insts s)"
  "sounds (insts (stop_monitor c E p src b s)) = sounds (insts s)"
  "is_gcf (stop_monitor c E p src b s) = is_gcf s"
  "asess (stop_monitor c E p src b s) = asess s"
  by (simp_all add: stop_monitor_def Let_def asm_simps split: option.split)

lemma stop_monitor_inv [simp]: "asm_inv c s \<Longrightarrow> asm_inv c (stop_monitor c E p src b s)"
  by (rule asm_inv_same [of c s])
    (simp_all add: stop_monitor_def Let_def asm_simps asm_inv_sess split: option.split)

lemma mark_resume_owners [asm_simps]:
  "owners (insts (mark_resume ev p h s)) = owners (insts s)"
  "sounds (insts (mark_resume ev p h s)) = sounds (insts s)"
  "is_gcf (mark_resume ev p h s) = is_gcf s"
  "asess (mark_resume ev p h s) = asess s"
  by (simp_all add: mark_resume_def asm_simps)

lemma mark_resume_inv [simp]: "asm_inv c s \<Longrightarrow> asm_inv c (mark_resume ev p h s)"
  by (simp add: mark_resume_def)

lemma end_fmradio_owners [asm_simps]:
  "insts (end_fmradio_session E s) = insts s" "is_gcf (end_fmradio_session E s) = is_gcf s"
  by (simp_all add: end_fmradio_session_def asm_simps)

lemma end_fmradio_inv [simp]: "asm_inv c s \<Longrightarrow> asm_inv c (end_fmradio_session E s)"
  by (simp add: end_fmradio_session_def)

lemma conflict_owners [asm_simps]:
  "owners (insts (conflict_stop c E r x s)) = owners (insts s)"
  "owners (insts (conflict_pause c E r x s)) = owners (insts s)"
  "owners (insts (conflict_mix c E r x s)) = owners (insts s)"
  "owners (insts (conflict_paused c E r x s)) = owners (insts s)"
  by (simp_all add: conflict_stop_def conflict_pause_def conflict_mix_def conflict_paused_def
      Let_def split_beta asm_simps)

lemma conflict_inv [simp]:
  assumes "asm_inv c s"
  shows "asm_inv c (conflict_stop c E r x s)" "asm_inv c (conflict_pause c E r x s)"
    "asm_inv c (conflict_mix c E r x s)" "asm_inv c (conflict_paused c E r x s)"
  using assms
  by (simp_all add: conflict_stop_def conflict_pause_def conflict_mix_def conflict_paused_def
      Let_def split_beta)

text \<open>A registration needs a handle that is in range and not in the list.\<close>

definition fresh_handle :: "asm_cfg \<Rightarrow> asm_req \<Rightarrow> asm \<Rightarrow> bool" where
  "fresh_handle c r s \<longleftrightarrow>
     0 \<le> rq_handle r \<and> rq_handle r < int (SERVER_HANDLE_MAX c) \<and>
     rq_handle r \<notin> set (handles (insts s))"

lemma fresh_handle_owners:
  "owners (insts s') = owners (insts s) \<Longrightarrow> fresh_handle c r s' \<longleftrightarrow> fresh_handle c r s"
  using handles_owners [of "insts s'" "insts s"] by (simp add: fresh_handle_def)

lemma enter_request_inv:
  assumes "asm_inv c s" "rq_id r = ASM_REQUEST_REGISTER \<Longrightarrow> fresh_handle c r s"
  shows "asm_inv c (enter_request c r s)"
  using assms by (simp add: enter_request_def asm_inv_register fresh_handle_def)

text \<open>What the loop over playing nodes needs and keeps.\<close>

definition policy_ok :: "asm_cfg \<Rightarrow> asm_req \<Rightarrow> policy \<Rightarrow> bool" where
  "policy_ok c r p \<longleftrightarrow>
     (case p of (upd, m, s) \<Rightarrow>
       asm_inv c s \<and> (rq_id r = ASM_REQUEST_REGISTER \<longrightarrow> upd \<or> fresh_handle c r s))"

lemma enter_once_ok:
  assumes "policy_ok c r (upd, m, s)"
  shows "policy_ok c r (enter_once c r cmd upd m s)"
  using assms enter_request_inv [of c s r] by (auto simp: policy_ok_def enter_once_def)

lemma conflict_ok:
  assumes "policy_ok c r (upd, m, s)"
  shows "policy_ok c r (upd, m, conflict_stop c E r x s)"
    "policy_ok c r (upd, m, conflict_pause c E r x s)"
    "policy_ok c r (upd, m, conflict_mix c E r x s)"
  using assms
  by (auto simp: policy_ok_def fresh_handle_owners [OF conflict_owners(1)]
      fresh_handle_owners [OF conflict_owners(2)] fresh_handle_owners [OF conflict_owners(3)])

lemma policy_msg_ok: "policy_ok c r (upd, m, s) \<Longrightarrow> policy_ok c r (upd, m', s)"
  by (simp add: policy_ok_def)

lemma policy_node_ok:
  assumes "policy_ok c r (upd, m, s)"
  shows "policy_ok c r (snd (policy_node c E r x upd m s))"
  using assms
  by (auto simp: policy_node_def intro: enter_once_ok conflict_ok policy_msg_ok
      split: asm_case.split)

lemma playing_loop_ok:
  "policy_ok c r (upd, m, s) \<Longrightarrow> policy_ok c r (playing_loop c E r n upd m s)"
proof (induction n arbitrary: upd m s)
  case (Suc n)
  show ?case
  proof (cases "policy_node c E r (node_at n (insts s)) upd m s")
    case (fields skip upd1 m1 s1)
    with policy_node_ok [OF Suc.prems, of E "node_at n (insts s)"]
    have "policy_ok c r (upd1, m1, s1)" by simp
    with Suc fields show ?thesis by (simp add: Let_def)
  qed
qed simp

lemma paused_loop_inv [simp]: "asm_inv c s \<Longrightarrow> asm_inv c (paused_loop c E r n s)"
  by (induction n arbitrary: s) (simp_all add: Let_def)

lemma paused_loop_owners [asm_simps]:
  "owners (insts (paused_loop c E r n s)) = owners (insts s)"
  by (induction n arbitrary: s) (simp_all add: Let_def asm_simps)

lemma compare_priority_inv:
  assumes "asm_inv c s" "rq_id r = ASM_REQUEST_REGISTER \<Longrightarrow> fresh_handle c r s"
  shows "asm_inv c (snd (asm_compare_priority_matrix c E has_ret m r s))"
proof -
  have "policy_ok c r (False, m, s)" using assms by (simp add: policy_ok_def)
  then have "policy_ok c r (playing_loop c E r (length (insts s)) False m s)"
    by (rule playing_loop_ok)
  then have loop: "asm_inv c (snd (snd (playing_loop c E r (length (insts s)) False m s)))"
    by (auto simp: policy_ok_def)
  have fresh: "fresh_handle c r (paused_loop c E r n s) \<longleftrightarrow> fresh_handle c r s" for n
    by (rule fresh_handle_owners) (simp add: asm_simps)
  from loop assms show ?thesis
    by (auto simp: asm_compare_priority_matrix_def Let_def split_beta fresh
        intro!: enter_request_inv asm_inv_log)
qed

section \<open>Every request keeps the invariant\<close>

lemma set_ret_inv [simp]: "asm_inv c s \<Longrightarrow> asm_inv c (set_ret b m s)"
  by (simp add: set_ret_def)

lemma fresh_after_alloc:
  assumes "asm_inv c s" "cfg_ok c" "asm_get_empty_handle c (insts s) \<noteq> -1"
  shows "fresh_handle c (r\<lparr>rq_handle := asm_get_empty_handle c (insts s)\<rparr>) s"
  using asm_handles.alloc_fresh [of "(c, insts s)"] assms
  by (simp add: fresh_handle_def asm_inv_def)

lemma process_register_inv:
  assumes "asm_inv c s" "cfg_ok c"
  shows "asm_inv c (snd (process_register c E has_ret junk r s))"
proof -
  let ?s = "check_dead_process c E s"
  let ?h = "asm_get_empty_handle c (insts ?s)"
  have s: "asm_inv c ?s" using assms(1) by simp
  have "asm_inv c (snd (asm_compare_priority_matrix c E has_ret m (r\<lparr>rq_handle := ?h\<rparr>) ?s))"
    if "?h \<noteq> -1" for m
    by (rule compare_priority_inv [OF s fresh_after_alloc [OF s assms(2) that]])
  with s assms(1) show ?thesis
    by (simp add: process_register_def Let_def split_beta start_call_session_def)
qed

lemma process_unregister_inv:
  assumes "asm_inv c s" "cfg_ok c"
  shows "asm_inv c (snd (process_unregister c E junk r s))"
  using assms
  by (simp add: process_unregister_def Let_def asm_inv_resume_all split: asm_event.split)

lemma start_media_inv [simp]: "asm_inv c s \<Longrightarrow> asm_inv c (start_media_session E ev s)"
  by (simp add: start_media_session_def)

lemma process_setstate_inv:
  assumes "asm_inv c s" "rq_id r = ASM_REQUEST_SETSTATE"
  shows "asm_inv c (snd (process_setstate c E has_ret junk r s))"
proof -
  have "asm_inv c (snd (asm_compare_priority_matrix c E has_ret junk r (check_dead_process c E s)))"
    by (rule compare_priority_inv) (simp_all add: assms)
  with assms show ?thesis
    by (simp add: process_setstate_def Let_def split_beta)
qed

lemma process_message_inv:
  assumes "asm_inv c s" "cfg_ok c"
  shows "asm_inv c (snd (asm_process_message c E has_ret junk r s))"
  using assms process_register_inv [OF assms] process_unregister_inv [OF assms]
    process_setstate_inv [OF assms(1)] asm_inv_sess [OF assms(1)]
  by (cases "rq_id r")
    (simp_all add: asm_process_message_def process_getstate_def process_getmystate_def
      process_set_subsession_def process_get_subsession_def Let_def asm_inv_emergent_exit)

lemma asm_main_run_inv:
  "asm_inv c s \<Longrightarrow> cfg_ok c \<Longrightarrow> asm_inv c (asm_main_run c rs s)"
proof (induction rs arbitrary: s)
  case (Cons q rs)
  then show ?case by (cases q) (simp add: process_message_inv)
qed simp

end
