(* ===== verification/Session_Events.thy ===== *)
theory Session_Events
  imports Asm_Inv
begin

text \<open>
  Device events of the session manager (\<^verbatim>\<open>server/mm_sound_mgr_session.c\<close>): headset, Bluetooth and
  dock come and go, the start and the end of the manager.  When a device in use goes away, the
  handlers pause the running sounds through the audio session manager library, which is not under
  \<^verbatim>\<open>src/\<close> but is given \<^verbatim>\<open>__asm_process_message\<close> as a function pointer: the parameter \<^verbatim>\<open>asm_lib\<close> says
  which requests the library passes to that function and how it judges the replies; the requests
  are then served by the model of the function itself.
\<close>

section \<open>The library\<close>

datatype lib_call =
    LibRegister asm_event asm_sstate
  | LibSetState int asm_event asm_sstate
  | LibUnregister int asm_event

record asm_lib =
  lib_requests :: "lib_call \<Rightarrow> (asm_env \<times> reply \<times> asm_req) list"
  lib_ok :: "lib_call \<Rightarrow> reply list \<Rightarrow> bool"
  lib_handle :: "lib_call \<Rightarrow> reply list \<Rightarrow> int option"
  dock_sound_ends :: bool

fun serve_requests ::
  "asm_cfg \<Rightarrow> (asm_env \<times> reply \<times> asm_req) list \<Rightarrow> asm \<Rightarrow> reply list \<times> asm" where
  "serve_requests c [] s = ([], s)"
| "serve_requests c ((E, junk, r) # qs) s =
    (let (m, s1) = asm_process_message c E True junk r s;
         (ms, s2) = serve_requests c qs s1
     in (m # ms, s2))"

definition lib_run :: "asm_cfg \<Rightarrow> asm_lib \<Rightarrow> lib_call \<Rightarrow> asm \<Rightarrow> bool \<times> int option \<times> asm" where
  "lib_run c L q s =
    (let (ms, s1) = serve_requests c (lib_requests L q) s
     in (lib_ok L q ms, lib_handle L q ms, s1))"

definition on_sess :: "(sess \<Rightarrow> sess) \<Rightarrow> asm \<Rightarrow> asm" where
  "on_sess f s = s\<lparr>asess := f (asess s)\<rparr>"

section \<open>The headset handle\<close>

definition asm_register_for_headset :: "asm_cfg \<Rightarrow> asm_lib \<Rightarrow> asm \<Rightarrow> bool \<times> asm" where
  "asm_register_for_headset c L s =
    (let (ok, h, s1) = lib_run c L (LibRegister ASM_EVENT_EARJACK_UNPLUG ASM_STATE_NONE) s
     in (ok, case h of None \<Rightarrow> s1 | Some i \<Rightarrow> on_sess (\<lambda>t. t\<lparr>asm_handle := i\<rparr>) s1))"

definition asm_unregister_for_headset :: "asm_cfg \<Rightarrow> asm_lib \<Rightarrow> asm \<Rightarrow> bool \<times> asm" where
  "asm_unregister_for_headset c L s =
    (let (ok, h, s1) = lib_run c L (LibUnregister (asm_handle (asess s)) ASM_EVENT_EARJACK_UNPLUG) s
     in (ok, s1))"

text \<open>The handle is passed by value, so a registration made here is not the handle used below.\<close>

definition asm_pause_process :: "asm_cfg \<Rightarrow> asm_lib \<Rightarrow> int \<Rightarrow> asm \<Rightarrow> asm" where
  "asm_pause_process c L h s =
    (let s1 = (if asm_handle (asess s) = -1 then snd (asm_register_for_headset c L s) else s);
         s2 = on_sess (out_call (AsmPauseProcess h)) s1;
         (ok1, h1, s3) = lib_run c L (LibSetState h ASM_EVENT_EARJACK_UNPLUG ASM_STATE_PLAYING) s2;
         (ok2, h2, s4) = lib_run c L (LibSetState h ASM_EVENT_EARJACK_UNPLUG ASM_STATE_STOP) s3
     in s4)"

section \<open>Devices that come\<close>

definition handle_bt_a2dp_on :: "sess_env \<Rightarrow> asm \<Rightarrow> asm" where
  "handle_bt_a2dp_on E s =
    (if IS_COMMUNICATION_SESSION (asess s) then s
     else on_sess (\<lambda>t. let t1 = SET_PLAYBACK_ONLY_ACTIVE OUT_BT_A2DP t
                       in snd (active_device_callback E (GET_ACTIVE_CAPTURE t1)
                                 (GET_ACTIVE_PLAYBACK t1) t1)) s)"

definition headset_on_active :: "int \<Rightarrow> sess \<Rightarrow> sess" where
  "headset_on_active type t =
    (let t1 = SET_PLAYBACK_ONLY_ACTIVE OUT_WIRED t
     in if type = EARJACK_WITH_MIC then SET_CAPTURE_ONLY_ACTIVE IN_WIRED t1 else t1)"

definition handle_headset_on :: "sess_env \<Rightarrow> int \<Rightarrow> asm \<Rightarrow> asm" where
  "handle_headset_on E type s =
    (if IS_COMMUNICATION_SESSION (asess s) then s
     else on_sess (\<lambda>t. set_path_with_notification E DO_NOTI
                         (out_call VolumeRefresh (headset_on_active type t))) s)"

text \<open>The handler waits until the dock sound has been played; the wait has no other end.\<close>

definition handle_dock_on :: "sess_env \<Rightarrow> asm_lib \<Rightarrow> asm \<Rightarrow> asm option" where
  "handle_dock_on E L s =
    (if IS_COMMUNICATION_SESSION (asess s) then Some s
     else if dock_sound_ends L then
       Some (on_sess (\<lambda>t. set_path_with_notification E DO_NOTI
               (out_call (PlayDockSound True) (SET_PLAYBACK_ONLY_ACTIVE OUT_DOCK t))) s)
     else None)"

section \<open>Devices that go\<close>

definition handle_bt_a2dp_off :: "asm_cfg \<Rightarrow> sess_env \<Rightarrow> asm_lib \<Rightarrow> asm \<Rightarrow> asm" where
  "handle_bt_a2dp_off c E L s =
    (if \<not> IS_ACTIVE OUT_BT_A2DP (asess s) then s
     else on_sess (\<lambda>t. set_path_with_notification E DO_NOTI
              (select_playback_active_device (UNSET_ACTIVE OUT_BT_A2DP t)))
            (asm_pause_process c L (asm_handle (asess s)) s))"

definition handle_bt_sco_off :: "sess_env \<Rightarrow> asm \<Rightarrow> asm" where
  "handle_bt_sco_off E s =
    (if \<not> IS_ACTIVE OUT_BT_SCO (asess s) \<and> \<not> IS_ACTIVE IN_BT_SCO (asess s) then s
     else on_sess (\<lambda>t. set_path_with_notification E DO_NOTI
              (select_capture_active_device (select_playback_active_device
                (UNSET_ACTIVE IN_BT_SCO (UNSET_ACTIVE OUT_BT_SCO t))))) s)"

definition headset_off_active :: "sess \<Rightarrow> sess" where
  "headset_off_active t = UNSET_ACTIVE IN_WIRED (UNSET_ACTIVE OUT_WIRED t)"

definition handle_headset_off :: "asm_cfg \<Rightarrow> sess_env \<Rightarrow> asm_lib \<Rightarrow> asm \<Rightarrow> asm" where
  "handle_headset_off c E L s =
    (if \<not> IS_ACTIVE OUT_WIRED (asess s) then s
     else
       (let s1 = on_sess headset_off_active (asm_pause_process c L (asm_handle (asess s)) s)
        in if IS_COMMUNICATION_SESSION (asess s1) then s1
           else on_sess (\<lambda>t. set_path_with_notification E DO_NOTI (out_call VolumeRefresh
                  (select_capture_active_device (select_playback_active_device t)))) s1))"

definition handle_dock_off :: "asm_cfg \<Rightarrow> sess_env \<Rightarrow> asm_lib \<Rightarrow> asm \<Rightarrow> asm option" where
  "handle_dock_off c E L s =
    (if \<not> IS_ACTIVE OUT_DOCK (asess s) then Some s
     else if dock_sound_ends L then
       Some (on_sess (\<lambda>t. set_path_with_notification E DO_NOTI
               (select_playback_active_device
                 (UNSET_ACTIVE OUT_DOCK (out_call (PlayDockSound False) t))))
              (asm_pause_process c L (asm_handle (asess s)) s))
     else None)"

section \<open>\<^verbatim>\<open>MMSoundMgrSessionSetDeviceAvailable\<close>\<close>

text \<open>Announcing a change of availability to the clients.\<close>

definition announce :: "sess_env \<Rightarrow> dev \<Rightarrow> dev \<Rightarrow> bool \<Rightarrow> asm \<Rightarrow> asm" where
  "announce E i ou b s = on_sess (\<lambda>t. snd (available_device_callback E i ou b t)) s"

definition wired_available ::
  "asm_cfg \<Rightarrow> sess_env \<Rightarrow> asm_lib \<Rightarrow> bool \<Rightarrow> int \<Rightarrow> asm \<Rightarrow> asm" where
  "wired_available c E L avail type s =
    (if avail then
       (if \<not> IS_AVAILABLE OUT_WIRED (asess s) then
          (let s1 = on_sess (SET_AVAILABLE OUT_WIRED) s
           in handle_headset_on E type
                (if type = EARJACK_WITH_MIC
                 then announce E IN_WIRED OUT_WIRED True (on_sess (SET_AVAILABLE IN_WIRED) s1)
                 else announce E IN_NONE OUT_WIRED True s1))
        else s)
     else
       (if IS_AVAILABLE OUT_WIRED (asess s) then
          (let s1 = on_sess (UNSET_AVAILABLE OUT_WIRED) s
           in handle_headset_off c E L
                (if IS_AVAILABLE IN_WIRED (asess s1)
                 then announce E IN_WIRED OUT_WIRED False (on_sess (UNSET_AVAILABLE IN_WIRED) s1)
                 else announce E IN_NONE OUT_WIRED False s1))
        else s))"

definition a2dp_available ::
  "asm_cfg \<Rightarrow> sess_env \<Rightarrow> asm_lib \<Rightarrow> bool \<Rightarrow> string option \<Rightarrow> asm \<Rightarrow> asm" where
  "a2dp_available c E L avail name s0 =
    (let s = on_sess (\<lambda>t. t\<lparr>bt_name := (case name of None \<Rightarrow> [] | Some n \<Rightarrow> n)\<rparr>) s0
     in if avail then
          (if \<not> IS_AVAILABLE OUT_BT_A2DP (asess s) then
             handle_bt_a2dp_on E (announce E IN_NONE OUT_BT_A2DP True
               (on_sess (SET_AVAILABLE OUT_BT_A2DP) s))
           else s)
        else
          (if IS_AVAILABLE OUT_BT_A2DP (asess s) then
             handle_bt_a2dp_off c E L (announce E IN_NONE OUT_BT_A2DP False
               (on_sess (UNSET_AVAILABLE OUT_BT_A2DP) s))
           else s))"

definition sco_available :: "sess_env \<Rightarrow> bool \<Rightarrow> asm \<Rightarrow> asm" where
  "sco_available E avail s =
    (if avail then
       (if \<not> IS_AVAILABLE OUT_BT_SCO (asess s) then
          announce E IN_BT_SCO OUT_BT_SCO True
            (on_sess (SET_AVAILABLE IN_BT_SCO) (on_sess (SET_AVAILABLE OUT_BT_SCO) s))
        else s)
     else
       (if IS_AVAILABLE OUT_BT_SCO (asess s) then
          handle_bt_sco_off E (announce E IN_BT_SCO OUT_BT_SCO False
            (on_sess (UNSET_AVAILABLE IN_BT_SCO) (on_sess (UNSET_AVAILABLE OUT_BT_SCO) s)))
        else s))"

definition dock_available ::
  "asm_cfg \<Rightarrow> sess_env \<Rightarrow> asm_lib \<Rightarrow> bool \<Rightarrow> asm \<Rightarrow> asm option" where
  "dock_available c E L avail s =
    (if avail then
       (if \<not> IS_AVAILABLE OUT_DOCK (asess s) then
          handle_dock_on E L (announce E IN_NONE OUT_DOCK True (on_sess (SET_AVAILABLE OUT_DOCK) s))
        else Some s)
     else
       (if IS_AVAILABLE OUT_DOCK (asess s) then
          handle_dock_off c E L
            (announce E IN_NONE OUT_DOCK False (on_sess (UNSET_AVAILABLE OUT_DOCK) s))
        else Some s))"

text \<open>\<^verbatim>\<open>None\<close>: the call does not return, because the dock sound never ends.\<close>

definition set_device_available ::
  "asm_cfg \<Rightarrow> sess_env \<Rightarrow> asm_lib \<Rightarrow> device_type \<Rightarrow> bool \<Rightarrow> int \<Rightarrow> string option \<Rightarrow> asm \<Rightarrow> asm option" where
  "set_device_available c E L device avail type name s =
    (case device of
       DEVICE_BUILTIN \<Rightarrow> Some s
     | DEVICE_WIRED \<Rightarrow> Some (wired_available c E L avail type s)
     | DEVICE_BT_A2DP \<Rightarrow> Some (a2dp_available c E L avail name s)
     | DEVICE_BT_SCO \<Rightarrow> Some (sco_available E avail s)
     | DEVICE_DOCK \<Rightarrow> dock_available c E L avail s)"

definition set_default_sink :: "string \<Rightarrow> asm \<Rightarrow> asm" where
  "set_default_sink name s = on_sess (\<lambda>t. t\<lparr>default_sink_name := name\<rparr>) s"

section \<open>Start and end\<close>

text \<open>The headset type and the initial Bluetooth status come from the headset and PulseAudio parts.\<close>

definition initial_available :: "int \<Rightarrow> bool \<Rightarrow> bool \<Rightarrow> sess \<Rightarrow> sess" where
  "initial_available type a2dp sco t =
    (let t1 = SET_AVAILABLE IN_MIC (SET_AVAILABLE OUT_SPEAKER t);
         t2 = (if type > 0 then
                 (let t' = SET_AVAILABLE OUT_WIRED t1
                  in if type = EARJACK_WITH_MIC then SET_AVAILABLE IN_WIRED t' else t')
               else t1);
         t3 = (if a2dp then SET_AVAILABLE OUT_BT_A2DP t2 else t2)
     in if sco then SET_AVAILABLE IN_BT_SCO (SET_AVAILABLE OUT_BT_SCO t3) else t3)"

definition set_initial_active_device ::
  "sess_env \<Rightarrow> int \<Rightarrow> bool \<Rightarrow> bool \<Rightarrow> sess \<Rightarrow> sess" where
  "set_initial_active_device E type a2dp sco t =
    set_path_with_notification E NO_NOTI
      (select_capture_active_device (select_playback_active_device
        (initial_available type a2dp sco t)))"

text \<open>\<^verbatim>\<open>memset (&g_info, 0, ...)\<close>: every field of \<^verbatim>\<open>g_info\<close> is zero; the callback lists belong to the
  device manager.\<close>

definition clear_info :: "sess \<Rightarrow> sess" where
  "clear_info t = t\<lparr>asm_handle := 0, device_available := 0, device_active := 0,
     session := SESSION_MEDIA, subsession := 0, bt_name := [], default_sink_name := []\<rparr>"

definition session_init ::
  "asm_cfg \<Rightarrow> sess_env \<Rightarrow> asm_lib \<Rightarrow> int \<Rightarrow> bool \<Rightarrow> bool \<Rightarrow> asm \<Rightarrow> mm_err \<times> asm" where
  "session_init c E L type a2dp sco s =
    (MM_ERROR_NONE,
     snd (asm_register_for_headset c L
       (on_sess (\<lambda>t. set_initial_active_device E type a2dp sco (clear_info t)) s)))"

definition session_fini :: "asm_cfg \<Rightarrow> asm_lib \<Rightarrow> asm \<Rightarrow> mm_err \<times> asm" where
  "session_fini c L s = (MM_ERROR_NONE, snd (asm_unregister_for_headset c L s))"

end
