(* ===== verification/Server.thy ===== *)
theory Server
  imports Session_Events
begin

text \<open>
  The sound server as a transition system: after start-up, each step is one request to the audio
  session manager, one device event, one route activation by a client, or one change of a callback
  list.  The handlers of the session manager keep the invariants of \<^verbatim>\<open>Session_Inv\<close> and \<^verbatim>\<open>Asm_Inv\<close>.
\<close>

section \<open>The event handlers keep the invariant\<close>

lemma on_sess_inv:
  "asm_inv c s \<Longrightarrow> sess_inv (f (asess s)) \<Longrightarrow> asm_inv c (on_sess f s)"
  by (simp add: on_sess_def)

lemma asess_on_sess [simp]: "asess (on_sess f s) = f (asess s)"
  by (simp add: on_sess_def)

lemma serve_requests_inv:
  "asm_inv c s \<Longrightarrow> cfg_ok c \<Longrightarrow> asm_inv c (snd (serve_requests c qs s))"
proof (induction qs arbitrary: s)
  case (Cons q qs)
  then show ?case by (cases q) (simp add: Let_def split_beta process_message_inv)
qed simp

lemma on_sess_log_inv [simp]: "asm_inv c s \<Longrightarrow> asm_inv c (on_sess (out_call x) s)"
  by (simp add: on_sess_inv asm_inv_sess)

lemma lib_run_inv [simp]: "asm_inv c s \<Longrightarrow> cfg_ok c \<Longrightarrow> asm_inv c (snd (snd (lib_run c L q s)))"
  by (simp add: lib_run_def split_beta serve_requests_inv)

lemma register_for_headset_inv:
  assumes "asm_inv c s" "cfg_ok c"
  shows "asm_inv c (snd (asm_register_for_headset c L s))"
proof -
  let ?s = "snd (snd (lib_run c L (LibRegister ASM_EVENT_EARJACK_UNPLUG ASM_STATE_NONE) s))"
  have s: "asm_inv c ?s" using assms by simp
  then have "asm_inv c (on_sess (\<lambda>t. t\<lparr>asm_handle := i\<rparr>) ?s)" for i
    by (rule on_sess_inv) (simp add: asm_inv_sess [OF s])
  with s show ?thesis by (simp add: asm_register_for_headset_def split_beta split: option.split)
qed

lemma pause_process_inv:
  assumes "asm_inv c s" "cfg_ok c"
  shows "asm_inv c (asm_pause_process c L h s)"
  using assms register_for_headset_inv [OF assms, of L]
  by (cases "asm_handle (asess s) = -1") (simp_all add: asm_pause_process_def Let_def split_beta)

text \<open>Changing the availability of one device group.\<close>

lemma avail_wf_out_wired:
  assumes "avail_wf s"
  shows "avail_wf (SET_AVAILABLE OUT_WIRED s)"
    "\<not> IS_AVAILABLE IN_WIRED (UNSET_AVAILABLE OUT_WIRED s) \<Longrightarrow> avail_wf (UNSET_AVAILABLE OUT_WIRED s)"
    "avail_wf (SET_AVAILABLE IN_WIRED (SET_AVAILABLE OUT_WIRED s))"
    "avail_wf (UNSET_AVAILABLE IN_WIRED (UNSET_AVAILABLE OUT_WIRED s))"
proof -
  have z: "OUT_WIRED AND OUT_SPEAKER = 0" "OUT_WIRED AND IN_MIC = 0" "OUT_WIRED AND IN_WIRED = 0"
    "OUT_WIRED AND IN_BT_SCO = 0" "OUT_WIRED AND OUT_BT_SCO = 0"
    "IN_WIRED AND OUT_SPEAKER = 0" "IN_WIRED AND IN_MIC = 0" "IN_WIRED AND OUT_WIRED = 0"
    "IN_WIRED AND IN_BT_SCO = 0" "IN_WIRED AND OUT_BT_SCO = 0"
    by (simp_all add: dev_bits)
  from assms show "avail_wf (SET_AVAILABLE OUT_WIRED s)"
    "\<not> IS_AVAILABLE IN_WIRED (UNSET_AVAILABLE OUT_WIRED s) \<Longrightarrow> avail_wf (UNSET_AVAILABLE OUT_WIRED s)"
    "avail_wf (SET_AVAILABLE IN_WIRED (SET_AVAILABLE OUT_WIRED s))"
    "avail_wf (UNSET_AVAILABLE IN_WIRED (UNSET_AVAILABLE OUT_WIRED s))"
    by (simp_all add: avail_wf_def is_available_set is_available_unset_other
        is_available_unset_same z)
qed

lemma avail_wf_sco:
  assumes "avail_wf s"
  shows "avail_wf (SET_AVAILABLE IN_BT_SCO (SET_AVAILABLE OUT_BT_SCO s))"
    "avail_wf (UNSET_AVAILABLE IN_BT_SCO (UNSET_AVAILABLE OUT_BT_SCO s))"
proof -
  have z: "OUT_BT_SCO AND OUT_SPEAKER = 0" "OUT_BT_SCO AND IN_MIC = 0" "OUT_BT_SCO AND IN_WIRED = 0"
    "OUT_BT_SCO AND IN_BT_SCO = 0" "OUT_BT_SCO AND OUT_WIRED = 0"
    "IN_BT_SCO AND OUT_SPEAKER = 0" "IN_BT_SCO AND IN_MIC = 0" "IN_BT_SCO AND OUT_WIRED = 0"
    "IN_BT_SCO AND IN_WIRED = 0" "IN_BT_SCO AND OUT_BT_SCO = 0"
    by (simp_all add: dev_bits)
  from assms show "avail_wf (SET_AVAILABLE IN_BT_SCO (SET_AVAILABLE OUT_BT_SCO s))"
    "avail_wf (UNSET_AVAILABLE IN_BT_SCO (UNSET_AVAILABLE OUT_BT_SCO s))"
    by (simp_all add: avail_wf_def is_available_set is_available_unset_other
        is_available_unset_same z)
qed

lemma avail_wf_single:
  assumes "avail_wf s" "x \<in> {OUT_BT_A2DP, OUT_DOCK}"
  shows "avail_wf (SET_AVAILABLE x s)" "avail_wf (UNSET_AVAILABLE x s)"
proof -
  have z: "x AND OUT_SPEAKER = 0" "x AND IN_MIC = 0" "x AND IN_WIRED = 0" "x AND OUT_WIRED = 0"
    "x AND IN_BT_SCO = 0" "x AND OUT_BT_SCO = 0"
    using assms(2) by (auto simp: dev_bits)
  from assms(1) show "avail_wf (SET_AVAILABLE x s)" "avail_wf (UNSET_AVAILABLE x s)"
    by (simp_all add: avail_wf_def is_available_set is_available_unset_other z)
qed

lemma sess_inv_avail_wf: "sess_inv s \<Longrightarrow> avail_wf s"
  by (simp add: sess_inv_def)

lemma announce_inv [simp]: "asm_inv c s \<Longrightarrow> asm_inv c (announce E i ou b s)"
  by (simp add: announce_def on_sess_inv asm_inv_sess)

lemma toggle_inv:
  assumes "asm_inv c s" "avail_wf (f (asess s))" "device_active (f (asess s)) = device_active (asess s)"
    "active_cbs (f (asess s)) = active_cbs (asess s)" "avail_cbs (f (asess s)) = avail_cbs (asess s)"
  shows "asm_inv c (on_sess f s)"
proof (rule on_sess_inv [where f = f, OF assms(1)])
  show "sess_inv (f (asess s))"
    using sess_inv_available [OF asm_inv_sess [OF assms(1)] assms(2-5)] .
qed

lemma toggle_twice_inv:
  assumes "asm_inv c s" "avail_wf (f (g (asess s)))"
    "device_active (f (g (asess s))) = device_active (asess s)"
    "active_cbs (f (g (asess s))) = active_cbs (asess s)"
    "avail_cbs (f (g (asess s))) = avail_cbs (asess s)"
  shows "asm_inv c (on_sess f (on_sess g s))"
proof -
  have "on_sess f (on_sess g s) = on_sess (\<lambda>t. f (g t)) s" by (simp add: on_sess_def)
  with toggle_inv [where f = "\<lambda>t. f (g t)", OF assms] show ?thesis by simp
qed

lemma on_sess_twice: "on_sess f (on_sess g s) = on_sess (\<lambda>t. f (g t)) s"
  by (simp add: on_sess_def)

lemma handle_on_inv:
  assumes "asm_inv c s"
  shows "asm_inv c (handle_bt_a2dp_on E s)" "asm_inv c (handle_headset_on E type s)"
    "\<And>s'. handle_dock_on E L s = Some s' \<Longrightarrow> asm_inv c s'"
  using assms asm_inv_sess [OF assms]
  by (auto simp: handle_bt_a2dp_on_def handle_headset_on_def handle_dock_on_def headset_on_active_def
      Let_def intro!: on_sess_inv split: if_splits)

lemma handle_off_inv:
  assumes "asm_inv c s" "cfg_ok c"
  shows "asm_inv c (handle_bt_a2dp_off c E L s)" "asm_inv c (handle_bt_sco_off E s)"
    "asm_inv c (handle_headset_off c E L s)" "\<And>s'. handle_dock_off c E L s = Some s' \<Longrightarrow> asm_inv c s'"
proof -
  note pause = pause_process_inv [OF assms, of L "asm_handle (asess s)"]
  from assms(1) pause asm_inv_sess [OF assms(1)] asm_inv_sess [OF pause]
  show "asm_inv c (handle_bt_a2dp_off c E L s)" "asm_inv c (handle_bt_sco_off E s)"
    "asm_inv c (handle_headset_off c E L s)" "\<And>s'. handle_dock_off c E L s = Some s' \<Longrightarrow> asm_inv c s'"
    by (auto simp: handle_bt_a2dp_off_def handle_bt_sco_off_def handle_headset_off_def
        handle_dock_off_def headset_off_active_def Let_def on_sess_twice intro!: on_sess_inv
        split: if_splits)
qed

lemma wired_available_inv:
  assumes "asm_inv c s" "cfg_ok c"
  shows "asm_inv c (wired_available c E L b type s)"
proof -
  note wf = sess_inv_avail_wf [OF asm_inv_sess [OF assms(1)]]
  have t1: "asm_inv c (on_sess (SET_AVAILABLE OUT_WIRED) s)"
    by (rule toggle_inv [OF assms(1)]) (simp_all add: avail_wf_out_wired wf sess_simps)
  have t2: "asm_inv c (on_sess (SET_AVAILABLE IN_WIRED) (on_sess (SET_AVAILABLE OUT_WIRED) s))"
    by (rule toggle_twice_inv [OF assms(1)]) (simp_all add: avail_wf_out_wired wf sess_simps)
  have t3: "asm_inv c (on_sess (UNSET_AVAILABLE OUT_WIRED) s)"
    if "\<not> IS_AVAILABLE IN_WIRED (UNSET_AVAILABLE OUT_WIRED (asess s))"
    by (rule toggle_inv [OF assms(1)]) (simp_all add: avail_wf_out_wired wf that sess_simps)
  have t4: "asm_inv c (on_sess (UNSET_AVAILABLE IN_WIRED) (on_sess (UNSET_AVAILABLE OUT_WIRED) s))"
    by (rule toggle_twice_inv [OF assms(1)]) (simp_all add: avail_wf_out_wired wf sess_simps)
  show ?thesis
    using assms t1 t2 t3 t4
    by (simp add: wired_available_def Let_def handle_on_inv(1,2) handle_off_inv(1-3))
qed

lemma sco_available_inv:
  assumes "asm_inv c s" "cfg_ok c"
  shows "asm_inv c (sco_available E b s)"
proof -
  note wf = sess_inv_avail_wf [OF asm_inv_sess [OF assms(1)]]
  have t1: "asm_inv c (on_sess (SET_AVAILABLE IN_BT_SCO) (on_sess (SET_AVAILABLE OUT_BT_SCO) s))"
    by (rule toggle_twice_inv [OF assms(1)]) (simp_all add: avail_wf_sco wf sess_simps)
  have t2: "asm_inv c (on_sess (UNSET_AVAILABLE IN_BT_SCO) (on_sess (UNSET_AVAILABLE OUT_BT_SCO) s))"
    by (rule toggle_twice_inv [OF assms(1)]) (simp_all add: avail_wf_sco wf sess_simps)
  show ?thesis
    using assms t1 t2 by (simp add: sco_available_def Let_def handle_off_inv(1-3))
qed

lemma a2dp_available_inv:
  assumes "asm_inv c s" "cfg_ok c"
  shows "asm_inv c (a2dp_available c E L b name s)"
proof -
  let ?s = "on_sess (\<lambda>t. t\<lparr>bt_name := (case name of None \<Rightarrow> [] | Some n \<Rightarrow> n)\<rparr>) s"
  have s: "asm_inv c ?s" using assms(1) by (simp add: on_sess_inv asm_inv_sess)
  note wf = sess_inv_avail_wf [OF asm_inv_sess [OF s]]
  have t1: "asm_inv c (on_sess (SET_AVAILABLE OUT_BT_A2DP) ?s)"
    by (rule toggle_inv [OF s]) (use wf in \<open>simp_all add: avail_wf_single sess_simps\<close>)
  have t2: "asm_inv c (on_sess (UNSET_AVAILABLE OUT_BT_A2DP) ?s)"
    by (rule toggle_inv [OF s]) (use wf in \<open>simp_all add: avail_wf_single sess_simps\<close>)
  show ?thesis
    unfolding a2dp_available_def Let_def
    using s assms(2) t1 t2 by (simp add: handle_on_inv(1,2) handle_off_inv(1-3))
qed

lemma dock_available_inv:
  assumes "asm_inv c s" "cfg_ok c" "dock_available c E L b s = Some s'"
  shows "asm_inv c s'"
proof -
  note wf = sess_inv_avail_wf [OF asm_inv_sess [OF assms(1)]]
  have on: "asm_inv c (on_sess (SET_AVAILABLE OUT_DOCK) s)"
    by (rule toggle_inv [OF assms(1)]) (use wf in \<open>simp_all add: avail_wf_single sess_simps\<close>)
  have off: "asm_inv c (on_sess (UNSET_AVAILABLE OUT_DOCK) s)"
    by (rule toggle_inv [OF assms(1)]) (use wf in \<open>simp_all add: avail_wf_single sess_simps\<close>)
  show ?thesis
    using assms(1,3) handle_on_inv(3) [OF announce_inv [OF on]]
      handle_off_inv(4) [OF announce_inv [OF off] assms(2)]
    unfolding dock_available_def by (simp split: if_splits)
qed

lemma set_device_available_inv:
  assumes "asm_inv c s" "cfg_ok c" "set_device_available c E L dv b type name s = Some s'"
  shows "asm_inv c s'"
  using assms wired_available_inv a2dp_available_inv sco_available_inv dock_available_inv
  by (auto simp: set_device_available_def split: device_type.splits)

section \<open>Start-up\<close>

lemma initial_available_bits:
  "device_active (initial_available type a2dp sco t) = device_active t"
  "active_cbs (initial_available type a2dp sco t) = active_cbs t"
  "avail_cbs (initial_available type a2dp sco t) = avail_cbs t"
  by (simp_all add: initial_available_def Let_def sess_simps)

lemma initial_available_wf:
  assumes "device_available t = 0"
  shows "avail_wf (initial_available type a2dp sco t)"
proof -
  have "avail_wf (SET_AVAILABLE IN_MIC (SET_AVAILABLE OUT_SPEAKER t))"
    using assms by (simp add: avail_wf_def IS_AVAILABLE_def SET_AVAILABLE_def dev_bits)
  then show ?thesis
    by (simp add: initial_available_def Let_def avail_wf_out_wired avail_wf_single avail_wf_sco)
qed

lemma session_init_inv:
  assumes "asm_inv c s" "cfg_ok c"
  shows "asm_inv c (snd (session_init c E L type a2dp sco s))"
proof -
  let ?t = "clear_info (asess s)"
  have "one_active ?t" by (simp add: one_active_def clear_info_def out_words_def in_words_def)
  moreover have "active_cbs ?t = active_cbs (asess s)" "avail_cbs ?t = avail_cbs (asess s)"
    "device_available ?t = 0"
    by (simp_all add: clear_info_def)
  moreover from this(3) have "avail_wf (initial_available type a2dp sco ?t)"
    by (rule initial_available_wf)
  ultimately have "sess_inv (initial_available type a2dp sco ?t)"
    using asm_inv_sess [OF assms(1)] active_queries_cong(3) [OF initial_available_bits(1)]
    by (simp add: sess_inv_def initial_available_bits)
  then have "asm_inv c (on_sess (\<lambda>t. set_initial_active_device E type a2dp sco (clear_info t)) s)"
    by (intro on_sess_inv [OF assms(1)]) (simp add: set_initial_active_device_def)
  then show ?thesis
    using assms(2) by (simp add: session_init_def register_for_headset_inv)
qed

section \<open>The transition system\<close>

inductive srv_step :: "asm_cfg \<Rightarrow> asm \<Rightarrow> asm \<Rightarrow> bool" for c where
  request: "srv_step c s (snd (asm_process_message c E b junk r s))"
| device: "set_device_available c E L dv b type name s = Some s' \<Longrightarrow> srv_step c s s'"
| default_sink: "srv_step c s (set_default_sink name s)"
| activate: "mm_sound_is_route_valid r \<Longrightarrow>
    srv_step c s (on_sess (\<lambda>t. snd (set_active_route E r v t)) s)"
| add_active: "srv_step c s (on_sess (\<lambda>t. snd (add_active_device_callback p t)) s)"
| remove_active: "srv_step c s (on_sess (\<lambda>t. snd (remove_active_device_callback p t)) s)"
| add_route: "srv_step c s (on_sess (\<lambda>t. snd (add_available_route_callback p t)) s)"
| remove_route: "srv_step c s (on_sess (\<lambda>t. snd (remove_available_route_callback p t)) s)"

inductive srv_reachable :: "asm_cfg \<Rightarrow> asm \<Rightarrow> bool" for c where
  start: "active_cbs ss = [] \<Longrightarrow> avail_cbs ss = [] \<Longrightarrow>
    srv_reachable c (snd (session_init c E L type a2dp sco (asm_init gcf (clear_info ss))))"
| step: "srv_reachable c s \<Longrightarrow> srv_step c s s' \<Longrightarrow> srv_reachable c s'"

inductive_cases srv_stepE: "srv_step c s s'"

lemma srv_step_inv:
  assumes "srv_step c s s'" "asm_inv c s" "cfg_ok c"
  shows "asm_inv c s'"
  using assms
  by cases
    (auto simp: set_default_sink_def process_message_inv asm_inv_sess intro!: on_sess_inv
      dest: set_device_available_inv)

lemma server_start_inv:
  assumes "active_cbs ss = []" "avail_cbs ss = []" "cfg_ok c"
  shows "asm_inv c (snd (session_init c E L type a2dp sco (asm_init gcf (clear_info ss))))"
proof -
  let ?t = "clear_info ss\<lparr>device_available := OUT_SPEAKER OR IN_MIC\<rparr>"
  have fix_avail: "session_init c E L type a2dp sco (asm_init gcf (clear_info ss))
      = session_init c E L type a2dp sco (asm_init gcf ?t)"
    by (simp add: session_init_def on_sess_def asm_init_def clear_info_def)
  have "avail_wf ?t"
    by (simp add: avail_wf_def IS_AVAILABLE_def dev_bits)
  then have "sess_inv ?t"
    using assms by (auto simp: sess_inv_def one_active_def clear_info_def out_words_def in_words_def)
  then have "asm_inv c (asm_init gcf ?t)"
    by (simp add: asm_inv_def handles_wf_def status_ok_def asm_init_def)
  from session_init_inv [OF this assms(3)] show ?thesis by (simp add: fix_avail)
qed

end
