(* ===== verification/Asm_Policy_Facts.thy ===== *)
theory Asm_Policy_Facts
  imports Asm_Inv
begin

text \<open>
  What the policy decides.  The loop over the playing instances works on the live list while it
  calls clients back and changes states; \<^verbatim>\<open>policy_spec\<close> is the pure function of the list before the
  request that it implements.  The second part shows that a sound the policy stops is no longer
  playing when the request has been served.
\<close>

section \<open>The decision, as a function of the list\<close>

definition owner :: "inst \<Rightarrow> pid \<times> int" where
  "owner x = (instance_id x, sound_handle x)"

definition rq_owner :: "asm_req \<Rightarrow> pid \<times> int" where
  "rq_owner r = (rq_pid r, rq_handle r)"

text \<open>The command a single playing instance of another handle calls for; \<^verbatim>\<open>None\<close> refuses.\<close>

definition node_verdict :: "bool \<Rightarrow> asm_req \<Rightarrow> inst \<Rightarrow> asm_command option" where
  "node_verdict gcf r x =
    (if rq_state r \<noteq> ASM_STATE_PLAYING then Some ASM_COMMAND_NONE
     else case effective_case gcf (sound_event x) (rq_event r) of
       ASM_CASE_1PLAY_2STOP \<Rightarrow> if instance_id x = rq_pid r then Some ASM_COMMAND_PLAY else None
     | ASM_CASE_1STOP_2PLAY \<Rightarrow> Some ASM_COMMAND_PLAY
     | ASM_CASE_1PAUSE_2PLAY \<Rightarrow> Some ASM_COMMAND_PLAY
     | ASM_CASE_1PLAY_2PLAY_MIX \<Rightarrow> Some ASM_COMMAND_PLAY
     | _ \<Rightarrow> Some ASM_COMMAND_NONE)"

definition counts :: "asm_req \<Rightarrow> inst \<Rightarrow> bool" where
  "counts r x \<longleftrightarrow> sound_state x = ASM_STATE_PLAYING \<and> owner x \<noteq> rq_owner r"

fun policy_spec :: "bool \<Rightarrow> asm_req \<Rightarrow> inst list \<Rightarrow> int \<Rightarrow> int" where
  "policy_spec gcf r [] cmd = cmd"
| "policy_spec gcf r (x # xs) cmd =
    (if counts r x then
       (case node_verdict gcf r x of
          None \<Rightarrow> command_code ASM_COMMAND_STOP
        | Some v \<Rightarrow> policy_spec gcf r xs (command_code v))
     else policy_spec gcf r xs cmd)"

definition refuses :: "bool \<Rightarrow> asm_req \<Rightarrow> inst \<Rightarrow> bool" where
  "refuses gcf r x \<longleftrightarrow> counts r x \<and> node_verdict gcf r x = None"

lemma verdict_not_stop: "node_verdict gcf r x \<noteq> Some ASM_COMMAND_STOP"
  by (simp add: node_verdict_def split: asm_case.split)

lemma command_code_inject [simp]: "command_code a = command_code b \<longleftrightarrow> a = b"
  by (cases a; cases b) simp_all

lemma policy_spec_stop_iff:
  "cmd \<noteq> command_code ASM_COMMAND_STOP \<Longrightarrow>
    policy_spec gcf r xs cmd = command_code ASM_COMMAND_STOP \<longleftrightarrow> (\<exists>x \<in> set xs. refuses gcf r x)"
proof (induction xs arbitrary: cmd)
  case (Cons x xs)
  show ?case
  proof (cases "node_verdict gcf r x")
    case (Some v)
    then have "v \<noteq> ASM_COMMAND_STOP" using verdict_not_stop [of gcf r x] by auto
    then have "policy_spec gcf r xs (command_code v) = command_code ASM_COMMAND_STOP
        \<longleftrightarrow> (\<exists>x \<in> set xs. refuses gcf r x)"
      by (intro Cons.IH) (simp del: command_code.simps)
    with Some Cons show ?thesis by (auto simp: refuses_def simp del: command_code.simps)
  qed (use Cons in \<open>auto simp: refuses_def simp del: command_code.simps\<close>)
qed simp

section \<open>Lists that differ only in the states of some owners\<close>

definition same_except :: "(pid \<times> int) set \<Rightarrow> inst list \<Rightarrow> inst list \<Rightarrow> bool" where
  "same_except A = list_all2 (\<lambda>x y. owner x = owner y \<and> sound_event x = sound_event y \<and>
     (owner x \<notin> A \<longrightarrow> sound_state x = sound_state y))"

lemma same_except_refl [simp]: "same_except A xs xs"
  by (simp add: same_except_def list_all2_same)

lemma same_except_trans:
  assumes "same_except A xs ys" "same_except B ys zs"
  shows "same_except (A \<union> B) xs zs"
  using list_all2_trans [OF _ assms [unfolded same_except_def]]
  unfolding same_except_def by fastforce

lemma same_except_mono: "same_except A xs ys \<Longrightarrow> A \<subseteq> B \<Longrightarrow> same_except B xs ys"
  unfolding same_except_def by (erule list_all2_mono) auto

lemma same_except_length: "same_except A xs ys \<Longrightarrow> length ys = length xs"
  by (simp add: same_except_def list_all2_lengthD)

lemma same_except_owners: "same_except A xs ys \<Longrightarrow> map owner ys = map owner xs"
  unfolding same_except_def by (induction rule: list_all2_induct) auto

lemma same_except_drop: "same_except A xs ys \<Longrightarrow> same_except A (drop n xs) (drop n ys)"
  unfolding same_except_def by (rule list_all2_dropI)

lemma same_except_keep:
  assumes "same_except (insert o' A) xs ys" "o' \<notin> owner ` set xs"
  shows "same_except A xs ys"
  using assms unfolding same_except_def by (induction rule: list_all2_induct) auto

lemma same_except_owners_sounds:
  "owners ys = owners xs \<Longrightarrow> sounds ys = sounds xs \<Longrightarrow> same_except A xs ys"
proof (induction xs arbitrary: ys)
  case (Cons x xs)
  then obtain y ys' where "ys = y # ys'" by (cases ys) auto
  with Cons.prems Cons.IH [of ys'] show ?case by (auto simp: same_except_def owner_def)
qed (simp add: same_except_def)

lemma policy_spec_same_except:
  "same_except {rq_owner r} xs ys \<Longrightarrow> policy_spec gcf r ys cmd = policy_spec gcf r xs cmd"
proof (induction xs arbitrary: ys cmd)
  case (Cons x xs)
  then obtain y ys' where ys: "ys = y # ys'" and xy: "owner x = owner y"
    "sound_event x = sound_event y" "owner x \<noteq> rq_owner r \<Longrightarrow> sound_state x = sound_state y"
    and rest: "same_except {rq_owner r} xs ys'"
    by (auto simp: same_except_def list_all2_Cons1)
  have "counts r y = counts r x" using xy by (auto simp: counts_def)
  moreover have "node_verdict gcf r y = node_verdict gcf r x"
    using xy by (simp add: node_verdict_def owner_def)
  ultimately show ?case
    by (simp add: ys Cons.IH [OF rest] split: option.split)
qed (simp add: same_except_def)

section \<open>The operations, as changes of one owner\<close>

lemma same_except_update_state:
  "same_except {(p, h)} xs
     (update_first (\<lambda>x. instance_id x = p \<and> sound_handle x = h)
        (\<lambda>x. x\<lparr>sound_state := st, mm_resource := res\<rparr>) xs)"
  by (induction xs) (auto simp: same_except_def owner_def list_all2_same)

lemma change_state_same_except:
  "same_except {(p, h)} (insts s) (insts (asm_change_state_list c p h st res s))"
proof (cases "st = ASM_STATE_IGNORE")
  case False
  let ?ys = "update_first (\<lambda>x. instance_id x = p \<and> sound_handle x = h)
        (\<lambda>x. x\<lparr>sound_state := st, mm_resource := res\<rparr>) (insts s)"
  have "same_except {} ?ys (update_monitor_active p ?ys)"
    by (rule same_except_owners_sounds) (simp_all add: asm_simps)
  from same_except_trans [OF same_except_update_state this] False show ?thesis
    by (simp add: asm_change_state_list_def asm_simps)
qed (simp add: asm_change_state_list_def)

lemma change_state_after:
  assumes "same_except {} (insts s) (insts s')"
  shows "same_except {(p, h)} (insts s) (insts (asm_change_state_list c p h st res s'))"
  using same_except_trans [OF assms change_state_same_except] by simp

lemma stop_monitor_same: "same_except {} (insts s) (insts (stop_monitor c E p src b s))"
  by (rule same_except_owners_sounds) (simp_all add: asm_simps)

lemma mark_resume_same: "same_except {} (insts s) (insts (mark_resume ev p h s))"
  by (rule same_except_owners_sounds) (simp_all add: asm_simps)

lemma interrupt_same:
  "same_except {} (insts s) (insts (mark_resume ev p h
     (snd (do_callback c E p' h' cmd src (stop_monitor c E p'' src' b s)))))"
  "same_except {} (insts s) (insts (snd (do_callback c E p' h' cmd src (stop_monitor c E p'' src' b s))))"
  by (rule same_except_owners_sounds; simp add: asm_simps)+

lemma conflict_same_except:
  "same_except {owner x} (insts s) (insts (conflict_stop c E r x s))"
  "same_except {owner x} (insts s) (insts (conflict_pause c E r x s))"
  "same_except {owner x} (insts s) (insts (conflict_mix c E r x s))"
  "same_except {owner x} (insts s) (insts (conflict_paused c E r x s))"
proof -
  show "same_except {owner x} (insts s) (insts (conflict_stop c E r x s))"
    using change_state_after [OF interrupt_same(1)]
    by (simp add: conflict_stop_def Let_def split_beta asm_simps owner_def)
  show "same_except {owner x} (insts s) (insts (conflict_pause c E r x s))"
    using change_state_after [OF interrupt_same(1)]
    by (simp add: conflict_pause_def Let_def split_beta owner_def)
  show "same_except {owner x} (insts s) (insts (conflict_mix c E r x s))"
    using change_state_after [OF interrupt_same(2)]
    by (simp add: conflict_mix_def Let_def split_beta owner_def)
  show "same_except {owner x} (insts s) (insts (conflict_paused c E r x s))"
    using change_state_after [OF interrupt_same(2)]
    by (simp add: conflict_paused_def Let_def split_beta owner_def)
qed

text \<open>Entering the request changes its own node or puts it in front.\<close>

definition front_extends :: "(pid \<times> int) set \<Rightarrow> asm_req \<Rightarrow> inst list \<Rightarrow> inst list \<Rightarrow> bool" where
  "front_extends A r xs ys \<longleftrightarrow>
     (\<exists>pre zs. ys = pre @ zs \<and> same_except A xs zs \<and> owner ` set pre \<subseteq> {rq_owner r})"

lemma front_extendsI: "same_except A xs ys \<Longrightarrow> front_extends A r xs ys"
  unfolding front_extends_def by (intro exI [of _ "[]"] exI [of _ ys]) simp

lemma front_extends_mono: "front_extends A r xs ys \<Longrightarrow> A \<subseteq> B \<Longrightarrow> front_extends B r xs ys"
  unfolding front_extends_def using same_except_mono by metis

lemma same_then_front:
  assumes "same_except A xs ys" "front_extends B r ys zs"
  shows "front_extends (A \<union> B) r xs zs"
  using assms same_except_trans unfolding front_extends_def by metis

lemma enter_request_front:
  "front_extends {rq_owner r} r (insts s) (insts (enter_request c r s))"
proof (cases "rq_id r = ASM_REQUEST_REGISTER")
  case True
  let ?x = "\<lparr>instance_id = rq_pid r, sound_handle = rq_handle r, sound_event = rq_event r,
    sound_state = rq_state r, need_resume = ASM_NEED_NOT_RESUME, mm_resource = rq_resource r,
    monitor_active = False, monitor_dirty = False\<rparr>"
  show ?thesis
    unfolding front_extends_def
    by (intro exI [of _ "[?x]"] exI [of _ "insts s"])
      (simp add: True enter_request_def asm_register_list_def asm_simps owner_def rq_owner_def)
next
  case False
  then show ?thesis
    using change_state_same_except [of "rq_pid r" "rq_handle r" s]
    by (intro front_extendsI) (simp add: enter_request_def rq_owner_def)
qed

lemma enter_once_front:
  assumes "same_except {o'} (insts s0) (insts s)"
  shows "front_extends {o', rq_owner r} r (insts s0) (insts (snd (snd (enter_once c r cmd upd m s))))"
proof (cases upd)
  case True
  then show ?thesis
    using front_extends_mono [OF front_extendsI [OF assms]] by (simp add: enter_once_def)
next
  case False
  then show ?thesis
    using same_then_front [OF assms enter_request_front]
    by (simp add: enter_once_def insert_commute)
qed

lemma policy_node_front:
  "front_extends {owner x, rq_owner r} r (insts s) (insts (snd (snd (snd (policy_node c E r x upd m s)))))"
proof -
  have id: "front_extends {owner x, rq_owner r} r (insts s) (insts s)"
    by (rule front_extendsI) simp
  have en: "front_extends {owner x, rq_owner r} r (insts s)
      (insts (snd (snd (enter_once c r cmd upd m s'))))"
    if "same_except {owner x} (insts s) (insts s')" for cmd s'
    using that by (rule enter_once_front)
  show ?thesis
    by (auto simp: policy_node_def intro!: en conflict_same_except id split: asm_case.split)
qed

lemma policy_node_gcf:
  "is_gcf (snd (snd (snd (policy_node c E r x upd m s)))) = is_gcf s"
proof -
  have [simp]: "is_gcf (enter_request c r s') = is_gcf s'" for s'
    by (simp add: enter_request_def asm_register_list_def asm_simps)
  have [simp]: "is_gcf (conflict_stop c E r x s) = is_gcf s"
    "is_gcf (conflict_pause c E r x s) = is_gcf s" "is_gcf (conflict_mix c E r x s) = is_gcf s"
    by (simp_all add: conflict_stop_def conflict_pause_def conflict_mix_def Let_def split_beta asm_simps)
  show ?thesis by (simp add: policy_node_def enter_once_def split: asm_case.split)
qed

section \<open>The loop implements the specification\<close>

definition last_nodes :: "nat \<Rightarrow> inst list \<Rightarrow> inst list" where
  "last_nodes n xs = drop (length xs - n) xs"

lemma last_nodes_all [simp]: "last_nodes (length xs) xs = xs"
  by (simp add: last_nodes_def)

lemma last_nodes_Suc:
  "Suc n \<le> length xs \<Longrightarrow> last_nodes (Suc n) xs = node_at n xs # last_nodes n xs"
  by (simp add: last_nodes_def node_at_def Cons_nth_drop_Suc [symmetric] Suc_diff_Suc)

lemma set_last_nodes: "set (last_nodes n xs) \<subseteq> set xs"
  by (simp add: last_nodes_def set_drop_subset)

lemma front_extends_last:
  assumes "front_extends A r xs ys" "n \<le> length xs"
  shows "same_except A (last_nodes n xs) (last_nodes n ys)" "n \<le> length ys"
proof -
  obtain pre zs where ys: "ys = pre @ zs" and zs: "same_except A xs zs"
    using assms(1) by (auto simp: front_extends_def)
  from same_except_length [OF zs] assms(2)
  have "last_nodes n ys = drop (length xs - n) zs" by (simp add: last_nodes_def ys)
  with same_except_drop [OF zs] show "same_except A (last_nodes n xs) (last_nodes n ys)"
    by (simp add: last_nodes_def)
  show "n \<le> length ys" using same_except_length [OF zs] assms(2) by (simp add: ys)
qed

lemma policy_node_verdict:
  "fst (policy_node c E r x upd m s) \<longleftrightarrow> node_verdict (is_gcf s) r x = None"
  "rp_command (fst (snd (snd (policy_node c E r x upd m s)))) =
     command_code (case node_verdict (is_gcf s) r x of None \<Rightarrow> ASM_COMMAND_STOP | Some v \<Rightarrow> v)"
  by (auto simp: policy_node_def node_verdict_def enter_once_def snd_msg_set_def
      split: asm_case.split)

text \<open>One round: the rest of the list keeps everything but the state of the asking instance.\<close>

lemma policy_round:
  assumes "Suc n \<le> length (insts s)" "distinct (map owner (last_nodes (Suc n) (insts s)))"
    and node: "policy_node c E r (node_at n (insts s)) upd m s = (skip, upd1, m1, s1)"
  shows "same_except {rq_owner r} (last_nodes n (insts s)) (last_nodes n (insts s1))"
    "n \<le> length (insts s1)" "is_gcf s1 = is_gcf s"
proof -
  let ?x = "node_at n (insts s)"
  have fe: "front_extends {owner ?x, rq_owner r} r (insts s) (insts s1)"
    using policy_node_front [of ?x r s c E upd m] by (simp add: node)
  have n: "n \<le> length (insts s)" using assms(1) by simp
  have "owner ?x \<notin> owner ` set (last_nodes n (insts s))"
    using assms(2) by (simp add: last_nodes_Suc [OF assms(1)])
  with front_extends_last [OF fe n]
  show "same_except {rq_owner r} (last_nodes n (insts s)) (last_nodes n (insts s1))"
    "n \<le> length (insts s1)" by (auto intro: same_except_keep)
  show "is_gcf s1 = is_gcf s"
    using policy_node_gcf [of c E r ?x upd m s] by (simp add: node)
qed

lemma playing_loop_spec:
  assumes "n \<le> length (insts s)" "distinct (map owner (last_nodes n (insts s)))"
  shows "rp_command (fst (snd (playing_loop c E r n upd m s)))
    = policy_spec (is_gcf s) r (last_nodes n (insts s)) (rp_command m)"
  using assms
proof (induction n arbitrary: upd m s)
  case (Suc n)
  let ?x = "node_at n (insts s)"
  note last = last_nodes_Suc [OF Suc.prems(1)]
  obtain skip upd1 m1 s1 where node: "policy_node c E r ?x upd m s = (skip, upd1, m1, s1)"
    by (cases "policy_node c E r ?x upd m s") auto
  note round = policy_round [OF Suc.prems node]
  have dist: "distinct (map owner (last_nodes n (insts s)))"
    using Suc.prems(2) by (simp add: last)
  then have "distinct (map owner (last_nodes n (insts s1)))"
    by (simp add: same_except_owners [OF round(1)])
  from Suc.IH [OF round(2) this] policy_spec_same_except [OF round(1)] round(3)
  have IH1: "rp_command (fst (snd (playing_loop c E r n upd1 m1 s1)))
      = policy_spec (is_gcf s) r (last_nodes n (insts s)) (rp_command m1)"
    by simp
  have IH0: "rp_command (fst (snd (playing_loop c E r n upd m s)))
      = policy_spec (is_gcf s) r (last_nodes n (insts s)) (rp_command m)"
    using Suc dist by simp
  from policy_node_verdict [of c E r ?x upd m s] IH0 IH1 show ?case
    by (auto simp: last node Let_def counts_def owner_def rq_owner_def
        simp del: command_code.simps split: option.splits)
qed (simp add: last_nodes_def)

section \<open>Stopped sounds do not play\<close>

definition quiet :: "pid \<times> int \<Rightarrow> inst list \<Rightarrow> bool" where
  "quiet ow xs \<longleftrightarrow> (\<forall>x \<in> set xs. owner x = ow \<longrightarrow> sound_state x \<noteq> ASM_STATE_PLAYING)"

lemma quiet_same_except: "same_except A xs ys \<Longrightarrow> ow \<notin> A \<Longrightarrow> quiet ow xs \<longleftrightarrow> quiet ow ys"
  unfolding same_except_def by (induction rule: list_all2_induct) (auto simp: quiet_def)

lemma quiet_front_extends:
  assumes "front_extends A r xs ys" "ow \<notin> A" "ow \<noteq> rq_owner r"
  shows "quiet ow xs \<longleftrightarrow> quiet ow ys"
proof -
  obtain pre zs where "ys = pre @ zs" "same_except A xs zs" "owner ` set pre \<subseteq> {rq_owner r}"
    using assms(1) by (auto simp: front_extends_def)
  with quiet_same_except [OF this(2) assms(2)] assms(3) show ?thesis
    by (auto simp: quiet_def)
qed

lemma quiet_update_first:
  assumes "st \<noteq> ASM_STATE_PLAYING"
  shows "distinct (map owner xs) \<or> quiet (p, h) xs \<Longrightarrow> quiet (p, h)
    (update_first (\<lambda>x. instance_id x = p \<and> sound_handle x = h)
      (\<lambda>x. x\<lparr>sound_state := st, mm_resource := res\<rparr>) xs)"
  using assms by (induction xs) (auto simp: quiet_def owner_def image_iff)

lemma change_state_quiet:
  assumes "st \<noteq> ASM_STATE_PLAYING" "st \<noteq> ASM_STATE_IGNORE" "distinct (map owner (insts s))"
  shows "quiet (p, h) (insts (asm_change_state_list c p h st res s))"
proof -
  let ?ys = "update_first (\<lambda>x. instance_id x = p \<and> sound_handle x = h)
        (\<lambda>x. x\<lparr>sound_state := st, mm_resource := res\<rparr>) (insts s)"
  have "same_except {} ?ys (update_monitor_active p ?ys)"
    by (rule same_except_owners_sounds) (simp_all add: asm_simps)
  from quiet_same_except [OF this] quiet_update_first [OF assms(1), of "insts s" p h res] assms
  show ?thesis by (simp add: asm_change_state_list_def asm_simps)
qed

lemma asm_inv_distinct_owner: "asm_inv c s \<Longrightarrow> distinct (map owner (insts s))"
  using distinct_map [of snd "map owner (insts s)"]
  by (auto simp: asm_inv_def handles_wf_def owner_def comp_def)

lemma conflict_stop_quiet:
  assumes "asm_inv c s"
  shows "quiet (owner x) (insts (conflict_stop c E r x s))"
proof -
  have "distinct (map owner (insts (mark_resume ev p h
      (snd (do_callback c E p' h' cmd src (stop_monitor c E p'' src' b s))))))"
    for ev p h p' h' cmd src p'' src' b
    using assms by (intro asm_inv_distinct_owner [of c]) simp
  then show ?thesis
    by (simp add: conflict_stop_def Let_def split_beta asm_simps owner_def change_state_quiet)
qed

text \<open>Once quiet, an instance other than the asking one stays quiet through the loop.\<close>

lemma change_state_keeps_quiet:
  assumes "quiet ow (insts s)" "st \<noteq> ASM_STATE_PLAYING \<or> (p, h) \<noteq> ow"
  shows "quiet ow (insts (asm_change_state_list c p h st res s))"
proof (cases "(p, h) = ow")
  case False
  then show ?thesis
    by (subst quiet_same_except [OF change_state_same_except, symmetric]) (use assms(1) in auto)
next
  case True
  let ?ys = "update_first (\<lambda>x. instance_id x = p \<and> sound_handle x = h)
        (\<lambda>x. x\<lparr>sound_state := st, mm_resource := res\<rparr>) (insts s)"
  have "same_except {} ?ys (update_monitor_active p ?ys)"
    by (rule same_except_owners_sounds) (simp_all add: asm_simps)
  with True assms quiet_update_first [of st "insts s" p h res] show ?thesis
    using quiet_same_except [of "{}" ?ys "update_monitor_active p ?ys" "(p, h)"]
    by (auto simp: asm_change_state_list_def asm_simps)
qed

lemma conflict_keeps_quiet:
  assumes "quiet ow (insts s)"
  shows "quiet ow (insts (conflict_stop c E r x s))" "quiet ow (insts (conflict_pause c E r x s))"
    "quiet ow (insts (conflict_mix c E r x s))" "quiet ow (insts (conflict_paused c E r x s))"
proof -
  have q: "quiet ow (insts (mark_resume ev p h
      (snd (do_callback c E p' h' cmd src (stop_monitor c E p'' src' b s)))))"
    "quiet ow (insts (snd (do_callback c E p' h' cmd src (stop_monitor c E p'' src' b s))))"
    for ev p h p' h' cmd src p'' src' b
    using quiet_same_except [OF interrupt_same(1)] quiet_same_except [OF interrupt_same(2)] assms
    by (metis empty_iff)+
  have "fst (pause_update c res held) \<noteq> ASM_STATE_PLAYING"
    "fst (mix_update c res held) \<noteq> ASM_STATE_PLAYING" for res held
    by (simp_all add: pause_update_def mix_update_def split: asm_cb_res.split)
  with q assms show "quiet ow (insts (conflict_stop c E r x s))"
    "quiet ow (insts (conflict_pause c E r x s))"
    "quiet ow (insts (conflict_mix c E r x s))" "quiet ow (insts (conflict_paused c E r x s))"
    by (simp_all add: conflict_stop_def conflict_pause_def conflict_mix_def conflict_paused_def
        Let_def split_beta asm_simps change_state_keeps_quiet)
qed

lemma enter_request_keeps_quiet:
  "quiet ow (insts s) \<Longrightarrow> ow \<noteq> rq_owner r \<Longrightarrow> quiet ow (insts (enter_request c r s))"
  using quiet_front_extends [OF enter_request_front, of ow r s c] by simp

lemma policy_node_keeps_quiet:
  "quiet ow (insts s) \<Longrightarrow> ow \<noteq> rq_owner r \<Longrightarrow>
    quiet ow (insts (snd (snd (snd (policy_node c E r x upd m s)))))"
  by (auto simp: policy_node_def enter_once_def intro!: enter_request_keeps_quiet
      conflict_keeps_quiet split: asm_case.split)

lemma playing_loop_keeps_quiet:
  "quiet ow (insts s) \<Longrightarrow> ow \<noteq> rq_owner r \<Longrightarrow>
    quiet ow (insts (snd (snd (playing_loop c E r n upd m s))))"
proof (induction n arbitrary: upd m s)
  case (Suc n)
  obtain skip upd1 m1 s1 where
    node: "policy_node c E r (node_at n (insts s)) upd m s = (skip, upd1, m1, s1)"
    by (cases "policy_node c E r (node_at n (insts s)) upd m s") auto
  then have "quiet ow (insts s1)"
    using policy_node_keeps_quiet [OF Suc.prems, of c E "node_at n (insts s)" upd m] by simp
  with Suc node show ?case by (simp add: Let_def)
qed simp

lemma paused_loop_keeps_quiet:
  "quiet ow (insts s) \<Longrightarrow> ow \<noteq> rq_owner r \<Longrightarrow> quiet ow (insts (paused_loop c E r n s))"
  by (induction n arbitrary: s)
    (simp_all add: Let_def conflict_keeps_quiet change_state_keeps_quiet rq_owner_def)

text \<open>The loop stops every instance the matrix stops, unless the request is refused.\<close>

definition must_stop :: "bool \<Rightarrow> asm_req \<Rightarrow> inst \<Rightarrow> bool" where
  "must_stop gcf r x \<longleftrightarrow>
     rq_state r = ASM_STATE_PLAYING \<and> instance_id x \<noteq> rq_pid r \<and>
     effective_case gcf (sound_event x) (rq_event r) = ASM_CASE_1STOP_2PLAY"

lemma must_stop_owner: "must_stop gcf r x \<Longrightarrow> owner x \<noteq> rq_owner r"
  by (simp add: must_stop_def owner_def rq_owner_def)

lemma must_stop_same_except:
  assumes "same_except A xs ys" "x \<in> set xs" "must_stop gcf r x"
  shows "\<exists>y \<in> set ys. must_stop gcf r y \<and> owner y = owner x"
  using assms unfolding same_except_def
  by (induction rule: list_all2_induct) (auto simp: must_stop_def owner_def)

lemma refuses_same_except:
  assumes "same_except {rq_owner r} xs ys"
  shows "(\<exists>y \<in> set ys. refuses gcf r y) \<longleftrightarrow> (\<exists>x \<in> set xs. refuses gcf r x)"
  using policy_spec_same_except [OF assms, of gcf "command_code ASM_COMMAND_NONE"]
  by (simp add: policy_spec_stop_iff [symmetric, where cmd = "command_code ASM_COMMAND_NONE"]
      del: command_code.simps)

lemma policy_node_must_stop:
  assumes "must_stop (is_gcf s) r x" "asm_inv c s"
  shows "quiet (owner x) (insts (snd (snd (snd (policy_node c E r x upd m s)))))"
proof -
  have "quiet (owner x) (insts (conflict_stop c E r x s))"
    by (rule conflict_stop_quiet [OF assms(2)])
  with must_stop_owner [OF assms(1)] assms(1) show ?thesis
    by (simp add: must_stop_def policy_node_def enter_once_def enter_request_keeps_quiet)
qed

lemma playing_loop_stops:
  assumes "policy_ok c r (upd, m, s)" "n \<le> length (insts s)"
    "\<not> (\<exists>y \<in> set (last_nodes n (insts s)). refuses (is_gcf s) r y)"
    "x \<in> set (last_nodes n (insts s))" "must_stop (is_gcf s) r x"
  shows "quiet (owner x) (insts (snd (snd (playing_loop c E r n upd m s))))"
  using assms
proof (induction n arbitrary: upd m s x)
  case (Suc n)
  let ?y = "node_at n (insts s)"
  note last = last_nodes_Suc [OF Suc.prems(2)]
  have inv: "asm_inv c s" using Suc.prems(1) by (simp add: policy_ok_def)
  then have own: "distinct (map owner (insts s))" by (rule asm_inv_distinct_owner)
  then have dist: "distinct (map owner (last_nodes (Suc n) (insts s)))"
    by (simp add: last_nodes_def flip: drop_map)
  obtain skip upd1 m1 s1 where node: "policy_node c E r ?y upd m s = (skip, upd1, m1, s1)"
    by (cases "policy_node c E r ?y upd m s") auto
  note round = policy_round [OF Suc.prems(2) dist node]
  have ok1: "policy_ok c r (upd1, m1, s1)"
    using policy_node_ok [OF Suc.prems(1), of E ?y] node by simp
  have norefuse: "\<not> (\<exists>y \<in> set (last_nodes n (insts s1)). refuses (is_gcf s1) r y)"
    using Suc.prems(3) by (simp add: refuses_same_except [OF round(1)] round(3) last)
  have x_ne: "owner x \<noteq> rq_owner r" using Suc.prems(5) by (rule must_stop_owner)
  show ?case
  proof (cases "counts r ?y")
    case False
    then have step: "playing_loop c E r (Suc n) upd m s = playing_loop c E r n upd m s"
      by (auto simp: counts_def owner_def rq_owner_def Let_def)
    show ?thesis
    proof (cases "x \<in> set (last_nodes n (insts s))")
      case True
      with Suc step show ?thesis by (simp add: last)
    next
      case notin: False
      then have "x = ?y" using Suc.prems(4) by (simp add: last)
      with False x_ne have "sound_state x \<noteq> ASM_STATE_PLAYING" by (simp add: counts_def)
      moreover have "z = x" if "z \<in> set (insts s)" "owner z = owner x" for z
        using own that set_last_nodes [of "Suc n" "insts s"] Suc.prems(4)
        by (auto simp: distinct_map dest!: inj_onD)
      ultimately have "quiet (owner x) (insts s)" unfolding quiet_def by metis
      with x_ne step show ?thesis by (simp add: playing_loop_keeps_quiet)
    qed
  next
    case True
    then have "node_verdict (is_gcf s) r ?y \<noteq> None"
      using Suc.prems(3) by (auto simp: last refuses_def)
    then have "\<not> skip" using policy_node_verdict(1) [of c E r ?y upd m s] by (simp add: node)
    with True have step: "playing_loop c E r (Suc n) upd m s = playing_loop c E r n upd1 m1 s1"
      by (auto simp: counts_def owner_def rq_owner_def Let_def node)
    show ?thesis
    proof (cases "x \<in> set (last_nodes n (insts s))")
      case True
      then obtain z where "z \<in> set (last_nodes n (insts s1))" "must_stop (is_gcf s1) r z"
        "owner z = owner x"
        using must_stop_same_except [OF round(1) _ Suc.prems(5)] round(3) by auto
      with Suc.IH [OF ok1 round(2) norefuse] step show ?thesis by metis
    next
      case False
      then have "x = ?y" using Suc.prems(4) by (simp add: last)
      with policy_node_must_stop [OF Suc.prems(5) inv, of E upd m]
      have "quiet (owner x) (insts s1)" by (simp add: node)
      with x_ne step show ?thesis by (simp add: playing_loop_keeps_quiet)
    qed
  qed
qed (simp add: last_nodes_def)

section \<open>The whole comparison\<close>

lemma status_bits_zero_iff:
  "status_bits c st xs w = 0 \<longleftrightarrow>
    w = 0 \<and> (\<forall>x \<in> set xs. sound_state x = st \<longrightarrow> sound_status c (sound_event x) = 0)"
  by (induction xs arbitrary: w) (auto simp: or_eq_0_iff)

lemma status_bits_none: "(\<And>x. x \<in> set xs \<Longrightarrow> sound_state x \<noteq> st) \<Longrightarrow> status_bits c st xs w = w"
  by (induction xs) simp_all

lemma set_all_clean_quiet: "quiet ow (set_all_monitor_clean xs) \<longleftrightarrow> quiet ow xs"
  using quiet_same_except [OF same_except_owners_sounds [of "set_all_monitor_clean xs" xs "{}"]]
  by (simp add: asm_simps)

text \<open>The command of the reply, when somebody plays.\<close>

lemma compare_reply:
  assumes "asm_inv c s" "g_status_playing s \<noteq> STATUS_NONE c"
  shows "rp_command (fst (asm_compare_priority_matrix c E b m r s))
    = policy_spec (is_gcf s) r (insts s) (rp_command m)"
  using assms playing_loop_spec [of "length (insts s)" s c E r False m]
    asm_inv_distinct_owner [OF assms(1)]
  by (simp add: asm_compare_priority_matrix_def Let_def split_beta)

lemma compare_stops:
  assumes "asm_inv c s" "rq_id r = ASM_REQUEST_REGISTER \<Longrightarrow> fresh_handle c r s"
    "g_status_playing s \<noteq> STATUS_NONE c"
    "\<not> (\<exists>y \<in> set (insts s). refuses (is_gcf s) r y)" "x \<in> set (insts s)" "must_stop (is_gcf s) r x"
  shows "quiet (owner x) (insts (snd (asm_compare_priority_matrix c E b m r s)))"
proof -
  have "policy_ok c r (False, m, s)" using assms(1,2) by (simp add: policy_ok_def)
  from playing_loop_stops [OF this, of "length (insts s)" x E] assms(4-6)
  have "quiet (owner x) (insts (snd (snd (playing_loop c E r (length (insts s)) False m s))))"
    by simp
  with assms(3) must_stop_owner [OF assms(6)] show ?thesis
    by (simp add: asm_compare_priority_matrix_def Let_def split_beta asm_simps set_all_clean_quiet
        paused_loop_keeps_quiet)
qed

end
