(* ===== verification/Asm_Results.thy ===== *)
theory Asm_Results
  imports Asm_Policy_Facts
begin

text \<open>
  Further results on single requests: what the reply of a registration says, what leaving and
  resuming do to the list, and the commands that are sent.
\<close>

section \<open>Handles in the reply\<close>

lemma enter_once_alloc: "rp_alloc_handle (fst (snd (enter_once c r cmd upd m s))) = rq_handle r"
  by (simp add: enter_once_def snd_msg_set_def)

lemma policy_node_alloc: "rp_alloc_handle (fst (snd (snd (policy_node c E r x upd m s)))) = rq_handle r"
  by (simp add: policy_node_def enter_once_alloc split: asm_case.split)
    (simp add: snd_msg_set_def)

lemma playing_loop_alloc_keep:
  "rp_alloc_handle m = rq_handle r \<Longrightarrow>
    rp_alloc_handle (fst (snd (playing_loop c E r n upd m s))) = rq_handle r"
proof (induction n arbitrary: upd m s)
  case (Suc n)
  obtain skip upd1 m1 s1 where
    node: "policy_node c E r (node_at n (insts s)) upd m s = (skip, upd1, m1, s1)"
    by (cases "policy_node c E r (node_at n (insts s)) upd m s") auto
  with policy_node_alloc [of c E r "node_at n (insts s)" upd m s] Suc show ?case
    by (simp add: Let_def)
qed simp

lemma playing_loop_alloc:
  assumes "n \<le> length (insts s)" "x \<in> set (last_nodes n (insts s))" "counts r x"
  shows "rp_alloc_handle (fst (snd (playing_loop c E r n upd m s))) = rq_handle r"
  using assms
proof (induction n arbitrary: upd m)
  case (Suc n)
  note last = last_nodes_Suc [OF Suc.prems(1)]
  obtain skip upd1 m1 s1 where
    node: "policy_node c E r (node_at n (insts s)) upd m s = (skip, upd1, m1, s1)"
    by (cases "policy_node c E r (node_at n (insts s)) upd m s") auto
  with policy_node_alloc [of c E r "node_at n (insts s)" upd m s]
  have "rp_alloc_handle m1 = rq_handle r" by simp
  with playing_loop_alloc_keep [OF this] Suc node show ?case
    by (auto simp: Let_def last counts_def owner_def rq_owner_def)
qed (simp add: last_nodes_def)

lemma playing_exists:
  assumes "asm_inv c s" "g_status_playing s \<noteq> 0"
  obtains x where "x \<in> set (insts s)" "sound_state x = ASM_STATE_PLAYING"
  using assms status_bits_none [of "insts s" ASM_STATE_PLAYING c 0]
  by (auto simp: asm_inv_def status_ok_def)

lemma compare_alloc:
  assumes "asm_inv c s" "fresh_handle c r s" "STATUS_NONE c = 0"
  shows "rp_alloc_handle (fst (asm_compare_priority_matrix c E b m r s)) = rq_handle r"
proof (cases "g_status_playing s = 0")
  case True
  with assms(3) show ?thesis
    by (simp add: asm_compare_priority_matrix_def Let_def snd_msg_set_def)
next
  case False
  then obtain x where x: "x \<in> set (insts s)" "sound_state x = ASM_STATE_PLAYING"
    using playing_exists [OF assms(1)] by metis
  with assms(2) have "counts r x"
    by (auto simp: counts_def fresh_handle_def owner_def rq_owner_def image_iff)
  with x playing_loop_alloc [of "length (insts s)" s x r c E False m] False assms(3)
  show ?thesis by (simp add: asm_compare_priority_matrix_def Let_def split_beta)
qed

lemma register_alloc:
  assumes "asm_inv c s" "cfg_ok c" "STATUS_NONE c = 0" "cookie_ok E"
  shows "rp_alloc_handle (fst (process_register c E b junk r s))
    = asm_get_empty_handle c (drop_dead E (insts s))"
proof -
  let ?s = "check_dead_process c E s"
  have s: "asm_inv c ?s" using assms(1) by simp
  have xs: "insts ?s = drop_dead E (insts s)"
    by (simp add: check_dead_process_def asm_simps)
  have "rp_alloc_handle (fst (asm_compare_priority_matrix c E b m
      (r\<lparr>rq_handle := asm_get_empty_handle c (insts ?s)\<rparr>) ?s)) = asm_get_empty_handle c (insts ?s)"
    if "asm_get_empty_handle c (insts ?s) \<noteq> -1" for m
    using compare_alloc [OF s fresh_after_alloc [OF s assms(2) that] assms(3)] by simp
  with assms(4) show ?thesis
    by (simp add: process_register_def check_privilege_def Let_def split_beta xs)
qed

section \<open>Leaving\<close>

lemma drop_dead_filter: "drop_dead E xs = filter (\<lambda>x. isPIDExist E (instance_id x)) xs"
  by (induction xs) simp_all

lemma unregister_insts:
  assumes "asm_inv c s"
  shows "insts (snd (asm_unregister_list c h s)) = filter (\<lambda>x. sound_handle x \<noteq> h) (insts s)"
  using assms remove_first_filter [of sound_handle "insts s" h]
  by (simp add: asm_unregister_list_def asm_simps asm_inv_def handles_wf_def)

lemma emergent_exit_insts:
  "asm_inv c s \<Longrightarrow> insts (emergent_exit c p s) = filter (\<lambda>x. instance_id x \<noteq> p) (insts s)"
proof (induction c p s rule: emergent_exit.induct)
  case (1 c p s)
  show ?case
  proof (cases "find (\<lambda>x. instance_id x = p) (insts s)")
    case None
    then have "\<And>x. x \<in> set (insts s) \<Longrightarrow> instance_id x \<noteq> p" by (simp add: find_None_iff)
    then show ?thesis
      by (subst emergent_exit.simps) (auto simp: None intro!: filter_True [symmetric])
  next
    case (Some x)
    then have x: "x \<in> set (insts s)" "instance_id x = p" by (auto simp: find_Some_iff)
    obtain i s1 where un: "asm_unregister_list c (sound_handle x) s = (i, s1)" by fastforce
    define s2 where "s2 = (if i \<noteq> -1 then asm_log (RemovePipes i (sound_handle x)) s1 else s1)"
    have inv: "asm_inv c s2"
      using asm_inv_unregister [OF 1(2), of "sound_handle x"] by (simp add: un s2_def)
    have s2: "insts s2 = filter (\<lambda>y. sound_handle y \<noteq> sound_handle x) (insts s)"
      using unregister_insts [OF 1(2), of "sound_handle x"] by (simp add: un s2_def asm_simps)
    have "instance_id y = p" if "y \<in> set (insts s)" "sound_handle y = sound_handle x" for y
      using that x 1(2) by (auto simp: asm_inv_def handles_wf_def distinct_map dest!: inj_onD)
    then have "filter (\<lambda>y. instance_id y \<noteq> p) (insts s2) = filter (\<lambda>y. instance_id y \<noteq> p) (insts s)"
      by (auto simp: s2 intro!: filter_cong)
    with 1(1) [OF Some un [symmetric] refl s2_def] inv
    show ?thesis
      by (subst emergent_exit.simps) (simp add: Some un Let_def s2_def split: if_splits)
  qed
qed

section \<open>Commands to clients\<close>

fun is_command :: "asm_call \<Rightarrow> bool" where
  "is_command (CbCommand p h cmd src w) = True"
| "is_command _ = False"

definition commands :: "asm \<Rightarrow> asm_call list" where
  "commands s = filter is_command (acalls s)"

definition command_call :: "asm_cfg \<Rightarrow> asm_command \<Rightarrow> asm_event_source \<Rightarrow> inst \<Rightarrow> asm_call" where
  "command_call c cmd src x =
    CbCommand (instance_id x) (sound_handle x) cmd src (callback_word c (sound_handle x) cmd src)"

lemma commands_simps [simp]:
  "commands (updatePhoneStatus c s) = commands s"
  "commands (s\<lparr>insts := xs\<rparr>) = commands s"
  "commands (s\<lparr>asess := x\<rparr>) = commands s"
  "commands (asm_set_session E se st s) = commands s"
  by (simp_all add: commands_def asm_simps)

lemma do_callback_commands:
  "commands (snd (do_callback c E p h cmd src s)) =
     CbCommand p h cmd src (callback_word c h cmd src) # commands s"
  by (simp add: commands_def do_callback_def Let_def asm_log_def split: client_reply.split)

lemma resume_nodes_commands:
  "commands (snd (resume_nodes c E src xs s)) =
     rev (map (command_call c ASM_COMMAND_RESUME src) (filter (\<lambda>x. need_resume x = ASM_NEED_RESUME) xs))
       @ commands s"
  by (induction xs arbitrary: s)
    (simp_all add: Let_def split_beta do_callback_commands command_call_def)

lemma resume_all_result:
  assumes "cfg_ok c"
  shows "insts (asm_do_all_resume_callback c E src s)
      = map (\<lambda>x. x\<lparr>need_resume := ASM_NEED_NOT_RESUME\<rparr>) (insts s)"
    "commands (asm_do_all_resume_callback c E src s)
      = rev (map (command_call c ASM_COMMAND_RESUME src)
          (filter (\<lambda>x. need_resume x = ASM_NEED_RESUME) (insts s))) @ commands s"
  using resume_nodes_keeps [of c E src "insts s" s] assms
  by (simp_all add: asm_do_all_resume_callback_def split_beta resume_nodes_commands cfg_ok_def)

section \<open>A request that only meets calls of the same kind\<close>

lemma playing_loop_none:
  assumes "\<And>x. x \<in> set (insts s) \<Longrightarrow> counts r x \<Longrightarrow>
      effective_case (is_gcf s) (sound_event x) (rq_event r) = ASM_CASE_NONE"
    "rq_state r = ASM_STATE_PLAYING" "n \<le> length (insts s)"
  shows "fst (playing_loop c E r n upd m s) = upd" "snd (snd (playing_loop c E r n upd m s)) = s"
proof -
  have "fst (playing_loop c E r n upd m s) = upd \<and> snd (snd (playing_loop c E r n upd m s)) = s"
    using assms(3)
  proof (induction n arbitrary: m)
    case (Suc n)
    have "node_at n (insts s) \<in> set (insts s)"
      using Suc.prems by (simp add: node_at_def)
    with assms(1) [OF this] assms(2) Suc show ?case
      by (auto simp: Let_def policy_node_def counts_def owner_def rq_owner_def)
  qed simp
  then show "fst (playing_loop c E r n upd m s) = upd"
    "snd (snd (playing_loop c E r n upd m s)) = s" by simp_all
qed

end
