(* ===== verification/Asm_Heap.thy ===== *)
theory Asm_Heap
  imports Asm_List
begin

text \<open>
  The pointer program of \<^verbatim>\<open>__check_dead_process\<close>.  The list hangs in a heap; a free removes the cell,
  and an access to a removed cell ends the run with \<^verbatim>\<open>UseAfterFree\<close>.  The loop starts with both
  cursors on the head and unlinks through the second one.  When the first node is dead, the second
  cursor stays on the freed node, and the next access is to freed memory.  \<^verbatim>\<open>drop_dead\<close> of \<^verbatim>\<open>Asm_List\<close>
  is what the run computes when the first node is alive, and what it computes on a machine where the
  freed cell still holds its old contents.
\<close>

section \<open>Heap and lists\<close>

record cell =
  cl_inst :: inst
  cl_next :: nat

type_synonym cells = "nat \<Rightarrow> cell option"

datatype outcome = Done cells nat | UseAfterFree | OutOfFuel

text \<open>The nodes from an address to the dummy, with their contents.\<close>

fun chain :: "cells \<Rightarrow> nat \<Rightarrow> nat \<Rightarrow> (nat \<times> inst) list \<Rightarrow> bool" where
  "chain H a d [] = (a = d)"
| "chain H a d ((b, x) # ps) =
    (a = b \<and> (case H a of None \<Rightarrow> False | Some cl \<Rightarrow> cl_inst cl = x \<and> chain H (cl_next cl) d ps))"

text \<open>A well-formed list: nodes, then the dummy, whose successor is the tail sentinel; all addresses
  differ.\<close>

definition list_at :: "cells \<Rightarrow> nat \<Rightarrow> nat \<Rightarrow> nat \<Rightarrow> (nat \<times> inst) list \<Rightarrow> bool" where
  "list_at H hp d tlp ps \<longleftrightarrow>
     chain H hp d ps \<and> (case H d of None \<Rightarrow> False | Some cl \<Rightarrow> cl_next cl = tlp) \<and>
     distinct (map fst ps) \<and> d \<notin> fst ` set ps \<and> tlp \<notin> fst ` set ps \<and> d \<noteq> tlp"

section \<open>The loop\<close>

fun dead_loop :: "asm_env \<Rightarrow> nat \<Rightarrow> nat \<Rightarrow> cells \<Rightarrow> nat \<Rightarrow> nat \<Rightarrow> nat \<Rightarrow> outcome" where
  "dead_loop E tlp 0 H hp temp temp2 = OutOfFuel"
| "dead_loop E tlp (Suc n) H hp temp temp2 =
    (case H temp of
       None \<Rightarrow> UseAfterFree
     | Some cl \<Rightarrow>
         if cl_next cl = tlp then Done H hp
         else if \<not> isPIDExist E (instance_id (cl_inst cl)) then
           (let hd1 = (if temp = hp then cl_next cl else hp)
            in case H temp2 of
                 None \<Rightarrow> UseAfterFree
               | Some cl2 \<Rightarrow>
                   (let H1 = H(temp2 \<mapsto> cl2\<lparr>cl_next := cl_next cl\<rparr>);
                        H2 = H1(temp := None)
                    in case H2 temp2 of
                         None \<Rightarrow> UseAfterFree
                       | Some cl3 \<Rightarrow> dead_loop E tlp n H2 hd1 (cl_next cl3) temp2))
         else dead_loop E tlp n H hp (cl_next cl) temp)"

definition check_dead_run :: "asm_env \<Rightarrow> nat \<Rightarrow> nat \<Rightarrow> cells \<Rightarrow> nat \<Rightarrow> outcome" where
  "check_dead_run E fuel tlp H hp = dead_loop E tlp fuel H hp hp hp"

section \<open>Lemmas\<close>

lemma chain_cong:
  "(\<And>a. a \<in> fst ` set ps \<Longrightarrow> H' a = H a) \<Longrightarrow> chain H' a d ps \<longleftrightarrow> chain H a d ps"
proof (induction ps arbitrary: a)
  case (Cons p ps)
  then show ?case by (cases p) (auto split: option.split)
qed simp

lemma chain_next_not_tail:
  assumes "chain H a d ps" "d \<noteq> tlp" "tlp \<notin> fst ` set ps"
  shows "a \<noteq> tlp"
  using assms by (cases ps) auto

text \<open>The inner run: the second cursor is on a live node in front of the rest.\<close>

lemma dead_loop_rest:
  assumes "chain H temp d ps" "H d = Some dcl" "cl_next dcl = tlp" "d \<noteq> tlp"
    "distinct (map fst ps)" "d \<notin> fst ` set ps" "tlp \<notin> fst ` set ps"
    "H p = Some pcl" "cl_next pcl = temp" "p \<notin> fst ` set ps" "p \<noteq> d" "hp \<notin> fst ` set ps"
    "n \<ge> Suc (length ps)"
  shows "\<exists>H' pcl'. dead_loop E tlp n H hp temp p = Done H' hp \<and> H' p = Some pcl' \<and>
    cl_inst pcl' = cl_inst pcl \<and>
    chain H' (cl_next pcl') d (filter (\<lambda>(a, x). isPIDExist E (instance_id x)) ps) \<and>
    (\<forall>a. a \<noteq> p \<and> a \<notin> fst ` set ps \<longrightarrow> H' a = H a)"
  using assms
proof (induction ps arbitrary: H temp p pcl n)
  case Nil
  then obtain m where "n = Suc m" by (cases n) auto
  with Nil show ?case by auto
next
  case (Cons q ps)
  obtain m where n: "n = Suc m" using Cons.prems(13) by (cases n) auto
  obtain b x where q: "q = (b, x)" by (cases q)
  from Cons.prems(1) obtain cl where b: "temp = b" "H temp = Some cl" "cl_inst cl = x"
    and rest: "chain H (cl_next cl) d ps"
    by (auto simp: q split: option.splits)
  have nt: "cl_next cl \<noteq> tlp"
    using chain_next_not_tail [OF rest] Cons.prems(4,7) by auto
  show ?case
  proof (cases "isPIDExist E (instance_id x)")
    case True
    have "\<exists>H' pcl'. dead_loop E tlp m H hp (cl_next cl) temp = Done H' hp \<and> H' temp = Some pcl' \<and>
      cl_inst pcl' = cl_inst cl \<and>
      chain H' (cl_next pcl') d (filter (\<lambda>(a, x). isPIDExist E (instance_id x)) ps) \<and>
      (\<forall>a. a \<noteq> temp \<and> a \<notin> fst ` set ps \<longrightarrow> H' a = H a)"
      by (rule Cons.IH) (use Cons.prems rest b q n in auto)
    then obtain H' pcl' where run: "dead_loop E tlp m H hp (cl_next cl) temp = Done H' hp"
      "H' temp = Some pcl'" "cl_inst pcl' = cl_inst cl"
      "chain H' (cl_next pcl') d (filter (\<lambda>(a, x). isPIDExist E (instance_id x)) ps)"
      and frame: "\<And>a. a \<noteq> temp \<Longrightarrow> a \<notin> fst ` set ps \<Longrightarrow> H' a = H a" by blast
    have "H' p = Some pcl" using frame [of p] Cons.prems(8,10) b(1) by (auto simp: q)
    with run frame True nt b Cons.prems(9) show ?thesis
      by (intro exI [of _ H'] exI [of _ pcl]) (auto simp: n q)
  next
    case False
    let ?H = "(H(p \<mapsto> pcl\<lparr>cl_next := cl_next cl\<rparr>))(temp := None)"
    have p: "p \<noteq> temp" using Cons.prems(10) b(1) by (auto simp: q)
    have out: "a \<noteq> p" "a \<noteq> temp" if "a \<in> fst ` set ps" for a
      using that Cons.prems(5,10) b(1) by (auto simp: q)
    have "\<exists>H' pcl'. dead_loop E tlp m ?H hp (cl_next cl) p = Done H' hp \<and> H' p = Some pcl' \<and>
      cl_inst pcl' = cl_inst (pcl\<lparr>cl_next := cl_next cl\<rparr>) \<and>
      chain H' (cl_next pcl') d (filter (\<lambda>(a, x). isPIDExist E (instance_id x)) ps) \<and>
      (\<forall>a. a \<noteq> p \<and> a \<notin> fst ` set ps \<longrightarrow> H' a = ?H a)"
    proof (rule Cons.IH)
      show "chain ?H (cl_next cl) d ps"
        by (subst chain_cong [where H = H]) (use out rest in auto)
      show "?H d = Some dcl" using Cons.prems(2,6,11) b(1) by (auto simp: q)
    qed (use Cons.prems p n q in auto)
    then obtain H' pcl' where run: "dead_loop E tlp m ?H hp (cl_next cl) p = Done H' hp"
      "H' p = Some pcl'" "cl_inst pcl' = cl_inst pcl"
      "chain H' (cl_next pcl') d (filter (\<lambda>(a, x). isPIDExist E (instance_id x)) ps)"
      and frame: "\<And>a. a \<noteq> p \<Longrightarrow> a \<notin> fst ` set ps \<Longrightarrow> H' a = ?H a" by auto
    have "temp \<noteq> hp" using Cons.prems(12) b(1) by (auto simp: q)
    with run frame False nt b p Cons.prems(8) show ?thesis
      by (intro exI [of _ H'] exI [of _ pcl']) (auto simp: n q Let_def)
  qed
qed

text \<open>The two outcomes of the whole run.\<close>

lemma check_dead_run_alive:
  assumes "list_at H hp d tlp ps" "case ps of [] \<Rightarrow> True | (a, x) # _ \<Rightarrow> isPIDExist E (instance_id x)"
    "fuel \<ge> Suc (length ps)"
  shows "\<exists>H'. check_dead_run E fuel tlp H hp = Done H' hp \<and>
    chain H' hp d (filter (\<lambda>(a, x). isPIDExist E (instance_id x)) ps)"
proof -
  from assms(1) obtain dcl where d: "H d = Some dcl" "cl_next dcl = tlp"
    by (auto simp: list_at_def split: option.splits)
  obtain m where fuel: "fuel = Suc m" using assms(3) by (cases fuel) auto
  show ?thesis
  proof (cases ps)
    case Nil
    with assms(1) d show ?thesis by (simp add: check_dead_run_def fuel list_at_def)
  next
    case (Cons q ps')
    obtain b x where q: "q = (b, x)" by (cases q)
    from assms(1) obtain cl where b: "hp = b" "H hp = Some cl" "cl_inst cl = x"
      and rest: "chain H (cl_next cl) d ps'"
      by (auto simp: list_at_def Cons q split: option.splits)
    have nt: "cl_next cl \<noteq> tlp"
      using chain_next_not_tail [OF rest] assms(1) by (auto simp: list_at_def Cons)
    have alive: "isPIDExist E (instance_id x)" using assms(2) by (simp add: Cons q)
    have "\<exists>H' pcl'. dead_loop E tlp m H hp (cl_next cl) hp = Done H' hp \<and> H' hp = Some pcl' \<and>
      cl_inst pcl' = cl_inst cl \<and>
      chain H' (cl_next pcl') d (filter (\<lambda>(a, x). isPIDExist E (instance_id x)) ps') \<and>
      (\<forall>a. a \<noteq> hp \<and> a \<notin> fst ` set ps' \<longrightarrow> H' a = H a)"
      by (rule dead_loop_rest [OF rest d])
        (use assms b q fuel in \<open>auto simp: list_at_def Cons\<close>)
    with alive nt b show ?thesis
      by (auto simp: check_dead_run_def fuel Cons q)
  qed
qed

lemma check_dead_run_dead:
  assumes "list_at H hp d tlp ((a, x) # ps)" "\<not> isPIDExist E (instance_id x)" "fuel > 0"
  shows "check_dead_run E fuel tlp H hp = UseAfterFree"
proof -
  obtain m where fuel: "fuel = Suc m" using assms(3) by (cases fuel) auto
  from assms(1) obtain cl where b: "hp = a" "H hp = Some cl" "cl_inst cl = x"
    and rest: "chain H (cl_next cl) d ps"
    by (auto simp: list_at_def split: option.splits)
  have "cl_next cl \<noteq> tlp"
    using chain_next_not_tail [OF rest] assms(1) by (auto simp: list_at_def)
  with b assms(2) show ?thesis by (simp add: check_dead_run_def fuel Let_def)
qed

end
