(* ===== verification/Examples.thy ===== *)
theory Examples
  imports Asm_Results Asm_Heap
begin

text \<open>
  Concrete configurations and states used by the witnesses: a system whose calls all succeed, a
  session state after start-up, and an audio session manager with a few registered sounds.
\<close>

definition ex_senv :: sess_env where
  "ex_senv = \<lparr>avsys_ok = (\<lambda>_. True), send_ret = (\<lambda>_. MM_ERROR_NONE), sound_play = (\<lambda>_. True),
     stack_routes = replicate 10 0\<rparr>"

definition ex_sess :: sess where
  "ex_sess = \<lparr>asm_handle = 0, device_available = OUT_SPEAKER OR IN_MIC,
     device_active = OUT_SPEAKER OR IN_MIC, session = SESSION_MEDIA, subsession = 0,
     bt_name = [], default_sink_name = [],
     active_cbs = [\<lparr>cp_pid = 7, cp_route = 0, cp_callback = 1, cp_cbdata = 2\<rparr>],
     avail_cbs = [], calls = []\<rparr>"

lemma ex_sess_inv [simp]: "sess_inv ex_sess"
  by (auto simp: sess_inv_def one_active_def avail_wf_def ex_sess_def out_words_def in_words_def
      IS_AVAILABLE_def dev_bits)

definition ex_cfg :: asm_cfg where
  "ex_cfg = \<lparr>sound_status = (\<lambda>_. 1), STATUS_NONE = 0, RESOURCE_NONE = 0, SERVER_HANDLE_MAX = 4,
     source_code = (\<lambda>_. 3),
     cb_decode = (\<lambda>i. if i = 2 then ASM_CB_RES_STOP else if i = 0 then ASM_CB_RES_NONE
                      else ASM_CB_RES_OTHER i)\<rparr>"

lemma ex_cfg_simps [simp]:
  "sound_status ex_cfg ev = 1" "STATUS_NONE ex_cfg = 0" "RESOURCE_NONE ex_cfg = 0"
  "SERVER_HANDLE_MAX ex_cfg = 4" "source_code ex_cfg src = 3"
  "cb_decode ex_cfg i = (if i = 2 then ASM_CB_RES_STOP else if i = 0 then ASM_CB_RES_NONE
     else ASM_CB_RES_OTHER i)"
  by (simp_all add: ex_cfg_def)

lemma ex_cfg_ok [simp]: "cfg_ok ex_cfg"
  by (simp add: cfg_ok_def SERVER_HANDLE_MAX_COUNT_def)

text \<open>Processes up to 100 are alive; every client answers a command with the code for stopped.\<close>

definition ex_env :: asm_env where
  "ex_env = \<lparr>proc_readable = (\<lambda>p. p \<le> 100), client = (\<lambda>_. CbResult 2), cookie_ok = True,
     senv = ex_senv\<rparr>"

lemma ex_env_simps [simp]:
  "proc_readable ex_env p \<longleftrightarrow> p \<le> 100" "client ex_env l = CbResult 2" "cookie_ok ex_env"
  "senv ex_env = ex_senv"
  by (simp_all add: ex_env_def)

definition ex_inst :: "pid \<Rightarrow> int \<Rightarrow> asm_event \<Rightarrow> asm_sstate \<Rightarrow> inst" where
  "ex_inst p h ev st = \<lparr>instance_id = p, sound_handle = h, sound_event = ev, sound_state = st,
     need_resume = ASM_NEED_NOT_RESUME, mm_resource = 0, monitor_active = False,
     monitor_dirty = False\<rparr>"

lemma ex_inst_simps [simp]:
  "instance_id (ex_inst p h ev st) = p" "sound_handle (ex_inst p h ev st) = h"
  "sound_event (ex_inst p h ev st) = ev" "sound_state (ex_inst p h ev st) = st"
  "need_resume (ex_inst p h ev st) = ASM_NEED_NOT_RESUME" "mm_resource (ex_inst p h ev st) = 0"
  by (simp_all add: ex_inst_def)

definition ex_asm :: "inst list \<Rightarrow> asm" where
  "ex_asm xs = updatePhoneStatus ex_cfg (asm_init False ex_sess\<lparr>insts := xs\<rparr>)"

lemma ex_asm_simps [simp]:
  "insts (ex_asm xs) = xs" "asess (ex_asm xs) = ex_sess" "is_gcf (ex_asm xs) = False"
  "g_status_playing (ex_asm xs) = status_bits ex_cfg ASM_STATE_PLAYING xs 0"
  by (simp_all add: ex_asm_def asm_simps asm_init_def updatePhoneStatus_def)

lemma ex_asm_inv [simp]: "asm_inv ex_cfg (ex_asm xs) \<longleftrightarrow> handles_wf ex_cfg xs"
  by (simp add: ex_asm_def asm_inv_def asm_simps asm_init_def)

text \<open>A player of process 10 that plays and a recorder of process 20 that is silent.\<close>

definition ex_list :: "inst list" where
  "ex_list = [ex_inst 10 0 ASM_EVENT_EXCLUSIVE_MMSOUND ASM_STATE_PLAYING,
              ex_inst 20 1 ASM_EVENT_SHARE_MMCAMCORDER ASM_STATE_NONE]"

lemma ex_list_wf [simp]: "handles_wf ex_cfg ex_list"
  by (simp add: handles_wf_def ex_list_def)

definition ex_reply :: reply where
  "ex_reply = \<lparr>rp_instance = 99, rp_alloc_handle = 77, rp_cmd_handle = 66, rp_command = 55,
     rp_state = ASM_STATE_IGNORE, rp_privilege = False\<rparr>"

definition ex_req :: "asm_request \<Rightarrow> pid \<Rightarrow> int \<Rightarrow> asm_event \<Rightarrow> asm_sstate \<Rightarrow> asm_req" where
  "ex_req q p h ev st = \<lparr>rq_pid = p, rq_handle = h, rq_id = q, rq_event = ev, rq_state = st,
     rq_resource = 0\<rparr>"

lemma ex_req_simps [simp]:
  "rq_pid (ex_req q p h ev st) = p" "rq_handle (ex_req q p h ev st) = h"
  "rq_id (ex_req q p h ev st) = q" "rq_event (ex_req q p h ev st) = ev"
  "rq_state (ex_req q p h ev st) = st" "rq_resource (ex_req q p h ev st) = 0"
  by (simp_all add: ex_req_def)

end
