(* ===== verification/Session_Props.thy ===== *)
theory Session_Props
  imports Server Examples
begin

text \<open>
  The properties of the session manager and the device manager: reachable states, calls, activation
  by clients, audio paths, notifications, callback lists and route lists.
\<close>

section \<open>Reachable states\<close>


definition ex_lib :: asm_lib where
  "ex_lib = \<lparr>lib_requests = (\<lambda>_. []), lib_ok = (\<lambda>_ _. True), lib_handle = (\<lambda>_ _. Some 3),
     dock_sound_ends = False\<rparr>"


section \<open>Calls\<close>

lemma send_callbacks_ret:
  assumes "\<forall>l. send_ret E l = MM_ERROR_NONE"
  shows "fst (send_callbacks E mk cs MM_ERROR_NONE s) = MM_ERROR_NONE"
  using assms by (induction cs arbitrary: s) (simp_all add: Let_def)

lemma available_callback_ret:
  assumes "\<forall>l. send_ret E l = MM_ERROR_NONE"
  shows "fst (available_device_callback E i ou b s) = MM_ERROR_NONE"
  using send_callbacks_ret [OF assms] by (simp add: available_device_callback_def split_beta)

lemma get_device_active_cong:
  "device_active s' = device_active s \<Longrightarrow> get_device_active s' = get_device_active s"
  by (simp add: get_device_active_def GET_ACTIVE_PLAYBACK_def GET_ACTIVE_CAPTURE_def)

lemma communication_start:
  assumes "one_active s" "\<forall>l. send_ret E l = MM_ERROR_NONE"
  shows "get_device_active (snd (set_playback_route_communication E SESSION_START s))
      = call_start_spec (get_device_active s)"
    "device_available (snd (set_playback_route_communication E SESSION_START s))
      = device_available (SET_AVAILABLE OUT_RECEIVER s)"
    "session (snd (set_playback_route_communication E SESSION_START s)) = session s"
    "one_active (snd (set_playback_route_communication E SESSION_START s))"
proof -
  let ?s = "snd (available_device_callback E IN_NONE OUT_RECEIVER True (SET_AVAILABLE OUT_RECEIVER s))"
  have act: "device_active ?s = device_active s" by (simp add: sess_simps)
  then have one: "one_active ?s" using assms(1) active_queries_cong(3) by metis
  have run: "snd (set_playback_route_communication E SESSION_START s)
      = set_path_with_notification E DO_NOTI (comm_start_active ?s)"
    by (simp add: set_playback_route_communication_def Let_def split_beta
        available_callback_ret [OF assms(2)])
  have same: "device_active (set_path_with_notification E DO_NOTI (comm_start_active ?s))
      = device_active (comm_start_active ?s)" by (simp add: sess_simps)
  show "get_device_active (snd (set_playback_route_communication E SESSION_START s))
      = call_start_spec (get_device_active s)"
    using comm_start_active_spec(1) [OF one] get_device_active_cong [OF same]
      get_device_active_cong [OF act] by (simp add: run)
  show "one_active (snd (set_playback_route_communication E SESSION_START s))"
    using comm_start_active_spec(2) [OF one] active_queries_cong(3) [OF same] by (simp add: run)
  show "device_available (snd (set_playback_route_communication E SESSION_START s))
      = device_available (SET_AVAILABLE OUT_RECEIVER s)"
    "session (snd (set_playback_route_communication E SESSION_START s)) = session s"
    by (simp_all add: run sess_simps)
qed

lemma communication_end:
  assumes "one_active s" "\<forall>l. send_ret E l = MM_ERROR_NONE" "\<forall>l. avsys_ok E l"
  shows "get_device_active (snd (set_playback_route_communication E SESSION_END s))
      = call_end_spec (IS_AVAILABLE IN_WIRED s) (get_device_active s)"
    "session (snd (set_playback_route_communication E SESSION_END s)) = session s"
proof -
  let ?s = "snd (available_device_callback E IN_NONE OUT_RECEIVER False (UNSET_AVAILABLE OUT_RECEIVER s))"
  let ?g = "if session ?s = SESSION_VOICECALL then GAIN_EX_VOICECALL
      else if session ?s = SESSION_VOIP then GAIN_EX_VIDEOCALL else GAIN_EX_VOICECALL"
  let ?u = "snd (av_set_path_ex E ?g (Some PATH_EX_NONE) (Some PATH_EX_NONE) PATH_OPTION_NONE ?s)"
  have act: "device_active ?u = device_active s" by (simp add: sess_simps)
  then have one: "one_active ?u" using assms(1) active_queries_cong(3) by metis
  have ok: "fst (av_set_path_ex E g (Some PATH_EX_NONE) (Some PATH_EX_NONE) PATH_OPTION_NONE ?s)" for g
    using assms(3) by (simp add: av_set_path_ex_def Let_def)
  have run: "snd (set_playback_route_communication E SESSION_END s)
      = set_path_with_notification E DO_NOTI (comm_end_active ?u)"
    using ok by (simp add: set_playback_route_communication_def Let_def split_beta
        available_callback_ret [OF assms(2)])
  have same: "device_active (set_path_with_notification E DO_NOTI (comm_end_active ?u))
      = device_active (comm_end_active ?u)" by (simp add: sess_simps)
  have "OUT_RECEIVER AND IN_WIRED = 0" by (simp add: dev_bits)
  then have "IS_AVAILABLE IN_WIRED ?u \<longleftrightarrow> IS_AVAILABLE IN_WIRED s"
    using available_cong [of ?u "UNSET_AVAILABLE OUT_RECEIVER s" IN_WIRED]
    by (simp add: sess_simps is_available_unset_other)
  with comm_end_active_spec(1) [OF one] get_device_active_cong [OF same] get_device_active_cong [OF act]
  show "get_device_active (snd (set_playback_route_communication E SESSION_END s))
      = call_end_spec (IS_AVAILABLE IN_WIRED s) (get_device_active s)"
    by (simp add: run)
  show "session (snd (set_playback_route_communication E SESSION_END s)) = session s"
    by (simp add: run sess_simps)
qed

text \<open>
  C13: when a voice or video call starts and the clients can be notified, the session is entered, the
  receiver becomes available, and the active devices change as specified: speaker to receiver,
  A2DP to SCO in both directions, everything else unchanged.
\<close>

theorem call_start_switches:
  assumes "sess_inv s" "\<forall>l. send_ret E l = MM_ERROR_NONE"
    "se = SESSION_VOICECALL \<or> se = SESSION_VOIP"
  shows "(let s' = snd (set_session E se SESSION_START s)
    in session s' = se \<and> IS_AVAILABLE OUT_RECEIVER s' \<and>
       get_device_active s' = call_start_spec (get_device_active s))"
proof -
  let ?s = "s\<lparr>session := se\<rparr>"
  have "one_active ?s" using assms(1) active_queries_cong(3) [of ?s s] by (simp add: sess_inv_def)
  note st = communication_start [OF this assms(2)]
  have run: "snd (set_session E se SESSION_START s)
      = snd (set_playback_route_communication E SESSION_START ?s)"
    using assms(3) by (auto simp: set_session_def Let_def)
  have "IS_AVAILABLE OUT_RECEIVER (snd (set_playback_route_communication E SESSION_START ?s))"
    using available_cong [OF st(2)] by (simp add: is_available_set)
  moreover have "get_device_active ?s = get_device_active s" by (rule get_device_active_cong) simp
  ultimately show ?thesis by (simp add: run Let_def st)
qed

theorem call_start_switches_witness:
  "get_device_active (snd (set_session ex_senv SESSION_VOICECALL SESSION_START ex_sess))
    = (OUT_RECEIVER, IN_MIC)"
proof -
  have "get_device_active ex_sess = (OUT_SPEAKER, IN_MIC)"
    by (simp add: get_device_active_def GET_ACTIVE_PLAYBACK_def GET_ACTIVE_CAPTURE_def ex_sess_def
        dev_bits)
  then show ?thesis
    using call_start_switches [of ex_sess ex_senv SESSION_VOICECALL]
    by (simp add: ex_senv_def Let_def call_start_spec_def)
qed

text \<open>
  C16: a call that starts and ends, with the clients and the audio system answering, leaves the
  playback device as it was exactly when that was the speaker, the wired accessory or A2DP; a
  docking station in use is replaced by the speaker.
\<close>

theorem call_round_trip:
  assumes "sess_inv s" "\<forall>l. send_ret E l = MM_ERROR_NONE" "\<forall>l. avsys_ok E l"
  shows "(let s1 = snd (set_session E SESSION_VOICECALL SESSION_START s);
              s2 = snd (set_session E SESSION_VOICECALL SESSION_END s1);
              before = fst (get_device_active s); after = fst (get_device_active s2)
          in (after = before \<longleftrightarrow> before \<in> {OUT_SPEAKER, OUT_WIRED, OUT_BT_A2DP}) \<and>
             (before = OUT_DOCK \<longrightarrow> after = OUT_SPEAKER) \<and> session s2 = SESSION_MEDIA)"
proof -
  let ?s = "s\<lparr>session := SESSION_VOICECALL\<rparr>"
  let ?s1 = "snd (set_playback_route_communication E SESSION_START ?s)"
  let ?s1' = "?s1\<lparr>session := SESSION_MEDIA\<rparr>"
  have "one_active ?s" using assms(1) active_queries_cong(3) [of ?s s] by (simp add: sess_inv_def)
  note st = communication_start [OF this assms(2)]
  have "one_active ?s1'" using st(4) active_queries_cong(3) [of ?s1' ?s1] by simp
  note en = communication_end [OF this assms(2,3)]
  have eq: "get_device_active ?s1' = call_start_spec (get_device_active s)"
    using st(1) get_device_active_cong [of ?s1' ?s1] get_device_active_cong [of ?s s] by simp
  have out: "fst (get_device_active s) \<in> set out_words"
    using assms(1) by (auto simp: sess_inv_def get_device_active_def elim: one_activeE)
  then have "fst (call_end_spec b (call_start_spec (get_device_active s))) = fst (get_device_active s)
      \<longleftrightarrow> fst (get_device_active s) \<in> {OUT_SPEAKER, OUT_WIRED, OUT_BT_A2DP}" for b
    by (auto simp: call_end_spec_def call_start_spec_def out_words_def)
  moreover have "fst (get_device_active s) = OUT_DOCK \<Longrightarrow>
      fst (call_end_spec b (call_start_spec (get_device_active s))) = OUT_SPEAKER" for b
    by (auto simp: call_end_spec_def call_start_spec_def)
  ultimately show ?thesis
    using en by (simp add: set_session_def Let_def eq)
qed

theorem call_round_trip_witness:
  "fst (get_device_active (snd (set_session ex_senv SESSION_VOICECALL SESSION_END
     (snd (set_session ex_senv SESSION_VOICECALL SESSION_START ex_sess))))) = OUT_SPEAKER"
proof -
  have "get_device_active ex_sess = (OUT_SPEAKER, IN_MIC)"
    by (simp add: get_device_active_def GET_ACTIVE_PLAYBACK_def GET_ACTIVE_CAPTURE_def ex_sess_def
        dev_bits)
  then show ?thesis
    using call_round_trip [of ex_sess ex_senv] by (simp add: ex_senv_def Let_def)
qed

text \<open>
  When the last registered client cannot be told that the receiver is there, the start of a call
  is abandoned half way: the session counts as a call, but the active devices and the audio path stay
  those of media playback.
\<close>

lemma call_start_abandoned:
  assumes "fst (available_device_callback E IN_NONE OUT_RECEIVER True
      (SET_AVAILABLE OUT_RECEIVER (s\<lparr>session := SESSION_VOICECALL\<rparr>))) \<noteq> MM_ERROR_NONE"
  shows "(let s' = snd (set_session E SESSION_VOICECALL SESSION_START s)
    in session s' = SESSION_VOICECALL \<and> device_active s' = device_active s \<and>
       (\<forall>g ou i opt. AvSetPathEx g ou i opt \<in> set (calls s') \<longrightarrow>
          AvSetPathEx g ou i opt \<in> set (calls s)))"
proof -
  have "calls (snd (available_device_callback E i ou b t)) =
      rev (map (\<lambda>c. CbSndMsg (AvailableRouteCb (cp_pid c)
        (snd (store_routes (route_is_changed t i ou) g_valid_route 0 (stack_routes E))) b
        (cp_callback c) (cp_cbdata c))) (filter (\<lambda>c. cp_callback c \<noteq> 0) (avail_cbs t))) @ calls t"
    for i ou b t
    by (simp add: available_device_callback_def split_beta send_callbacks_calls)
  then have log: "AvSetPathEx g ou' i' opt \<in> set (calls (snd (available_device_callback E i ou b t)))
      \<longleftrightarrow> AvSetPathEx g ou' i' opt \<in> set (calls t)" for i ou b t g ou' i' opt
    by auto
  from assms show ?thesis
    by (simp add: set_session_def set_playback_route_communication_def Let_def split_beta sess_simps
        log) (simp add: SET_AVAILABLE_def)
qed

section \<open>Activation by clients\<close>

lemma set_device_active_devices:
  assumes "sess_inv s" "playback \<in> set out_words" "capture \<in> set in_words"
  shows "(case set_device_active E playback capture v s of (ret, s') \<Rightarrow>
    if (playback \<noteq> 0 \<and> \<not> IS_AVAILABLE playback s) \<or> (capture \<noteq> 0 \<and> \<not> IS_AVAILABLE capture s)
    then ret = MM_ERROR_INVALID_ARGUMENT \<and> s' = s
    else ret = v \<and>
      get_device_active s' =
        (if playback \<noteq> 0 then playback else fst (get_device_active s),
         if capture \<noteq> 0 then capture else snd (get_device_active s)) \<and>
      device_available s' = device_available s \<and> session s' = session s)"
proof -
  let ?s1 = "if playback \<noteq> 0 then SET_PLAYBACK_ONLY_ACTIVE playback s else s"
  let ?s2 = "if capture \<noteq> 0 then SET_CAPTURE_ONLY_ACTIVE capture ?s1 else ?s1"
  let ?s3 = "if device_active s \<noteq> device_active ?s2
    then set_path_with_notification E DO_NOTI (out_call VolumeRefresh ?s2) else ?s2"
  have one: "one_active s" "one_active ?s1"
    using assms by (simp_all add: sess_inv_def one_active_playback_only)
  have "get_device_active ?s2 =
      (if playback \<noteq> 0 then playback else fst (get_device_active s),
       if capture \<noteq> 0 then capture else snd (get_device_active s))"
    using assms(2,3) one
    by (simp add: get_device_active_def capture_only_active playback_only_active)
  moreover have "get_device_active ?s3 = get_device_active ?s2"
    by (rule get_device_active_cong) (simp add: sess_simps)
  moreover have "device_available ?s3 = device_available s" "session ?s3 = session s"
    by (simp_all add: sess_simps)
  ultimately show ?thesis
    unfolding set_device_active_def Let_def by (simp only: if_True if_False prod.case) simp
qed

text \<open>
  Activating devices is refused, with no change at all, when one of them is not available;
  otherwise the requested devices become the active ones, a direction that was not asked for keeps
  its device, and nothing else of the session changes.
\<close>

lemma set_device_active_result:
  assumes "sess_inv s" "playback \<in> set out_words" "capture \<in> set in_words"
  shows "(case set_device_active E playback capture v s of (ret, s') \<Rightarrow>
    if (playback \<noteq> 0 \<and> \<not> IS_AVAILABLE playback s) \<or> (capture \<noteq> 0 \<and> \<not> IS_AVAILABLE capture s)
    then ret = MM_ERROR_INVALID_ARGUMENT \<and> s' = s
    else ret = v \<and>
      get_device_active s' =
        (if playback \<noteq> 0 then playback else fst (get_device_active s),
         if capture \<noteq> 0 then capture else snd (get_device_active s)) \<and>
      device_available s' = device_available s \<and> session s' = session s)"
  by (rule set_device_active_devices [OF assms])

section \<open>Audio paths\<close>



text \<open>
  The radio path is requested with an output that was never set exactly when the active playback
  device is none of speaker, wired accessory and A2DP: the receiver, SCO or the docking station.
\<close>

lemma fmradio_output_undetermined:
  assumes "sess_inv s"
  shows "AvSetPathEx GAIN_EX_FMRADIO None (Some PATH_EX_FMINPUT) PATH_OPTION_NONE
      \<in> set (calls (snd (set_playback_route_fmradio E SESSION_START (s\<lparr>calls := []\<rparr>))))
    \<longleftrightarrow> GET_ACTIVE_PLAYBACK s \<notin> {OUT_SPEAKER, OUT_WIRED, OUT_BT_A2DP}"
proof -
  have one: "one_active s" using assms by (simp add: sess_inv_def)
  have "fmradio_out (s\<lparr>calls := []\<rparr>) = fmradio_out s"
    by (simp add: fmradio_out_def IS_ACTIVE_def)
  then have "AvSetPathEx GAIN_EX_FMRADIO None (Some PATH_EX_FMINPUT) PATH_OPTION_NONE
      \<in> set (calls (snd (set_playback_route_fmradio E SESSION_START (s\<lparr>calls := []\<rparr>))))
    \<longleftrightarrow> fmradio_out s = None"
    by (auto simp: set_playback_route_fmradio_def Let_def split_beta sess_simps)
  then show ?thesis by (simp add: fmradio_out_def is_active_out [OF one])
qed

section \<open>Unplugging\<close>

text \<open>
  C18: when the wired accessory in use is unplugged outside a call, the wired devices are inactive
  afterwards and the playback device is the best one that is available: A2DP, then the docking
  station, then the speaker.  The running sounds are paused first; s1 is the state after that.
\<close>

theorem unplug_selects_next:
  assumes "asm_inv c s" "cfg_ok c" "IS_ACTIVE OUT_WIRED (asess s)"
    "s1 = asm_pause_process c L (asm_handle (asess s)) s"
    "\<not> IS_COMMUNICATION_SESSION (asess s1)" "GET_ACTIVE_PLAYBACK (asess s1) = OUT_WIRED"
    "\<not> IS_AVAILABLE OUT_WIRED (asess s1)"
  shows "GET_ACTIVE_PLAYBACK (asess (handle_headset_off c E L s)) =
    (if IS_AVAILABLE OUT_BT_A2DP (asess s1) then OUT_BT_A2DP
     else if IS_AVAILABLE OUT_DOCK (asess s1) then OUT_DOCK else OUT_SPEAKER)"
proof -
  let ?t = "asess s1"
  let ?u = "headset_off_active ?t"
  have inv: "sess_inv ?t"
    unfolding assms(4) by (rule asm_inv_sess [OF pause_process_inv [OF assms(1,2)]])
  then have one: "one_active ?t" by (simp add: sess_inv_def)
  have one': "one_active (UNSET_ACTIVE OUT_WIRED ?t)" using one by (simp add: one_active_unset_out)
  have u: "one_active ?u" "GET_ACTIVE_PLAYBACK ?u = 0"
    using one one' assms(6)
    by (simp_all add: headset_off_active_def one_active_unset_in unset_in_active unset_out_active)
  have av: "IS_AVAILABLE x ?u = IS_AVAILABLE x ?t" for x
    by (rule available_cong) (simp add: headset_off_active_def sess_simps)
  have ses: "IS_COMMUNICATION_SESSION ?u = IS_COMMUNICATION_SESSION ?t"
    by (simp add: IS_COMMUNICATION_SESSION_def headset_off_active_def sess_simps)
  let ?p = "select_playback_active_device ?u"
  have p: "GET_ACTIVE_PLAYBACK ?p =
      (if IS_AVAILABLE OUT_BT_A2DP ?t then OUT_BT_A2DP
       else if IS_AVAILABLE OUT_DOCK ?t then OUT_DOCK else OUT_SPEAKER)"
    using u assms(7) by (simp add: select_playback_active_device_def is_active_any av set_active_when_none)
  have "one_active ?p" using u(1) by (rule select_one_active)
  then have "GET_ACTIVE_PLAYBACK (select_capture_active_device ?p) = GET_ACTIVE_PLAYBACK ?p"
    by (simp add: select_capture_active_device_def is_active_any set_capture_when_none)
  moreover have "device_active (asess (handle_headset_off c E L s))
      = device_active (select_capture_active_device ?p)"
    using assms(3,5) ses by (simp add: handle_headset_off_def Let_def sess_simps assms(4) [symmetric])
  ultimately show ?thesis
    using p active_queries_cong(1) by metis
qed

theorem unplug_selects_next_witness:
  "GET_ACTIVE_PLAYBACK (asess (handle_headset_off ex_cfg ex_senv ex_lib
     (asm_init False (SET_PLAYBACK_ONLY_ACTIVE OUT_WIRED ex_sess)))) = OUT_SPEAKER"
proof -
  let ?t = "SET_PLAYBACK_ONLY_ACTIVE OUT_WIRED ex_sess"
  let ?s = "asm_init False ?t"
  have inv: "asm_inv ex_cfg ?s"
    by (simp add: asm_inv_def handles_wf_def status_ok_def asm_init_def)
  have act: "device_active ?t = 0x401" "device_available ?t = 0x101" "session ?t = SESSION_MEDIA"
    by (simp_all add: bit_macros ex_sess_def dev_bits)
  have pause: "asess (asm_pause_process ex_cfg ex_lib h ?s) = out_call (AsmPauseProcess h) ?t" for h
    by (simp add: asm_pause_process_def lib_run_def ex_lib_def Let_def asm_init_def on_sess_def
        ex_sess_def bit_macros)
  have a: "asess ?s = ?t" by (simp add: asm_init_def)
  let ?s1 = "asm_pause_process ex_cfg ex_lib (asm_handle (asess ?s)) ?s"
  have "IS_ACTIVE OUT_WIRED (asess ?s)" "\<not> IS_COMMUNICATION_SESSION (asess ?s1)"
    "GET_ACTIVE_PLAYBACK (asess ?s1) = OUT_WIRED" "\<not> IS_AVAILABLE OUT_WIRED (asess ?s1)"
    "\<not> IS_AVAILABLE OUT_BT_A2DP (asess ?s1)" "\<not> IS_AVAILABLE OUT_DOCK (asess ?s1)"
    unfolding pause IS_ACTIVE_def IS_COMMUNICATION_SESSION_def IS_AVAILABLE_def
      GET_ACTIVE_PLAYBACK_def a out_call_fields act
    by (simp_all add: dev_bits)
  then show ?thesis
    using unplug_selects_next [OF inv ex_cfg_ok _ refl, of ex_lib ex_senv] by simp
qed

end
