(* ===== verification/Device_Props.thy ===== *)
theory Device_Props
  imports Session_Inv Examples
begin

text \<open>
  The properties of the device manager: the callback lists as maps from processes, the delivery of
  notifications, and the lists of available and changed routes.
\<close>

section \<open>Callback lists\<close>

text \<open>
  C20: after any sequence of additions and removals, each callback list holds for every process the
  callback and data of its last addition, and nothing after a removal: the list is the map one gets
  by applying the same sequence to a map.
\<close>

theorem callback_lists_are_maps:
  assumes "pids_distinct (active_cbs s)" "pids_distinct (avail_cbs s)"
  shows "cb_lookup (active_cbs (fold (\<lambda>(b, p) t. if b then snd (add_active_device_callback p t)
        else snd (remove_active_device_callback p t)) ops s)) =
      fold (\<lambda>(b, p) f. f(cp_pid p := (if b then Some (cp_callback p, cp_cbdata p) else None))) ops
        (cb_lookup (active_cbs s)) \<and>
    cb_lookup (avail_cbs (fold (\<lambda>(b, p) t. if b then snd (add_available_route_callback p t)
        else snd (remove_available_route_callback p t)) ops s)) =
      fold (\<lambda>(b, p) f. f(cp_pid p := (if b then Some (cp_callback p, cp_cbdata p) else None))) ops
        (cb_lookup (avail_cbs s))"
  using active_reg.lookup_fold [OF assms(1), of ops] avail_reg.lookup_fold [OF assms(2), of ops]
  by simp

theorem callback_lists_are_maps_witness:
  "cb_lookup (active_cbs (snd (add_active_device_callback
     \<lparr>cp_pid = 7, cp_route = 0, cp_callback = 5, cp_cbdata = 6\<rparr> ex_sess))) 7 = Some (5, 6)"
  using callback_lists_are_maps [of ex_sess "[(True, \<lparr>cp_pid = 7, cp_route = 0, cp_callback = 5, cp_cbdata = 6\<rparr>)]"]
  by (simp add: ex_sess_def)

text \<open>
  A change of the active devices sends one message to every process with a callback, in the
  order of the list, carrying the two devices and the callback and data of that process.
\<close>

lemma active_change_notifies_all:
  "calls (snd (active_device_callback E i ou s)) =
     rev (map (\<lambda>c. CbSndMsg (ActiveDeviceCb (cp_pid c) i ou (cp_callback c) (cp_cbdata c)))
            (filter (\<lambda>c. cp_callback c \<noteq> 0) (active_cbs s))) @ calls s"
  by (simp add: active_device_callback_def send_callbacks_calls)

section \<open>Route lists\<close>

definition route_available :: "sess \<Rightarrow> route \<Rightarrow> bool" where
  "route_available s r = (case get_devices_from_route r of (i, ou) \<Rightarrow> is_device_available ou i s)"

text \<open>
  The list of available routes sent to a client starts with exactly the valid routes whose
  devices are available, in table order, never overruns the message, and leaves the rest of the
  array as it was.
\<close>

lemma available_route_list:
  assumes "length arr = MM_SOUND_ROUTE_NUM"
  shows "(let rs = filter (route_available s) g_valid_route in
    foreach_available_route s arr = (MM_ERROR_NONE, length rs, rs @ drop (length rs) arr) \<and>
    length rs \<le> length arr)"
proof -
  let ?P = "\<lambda>r. let (i, ou) = get_devices_from_route r in is_device_available ou i s"
  have P: "?P = route_available s" by (auto simp: route_available_def split_beta)
  have len: "length (filter (route_available s) g_valid_route) \<le> length arr"
    using length_filter_g_valid_route [of "route_available s"] assms by simp
  have "store_routes (route_available s) g_valid_route 0 arr
      = (length (filter (route_available s) g_valid_route),
         filter (route_available s) g_valid_route @ drop (length (filter (route_available s) g_valid_route)) arr)"
    using store_routes_count [of "route_available s" g_valid_route 0 arr]
      store_routes_array [of 0 "route_available s" g_valid_route arr] len
    by (simp add: prod_eq_iff)
  with len show ?thesis unfolding foreach_available_route_def P by (simp add: Let_def)
qed

text \<open>
  When one output device becomes available or unavailable, the routes announced to the clients
  are exactly the valid routes whose availability changes.
\<close>

lemma announced_routes_changed:
  assumes "d \<in> set out_words" "d \<noteq> 0" "r \<in> set g_valid_route"
  shows "(\<not> IS_AVAILABLE d s \<longrightarrow>
      (route_is_changed (SET_AVAILABLE d s) IN_NONE d r \<longleftrightarrow>
        route_available (SET_AVAILABLE d s) r \<and> \<not> route_available s r)) \<and>
    (IS_AVAILABLE d s \<longrightarrow>
      (route_is_changed (UNSET_AVAILABLE d s) IN_NONE d r \<longleftrightarrow>
        route_available s r \<and> \<not> route_available (UNSET_AVAILABLE d s) r))"
proof -
  obtain i ou where dev: "get_devices_from_route r = (i, ou)" by fastforce
  have w: "i \<in> set in_words" "ou \<in> set out_words"
    using valid_route_devices [OF _ dev] assms(3)
    by (auto simp: mm_sound_is_route_valid_def route_search_iff)
  have iz: "d AND i = 0" using in_out_disjoint [OF assms(1) w(1)] .
  have oz: "ou = d \<or> d AND ou = 0" using out_words_disjoint [OF assms(1) w(2)] by auto
  have ne: "i = 0 \<and> ou = 0 \<longrightarrow> False"
    using assms(3) dev by (auto simp: g_valid_route_values get_devices_from_route_def)
  have set_i: "IS_AVAILABLE i (SET_AVAILABLE d s) = IS_AVAILABLE i s"
    "IS_AVAILABLE i (UNSET_AVAILABLE d s) = IS_AVAILABLE i s"
    using iz by (simp_all add: is_available_set is_available_unset_other)
  have set_o: "IS_AVAILABLE ou (SET_AVAILABLE d s) = (IS_AVAILABLE ou s \<or> ou = d)"
    "IS_AVAILABLE ou (UNSET_AVAILABLE d s) = (IS_AVAILABLE ou s \<and> ou \<noteq> d)"
    using oz assms(2) by (auto simp: is_available_set is_available_unset_other is_available_unset_same)
  have "IS_AVAILABLE d (SET_AVAILABLE d s)" using assms(2) by (simp add: is_available_set)
  with set_i set_o assms(2) ne show ?thesis
    by (cases "ou = 0"; cases "i = 0")
      (auto simp: route_is_changed_def route_available_def dev is_device_available_def Let_def
        IN_NONE_def OUT_NONE_def)
qed

end
