(* ===== verification/Asm_Props.thy ===== *)
theory Asm_Props
  imports Examples
begin

text \<open>
  The properties of the audio session manager: its invariant, handle allocation, the decision and
  the effect of the sound policy, resuming, leaving, and the defects that the model shows.
\<close>

section \<open>Invariant\<close>

text \<open>
  Whatever sequence of requests the server serves, from start-up on, with any answers of the
  clients and of the system: every registered sound has its own handle within the range of the
  handle table, the status words (and the published one) are exactly the union of the status bits
  of the playing and paused sounds, and the session state stays well formed.
\<close>

lemma asm_served_inv:
  assumes "cfg_ok c" "sess_inv ss"
  shows "asm_inv c (asm_main_run c rs (asm_init gcf ss))"
proof (rule asm_main_run_inv [OF _ assms(1)])
  show "asm_inv c (asm_init gcf ss)"
    using assms(2) by (simp add: asm_inv_def handles_wf_def status_ok_def asm_init_def)
qed

section \<open>The policy\<close>

text \<open>
  C10: while somebody plays, the command in the reply of the policy is the value of the pure function
  policy_spec on the instance list before the request: it does not depend on what the interrupted
  clients answer, nor on the states that change while the loop runs.
\<close>

theorem policy_reply_is_spec:
  assumes "asm_inv c s" "g_status_playing s \<noteq> STATUS_NONE c"
  shows "rp_command (fst (asm_compare_priority_matrix c E b m r s))
    = policy_spec (is_gcf s) r (insts s) (rp_command m)"
  by (rule compare_reply [OF assms])

theorem policy_reply_is_spec_witness:
  "rp_command (fst (asm_compare_priority_matrix ex_cfg ex_env False ex_reply
     (ex_req ASM_REQUEST_SETSTATE 20 1 ASM_EVENT_SHARE_MMCAMCORDER ASM_STATE_PLAYING)
     (ex_asm ex_list))) = command_code ASM_COMMAND_PLAY"
  using policy_reply_is_spec [of ex_cfg "ex_asm ex_list" ex_env False ex_reply
      "ex_req ASM_REQUEST_SETSTATE 20 1 ASM_EVENT_SHARE_MMCAMCORDER ASM_STATE_PLAYING"]
  by (simp add: ex_list_def counts_def owner_def rq_owner_def node_verdict_def effective_case_def
      sound_case_def ASM_sound_case_def asm_cases_def handles_wf_def)

text \<open>
  C15: a request to play is answered with STOP exactly when some other sound that plays belongs to
  another process and the matrix says that it keeps playing alone.
\<close>

theorem policy_refuses_iff:
  assumes "asm_inv c s" "g_status_playing s \<noteq> STATUS_NONE c" "rq_state r = ASM_STATE_PLAYING"
    "rp_command m \<noteq> command_code ASM_COMMAND_STOP"
  shows "rp_command (fst (asm_compare_priority_matrix c E b m r s)) = command_code ASM_COMMAND_STOP
    \<longleftrightarrow> (\<exists>x \<in> set (insts s). sound_state x = ASM_STATE_PLAYING \<and> instance_id x \<noteq> rq_pid r \<and>
          effective_case (is_gcf s) (sound_event x) (rq_event r) = ASM_CASE_1PLAY_2STOP)"
proof -
  have "refuses gcf r x \<longleftrightarrow> sound_state x = ASM_STATE_PLAYING \<and> instance_id x \<noteq> rq_pid r \<and>
      effective_case gcf (sound_event x) (rq_event r) = ASM_CASE_1PLAY_2STOP" for gcf x
    using assms(3)
    by (auto simp: refuses_def counts_def node_verdict_def owner_def rq_owner_def
        split: asm_case.splits if_splits)
  with compare_reply [OF assms(1,2), of E b m r] policy_spec_stop_iff [OF assms(4), of "is_gcf s" r "insts s"]
  show ?thesis by simp
qed

theorem policy_refuses_iff_witness:
  "rp_command (fst (asm_compare_priority_matrix ex_cfg ex_env False ex_reply
     (ex_req ASM_REQUEST_SETSTATE 20 1 ASM_EVENT_SHARE_MMSOUND ASM_STATE_PLAYING)
     (ex_asm [ex_inst 10 0 ASM_EVENT_CALL ASM_STATE_PLAYING,
              ex_inst 20 1 ASM_EVENT_SHARE_MMSOUND ASM_STATE_NONE])))
   = command_code ASM_COMMAND_STOP"
  by (subst policy_refuses_iff)
    (simp_all add: effective_case_def sound_case_def ASM_sound_case_def asm_cases_def
      handles_wf_def ex_reply_def)

text \<open>
  C3: when the policy does not refuse a request to play, every sound of another process that the
  matrix tells to stop has stopped playing when the request has been served, whatever its client
  answers.
\<close>

theorem policy_stops_others:
  assumes "asm_inv c s" "rq_id r = ASM_REQUEST_REGISTER \<longrightarrow> fresh_handle c r s"
    "STATUS_NONE c = 0" "rq_state r = ASM_STATE_PLAYING"
    "\<not> (\<exists>y \<in> set (insts s). refuses (is_gcf s) r y)"
    "x \<in> set (insts s)" "instance_id x \<noteq> rq_pid r" "sound_status c (sound_event x) \<noteq> 0"
    "effective_case (is_gcf s) (sound_event x) (rq_event r) = ASM_CASE_1STOP_2PLAY"
  shows "quiet (owner x) (insts (snd (asm_compare_priority_matrix c E b m r s)))"
proof (cases "g_status_playing s = 0")
  case True
  have ne: "owner x \<noteq> rq_owner r" using assms(7) by (simp add: owner_def rq_owner_def)
  have "sound_state x \<noteq> ASM_STATE_PLAYING"
    using True assms(1,6,8) by (auto simp: asm_inv_def status_ok_def status_bits_zero_iff)
  moreover have "z = x" if "z \<in> set (insts s)" "owner z = owner x" for z
    using asm_inv_distinct_owner [OF assms(1)] that assms(6)
    by (auto simp: distinct_map dest!: inj_onD)
  ultimately have "quiet (owner x) (insts s)" unfolding quiet_def by metis
  with True assms(3) ne show ?thesis
    by (simp add: asm_compare_priority_matrix_def Let_def asm_simps paused_loop_keeps_quiet
        enter_request_keeps_quiet)
next
  case False
  have "must_stop (is_gcf s) r x" using assms by (simp add: must_stop_def)
  with False assms show ?thesis by (intro compare_stops) auto
qed

theorem policy_stops_others_witness:
  "quiet (10, 0) (insts (snd (asm_compare_priority_matrix ex_cfg ex_env False ex_reply
     (ex_req ASM_REQUEST_SETSTATE 20 1 ASM_EVENT_SHARE_MMCAMCORDER ASM_STATE_PLAYING)
     (ex_asm ex_list))))"
  using policy_stops_others [of ex_cfg "ex_asm ex_list"
      "ex_req ASM_REQUEST_SETSTATE 20 1 ASM_EVENT_SHARE_MMCAMCORDER ASM_STATE_PLAYING"
      "ex_inst 10 0 ASM_EVENT_EXCLUSIVE_MMSOUND ASM_STATE_PLAYING" ex_env False ex_reply]
  by (simp add: ex_list_def owner_def refuses_def counts_def rq_owner_def node_verdict_def
      effective_case_def sound_case_def ASM_sound_case_def asm_cases_def handles_wf_def)

text \<open>
  Only a call, a video call, a rich call or an alarm can make the policy refuse a sound; no sound
  is refused for the sake of another media sound, and a notification or a monitor is mixed with
  everything.
\<close>

lemma matrix_refusals:
  "(sound_case cur new = ASM_CASE_1PLAY_2STOP \<longrightarrow> is_need_resume cur) \<and>
   sound_case cur ASM_EVENT_NOTIFY = ASM_CASE_1PLAY_2PLAY_MIX \<and>
   sound_case cur ASM_EVENT_MONITOR = ASM_CASE_1PLAY_2PLAY_MIX \<and>
   sound_case ASM_EVENT_MONITOR new = ASM_CASE_1PLAY_2PLAY_MIX"
proof -
  have 1: "sound_case cur new = ASM_CASE_1PLAY_2STOP \<longrightarrow> is_need_resume cur"
    by (cases cur; cases new)
      (simp_all add: sound_case_def ASM_sound_case_def asm_cases_def is_need_resume_def)
  have 2: "sound_case cur ASM_EVENT_NOTIFY = ASM_CASE_1PLAY_2PLAY_MIX"
    "sound_case cur ASM_EVENT_MONITOR = ASM_CASE_1PLAY_2PLAY_MIX"
    by (cases cur; simp add: sound_case_def ASM_sound_case_def asm_cases_def)+
  have 3: "sound_case ASM_EVENT_MONITOR new = ASM_CASE_1PLAY_2PLAY_MIX"
    by (cases new) (simp_all add: sound_case_def ASM_sound_case_def asm_cases_def)
  from 1 2 3 show ?thesis by simp
qed

section \<open>Handles\<close>



text \<open>
  Without a valid cookie a registration changes nothing but the message log, and the reply
  carries the handle -1 and no privilege.
\<close>

lemma register_needs_privilege:
  "\<not> cookie_ok E \<Longrightarrow>
    (case process_register c E b junk r s of (m, s') \<Rightarrow>
      rp_alloc_handle m = -1 \<and> \<not> rp_privilege m \<and> rp_instance m = rq_pid r \<and>
      s' = s\<lparr>acalls := acalls s'\<rparr>)"
  by (simp add: process_register_def check_privilege_def Let_def set_ret_def asm_log_def)

section \<open>Leaving and resuming\<close>

text \<open>
  When a process leaves, exactly its sounds are removed, in one run that ends, and the others
  keep their order and contents.
\<close>

lemma leaving_removes_own:
  assumes "asm_inv c s"
  shows "insts (emergent_exit c p s) = filter (\<lambda>x. instance_id x \<noteq> p) (insts s)"
  by (rule emergent_exit_insts [OF assms])

text \<open>
  Resuming after a call or an alarm sends one resume command to every sound that is marked, in
  list order, clears every mark, and changes no sound state: the branch that would set PLAYING is
  never taken.
\<close>

lemma resume_clears_marks:
  assumes "cfg_ok c"
  shows "insts (asm_do_all_resume_callback c E src s)
      = map (\<lambda>x. x\<lparr>need_resume := ASM_NEED_NOT_RESUME\<rparr>) (insts s) \<and>
    commands (asm_do_all_resume_callback c E src s)
      = rev (map (command_call c ASM_COMMAND_RESUME src)
          (filter (\<lambda>x. need_resume x = ASM_NEED_RESUME) (insts s))) @ commands s"
  using resume_all_result [OF assms] by simp

section \<open>Commands on the wire\<close>

text \<open>
  The word written to a client holds the low sixteen bits of the handle, the command and the
  event source in separate fields, so the client reads back exactly what was sent.
\<close>

lemma callback_word_fields:
  assumes "source_code c src < 256"
  shows "callback_word c h cmd src AND 0xFFFF = word_of_int h AND 0xFFFF \<and>
    drop_bit 16 (callback_word c h cmd src) AND 0xFF = word_of_int (command_code cmd) \<and>
    drop_bit 24 (callback_word c h cmd src) = source_code c src"
proof -
  have src: "\<not> bit (source_code c src) n" if "8 \<le> n" for n
  proof -
    have "unat (source_code c src) < 2 ^ 8" using assms by (simp add: word_less_nat_alt)
    also have "\<dots> \<le> 2 ^ n" using that by (rule power_increasing) simp
    finally have "\<not> bit (unat (source_code c src)) n" by (simp add: bit_iff_odd)
    then show ?thesis by (simp add: bit_unsigned_iff)
  qed
  have cmd: "\<not> bit (word_of_int (command_code cmd) :: 32 word) n" if "3 \<le> n" for n
  proof -
    have "take_bit 3 (word_of_int (command_code cmd) :: 32 word) = word_of_int (command_code cmd)"
      by (cases cmd) simp_all
    then show ?thesis using that by (metis bit_take_bit_iff not_le)
  qed
  have m16: "bit (0xFFFF :: 32 word) n \<longleftrightarrow> n < 16" for n
    using bit_mask_iff [where 'a = "32 word", of 16 n] by (auto simp: mask_eq_exp_minus_1)
  have m8: "bit (0xFF :: 32 word) n \<longleftrightarrow> n < 8" for n
    using bit_mask_iff [where 'a = "32 word", of 8 n] by (auto simp: mask_eq_exp_minus_1)
  have w: "bit (callback_word c h cmd src) n \<longleftrightarrow> n < 32 \<and>
      (n < 16 \<and> bit (word_of_int h :: 32 word) n \<or>
       16 \<le> n \<and> bit (word_of_int (command_code cmd) :: 32 word) (n - 16) \<or>
       24 \<le> n \<and> bit (source_code c src) (n - 24))" for n
    using m16 [of n] unfolding callback_word_def bit_and_iff bit_or_iff bit_push_bit_iff
    by (auto dest: bit_imp_le_length)
  have 1: "callback_word c h cmd src AND 0xFFFF = word_of_int h AND 0xFFFF"
  proof (rule bit_word_eqI)
    fix n assume "n < LENGTH(32)"
    then show "bit (callback_word c h cmd src AND 0xFFFF) n \<longleftrightarrow> bit (word_of_int h AND 0xFFFF :: 32 word) n"
      unfolding bit_and_iff w m16 by auto
  qed
  have 2: "drop_bit 16 (callback_word c h cmd src) AND 0xFF = word_of_int (command_code cmd)"
  proof (rule bit_word_eqI)
    fix n assume "n < LENGTH(32)"
    then show "bit (drop_bit 16 (callback_word c h cmd src) AND 0xFF) n
      \<longleftrightarrow> bit (word_of_int (command_code cmd) :: 32 word) n"
      using cmd [of n] unfolding bit_and_iff bit_drop_bit_eq comp_def w m8 by (cases "3 \<le> n") auto
  qed
  have 3: "drop_bit 24 (callback_word c h cmd src) = source_code c src"
  proof (rule bit_word_eqI)
    fix n assume "n < LENGTH(32)"
    then show "bit (drop_bit 24 (callback_word c h cmd src)) n \<longleftrightarrow> bit (source_code c src) n"
      using src [of n] cmd [of "8 + n"] unfolding bit_drop_bit_eq comp_def w
      by (cases "n < 8") auto
  qed
  from 1 2 3 show ?thesis by simp
qed

section \<open>Sub-sessions\<close>

text \<open>
  The sub-session a client sets is the one a later query returns; values outside the three
  sub-sessions are stored and returned as well.
\<close>

lemma subsession_round_trip:
  "rp_command (fst (process_get_subsession b2 junk2 r2
     (snd (process_set_subsession E b1 junk1 r1 s)))) = int (event_index (rq_event r1))"
  by (simp add: process_get_subsession_def process_set_subsession_def Let_def set_ret_def asm_log_def
      set_subsession_def sess_simps)

section \<open>Defects\<close>

text \<open>
  C17: the clean-up of dead processes, as a pointer program: when the first node belongs to a live
  process it ends with exactly the live nodes in their order; when the first node is dead it reads
  memory it has freed.
\<close>

theorem dead_process_cleanup:
  assumes "list_at H hp d tlp ps" "fuel \<ge> Suc (length ps)"
  shows "if ps = [] \<or> isPIDExist E (instance_id (snd (ps ! 0)))
    then (\<exists>H'. check_dead_run E fuel tlp H hp = Done H' hp \<and>
            chain H' hp d (filter (\<lambda>(a, x). isPIDExist E (instance_id x)) ps))
    else check_dead_run E fuel tlp H hp = UseAfterFree"
proof (cases ps)
  case Nil
  with check_dead_run_alive [OF assms(1) _ assms(2), of E] show ?thesis by auto
next
  case (Cons q qs)
  with assms check_dead_run_alive [OF assms(1) _ assms(2), of E]
    check_dead_run_dead [of H hp d tlp "fst q" "snd q" qs E fuel] show ?thesis
    by (auto simp: split_beta)
qed

theorem dead_process_cleanup_witness:
  "check_dead_run ex_env 9 3
     [1 \<mapsto> \<lparr>cl_inst = ex_inst 500 0 ASM_EVENT_CALL ASM_STATE_NONE, cl_next = 2\<rparr>,
      2 \<mapsto> \<lparr>cl_inst = ex_inst 0 0 ASM_EVENT_CALL ASM_STATE_NONE, cl_next = 3\<rparr>] 1 = UseAfterFree"
proof -
  have "list_at [1 \<mapsto> \<lparr>cl_inst = ex_inst 500 0 ASM_EVENT_CALL ASM_STATE_NONE, cl_next = 2\<rparr>,
      2 \<mapsto> \<lparr>cl_inst = ex_inst 0 0 ASM_EVENT_CALL ASM_STATE_NONE, cl_next = 3\<rparr>] 1 2 3
      [(1, ex_inst 500 0 ASM_EVENT_CALL ASM_STATE_NONE)]"
    by (simp add: list_at_def)
  from dead_process_cleanup [OF this, of 9 ex_env] show ?thesis by (simp add: isPIDExist_def)
qed

text \<open>
  A call that starts while the only sounds that play are calls gets a handle in its reply, but
  no node with that handle is put into the list: later requests for it do nothing, and the next
  registration may be given the same handle.
\<close>

lemma call_during_call_not_entered:
  assumes "asm_inv c s" "fresh_handle c r s" "STATUS_NONE c = 0" "g_status_playing s \<noteq> 0"
    "\<not> is_gcf s" "rq_event r = ASM_EVENT_CALL" "rq_state r = ASM_STATE_PLAYING"
    "\<forall>x \<in> set (insts s). sound_state x = ASM_STATE_PLAYING \<longrightarrow> sound_event x = ASM_EVENT_CALL"
  shows "rp_alloc_handle (fst (asm_compare_priority_matrix c E b m r s)) = rq_handle r \<and>
    rq_handle r \<notin> sound_handle ` set (insts (snd (asm_compare_priority_matrix c E b m r s)))"
proof -
  have case_none: "effective_case (is_gcf s) (sound_event x) (rq_event r) = ASM_CASE_NONE"
    if "x \<in> set (insts s)" "counts r x" for x
  proof -
    have "sound_event x = ASM_EVENT_CALL" using that assms(8) by (simp add: counts_def)
    with assms(5,6) show ?thesis
      by (simp add: effective_case_def sound_case_def ASM_sound_case_def asm_cases_def)
  qed
  note loop = playing_loop_none [OF case_none assms(7) le_refl, of c E False m]
  obtain x where x: "x \<in> set (insts s)" "sound_state x = ASM_STATE_PLAYING"
    using playing_exists [OF assms(1,4)] by metis
  have "counts r x"
    using x assms(2) by (auto simp: counts_def fresh_handle_def owner_def rq_owner_def image_iff)
  have verdict: "policy_spec (is_gcf s) r xs cmd = 0" if "cmd = 0 \<or> (\<exists>x \<in> set xs. counts r x)"
    "set xs \<subseteq> set (insts s)" for xs cmd
    using that
  proof (induction xs arbitrary: cmd)
    case (Cons y ys)
    then show ?case using case_none [of y] assms(7) by (auto simp: node_verdict_def)
  qed simp
  have cmd: "rp_command (fst (snd (playing_loop c E r (length (insts s)) False m s))) = 0"
    using playing_loop_spec [of "length (insts s)" s c E r False m]
      asm_inv_distinct_owner [OF assms(1)] verdict [of "rp_command m" "insts s"] x \<open>counts r x\<close>
    by auto
  have "insts (snd (asm_compare_priority_matrix c E b m r s)) = set_all_monitor_clean (insts s)"
    using assms(3,4) loop cmd
    by (simp add: asm_compare_priority_matrix_def Let_def split_beta asm_simps)
  moreover have "sound_handle ` set (set_all_monitor_clean (insts s)) = sound_handle ` set (insts s)"
    using handles_owners [OF set_all_monitor_clean_keeps(1), of "insts s"]
    by (metis list.set_map)
  ultimately show ?thesis
    using compare_alloc [OF assms(1-3), of E b m] assms(2) by (simp add: fresh_handle_def)
qed

text \<open>
  A refused request may have been entered before: with a notification and a call playing, a
  video call stops the notification, is put into the list as playing, and is then answered STOP.
\<close>

lemma refused_after_entry:
  "(case asm_compare_priority_matrix ex_cfg ex_env False ex_reply
      (ex_req ASM_REQUEST_REGISTER 30 2 ASM_EVENT_VIDEOCALL ASM_STATE_PLAYING)
      (ex_asm [ex_inst 20 1 ASM_EVENT_NOTIFY ASM_STATE_PLAYING,
               ex_inst 10 0 ASM_EVENT_CALL ASM_STATE_PLAYING]) of
    (m, s) \<Rightarrow> rp_command m = command_code ASM_COMMAND_STOP \<and>
      map (\<lambda>x. (instance_id x, sound_handle x, sound_state x)) (insts s) =
        [(30, 2, ASM_STATE_PLAYING), (20, 1, ASM_STATE_STOP), (10, 0, ASM_STATE_PLAYING)])"
  by (simp add: asm_compare_priority_matrix_def Let_def node_at_def policy_node_def
      effective_case_def sound_case_def ASM_sound_case_def asm_cases_def enter_once_def
      enter_request_def conflict_stop_def stop_monitor_def is_monitor_of_def do_callback_def
      mark_resume_def is_need_resume_def asm_change_need_resume_list_def asm_change_state_list_def
      update_monitor_active_def is_fmradio_def asm_register_list_def asm_simps snd_msg_set_def
      set_all_monitor_clean_def asm_log_def resource_status_def updatePhoneStatus_def)

end
