(* ===== verification/Tone_Table.thy ===== *)
theory Tone_Table
  imports Prelude
begin

text \<open>
  The table of predefined tones of the tone generator plugin
  (\<^verbatim>\<open>server/plugin/tone/mm_sound_plugin_codec_tone.c\<close>, \<^verbatim>\<open>TONE_SEGMENT\<close>): one row per tone
  number, as the flat list of integers of the source, six per segment: three frequencies in Hz, the
  playing time in milliseconds, and the number and target of repetitions.
\<close>

definition TONE_SEGMENT_1 :: "int list list" where
  "TONE_SEGMENT_1 = [
    [941, 1336, 0, -1, 0, 0,
     -1, -1, -1, -1, 0, 0],
    [697, 1209, 0, -1, 0, 0,
     -1, -1, -1, -1, 0, 0],
    [697, 1336, 0, -1, 0, 0,
     -1, -1, -1, -1, 0, 0],
    [697, 1477, 0, -1, 0, 0,
     -1, -1, -1, -1, 0, 0],
    [770, 1209, 0, -1, 0, 0,
     -1, -1, -1, -1, 0, 0],
    [770, 1336, 0, -1, 0, 0,
     -1, -1, -1, -1, 0, 0],
    [770, 1477, 0, -1, 0, 0,
     -1, -1, -1, -1, 0, 0],
    [852, 1209, 0, -1, 0, 0,
     -1, -1, -1, -1, 0, 0],
    [852, 1336, 0, -1, 0, 0,
     -1, -1, -1, -1, 0, 0],
    [852, 1477, 0, -1, 0, 0,
     -1, -1, -1, -1, 0, 0],
    [941, 1209, 0, -1, 0, 0,
     -1, -1, -1, -1, 0, 0],
    [941, 1477, 0, -1, 0, 0,
     -1, -1, -1, -1, 0, 0],
    [697, 1633, 0, -1, 0, 0,
     -1, -1, -1, -1, 0, 0],
    [770, 1633, 0, -1, 0, 0,
     -1, -1, -1, -1, 0, 0],
    [852, 1633, 0, -1, 0, 0,
     -1, -1, -1, -1, 0, 0],
    [941, 1633, 0, -1, 0, 0,
     -1, -1, -1, -1, 0, 0],
    [425, 0, 0, -1, 0, 0,
     -1, -1, -1, -1, 0, 0],
    [350, 440, 0, -1, 0, 0,
     -1, -1, -1, -1, 0, 0],
    [400, 0, 0, -1, 0, 0,
     -1, -1, -1, -1, 0, 0],
    [425, 0, 0, 500, 0, 0,
     0, 0, 0, 500, 0, 0,
     -1, -1, -1, -1, 0, 0],
    [480, 620, 0, 500, 0, 0,
     0, 0, 0, 500, 0, 0,
     -1, -1, -1, -1, 0, 0],
    [400, 0, 0, 500, 0, 0,
     0, 0, 0, 500, 0, 0,
     -1, -1, -1, -1, 0, 0],
    [425, 0, 0, 200, 0, 0,
     0, 0, 0, 200, 0, 0,
     -1, -1, -1, -1, 0, 0],
    [480, 620, 0, 250, 0, 0,
     0, 0, 0, 250, 0, 0,
     -1, -1, -1, -1, 0, 0],
    [425, 0, 0, 200, 0, 0,
     -1, -1, -1, -1, 0, 0],
    [400, 0, 0, 1000, 0, 0,
     0, 0, 0, 2000, 0, 0,
     -1, -1, -1, -1, 0, 0],
    [425, 0, 0, 200, 0, 0,
     0, 0, 0, 200, 0, 0,
     -1, -1, -1, -1, 3, 0],
    [950, 1400, 1800, 330, 0, 0,
     0, 0, 0, 1000, 0, 0,
     -1, -1, -1, -1, 0, 0],
    [425, 0, 0, 200, 0, 0,
     0, 0, 0, 600, 0, 0,
     425, 0, 0, 200, 0, 0,
     0, 0, 0, 3000, 0, 0,
     -1, -1, -1, -1, 0, 0],
    [440, 0, 0, 300, 0, 0,
     0, 0, 0, 9700, 0, 0,
     440, 0, 0, 100, 0, 0,
     0, 0, 0, 100, 0, 0,
     440, 0, 0, 100, 0, 0,
     0, 0, 0, 9700, 0, 0,
     -1, -1, -1, -1, 0, 0],
    [425, 0, 0, 1000, 0, 0,
     0, 0, 0, 4000, 0, 0,
     -1, -1, -1, -1, 0, 0],
    [440, 480, 0, 2000, 0, 0,
     0, 0, 0, 4000, 0, 0,
     -1, -1, -1, -1, 0, 0],
    [400, 1200, 0, 35, 0, 0,
     -1, -1, -1, -1, 0, 0],
    [1200, 0, 0, 100, 0, 0,
     0, 0, 0, 100, 0, 0,
     -1, -1, -1, -1, 2, 0],
    [300, 400, 500, 400, 0, 0,
     -1, -1, -1, -1, 0, 0],
    [400, 1200, 0, 200, 0, 0,
     -1, -1, -1, -1, 0, 0],
    [400, 1200, 0, 35, 0, 0,
     0, 0, 0, 200, 0, 0,
     400, 1200, 0, 35, 0, 0,
     -1, -1, -1, -1, 0, 0],
    [440, 0, 0, 250, 0, 0,
     620, 0, 0, 250, 0, 0,
     -1, -1, -1, -1, 0, 0],
    [440, 0, 0, 250, 0, 0,
     620, 0, 0, 250, 0, 0,
     -1, -1, -1, -1, 8, 0]]"

definition TONE_SEGMENT_2 :: "int list list" where
  "TONE_SEGMENT_2 = [
    [480, 620, 0, 250, 0, 0,
     0, 0, 0, 250, 0, 0,
     -1, -1, -1, -1, 8, 0],
    [350, 440, 0, 100, 0, 0,
     0, 0, 0, 100, 0, 0,
     -1, -1, -1, -1, 3, 0],
    [480, 0, 0, 100, 0, 0,
     0, 0, 0, 100, 0, 0,
     -1, -1, -1, -1, 4, 0],
    [425, 0, 0, -1, 0, 0,
     -1, -1, -1, -1, 0, 0],
    [440, 480, 0, 2000, 0, 0,
     0, 0, 0, 4000, 0, 0,
     -1, -1, -1, -1, 0, 0],
    [440, 0, 0, 250, 0, 0,
     620, 0, 0, 250, 0, 0,
     -1, -1, -1, -1, 0, 0],
    [440, 0, 0, 250, 0, 0,
     620, 0, 0, 250, 0, 0,
     -1, -1, -1, -1, 0, 0],
    [480, 620, 0, 250, 0, 0,
     0, 0, 0, 250, 0, 0,
     -1, -1, -1, -1, 0, 0],
    [480, 620, 0, 250, 0, 0,
     0, 0, 0, 250, 0, 0,
     -1, -1, -1, -1, 8, 0],
    [480, 620, 0, 500, 0, 0,
     0, 0, 0, 500, 0, 0,
     -1, -1, -1, -1, 0, 0],
    [350, 440, 0, 100, 0, 0,
     0, 0, 0, 100, 0, 0,
     -1, -1, -1, -1, 3, 0],
    [660, 1000, 0, 500, 0, 0,
     0, 0, 0, 100, 0, 0,
     -1, -1, -1, -1, 0, 0],
    [440, 0, 0, 300, 0, 0,
     -1, -1, -1, -1, 0, 0],
    [480, 0, 0, 100, 0, 0,
     0, 0, 0, 100, 0, 0,
     -1, -1, -1, -1, 4, 0],
    [2090, 0, 0, 32, 0, 0,
     2556, 0, 0, 64, 19, 0,
     2090, 0, 0, 32, 0, 0,
     2556, 0, 0, 48, 0, 0,
     0, 0, 0, 4000, 0, 0,
     -1, -1, -1, -1, 0, 0],
    [2091, 0, 0, 32, 0, 0,
     2556, 0, 0, 64, 7, 0,
     2091, 0, 0, 32, 0, 0,
     0, 0, 0, 400, 0, 0,
     2091, 0, 0, 32, 0, 0,
     2556, 0, 0, 64, 7, 4,
     2091, 0, 0, 32, 0, 0,
     0, 0, 0, 4000, 0, 0,
     -1, -1, -1, -1, 0, 0],
    [2091, 0, 0, 32, 0, 0,
     2556, 0, 0, 64, 3, 0,
     2091, 0, 0, 32, 0, 0,
     0, 0, 0, 200, 0, 0,
     2091, 0, 0, 32, 0, 0,
     2556, 0, 0, 64, 3, 4,
     2091, 0, 0, 32, 0, 0,
     0, 0, 0, 200, 0, 0,
     -1, -1, -1, -1, 0, 0],
    [0, 0, 0, -1, 0, 0,
     -1, -1, -1, -1, 0, 0],
    [2091, 0, 0, 32, 0, 0,
     2556, 0, 0, 64, 4, 0,
     2091, 0, 0, 20, 0, 0,
     -1, -1, -1, -1, 0, 0],
    [0, 0, 0, -1, 0, 0,
     -1, -1, -1, -1, 0, 0],
    [0, 0, 0, -1, 0, 0,
     -1, -1, -1, -1, 0, 0],
    [0, 0, 0, -1, 0, 0,
     -1, -1, -1, -1, 0, 0],
    [3700, 0, 0, 25, 0, 0,
     4000, 0, 0, 25, 39, 0,
     0, 0, 0, 4000, 0, 0,
     -1, -1, -1, -1, 0, 0],
    [2600, 0, 0, 25, 0, 0,
     2900, 0, 0, 25, 39, 0,
     0, 0, 0, 4000, 0, 0,
     -1, -1, -1, -1, 0, 0],
    [1300, 0, 0, 25, 0, 0,
     1450, 0, 0, 25, 39, 0,
     0, 0, 0, 4000, 0, 0,
     -1, -1, -1, -1, 0, 0],
    [3700, 0, 0, 25, 0, 0,
     4000, 0, 0, 25, 15, 0,
     0, 0, 0, 400, 0, 0,
     -1, -1, -1, -1, 0, 0],
    [2600, 0, 0, 25, 0, 0,
     2900, 0, 0, 25, 15, 0,
     0, 0, 0, 400, 0, 0,
     -1, -1, -1, -1, 0, 0],
    [1300, 0, 0, 25, 0, 0,
     1450, 0, 0, 25, 15, 0,
     0, 0, 0, 400, 0, 0,
     -1, -1, -1, -1, 0, 0],
    [3700, 0, 0, 25, 0, 0,
     4000, 0, 0, 25, 7, 0,
     0, 0, 0, 200, 0, 0,
     3700, 0, 0, 25, 0, 0,
     4000, 0, 0, 25, 7, 3,
     0, 0, 0, 200, 0, 0,
     3700, 0, 0, 25, 0, 0,
     4000, 0, 0, 25, 15, 6,
     0, 0, 0, 4000, 0, 0,
     -1, -1, -1, -1, 0, 0]]"

definition TONE_SEGMENT_3 :: "int list list" where
  "TONE_SEGMENT_3 = [
    [2600, 0, 0, 25, 0, 0,
     2900, 0, 0, 25, 7, 0,
     0, 0, 0, 200, 0, 0,
     2600, 0, 0, 25, 0, 0,
     2900, 0, 0, 25, 7, 3,
     0, 0, 0, 200, 0, 0,
     2600, 0, 0, 25, 0, 0,
     2900, 0, 0, 25, 15, 6,
     0, 0, 0, 4000, 0, 0,
     -1, -1, -1, -1, 0, 0],
    [1300, 0, 0, 25, 0, 0,
     1450, 0, 0, 25, 7, 0,
     0, 0, 0, 200, 0, 0,
     1300, 0, 0, 25, 0, 0,
     1450, 0, 0, 25, 7, 3,
     0, 0, 0, 200, 0, 0,
     1300, 0, 0, 25, 0, 0,
     1450, 0, 0, 25, 15, 6,
     0, 0, 0, 4000, 0, 0,
     -1, -1, -1, -1, 0, 0],
    [3700, 0, 0, 25, 0, 0,
     4000, 0, 0, 25, 19, 0,
     0, 0, 0, 1000, 0, 0,
     3700, 0, 0, 25, 0, 0,
     4000, 0, 0, 25, 19, 3,
     0, 0, 0, 3000, 0, 0,
     -1, -1, -1, -1, 0, 0],
    [2600, 0, 0, 25, 0, 0,
     2900, 0, 0, 25, 19, 0,
     0, 0, 0, 1000, 0, 0,
     2600, 0, 0, 25, 0, 0,
     2900, 0, 0, 25, 19, 3,
     0, 0, 0, 3000, 0, 0,
     -1, -1, -1, -1, 0, 0],
    [1300, 0, 0, 25, 0, 0,
     1450, 0, 0, 25, 19, 0,
     0, 0, 0, 1000, 0, 0,
     1300, 0, 0, 25, 0, 0,
     1450, 0, 0, 25, 19, 3,
     0, 0, 0, 3000, 0, 0,
     -1, -1, -1, -1, 0, 0],
    [3700, 0, 0, 25, 0, 0,
     4000, 0, 0, 25, 9, 0,
     0, 0, 0, 500, 0, 0,
     3700, 0, 0, 25, 0, 0,
     4000, 0, 0, 25, 19, 3,
     0, 0, 0, 500, 0, 0,
     3700, 0, 0, 25, 0, 0,
     4000, 0, 0, 25, 9, 6,
     0, 0, 0, 3000, 0, 0,
     -1, -1, -1, -1, 0, 0],
    [2600, 0, 0, 25, 0, 0,
     2900, 0, 0, 25, 9, 0,
     0, 0, 0, 500, 0, 0,
     2600, 0, 0, 25, 0, 0,
     2900, 0, 0, 25, 19, 3,
     0, 0, 0, 500, 0, 0,
     2600, 0, 0, 25, 0, 0,
     2900, 0, 0, 25, 9, 6,
     0, 0, 0, 3000, 0, 0,
     -1, -1, -1, -1, 0, 0],
    [1300, 0, 0, 25, 0, 0,
     1450, 0, 0, 25, 9, 0,
     0, 0, 0, 500, 0, 0,
     1300, 0, 0, 25, 0, 0,
     1450, 0, 0, 25, 19, 3,
     0, 0, 0, 500, 0, 0,
     1300, 0, 0, 25, 0, 0,
     1450, 0, 0, 25, 9, 6,
     0, 0, 0, 3000, 0, 0,
     -1, -1, -1, -1, 0, 0],
    [3700, 0, 0, 25, 0, 0,
     4000, 0, 0, 25, 9, 0,
     0, 0, 0, 500, 0, 0,
     3700, 0, 0, 25, 0, 0,
     4000, 0, 0, 25, 9, 3,
     0, 0, 0, 500, 0, 0,
     3700, 0, 0, 25, 0, 0,
     4000, 0, 0, 25, 9, 6,
     0, 0, 0, 2500, 0, 0,
     -1, -1, -1, -1, 0, 0],
    [2600, 0, 0, 25, 0, 0,
     2900, 0, 0, 25, 9, 0,
     0, 0, 0, 500, 0, 0,
     2600, 0, 0, 25, 0, 0,
     2900, 0, 0, 25, 9, 4,
     0, 0, 0, 500, 0, 0,
     2600, 0, 0, 25, 0, 0,
     2900, 0, 0, 25, 9, 6,
     0, 0, 0, 2500, 0, 0,
     -1, -1, -1, -1, 0, 0],
    [1300, 0, 0, 25, 0, 0,
     1450, 0, 0, 25, 9, 0,
     0, 0, 0, 500, 0, 0,
     1300, 0, 0, 25, 0, 0,
     1450, 0, 0, 25, 9, 3,
     0, 0, 0, 500, 0, 0,
     1300, 0, 0, 25, 0, 0,
     1450, 0, 0, 25, 9, 6,
     0, 0, 0, 2500, 0, 0,
     -1, -1, -1, -1, 0, 0],
    [3700, 0, 0, 25, 0, 0,
     4000, 0, 0, 25, 19, 0,
     0, 0, 0, 2000, 0, 0,
     -1, -1, -1, -1, 0, 0],
    [2600, 0, 0, 25, 0, 0,
     2900, 0, 0, 25, 19, 0,
     0, 0, 0, 2000, 0, 0,
     -1, -1, -1, -1, 0, 0],
    [1300, 0, 0, 25, 0, 0,
     1450, 0, 0, 25, 19, 0,
     0, 0, 0, 2000, 0, 0,
     -1, -1, -1, -1, 0, 0],
    [3700, 0, 0, 25, 0, 0,
     4000, 0, 0, 25, 7, 0,
     0, 0, 0, 200, 0, 0,
     3700, 0, 0, 25, 0, 0,
     4000, 0, 0, 25, 7, 3,
     0, 0, 0, 2000, 0, 0,
     -1, -1, -1, -1, 0, 0]]"

definition TONE_SEGMENT_4 :: "int list list" where
  "TONE_SEGMENT_4 = [
    [2600, 0, 0, 25, 0, 0,
     2900, 0, 0, 25, 7, 0,
     0, 0, 0, 200, 0, 0,
     2600, 0, 0, 25, 0, 0,
     2900, 0, 0, 25, 7, 3,
     0, 0, 0, 2000, 0, 0,
     -1, -1, -1, -1, 0, 0],
    [1300, 0, 0, 25, 0, 0,
     1450, 0, 0, 25, 7, 0,
     0, 0, 0, 200, 0, 0,
     1300, 0, 0, 25, 0, 0,
     1450, 0, 0, 25, 7, 3,
     0, 0, 0, 2000, 0, 0,
     -1, -1, -1, -1, 0, 0],
    [3700, 0, 0, 25, 0, 0,
     4000, 0, 0, 25, 7, 0,
     0, 0, 0, 200, 0, 0,
     3700, 0, 0, 25, 0, 0,
     4000, 0, 0, 25, 7, 3,
     0, 0, 0, 200, 0, 0,
     3700, 0, 0, 25, 0, 0,
     4000, 0, 0, 25, 15, 6,
     0, 0, 0, 1000, 0, 0,
     -1, -1, -1, -1, 0, 0],
    [2600, 0, 0, 25, 0, 0,
     2900, 0, 0, 25, 7, 0,
     0, 0, 0, 200, 0, 0,
     2600, 0, 0, 25, 0, 0,
     2900, 0, 0, 25, 7, 3,
     0, 0, 0, 200, 0, 0,
     2600, 0, 0, 25, 0, 0,
     2900, 0, 0, 25, 15, 6,
     0, 0, 0, 1000, 0, 0,
     -1, -1, -1, -1, 0, 0],
    [1300, 0, 0, 25, 0, 0,
     1450, 0, 0, 25, 7, 0,
     0, 0, 0, 200, 0, 0,
     1300, 0, 0, 25, 0, 0,
     1450, 0, 0, 25, 7, 3,
     0, 0, 0, 200, 0, 0,
     1300, 0, 0, 25, 0, 0,
     1450, 0, 0, 25, 15, 6,
     0, 0, 0, 1000, 0, 0,
     -1, -1, -1, -1, 0, 0],
    [3700, 0, 0, 25, 0, 0,
     4000, 0, 0, 25, 15, 0,
     0, 0, 0, 200, 0, 0,
     3700, 0, 0, 25, 0, 0,
     4000, 0, 0, 25, 7, 3,
     0, 0, 0, 1000, 0, 0,
     -1, -1, -1, -1, 0, 0],
    [2600, 0, 0, 25, 0, 0,
     2900, 0, 0, 25, 15, 0,
     0, 0, 0, 200, 0, 0,
     2600, 0, 0, 25, 0, 0,
     2900, 0, 0, 25, 7, 3,
     0, 0, 0, 1000, 0, 0,
     -1, -1, -1, -1, 0, 0],
    [1300, 0, 0, 25, 0, 0,
     1450, 0, 0, 25, 15, 0,
     0, 0, 0, 200, 0, 0,
     1300, 0, 0, 25, 0, 0,
     1450, 0, 0, 25, 7, 3,
     0, 0, 0, 1000, 0, 0,
     -1, -1, -1, -1, 0, 0],
    [3700, 0, 0, 25, 0, 0,
     4000, 0, 0, 25, 7, 0,
     0, 0, 0, 200, 0, 0,
     3700, 0, 0, 25, 0, 0,
     4000, 0, 0, 25, 7, 3,
     0, 0, 0, 200, 0, 0,
     3700, 0, 0, 25, 0, 0,
     4000, 0, 0, 25, 7, 6,
     0, 0, 0, 200, 0, 0,
     3700, 0, 0, 25, 0, 0,
     4000, 0, 0, 25, 7, 9,
     0, 0, 0, 800, 0, 0,
     -1, -1, -1, -1, 0, 0],
    [2600, 0, 0, 25, 0, 0,
     2900, 0, 0, 25, 7, 0,
     0, 0, 0, 200, 0, 0,
     2600, 0, 0, 25, 0, 0,
     2900, 0, 0, 25, 7, 3,
     0, 0, 0, 200, 0, 0,
     2600, 0, 0, 25, 0, 0,
     2900, 0, 0, 25, 7, 6,
     0, 0, 0, 200, 0, 0,
     2600, 0, 0, 25, 0, 0,
     2900, 0, 0, 25, 7, 9,
     0, 0, 0, 800, 0, 0,
     -1, -1, -1, -1, 0, 0],
    [1300, 0, 0, 25, 0, 0,
     1450, 0, 0, 25, 7, 0,
     0, 0, 0, 200, 0, 0,
     1300, 0, 0, 25, 0, 0,
     1450, 0, 0, 25, 7, 3,
     0, 0, 0, 200, 0, 0,
     1300, 0, 0, 25, 0, 0,
     1450, 0, 0, 25, 7, 6,
     0, 0, 0, 200, 0, 0,
     1300, 0, 0, 25, 0, 0,
     1450, 0, 0, 25, 7, 9,
     0, 0, 0, 800, 0, 0,
     -1, -1, -1, -1, 0, 0],
    [1109, 0, 0, 62, 0, 0,
     784, 0, 0, 62, 0, 0,
     740, 0, 0, 62, 0, 0,
     622, 0, 0, 62, 0, 0,
     1109, 0, 0, 62, 0, 0,
     -1, -1, -1, -1, 0, 0],
    [1245, 0, 0, 62, 0, 0,
     659, 0, 0, 62, 0, 0,
     1245, 0, 0, 62, 0, 0,
     659, 0, 0, 62, 0, 0,
     1245, 0, 0, 62, 0, 0,
     659, 0, 0, 62, 0, 0,
     1245, 0, 0, 62, 0, 0,
     -1, -1, -1, -1, 0, 0],
    [1150, 770, 0, 400, 0, 0,
     -1, -1, -1, -1, 0, 0],
    [941, 1477, 0, 120, 0, 0,
     -1, -1, -1, -1, 0, 0],
    [587, 0, 0, 375, 0, 0,
     1175, 0, 0, 125, 0, 0,
     -1, -1, -1, -1, 0, 0]]"

definition TONE_SEGMENT_5 :: "int list list" where
  "TONE_SEGMENT_5 = [
    [587, 0, 0, 62, 0, 0,
     784, 0, 0, 62, 0, 0,
     831, 0, 0, 62, 0, 0,
     784, 0, 0, 62, 0, 0,
     1109, 0, 0, 62, 0, 0,
     784, 0, 0, 62, 0, 0,
     831, 0, 0, 62, 0, 0,
     784, 0, 0, 62, 0, 0,
     -1, -1, -1, -1, 0, 0],
    [941, 0, 0, 125, 0, 0,
     0, 0, 0, 10, 0, 0,
     941, 0, 0, 125, 0, 0,
     0, 0, 0, 10, 0, 0,
     1245, 0, 0, 62, 0, 0,
     0, 0, 0, 10, 0, 0,
     0, 0, 0, 4990, 0, 0,
     -1, -1, -1, -1, 0, 0],
    [1319, 0, 0, 125, 0, 0,
     0, 0, 0, 125, 0, 0,
     -1, -1, -1, -1, 3, 0],
    [1047, 0, 0, 125, 0, 0,
     370, 0, 0, 125, 0, 0,
     -1, -1, -1, -1, 0, 0],
    [1480, 0, 0, 125, 0, 0,
     1397, 0, 0, 125, 0, 0,
     784, 0, 0, 125, 0, 0,
     -1, -1, -1, -1, 0, 0],
    [425, 0, 0, 125, 0, 0,
     0, 0, 0, 125, 0, 0,
     -1, -1, -1, -1, 0, 0],
    [1150, 770, 0, 400, 0, 0,
     -1, -1, -1, -1, 0, 0],
    [0, 0, 0, -1, 0, 0,
     -1, -1, -1, -1, 0, 0]]"

definition TONE_SEGMENT :: "int list list" where
  "TONE_SEGMENT = TONE_SEGMENT_1 @ TONE_SEGMENT_2 @ TONE_SEGMENT_3 @ TONE_SEGMENT_4 @ TONE_SEGMENT_5"

lemmas TONE_SEGMENT_defs = TONE_SEGMENT_def TONE_SEGMENT_1_def TONE_SEGMENT_2_def TONE_SEGMENT_3_def TONE_SEGMENT_4_def TONE_SEGMENT_5_def

lemma length_TONE_SEGMENT: "length TONE_SEGMENT = 107"
  by (simp add: TONE_SEGMENT_defs)

end
