(* ===== verification/Bytes.thy ===== *)
theory Bytes
  imports Prelude
begin

text \<open>
  Reading memory: little-endian fields of a byte string, with the outcome of an access that leaves
  the string, of a write to memory that cannot be written, and of a loop that has used up its fuel.
\<close>

type_synonym bytes = "8 word list"

datatype 'a access = Ok 'a | Fault | Endless

fun andthen :: "'a access \<Rightarrow> ('a \<Rightarrow> 'b access) \<Rightarrow> 'b access" where
  "andthen (Ok x) f = f x"
| "andthen Fault f = Fault"
| "andthen Endless f = Endless"

lemma andthen_Ok: "andthen m f = Ok y \<longleftrightarrow> (\<exists>x. m = Ok x \<and> f x = Ok y)"
  by (cases m) auto

section \<open>Little-endian numbers\<close>

fun le_nat :: "bytes \<Rightarrow> nat" where
  "le_nat [] = 0"
| "le_nat (b # bs) = unat b + 256 * le_nat bs"

fun nat_le :: "nat \<Rightarrow> nat \<Rightarrow> bytes" where
  "nat_le 0 x = []"
| "nat_le (Suc n) x = word_of_nat (x mod 256) # nat_le n (x div 256)"

definition le16 :: "16 word \<Rightarrow> bytes" where
  "le16 w = nat_le 2 (unat w)"

definition le32 :: "32 word \<Rightarrow> bytes" where
  "le32 w = nat_le 4 (unat w)"

text \<open>A field of two or four bytes at an offset of a byte string.\<close>

definition rd16 :: "bytes \<Rightarrow> nat \<Rightarrow> 16 word access" where
  "rd16 bs i = (if i + 2 \<le> length bs then Ok (word_of_nat (le_nat (take 2 (drop i bs)))) else Fault)"

definition rd32 :: "bytes \<Rightarrow> nat \<Rightarrow> 32 word access" where
  "rd32 bs i = (if i + 4 \<le> length bs then Ok (word_of_nat (le_nat (take 4 (drop i bs)))) else Fault)"

definition wr32 :: "bytes \<Rightarrow> nat \<Rightarrow> 32 word \<Rightarrow> bytes" where
  "wr32 bs i w = take i bs @ le32 w @ drop (i + 4) bs"

lemma length_nat_le [simp]: "length (nat_le n x) = n"
  by (induction n arbitrary: x) simp_all

lemma length_le [simp]: "length (le16 a) = 2" "length (le32 b) = 4"
  by (simp_all add: le16_def le32_def)

lemma le_nat_le: "le_nat (nat_le n x) = x mod 256 ^ n"
proof (induction n arbitrary: x)
  case (Suc n)
  have "unat (word_of_nat (x mod 256) :: 8 word) = x mod 256"
    by (simp add: unat_of_nat)
  then show ?case by (simp add: Suc mod_mult2_eq)
qed simp

lemma le_nat_le16 [simp]: "word_of_nat (le_nat (le16 w)) = w"
proof -
  have "unat w < 256 ^ 2" using unsigned_less [of w, where ?'a = nat] by simp
  then show ?thesis by (simp add: le16_def le_nat_le del: nat_le.simps)
qed

lemma le_nat_le32 [simp]: "word_of_nat (le_nat (le32 w)) = w"
proof -
  have "unat w < 256 ^ 4" using unsigned_less [of w, where ?'a = nat] by simp
  then show ?thesis by (simp add: le32_def le_nat_le del: nat_le.simps)
qed

text \<open>Reading a field that was written, in front of it and behind it.\<close>

lemma rd32_here: "rd32 (pre @ le32 w @ post) (length pre) = Ok w"
  by (simp add: rd32_def)

lemma rd16_here: "rd16 (pre @ le16 w @ post) (length pre) = Ok w"
  by (simp add: rd16_def)

lemma rd_behind:
  "rd32 (pre @ bs) (length pre + i) = rd32 bs i" "rd16 (pre @ bs) (length pre + i) = rd16 bs i"
  by (simp_all add: rd32_def rd16_def)

lemma rd_Cons [simp]:
  "0 < i \<Longrightarrow> rd32 (b # bs) i = rd32 bs (i - 1)" "0 < i \<Longrightarrow> rd16 (b # bs) i = rd16 bs (i - 1)"
  by (cases i; simp add: rd32_def rd16_def)+

end
