(* ===== verification/Source.thy ===== *)
theory Source
  imports Bytes
begin

text \<open>
  Media sources (\<^verbatim>\<open>common/mm_source.c\<close>, \<^verbatim>\<open>include/mm_source.h\<close>): a mapped file or a block of memory as
  the byte string from its pointer on, the file descriptors, mappings and blocks that are held, and
  the operations that open, fill and close a source.  The file system is given by its answers.
\<close>

datatype source_type =
    MM_SOURCE_NONE | MM_SOURCE_FILE | MM_SOURCE_MEMORY | MM_SOURCE_MEMORY_NOTALLOC

text \<open>The memory from \<^verbatim>\<open>ptr\<close> on is the byte string; a mapped file cannot be written to.  The first field
  is the address of the structure itself, 0 for one that is not on the heap.\<close>

record mm_source =
  src_addr :: ptr
  src_type :: source_type
  src_ptr :: ptr
  src_bytes :: bytes
  cur_size :: "32 word"
  tot_size :: "32 word"
  src_fd :: int
  med_offset :: "32 word"

definition zero_source :: mm_source where
  "zero_source = \<lparr>src_addr = 0, src_type = MM_SOURCE_NONE, src_ptr = 0, src_bytes = [], cur_size = 0, tot_size = 0,
     src_fd = 0, med_offset = 0\<rparr>"

text \<open>What the process holds: descriptors, mappings, blocks of samples and source structures.\<close>

record src_sys =
  open_fds :: "int list"
  mappings :: "(ptr \<times> 32 word) list"
  blocks :: "ptr list"
  structs :: "ptr list"

text \<open>The answers for one file name: \<^verbatim>\<open>open\<close>, \<^verbatim>\<open>fstat\<close>, the contents, whether \<^verbatim>\<open>read\<close> and \<^verbatim>\<open>lseek\<close> work,
  \<^verbatim>\<open>mmap\<close>, and what the stack holds where the buffer for the header is.\<close>

record file_env =
  fe_open :: int
  fe_fstat :: bool
  fe_content :: bytes
  fe_read :: bool
  fe_seek :: bool
  fe_map :: ptr
  fe_junk :: bytes

definition MAP_FAILED :: ptr where
  "MAP_FAILED = -1"

section \<open>Names and headers\<close>

definition lower_char :: "char \<Rightarrow> char" where
  "lower_char c = (let n = of_char c :: nat in if 65 \<le> n \<and> n \<le> 90 then char_of (n + 32) else c)"

definition byte_char :: "8 word \<Rightarrow> char" where
  "byte_char b = char_of (unat b)"

text \<open>\<^verbatim>\<open>strcasecmp\<close> of a buffer with a word in lower case.\<close>

definition buffer_is :: "bytes \<Rightarrow> string \<Rightarrow> bool" where
  "buffer_is buf w \<longleftrightarrow> length w < length buf \<and> buf ! length w = 0 \<and>
     map (lower_char \<circ> byte_char) (take (length w) buf) = w"

definition is_drm_file :: "string \<Rightarrow> bool" where
  "is_drm_file f \<longleftrightarrow> CHR ''.'' \<in> set f \<and>
     map lower_char (take 4 (CHR ''.'' # rev (takeWhile (\<lambda>c. c \<noteq> CHR ''.'') (rev f)))) \<in>
       set [''.odf'', ''.dcf'', ''.o4a'', ''.o4v'']"

text \<open>The header of a DM file: refused, or the offset and the size of the media in it.  The second
  read may be short; what the buffer held before stays behind it.\<close>

definition dm_header :: "file_env \<Rightarrow> (32 word \<times> 32 word) option" where
  "dm_header E =
    (let c = fe_content E; g = take 8 c @ [0] @ drop 9 (fe_junk E)
     in if \<not> fe_read E \<or> length c < 8 \<or> \<not> buffer_is g ''--random'' \<or> \<not> fe_seek E then None
        else
          (let r = take 0xF (drop 0x32 c);
               g2 = r @ drop (length r) g;
               g3 = update_first (\<lambda>b. b = 0xD) (\<lambda>_. 0) (take 0xF g2) @ drop 0xF g2
           in if buffer_is g3 ''audio/mpeg'' then Some (0x63, of_nat (length c) - (0x63 + 0x28))
              else if buffer_is g3 ''audio/wav'' then Some (0x62, of_nat (length c) - (0x62 + 0x28))
              else None))"

section \<open>Files\<close>

text \<open>A failed mapping is not noticed: only a null pointer is.\<close>

definition map_file ::
  "file_env \<Rightarrow> 32 word \<Rightarrow> 32 word \<Rightarrow> mm_source \<Rightarrow> src_sys \<Rightarrow> mm_err \<times> mm_source \<times> src_sys" where
  "map_file E off sz src sys =
    (let n = of_nat (length (fe_content E)) in
     if fe_map E = 0
     then (MM_ERROR_SOUND_INTERNAL, src, sys\<lparr>open_fds := remove1 (fe_open E) (open_fds sys)\<rparr>)
     else
       (MM_ERROR_NONE,
        \<lparr>src_addr = src_addr src, src_type = MM_SOURCE_FILE, src_ptr = fe_map E + off,
         src_bytes = (if fe_map E = MAP_FAILED then [] else drop (unat off) (fe_content E)),
         cur_size = sz, tot_size = n, src_fd = fe_open E, med_offset = off\<rparr>,
        if fe_map E = MAP_FAILED then sys else sys\<lparr>mappings := (fe_map E, n) # mappings sys\<rparr>))"

definition mm_source_open_file ::
  "file_env \<Rightarrow> string option \<Rightarrow> bool \<Rightarrow> mm_source \<Rightarrow> src_sys \<Rightarrow>
    (mm_err \<times> mm_source \<times> src_sys) access" where
  "mm_source_open_file E filename drmsupport src sys =
    (case filename of
       None \<Rightarrow> Ok (MM_ERROR_SOUND_INVALID_FILE, src, sys)
     | Some f \<Rightarrow>
         if drmsupport \<and> is_drm_file f then Ok (MM_ERROR_SOUND_UNSUPPORTED_MEDIA_TYPE, src, sys)
         else if fe_open E = -1 \<or> \<not> fe_fstat E then Ok (MM_ERROR_SOUND_INTERNAL, src, sys)
         else if length f < 2 then Fault
         else
           (let sys1 = sys\<lparr>open_fds := fe_open E # open_fds sys\<rparr>
            in if map lower_char (drop (length f - 2) f) = ''dm''
               then (case dm_header E of
                       None \<Rightarrow> Ok (MM_ERROR_SOUND_INTERNAL, src, sys1)
                     | Some (off, sz) \<Rightarrow> Ok (map_file E off sz src sys1))
               else Ok (map_file E 0 (of_nat (length (fe_content E))) src sys1)))"

section \<open>Memory\<close>

text \<open>Appending; \<^verbatim>\<open>bs\<close> is the memory at the argument.  The size is an \<^verbatim>\<open>int\<close>, the sum is unsigned.\<close>

definition mm_source_append_memory :: "bytes \<Rightarrow> int \<Rightarrow> mm_source \<Rightarrow> (mm_err \<times> mm_source) access" where
  "mm_source_append_memory bs sz src =
    (if cur_size src + of_int sz > tot_size src then Ok (MM_ERROR_SOUND_NO_FREE_SPACE, src)
     else if sz < 0 \<or> length bs < nat sz \<or> length (src_bytes src) < unat (cur_size src) + nat sz
     then Fault
     else
       (let k = unat (cur_size src) in
        Ok (MM_ERROR_NONE,
          src\<lparr>src_bytes := take k (src_bytes src) @ take (nat sz) bs @ drop (k + nat sz) (src_bytes src),
              cur_size := cur_size src + of_int sz\<rparr>)))"

text \<open>\<^verbatim>\<open>block\<close> is what \<^verbatim>\<open>malloc\<close> answers: the address, 0 when there is no memory, and what is there.\<close>

definition mm_source_open_memory ::
  "ptr \<times> bytes \<Rightarrow> bytes \<Rightarrow> int \<Rightarrow> int \<Rightarrow> mm_source \<Rightarrow> src_sys \<Rightarrow> (mm_err \<times> mm_source \<times> src_sys) access" where
  "mm_source_open_memory block bs totsize sz src sys =
    (if fst block = 0
     then Ok (MM_ERROR_SOUND_NO_FREE_SPACE, src\<lparr>src_ptr := 0, src_bytes := []\<rparr>, sys)
     else
       andthen (mm_source_append_memory bs sz
         (src\<lparr>src_type := MM_SOURCE_MEMORY, src_ptr := fst block, src_bytes := snd block, cur_size := 0,
              tot_size := of_int totsize, src_fd := -1\<rparr>))
         (\<lambda>(e, src'). Ok (e, src', sys\<lparr>blocks := fst block # blocks sys\<rparr>)))"

definition mm_source_open_full_memory ::
  "ptr \<times> bytes \<Rightarrow> ptr \<Rightarrow> bytes \<Rightarrow> int \<Rightarrow> bool \<Rightarrow> mm_source \<Rightarrow> src_sys \<Rightarrow>
    (mm_err \<times> mm_source \<times> src_sys) access" where
  "mm_source_open_full_memory block p bs totsize alloc src sys =
    (if p = 0 then Ok (MM_ERROR_INVALID_ARGUMENT, src, sys)
     else if alloc then mm_source_open_memory block bs totsize totsize src sys
     else
       Ok (MM_ERROR_NONE,
         src\<lparr>src_type := MM_SOURCE_MEMORY_NOTALLOC, src_ptr := p, src_bytes := bs,
             cur_size := of_int totsize, tot_size := of_int totsize, src_fd := -1\<rparr>, sys))"

section \<open>Closing\<close>

definition release_source :: "mm_source \<Rightarrow> src_sys \<Rightarrow> src_sys" where
  "release_source src sys =
    (case src_type src of
       MM_SOURCE_FILE \<Rightarrow>
         sys\<lparr>open_fds := remove1 (src_fd src) (open_fds sys),
             mappings := (if src_ptr src \<noteq> 0
                          then remove1 (src_ptr src - med_offset src, tot_size src) (mappings sys)
                          else mappings sys)\<rparr>
     | MM_SOURCE_MEMORY \<Rightarrow>
         sys\<lparr>blocks := (if src_ptr src \<noteq> 0 then remove1 (src_ptr src) (blocks sys) else blocks sys)\<rparr>
     | MM_SOURCE_MEMORY_NOTALLOC \<Rightarrow> sys
     | MM_SOURCE_NONE \<Rightarrow> sys)"

definition mm_source_close :: "mm_source option \<Rightarrow> src_sys \<Rightarrow> mm_err \<times> mm_source option \<times> src_sys" where
  "mm_source_close source sys =
    (case source of
       None \<Rightarrow> (MM_ERROR_CLASS, None, sys)
     | Some src \<Rightarrow> (MM_ERROR_NONE, Some (zero_source\<lparr>src_addr := src_addr src\<rparr>), release_source src sys))"

text \<open>A structure on the heap, from \<^verbatim>\<open>malloc\<close> to \<^verbatim>\<open>free\<close>.\<close>

definition alloc_source :: "ptr \<Rightarrow> src_sys \<Rightarrow> mm_source \<times> src_sys" where
  "alloc_source a sys = (zero_source\<lparr>src_addr := a\<rparr>, sys\<lparr>structs := a # structs sys\<rparr>)"

definition free_source :: "mm_source \<Rightarrow> src_sys \<Rightarrow> src_sys" where
  "free_source src sys = sys\<lparr>structs := remove1 (src_addr src) (structs sys)\<rparr>"

end
