(* ===== verification/Codec_Interface.thy ===== *)
theory Codec_Interface
  imports Source Complex_Main
begin

text \<open>
  The interface between the codec manager and its plugins
  (\<^verbatim>\<open>server/include/mm_sound_plugin_codec.h\<close>): the parameters and the stream description they are
  given, the table of operations, and, as a locale, what the manager relies on of the operations.
\<close>

datatype codec_type =
    MM_SOUND_SUPPORTED_CODEC_WAVE | MM_SOUND_SUPPORTED_CODEC_DTMF | MM_SOUND_SUPPORTED_CODEC_MP3

definition MM_SOUND_SUPPORTED_CODEC_NUM :: nat where
  "MM_SOUND_SUPPORTED_CODEC_NUM = 3"

record codec_info =
  info_codec :: codec_type
  info_channels :: "32 word"
  info_samplerate :: "32 word"
  info_format :: "32 word"
  info_doffset :: "32 word"
  info_size :: "32 word"

record codec_param =
  codec_stop_cb :: int
  codec_pid :: pid
  codec_cb_param :: int
  codec_tone :: int
  codec_repeat_count :: int
  codec_volume :: real
  codec_priority :: int
  codec_volume_table :: int
  codec_keytone :: int
  codec_source :: mm_source
  codec_handle_route :: int

text \<open>The states of a sound that plays; the plugins declare the same enumeration.\<close>

datatype play_state = STATE_NONE | STATE_READY | STATE_BEGIN | STATE_PLAY | STATE_STOP

text \<open>
  Parsing gives no value where the C code reads outside the source, writes to a read-only one, or
  does not end.  The world \<^typ>\<open>'w\<close> is what the plugins keep: their heap and devices.
\<close>

record 'w codec_interface =
  GetSupportTypes :: codec_type
  Parse :: "mm_source \<Rightarrow> codec_info \<Rightarrow> (mm_err \<times> mm_source \<times> codec_info) option"
  Create :: "codec_param \<Rightarrow> codec_info \<Rightarrow> 'w \<Rightarrow> mm_err \<times> int option \<times> 'w"
  Play :: "int \<Rightarrow> 'w \<Rightarrow> mm_err \<times> 'w"
  Stop :: "int \<Rightarrow> 'w \<Rightarrow> mm_err \<times> 'w"
  Destroy :: "int \<Rightarrow> 'w \<Rightarrow> mm_err \<times> 'w"

text \<open>The contract of a plugin: handles are fresh, stay alive until they are destroyed, and playing
  or stopping changes none.\<close>

locale codec_plugin =
  fixes intf :: "'w codec_interface" and winv :: "'w \<Rightarrow> bool" and live :: "'w \<Rightarrow> int set"
  assumes create_ok: "winv w \<Longrightarrow> Create intf p i w = (MM_ERROR_NONE, h, w') \<Longrightarrow>
      winv w' \<and> (\<exists>a. h = Some a \<and> a \<notin> live w \<and> live w' = insert a (live w))"
    and create_error: "winv w \<Longrightarrow> Create intf p i w = (e, h, w') \<Longrightarrow> e \<noteq> MM_ERROR_NONE \<Longrightarrow>
      winv w' \<and> h = None \<and> live w' = live w"
    and play_live: "winv w \<Longrightarrow> a \<in> live w \<Longrightarrow> Play intf a w = (e, w') \<Longrightarrow> winv w' \<and> live w' = live w"
    and stop_live: "winv w \<Longrightarrow> a \<in> live w \<Longrightarrow> Stop intf a w = (e, w') \<Longrightarrow>
      e = MM_ERROR_NONE \<and> winv w' \<and> live w' = live w"
    and destroy_live: "winv w \<Longrightarrow> a \<in> live w \<Longrightarrow> Destroy intf a w = (e, w') \<Longrightarrow>
      e = MM_ERROR_NONE \<and> winv w' \<and> live w' = live w - {a}"

end
