(* ===== verification/Tone.thy ===== *)
theory Tone
  imports Tone_Table Codec_Interface "HOL-Library.Signed_Division"
begin

text \<open>
  The tone generator plugin (\<^verbatim>\<open>server/plugin/tone/mm_sound_plugin_codec_tone.c\<close>): reading the
  segments of a tone, the size and the samples of a wave, the loop that writes waves until the
  requested time is over or the tone is stopped, and the plugin's operations.  The sound device
  (avsys), the thread pool and the callback are parameters; reading a table outside its bounds and
  an endless loop are outcomes of their own.
\<close>

section \<open>Constants and data\<close>

definition MM_SOUND_TONE_NUM :: nat where
  "MM_SOUND_TONE_NUM = 107"

definition TONE_COLUMN :: nat where
  "TONE_COLUMN = 6"

definition SAMPLERATE :: int where
  "SAMPLERATE = 44100"

definition SAMPLE_SIZE :: int where
  "SAMPLE_SIZE = 16"

definition CHANNELS :: int where
  "CHANNELS = 1"

definition MAX_DURATION :: int where
  "MAX_DURATION = 100"

lemmas tone_consts = MM_SOUND_TONE_NUM_def TONE_COLUMN_def SAMPLERATE_def SAMPLE_SIZE_def
  CHANNELS_def MAX_DURATION_def

record TONE =
  low_frequency :: int
  middle_frequency :: int
  high_frequency :: int
  playingTime :: int
  loopCnt :: int
  loopIndx :: int

record tone_info =
  ti_size :: int
  ti_audio_handle :: int
  ti_stop_cb :: int
  ti_cb_param :: int
  ti_state :: play_state
  ti_number :: int
  ti_volume :: real
  ti_time :: int
  ti_pid :: pid

section \<open>Segments\<close>

text \<open>
  \<^verbatim>\<open>TONE_SEGMENT[key][j]\<close>: the rows of the array have \<^verbatim>\<open>MM_SOUND_TONE_NUM\<close> elements, those that
  are not initialised are zero, and nothing is defined outside.
\<close>

definition tone_entry :: "int \<Rightarrow> int \<Rightarrow> int option" where
  "tone_entry key j =
    (if 0 \<le> key \<and> nat key < length TONE_SEGMENT \<and> 0 \<le> j \<and> nat j < MM_SOUND_TONE_NUM then
       (let row = TONE_SEGMENT ! nat key in Some (if nat j < length row then row ! nat j else 0))
     else None)"

definition mm_get_tone :: "int \<Rightarrow> int \<Rightarrow> TONE option" where
  "mm_get_tone key cur =
    (let b = cur * int TONE_COLUMN in
     case (tone_entry key b, tone_entry key (b + 1), tone_entry key (b + 2),
           tone_entry key (b + 3), tone_entry key (b + 4), tone_entry key (b + 5)) of
       (Some l, Some m, Some h, Some p, Some n, Some i) \<Rightarrow>
         Some \<lparr>low_frequency = l, middle_frequency = m, high_frequency = h,
               playingTime = p, loopCnt = n, loopIndx = i\<rparr>
     | _ \<Rightarrow> None)"

definition mm_get_waveCnt_PlayingTime :: "int \<Rightarrow> TONE \<Rightarrow> int \<times> int" where
  "mm_get_waveCnt_PlayingTime toneTime T =
    (if playingTime T = -1 then (\<bar>toneTime\<bar> sdiv MAX_DURATION, \<bar>toneTime\<bar> smod MAX_DURATION)
     else (playingTime T sdiv MAX_DURATION, playingTime T smod MAX_DURATION))"

text \<open>The new pair of repetition counter and segment index.\<close>

definition mm_get_CurIndex :: "TONE \<Rightarrow> int \<Rightarrow> int \<Rightarrow> int \<times> int" where
  "mm_get_CurIndex T cnt cur =
    (if loopCnt T \<noteq> 0 \<and> cnt \<le> loopCnt T then
       (if cnt + 1 > loopCnt T then (0, cur + 1) else (cnt + 1, loopIndx T))
     else (cnt, cur + 1))"

section \<open>One wave\<close>

text \<open>
  The size in bytes.  The source computes it in doubles; for the durations of 0 to 100 ms that occur,
  the truncated double is the truncated quotient below.
\<close>

definition tone_size :: "TONE \<Rightarrow> int" where
  "tone_size T =
    (let p = (if playingTime T > MAX_DURATION \<or> playingTime T = -1 then MAX_DURATION
              else playingTime T);
         n = (p * SAMPLERATE * SAMPLE_SIZE * CHANNELS) sdiv (1000 * 8)
     in (n + 1) div 2 * 2)"

definition tone_quota :: "TONE \<Rightarrow> int" where
  "tone_quota T = (if low_frequency T > 0 then 1 else 0) + (if middle_frequency T > 0 then 1 else 0)
     + (if high_frequency T > 0 then 1 else 0)"

definition tone_wave :: "int \<Rightarrow> int \<Rightarrow> real" where
  "tone_wave freq sample = sin (2 * pi * of_int freq * (of_int sample / of_int SAMPLERATE))"

text \<open>One sample, with doubles as real numbers; the cast to \<^verbatim>\<open>short\<close> truncates.\<close>

definition tone_sample :: "real \<Rightarrow> TONE \<Rightarrow> int \<Rightarrow> int" where
  "tone_sample volume T sample =
    (let f = tone_wave (low_frequency T) sample + tone_wave (middle_frequency T) sample
           + tone_wave (high_frequency T) sample;
         a = (if f \<noteq> 0 then f / of_int (tone_quota T) * volume * 32767 else 0)
     in if a \<ge> 0 then \<lfloor>a\<rfloor> else \<lceil>a\<rceil>)"

text \<open>\<^verbatim>\<open>g_malloc\<close> returns no buffer only for the size 0.  The buffer is given by its size and by the
  number of its first sample; \<^verbatim>\<open>tone_buffer\<close> are the samples themselves.\<close>

definition create_tone :: "TONE \<Rightarrow> int \<Rightarrow> (int \<times> int) option" where
  "create_tone T sample =
    (if tone_size T = 0 then None else Some (tone_size T, sample + tone_size T div (SAMPLE_SIZE div 8)))"

definition tone_buffer :: "real \<Rightarrow> TONE \<Rightarrow> int \<Rightarrow> int list" where
  "tone_buffer volume T sample =
    map (\<lambda>k. tone_sample volume T (sample + int k)) [0..<nat (tone_size T div (SAMPLE_SIZE div 8))]"

section \<open>The tone loop\<close>

text \<open>What a call of \<^verbatim>\<open>avsys_audio_write\<close> gets: the segment, its first sample, the bytes, and the
  time the loop accounts for it.\<close>

record tone_write =
  wr_tone :: TONE
  wr_first :: int
  wr_bytes :: int
  wr_time :: int

record tone_st =
  prePlayingTime :: int
  CurIndex :: int
  CurArrayPlayCnt :: int
  sample :: int
  writes :: "tone_write list"

datatype tone_run =
    ToneEnd bool tone_st
  | ToneOutOfBounds tone_st
  | ToneMore tone_st

text \<open>
  The waves of one segment; \<^verbatim>\<open>k\<close> waves are left, the last of which plays the rest.  \<^verbatim>\<open>S\<close> gives
  the state that the check after each write reads: it is written by other threads.  The result says
  whether the tone is over, and then whether the device was drained.
\<close>

fun wave_loop ::
  "(nat \<Rightarrow> play_state) \<Rightarrow> int \<Rightarrow> TONE \<Rightarrow> int \<Rightarrow> nat \<Rightarrow> tone_st \<Rightarrow> bool option \<times> tone_st" where
  "wave_loop S toneTime T rest 0 s = (None, s)"
| "wave_loop S toneTime T rest (Suc k) s =
    (let duration = (if k = 0 then rest else MAX_DURATION)
     in if duration = 0 then (None, s)
        else
          (let p = (if prePlayingTime s + duration > toneTime \<and> toneTime \<noteq> -1
                    then toneTime - prePlayingTime s else duration)
           in case create_tone T (sample s) of
                None \<Rightarrow> (Some False, s)
              | Some (bytes, sample') \<Rightarrow>
                  (let w = \<lparr>wr_tone = T, wr_first = sample s,
                            wr_bytes = ((bytes * p) sdiv duration + 1) div 2 * 2, wr_time = p\<rparr>;
                       s' = s\<lparr>prePlayingTime := prePlayingTime s + p, sample := sample',
                              writes := w # writes s\<rparr>
                   in if prePlayingTime s' = toneTime \<or> S (length (writes s)) \<noteq> STATE_PLAY
                      then (Some True, s')
                      else wave_loop S toneTime T rest k s')))"

text \<open>The loop over segments, with fuel for its turns.\<close>

fun tone_loop :: "(nat \<Rightarrow> play_state) \<Rightarrow> int \<Rightarrow> int \<Rightarrow> nat \<Rightarrow> tone_st \<Rightarrow> tone_run" where
  "tone_loop S toneTime key 0 s = ToneMore s"
| "tone_loop S toneTime key (Suc n) s =
    (case mm_get_tone key (CurIndex s) of
       None \<Rightarrow> ToneOutOfBounds s
     | Some T \<Rightarrow>
         (let (numWave, rest) = mm_get_waveCnt_PlayingTime toneTime T
          in if low_frequency T = -1 then tone_loop S toneTime key n (s\<lparr>CurIndex := loopIndx T\<rparr>)
             else
               (case wave_loop S toneTime T rest (nat (numWave + 1)) s of
                  (Some drained, s') \<Rightarrow> ToneEnd drained s'
                | (None, s') \<Rightarrow>
                    (let (cnt, cur) = mm_get_CurIndex T (CurArrayPlayCnt s') (CurIndex s')
                     in tone_loop S toneTime key n (s'\<lparr>CurArrayPlayCnt := cnt, CurIndex := cur\<rparr>)))))"

definition tone_start_st :: tone_st where
  "tone_start_st = \<lparr>prePlayingTime = 0, CurIndex = 0, CurArrayPlayCnt = 0, sample = 0, writes = []\<rparr>"

datatype tone_call = AvAudioOpen | AvAudioClose int | AvAudioDrain int | ToneStopCb int int

datatype tone_thread =
    ToneReturned tone_info "tone_write list" "tone_call list"
  | ToneCrashed
  | ToneRunning

text \<open>
  \<^verbatim>\<open>_running_tone\<close> from the moment it has seen the start signal (see \<^verbatim>\<open>tone_event_step\<close>); with the
  time 0 it returns at once, without closing the device and without the callback.
\<close>

definition running_tone :: "(nat \<Rightarrow> play_state) \<Rightarrow> nat \<Rightarrow> tone_info \<Rightarrow> tone_thread" where
  "running_tone S fuel ti =
    (if ti_time ti = 0 then ToneReturned ti [] []
     else
       (case tone_loop S (ti_time ti) (ti_number ti) fuel tone_start_st of
          ToneMore s \<Rightarrow> ToneRunning
        | ToneOutOfBounds s \<Rightarrow> ToneCrashed
        | ToneEnd drained s \<Rightarrow>
            ToneReturned (ti\<lparr>ti_state := STATE_STOP\<rparr>) (writes s)
              ((if drained then [AvAudioDrain (ti_audio_handle ti)] else []) @
               [AvAudioClose (ti_audio_handle ti)] @
               (if ti_stop_cb ti \<noteq> 0 then [ToneStopCb (ti_stop_cb ti) (ti_cb_param ti)] else []))))"

section \<open>The operations of the plugin\<close>

definition tone_support_types :: codec_type where
  "tone_support_types = MM_SOUND_SUPPORTED_CODEC_DTMF"

text \<open>Every source is accepted; the description of the stream is left as it was.\<close>

definition tone_parse :: "mm_source \<Rightarrow> codec_info \<Rightarrow> (mm_err \<times> mm_source \<times> codec_info) option" where
  "tone_parse source info = Some (MM_ERROR_NONE, source, info)"

text \<open>The device's answer to \<^verbatim>\<open>avsys_audio_open\<close> (a failure carries its code) and the thread pool's to a new job.\<close>

record tone_env =
  malloc_ok :: bool
  open_error :: "int option"
  open_handle :: int
  open_size :: int
  pool_result :: int

definition tone_create ::
  "tone_env \<Rightarrow> codec_param \<Rightarrow> (mm_err + tone_info) \<times> tone_call list" where
  "tone_create E p =
    (if \<not> malloc_ok E then (Inl MM_ERROR_OUT_OF_MEMORY, [])
     else
       (let close = (if open_handle E \<noteq> 0 then [AvAudioClose (open_handle E)] else [])
        in case open_error E of
             Some e \<Rightarrow> (Inl (MM_ERROR_OTHER e), AvAudioOpen # close)
           | None \<Rightarrow>
               if pool_result E \<noteq> 0 then (Inl MM_ERROR_SOUND_INTERNAL, AvAudioOpen # close)
               else (Inr \<lparr>ti_size = open_size E, ti_audio_handle = open_handle E,
                          ti_stop_cb = codec_stop_cb p, ti_cb_param = codec_cb_param p,
                          ti_state = STATE_READY, ti_number = codec_tone p,
                          ti_volume = codec_volume p, ti_time = codec_repeat_count p,
                          ti_pid = codec_pid p\<rparr>,
                     [AvAudioOpen])))"

definition tone_play :: "tone_info \<Rightarrow> mm_err \<times> tone_info" where
  "tone_play ti = (MM_ERROR_NONE, ti\<lparr>ti_state := STATE_BEGIN\<rparr>)"

definition tone_stop :: "tone_info \<Rightarrow> mm_err \<times> tone_info" where
  "tone_stop ti = (MM_ERROR_NONE, ti\<lparr>ti_state := STATE_STOP\<rparr>)"

definition tone_destroy :: "tone_info option \<Rightarrow> mm_err" where
  "tone_destroy h = (case h of None \<Rightarrow> MM_ERROR_SOUND_INTERNAL | Some ti \<Rightarrow> MM_ERROR_NONE)"

text \<open>
  The plugin as the codec manager sees it: its handles are addresses of a heap, which is filled from
  low to high addresses.  What the device and the thread pool answer may depend on the world.
\<close>

record tone_world =
  tone_heap :: "int \<rightharpoonup> tone_info"
  tone_next :: int
  tone_calls :: "tone_call list"

definition tone_Create ::
  "(tone_world \<Rightarrow> tone_env) \<Rightarrow> codec_param \<Rightarrow> codec_info \<Rightarrow> tone_world \<Rightarrow>
    mm_err \<times> int option \<times> tone_world" where
  "tone_Create E p i w =
    (case tone_create (E w) p of
       (Inl e, cs) \<Rightarrow> (e, None, w\<lparr>tone_calls := rev cs @ tone_calls w\<rparr>)
     | (Inr ti, cs) \<Rightarrow>
         (MM_ERROR_NONE, Some (tone_next w),
          w\<lparr>tone_heap := (tone_heap w)(tone_next w \<mapsto> ti), tone_next := tone_next w + 1,
            tone_calls := rev cs @ tone_calls w\<rparr>))"

text \<open>An operation on a handle that is not on the heap changes nothing here; in C it is undefined.\<close>

definition tone_on_heap ::
  "(tone_info \<Rightarrow> mm_err \<times> tone_info) \<Rightarrow> int \<Rightarrow> tone_world \<Rightarrow> mm_err \<times> tone_world" where
  "tone_on_heap f a w =
    (case tone_heap w a of
       None \<Rightarrow> (MM_ERROR_NONE, w)
     | Some ti \<Rightarrow> (case f ti of (e, ti') \<Rightarrow> (e, w\<lparr>tone_heap := (tone_heap w)(a \<mapsto> ti')\<rparr>)))"

definition tone_Destroy :: "int \<Rightarrow> tone_world \<Rightarrow> mm_err \<times> tone_world" where
  "tone_Destroy a w =
    (tone_destroy (if a = 0 then None else tone_heap w a),
     w\<lparr>tone_heap := (tone_heap w)(a := None)\<rparr>)"

definition tone_interface :: "(tone_world \<Rightarrow> tone_env) \<Rightarrow> tone_world codec_interface" where
  "tone_interface E = \<lparr>GetSupportTypes = tone_support_types, Parse = tone_parse,
     Create = tone_Create E, Play = tone_on_heap tone_play, Stop = tone_on_heap tone_stop,
     Destroy = tone_Destroy\<rparr>"

definition tone_winv :: "tone_world \<Rightarrow> bool" where
  "tone_winv w \<longleftrightarrow> 0 < tone_next w \<and> (\<forall>a \<in> dom (tone_heap w). 0 < a \<and> a < tone_next w)"

lemma tone_is_plugin: "codec_plugin (tone_interface E) tone_winv (\<lambda>w. dom (tone_heap w))"
proof
  fix w w' :: tone_world and p i h e a
  assume w: "tone_winv w"
  then have below: "tone_heap w b = Some t \<Longrightarrow> 0 < b \<and> b < tone_next w" for b t
    by (auto simp: tone_winv_def)
  from this [of "tone_next w"] have new: "tone_heap w (tone_next w) = None"
    by (cases "tone_heap w (tone_next w)") auto
  show "Create (tone_interface E) p i w = (MM_ERROR_NONE, h, w') \<Longrightarrow>
      tone_winv w' \<and> (\<exists>a. h = Some a \<and> a \<notin> dom (tone_heap w) \<and>
        dom (tone_heap w') = insert a (dom (tone_heap w)))"
    using w new below
    by (fastforce simp: tone_interface_def tone_Create_def tone_winv_def tone_create_def Let_def
        split: sum.splits prod.splits if_splits option.splits)
qed (auto simp: tone_interface_def tone_Create_def tone_on_heap_def tone_play_def tone_stop_def
    tone_Destroy_def tone_destroy_def tone_winv_def split: sum.splits prod.splits option.splits if_splits)

text \<open>
  The start protocol: clients call Play and Stop while the thread polls the state every few
  microseconds; the flag says that the thread has seen the start signal.
\<close>

datatype tone_event = PlayCalled | StopCalled | ThreadPolls

fun tone_event_step :: "tone_event \<Rightarrow> play_state \<times> bool \<Rightarrow> play_state \<times> bool" where
  "tone_event_step PlayCalled (st, started) = (STATE_BEGIN, started)"
| "tone_event_step StopCalled (st, started) = (STATE_STOP, started)"
| "tone_event_step ThreadPolls (st, started) =
    (if started \<or> st = STATE_READY then (st, started) else (STATE_PLAY, True))"

end
