(* ===== verification/Tone_Facts.thy ===== *)
theory Tone_Facts
  imports Tone
begin

text \<open>
  The shape of the tone table, the invariant of the tone loop, and the order of the segments.
\<close>

section \<open>The rows of the table\<close>

text \<open>A row as a list of segments, the last of which is the one that ends it.\<close>

fun decode :: "int list \<Rightarrow> TONE list" where
  "decode (l # m # h # p # n # i # r) =
    \<lparr>low_frequency = l, middle_frequency = m, high_frequency = h, playingTime = p, loopCnt = n,
     loopIndx = i\<rparr> # decode r"
| "decode _ = []"

definition tone_rows :: "int \<Rightarrow> TONE list" where
  "tone_rows key = decode (TONE_SEGMENT ! nat key)"

definition segment_ok :: "TONE list \<Rightarrow> nat \<Rightarrow> bool" where
  "segment_ok ts i =
    (let T = ts ! i in
     0 \<le> low_frequency T \<and> 0 \<le> middle_frequency T \<and> 0 \<le> high_frequency T \<and>
     (playingTime T = -1 \<or> 0 < playingTime T) \<and> 0 \<le> loopCnt T \<and>
     (loopCnt T \<noteq> 0 \<longrightarrow> 0 \<le> loopIndx T \<and> nat (loopIndx T) \<le> i \<and>
        list_all (\<lambda>j. loopCnt (ts ! j) = 0) [nat (loopIndx T)..<i]))"

definition row_wf :: "TONE list \<Rightarrow> bool" where
  "row_wf ts =
    (let t = length ts - 1 in
     0 < t \<and> low_frequency (ts ! t) = -1 \<and> loopIndx (ts ! t) = 0 \<and> list_all (segment_ok ts) [0..<t])"

lemma decode_nth:
  "length row = 6 * n \<Longrightarrow> length (decode row) = n \<and>
    (\<forall>i < n. decode row ! i = \<lparr>low_frequency = row ! (6 * i), middle_frequency = row ! (6 * i + 1),
       high_frequency = row ! (6 * i + 2), playingTime = row ! (6 * i + 3),
       loopCnt = row ! (6 * i + 4), loopIndx = row ! (6 * i + 5)\<rparr>)"
proof (induction row arbitrary: n rule: decode.induct)
  case (1 l m h p k i r)
  then obtain n' where n: "n = Suc n'" by (cases n) auto
  with 1 have IH: "length (decode r) = n'"
    "\<And>j. j < n' \<Longrightarrow> decode r ! j = \<lparr>low_frequency = r ! (6 * j), middle_frequency = r ! (6 * j + 1),
       high_frequency = r ! (6 * j + 2), playingTime = r ! (6 * j + 3),
       loopCnt = r ! (6 * j + 4), loopIndx = r ! (6 * j + 5)\<rparr>" by auto
  show ?case by (auto simp: n IH nth_Cons less_Suc_eq_0_disj add.commute split: nat.split)
qed auto

lemma table_wf:
  "list_all (\<lambda>row. length row = 6 * length (decode row) \<and> length row \<le> 102 \<and> row_wf (decode row))
     TONE_SEGMENT"
  by code_simp


lemma tone_rows_wf:
  assumes "0 \<le> key" "key < 107"
  shows "row_wf (tone_rows key)" "length (TONE_SEGMENT ! nat key) = 6 * length (tone_rows key)"
    "length (TONE_SEGMENT ! nat key) \<le> 102"
proof -
  have "nat key < length TONE_SEGMENT" using assms by (simp add: length_TONE_SEGMENT)
  with table_wf show "row_wf (tone_rows key)"
    "length (TONE_SEGMENT ! nat key) = 6 * length (tone_rows key)"
    "length (TONE_SEGMENT ! nat key) \<le> 102"
    by (auto simp: list_all_length tone_rows_def)
qed

lemma get_tone_row:
  assumes "0 \<le> key" "key < 107" "0 \<le> i" "nat i < length (tone_rows key)"
  shows "mm_get_tone key i = Some (tone_rows key ! nat i)"
proof -
  let ?row = "TONE_SEGMENT ! nat key"
  note wf = tone_rows_wf [OF assms(1,2)]
  have nth: "tone_rows key ! nat i = \<lparr>low_frequency = ?row ! (6 * nat i),
      middle_frequency = ?row ! (6 * nat i + 1), high_frequency = ?row ! (6 * nat i + 2),
      playingTime = ?row ! (6 * nat i + 3), loopCnt = ?row ! (6 * nat i + 4),
      loopIndx = ?row ! (6 * nat i + 5)\<rparr>"
    using decode_nth [OF wf(2)] assms(4) by (simp add: tone_rows_def)
  have "nat (i * 6) = 6 * nat i" "nat (i * 6 + 1) = 6 * nat i + 1" "nat (i * 6 + 2) = 6 * nat i + 2"
    "nat (i * 6 + 3) = 6 * nat i + 3" "nat (i * 6 + 4) = 6 * nat i + 4" "nat (i * 6 + 5) = 6 * nat i + 5"
    using assms(3) by simp_all
  moreover have "6 * nat i + 5 < length ?row" using assms(4) wf(2) by linarith
  moreover have "nat key < 107" using assms(1,2) by simp
  ultimately show ?thesis
    using assms(1-3) wf(3)
    by (simp add: mm_get_tone_def tone_entry_def nth length_TONE_SEGMENT tone_consts Let_def)
qed

text \<open>The index of the segment that ends the row.\<close>

definition tone_last :: "int \<Rightarrow> int" where
  "tone_last key = int (length (tone_rows key)) - 1"

lemma tone_row_end:
  assumes "0 \<le> key" "key < 107"
  shows "0 < tone_last key" "mm_get_tone key (tone_last key) = Some (tone_rows key ! nat (tone_last key))"
    "low_frequency (tone_rows key ! nat (tone_last key)) = -1"
    "loopIndx (tone_rows key ! nat (tone_last key)) = 0"
proof -
  have n: "nat (tone_last key) = length (tone_rows key) - 1" by (simp add: tone_last_def)
  note wf = tone_rows_wf(1) [OF assms]
  show l: "0 < tone_last key" using wf by (simp add: row_wf_def Let_def tone_last_def)
  show "mm_get_tone key (tone_last key) = Some (tone_rows key ! nat (tone_last key))"
    by (rule get_tone_row [OF assms]) (use l in \<open>auto simp: tone_last_def\<close>)
  show "low_frequency (tone_rows key ! nat (tone_last key)) = -1"
    "loopIndx (tone_rows key ! nat (tone_last key)) = 0"
    using wf by (simp_all add: row_wf_def Let_def n)
qed

lemma tone_row_segment:
  assumes "0 \<le> key" "key < 107" "0 \<le> i" "i < tone_last key"
  shows "mm_get_tone key i = Some (tone_rows key ! nat i)" "segment_ok (tone_rows key) (nat i)"
proof -
  show "mm_get_tone key i = Some (tone_rows key ! nat i)"
    by (rule get_tone_row [OF assms(1-3)]) (use assms(3,4) in \<open>simp add: tone_last_def nat_less_iff\<close>)
  show "segment_ok (tone_rows key) (nat i)"
    using tone_rows_wf(1) [OF assms(1,2)] assms(3,4)
    by (simp add: row_wf_def Let_def list_all_iff tone_last_def nat_less_iff of_nat_diff)
qed

lemma segment_okD:
  assumes "segment_ok ts i"
  shows "low_frequency (ts ! i) \<noteq> -1" "0 \<le> low_frequency (ts ! i)" "0 \<le> middle_frequency (ts ! i)"
    "0 \<le> high_frequency (ts ! i)" "playingTime (ts ! i) = -1 \<or> 0 < playingTime (ts ! i)"
    "0 \<le> loopCnt (ts ! i)"
    "loopCnt (ts ! i) \<noteq> 0 \<Longrightarrow> 0 \<le> loopIndx (ts ! i) \<and> loopIndx (ts ! i) \<le> int i \<and>
      (\<forall>j. loopIndx (ts ! i) \<le> int j \<and> j < i \<longrightarrow> loopCnt (ts ! j) = 0)"
  using assms by (auto simp: segment_ok_def Let_def list_all_iff)

section \<open>The time a tone has played\<close>

lemma tone_size_pos:
  assumes "playingTime T = -1 \<or> 0 < playingTime T"
  shows "0 < tone_size T"
proof -
  have pos: "0 < (p * 705600) sdiv 8000" if "0 < p" for p :: int
  proof -
    have "(p * 705600) sdiv 8000 = (p * 705600) div 8000" using that by (simp add: signed_divide_int_def)
    with that show ?thesis by (simp add: pos_imp_zdiv_pos_iff)
  qed
  show ?thesis
    using assms pos [of 100] pos [of "playingTime T"]
    by (auto simp: tone_size_def tone_consts Let_def mult.commute)
qed

text \<open>The state while the tone goes on, and when it is over.\<close>

definition tone_time_ok :: "int \<Rightarrow> tone_st \<Rightarrow> bool" where
  "tone_time_ok t s \<longleftrightarrow> prePlayingTime s = sum_list (map wr_time (writes s)) \<and>
     (\<forall>w \<in> set (writes s). 0 < wr_time w \<and> wr_time w \<le> MAX_DURATION)"

definition tone_going :: "(nat \<Rightarrow> play_state) \<Rightarrow> int \<Rightarrow> tone_st \<Rightarrow> bool" where
  "tone_going S t s \<longleftrightarrow> tone_time_ok t s \<and> (t = -1 \<or> prePlayingTime s < t) \<and>
     (\<forall>n < length (writes s). S n = STATE_PLAY)"

definition tone_over :: "(nat \<Rightarrow> play_state) \<Rightarrow> int \<Rightarrow> tone_st \<Rightarrow> bool" where
  "tone_over S t s \<longleftrightarrow> tone_time_ok t s \<and> (t = -1 \<or> prePlayingTime s \<le> t) \<and> writes s \<noteq> [] \<and>
     (\<forall>n < length (writes s) - 1. S n = STATE_PLAY) \<and>
     (prePlayingTime s = t \<or> S (length (writes s) - 1) \<noteq> STATE_PLAY)"

lemma time_nonneg: "tone_time_ok t s \<Longrightarrow> 0 \<le> prePlayingTime s"
  by (fastforce simp: tone_time_ok_def intro!: sum_list_nonneg)

lemma wave_loop_result:
  assumes "tone_going S t s" "0 \<le> rest" "rest < MAX_DURATION"
    "playingTime T = -1 \<or> 0 < playingTime T"
  shows "case wave_loop S t T rest k s of
      (None, s') \<Rightarrow> tone_going S t s' \<and> CurIndex s' = CurIndex s \<and>
        CurArrayPlayCnt s' = CurArrayPlayCnt s \<and>
        (if k \<ge> 2 \<or> k = 1 \<and> 0 < rest then length (writes s) < length (writes s') \<and>
             prePlayingTime s < prePlayingTime s'
         else s' = s)
    | (Some d, s') \<Rightarrow> d \<and> tone_over S t s'"
  using assms(1)
proof (induction k arbitrary: s)
  case 0
  then show ?case by simp
next
  case (Suc k)
  define d where "d = (if k = 0 then rest else MAX_DURATION)"
  show ?case
  proof (cases "d = 0")
    case True
    then have "k = 0" "rest = 0" using assms(2) by (auto simp: d_def MAX_DURATION_def split: if_splits)
    with Suc.prems show ?thesis by simp
  next
    case False
    then have d: "0 < d" "d \<le> MAX_DURATION"
      using assms(2,3) by (auto simp: d_def MAX_DURATION_def)
    define p where "p = (if prePlayingTime s + d > t \<and> t \<noteq> -1 then t - prePlayingTime s else d)"
    have p: "0 < p" "p \<le> MAX_DURATION" "t = -1 \<or> prePlayingTime s + p \<le> t"
      using Suc.prems d by (auto simp: p_def tone_going_def split: if_splits)
    define w where "w = \<lparr>wr_tone = T, wr_first = sample s,
      wr_bytes = ((tone_size T * p) sdiv d + 1) div 2 * 2, wr_time = p\<rparr>"
    define s' where "s' = s\<lparr>prePlayingTime := prePlayingTime s + p,
      sample := sample s + tone_size T div (SAMPLE_SIZE div 8), writes := w # writes s\<rparr>"
    have ok: "tone_time_ok t s'"
      using Suc.prems p by (auto simp: tone_going_def tone_time_ok_def s'_def w_def)
    have run: "wave_loop S t T rest (Suc k) s =
      (if prePlayingTime s' = t \<or> S (length (writes s)) \<noteq> STATE_PLAY then (Some True, s')
       else wave_loop S t T rest k s')"
      using False tone_size_pos [OF assms(4)]
      by (simp add: create_tone_def d_def [symmetric] p_def [symmetric] w_def [symmetric]
          s'_def Let_def)
    show ?thesis
    proof (cases "prePlayingTime s' = t \<or> S (length (writes s)) \<noteq> STATE_PLAY")
      case True
      have "tone_over S t s'"
        using True ok p(3) Suc.prems by (auto simp: tone_over_def tone_going_def s'_def)
      with True show ?thesis by (simp only: run if_True prod.case option.case)
    next
      case go: False
      have "tone_going S t s'"
        using go ok p(3) Suc.prems by (auto simp: tone_going_def s'_def less_Suc_eq)
      note IH = Suc.IH [OF this]
      moreover have "length (writes s) < length (writes s')" "prePlayingTime s < prePlayingTime s'"
        "CurIndex s' = CurIndex s" "CurArrayPlayCnt s' = CurArrayPlayCnt s"
        using p(1) by (simp_all add: s'_def)
      moreover have "Suc k \<ge> 2 \<or> Suc k = 1 \<and> 0 < rest"
        using False assms(2) by (auto simp: d_def split: if_splits)
      ultimately show ?thesis
        using go by (simp only: run if_False) (auto split: prod.splits option.splits if_splits)
    qed
  qed
qed

section \<open>The loop ends\<close>

lemma wave_count:
  assumes "t = -1 \<or> 0 < t" "playingTime T = -1 \<or> 0 < playingTime T"
    "mm_get_waveCnt_PlayingTime t T = (n, rest)"
  shows "0 \<le> rest" "rest < MAX_DURATION" "nat (n + 1) \<ge> 2 \<or> nat (n + 1) = 1 \<and> 0 < rest"
proof -
  define p where "p = (if playingTime T = -1 then \<bar>t\<bar> else playingTime T)"
  have p: "0 < p" "n = p div 100" "rest = p mod 100"
    using assms by (auto simp: p_def mm_get_waveCnt_PlayingTime_def MAX_DURATION_def
        signed_divide_int_def signed_modulo_int_def split: if_splits)
  show "0 \<le> rest" "rest < MAX_DURATION" by (simp_all add: p MAX_DURATION_def)
  have "p = 100 * n + rest" by (simp add: p)
  moreover have "0 \<le> n" using p(1) by (simp add: p(2) pos_imp_zdiv_nonneg_iff)
  ultimately show "nat (n + 1) \<ge> 2 \<or> nat (n + 1) = 1 \<and> 0 < rest"
    using p(1) by (cases "n = 0") auto
qed

lemma cur_index_range:
  assumes "0 \<le> key" "key < 107" "0 \<le> i" "i < tone_last key"
    "mm_get_CurIndex (tone_rows key ! nat i) c i = (c', i')"
  shows "0 \<le> i'" "i' \<le> tone_last key"
  using assms(3-5) segment_okD(7) [OF tone_row_segment(2) [OF assms(1-4)]]
  by (auto simp: mm_get_CurIndex_def split: if_splits)

text \<open>What bounds the number of turns: the time left, or a check that reads a stop.\<close>

definition tone_budget :: "(nat \<Rightarrow> play_state) \<Rightarrow> int \<Rightarrow> tone_st \<Rightarrow> nat \<Rightarrow> bool" where
  "tone_budget S t s N \<longleftrightarrow> 0 < t \<and> nat (t - prePlayingTime s) \<le> N \<or>
     (\<exists>m. S m \<noteq> STATE_PLAY \<and> Suc m - length (writes s) \<le> N)"

lemma budget_pos:
  assumes "tone_going S t s" "tone_budget S t s N"
  shows "0 < N"
proof -
  have "length (writes s) \<le> m" if "S m \<noteq> STATE_PLAY" for m
    using that assms(1) by (auto simp: tone_going_def not_less [symmetric])
  then show ?thesis using assms by (fastforce simp: tone_budget_def tone_going_def)
qed

lemma budget_step:
  assumes "tone_budget S t s (Suc N)" "length (writes s) < length (writes s')"
    "prePlayingTime s < prePlayingTime s'"
  shows "tone_budget S t s' N"
proof -
  have "nat (t - prePlayingTime s') \<le> N" if "nat (t - prePlayingTime s) \<le> Suc N"
    using that assms(3) by linarith
  moreover have "Suc m - length (writes s') \<le> N" if "Suc m - length (writes s) \<le> Suc N" for m
    using that assms(2) by linarith
  ultimately show ?thesis using assms(1) unfolding tone_budget_def by metis
qed

lemma tone_loop_ends:
  assumes "0 \<le> key" "key < 107" "t = -1 \<or> 0 < t"
    "tone_going S t s" "0 \<le> CurIndex s" "CurIndex s \<le> tone_last key" "tone_budget S t s N"
    "fuel \<ge> 2 * N + (if CurIndex s = tone_last key then 1 else 0)"
  shows "\<exists>s'. tone_loop S t key fuel s = ToneEnd True s' \<and> tone_over S t s'"
  using assms(4-8)
proof (induction fuel arbitrary: s N)
  case 0
  then show ?case using budget_pos [OF 0(1,4)] by simp
next
  case (Suc fuel)
  let ?T = "tone_rows key ! nat (CurIndex s)"
  obtain n rest where nr: "mm_get_waveCnt_PlayingTime t ?T = (n, rest)" by fastforce
  obtain M where N: "N = Suc M" using budget_pos [OF Suc.prems(1,4)] by (cases N) auto
  show ?case
  proof (cases "CurIndex s = tone_last key")
    case True
    note row = tone_row_end [OF assms(1,2)]
    have "\<exists>s'. tone_loop S t key fuel (s\<lparr>CurIndex := 0\<rparr>) = ToneEnd True s' \<and> tone_over S t s'"
      by (rule Suc.IH [where N = N])
        (use Suc.prems row(1) True in \<open>auto simp: tone_going_def tone_time_ok_def tone_budget_def\<close>)
    then show ?thesis using True row nr by simp
  next
    case False
    then have i: "CurIndex s < tone_last key" using Suc.prems(3) by simp
    note seg = tone_row_segment [OF assms(1,2) Suc.prems(2) i]
    note ok = segment_okD [OF seg(2)]
    note wc = wave_count [OF assms(3) ok(5) nr]
    note wl = wave_loop_result [OF Suc.prems(1) wc(1,2) ok(5), of "nat (n + 1)"]
    obtain b s1 where run: "wave_loop S t ?T rest (nat (n + 1)) s = (b, s1)" by fastforce
    show ?thesis
    proof (cases b)
      case None
      with wl run wc(3) have s1: "tone_going S t s1" "CurIndex s1 = CurIndex s"
        "length (writes s) < length (writes s1)" "prePlayingTime s < prePlayingTime s1"
        by (auto split: if_splits)
      obtain c i' where ci: "mm_get_CurIndex ?T (CurArrayPlayCnt s1) (CurIndex s) = (c, i')"
        by fastforce
      have "\<exists>s'. tone_loop S t key fuel (s1\<lparr>CurArrayPlayCnt := c, CurIndex := i'\<rparr>) = ToneEnd True s' \<and>
        tone_over S t s'"
        by (rule Suc.IH [where N = M])
          (use s1 cur_index_range [OF assms(1,2) Suc.prems(2) i ci] Suc.prems(5)
            budget_step [OF Suc.prems(4) [unfolded N] s1(3,4)] N
           in \<open>auto simp: tone_going_def tone_time_ok_def tone_budget_def\<close>)
      then show ?thesis using seg(1) ok(1) nr run None ci s1(2) by simp
    next
      case (Some d)
      with wl run have "d" "tone_over S t s1" by auto
      then show ?thesis using seg(1) ok(1) nr run Some by simp
    qed
  qed
qed

end
