(* ===== verification/Tone_Order.thy ===== *)
theory Tone_Order
  imports Tone_Facts
begin

text \<open>
  The order in which the tone loop plays the segments of a row: every segment once, followed, where
  the row asks for it, by repetitions of the segments from its target to itself; then from the start.
\<close>

definition tone_plan :: "int \<Rightarrow> TONE list" where
  "tone_plan key =
    (let ts = tone_rows key in
     concat (map (\<lambda>i. ts ! i # concat (replicate (nat (loopCnt (ts ! i)))
                                (map ((!) ts) [nat (loopIndx (ts ! i))..<Suc i])))
               [0..<length ts - 1]))"

text \<open>The number of waves of a segment when the tone has no time limit.\<close>

definition wave_number :: "TONE \<Rightarrow> nat" where
  "wave_number T = (if playingTime T = -1 then 1 else nat ((playingTime T + 99) div 100))"

definition plan_waves :: "TONE list \<Rightarrow> TONE list" where
  "plan_waves ts = concat (map (\<lambda>T. replicate (wave_number T) T) ts)"

lemma plan_waves_simps [simp]:
  "plan_waves [] = []"
  "plan_waves (T # ts) = replicate (wave_number T) T @ plan_waves ts"
  "plan_waves (ts @ us) = plan_waves ts @ plan_waves us"
  by (simp_all add: plan_waves_def)

lemma hundred_ceil: "(p + 99) div 100 = p div 100 + (if p mod 100 = 0 then 0 else 1 :: int)"
proof -
  have "0 \<le> p mod 100" "p mod 100 < 100" by simp_all
  then have "(p mod 100 + 99) div 100 = (if p mod 100 = 0 then 0 else 1 :: int)"
    by (auto simp: int_div_pos_eq [where q = 1 and r = "p mod 100 - 1"])
  then show ?thesis by (simp add: div_add1_eq [of p 99])
qed

text \<open>One wave loop without a time limit and without a stop.\<close>

lemma wave_loop_free:
  assumes "0 \<le> rest" "rest < MAX_DURATION" "playingTime T = -1 \<or> 0 < playingTime T"
    "0 \<le> prePlayingTime s"
  shows "\<exists>s'. wave_loop (\<lambda>_. STATE_PLAY) (-1) T rest k s = (None, s') \<and> CurIndex s' = CurIndex s \<and>
    CurArrayPlayCnt s' = CurArrayPlayCnt s \<and> 0 \<le> prePlayingTime s' \<and>
    map wr_tone (writes s') = replicate (if rest = 0 then k - 1 else k) T @ map wr_tone (writes s)"
  using assms(4)
proof (induction k arbitrary: s)
  case (Suc k)
  show ?case
  proof (cases "k = 0 \<and> rest = 0")
    case False
    define d where "d = (if k = 0 then rest else MAX_DURATION)"
    have d: "0 < d" using False assms(1) by (auto simp: d_def MAX_DURATION_def)
    define s' where "s' = s\<lparr>prePlayingTime := prePlayingTime s + d,
      sample := sample s + tone_size T div (SAMPLE_SIZE div 8),
      writes := \<lparr>wr_tone = T, wr_first = sample s,
        wr_bytes = ((tone_size T * d) sdiv d + 1) div 2 * 2, wr_time = d\<rparr> # writes s\<rparr>"
    have run: "wave_loop (\<lambda>_. STATE_PLAY) (-1) T rest (Suc k) s
      = wave_loop (\<lambda>_. STATE_PLAY) (-1) T rest k s'"
      using d Suc.prems tone_size_pos [OF assms(3)]
      by (simp add: create_tone_def d_def [symmetric] s'_def Let_def)
    have s': "0 \<le> prePlayingTime s'" "CurIndex s' = CurIndex s"
      "CurArrayPlayCnt s' = CurArrayPlayCnt s" "map wr_tone (writes s') = T # map wr_tone (writes s)"
      using d Suc.prems by (simp_all add: s'_def)
    from Suc.IH [OF s'(1)] obtain s2 where s2:
      "wave_loop (\<lambda>_. STATE_PLAY) (-1) T rest k s' = (None, s2)" "CurIndex s2 = CurIndex s'"
      "CurArrayPlayCnt s2 = CurArrayPlayCnt s'" "0 \<le> prePlayingTime s2"
      "map wr_tone (writes s2) = replicate (if rest = 0 then k - 1 else k) T @ map wr_tone (writes s')"
      by blast
    have "replicate (if rest = 0 then k - 1 else k) T @ T # xs
      = replicate (if rest = 0 then Suc k - 1 else Suc k) T @ xs" for xs
      using False by (cases k) (simp_all add: replicate_app_Cons_same)
    with s2 s' show ?thesis
      by (intro exI [of _ s2]) (simp add: run del: wave_loop.simps)
  qed (use Suc.prems in simp)
qed simp

section \<open>Runs\<close>

text \<open>Where the loop stands, and the segments of the waves written so far.\<close>

definition tone_at :: "int \<Rightarrow> int \<Rightarrow> TONE list \<Rightarrow> tone_st \<Rightarrow> bool" where
  "tone_at i c ws s \<longleftrightarrow> CurIndex s = i \<and> CurArrayPlayCnt s = c \<and>
     map wr_tone (rev (writes s)) = ws \<and> 0 \<le> prePlayingTime s"

definition tone_runs :: "int \<Rightarrow> nat \<Rightarrow> int \<times> int \<Rightarrow> TONE list \<Rightarrow> int \<times> int \<Rightarrow> bool" where
  "tone_runs key n p ts q \<longleftrightarrow>
    (\<forall>ws s. tone_at (fst p) (snd p) ws s \<longrightarrow>
      (\<exists>s'. tone_at (fst q) (snd q) (ws @ plan_waves ts) s' \<and>
        (\<forall>m. tone_loop (\<lambda>_. STATE_PLAY) (-1) key (n + m) s
           = tone_loop (\<lambda>_. STATE_PLAY) (-1) key m s')))"

lemma tone_runs_refl: "tone_runs key 0 p [] p"
  by (auto simp: tone_runs_def)

lemma tone_runs_trans:
  assumes "tone_runs key n p ts q" "tone_runs key m q us r"
  shows "tone_runs key (n + m) p (ts @ us) r"
  unfolding tone_runs_def
proof (intro allI impI)
  fix ws s
  assume "tone_at (fst p) (snd p) ws s"
  with assms(1) obtain s1 where 1: "tone_at (fst q) (snd q) (ws @ plan_waves ts) s1"
    "\<And>k. tone_loop (\<lambda>_. STATE_PLAY) (-1) key (n + k) s = tone_loop (\<lambda>_. STATE_PLAY) (-1) key k s1"
    unfolding tone_runs_def by blast
  with assms(2) obtain s2 where 2: "tone_at (fst r) (snd r) ((ws @ plan_waves ts) @ plan_waves us) s2"
    "\<And>k. tone_loop (\<lambda>_. STATE_PLAY) (-1) key (m + k) s1 = tone_loop (\<lambda>_. STATE_PLAY) (-1) key k s2"
    unfolding tone_runs_def by blast
  show "\<exists>s'. tone_at (fst r) (snd r) (ws @ plan_waves (ts @ us)) s' \<and>
    (\<forall>k. tone_loop (\<lambda>_. STATE_PLAY) (-1) key (n + m + k) s = tone_loop (\<lambda>_. STATE_PLAY) (-1) key k s')"
    by (rule exI [of _ s2]) (use 1 2 in \<open>simp add: add.assoc\<close>)
qed

lemma tone_runs_segment:
  assumes "0 \<le> key" "key < 107" "0 \<le> i" "i < tone_last key"
    "mm_get_CurIndex (tone_rows key ! nat i) c i = (c', i')"
  shows "tone_runs key 1 (i, c) [tone_rows key ! nat i] (i', c')"
  unfolding tone_runs_def
proof (intro allI impI)
  fix ws s
  let ?T = "tone_rows key ! nat i"
  assume "tone_at (fst (i, c)) (snd (i, c)) ws s"
  then have s: "CurIndex s = i" "CurArrayPlayCnt s = c" "map wr_tone (rev (writes s)) = ws"
    "0 \<le> prePlayingTime s" by (simp_all add: tone_at_def)
  note seg = tone_row_segment [OF assms(1-4)]
  note ok = segment_okD [OF seg(2)]
  obtain n rest where nr: "mm_get_waveCnt_PlayingTime (-1) ?T = (n, rest)" by fastforce
  have "(-1::int) = -1 \<or> 0 < (-1::int)" by simp
  note wc = wave_count [OF this ok(5) nr]
  obtain s1 where s1: "wave_loop (\<lambda>_. STATE_PLAY) (-1) ?T rest (nat (n + 1)) s = (None, s1)"
    "CurIndex s1 = CurIndex s" "CurArrayPlayCnt s1 = CurArrayPlayCnt s" "0 \<le> prePlayingTime s1"
    "map wr_tone (writes s1) = replicate (if rest = 0 then nat (n + 1) - 1 else nat (n + 1)) ?T
      @ map wr_tone (writes s)"
    using wave_loop_free [OF wc(1,2) ok(5) s(4)] by blast
  have num: "(if rest = 0 then nat (n + 1) - 1 else nat (n + 1)) = wave_number ?T"
  proof (cases "playingTime ?T = -1")
    case True
    with nr show ?thesis
      by (auto simp: wave_number_def mm_get_waveCnt_PlayingTime_def MAX_DURATION_def
          signed_divide_int_def signed_modulo_int_def)
  next
    case False
    with nr ok(5) have "n = playingTime ?T div 100" "rest = playingTime ?T mod 100" "0 < playingTime ?T"
      by (auto simp: mm_get_waveCnt_PlayingTime_def MAX_DURATION_def signed_divide_int_def
          signed_modulo_int_def)
    moreover have "0 \<le> playingTime ?T div 100"
      using calculation(3) by (simp add: pos_imp_zdiv_nonneg_iff)
    ultimately show ?thesis using False
      by (simp add: wave_number_def hundred_ceil nat_add_distrib)
  qed
  let ?s = "s1\<lparr>CurArrayPlayCnt := c', CurIndex := i'\<rparr>"
  have "map wr_tone (rev (writes s1)) = rev (map wr_tone (writes s1))" by (simp add: rev_map)
  also have "\<dots> = ws @ replicate (wave_number ?T) ?T"
    using s(3) by (simp add: s1(5) num rev_map [symmetric])
  finally have "tone_at i' c' (ws @ plan_waves [?T]) ?s"
    using s1(4) by (simp add: tone_at_def)
  moreover have "tone_loop (\<lambda>_. STATE_PLAY) (-1) key (1 + m) s = tone_loop (\<lambda>_. STATE_PLAY) (-1) key m ?s" for m
    using seg(1) ok(1) nr s1(1-3) s(1,2) assms(5) by simp
  ultimately show "\<exists>s'. tone_at (fst (i', c')) (snd (i', c')) (ws @ plan_waves [?T]) s' \<and>
    (\<forall>m. tone_loop (\<lambda>_. STATE_PLAY) (-1) key (1 + m) s = tone_loop (\<lambda>_. STATE_PLAY) (-1) key m s')"
    by auto
qed

text \<open>Segments without repetition.\<close>

lemma tone_runs_plain:
  assumes "0 \<le> key" "key < 107" "int j \<le> tone_last key" "i \<le> j"
    "\<forall>k. i \<le> k \<and> k < j \<longrightarrow> loopCnt (tone_rows key ! k) = 0"
  shows "tone_runs key (j - i) (int i, c) (map ((!) (tone_rows key)) [i..<j]) (int j, c)"
  using assms(3-5)
proof (induction j)
  case (Suc j)
  show ?case
  proof (cases "i = Suc j")
    case False
    with Suc.prems have IH: "tone_runs key (j - i) (int i, c) (map ((!) (tone_rows key)) [i..<j]) (int j, c)"
      by (intro Suc.IH) auto
    have "mm_get_CurIndex (tone_rows key ! nat (int j)) c (int j) = (c, int (Suc j))"
      using Suc.prems False by (simp add: mm_get_CurIndex_def)
    then have "tone_runs key 1 (int j, c) [tone_rows key ! j] (int (Suc j), c)"
      using tone_runs_segment [OF assms(1,2), of "int j" c c "int (Suc j)"] Suc.prems(1) by simp
    from tone_runs_trans [OF IH this] Suc.prems False show ?thesis
      by (simp add: Suc_diff_le)
  qed (simp add: tone_runs_refl)
qed (simp add: tone_runs_refl)

text \<open>The repetitions of a loop.\<close>

lemma tone_runs_repeat:
  assumes "0 \<le> key" "key < 107" "int i < tone_last key" "loopCnt (tone_rows key ! i) = int n" "0 < k"
    "k \<le> n"
  shows "tone_runs key (k * (Suc i - nat (loopIndx (tone_rows key ! i))))
    (loopIndx (tone_rows key ! i), int (Suc n - k))
    (concat (replicate k (map ((!) (tone_rows key)) [nat (loopIndx (tone_rows key ! i))..<Suc i])))
    (int (Suc i), 0)"
  using assms(5,6)
proof (induction k)
  case (Suc k)
  let ?T = "tone_rows key ! i" and ?l = "nat (loopIndx (tone_rows key ! i))"
  have "segment_ok (tone_rows key) i"
    using tone_row_segment(2) [OF assms(1,2), of "int i"] assms(3) by simp
  with assms(4) Suc.prems have l: "0 \<le> loopIndx ?T" "loopIndx ?T \<le> int i"
    "\<forall>j. loopIndx ?T \<le> int j \<and> j < i \<longrightarrow> loopCnt (tone_rows key ! j) = 0"
    using segment_okD(7) by fastforce+
  have pass: "tone_runs key (i - ?l) (loopIndx ?T, c) (map ((!) (tone_rows key)) [?l..<i]) (int i, c)" for c
    using tone_runs_plain [OF assms(1,2), of i ?l c] assms(3) l by (simp add: nat_le_iff)
  define q where "q = (if k = 0 then (int (Suc i), 0) else (loopIndx ?T, int (Suc n - k)))"
  have "mm_get_CurIndex ?T (int (Suc n - Suc k)) (int i) = (snd q, fst q)"
    using assms(4) Suc.prems by (auto simp: mm_get_CurIndex_def q_def)
  then have "tone_runs key 1 (int i, int (Suc n - Suc k)) [?T] q"
    using tone_runs_segment [OF assms(1,2), of "int i" "int (Suc n - Suc k)" "snd q" "fst q"] assms(3)
    by simp
  from tone_runs_trans [OF pass this]
  have once: "tone_runs key (Suc i - ?l) (loopIndx ?T, int (Suc n - Suc k))
    (map ((!) (tone_rows key)) [?l..<Suc i]) q"
    using l(1,2) by (simp add: Suc_diff_le nat_le_iff)
  show ?case
  proof (cases "k = 0")
    case True
    with once show ?thesis by (simp add: q_def)
  next
    case False
    with once have "tone_runs key (Suc i - ?l) (loopIndx ?T, int (Suc n - Suc k))
      (map ((!) (tone_rows key)) [?l..<Suc i]) (loopIndx ?T, int (Suc n - k))"
      by (simp add: q_def)
    from tone_runs_trans [OF this Suc.IH] False Suc.prems(2)
    show ?thesis by (simp del: upt_Suc)
  qed
qed simp

text \<open>One segment with its repetitions, and the whole row.\<close>

definition plan_of :: "int \<Rightarrow> nat \<Rightarrow> TONE list" where
  "plan_of key i = tone_rows key ! i # concat (replicate (nat (loopCnt (tone_rows key ! i)))
     (map ((!) (tone_rows key)) [nat (loopIndx (tone_rows key ! i))..<Suc i]))"

lemma tone_plan_of:
  "tone_plan key = concat (map (plan_of key) [0..<nat (tone_last key)])"
proof -
  have "nat (tone_last key) = length (tone_rows key) - 1" by (simp add: tone_last_def)
  then show ?thesis by (simp only: tone_plan_def plan_of_def [abs_def] Let_def)
qed

lemma length_plan_of:
  "length (plan_of key i) = 1 + nat (loopCnt (tone_rows key ! i)) *
     (Suc i - nat (loopIndx (tone_rows key ! i)))"
  by (simp add: plan_of_def length_concat sum_list_replicate del: upt_Suc)

lemma tone_runs_plan_of:
  assumes "0 \<le> key" "key < 107" "int i < tone_last key"
  shows "tone_runs key (length (plan_of key i)) (int i, 0) (plan_of key i) (int (Suc i), 0)"
proof -
  let ?T = "tone_rows key ! i"
  define n where "n = nat (loopCnt ?T)"
  have "segment_ok (tone_rows key) i"
    using tone_row_segment(2) [OF assms(1,2), of "int i"] assms(3) by simp
  then have n: "loopCnt ?T = int n" using segment_okD(6) by (simp add: n_def)
  show ?thesis
  proof (cases "n = 0")
    case True
    then have "mm_get_CurIndex ?T 0 (int i) = (0, int (Suc i))"
      using n by (simp add: mm_get_CurIndex_def)
    with tone_runs_segment [OF assms(1,2), of "int i" 0 0 "int (Suc i)"] assms(3) True n
    show ?thesis by (simp add: plan_of_def)
  next
    case False
    then have "mm_get_CurIndex ?T 0 (int i) = (int (Suc n - n), loopIndx ?T)"
      using n by (simp add: mm_get_CurIndex_def)
    then have "tone_runs key 1 (int i, 0) [?T] (loopIndx ?T, int (Suc n - n))"
      using tone_runs_segment [OF assms(1,2), of "int i" 0 "int (Suc n - n)" "loopIndx ?T"] assms(3)
      by simp
    from tone_runs_trans [OF this tone_runs_repeat [OF assms n _ order.refl]] False
    have "tone_runs key (1 + n * (Suc i - nat (loopIndx ?T))) (int i, 0) (plan_of key i) (int (Suc i), 0)"
      by (simp add: plan_of_def n del: upt_Suc)
    then show ?thesis by (simp only: length_plan_of n nat_int)
  qed
qed

lemma tone_runs_plan:
  assumes "0 \<le> key" "key < 107"
  shows "tone_runs key (length (tone_plan key)) (0, 0) (tone_plan key) (tone_last key, 0)"
proof -
  have "int j \<le> tone_last key \<Longrightarrow> tone_runs key (length (concat (map (plan_of key) [0..<j]))) (0, 0)
    (concat (map (plan_of key) [0..<j])) (int j, 0)" for j
  proof (induction j)
    case (Suc j)
    then have "tone_runs key (length (concat (map (plan_of key) [0..<j]))) (0, 0)
      (concat (map (plan_of key) [0..<j])) (int j, 0)" "int j < tone_last key" by simp_all
    from tone_runs_trans [OF this(1) tone_runs_plan_of [OF assms this(2)]]
    show ?case by simp
  qed (simp add: tone_runs_refl)
  from this [of "nat (tone_last key)"] tone_row_end(1) [OF assms]
  show ?thesis by (simp add: tone_plan_of)
qed

text \<open>The segment that ends the row leads back to its start, whatever its repetition count says.\<close>

lemma tone_runs_end:
  assumes "0 \<le> key" "key < 107"
  shows "tone_runs key 1 (tone_last key, c) [] (0, c)"
  unfolding tone_runs_def
proof (intro allI impI)
  fix ws s
  assume "tone_at (fst (tone_last key, c)) (snd (tone_last key, c)) ws s"
  then show "\<exists>s'. tone_at (fst (0, c)) (snd (0, c)) (ws @ plan_waves []) s' \<and>
    (\<forall>m. tone_loop (\<lambda>_. STATE_PLAY) (-1) key (1 + m) s = tone_loop (\<lambda>_. STATE_PLAY) (-1) key m s')"
    by (intro exI [of _ "s\<lparr>CurIndex := 0\<rparr>"])
      (auto simp: tone_at_def tone_row_end [OF assms] split: prod.split)
qed

lemma tone_runs_cycles:
  assumes "0 \<le> key" "key < 107"
  shows "tone_runs key (m * Suc (length (tone_plan key))) (0, 0)
    (concat (replicate m (tone_plan key))) (0, 0)"
proof (induction m)
  case (Suc m)
  from tone_runs_trans [OF tone_runs_trans [OF tone_runs_plan tone_runs_end] Suc, OF assms assms]
  show ?case by (simp add: algebra_simps)
qed (simp add: tone_runs_refl)

end
