(* ===== verification/Tone_Props.thy ===== *)
theory Tone_Props
  imports Tone_Order
begin

text \<open>
  The properties of the tone generator: it ends, it plays the time it was asked for and the segments
  of the table in their order, it obeys a stop, and its samples fit; and where the sound that is
  heard is longer than the time that is counted.
\<close>

definition ex_tone :: "int \<Rightarrow> int \<Rightarrow> tone_info" where
  "ex_tone key t = \<lparr>ti_size = 4096, ti_audio_handle = 5, ti_stop_cb = 9, ti_cb_param = 2,
     ti_state = STATE_PLAY, ti_number = key, ti_volume = 1, ti_time = t, ti_pid = 77\<rparr>"

lemma start_going: "t = -1 \<or> 0 < t \<Longrightarrow> tone_going S t tone_start_st"
  by (simp add: tone_going_def tone_time_ok_def tone_start_st_def)

text \<open>A thread that ends closes the device and calls back.\<close>

definition tone_end_calls :: "tone_info \<Rightarrow> tone_call list" where
  "tone_end_calls ti = [AvAudioDrain (ti_audio_handle ti), AvAudioClose (ti_audio_handle ti)] @
     (if ti_stop_cb ti \<noteq> 0 then [ToneStopCb (ti_stop_cb ti) (ti_cb_param ti)] else [])"

lemma running_tone_ends:
  assumes "0 \<le> ti_number ti" "ti_number ti < int MM_SOUND_TONE_NUM" "ti_time ti = -1 \<or> 0 < ti_time ti"
    "tone_budget S (ti_time ti) tone_start_st N" "fuel \<ge> 2 * N"
  shows "\<exists>s. running_tone S fuel ti = ToneReturned (ti\<lparr>ti_state := STATE_STOP\<rparr>) (writes s)
    (tone_end_calls ti) \<and> tone_over S (ti_time ti) s"
proof -
  have key: "ti_number ti < 107" using assms(2) by (simp add: MM_SOUND_TONE_NUM_def)
  have start: "CurIndex tone_start_st = 0" by (simp add: tone_start_st_def)
  have "\<exists>s. tone_loop S (ti_time ti) (ti_number ti) fuel tone_start_st = ToneEnd True s \<and>
    tone_over S (ti_time ti) s"
    by (rule tone_loop_ends [OF assms(1) key assms(3) start_going [OF assms(3)] _ _ assms(4)])
      (use tone_row_end(1) [OF assms(1) key] assms(5) in \<open>simp_all add: start\<close>)
  then show ?thesis
    using assms(3) by (auto simp: running_tone_def tone_end_calls_def)
qed

section \<open>Time\<close>



text \<open>
  When the state is no longer PLAY at the check after wave m, the thread ends with at most m + 1
  waves written; without a time limit and with no earlier stop, with exactly m + 1.
\<close>

lemma tone_stops:
  assumes "0 \<le> ti_number ti" "ti_number ti < int MM_SOUND_TONE_NUM"
    "ti_time ti = -1 \<or> 0 < ti_time ti" "S m \<noteq> STATE_PLAY" "fuel \<ge> 2 * Suc m"
  shows "\<exists>ws. running_tone S fuel ti =
      ToneReturned (ti\<lparr>ti_state := STATE_STOP\<rparr>) ws (tone_end_calls ti) \<and> length ws \<le> Suc m \<and>
    (ti_time ti = -1 \<and> (\<forall>n < m. S n = STATE_PLAY) \<longrightarrow> length ws = Suc m)"
proof -
  have "tone_budget S (ti_time ti) tone_start_st (Suc m)"
    using assms(4) by (auto simp: tone_budget_def tone_start_st_def)
  from running_tone_ends [OF assms(1-3) this assms(5)] obtain s where
    run: "running_tone S fuel ti = ToneReturned (ti\<lparr>ti_state := STATE_STOP\<rparr>) (writes s) (tone_end_calls ti)"
    and s: "tone_over S (ti_time ti) s" by blast
  have le: "length (writes s) - 1 \<le> m"
    using s assms(4) by (auto simp: tone_over_def not_less [symmetric])
  have "length (writes s) = Suc m" if "ti_time ti = -1" "\<forall>n < m. S n = STATE_PLAY"
  proof -
    have "prePlayingTime s \<noteq> ti_time ti"
      using s time_nonneg [of "ti_time ti" s] that(1) by (auto simp: tone_over_def)
    with s have "S (length (writes s) - 1) \<noteq> STATE_PLAY" "writes s \<noteq> []" by (auto simp: tone_over_def)
    moreover from this(1) that(2) have "\<not> length (writes s) - 1 < m" by blast
    ultimately show ?thesis using le by (cases "writes s") auto
  qed
  with run le s show ?thesis
    by (intro exI [of _ "writes s"]) (auto simp: tone_over_def)
qed

text \<open>
  A tone without a time limit plays its row over and over: each cycle plays every segment once,
  followed by as many repetitions as its count says of the segments from its target to itself.  The
  count in the segment that ends the row is not obeyed: the row is repeated whatever it says.
\<close>

lemma tone_plays_its_row:
  assumes "0 \<le> key" "key < int MM_SOUND_TONE_NUM"
  shows "\<exists>s. tone_loop (\<lambda>_. STATE_PLAY) (-1) key (m * Suc (length (tone_plan key))) tone_start_st = ToneMore s \<and>
    CurIndex s = 0 \<and> CurArrayPlayCnt s = 0 \<and>
    map wr_tone (rev (writes s)) = plan_waves (concat (replicate m (tone_plan key)))"
proof -
  have key: "key < 107" using assms(2) by (simp add: MM_SOUND_TONE_NUM_def)
  have "tone_at 0 0 [] tone_start_st" by (simp add: tone_at_def tone_start_st_def)
  with tone_runs_cycles [OF assms(1) key, of m] obtain s where s:
    "tone_at 0 0 (plan_waves (concat (replicate m (tone_plan key)))) s"
    "\<And>n. tone_loop (\<lambda>_. STATE_PLAY) (-1) key (m * Suc (length (tone_plan key)) + n) tone_start_st
      = tone_loop (\<lambda>_. STATE_PLAY) (-1) key n s"
    unfolding tone_runs_def by fastforce
  show ?thesis
    by (intro exI [of _ s]) (use s(1) s(2) [of 0] in \<open>simp add: tone_at_def\<close>)
qed

section \<open>Bytes and samples\<close>

lemma sdiv_cancel: "0 < r \<Longrightarrow> 0 \<le> a \<Longrightarrow> (a * r) sdiv r = (a :: int)"
  by (cases "a = 0") (simp_all add: signed_divide_int_def)

lemma wave_loop_bytes:
  assumes "tone_size T = 8820" "0 \<le> rest" "rest < MAX_DURATION" "t \<noteq> -1"
    "prePlayingTime s + int k * MAX_DURATION + rest = t" "prePlayingTime s < t" "0 \<le> prePlayingTime s"
  shows "\<exists>s'. wave_loop (\<lambda>_. STATE_PLAY) t T rest (Suc k) s = (Some True, s') \<and>
    sum_list (map wr_bytes (writes s')) = sum_list (map wr_bytes (writes s)) +
      8820 * (if rest = 0 then int k else int k + 1)"
  using assms(5-7)
proof (induction k arbitrary: s)
  case 0
  then have "rest \<noteq> 0" "0 < rest" using assms(2) by auto
  with 0 assms show ?case by (simp add: create_tone_def Let_def sdiv_cancel)
next
  case (Suc k)
  define s1 where "s1 = s\<lparr>prePlayingTime := prePlayingTime s + MAX_DURATION,
    sample := sample s + 4410,
    writes := \<lparr>wr_tone = T, wr_first = sample s, wr_bytes = 8820, wr_time = MAX_DURATION\<rparr> # writes s\<rparr>"
  have nn: "0 \<le> int k * MAX_DURATION" by (simp add: MAX_DURATION_def)
  have run: "wave_loop (\<lambda>_. STATE_PLAY) t T rest (Suc (Suc k)) s =
    (if prePlayingTime s1 = t then (Some True, s1) else wave_loop (\<lambda>_. STATE_PLAY) t T rest (Suc k) s1)"
    using Suc.prems assms(1,2,4) nn
    by (subst wave_loop.simps) (simp add: create_tone_def s1_def Let_def MAX_DURATION_def
        SAMPLE_SIZE_def algebra_simps del: wave_loop.simps)
  show ?case
  proof (cases "prePlayingTime s1 = t")
    case True
    then have "k = 0" "rest = 0"
      using Suc.prems(1) assms(2) nn by (auto simp: s1_def MAX_DURATION_def algebra_simps)
    then have "sum_list (map wr_bytes (writes s1)) = sum_list (map wr_bytes (writes s)) +
      8820 * (if rest = 0 then int (Suc k) else int (Suc k) + 1)"
      by (simp add: s1_def)
    with True show ?thesis by (intro exI [of _ s1] conjI) (simp_all only: run refl if_True)
  next
    case False
    have p: "prePlayingTime s1 + int k * MAX_DURATION + rest = t" "prePlayingTime s1 < t" "0 \<le> prePlayingTime s1"
      using Suc.prems False assms(2) nn by (auto simp: s1_def MAX_DURATION_def algebra_simps)
    from Suc.IH [OF p] obtain s2 where
      "wave_loop (\<lambda>_. STATE_PLAY) t T rest (Suc k) s1 = (Some True, s2)"
      "sum_list (map wr_bytes (writes s2)) = sum_list (map wr_bytes (writes s1)) +
        8820 * (if rest = 0 then int k else int k + 1)" by blast
    moreover have "sum_list (map wr_bytes (writes s1)) = sum_list (map wr_bytes (writes s)) + 8820"
      by (simp add: s1_def)
    ultimately show ?thesis
      using False by (intro exI [of _ s2] conjI) (simp_all add: run del: wave_loop.simps)
  qed
qed

text \<open>
  A continuous tone (every DTMF digit, for instance) of t milliseconds is written as full waves
  of 100 ms: 8820 bytes for every begun tenth of a second, that is more sound than was asked for
  whenever t is not a multiple of 100.
\<close>

lemma continuous_tone_bytes:
  assumes "0 \<le> ti_number ti" "ti_number ti < int MM_SOUND_TONE_NUM" "0 < ti_time ti"
    "playingTime (tone_rows (ti_number ti) ! 0) = -1" "0 < fuel"
  shows "\<exists>ws. running_tone (\<lambda>_. STATE_PLAY) fuel ti =
      ToneReturned (ti\<lparr>ti_state := STATE_STOP\<rparr>) ws (tone_end_calls ti) \<and>
    sum_list (map wr_bytes ws) = 8820 * ((ti_time ti + 99) div 100)"
proof -
  let ?t = "ti_time ti" and ?T = "tone_rows (ti_number ti) ! 0"
  obtain n where fuel: "fuel = Suc n" using assms(5) by (cases fuel) auto
  have key: "ti_number ti < 107" using assms(2) by (simp add: MM_SOUND_TONE_NUM_def)
  note seg = tone_row_segment [OF assms(1) key order.refl tone_row_end(1) [OF assms(1) key]]
  have size: "tone_size ?T = 8820"
    using assms(4) by (simp add: tone_size_def tone_consts Let_def)
  have wc: "mm_get_waveCnt_PlayingTime ?t ?T = (?t div 100, ?t mod 100)"
    using assms(3,4) by (simp add: mm_get_waveCnt_PlayingTime_def MAX_DURATION_def
        signed_divide_int_def signed_modulo_int_def)
  have nn: "0 \<le> ?t div 100" using assms(3) by (simp add: pos_imp_zdiv_nonneg_iff)
  then have k: "nat (?t div 100 + 1) = Suc (nat (?t div 100))" "int (nat (?t div 100)) = ?t div 100"
    by simp_all
  have "\<exists>s'. wave_loop (\<lambda>_. STATE_PLAY) ?t ?T (?t mod 100) (Suc (nat (?t div 100))) tone_start_st = (Some True, s') \<and>
    sum_list (map wr_bytes (writes s')) = sum_list (map wr_bytes (writes tone_start_st)) +
      8820 * (if ?t mod 100 = 0 then int (nat (?t div 100)) else int (nat (?t div 100)) + 1)"
    by (rule wave_loop_bytes) (use size assms(3) k in \<open>auto simp: MAX_DURATION_def tone_start_st_def\<close>)
  then obtain s' where s': "wave_loop (\<lambda>_. STATE_PLAY) ?t ?T (?t mod 100) (Suc (nat (?t div 100))) tone_start_st
      = (Some True, s')"
    "sum_list (map wr_bytes (writes s')) = 8820 * ((?t + 99) div 100)"
    using k by (auto simp: tone_start_st_def hundred_ceil split: if_splits)
  have "CurIndex tone_start_st = 0" by (simp add: tone_start_st_def)
  then have "tone_loop (\<lambda>_. STATE_PLAY) ?t (ti_number ti) fuel tone_start_st = ToneEnd True s'"
    using seg(1) segment_okD(1) [OF seg(2)] wc k s'(1) by (simp add: fuel del: wave_loop.simps)
  then show ?thesis
    using s'(2) assms(3) by (auto simp: running_tone_def tone_end_calls_def)
qed

lemma tone_wave_bound: "\<bar>tone_wave f n\<bar> \<le> (if 0 < f then 1 else 0)" if "0 \<le> f"
  using that by (auto simp: tone_wave_def)

text \<open>
  At any volume up to 1, every sample of every segment of the table fits into a signed 16-bit
  value, so the cast to short never overflows, and a silent segment, for which the divisor would be
  zero, gives zero samples.
\<close>

lemma tone_samples_fit:
  assumes "0 \<le> key" "key < int MM_SOUND_TONE_NUM" "0 \<le> i" "i < tone_last key"
    "mm_get_tone key i = Some T" "0 \<le> volume" "volume \<le> 1"
  shows "(\<forall>x \<in> set (tone_buffer volume T n). -32767 \<le> x \<and> x \<le> 32767) \<and>
    (tone_quota T = 0 \<longrightarrow> set (tone_buffer volume T n) \<subseteq> {0})"
proof -
  have key: "key < 107" using assms(2) by (simp add: MM_SOUND_TONE_NUM_def)
  note seg = tone_row_segment [OF assms(1) key assms(3,4)]
  have T: "T = tone_rows key ! nat i" using seg(1) assms(5) by simp
  have nn: "0 \<le> low_frequency T" "0 \<le> middle_frequency T" "0 \<le> high_frequency T"
    using segment_okD(2-4) [OF seg(2)] by (simp_all add: T)
  have main: "-32767 \<le> tone_sample volume T k \<and> tone_sample volume T k \<le> 32767 \<and>
    (tone_quota T = 0 \<longrightarrow> tone_sample volume T k = 0)" for k
  proof -
    define f where "f = tone_wave (low_frequency T) k + tone_wave (middle_frequency T) k
      + tone_wave (high_frequency T) k"
    define a where "a = (if f \<noteq> 0 then f / of_int (tone_quota T) * volume * 32767 else 0)"
    have q: "0 \<le> tone_quota T" by (simp add: tone_quota_def)
    have f: "\<bar>f\<bar> \<le> of_int (tone_quota T)"
      using tone_wave_bound [OF nn(1), of k] tone_wave_bound [OF nn(2), of k]
        tone_wave_bound [OF nn(3), of k]
      by (simp add: f_def tone_quota_def split: if_splits)
    have "\<bar>a\<bar> \<le> 32767"
    proof (cases "f = 0")
      case False
      with f have "0 < real_of_int (tone_quota T)" by linarith
      then have "\<bar>f / of_int (tone_quota T)\<bar> \<le> 1" using f by (simp add: abs_divide)
      then have "\<bar>f / of_int (tone_quota T)\<bar> * \<bar>volume\<bar> \<le> 1 * 1"
        using assms(6,7) by (intro mult_mono) auto
      moreover have "\<bar>a\<bar> = \<bar>f / of_int (tone_quota T)\<bar> * \<bar>volume\<bar> * 32767"
        using False by (simp add: a_def abs_mult)
      ultimately show ?thesis
        using mult_right_mono [of "\<bar>f / of_int (tone_quota T)\<bar> * \<bar>volume\<bar>" "1 * 1" "32767 :: real"]
        by simp
    qed (simp add: a_def)
    moreover have "a = 0" if "tone_quota T = 0" using that f by (simp add: a_def)
    moreover have "tone_sample volume T k = (if a \<ge> 0 then \<lfloor>a\<rfloor> else \<lceil>a\<rceil>)"
      by (simp only: tone_sample_def Let_def f_def a_def)
    ultimately show ?thesis by (auto simp: floor_le_iff le_floor_iff ceiling_le_iff le_ceiling_iff)
  qed
  then show ?thesis by (auto simp: tone_buffer_def)
qed

section \<open>Starting and stopping\<close>

text \<open>
  A stop that comes before the thread has seen the start signal is lost: whatever plays and
  stops the clients call, the thread starts playing when it polls next; a stop that comes later is
  kept.
\<close>

lemma early_stop_is_lost:
  assumes "es \<noteq> []" "ThreadPolls \<notin> set es"
  shows "fold tone_event_step (es @ [ThreadPolls]) (STATE_READY, False) = (STATE_PLAY, True) \<and>
    fold tone_event_step (es @ [ThreadPolls, StopCalled, ThreadPolls]) (STATE_READY, False) = (STATE_STOP, True)"
proof -
  have "es \<noteq> [] \<Longrightarrow> ThreadPolls \<notin> set es \<Longrightarrow>
    \<exists>st. st \<noteq> STATE_READY \<and> fold tone_event_step es (s0, False) = (st, False)" for s0
  proof (induction es arbitrary: s0)
    case (Cons e es)
    then obtain st where st: "tone_event_step e (s0, False) = (st, False)" "st \<noteq> STATE_READY"
      by (cases e) auto
    then show ?case using Cons by (cases "es = []") auto
  qed simp
  from this [OF assms, of STATE_READY] show ?thesis by auto
qed

end
