(* ===== verification/Codec.thy ===== *)
theory Codec
  imports Codec_Interface Asm_List
begin

text \<open>
  The codec manager (\<^verbatim>\<open>server/mm_sound_mgr_codec.c\<close>): the table of slots for sounds that play, the
  plugins, and the operations that play, stop and finish a sound.  The plugins are the records of
  \<^verbatim>\<open>Codec_Interface\<close>; the library that registers a sound with the audio session manager is given by
  its answers.  An operation has no value where the C code calls a null pointer, leaves the array
  of plugins, or where a parser has no value.
\<close>

datatype slot_status = STATUS_IDLE | STATUS_KEYTONE | STATUS_LOCALE | STATUS_SOUND

definition MANAGER_HANDLE_MAX :: nat where
  "MANAGER_HANDLE_MAX = 256"

record codec_slot =
  sl_callback :: int
  sl_param :: int
  sl_msgcallback :: int
  sl_msgdata :: int
  sl_plughandle :: int
  sl_pluginid :: nat
  sl_status :: slot_status
  sl_session_type :: asm_event
  sl_session_handle :: int

text \<open>A slot after \<^verbatim>\<open>memset\<close>.\<close>

definition zero_slot :: codec_slot where
  "zero_slot = \<lparr>sl_callback = 0, sl_param = 0, sl_msgcallback = 0, sl_msgdata = 0, sl_plughandle = 0,
     sl_pluginid = 0, sl_status = STATUS_IDLE, sl_session_type = ASM_EVENT_SHARE_MMPLAYER,
     sl_session_handle = 0\<rparr>"

datatype codec_call =
    AsmRegisterSound pid asm_event int
  | AsmUnregisterSound int asm_event
  | ClientStopped int int int int

record 'w codec =
  slots :: "codec_slot list"
  plugins :: "'w codec_interface option list"
  cworld :: 'w
  ccalls :: "codec_call list"

record codec_env =
  asm_registers :: "int option"
  asm_unregisters :: bool
  junk_info :: codec_info

record mgr_param =
  mp_tone :: int
  mp_repeat_count :: int
  mp_volume :: real
  mp_session_type :: asm_event
  mp_session_handle :: int
  mp_keytone :: int
  mp_callback :: int
  mp_msgcallback :: int
  mp_msgdata :: int
  mp_param :: int
  mp_source :: mm_source
  mp_volume_table :: int
  mp_priority :: int
  mp_handle_route :: int

section \<open>Slots\<close>

fun find_status :: "slot_status \<Rightarrow> codec_slot list \<Rightarrow> nat option" where
  "find_status st [] = None"
| "find_status st (x # xs) =
    (if sl_status x = st then Some 0 else map_option Suc (find_status st xs))"

definition on_slot :: "nat \<Rightarrow> (codec_slot \<Rightarrow> codec_slot) \<Rightarrow> 'w codec \<Rightarrow> 'w codec" where
  "on_slot i f s = s\<lparr>slots := (slots s)[i := f (slots s ! i)]\<rparr>"

definition codec_log :: "codec_call \<Rightarrow> 'w codec \<Rightarrow> 'w codec" where
  "codec_log c s = s\<lparr>ccalls := c # ccalls s\<rparr>"

text \<open>When no slot is free, all slots are declared free.\<close>

definition get_empty_slot :: "'w codec \<Rightarrow> mm_err \<times> int \<times> 'w codec" where
  "get_empty_slot s =
    (case find_status STATUS_IDLE (slots s) of
       Some i \<Rightarrow> (MM_ERROR_NONE, int i, on_slot i (\<lambda>x. x\<lparr>sl_status := STATUS_SOUND\<rparr>) s)
     | None \<Rightarrow> (MM_ERROR_SOUND_INTERNAL, -1,
         s\<lparr>slots := map (\<lambda>x. x\<lparr>sl_status := STATUS_IDLE\<rparr>) (slots s)\<rparr>))"

definition find_keytone_slot :: "'w codec \<Rightarrow> mm_err \<times> nat option" where
  "find_keytone_slot s =
    (case find_status STATUS_KEYTONE (slots s) of
       Some i \<Rightarrow> (MM_ERROR_NONE, Some i) | None \<Rightarrow> (MM_ERROR_SOUND_INTERNAL, None))"

definition find_locale_slot :: "'w codec \<Rightarrow> mm_err \<times> nat option" where
  "find_locale_slot s =
    (case find_status STATUS_LOCALE (slots s) of
       Some i \<Rightarrow> (MM_ERROR_NONE, Some i) | None \<Rightarrow> (MM_ERROR_SOUND_INTERNAL, None))"

text \<open>The plugin of a slot; none for a null pointer.\<close>

definition plugin_of :: "'w codec \<Rightarrow> nat \<Rightarrow> 'w codec_interface option" where
  "plugin_of s i =
    (if sl_pluginid (slots s ! i) < length (plugins s) then plugins s ! sl_pluginid (slots s ! i)
     else None)"

section \<open>Stopping\<close>

definition codec_stop :: "int \<Rightarrow> 'w codec \<Rightarrow> (mm_err \<times> 'w codec) option" where
  "codec_stop slotid s =
    (if slotid < 0 \<or> int MANAGER_HANDLE_MAX \<le> slotid then Some (MM_ERROR_INVALID_ARGUMENT, s)
     else if sl_status (slots s ! nat slotid) = STATUS_IDLE then Some (MM_ERROR_SOUND_INVALID_STATE, s)
     else
       (case plugin_of s (nat slotid) of
          None \<Rightarrow> None
        | Some p \<Rightarrow>
            (case Stop p (sl_plughandle (slots s ! nat slotid)) (cworld s) of
               (e, w) \<Rightarrow> Some (e, s\<lparr>cworld := w\<rparr>))))"

text \<open>The audio session manager asks to stop, or to do something else.\<close>

definition codec_asm_callback ::
  "asm_command \<Rightarrow> int \<Rightarrow> 'w codec \<Rightarrow> (asm_cb_res \<times> 'w codec) option" where
  "codec_asm_callback cmd slotid s =
    (case cmd of
       ASM_COMMAND_STOP \<Rightarrow> map_option (\<lambda>(e, s'). (ASM_CB_RES_STOP, s')) (codec_stop slotid s)
     | ASM_COMMAND_PAUSE \<Rightarrow> map_option (\<lambda>(e, s'). (ASM_CB_RES_STOP, s')) (codec_stop slotid s)
     | _ \<Rightarrow> Some (ASM_CB_RES_NONE, s))"

text \<open>Calls are not registered with the audio session manager.\<close>

definition needs_asm :: "asm_event \<Rightarrow> bool" where
  "needs_asm ev \<longleftrightarrow> ev \<noteq> ASM_EVENT_CALL \<and> ev \<noteq> ASM_EVENT_VIDEOCALL"

text \<open>What a plugin calls when its sound is over.\<close>

definition codec_stop_callback :: "nat \<Rightarrow> 'w codec \<Rightarrow> (mm_err \<times> 'w codec) option" where
  "codec_stop_callback i s =
    (let x = slots s ! i;
         s1 = (if needs_asm (sl_session_type x)
               then codec_log (AsmUnregisterSound (sl_session_handle x) (sl_session_type x)) s else s);
         s2 = (if sl_msgcallback x \<noteq> 0
               then codec_log (ClientStopped (sl_callback x) (sl_param x) (sl_msgcallback x) (sl_msgdata x)) s1
               else s1)
     in case plugin_of s2 i of
          None \<Rightarrow> None
        | Some p \<Rightarrow>
            (case Destroy p (sl_plughandle x) (cworld s2) of
               (e, w) \<Rightarrow> Some (e, on_slot i (\<lambda>_. zero_slot) (s2\<lparr>cworld := w\<rparr>))))"

section \<open>Playing\<close>

text \<open>The search for a plugin; outside the array it has no value.\<close>

datatype plugin_search = Found nat mm_source codec_info | NotFound

fun find_codec ::
  "'w codec_interface option list \<Rightarrow> nat \<Rightarrow> mm_source \<Rightarrow> codec_info \<Rightarrow> plugin_search option" where
  "find_codec [] i src info = None"
| "find_codec (None # ps) i src info = Some NotFound"
| "find_codec (Some p # ps) i src info =
    (case Parse p src info of
       None \<Rightarrow> None
     | Some (e, src', info') \<Rightarrow>
         if e = MM_ERROR_NONE then Some (Found i src' info') else find_codec ps (Suc i) src' info')"

fun find_dtmf :: "'w codec_interface option list \<Rightarrow> nat \<Rightarrow> nat option option" where
  "find_dtmf [] i = None"
| "find_dtmf (None # ps) i = Some None"
| "find_dtmf (Some p # ps) i =
    (if GetSupportTypes p = MM_SOUND_SUPPORTED_CODEC_DTMF then Some (Some i) else find_dtmf ps (Suc i))"

text \<open>A key tone or locale sound that still plays is asked to stop first; it keeps its slot.\<close>

definition stop_same_kind :: "mgr_param \<Rightarrow> 'w codec \<Rightarrow> 'w codec option" where
  "stop_same_kind p s =
    (case (if mp_keytone p = 1 then snd (find_keytone_slot s)
           else if mp_keytone p = 2 then snd (find_locale_slot s) else None) of
       None \<Rightarrow> Some s
     | Some i \<Rightarrow> map_option snd (codec_stop (int i) s))"

definition keytone_status :: "mgr_param \<Rightarrow> nat \<Rightarrow> 'w codec \<Rightarrow> 'w codec" where
  "keytone_status p i s =
    (let s1 = (if mp_keytone p = 1 then on_slot i (\<lambda>x. x\<lparr>sl_status := STATUS_KEYTONE\<rparr>) s else s)
     in if mp_keytone p = 2 then on_slot i (\<lambda>x. x\<lparr>sl_status := STATUS_LOCALE\<rparr>) s1 else s1)"

text \<open>Registration with the audio session manager: the session handle, or none when it failed.\<close>

definition codec_register :: "codec_env \<Rightarrow> mgr_param \<Rightarrow> nat \<Rightarrow> 'w codec \<Rightarrow> int option \<times> 'w codec" where
  "codec_register E p i s =
    (if needs_asm (mp_session_type p)
     then (asm_registers E, codec_log (AsmRegisterSound (mp_param p) (mp_session_type p) (int i)) s)
     else (Some (mp_session_handle p), s))"

definition codec_unregister ::
  "codec_env \<Rightarrow> mgr_param \<Rightarrow> int \<Rightarrow> mm_err \<Rightarrow> 'w codec \<Rightarrow> mm_err \<times> 'w codec" where
  "codec_unregister E p h e s =
    (if needs_asm (mp_session_type p)
     then (if asm_unregisters E then e else MM_ERROR_POLICY_INTERNAL,
           codec_log (AsmUnregisterSound h (mp_session_type p)) s)
     else (e, s))"

definition plugin_param :: "int \<Rightarrow> int \<Rightarrow> nat \<Rightarrow> mgr_param \<Rightarrow> mm_source \<Rightarrow> codec_param" where
  "plugin_param keytone priority i p src =
    \<lparr>codec_stop_cb = 1, codec_pid = mp_param p, codec_cb_param = int i, codec_tone = mp_tone p,
     codec_repeat_count = mp_repeat_count p, codec_volume = mp_volume p, codec_priority = priority,
     codec_volume_table = mp_volume_table p, codec_keytone = keytone, codec_source = src,
     codec_handle_route = mp_handle_route p\<rparr>"

text \<open>Creating and starting the sound in a filled slot: the result, and whether the registration has
  to be taken back.\<close>

definition start_sound ::
  "'w codec_interface \<Rightarrow> codec_param \<Rightarrow> codec_info \<Rightarrow> nat \<Rightarrow> 'w codec \<Rightarrow> mm_err \<times> bool \<times> 'w codec" where
  "start_sound pl cp info i s =
    (case Create pl cp info (cworld s) of
       (e, h, w) \<Rightarrow>
         (let s1 = (case h of None \<Rightarrow> s | Some a \<Rightarrow> on_slot i (\<lambda>x. x\<lparr>sl_plughandle := a\<rparr>) s)\<lparr>cworld := w\<rparr>
          in if e \<noteq> MM_ERROR_NONE
             then (e, True, on_slot i (\<lambda>x. x\<lparr>sl_status := STATUS_IDLE\<rparr>) s1)
             else
               (case Play pl (sl_plughandle (slots s1 ! i)) (cworld s1) of
                  (e', w') \<Rightarrow>
                    if e' \<noteq> MM_ERROR_NONE
                    then (e', True, s1\<lparr>cworld := snd (Destroy pl (sl_plughandle (slots s1 ! i)) w')\<rparr>)
                    else (e', False, s1\<lparr>cworld := w'\<rparr>))))"

text \<open>\<^verbatim>\<open>MMSoundMgrCodecPlay\<close>: the result, the slot number and the state.\<close>

definition codec_play ::
  "codec_env \<Rightarrow> mgr_param \<Rightarrow> int \<Rightarrow> 'w codec \<Rightarrow> (mm_err \<times> int \<times> 'w codec) option" where
  "codec_play E p slotid s =
    (case find_codec (plugins s) 0 (mp_source p) (junk_info E) of
       None \<Rightarrow> None
     | Some NotFound \<Rightarrow> Some (MM_ERROR_SOUND_UNSUPPORTED_MEDIA_TYPE, slotid, s)
     | Some (Found n src info) \<Rightarrow>
         (case stop_same_kind p s of
            None \<Rightarrow> None
          | Some s0 \<Rightarrow>
              (case get_empty_slot s0 of
                 (e, slot, s1) \<Rightarrow>
                   if e \<noteq> MM_ERROR_NONE then Some (e, slot, s1)
                   else
                     (let i = nat slot;
                          (reg, s2) = codec_register E p i (keytone_status p i s1)
                      in case (reg, plugins s ! n) of
                           (None, _) \<Rightarrow> Some (MM_ERROR_POLICY_INTERNAL, slot, s2)
                         | (Some h, None) \<Rightarrow> None
                         | (Some h, Some pl) \<Rightarrow>
                             (let s3 = on_slot i (\<lambda>x. x\<lparr>sl_pluginid := n, sl_callback := mp_callback p,
                                    sl_msgcallback := mp_msgcallback p, sl_msgdata := mp_msgdata p,
                                    sl_param := mp_param p, sl_session_type := mp_session_type p,
                                    sl_session_handle := h\<rparr>) s2;
                                  kt = (if mp_keytone p = 1 \<or> mp_keytone p = 2 then mp_keytone p else 0);
                                  (e', un, s4) = start_sound pl
                                    (plugin_param kt (mp_priority p) i p src) info i s3;
                                  (e'', s5) = (if un then codec_unregister E p h e' s4 else (e', s4))
                              in Some (e'', slot, s5))))))"

text \<open>\<^verbatim>\<open>MMSoundMgrCodecPlayDtmf\<close>: the registration is never taken back, and the message callback of
  the slot is not set.\<close>

definition codec_play_dtmf ::
  "codec_env \<Rightarrow> mgr_param \<Rightarrow> int \<Rightarrow> 'w codec \<Rightarrow> (mm_err \<times> int \<times> 'w codec) option" where
  "codec_play_dtmf E p slotid s =
    (case find_dtmf (plugins s) 0 of
       None \<Rightarrow> None
     | Some None \<Rightarrow> Some (MM_ERROR_SOUND_UNSUPPORTED_MEDIA_TYPE, slotid, s)
     | Some (Some n) \<Rightarrow>
         (case get_empty_slot s of
            (e, slot, s1) \<Rightarrow>
              if e \<noteq> MM_ERROR_NONE then Some (e, slot, s1)
              else
                (let i = nat slot; (reg, s2) = codec_register E p i s1
                 in case (reg, plugins s ! n) of
                      (None, _) \<Rightarrow> Some (MM_ERROR_POLICY_INTERNAL, slot, s2)
                    | (Some h, None) \<Rightarrow> None
                    | (Some h, Some pl) \<Rightarrow>
                        (let s3 = on_slot i (\<lambda>x. x\<lparr>sl_pluginid := n, sl_callback := mp_callback p,
                               sl_param := mp_param p, sl_session_type := mp_session_type p,
                               sl_session_handle := h\<rparr>) s2;
                             (e', un, s4) = start_sound pl (plugin_param 0 0 i p (mp_source p))
                               (junk_info E) i s3
                         in Some (e', slot, s4)))))"

section \<open>Start and end\<close>

text \<open>A plugin that was loaded gives its interface or an error; there is room for three.\<close>

fun register_interface ::
  "'w codec_interface option list \<Rightarrow> 'w codec_interface option \<Rightarrow> 'w codec_interface option list" where
  "register_interface [] p = []"
| "register_interface (None # ps) p = p # ps"
| "register_interface (Some q # ps) p = Some q # register_interface ps p"

definition codec_init :: "'w codec_interface option list \<Rightarrow> 'w \<Rightarrow> 'w codec" where
  "codec_init scanned w =
    \<lparr>slots = replicate MANAGER_HANDLE_MAX (zero_slot\<lparr>sl_plughandle := -1\<rparr>),
     plugins = fold (\<lambda>p ps. register_interface ps p) scanned
       (replicate MM_SOUND_SUPPORTED_CODEC_NUM None),
     cworld = w, ccalls = []\<rparr>"

definition codec_fini :: "'w codec \<Rightarrow> 'w codec" where
  "codec_fini s = s\<lparr>plugins := replicate MM_SOUND_SUPPORTED_CODEC_NUM None\<rparr>"

end
