(* ===== verification/Codec_Facts.thy ===== *)
theory Codec_Facts
  imports Codec
begin

text \<open>
  The slot table of the codec manager: the search, the frame of each operation, and, inside the
  contract of a plugin, the life of a sound from its start to the callback that frees its slot.
\<close>

named_theorems codec_simps "how the codec operations act on the parts of the state"

lemma find_status_Some:
  "find_status st xs = Some i \<longleftrightarrow>
    i < length xs \<and> sl_status (xs ! i) = st \<and> (\<forall>j < i. sl_status (xs ! j) \<noteq> st)"
proof (induction xs arbitrary: i)
  case (Cons x xs)
  show ?case
    by (cases i) (auto simp: Cons.IH less_Suc_eq_0_disj)
qed simp

lemma find_status_None: "find_status st xs = None \<longleftrightarrow> (\<forall>x \<in> set xs. sl_status x \<noteq> st)"
  by (induction xs) auto

lemma on_slot_parts [codec_simps]:
  "plugins (on_slot i f s) = plugins s" "cworld (on_slot i f s) = cworld s"
  "ccalls (on_slot i f s) = ccalls s" "slots (on_slot i f s) = (slots s)[i := f (slots s ! i)]"
  "length (slots (on_slot i f s)) = length (slots s)"
  by (simp_all add: on_slot_def)

lemma on_slot_world [codec_simps]: "on_slot i f (s\<lparr>cworld := w\<rparr>) = on_slot i f s\<lparr>cworld := w\<rparr>"
  by (simp add: on_slot_def)

lemma codec_log_parts [codec_simps]:
  "slots (codec_log c s) = slots s" "plugins (codec_log c s) = plugins s"
  "cworld (codec_log c s) = cworld s" "ccalls (codec_log c s) = c # ccalls s"
  by (simp_all add: codec_log_def)

lemma codec_register_parts:
  "codec_register E p i s = (r, s') \<Longrightarrow>
    slots s' = slots s \<and> plugins s' = plugins s \<and> cworld s' = cworld s"
  by (auto simp: codec_register_def codec_simps split: if_splits)

lemma codec_unregister_parts:
  "codec_unregister E p h e s = (r, s') \<Longrightarrow>
    slots s' = slots s \<and> plugins s' = plugins s \<and> cworld s' = cworld s"
  by (auto simp: codec_unregister_def codec_simps split: if_splits)

lemma codec_stop_frame:
  "codec_stop k s = Some (e, s') \<Longrightarrow> slots s' = slots s \<and> plugins s' = plugins s \<and> ccalls s' = ccalls s"
  by (auto simp: codec_stop_def split: if_splits option.splits prod.splits)

lemma stop_same_kind_frame:
  "stop_same_kind p s = Some s' \<Longrightarrow> slots s' = slots s \<and> plugins s' = plugins s \<and> ccalls s' = ccalls s"
  by (auto simp: stop_same_kind_def split: option.splits if_splits dest: codec_stop_frame)

lemma get_empty_slot_ok:
  assumes "get_empty_slot s = (e, slot, s')"
  shows "e = MM_ERROR_NONE \<Longrightarrow> \<exists>i. slot = int i \<and> find_status STATUS_IDLE (slots s) = Some i \<and>
      s' = on_slot i (\<lambda>x. x\<lparr>sl_status := STATUS_SOUND\<rparr>) s"
    and "e \<noteq> MM_ERROR_NONE \<Longrightarrow> e = MM_ERROR_SOUND_INTERNAL \<and> slot = -1 \<and>
      find_status STATUS_IDLE (slots s) = None \<and>
      s' = s\<lparr>slots := map (\<lambda>x. x\<lparr>sl_status := STATUS_IDLE\<rparr>) (slots s)\<rparr>"
  using assms by (auto simp: get_empty_slot_def split: option.splits)

lemma keytone_status_slots [codec_simps]:
  "i < length (slots s) \<Longrightarrow> sl_status (slots s ! i) = STATUS_SOUND \<Longrightarrow>
    slots (keytone_status p i s) = (slots s)[i := (slots s ! i)\<lparr>sl_status :=
      (if mp_keytone p = 1 then STATUS_KEYTONE else if mp_keytone p = 2 then STATUS_LOCALE
       else STATUS_SOUND)\<rparr>]"
proof -
  assume i: "i < length (slots s)" "sl_status (slots s ! i) = STATUS_SOUND"
  have "x\<lparr>sl_status := STATUS_SOUND\<rparr> = x" if "sl_status x = STATUS_SOUND" for x :: codec_slot
    using that by (cases x) simp
  from this [OF i(2)] have "(slots s)[i := (slots s ! i)\<lparr>sl_status := STATUS_SOUND\<rparr>] = slots s"
    by (simp only: list_update_id)
  with i(1) show ?thesis by (simp add: keytone_status_def codec_simps Let_def)
qed

lemma keytone_status_parts [codec_simps]:
  "plugins (keytone_status p i s) = plugins s" "cworld (keytone_status p i s) = cworld s"
  "ccalls (keytone_status p i s) = ccalls s"
  "length (slots (keytone_status p i s)) = length (slots s)"
  by (simp_all add: keytone_status_def codec_simps Let_def)

lemma start_sound_ok:
  assumes "start_sound pl cp info i s = (MM_ERROR_NONE, un, s')" "i < length (slots s)"
  shows "\<exists>h w. Create pl cp info (cworld s) = (MM_ERROR_NONE, h, w) \<and> \<not> un \<and>
    slots s' = (case h of None \<Rightarrow> slots s | Some a \<Rightarrow> (slots s)[i := (slots s ! i)\<lparr>sl_plughandle := a\<rparr>]) \<and>
    plugins s' = plugins s \<and> ccalls s' = ccalls s \<and>
    Play pl (sl_plughandle (slots s' ! i)) w = (MM_ERROR_NONE, cworld s')"
  using assms
  by (fastforce simp: start_sound_def codec_simps Let_def split: prod.splits if_splits option.splits)

section \<open>A sound that starts takes the first free slot\<close>

text \<open>Starting a sound in a slot that was just filled.\<close>

lemma start_filled:
  assumes "start_sound pl cp info i (on_slot i f s) = (MM_ERROR_NONE, un, s')" "i < length (slots s)"
  shows "\<exists>a w x. Create pl cp info (cworld s) = (MM_ERROR_NONE, a, w) \<and> \<not> un \<and>
    Play pl (sl_plughandle x) w = (MM_ERROR_NONE, cworld s') \<and> slots s' = (slots s)[i := x] \<and>
    x = (case a of None \<Rightarrow> f (slots s ! i) | Some h \<Rightarrow> (f (slots s ! i))\<lparr>sl_plughandle := h\<rparr>) \<and>
    plugins s' = plugins s \<and> ccalls s' = ccalls s"
proof -
  have len: "i < length (slots (on_slot i f s))" using assms(2) by (simp add: codec_simps)
  from start_sound_ok [OF assms(1) len] obtain a w where
    "Create pl cp info (cworld s) = (MM_ERROR_NONE, a, w)" "\<not> un"
    "slots s' = (case a of None \<Rightarrow> slots (on_slot i f s)
       | Some h \<Rightarrow> (slots (on_slot i f s))[i := (slots (on_slot i f s) ! i)\<lparr>sl_plughandle := h\<rparr>])"
    "plugins s' = plugins s" "ccalls s' = ccalls s"
    "Play pl (sl_plughandle (slots s' ! i)) w = (MM_ERROR_NONE, cworld s')"
    by (auto simp: codec_simps)
  then show ?thesis
    using assms(2)
    by (intro exI [of _ a] exI [of _ w] exI [of _ "slots s' ! i"])
      (simp add: codec_simps split: option.splits)
qed

definition filled :: "mgr_param \<Rightarrow> nat \<Rightarrow> codec_slot \<Rightarrow> bool" where
  "filled p n x \<longleftrightarrow> sl_pluginid x = n \<and> sl_callback x = mp_callback p \<and>
     sl_param x = mp_param p \<and> sl_session_type x = mp_session_type p"

lemma codec_play_dtmf_ok:
  assumes "codec_play_dtmf E p k s = Some (MM_ERROR_NONE, slot, s')"
  shows "\<exists>n pl i a w x. find_dtmf (plugins s) 0 = Some (Some n) \<and> plugins s ! n = Some pl \<and>
    slot = int i \<and> find_status STATUS_IDLE (slots s) = Some i \<and>
    Create pl (plugin_param 0 0 i p (mp_source p)) (junk_info E) (cworld s) = (MM_ERROR_NONE, a, w) \<and>
    Play pl (sl_plughandle x) w = (MM_ERROR_NONE, cworld s') \<and> (\<forall>h. a = Some h \<longrightarrow> sl_plughandle x = h) \<and>
    slots s' = (slots s)[i := x] \<and> sl_status x = STATUS_SOUND \<and> filled p n x \<and> plugins s' = plugins s"
proof -
  from assms obtain n where n: "find_dtmf (plugins s) 0 = Some (Some n)"
    by (auto simp: codec_play_dtmf_def split: option.splits)
  obtain e slot1 s1 where g: "get_empty_slot s = (e, slot1, s1)" by (cases "get_empty_slot s")
  with assms n have e: "e = MM_ERROR_NONE"
    by (cases "e = MM_ERROR_NONE") (simp_all add: codec_play_dtmf_def)
  then obtain i where i: "slot1 = int i" "find_status STATUS_IDLE (slots s) = Some i"
    "s1 = on_slot i (\<lambda>x. x\<lparr>sl_status := STATUS_SOUND\<rparr>) s"
    using get_empty_slot_ok(1) [OF g] by blast
  obtain reg s2 where r: "codec_register E p i s1 = (reg, s2)" by fastforce
  note r2 = codec_register_parts [OF r]
  have len: "i < length (slots s2)" using i(2,3) r2 by (simp add: find_status_Some codec_simps)
  from assms n g e i(1) r obtain h pl where hp: "reg = Some h" "plugins s ! n = Some pl"
    by (auto simp: codec_play_dtmf_def split: option.splits)
  let ?f = "\<lambda>x. x\<lparr>sl_pluginid := n, sl_callback := mp_callback p, sl_param := mp_param p,
    sl_session_type := mp_session_type p, sl_session_handle := h\<rparr>"
  obtain un where st: "start_sound pl (plugin_param 0 0 i p (mp_source p)) (junk_info E) i (on_slot i ?f s2)
      = (MM_ERROR_NONE, un, s')" and slot: "slot = int i"
    using assms n g e i(1) r hp by (auto simp: codec_play_dtmf_def Let_def split: prod.splits)
  from start_filled [OF st len] obtain a w x where x:
    "Create pl (plugin_param 0 0 i p (mp_source p)) (junk_info E) (cworld s) = (MM_ERROR_NONE, a, w)"
    "Play pl (sl_plughandle x) w = (MM_ERROR_NONE, cworld s')" "slots s' = (slots s2)[i := x]"
    "x = (case a of None \<Rightarrow> ?f (slots s2 ! i) | Some h \<Rightarrow> (?f (slots s2 ! i))\<lparr>sl_plughandle := h\<rparr>)"
    "plugins s' = plugins s"
    using r2 i(3) by (auto simp: codec_simps)
  have "slots s2 = (slots s)[i := (slots s ! i)\<lparr>sl_status := STATUS_SOUND\<rparr>]"
    using r2 i(3) by (simp add: codec_simps)
  with x(3,4) len have "slots s' = (slots s)[i := x]" "sl_status x = STATUS_SOUND" "filled p n x"
    "\<forall>h. a = Some h \<longrightarrow> sl_plughandle x = h"
    by (auto simp: filled_def split: option.splits)
  with n hp(2) slot i(2) x(1,2,5) show ?thesis by blast
qed

lemma codec_play_ok:
  assumes "codec_play E p k s = Some (MM_ERROR_NONE, slot, s')"
  shows "\<exists>n pl src info s0 i kt a w x. find_codec (plugins s) 0 (mp_source p) (junk_info E) = Some (Found n src info) \<and>
    plugins s ! n = Some pl \<and> stop_same_kind p s = Some s0 \<and>
    slot = int i \<and> find_status STATUS_IDLE (slots s) = Some i \<and>
    Create pl (plugin_param kt (mp_priority p) i p src) info (cworld s0) = (MM_ERROR_NONE, a, w) \<and>
    Play pl (sl_plughandle x) w = (MM_ERROR_NONE, cworld s') \<and> (\<forall>h. a = Some h \<longrightarrow> sl_plughandle x = h) \<and>
    slots s' = (slots s)[i := x] \<and> filled p n x \<and> plugins s' = plugins s \<and>
    sl_msgcallback x = mp_msgcallback p \<and> sl_msgdata x = mp_msgdata p \<and>
    ccalls s' = (if needs_asm (mp_session_type p)
      then [AsmRegisterSound (mp_param p) (mp_session_type p) (int i)] else []) @ ccalls s \<and>
    sl_status x = (if mp_keytone p = 1 then STATUS_KEYTONE else if mp_keytone p = 2 then STATUS_LOCALE
                   else STATUS_SOUND)"
proof -
  from assms obtain n src info where
    n: "find_codec (plugins s) 0 (mp_source p) (junk_info E) = Some (Found n src info)"
    by (auto simp: codec_play_def split: option.splits plugin_search.splits)
  with assms obtain s0 where s0: "stop_same_kind p s = Some s0"
    by (auto simp: codec_play_def split: option.splits)
  note f0 = stop_same_kind_frame [OF s0]
  obtain e slot1 s1 where g: "get_empty_slot s0 = (e, slot1, s1)" by (cases "get_empty_slot s0")
  with assms n s0 have e: "e = MM_ERROR_NONE"
    by (cases "e = MM_ERROR_NONE") (simp_all add: codec_play_def)
  then obtain i where i: "slot1 = int i" "find_status STATUS_IDLE (slots s) = Some i"
    "s1 = on_slot i (\<lambda>x. x\<lparr>sl_status := STATUS_SOUND\<rparr>) s0"
    using get_empty_slot_ok(1) [OF g] f0 by auto
  define st where "st = (if mp_keytone p = 1 then STATUS_KEYTONE
    else if mp_keytone p = 2 then STATUS_LOCALE else STATUS_SOUND)"
  have len: "i < length (slots s)" using i(2) by (simp add: find_status_Some)
  have kt: "slots (keytone_status p i s1) = (slots s)[i := (slots s ! i)\<lparr>sl_status := st\<rparr>]"
    using len f0 i(3) by (simp add: codec_simps st_def)
  obtain reg s2 where r: "codec_register E p i (keytone_status p i s1) = (reg, s2)" by fastforce
  note r2 = codec_register_parts [OF r]
  have cc: "ccalls s2 = (if needs_asm (mp_session_type p)
      then [AsmRegisterSound (mp_param p) (mp_session_type p) (int i)] else []) @ ccalls s"
    using r f0 i(3) by (auto simp: codec_register_def codec_simps split: if_splits)
  have len2: "i < length (slots s2)" using len r2 kt by simp
  from assms n s0 g e i(1) r obtain h pl where hp: "reg = Some h" "plugins s ! n = Some pl"
    by (auto simp: codec_play_def split: option.splits)
  let ?f = "\<lambda>x. x\<lparr>sl_pluginid := n, sl_callback := mp_callback p, sl_msgcallback := mp_msgcallback p,
    sl_msgdata := mp_msgdata p, sl_param := mp_param p, sl_session_type := mp_session_type p,
    sl_session_handle := h\<rparr>"
  let ?kt = "if mp_keytone p = 1 \<or> mp_keytone p = 2 then mp_keytone p else 0"
  obtain e' un s4 where st4: "start_sound pl (plugin_param ?kt (mp_priority p) i p src) info i (on_slot i ?f s2)
      = (e', un, s4)" by (cases "start_sound pl (plugin_param ?kt (mp_priority p) i p src) info i (on_slot i ?f s2)")
  have un: "e' \<noteq> MM_ERROR_NONE \<Longrightarrow> un"
    using st4 by (auto simp: start_sound_def Let_def split: prod.splits if_splits)
  have res: "(if un then codec_unregister E p h e' s4 else (e', s4)) = (MM_ERROR_NONE, s')" "slot = int i"
    using assms n s0 g e i(1) r hp st4 by (auto simp: codec_play_def Let_def split: prod.splits)
  have none: "e' = MM_ERROR_NONE"
    using res(1) un by (auto simp: codec_unregister_def split: if_splits)
  from start_filled [OF st4 [unfolded none] len2] obtain a w x where x: "\<not> un"
    "Create pl (plugin_param ?kt (mp_priority p) i p src) info (cworld s0) = (MM_ERROR_NONE, a, w)"
    "Play pl (sl_plughandle x) w = (MM_ERROR_NONE, cworld s4)" "slots s4 = (slots s2)[i := x]"
    "x = (case a of None \<Rightarrow> ?f (slots s2 ! i) | Some h \<Rightarrow> (?f (slots s2 ! i))\<lparr>sl_plughandle := h\<rparr>)"
    "plugins s4 = plugins s" "ccalls s4 = ccalls s2"
    using r2 i(3) f0 by (auto simp: codec_simps)
  have s4: "s4 = s'" using res(1) x(1) by simp
  from x(4,5) len r2 kt have "slots s4 = (slots s)[i := x]" "sl_status x = st" "filled p n x"
    "\<forall>h. a = Some h \<longrightarrow> sl_plughandle x = h" "sl_msgcallback x = mp_msgcallback p" "sl_msgdata x = mp_msgdata p"
    by (auto simp: filled_def split: option.splits)
  with n hp(2) s0 res(2) i(2) x(2,3,6,7) cc show ?thesis unfolding st_def s4 by metis
qed

section \<open>The life of a sound\<close>

lemma stop_callback_result:
  fixes s :: "'a codec"
  assumes "plugin_of s i = Some p" "Destroy p (sl_plughandle (slots s ! i)) (cworld s) = (e, w)"
  shows "\<exists>s'. codec_stop_callback i s = Some (e, s') \<and> cworld s' = w \<and> slots s' = (slots s)[i := zero_slot] \<and>
    ccalls s' = (if sl_msgcallback (slots s ! i) \<noteq> 0
      then [ClientStopped (sl_callback (slots s ! i)) (sl_param (slots s ! i))
              (sl_msgcallback (slots s ! i)) (sl_msgdata (slots s ! i))] else []) @
      (if needs_asm (sl_session_type (slots s ! i))
       then [AsmUnregisterSound (sl_session_handle (slots s ! i)) (sl_session_type (slots s ! i))] else []) @ ccalls s"
proof -
  have "plugin_of (codec_log c t) i = plugin_of t i" for c and t :: "'a codec"
    by (simp add: plugin_of_def codec_simps)
  with assms show ?thesis by (simp add: codec_stop_callback_def Let_def codec_simps)
qed

text \<open>The callback at the end of a sound gives the handle back and clears the slot.\<close>

context codec_plugin begin

lemma stop_callback_frees:
  assumes "winv (cworld s)" "plugin_of s i = Some intf" "sl_plughandle (slots s ! i) \<in> live (cworld s)"
  shows "\<exists>s'. codec_stop_callback i s = Some (MM_ERROR_NONE, s') \<and> winv (cworld s') \<and>
    live (cworld s') = live (cworld s) - {sl_plughandle (slots s ! i)} \<and>
    slots s' = (slots s)[i := zero_slot] \<and> plugins s' = plugins s"
proof -
  obtain e w where d: "Destroy intf (sl_plughandle (slots s ! i)) (cworld s) = (e, w)" by fastforce
  from destroy_live [OF assms(1,3) d] assms(2) d show ?thesis
    by (auto simp: codec_stop_callback_def Let_def plugin_of_def codec_simps split: if_splits)
qed

text \<open>The life of a sound that was started in a slot, until its callback has run.\<close>

lemma sound_cycle:
  assumes "winv (cworld s)" "n < length (plugins s)" "plugins s ! n = Some intf"
    "find_status STATUS_IDLE (slots s) = Some i"
    "Create intf cp info (cworld s) = (MM_ERROR_NONE, h, w)"
    "Play intf (sl_plughandle x) w = (MM_ERROR_NONE, cworld s1)" "\<forall>a. h = Some a \<longrightarrow> sl_plughandle x = a"
    "slots s1 = (slots s)[i := x]" "filled p n x" "plugins s1 = plugins s"
  shows "\<exists>a s2. h = Some a \<and> slots s1 ! i = x \<and> sl_plughandle x = a \<and>
    a \<notin> live (cworld s) \<and> live (cworld s1) = insert a (live (cworld s)) \<and> winv (cworld s1) \<and>
    plugin_of s1 i = Some intf \<and> codec_stop_callback i s1 = Some (MM_ERROR_NONE, s2) \<and>
    slots s2 = (slots s)[i := zero_slot] \<and> live (cworld s2) = live (cworld s) \<and> winv (cworld s2)"
proof -
  from create_ok [OF assms(1,5)] obtain a where a: "h = Some a" "a \<notin> live (cworld s)"
    "live w = insert a (live (cworld s))" "winv w" by blast
  have xa: "sl_plughandle x = a" using assms(7) a(1) by simp
  have live1: "winv (cworld s1)" "live (cworld s1) = insert a (live (cworld s))"
    using play_live [OF a(4) _ assms(6)] a(3) xa by simp_all
  have len: "i < length (slots s)" using assms(4) by (simp add: find_status_Some)
  have po: "plugin_of s1 i = Some intf"
    using assms(8-10) len assms(2,3) by (simp add: plugin_of_def filled_def)
  have lv: "sl_plughandle (slots s1 ! i) \<in> live (cworld s1)"
    using assms(8) len xa live1(2) by simp
  from stop_callback_frees [OF live1(1) po lv] obtain s2 where s2: "codec_stop_callback i s1 = Some (MM_ERROR_NONE, s2)"
    "winv (cworld s2)" "live (cworld s2) = live (cworld s1) - {a}" "slots s2 = (slots s1)[i := zero_slot]"
    using assms(8) len xa by auto
  show ?thesis
    using assms(8) len xa a(1,2) live1 po s2 by (intro exI [of _ a] exI [of _ s2]) auto
qed

lemma dtmf_cycle:
  assumes "winv (cworld s)" "find_dtmf (plugins s) 0 = Some (Some n)" "plugins s ! n = Some intf"
    "n < length (plugins s)" "codec_play_dtmf E p k s = Some (MM_ERROR_NONE, slot, s1)"
  shows "\<exists>i a s2. slot = int i \<and> find_status STATUS_IDLE (slots s) = Some i \<and>
    sl_status (slots s1 ! i) = STATUS_SOUND \<and> sl_plughandle (slots s1 ! i) = a \<and>
    a \<notin> live (cworld s) \<and> live (cworld s1) = insert a (live (cworld s)) \<and> winv (cworld s1) \<and>
    codec_stop_callback i s1 = Some (MM_ERROR_NONE, s2) \<and>
    slots s2 = (slots s)[i := zero_slot] \<and> live (cworld s2) = live (cworld s) \<and> winv (cworld s2)"
proof -
  from codec_play_dtmf_ok [OF assms(5)] assms(2,3) obtain i h w x where i:
    "slot = int i" "find_status STATUS_IDLE (slots s) = Some i"
    "Create intf (plugin_param 0 0 i p (mp_source p)) (junk_info E) (cworld s) = (MM_ERROR_NONE, h, w)"
    "Play intf (sl_plughandle x) w = (MM_ERROR_NONE, cworld s1)" "\<forall>a. h = Some a \<longrightarrow> sl_plughandle x = a"
    "slots s1 = (slots s)[i := x]" "sl_status x = STATUS_SOUND" "filled p n x" "plugins s1 = plugins s"
    by auto
  from sound_cycle [OF assms(1,4,3) i(2,3,4,5,6,8,9)] i(1,2,7) show ?thesis by metis
qed

text \<open>The same for a sound that is parsed, when no sound of its kind has to be stopped.\<close>

lemma play_cycle:
  assumes "winv (cworld s)" "find_codec (plugins s) 0 (mp_source p) (junk_info E) = Some (Found n src info)"
    "plugins s ! n = Some intf" "n < length (plugins s)" "mp_keytone p \<noteq> 1" "mp_keytone p \<noteq> 2"
    "codec_play E p k s = Some (MM_ERROR_NONE, slot, s1)"
  shows "\<exists>i a kt w x. slot = int i \<and> find_status STATUS_IDLE (slots s) = Some i \<and>
    sl_plughandle (slots s1 ! i) = a \<and> a \<notin> live (cworld s) \<and> winv (cworld s1) \<and>
    live (cworld s1) = insert a (live (cworld s)) \<and> plugin_of s1 i = Some intf \<and>
    slots s1 = (slots s)[i := x] \<and> filled p n x \<and> sl_msgcallback x = mp_msgcallback p \<and>
    sl_msgdata x = mp_msgdata p \<and> ccalls s1 = (if needs_asm (mp_session_type p)
      then [AsmRegisterSound (mp_param p) (mp_session_type p) (int i)] else []) @ ccalls s \<and>
    Create intf (plugin_param kt (mp_priority p) i p src) info (cworld s) = (MM_ERROR_NONE, Some a, w) \<and>
    Play intf a w = (MM_ERROR_NONE, cworld s1)"
proof -
  have "stop_same_kind p s = Some s" using assms(5,6) by (simp add: stop_same_kind_def)
  with codec_play_ok [OF assms(7)] assms(2,3) obtain i kt h w x where i:
    "slot = int i" "find_status STATUS_IDLE (slots s) = Some i"
    "Create intf (plugin_param kt (mp_priority p) i p src) info (cworld s) = (MM_ERROR_NONE, h, w)"
    "Play intf (sl_plughandle x) w = (MM_ERROR_NONE, cworld s1)" "\<forall>a. h = Some a \<longrightarrow> sl_plughandle x = a"
    "slots s1 = (slots s)[i := x]" "filled p n x" "plugins s1 = plugins s"
    "sl_msgcallback x = mp_msgcallback p" "sl_msgdata x = mp_msgdata p"
    "ccalls s1 = (if needs_asm (mp_session_type p)
      then [AsmRegisterSound (mp_param p) (mp_session_type p) (int i)] else []) @ ccalls s" by auto
  from sound_cycle [OF assms(1,4,3) i(2-8)] i show ?thesis by metis
qed

end

end
