(* ===== verification/Codec_Props.thy ===== *)
theory Codec_Props
  imports Codec_Facts Tone_Props
begin

text \<open>
  The properties of the codec manager, alone and with the tone generator as its plugin: which slot a
  sound takes, that the slot and the handle come back, and when they do not.
\<close>

definition ex_tone_env :: "tone_world \<Rightarrow> tone_env" where
  "ex_tone_env w = \<lparr>malloc_ok = True, open_error = None, open_handle = 5, open_size = 4096,
     pool_result = 0\<rparr>"

definition ex_source :: mm_source where
  "ex_source = zero_source"

definition ex_codec_env :: codec_env where
  "ex_codec_env = \<lparr>asm_registers = Some 7, asm_unregisters = True,
     junk_info = \<lparr>info_codec = MM_SOUND_SUPPORTED_CODEC_MP3, info_channels = 0, info_samplerate = 0,
       info_format = 0, info_doffset = 0, info_size = 0\<rparr>\<rparr>"

definition ex_mgr_param :: "int \<Rightarrow> mgr_param" where
  "ex_mgr_param t = \<lparr>mp_tone = 3, mp_repeat_count = t, mp_volume = 1,
     mp_session_type = ASM_EVENT_NOTIFY, mp_session_handle = -1, mp_keytone = 0, mp_callback = 11,
     mp_msgcallback = 12, mp_msgdata = 13, mp_param = 77, mp_source = ex_source, mp_volume_table = 1,
     mp_priority = 0, mp_handle_route = 0\<rparr>"

definition ex_codec :: "tone_world codec" where
  "ex_codec = codec_init [Some (tone_interface ex_tone_env)]
     \<lparr>tone_heap = Map.empty, tone_next = 1, tone_calls = []\<rparr>"

definition more_slots :: "codec_slot list" where
  "more_slots = replicate (MANAGER_HANDLE_MAX - 1) (zero_slot\<lparr>sl_plughandle := -1\<rparr>)"

lemma replicate_3: "replicate (3 :: nat) x = [x, x, x]"
  by (simp add: numeral_eq_Suc)

lemma ex_codec_parts:
  "slots ex_codec = (zero_slot\<lparr>sl_plughandle := -1\<rparr>) # more_slots"
  "plugins ex_codec = [Some (tone_interface ex_tone_env), None, None]"
  "cworld ex_codec = \<lparr>tone_heap = Map.empty, tone_next = 1, tone_calls = []\<rparr>"
proof -
  have "MANAGER_HANDLE_MAX = Suc (MANAGER_HANDLE_MAX - 1)" by (simp add: MANAGER_HANDLE_MAX_def)
  then have "replicate MANAGER_HANDLE_MAX y = y # replicate (MANAGER_HANDLE_MAX - 1) y" for y :: codec_slot
    by (metis replicate_Suc)
  then show "slots ex_codec = (zero_slot\<lparr>sl_plughandle := -1\<rparr>) # more_slots"
    by (simp add: ex_codec_def codec_init_def more_slots_def)
  show "plugins ex_codec = [Some (tone_interface ex_tone_env), None, None]"
    "cworld ex_codec = \<lparr>tone_heap = Map.empty, tone_next = 1, tone_calls = []\<rparr>"
    by (simp_all add: ex_codec_def codec_init_def replicate_3 MM_SOUND_SUPPORTED_CODEC_NUM_def)
qed

lemmas ex_codec_defs = ex_codec_parts ex_mgr_param_def ex_codec_env_def ex_tone_env_def
  ex_source_def zero_source_def tone_interface_def tone_Create_def tone_create_def tone_parse_def
  tone_support_types_def tone_on_heap_def tone_play_def start_sound_def codec_register_def
  plugin_param_def needs_asm_def keytone_status_def stop_same_kind_def get_empty_slot_def
  find_keytone_slot_def find_locale_slot_def zero_slot_def MM_SOUND_SUPPORTED_CODEC_NUM_def

lemma ex_codec_plays:
  "\<exists>s'. codec_play ex_codec_env (ex_mgr_param 300) 0 ex_codec = Some (MM_ERROR_NONE, 0, s')"
  "\<exists>s'. codec_play_dtmf ex_codec_env (ex_mgr_param t) 0 ex_codec = Some (MM_ERROR_NONE, 0, s')"
  by (simp_all add: codec_play_def codec_play_dtmf_def ex_codec_defs codec_simps Let_def)

section \<open>Slots\<close>

text \<open>
  A sound that is started successfully takes the first free slot of the table and no other, the
  slot is no longer free, and it holds the client, callback and session of the request.
\<close>

lemma play_takes_first_free:
  assumes "codec_play E p k s = Some (MM_ERROR_NONE, slot, s')"
  shows "\<exists>i x. slot = int i \<and> i < length (slots s) \<and> sl_status (slots s ! i) = STATUS_IDLE \<and>
    (\<forall>j < i. sl_status (slots s ! j) \<noteq> STATUS_IDLE) \<and> slots s' = (slots s)[i := x] \<and>
    sl_status x \<noteq> STATUS_IDLE \<and> sl_callback x = mp_callback p \<and> sl_param x = mp_param p \<and>
    sl_session_type x = mp_session_type p"
proof -
  from codec_play_ok [OF assms] obtain n i x where "slot = int i"
    "find_status STATUS_IDLE (slots s) = Some i" "slots s' = (slots s)[i := x]" "filled p n x"
    "sl_status x = (if mp_keytone p = 1 then STATUS_KEYTONE else if mp_keytone p = 2 then STATUS_LOCALE
       else STATUS_SOUND)" by blast
  then show ?thesis
    by (intro exI [of _ i] exI [of _ x]) (auto simp: find_status_Some filled_def)
qed

text \<open>
  When every slot is in use, a sound is refused, and all slots are declared free although no
  sound was stopped and no registration was taken back: the sounds that play have lost their slots.
\<close>

lemma full_table_forgets_sounds:
  assumes "find_codec (plugins s) 0 (mp_source p) (junk_info E) = Some (Found n src info)"
    "mp_keytone p \<noteq> 1" "mp_keytone p \<noteq> 2" "\<forall>x \<in> set (slots s). sl_status x \<noteq> STATUS_IDLE"
  shows "\<exists>s'. codec_play E p k s = Some (MM_ERROR_SOUND_INTERNAL, -1, s') \<and>
    (\<forall>x \<in> set (slots s'). sl_status x = STATUS_IDLE) \<and> length (slots s') = length (slots s) \<and>
    cworld s' = cworld s \<and> ccalls s' = ccalls s"
proof -
  have "find_status STATUS_IDLE (slots s) = None" using assms(4) by (simp add: find_status_None)
  with assms(1-3) show ?thesis
    by (simp add: codec_play_def stop_same_kind_def get_empty_slot_def)
qed

text \<open>
  When the registration with the audio session manager fails, the sound is refused but its slot
  stays taken, with no sound behind it that could ever free it.
\<close>

lemma failed_registration_keeps_slot:
  assumes "find_codec (plugins s) 0 (mp_source p) (junk_info E) = Some (Found n src info)"
    "stop_same_kind p s = Some s0" "find_status STATUS_IDLE (slots s) = Some i"
    "needs_asm (mp_session_type p)" "asm_registers E = None"
  shows "\<exists>s'. codec_play E p k s = Some (MM_ERROR_POLICY_INTERNAL, int i, s') \<and>
    sl_status (slots s' ! i) \<noteq> STATUS_IDLE \<and> cworld s' = cworld s0"
proof -
  note f0 = stop_same_kind_frame [OF assms(2)]
  have len: "i < length (slots s)" using assms(3) by (simp add: find_status_Some)
  with assms f0 show ?thesis
    by (auto simp: codec_play_def get_empty_slot_def codec_register_def codec_simps Let_def)
qed

section \<open>The tone generator as a plugin\<close>

interpretation tone_plugin: codec_plugin "tone_interface Env" tone_winv "\<lambda>w. dom (tone_heap w)" for Env
  by (rule tone_is_plugin)

text \<open>
  C23: a tone that the codec manager starts takes a free slot and a new handle of the tone generator,
  and the callback at the end of the tone gives both back: the heap of the generator is as before,
  and the slot is empty.
\<close>

theorem dtmf_slot_round_trip:
  assumes "tone_winv (cworld s)" "find_dtmf (plugins s) 0 = Some (Some n)"
    "plugins s ! n = Some (tone_interface Env)" "n < length (plugins s)"
    "codec_play_dtmf E p k s = Some (MM_ERROR_NONE, slot, s1)"
  shows "\<exists>i a s2. slot = int i \<and> sl_status (slots s ! i) = STATUS_IDLE \<and>
    sl_status (slots s1 ! i) = STATUS_SOUND \<and> sl_plughandle (slots s1 ! i) = a \<and>
    a \<notin> dom (tone_heap (cworld s)) \<and> dom (tone_heap (cworld s1)) = insert a (dom (tone_heap (cworld s))) \<and>
    codec_stop_callback i s1 = Some (MM_ERROR_NONE, s2) \<and> slots s2 = (slots s)[i := zero_slot] \<and>
    dom (tone_heap (cworld s2)) = dom (tone_heap (cworld s))"
proof -
  from tone_plugin.dtmf_cycle [OF assms] obtain i a s2 where "slot = int i"
    "find_status STATUS_IDLE (slots s) = Some i"
    "sl_status (slots s1 ! i) = STATUS_SOUND" "sl_plughandle (slots s1 ! i) = a"
    "a \<notin> dom (tone_heap (cworld s))" "dom (tone_heap (cworld s1)) = insert a (dom (tone_heap (cworld s)))"
    "codec_stop_callback i s1 = Some (MM_ERROR_NONE, s2)" "slots s2 = (slots s)[i := zero_slot]"
    "dom (tone_heap (cworld s2)) = dom (tone_heap (cworld s))" by blast
  then show ?thesis
    by (intro exI [of _ i] exI [of _ a] exI [of _ s2]) (simp add: find_status_Some)
qed

lemma ex_codec_tone:
  "tone_winv (cworld ex_codec)" "find_dtmf (plugins ex_codec) 0 = Some (Some 0)"
  "plugins ex_codec ! 0 = Some (tone_interface ex_tone_env)" "0 < length (plugins ex_codec)"
  by (simp_all add: ex_codec_parts tone_winv_def tone_interface_def tone_support_types_def)

theorem dtmf_slot_round_trip_witness:
  "\<exists>s1 s2. codec_play_dtmf ex_codec_env (ex_mgr_param 300) 0 ex_codec = Some (MM_ERROR_NONE, 0, s1) \<and>
    codec_stop_callback 0 s1 = Some (MM_ERROR_NONE, s2) \<and> dom (tone_heap (cworld s2)) = {}"
proof -
  from ex_codec_plays(2) obtain s1 where
    s1: "codec_play_dtmf ex_codec_env (ex_mgr_param 300) 0 ex_codec = Some (MM_ERROR_NONE, 0, s1)" ..
  from dtmf_slot_round_trip [OF ex_codec_tone this] obtain i s2 where "(0::int) = int i"
    "codec_stop_callback i s1 = Some (MM_ERROR_NONE, s2)"
    "dom (tone_heap (cworld s2)) = dom (tone_heap (cworld ex_codec))" by blast
  with s1 show ?thesis by (auto simp: ex_codec_parts)
qed

text \<open>
  The thread of a tone that was started frees its slot through the callback when the tone has a
  duration, but with the duration 0, which the client interface accepts, the thread returns without
  the callback, and slot, handle and device stay in use.
\<close>

lemma tone_frees_slot_iff_time:
  assumes "tone_winv (cworld s)" "find_dtmf (plugins s) 0 = Some (Some n)"
    "plugins s ! n = Some (tone_interface Env)"
    "codec_play_dtmf E p k s = Some (MM_ERROR_NONE, slot, s1)"
    "0 \<le> mp_tone p" "mp_tone p < int MM_SOUND_TONE_NUM" "0 \<le> mp_repeat_count p"
    "fuel \<ge> 2 * nat (mp_repeat_count p)"
  shows "\<exists>ti ti' ws cs. tone_heap (cworld s1) (sl_plughandle (slots s1 ! nat slot)) = Some ti \<and>
    running_tone (\<lambda>_. STATE_PLAY) fuel ti = ToneReturned ti' ws cs \<and>
    (ToneStopCb 1 slot \<in> set cs \<longleftrightarrow> mp_repeat_count p \<noteq> 0) \<and>
    (mp_repeat_count p = 0 \<longrightarrow> cs = [])"
proof -
  from codec_play_dtmf_ok [OF assms(4)] assms(2,3) obtain i h w x where i:
    "slot = int i" "find_status STATUS_IDLE (slots s) = Some i"
    "Create (tone_interface Env) (plugin_param 0 0 i p (mp_source p)) (junk_info E) (cworld s)
      = (MM_ERROR_NONE, h, w)"
    "Play (tone_interface Env) (sl_plughandle x) w = (MM_ERROR_NONE, cworld s1)"
    "\<forall>a. h = Some a \<longrightarrow> sl_plughandle x = a" "slots s1 = (slots s)[i := x]" by auto
  have x: "slots s1 ! i = x"
    using i(2,6) by (simp add: find_status_Some)
  from i(3) obtain ti where ti: "h = Some (tone_next (cworld s))"
    "tone_heap w (tone_next (cworld s)) = Some ti" "ti_stop_cb ti = 1" "ti_cb_param ti = int i"
    "ti_number ti = mp_tone p" "ti_time ti = mp_repeat_count p"
    by (auto simp: tone_interface_def tone_Create_def tone_create_def plugin_param_def Let_def
        split: sum.splits prod.splits if_splits option.splits)
  let ?ti = "ti\<lparr>ti_state := STATE_BEGIN\<rparr>"
  have heap: "tone_heap (cworld s1) (sl_plughandle x) = Some ?ti"
  proof -
    have "cworld s1 = snd (Play (tone_interface Env) (sl_plughandle x) w)" by (simp add: i(4))
    then show ?thesis
      using i(5) ti(1,2) by (simp add: tone_interface_def tone_on_heap_def tone_play_def)
  qed
  show ?thesis
  proof (cases "mp_repeat_count p = 0")
    case True
    then show ?thesis using heap ti i(1) by (auto simp: x running_tone_def)
  next
    case False
    then have "tone_budget (\<lambda>_. STATE_PLAY) (ti_time ?ti) tone_start_st (nat (ti_time ?ti))" "0 < ti_time ?ti"
      using assms(7) ti(6) by (simp_all add: tone_budget_def tone_start_st_def)
    with running_tone_ends [of ?ti "\<lambda>_. STATE_PLAY" "nat (ti_time ?ti)" fuel] assms(5,6,8) ti
    obtain ti' ws where "running_tone (\<lambda>_. STATE_PLAY) fuel ?ti =
      ToneReturned ti' ws (tone_end_calls ?ti)" by auto
    with heap False ti i(1) show ?thesis by (auto simp: x tone_end_calls_def)
  qed
qed

end
