(* ===== verification/Wave.thy ===== *)
theory Wave
  imports Codec_Interface "HOL-Library.Signed_Division"
begin

text \<open>
  The WAVE codec plugin (\<^verbatim>\<open>server/plugin/wav/mm_sound_plugin_codec_wave.c\<close>): the parser of RIFF
  files and the thread that plays the samples.  A \<^verbatim>\<open>long\<close> has 32 bits, as on the platform the code
  is written for.  Reading outside the source, copying more than the buffer holds and writing to a
  mapped file are faults; loops have fuel.
\<close>

section \<open>The chunks of a file\<close>

definition make_fourcc :: "32 word \<Rightarrow> 32 word \<Rightarrow> 32 word \<Rightarrow> 32 word \<Rightarrow> 32 word" where
  "make_fourcc a b c d = (a OR push_bit 8 b) OR (push_bit 16 c OR push_bit 24 d)"

definition RIFF_CHUNK_ID :: "32 word" where
  "RIFF_CHUNK_ID = make_fourcc 0x52 0x49 0x46 0x46"

definition RIFF_CHUNK_TYPE :: "32 word" where
  "RIFF_CHUNK_TYPE = make_fourcc 0x57 0x41 0x56 0x45"

definition FMT_CHUNK_ID :: "32 word" where
  "FMT_CHUNK_ID = make_fourcc 0x66 0x6D 0x74 0x20"

definition DATA_CHUNK_ID :: "32 word" where
  "DATA_CHUNK_ID = make_fourcc 0x64 0x61 0x74 0x61"

definition WAVE_CODE_PCM :: "16 word" where
  "WAVE_CODE_PCM = 1"

text \<open>
  The search for a chunk from the offset \<^verbatim>\<open>tSize\<close> on.  The offset is an unsigned number of 32 bits
  and wraps around; when the loop leaves because the offset is not inside the source, the chunk at
  the offset is used as if it had been found.
\<close>

fun seek_chunk :: "nat \<Rightarrow> bytes \<Rightarrow> 32 word \<Rightarrow> 32 word \<Rightarrow> 32 word \<Rightarrow> 32 word option access" where
  "seek_chunk 0 bs wanted datalen tSize = Endless"
| "seek_chunk (Suc n) bs wanted datalen tSize =
    andthen (rd32 bs (unat tSize)) (\<lambda>chunkid.
      if chunkid \<noteq> wanted \<and> tSize < datalen then
        andthen (rd32 bs (unat tSize + 4)) (\<lambda>chunkSize.
          let tSize' = tSize + (chunkSize + 8)
          in if tSize' \<ge> datalen then Ok None else seek_chunk n bs wanted datalen tSize')
      else Ok (Some tSize))"

definition parse_rejected :: "mm_source \<Rightarrow> codec_info \<Rightarrow> (mm_err \<times> mm_source \<times> codec_info) access" where
  "parse_rejected src info = Ok (MM_ERROR_SOUND_UNSUPPORTED_MEDIA_TYPE, src, info)"

text \<open>The format chunk at an offset: refused, or its fields (channels, rate, bits, chunk size).\<close>

definition read_format ::
  "bytes \<Rightarrow> nat \<Rightarrow> (16 word \<times> 32 word \<times> 16 word \<times> 32 word) option access" where
  "read_format bs t =
    andthen (rd32 bs t) (\<lambda>chunkid. if chunkid \<noteq> FMT_CHUNK_ID then Ok None else
    andthen (rd16 bs (t + 8)) (\<lambda>compression. if compression \<noteq> WAVE_CODE_PCM then Ok None else
    andthen (rd32 bs (t + 16)) (\<lambda>avgbytepersec. andthen (rd32 bs (t + 12)) (\<lambda>samplerate.
    andthen (rd16 bs (t + 20)) (\<lambda>blockkalign.
      if avgbytepersec \<noteq> samplerate * ucast blockkalign then Ok None else
    andthen (rd16 bs (t + 22)) (\<lambda>bitspersample. andthen (rd16 bs (t + 10)) (\<lambda>channels.
      if (ucast blockkalign :: 32 word) \<noteq> ucast (drop_bit 3 bitspersample) * ucast channels then Ok None
      else andthen (rd32 bs (t + 4)) (\<lambda>chunksize.
        Ok (Some (channels, samplerate, bitspersample, chunksize))))))))))"

text \<open>The chunks after the RIFF header.\<close>

definition parse_chunks ::
  "nat \<Rightarrow> mm_source \<Rightarrow> codec_info \<Rightarrow> (mm_err \<times> mm_source \<times> codec_info) access" where
  "parse_chunks fuel src info =
    (let bs = src_bytes src; datalen = cur_size src in
     andthen (seek_chunk fuel bs FMT_CHUNK_ID datalen 12) (\<lambda>f. case f of
       None \<Rightarrow> parse_rejected src info
     | Some t \<Rightarrow> andthen (read_format bs (unat t)) (\<lambda>h. case h of
         None \<Rightarrow> parse_rejected src info
       | Some (channels, samplerate, bits, chunksize) \<Rightarrow>
           andthen (seek_chunk fuel bs DATA_CHUNK_ID datalen (t + (chunksize + 8))) (\<lambda>d. case d of
             None \<Rightarrow> parse_rejected src info
           | Some u \<Rightarrow> andthen (rd32 bs (unat u + 4)) (\<lambda>n.
               Ok (MM_ERROR_NONE, src,
                   \<lparr>info_codec = MM_SOUND_SUPPORTED_CODEC_WAVE, info_channels = ucast channels,
                    info_samplerate = samplerate, info_format = ucast bits,
                    info_doffset = u + 8, info_size = n\<rparr>))))))"

text \<open>
  \<^verbatim>\<open>MMSoundPlugCodecWaveParse\<close>.  A wrong size in the RIFF header is corrected in place.
\<close>

definition wave_parse ::
  "nat \<Rightarrow> mm_source \<Rightarrow> codec_info \<Rightarrow> (mm_err \<times> mm_source \<times> codec_info) access" where
  "wave_parse fuel src info =
    (let bs = src_bytes src; size = cur_size src - 8 in
     andthen (rd32 bs 0) (\<lambda>chunkid. if chunkid \<noteq> RIFF_CHUNK_ID then parse_rejected src info else
     andthen (rd32 bs 8) (\<lambda>rifftype. if rifftype \<noteq> RIFF_CHUNK_TYPE then parse_rejected src info else
     andthen (rd32 bs 4) (\<lambda>chunksize.
       if chunksize = size then parse_chunks fuel src info
       else if src_type src = MM_SOURCE_FILE then Fault
       else parse_chunks fuel (src\<lparr>src_bytes := wr32 bs 4 size\<rparr>) info))))"

section \<open>Playing\<close>

definition WAVE_BUFFER_SIZE :: nat where
  "WAVE_BUFFER_SIZE = 48000 div 1000 * 128 * 2 * 2"

definition SAMPLE_COUNT :: int where
  "SAMPLE_COUNT = 128"

datatype wave_route = MM_SOUND_HANDLE_ROUTE_USING_CURRENT | MM_SOUND_HANDLE_ROUTE_SPEAKER

type_synonym audio_path = "int \<times> int \<times> int \<times> int"

datatype wave_call =
    WaveOpen
  | WaveGetPath
  | WaveSetPath audio_path
  | WaveWrite bytes
  | WaveDrain
  | WaveClose int
  | WaveStopCb int int

record wave_info =
  wv_current :: nat
  wv_size :: int
  wv_transper_size :: int
  wv_audio_handle :: int
  wv_period :: nat
  wv_tone :: int
  wv_repeat_count :: int
  wv_stop_cb :: int
  wv_cb_param :: int
  wv_state :: play_state
  wv_source :: mm_source
  wv_handle_route :: wave_route

text \<open>What the loops change: the position, the rest, the number of times the state was read (other
  threads write it: \<^verbatim>\<open>S\<close> gives the values read), and the calls of the sound device.\<close>

record wave_st =
  ws_current :: nat
  ws_size :: int
  ws_reads :: nat
  ws_calls :: "wave_call list"

text \<open>Copying samples into the buffer.\<close>

definition wave_copy :: "bytes \<Rightarrow> nat \<Rightarrow> nat \<Rightarrow> bytes access" where
  "wave_copy bs off n =
    (if n > WAVE_BUFFER_SIZE \<or> off + n > length bs then Fault else Ok (take n (drop off bs)))"

definition wave_log :: "wave_call \<Rightarrow> wave_st \<Rightarrow> wave_st" where
  "wave_log c s = s\<lparr>ws_calls := c # ws_calls s\<rparr>"

text \<open>One pass over the samples; \<^verbatim>\<open>P\<close> is the period of the device.\<close>

fun wave_pass ::
  "(nat \<Rightarrow> play_state) \<Rightarrow> nat \<Rightarrow> bytes \<Rightarrow> nat \<Rightarrow> wave_st \<Rightarrow> wave_st access" where
  "wave_pass S P bs 0 s = Endless"
| "wave_pass S P bs (Suc n) s =
    (let s1 = s\<lparr>ws_reads := ws_reads s + 1\<rparr> in
     if S (ws_reads s) = STATE_PLAY \<and> ws_size s > 0 then
       (if ws_size s \<ge> int P then
          andthen (wave_copy bs (ws_current s) P) (\<lambda>x.
            wave_pass S P bs n ((wave_log (WaveWrite x) s1)\<lparr>ws_current := ws_current s + P,
              ws_size := ws_size s - int P\<rparr>))
        else
          (let nread = nat (ws_size s) in
           andthen (wave_copy bs (ws_current s) nread) (\<lambda>x.
             wave_pass S P bs n
               ((wave_log (WaveWrite (replicate (P - nread) 0)) (wave_log (WaveWrite x) s1))
                  \<lparr>ws_current := ws_current s + nread, ws_size := 0\<rparr>))))
     else Ok s1)"

text \<open>The repetitions; -1 repeats without end.\<close>

fun wave_repeat ::
  "(nat \<Rightarrow> play_state) \<Rightarrow> nat \<Rightarrow> bytes \<Rightarrow> nat \<Rightarrow> nat \<Rightarrow> nat \<Rightarrow> int \<Rightarrow> int \<Rightarrow> wave_st \<Rightarrow> wave_st access" where
  "wave_repeat S P bs fuel 0 org sz r s = Endless"
| "wave_repeat S P bs fuel (Suc n) org sz r s =
    (if r = 0 then Ok s
     else
       (let s1 = s\<lparr>ws_reads := ws_reads s + 1\<rparr> in
        if S (ws_reads s) \<noteq> STATE_PLAY then Ok s1
        else
          andthen (wave_pass S P bs fuel s1) (\<lambda>s2.
            wave_repeat S P bs fuel n org sz (if r = -1 then -1 else r - 1)
              (s2\<lparr>ws_current := org, ws_size := sz\<rparr>))))"

text \<open>Whether there is memory for a period of silence, and the answers of the device: the path before
  and after the sound, the output code of the speaker and the path that is set to reach it.\<close>

record wave_dev =
  dummy_ok :: bool
  path_before :: audio_path
  path_after :: audio_path
  path_spk :: int
  path_to_spk :: audio_path

definition wave_set_path :: "wave_dev \<Rightarrow> wave_route \<Rightarrow> wave_call list" where
  "wave_set_path D r =
    (case r of
       MM_SOUND_HANDLE_ROUTE_SPEAKER \<Rightarrow>
         (if fst (snd (path_before D)) \<noteq> path_spk D then [WaveSetPath (path_to_spk D), WaveGetPath]
          else [WaveGetPath])
     | MM_SOUND_HANDLE_ROUTE_USING_CURRENT \<Rightarrow> [])"

definition wave_restore_path :: "wave_dev \<Rightarrow> wave_route \<Rightarrow> wave_call list" where
  "wave_restore_path D r =
    (case r of
       MM_SOUND_HANDLE_ROUTE_SPEAKER \<Rightarrow>
         (if path_after D \<noteq> path_before D then [WaveSetPath (path_before D), WaveGetPath]
          else [WaveGetPath])
     | MM_SOUND_HANDLE_ROUTE_USING_CURRENT \<Rightarrow> [])"

text \<open>
  The thread, once it has seen the start signal; the first value of \<^verbatim>\<open>S\<close> is the one read there, and a
  stop seen there stays.  The result is the log of the calls, newest first.  Without memory for the
  silence it returns at once, and nothing calls the callback.
\<close>

definition wave_running ::
  "(nat \<Rightarrow> play_state) \<Rightarrow> wave_dev \<Rightarrow> nat \<Rightarrow> nat \<Rightarrow> wave_info \<Rightarrow> (wave_info \<times> wave_call list) access" where
  "wave_running S D fuel turns p =
    (if \<not> dummy_ok D then Ok (p, []) else
     let T = (if S 0 = STATE_STOP then (\<lambda>k. STATE_STOP) else (\<lambda>k. S (Suc k)));
         s = \<lparr>ws_current = wv_current p, ws_size = wv_size p, ws_reads = 0,
              ws_calls = wave_set_path D (wv_handle_route p)\<rparr>
     in andthen (wave_repeat T (wv_period p) (src_bytes (wv_source p)) fuel turns
                   (wv_current p) (wv_size p) (wv_repeat_count p) s)
         (\<lambda>s'. Ok (p\<lparr>wv_audio_handle := -1, wv_state := STATE_NONE\<rparr>,
            (if wv_stop_cb p \<noteq> 0 then [WaveStopCb (wv_stop_cb p) (wv_cb_param p)] else []) @
            [WaveClose (wv_audio_handle p)] @ wave_restore_path D (wv_handle_route p) @
            [WaveDrain] @ ws_calls s')))"

section \<open>The operations of the plugin\<close>

record wave_env =
  wave_pool_set :: bool
  wave_malloc_ok :: bool
  wave_open_handle :: int
  wave_open_period :: nat

definition wave_support_types :: codec_type where
  "wave_support_types = MM_SOUND_SUPPORTED_CODEC_WAVE"

text \<open>The result of opening the device is ignored, only the handle is looked at; so is the answer of
  the thread pool.\<close>

definition wave_create ::
  "wave_env \<Rightarrow> codec_param \<Rightarrow> codec_info \<Rightarrow> (mm_err + wave_info) \<times> wave_call list" where
  "wave_create E p info =
    (if \<not> wave_pool_set E then (Inl MM_ERROR_SOUND_INTERNAL, [])
     else if \<not> wave_malloc_ok E then (Inl MM_ERROR_OUT_OF_MEMORY, [])
     else if wave_open_handle E = -1 then (Inl MM_ERROR_SOUND_INTERNAL, [WaveOpen])
     else
       (Inr \<lparr>wv_current = unat (info_doffset info), wv_size = sint (info_size info),
             wv_transper_size = sint (info_samplerate info) sdiv 1000 * SAMPLE_COUNT *
               (sint (info_format info) div 8) * sint (info_channels info),
             wv_audio_handle = wave_open_handle E, wv_period = wave_open_period E,
             wv_tone = codec_tone p, wv_repeat_count = codec_repeat_count p,
             wv_stop_cb = codec_stop_cb p, wv_cb_param = codec_cb_param p, wv_state = STATE_READY,
             wv_source = codec_source p,
             wv_handle_route = (if codec_handle_route p = 1 then MM_SOUND_HANDLE_ROUTE_SPEAKER
                                else MM_SOUND_HANDLE_ROUTE_USING_CURRENT)\<rparr>,
        [WaveOpen]))"

definition wave_play :: "wave_info \<Rightarrow> mm_err \<times> wave_info" where
  "wave_play p =
    (if wv_size p \<le> 0 then (MM_ERROR_END_OF_FILE, p) else (MM_ERROR_NONE, p\<lparr>wv_state := STATE_BEGIN\<rparr>))"

definition wave_stop :: "wave_info \<Rightarrow> mm_err \<times> wave_info" where
  "wave_stop p = (MM_ERROR_NONE, p\<lparr>wv_state := STATE_STOP\<rparr>)"

text \<open>The plugin as the codec manager sees it.\<close>

record wave_world =
  wave_heap :: "int \<rightharpoonup> wave_info"
  wave_next :: int
  wave_calls :: "wave_call list"
  wave_sys :: src_sys

definition wave_Parse ::
  "nat \<Rightarrow> mm_source \<Rightarrow> codec_info \<Rightarrow> (mm_err \<times> mm_source \<times> codec_info) option" where
  "wave_Parse fuel src info = (case wave_parse fuel src info of Ok r \<Rightarrow> Some r | _ \<Rightarrow> None)"

definition wave_Create ::
  "(wave_world \<Rightarrow> wave_env) \<Rightarrow> codec_param \<Rightarrow> codec_info \<Rightarrow> wave_world \<Rightarrow>
    mm_err \<times> int option \<times> wave_world" where
  "wave_Create E p info w =
    (case wave_create (E w) p info of
       (Inl e, cs) \<Rightarrow> (e, None, w\<lparr>wave_calls := cs @ wave_calls w\<rparr>)
     | (Inr q, cs) \<Rightarrow>
         (MM_ERROR_NONE, Some (wave_next w),
          w\<lparr>wave_heap := (wave_heap w)(wave_next w \<mapsto> q), wave_next := wave_next w + 1,
            wave_calls := cs @ wave_calls w\<rparr>))"

definition wave_on_heap ::
  "(wave_info \<Rightarrow> mm_err \<times> wave_info) \<Rightarrow> int \<Rightarrow> wave_world \<Rightarrow> mm_err \<times> wave_world" where
  "wave_on_heap f a w =
    (case wave_heap w a of
       None \<Rightarrow> (MM_ERROR_SOUND_INTERNAL, w)
     | Some q \<Rightarrow> (case f q of (e, q') \<Rightarrow> (e, w\<lparr>wave_heap := (wave_heap w)(a \<mapsto> q')\<rparr>)))"

text \<open>Destroying a sound also closes its source and frees the structure.\<close>

definition wave_Destroy :: "int \<Rightarrow> wave_world \<Rightarrow> mm_err \<times> wave_world" where
  "wave_Destroy a w =
    (if a = 0 then (MM_ERROR_SOUND_INVALID_POINTER, w)
     else (MM_ERROR_NONE, w\<lparr>wave_heap := (wave_heap w)(a := None),
       wave_sys := (case wave_heap w a of None \<Rightarrow> wave_sys w
                    | Some q \<Rightarrow> free_source (wv_source q) (release_source (wv_source q) (wave_sys w)))\<rparr>))"

definition wave_interface :: "nat \<Rightarrow> (wave_world \<Rightarrow> wave_env) \<Rightarrow> wave_world codec_interface" where
  "wave_interface fuel E = \<lparr>GetSupportTypes = wave_support_types, Parse = wave_Parse fuel,
     Create = wave_Create E, Play = wave_on_heap wave_play, Stop = wave_on_heap wave_stop,
     Destroy = wave_Destroy\<rparr>"

definition wave_winv :: "wave_world \<Rightarrow> bool" where
  "wave_winv w \<longleftrightarrow> 0 < wave_next w \<and> (\<forall>a \<in> dom (wave_heap w). 0 < a \<and> a < wave_next w)"

lemma wave_is_plugin: "codec_plugin (wave_interface fuel E) wave_winv (\<lambda>w. dom (wave_heap w))"
proof
  fix w w' :: wave_world and p i h e a
  assume w: "wave_winv w"
  then have below: "wave_heap w b = Some t \<Longrightarrow> 0 < b \<and> b < wave_next w" for b t
    by (auto simp: wave_winv_def)
  from this [of "wave_next w"] have new: "wave_heap w (wave_next w) = None"
    by (cases "wave_heap w (wave_next w)") auto
  show "Create (wave_interface fuel E) p i w = (MM_ERROR_NONE, h, w') \<Longrightarrow>
      wave_winv w' \<and> (\<exists>a. h = Some a \<and> a \<notin> dom (wave_heap w) \<and>
        dom (wave_heap w') = insert a (dom (wave_heap w)))"
    using w new below
    by (fastforce simp: wave_interface_def wave_Create_def wave_winv_def wave_create_def
        split: sum.splits prod.splits if_splits)
qed (auto simp: wave_interface_def wave_Create_def wave_on_heap_def wave_play_def wave_stop_def
    wave_Destroy_def wave_winv_def split: sum.splits prod.splits option.splits if_splits)

end
