(* ===== verification/Wave_Facts.thy ===== *)
theory Wave_Facts
  imports Wave
begin

text \<open>
  Files in the WAVE format as an encoder writes them, the search for a chunk in such a file, and what
  the play loops write.
\<close>

section \<open>Reading past a field\<close>

lemma unat_small: "n < 2 ^ 32 \<Longrightarrow> unat (of_nat n :: 32 word) = n"
  by (simp add: unat_of_nat)

lemma rd_field [simp]:
  "rd32 (le32 a @ bs) 0 = Ok a" "rd16 (le16 b @ bs) 0 = Ok b" "rd32 (le32 a) 0 = Ok a"
  using rd32_here [of "[]" a bs] rd16_here [of "[]" b bs] rd32_here [of "[]" a "[]"] by simp_all

lemma rd_skip [simp]:
  "4 \<le> i \<Longrightarrow> rd32 (le32 a @ bs) i = rd32 bs (i - 4)" "4 \<le> i \<Longrightarrow> rd16 (le32 a @ bs) i = rd16 bs (i - 4)"
  "2 \<le> i \<Longrightarrow> rd32 (le16 b @ bs) i = rd32 bs (i - 2)" "2 \<le> i \<Longrightarrow> rd16 (le16 b @ bs) i = rd16 bs (i - 2)"
  using rd_behind [of "le32 a" bs "i - 4"] rd_behind [of "le16 b" bs "i - 2"]
  by (simp_all add: le_add_diff_inverse del: add_2_eq_Suc)

section \<open>Files\<close>

definition chunk :: "32 word \<Rightarrow> bytes \<Rightarrow> bytes" where
  "chunk i body = le32 i @ le32 (of_nat (length body)) @ body"

definition chunks :: "(32 word \<times> bytes) list \<Rightarrow> bytes" where
  "chunks cs = concat (map (\<lambda>(i, body). chunk i body) cs)"

record wave_desc =
  wd_channels :: "16 word"
  wd_rate :: "32 word"
  wd_bits :: "16 word"
  wd_before :: "(32 word \<times> bytes) list"
  wd_extension :: bytes
  wd_between :: "(32 word \<times> bytes) list"
  wd_data :: bytes

definition wd_block :: "wave_desc \<Rightarrow> 16 word" where
  "wd_block d = drop_bit 3 (wd_bits d) * wd_channels d"

definition format_body :: "wave_desc \<Rightarrow> bytes" where
  "format_body d = le16 WAVE_CODE_PCM @ le16 (wd_channels d) @ le32 (wd_rate d) @
     le32 (wd_rate d * ucast (wd_block d)) @ le16 (wd_block d) @ le16 (wd_bits d) @ wd_extension d"

definition wave_body :: "wave_desc \<Rightarrow> bytes" where
  "wave_body d = chunks (wd_before d) @ chunk FMT_CHUNK_ID (format_body d) @
     chunks (wd_between d) @ chunk DATA_CHUNK_ID (wd_data d)"

definition wave_file :: "wave_desc \<Rightarrow> bytes" where
  "wave_file d = le32 RIFF_CHUNK_ID @ le32 (of_nat (length (wave_body d) + 4)) @
     le32 RIFF_CHUNK_TYPE @ wave_body d"

definition wave_wf :: "wave_desc \<Rightarrow> bool" where
  "wave_wf d \<longleftrightarrow> FMT_CHUNK_ID \<notin> fst ` set (wd_before d) \<and> DATA_CHUNK_ID \<notin> fst ` set (wd_between d) \<and>
     unat (drop_bit 3 (wd_bits d)) * unat (wd_channels d) < 2 ^ 16 \<and> length (wave_file d) < 2 ^ 32"

lemma length_chunk [simp]: "length (chunk i body) = 8 + length body"
  by (simp add: chunk_def)

lemma chunks_simps [simp]:
  "chunks [] = []" "chunks ((i, body) # cs) = chunk i body @ chunks cs"
  by (simp_all add: chunks_def)

lemma length_chunks: "length cs \<le> length (chunks cs)"
  by (induction cs) auto

lemma seek_chunk_finds:
  assumes "wanted \<notin> fst ` set cs" "length (pre @ chunks cs) < unat datalen"
    "length cs < n" "bs = pre @ chunks cs @ le32 wanted @ post"
  shows "seek_chunk n bs wanted datalen (of_nat (length pre))
    = Ok (Some (of_nat (length (pre @ chunks cs))))"
  using assms
proof (induction cs arbitrary: pre n)
  case Nil
  obtain m where n: "n = Suc m" using Nil.prems(3) by (cases n) auto
  have "length pre < 2 ^ 32"
    using Nil.prems(2) unsigned_less [of datalen, where ?'a = nat] by simp
  then have "rd32 bs (unat (of_nat (length pre) :: 32 word)) = Ok wanted"
    using rd_behind(1) [of pre "le32 wanted @ post" 0] by (simp add: Nil.prems(4) unat_small)
  then show ?case by (simp add: n)
next
  case (Cons c cs)
  obtain i body where c: "c = (i, body)" by (cases c)
  obtain m where n: "n = Suc m" using Cons.prems(3) by (cases n) auto
  let ?pre = "pre @ chunk i body"
  have dl: "unat datalen < 2 ^ 32"
    using unsigned_less [of datalen, where ?'a = nat] by simp
  have len: "length pre < 2 ^ 32" "length ?pre < 2 ^ 32" "length body < 2 ^ 32"
    using Cons.prems(2) dl by (simp_all add: c)
  have bs: "bs = pre @ le32 i @ le32 (of_nat (length body)) @ body @ chunks cs @ le32 wanted @ post"
    by (simp add: Cons.prems(4) c chunk_def)
  have rd: "rd32 bs (length pre) = Ok i" "rd32 bs (length pre + 4) = Ok (of_nat (length body))"
    using rd_behind(1) [of pre _ 0] rd_behind(1) [of pre _ 4] by (simp_all add: bs)
  have less: "(of_nat (length pre) :: 32 word) < datalen" "\<not> of_nat (length ?pre) \<ge> datalen"
    using Cons.prems(2) len(1,2) by (simp_all only: word_less_nat_alt word_le_nat_alt unat_small)
      (simp_all add: c)
  have next': "of_nat (length pre) + (of_nat (length body) + 8) = (of_nat (length ?pre) :: 32 word)"
    by (simp add: algebra_simps)
  have "seek_chunk m bs wanted datalen (of_nat (length ?pre))
    = Ok (Some (of_nat (length (?pre @ chunks cs))))"
    by (rule Cons.IH) (use Cons.prems n in \<open>simp_all add: c\<close>)
  moreover have "i \<noteq> wanted" using Cons.prems(1) by (auto simp: c)
  ultimately show ?case
    using rd less next' by (simp add: n c unat_small [OF len(1)] Let_def del: of_nat_add length_append)
qed

lemma read_format_file:
  assumes "unat (drop_bit 3 (wd_bits d)) * unat (wd_channels d) < 2 ^ 16"
  shows "read_format (pre @ chunk FMT_CHUNK_ID (format_body d) @ post) (length pre) =
    Ok (Some (wd_channels d, wd_rate d, wd_bits d, of_nat (length (format_body d))))"
proof -
  have up: "unat (ucast x :: 32 word) = unat x" for x :: "16 word"
  proof -
    have "unat x < 2 ^ 32" using unsigned_less [of x, where ?'a = nat] by simp
    then show ?thesis by (simp add: unsigned_ucast_eq take_bit_nat_eq_self)
  qed
  have block: "(ucast (wd_block d) :: 32 word) = ucast (drop_bit 3 (wd_bits d)) * ucast (wd_channels d)"
    using assms by (simp add: word_unat_eq_iff up wd_block_def unat_word_ariths)
  have b: "rd32 (pre @ bs) (length pre) = rd32 bs 0" for bs
    using rd_behind(1) [of pre bs 0] by simp
  show ?thesis
    by (simp add: read_format_def b rd_behind chunk_def format_body_def block [symmetric])
qed

section \<open>What the loops write\<close>

text \<open>The buffers written, in order; the log has the newest call first.\<close>

fun wave_writes :: "wave_call list \<Rightarrow> bytes list" where
  "wave_writes [] = []"
| "wave_writes (WaveWrite b # cs) = wave_writes cs @ [b]"
| "wave_writes (_ # cs) = wave_writes cs"

definition wave_bytes :: "wave_call list \<Rightarrow> bytes" where
  "wave_bytes cs = concat (wave_writes cs)"

lemma wave_bytes_simps [simp]:
  "wave_bytes [] = []" "wave_bytes (WaveWrite b # cs) = wave_bytes cs @ b"
  by (simp_all add: wave_bytes_def)

definition padding :: "nat \<Rightarrow> nat \<Rightarrow> nat" where
  "padding P n = (P - n mod P) mod P"

text \<open>The position and the size stay inside the source.\<close>

definition wave_fits :: "nat \<Rightarrow> bytes \<Rightarrow> nat \<Rightarrow> int \<Rightarrow> bool" where
  "wave_fits P bs off n \<longleftrightarrow> 0 < P \<and> P \<le> WAVE_BUFFER_SIZE \<and> 0 \<le> n \<and> off + nat n \<le> length bs"

lemma wave_pass_end: "wave_pass S P bs (Suc n) s = Ok (s\<lparr>ws_reads := ws_reads s + 1\<rparr>)"
  if "S (ws_reads s) \<noteq> STATE_PLAY \<or> ws_size s \<le> 0"
  using that by auto

text \<open>One turn of the inner loop: a full period, or the rest with silence after it.\<close>

definition pass_step :: "nat \<Rightarrow> bytes \<Rightarrow> wave_st \<Rightarrow> wave_st" where
  "pass_step P bs s =
    (if ws_size s \<ge> int P then
       s\<lparr>ws_reads := ws_reads s + 1,
         ws_calls := WaveWrite (take P (drop (ws_current s) bs)) # ws_calls s,
         ws_current := ws_current s + P, ws_size := ws_size s - int P\<rparr>
     else
       s\<lparr>ws_reads := ws_reads s + 1,
         ws_calls := WaveWrite (replicate (P - nat (ws_size s)) 0) #
           WaveWrite (take (nat (ws_size s)) (drop (ws_current s) bs)) # ws_calls s,
         ws_current := ws_current s + nat (ws_size s), ws_size := 0\<rparr>)"

lemma wave_pass_step:
  assumes "wave_fits P bs (ws_current s) (ws_size s)" "S (ws_reads s) = STATE_PLAY" "0 < ws_size s"
  shows "wave_pass S P bs (Suc n) s = wave_pass S P bs n (pass_step P bs s)"
proof -
  have "wave_copy bs (ws_current s) P = Ok (take P (drop (ws_current s) bs))" if "ws_size s \<ge> int P"
    using assms(1) that by (auto simp: wave_copy_def wave_fits_def)
  moreover have "wave_copy bs (ws_current s) (nat (ws_size s)) =
      Ok (take (nat (ws_size s)) (drop (ws_current s) bs))" if "\<not> ws_size s \<ge> int P"
    using assms(1) that by (auto simp: wave_copy_def wave_fits_def)
  ultimately show ?thesis
    using assms(2,3) by (simp add: pass_step_def wave_log_def Let_def)
qed

lemma pass_step_fits:
  assumes "wave_fits P bs (ws_current s) (ws_size s)"
  shows "wave_fits P bs (ws_current (pass_step P bs s)) (ws_size (pass_step P bs s))"
    "0 < ws_size s \<Longrightarrow> nat (ws_size (pass_step P bs s)) < nat (ws_size s)"
    "ws_reads (pass_step P bs s) = ws_reads s + 1"
    "length (wave_writes (ws_calls (pass_step P bs s))) \<le> length (wave_writes (ws_calls s)) + 2"
  using assms by (auto simp: pass_step_def wave_fits_def)

lemma padding_small: "0 < n \<Longrightarrow> n < P \<Longrightarrow> padding P n = P - n"
  by (simp add: padding_def)

lemma padding_minus: "P \<le> n \<Longrightarrow> padding P (n - P) = padding P n"
  by (simp add: padding_def le_mod_geq)

text \<open>An undisturbed pass writes all samples, and silence up to a full period.\<close>

lemma wave_pass_plays:
  assumes "wave_fits P bs (ws_current s) (ws_size s)" "nat (ws_size s) < n"
  shows "\<exists>s'. wave_pass (\<lambda>_. STATE_PLAY) P bs n s = Ok s' \<and>
    wave_bytes (ws_calls s') = wave_bytes (ws_calls s) @
      take (nat (ws_size s)) (drop (ws_current s) bs) @ replicate (padding P (nat (ws_size s))) 0"
  using assms
proof (induction n arbitrary: s)
  case (Suc n)
  show ?case
  proof (cases "0 < ws_size s")
    case False
    then show ?thesis
      using Suc.prems by (simp add: wave_pass_end wave_fits_def padding_def del: wave_pass.simps)
  next
    case True
    let ?t = "pass_step P bs s"
    note fits = pass_step_fits [OF Suc.prems(1)]
    have "nat (ws_size ?t) < n" using fits(2) [OF True] Suc.prems(2) by linarith
    from Suc.IH [OF fits(1) this] obtain s' where s': "wave_pass (\<lambda>_. STATE_PLAY) P bs n ?t = Ok s'"
      "wave_bytes (ws_calls s') = wave_bytes (ws_calls ?t) @
        take (nat (ws_size ?t)) (drop (ws_current ?t) bs) @ replicate (padding P (nat (ws_size ?t))) 0"
      by blast
    have "wave_bytes (ws_calls ?t) @ take (nat (ws_size ?t)) (drop (ws_current ?t) bs) @
        replicate (padding P (nat (ws_size ?t))) 0 =
      wave_bytes (ws_calls s) @ take (nat (ws_size s)) (drop (ws_current s) bs) @
        replicate (padding P (nat (ws_size s))) 0"
    proof (cases "ws_size s \<ge> int P")
      case True
      define m where "m = nat (ws_size s)"
      have m: "ws_size s = int m" "P \<le> m" using True Suc.prems(1) by (auto simp: m_def wave_fits_def)
      then have "take P (drop (ws_current s) bs) @ take (m - P) (drop (P + ws_current s) bs)
        = take m (drop (ws_current s) bs)"
        by (metis drop_drop le_add_diff_inverse take_add)
      with m show ?thesis
        by (simp add: pass_step_def padding_minus add.commute nat_diff_distrib)
    next
      case False
      then have "padding P (nat (ws_size s)) = P - nat (ws_size s)"
        using True by (intro padding_small) auto
      moreover have "padding P 0 = 0" by (simp add: padding_def)
      ultimately show ?thesis using False by (simp add: pass_step_def)
    qed
    with s' wave_pass_step [OF Suc.prems(1), of "\<lambda>_. STATE_PLAY" n] True show ?thesis
      by (simp del: wave_pass.simps)
  qed
qed simp

lemma wave_repeat_plays:
  assumes "wave_fits P bs off sz" "nat sz < fuel" "0 \<le> r" "nat r < turns"
    "ws_current s = off" "ws_size s = sz"
  shows "\<exists>s'. wave_repeat (\<lambda>_. STATE_PLAY) P bs fuel turns off sz r s = Ok s' \<and>
    wave_bytes (ws_calls s') = wave_bytes (ws_calls s) @
      concat (replicate (nat r) (take (nat sz) (drop off bs) @ replicate (padding P (nat sz)) 0))"
  using assms(3-6)
proof (induction turns arbitrary: r s)
  case (Suc turns)
  show ?case
  proof (cases "r = 0")
    case False
    let ?s1 = "s\<lparr>ws_reads := ws_reads s + 1\<rparr>"
    obtain s2 where s2: "wave_pass (\<lambda>_. STATE_PLAY) P bs fuel ?s1 = Ok s2"
      "wave_bytes (ws_calls s2) = wave_bytes (ws_calls s) @
        take (nat sz) (drop off bs) @ replicate (padding P (nat sz)) 0"
      using wave_pass_plays [of P bs ?s1 fuel] assms(1,2) Suc.prems(3,4) by auto
    have r: "nat r = Suc (nat (r - 1))" using False Suc.prems(1) by simp
    have r1: "0 \<le> r - 1" "nat (r - 1) < turns" using False Suc.prems(1,2) by auto
    have "ws_current (s2\<lparr>ws_current := off, ws_size := sz\<rparr>) = off"
      "ws_size (s2\<lparr>ws_current := off, ws_size := sz\<rparr>) = sz" by simp_all
    from Suc.IH [OF r1 this] s2 False Suc.prems(1) show ?thesis
      by (auto simp: r simp del: wave_pass.simps)
  qed simp
qed simp

text \<open>A pass ends whatever the state is, and writes at most twice for every time it read PLAY.\<close>

definition plays_seen :: "(nat \<Rightarrow> play_state) \<Rightarrow> nat \<Rightarrow> nat" where
  "plays_seen S n = card {k. k < n \<and> S k = STATE_PLAY}"

lemma plays_seen_Suc: "plays_seen S (Suc n) = plays_seen S n + (if S n = STATE_PLAY then 1 else 0)"
proof -
  have "{k. k < Suc n \<and> S k = STATE_PLAY} =
    (if S n = STATE_PLAY then insert n {k. k < n \<and> S k = STATE_PLAY} else {k. k < n \<and> S k = STATE_PLAY})"
    by (auto simp: less_Suc_eq)
  then show ?thesis by (simp add: plays_seen_def)
qed

lemma plays_seen_bound: "(\<And>k. m \<le> k \<Longrightarrow> S k \<noteq> STATE_PLAY) \<Longrightarrow> plays_seen S n \<le> m"
  using card_mono [of "{..<m}" "{k. k < n \<and> S k = STATE_PLAY}"]
  by (force simp: plays_seen_def not_le [symmetric])

lemma wave_pass_ends:
  assumes "wave_fits P bs (ws_current s) (ws_size s)" "nat (ws_size s) < n"
    "length (wave_writes (ws_calls s)) \<le> 2 * plays_seen S (ws_reads s)"
  shows "\<exists>s'. wave_pass S P bs n s = Ok s' \<and> ws_reads s < ws_reads s' \<and>
    length (wave_writes (ws_calls s')) \<le> 2 * plays_seen S (ws_reads s')"
  using assms
proof (induction n arbitrary: s)
  case (Suc n)
  show ?case
  proof (cases "S (ws_reads s) = STATE_PLAY \<and> 0 < ws_size s")
    case False
    then show ?thesis
      using Suc.prems(3) by (auto simp: wave_pass_end plays_seen_Suc simp del: wave_pass.simps)
  next
    case True
    note fits = pass_step_fits [OF Suc.prems(1)]
    have "nat (ws_size (pass_step P bs s)) < n" using fits(2) True Suc.prems(2) by linarith
    from Suc.IH [OF fits(1) this] Suc.prems(3) fits(3,4) True
      wave_pass_step [OF Suc.prems(1), of S n]
    show ?thesis by (auto simp: plays_seen_Suc simp del: wave_pass.simps)
  qed
qed simp

lemma wave_repeat_ends:
  assumes "wave_fits P bs off sz" "nat sz < fuel" "\<And>k. m \<le> k \<Longrightarrow> S k \<noteq> STATE_PLAY"
    "m - ws_reads s < turns" "ws_current s = off" "ws_size s = sz"
    "length (wave_writes (ws_calls s)) \<le> 2 * plays_seen S (ws_reads s)"
  shows "\<exists>s'. wave_repeat S P bs fuel turns off sz r s = Ok s' \<and>
    length (wave_writes (ws_calls s')) \<le> 2 * m"
  using assms(4-7)
proof (induction turns arbitrary: r s)
  case (Suc turns)
  have bound: "2 * plays_seen S n \<le> 2 * m" for n
    using plays_seen_bound [of m S n] assms(3) by simp
  show ?case
  proof (cases "r = 0 \<or> S (ws_reads s) \<noteq> STATE_PLAY")
    case True
    with Suc.prems(4) bound [of "ws_reads s"] show ?thesis by (cases "r = 0") auto
  next
    case False
    let ?s1 = "s\<lparr>ws_reads := ws_reads s + 1\<rparr>"
    have "length (wave_writes (ws_calls ?s1)) \<le> 2 * plays_seen S (ws_reads ?s1)"
      using Suc.prems(4) by (simp add: plays_seen_Suc)
    with wave_pass_ends [of P bs ?s1 fuel S] assms(1,2) Suc.prems(2,3) obtain s2 where
      s2: "wave_pass S P bs fuel ?s1 = Ok s2" "ws_reads s < ws_reads s2"
      "length (wave_writes (ws_calls s2)) \<le> 2 * plays_seen S (ws_reads s2)" by auto
    have "ws_reads s < m" using False assms(3) [of "ws_reads s"] by (auto simp: not_le [symmetric])
    then have t: "m - ws_reads s2 < turns" using Suc.prems(1) s2(2) by linarith
    let ?s3 = "s2\<lparr>ws_current := off, ws_size := sz\<rparr>"
    have "\<exists>s'. wave_repeat S P bs fuel turns off sz (if r = -1 then -1 else r - 1) ?s3 = Ok s' \<and>
      length (wave_writes (ws_calls s')) \<le> 2 * m"
      by (rule Suc.IH) (use t s2(3) in simp_all)
    with False s2(1) show ?thesis by (simp del: wave_pass.simps)
  qed
qed simp

end
