(* ===== verification/Wave_Props.thy ===== *)
theory Wave_Props
  imports Wave_Facts Codec_Props
begin

text \<open>
  The properties of the WAVE codec: parsing inverts writing, a parser loop that never ends, and the
  way from a file to the sound device through the codec manager.
\<close>

section \<open>Parsing\<close>

text \<open>What the parser reports of a file.\<close>

definition wave_info_of :: "wave_desc \<Rightarrow> codec_info" where
  "wave_info_of d = \<lparr>info_codec = MM_SOUND_SUPPORTED_CODEC_WAVE, info_channels = ucast (wd_channels d),
     info_samplerate = wd_rate d, info_format = ucast (wd_bits d),
     info_doffset = of_nat (length (wave_file d) - length (wd_data d)),
     info_size = of_nat (length (wd_data d))\<rparr>"

definition wave_fuel :: "wave_desc \<Rightarrow> nat" where
  "wave_fuel d = Suc (length (wd_before d) + length (wd_between d))"

lemma parse_chunks_file:
  assumes "wave_wf d" "wave_fuel d \<le> fuel" "src_bytes src = wave_file d @ slack"
    "cur_size src = of_nat (length (wave_file d))"
  shows "parse_chunks fuel src info = Ok (MM_ERROR_NONE, src, wave_info_of d)"
proof -
  let ?bs = "src_bytes src"
  define hd where "hd = le32 RIFF_CHUNK_ID @ le32 (of_nat (length (wave_body d) + 4)) @ le32 RIFF_CHUNK_TYPE"
  define p1 where "p1 = hd @ chunks (wd_before d)"
  define p2 where "p2 = p1 @ chunk FMT_CHUNK_ID (format_body d)"
  define p3 where "p3 = p2 @ chunks (wd_between d)"
  have lhd: "length hd = 12" by (simp add: hd_def)
  have len: "length (wave_file d) < 2 ^ 32" using assms(1) by (simp add: wave_wf_def)
  have dl: "unat (cur_size src) = length (wave_file d)"
    by (simp add: assms(4) unat_small [OF len])
  have contents: "wave_file d = p3 @ chunk DATA_CHUNK_ID (wd_data d)"
    by (simp add: wave_file_def wave_body_def p3_def p2_def p1_def hd_def)
  then have l3: "length p3 + 8 + length (wd_data d) = length (wave_file d)" by simp
  have l: "length p1 < length (wave_file d)" "length p3 < length (wave_file d)" "length p1 < 2 ^ 32"
    "length p3 < 2 ^ 32"
    using l3 len by (simp_all add: p3_def p2_def)
  obtain post1 where post1: "?bs = hd @ chunks (wd_before d) @ le32 FMT_CHUNK_ID @ post1"
    by (simp add: assms(3) contents p3_def p2_def p1_def chunk_def)
  obtain post2 where post2: "?bs = p2 @ chunks (wd_between d) @ le32 DATA_CHUNK_ID @ post2"
    by (simp add: assms(3) contents p3_def chunk_def)
  have s1: "seek_chunk fuel ?bs FMT_CHUNK_ID (cur_size src) 12 = Ok (Some (of_nat (length p1)))"
    using seek_chunk_finds [of FMT_CHUNK_ID "wd_before d" hd "cur_size src" fuel ?bs post1]
      assms(1,2) l(1) post1 by (simp add: dl lhd p1_def wave_wf_def wave_fuel_def)
  have s2: "seek_chunk fuel ?bs DATA_CHUNK_ID (cur_size src) (of_nat (length p2)) = Ok (Some (of_nat (length p3)))"
    using seek_chunk_finds [of DATA_CHUNK_ID "wd_between d" p2 "cur_size src" fuel ?bs post2]
      assms(1,2) l(2) post2 by (simp add: dl p3_def wave_wf_def wave_fuel_def)
  have rf: "read_format ?bs (unat (of_nat (length p1) :: 32 word)) =
    Ok (Some (wd_channels d, wd_rate d, wd_bits d, of_nat (length (format_body d))))"
    using read_format_file [of d p1] assms(1)
    by (simp add: unat_small [OF l(3)] assms(3) contents p3_def p2_def wave_wf_def)
  have nxt: "of_nat (length p1) + (of_nat (length (format_body d)) + 8) = (of_nat (length p2) :: 32 word)"
    by (simp add: p2_def)
  have sz: "rd32 ?bs (length p3 + 4) = Ok (of_nat (length (wd_data d)))"
    by (simp add: assms(3) contents rd_behind chunk_def)
  have off: "of_nat (length p3) + 8 = (of_nat (length (wave_file d) - length (wd_data d)) :: 32 word)"
    using l3 by (metis add_diff_cancel_right' of_nat_add of_nat_numeral)
  show ?thesis
    by (simp add: parse_chunks_def s1 rf nxt s2 unat_small [OF l(4)] sz off wave_info_of_def Let_def
        del: of_nat_add)
qed

lemma wave_parse_file:
  assumes "wave_wf d" "wave_fuel d \<le> fuel" "src_bytes src = wave_file d @ slack"
    "cur_size src = of_nat (length (wave_file d))"
  shows "wave_parse fuel src info = Ok (MM_ERROR_NONE, src, wave_info_of d) \<and>
    take (unat (info_size (wave_info_of d))) (drop (unat (info_doffset (wave_info_of d))) (src_bytes src))
      = wd_data d"
proof -
  have len: "length (wave_file d) < 2 ^ 32" using assms(1) by (simp add: wave_wf_def)
  have contents: "wave_file d @ slack = le32 RIFF_CHUNK_ID @ le32 (of_nat (length (wave_body d) + 4)) @
    le32 RIFF_CHUNK_TYPE @ (wave_body d @ slack)" by (simp add: wave_file_def)
  have rds: "rd32 (src_bytes src) 0 = Ok RIFF_CHUNK_ID" "rd32 (src_bytes src) 8 = Ok RIFF_CHUNK_TYPE"
    "rd32 (src_bytes src) 4 = Ok (of_nat (length (wave_body d) + 4))"
    by (simp_all only: assms(3) contents) simp_all
  have size: "of_nat (length (wave_body d) + 4) = cur_size src - 8"
    by (simp add: assms(4) wave_file_def)
  have "length (wd_data d) \<le> length (wave_file d)" by (simp add: wave_file_def wave_body_def)
  moreover obtain pre where pre: "wave_file d = pre @ wd_data d"
    by (simp add: wave_file_def wave_body_def chunk_def)
  ultimately have "take (unat (info_size (wave_info_of d)))
    (drop (unat (info_doffset (wave_info_of d))) (src_bytes src)) = wd_data d"
    using len by (simp add: wave_info_of_def unat_small assms(3))
  then show ?thesis
    using rds size parse_chunks_file [OF assms] by (simp add: wave_parse_def Let_def)
qed

lemma wave_file_data: "length (wd_data d) \<le> length (wave_file d)"
  by (simp add: wave_file_def wave_body_def)

lemma wave_offsets:
  assumes "wave_wf d"
  shows "unat (info_doffset (wave_info_of d)) = length (wave_file d) - length (wd_data d)"
    "unat (info_size (wave_info_of d)) = length (wd_data d)"
  using assms wave_file_data [of d] unfolding wave_info_of_def codec_info.simps wave_wf_def
  by (simp_all only: unat_small less_imp_diff_less le_less_trans)


definition ex_wave :: wave_desc where
  "ex_wave = \<lparr>wd_channels = 1, wd_rate = 8000, wd_bits = 16, wd_before = [(0x5453494C, [1, 2, 3])],
     wd_extension = [], wd_between = [(0x74636166, [0, 0, 0, 0])], wd_data = [10, 20, 30, 40, 50]\<rparr>"

definition wave_source :: "wave_desc \<Rightarrow> mm_source" where
  "wave_source d = \<lparr>src_addr = 0x8000, src_type = MM_SOURCE_FILE, src_ptr = 0x1000, src_bytes = wave_file d,
     cur_size = of_nat (length (wave_file d)), tot_size = of_nat (length (wave_file d)), src_fd = 3, med_offset = 0\<rparr>"

lemma ex_wave_wf: "wave_wf ex_wave"
proof -
  have "FMT_CHUNK_ID \<notin> fst ` set (wd_before ex_wave)" "DATA_CHUNK_ID \<notin> fst ` set (wd_between ex_wave)"
    by (simp_all add: ex_wave_def FMT_CHUNK_ID_def DATA_CHUNK_ID_def make_fourcc_def)
  moreover have "unat (drop_bit 3 (wd_bits ex_wave)) * unat (wd_channels ex_wave) < 2 ^ 16"
    by (simp add: ex_wave_def drop_bit_eq_div)
  moreover have "length (wave_file ex_wave) = 72"
    by (simp add: wave_file_def wave_body_def format_body_def ex_wave_def)
  ultimately show ?thesis by (simp add: wave_wf_def)
qed


text \<open>
  A file whose first chunk is not the format chunk and has the size -8 makes the parser loop for
  ever, whatever follows: the offset does not advance.
\<close>

lemma wave_endless_chunk:
  assumes "rd32 (src_bytes src) 0 = Ok RIFF_CHUNK_ID" "rd32 (src_bytes src) 8 = Ok RIFF_CHUNK_TYPE"
    "rd32 (src_bytes src) 4 = Ok (cur_size src - 8)" "12 < cur_size src"
    "rd32 (src_bytes src) 12 = Ok i" "i \<noteq> FMT_CHUNK_ID" "rd32 (src_bytes src) 16 = Ok (-8)"
  shows "wave_parse fuel src info = Endless"
proof -
  have "seek_chunk fuel (src_bytes src) FMT_CHUNK_ID (cur_size src) 12 = Endless"
    using assms(4-7) by (induction fuel) simp_all
  with assms(1-3) show ?thesis by (simp add: wave_parse_def parse_chunks_def Let_def)
qed

definition ex_endless :: mm_source where
  "ex_endless = \<lparr>src_addr = 0x8000, src_type = MM_SOURCE_FILE, src_ptr = 0x1000,
     src_bytes = le32 RIFF_CHUNK_ID @ le32 12 @ le32 RIFF_CHUNK_TYPE @ le32 0 @ le32 (-8),
     cur_size = 20, tot_size = 20, src_fd = 3, med_offset = 0\<rparr>"

section \<open>Playing\<close>

lemma wave_running_plays:
  assumes "wave_fits (wv_period q) (src_bytes (wv_source q)) (wv_current q) (wv_size q)"
    "nat (wv_size q) < fuel" "0 \<le> wv_repeat_count q" "nat (wv_repeat_count q) < turns" "dummy_ok D"
  shows "\<exists>q' cs. wave_running (\<lambda>_. STATE_PLAY) D fuel turns q = Ok (q', cs) \<and>
    wave_bytes cs = concat (replicate (nat (wv_repeat_count q))
      (take (nat (wv_size q)) (drop (wv_current q) (src_bytes (wv_source q))) @
       replicate (padding (wv_period q) (nat (wv_size q))) 0)) \<and>
    (wv_stop_cb q \<noteq> 0 \<longrightarrow> WaveStopCb (wv_stop_cb q) (wv_cb_param q) \<in> set cs)"
proof -
  have path: "wave_writes (wave_set_path D r) = []" "wave_writes (wave_restore_path D r @ cs) = wave_writes cs"
    for r cs
    by (auto simp: wave_set_path_def wave_restore_path_def split: wave_route.split)
  let ?s = "\<lparr>ws_current = wv_current q, ws_size = wv_size q, ws_reads = 0,
    ws_calls = wave_set_path D (wv_handle_route q)\<rparr>"
  from wave_repeat_plays [OF assms(1-4), of ?s] obtain s' where s':
    "wave_repeat (\<lambda>_. STATE_PLAY) (wv_period q) (src_bytes (wv_source q)) fuel turns (wv_current q)
       (wv_size q) (wv_repeat_count q) ?s = Ok s'"
    "wave_bytes (ws_calls s') = concat (replicate (nat (wv_repeat_count q))
      (take (nat (wv_size q)) (drop (wv_current q) (src_bytes (wv_source q))) @
       replicate (padding (wv_period q) (nat (wv_size q))) 0))" by (auto simp: path wave_bytes_def)
  with assms(5) show ?thesis by (auto simp: wave_running_def wave_bytes_def Let_def path)
qed

text \<open>
  When every state read from the m-th on is not PLAY, the thread ends, also when it is to repeat
  for ever, with at most two writes for every state it read before; then the device is drained and
  closed and the callback is called.
\<close>

lemma wave_stops:
  assumes "wave_fits (wv_period q) (src_bytes (wv_source q)) (wv_current q) (wv_size q)"
    "nat (wv_size q) < fuel" "\<And>k. m \<le> k \<Longrightarrow> S k \<noteq> STATE_PLAY" "m < turns" "dummy_ok D"
  shows "\<exists>q' cs. wave_running S D fuel turns q = Ok (q', cs) \<and> wv_state q' = STATE_NONE \<and>
    length (wave_writes cs) \<le> 2 * m \<and> WaveDrain \<in> set cs \<and> WaveClose (wv_audio_handle q) \<in> set cs \<and>
    (wv_stop_cb q \<noteq> 0 \<longrightarrow> WaveStopCb (wv_stop_cb q) (wv_cb_param q) \<in> set cs)"
proof -
  define T where "T = (if S 0 = STATE_STOP then (\<lambda>k. STATE_STOP) else (\<lambda>k. S (Suc k)))"
  have T: "m \<le> k \<Longrightarrow> T k \<noteq> STATE_PLAY" for k using assms(3) by (simp add: T_def)
  have path: "wave_writes (wave_set_path D r) = []" "wave_writes (wave_restore_path D r @ cs) = wave_writes cs"
    for r cs
    by (auto simp: wave_set_path_def wave_restore_path_def split: wave_route.split)
  let ?s = "\<lparr>ws_current = wv_current q, ws_size = wv_size q, ws_reads = 0,
    ws_calls = wave_set_path D (wv_handle_route q)\<rparr>"
  have "\<exists>s'. wave_repeat T (wv_period q) (src_bytes (wv_source q)) fuel turns (wv_current q)
      (wv_size q) (wv_repeat_count q) ?s = Ok s' \<and> length (wave_writes (ws_calls s')) \<le> 2 * m"
    by (rule wave_repeat_ends [OF assms(1,2) T]) (use assms(4) in \<open>simp_all add: path\<close>)
  then obtain s' where s': "wave_repeat T (wv_period q) (src_bytes (wv_source q)) fuel turns (wv_current q)
      (wv_size q) (wv_repeat_count q) ?s = Ok s'" "length (wave_writes (ws_calls s')) \<le> 2 * m" by blast
  with assms(5) show ?thesis by (auto simp: wave_running_def T_def [symmetric] Let_def path)
qed


definition ex_wave_info :: wave_info where
  "ex_wave_info = \<lparr>wv_current = 0, wv_size = 5, wv_transper_size = 0, wv_audio_handle = 4, wv_period = 2,
     wv_tone = 0, wv_repeat_count = -1, wv_stop_cb = 1, wv_cb_param = 0, wv_state = STATE_BEGIN,
     wv_source = zero_source\<lparr>src_bytes := [1, 2, 3, 4, 5], cur_size := 5, tot_size := 5\<rparr>,
     wv_handle_route = MM_SOUND_HANDLE_ROUTE_SPEAKER\<rparr>"

definition ex_wave_dev :: wave_dev where
  "ex_wave_dev = \<lparr>dummy_ok = True, path_before = (0, 0, 0, 0), path_after = (1, 1, 0, 0), path_spk = 1,
     path_to_spk = (1, 1, 0, 0)\<rparr>"

section \<open>From a file to the device, through the codec manager\<close>

interpretation wave_plugin: codec_plugin "wave_interface fuel E" wave_winv "\<lambda>w. dom (wave_heap w)"
  for fuel E by (rule wave_is_plugin)

text \<open>The thread has changed its own data before it calls back.\<close>

definition wave_put :: "int \<Rightarrow> wave_info \<Rightarrow> wave_world codec \<Rightarrow> wave_world codec" where
  "wave_put a q s = s\<lparr>cworld := (cworld s)\<lparr>wave_heap := (wave_heap (cworld s))(a \<mapsto> q)\<rparr>\<rparr>"

lemma find_codec_wave:
  assumes "wave_wf d" "wave_fuel d \<le> fuel" "src_bytes src = wave_file d @ slack"
    "cur_size src = of_nat (length (wave_file d))"
  shows "find_codec (Some (wave_interface fuel E) # ps) 0 src info = Some (Found 0 src (wave_info_of d))"
  using wave_parse_file [OF assms] by (simp add: wave_interface_def wave_Parse_def)

lemma wave_create_ok:
  assumes "wave_create E p info = (Inr q, cs)"
  shows "wv_current q = unat (info_doffset info) \<and> wv_size q = sint (info_size info) \<and>
    wv_period q = wave_open_period E \<and> wv_repeat_count q = codec_repeat_count p \<and>
    wv_stop_cb q = codec_stop_cb p \<and> wv_cb_param q = codec_cb_param p \<and> wv_source q = codec_source p"
  using assms by (auto simp: wave_create_def split: if_splits)

lemma wave_played_entry:
  assumes "Create (wave_interface fuel E) p info w = (MM_ERROR_NONE, Some a, w1)"
    "Play (wave_interface fuel E) a w1 = (MM_ERROR_NONE, w2)"
  shows "\<exists>q cs. wave_create (E w) p info = (Inr q, cs) \<and> wave_heap w2 a = Some (q\<lparr>wv_state := STATE_BEGIN\<rparr>)"
  using assms
  by (auto simp: wave_interface_def wave_Create_def wave_on_heap_def wave_play_def wave_create_def
      split: sum.splits prod.splits if_splits option.splits)

lemma sint_small: "n < 2 ^ 31 \<Longrightarrow> sint (of_nat n :: 32 word) = int n"
  using int_word_sint [of "int n", where ?'a = 32] by simp


lemma wave_put_frees:
  assumes "wave_winv (cworld s)" "plugin_of s i = Some (wave_interface fuel E)"
    "sl_plughandle (slots s ! i) = a" "a \<in> dom (wave_heap (cworld s))"
  shows "\<exists>s2. codec_stop_callback i (wave_put a q s) = Some (MM_ERROR_NONE, s2) \<and>
    slots s2 = (slots s)[i := zero_slot] \<and> dom (wave_heap (cworld s2)) = dom (wave_heap (cworld s)) - {a}"
proof -
  let ?t = "wave_put a q s"
  have t: "slots ?t = slots s" "plugin_of ?t i = plugin_of s i"
    "dom (wave_heap (cworld ?t)) = dom (wave_heap (cworld s))" "wave_winv (cworld ?t)"
    using assms(1,4) by (auto simp: wave_put_def plugin_of_def wave_winv_def)
  from wave_plugin.stop_callback_frees [OF t(4), of i fuel E] assms(2-4) show ?thesis
    unfolding t(1-3) by blast
qed

text \<open>
  C9: a sound in a WAVE file that the codec manager starts is played as it was written: its thread,
  when nothing stops it, writes the samples, each time with silence up to a full period, as often as
  requested, and calls back with the number of the slot; the callback then frees the slot and the
  handle of the plugin, so that both are as before.
\<close>

theorem wave_playback:
  assumes "wave_wf d" "wave_fuel d \<le> fuel" "src_bytes (mp_source p) = wave_file d @ slack"
    "cur_size (mp_source p) = of_nat (length (wave_file d))" "length (wd_data d) < 2 ^ 31"
    "plugins s = Some (wave_interface fuel E) # ps" "wave_winv (cworld s)"
    "mp_keytone p \<noteq> 1" "mp_keytone p \<noteq> 2" "0 \<le> mp_repeat_count p"
    "0 < wave_open_period (E (cworld s))" "wave_open_period (E (cworld s)) \<le> WAVE_BUFFER_SIZE"
    "codec_play F p k s = Some (MM_ERROR_NONE, slot, s1)"
    "dummy_ok D" "length (wd_data d) < n" "nat (mp_repeat_count p) < turns"
  shows "\<exists>i a q q' cs s2. slot = int i \<and> find_status STATUS_IDLE (slots s) = Some i \<and>
    sl_plughandle (slots s1 ! i) = a \<and> wave_heap (cworld s1) a = Some q \<and>
    wave_running (\<lambda>_. STATE_PLAY) D n turns q = Ok (q', cs) \<and>
    wave_bytes cs = concat (replicate (nat (mp_repeat_count p)) (wd_data d @
      replicate (padding (wave_open_period (E (cworld s))) (length (wd_data d))) 0)) \<and>
    WaveStopCb 1 (int i) \<in> set cs \<and>
    codec_stop_callback i (wave_put a q' s1) = Some (MM_ERROR_NONE, s2) \<and>
    slots s2 = (slots s)[i := zero_slot] \<and> dom (wave_heap (cworld s2)) = dom (wave_heap (cworld s))"
proof -
  note parsed = wave_parse_file [OF assms(1-4)]
  have found: "find_codec (plugins s) 0 (mp_source p) (junk_info F) = Some (Found 0 (mp_source p) (wave_info_of d))"
    unfolding assms(6) by (rule find_codec_wave [OF assms(1-4)])
  have p0: "plugins s ! 0 = Some (wave_interface fuel E)" "0 < length (plugins s)" by (simp_all add: assms(6))
  from wave_plugin.play_cycle [OF assms(7) found p0 assms(8,9,13)] obtain i a kt w x where c:
    "slot = int i" "find_status STATUS_IDLE (slots s) = Some i" "sl_plughandle (slots s1 ! i) = a"
    "a \<notin> dom (wave_heap (cworld s))" "wave_winv (cworld s1)"
    "Create (wave_interface fuel E) (plugin_param kt (mp_priority p) i p (mp_source p)) (wave_info_of d)
      (cworld s) = (MM_ERROR_NONE, Some a, w)"
    "Play (wave_interface fuel E) a w = (MM_ERROR_NONE, cworld s1)"
    "dom (wave_heap (cworld s1)) = insert a (dom (wave_heap (cworld s)))"
    "plugin_of s1 i = Some (wave_interface fuel E)" "slots s1 = (slots s)[i := x]" by blast
  from wave_played_entry [OF c(6,7)] obtain q0 cs0 where q0:
    "wave_create (E (cworld s)) (plugin_param kt (mp_priority p) i p (mp_source p)) (wave_info_of d) = (Inr q0, cs0)"
    "wave_heap (cworld s1) a = Some (q0\<lparr>wv_state := STATE_BEGIN\<rparr>)" by blast
  let ?q = "q0\<lparr>wv_state := STATE_BEGIN\<rparr>"
  let ?n = "length (wd_data d)" and ?P = "wave_open_period (E (cworld s))"
  from wave_create_ok [OF q0(1)] have fields: "wv_size ?q = int ?n" "wv_period ?q = ?P"
    "wv_current ?q = unat (info_doffset (wave_info_of d))" "src_bytes (wv_source ?q) = src_bytes (mp_source p)"
    "wv_repeat_count ?q = mp_repeat_count p" "wv_stop_cb ?q = 1" "wv_cb_param ?q = int i"
    using assms(5) by (simp_all add: plugin_param_def wave_info_of_def sint_small)
  have data: "take ?n (drop (wv_current ?q) (src_bytes (wv_source ?q))) = wd_data d"
    "wv_current ?q + ?n \<le> length (src_bytes (wv_source ?q))"
    using parsed [THEN conjunct2] wave_file_data [of d]
    by (simp_all only: fields wave_offsets [OF assms(1)]) (simp add: assms(3))
  have fits: "wave_fits (wv_period ?q) (src_bytes (wv_source ?q)) (wv_current ?q) (wv_size ?q)"
    using data(2) assms(11,12) by (simp add: wave_fits_def fields)
  obtain q' cs where run: "wave_running (\<lambda>_. STATE_PLAY) D n turns ?q = Ok (q', cs)"
    "wave_bytes cs = concat (replicate (nat (mp_repeat_count p)) (wd_data d @ replicate (padding ?P ?n) 0))"
    "WaveStopCb 1 (int i) \<in> set cs"
    using wave_running_plays [OF fits, of n turns D] data(1) assms(10,14-16) by (auto simp: fields)
  from wave_put_frees [OF c(5,9,3)] c(8) obtain s2 where s2:
    "codec_stop_callback i (wave_put a q' s1) = Some (MM_ERROR_NONE, s2)"
    "slots s2 = (slots s1)[i := zero_slot]" "dom (wave_heap (cworld s2)) = dom (wave_heap (cworld s1)) - {a}"
    by blast
  show ?thesis
    by (intro exI [of _ i] exI [of _ a] exI [of _ ?q] exI [of _ q'] exI [of _ cs] exI [of _ s2])
      (use c(1-4) q0(2) run s2 c(8,10) in simp)
qed


definition ex_wave_env :: "wave_world \<Rightarrow> wave_env" where
  "ex_wave_env w = \<lparr>wave_pool_set = True, wave_malloc_ok = True, wave_open_handle = 4, wave_open_period = 2\<rparr>"

definition ex_wave_codec :: "wave_world codec" where
  "ex_wave_codec = \<lparr>slots = [zero_slot], plugins = [Some (wave_interface 3 ex_wave_env), None, None],
     cworld = \<lparr>wave_heap = Map.empty, wave_next = 1, wave_calls = [],
       wave_sys = \<lparr>open_fds = [3], mappings = [], blocks = [], structs = [0x8000]\<rparr>\<rparr>, ccalls = []\<rparr>"

definition ex_wave_param :: mgr_param where
  "ex_wave_param = (ex_mgr_param 2)\<lparr>mp_source := wave_source ex_wave\<rparr>"

lemma ex_wave_source:
  "wave_fuel ex_wave \<le> 3" "src_bytes (mp_source ex_wave_param) = wave_file ex_wave @ []"
  "cur_size (mp_source ex_wave_param) = of_nat (length (wave_file ex_wave))"
  by (simp_all add: ex_wave_param_def wave_source_def wave_fuel_def ex_wave_def)

lemma ex_wave_play:
  "\<exists>s1. codec_play ex_codec_env ex_wave_param 0 ex_wave_codec = Some (MM_ERROR_NONE, 0, s1)"
proof -
  have found: "find_codec (plugins ex_wave_codec) 0 (mp_source ex_wave_param) (junk_info ex_codec_env)
      = Some (Found 0 (mp_source ex_wave_param) (wave_info_of ex_wave))"
    unfolding ex_wave_codec_def codec.simps by (rule find_codec_wave [OF ex_wave_wf ex_wave_source])
  have size: "0 < sint (info_size (wave_info_of ex_wave))"
    by (simp add: wave_info_of_def ex_wave_def)
  have parts: "slots ex_wave_codec = [zero_slot]"
    "plugins ex_wave_codec = [Some (wave_interface 3 ex_wave_env), None, None]"
    "cworld ex_wave_codec = \<lparr>wave_heap = Map.empty, wave_next = 1, wave_calls = [],
       wave_sys = \<lparr>open_fds = [3], mappings = [], blocks = [], structs = [0x8000]\<rparr>\<rparr>"
    by (simp_all add: ex_wave_codec_def)
  show ?thesis
    unfolding codec_play_def found using size
    by (simp add: parts ex_wave_param_def ex_mgr_param_def ex_codec_env_def ex_wave_env_def
        wave_interface_def wave_Create_def wave_create_def wave_on_heap_def wave_play_def start_sound_def
        codec_register_def plugin_param_def needs_asm_def keytone_status_def stop_same_kind_def
        get_empty_slot_def zero_slot_def codec_simps Let_def)
qed

theorem wave_playback_witness:
  "\<exists>s1 q q' cs. codec_play ex_codec_env ex_wave_param 0 ex_wave_codec = Some (MM_ERROR_NONE, 0, s1) \<and>
    wave_heap (cworld s1) (sl_plughandle (slots s1 ! 0)) = Some q \<and>
    wave_running (\<lambda>_. STATE_PLAY) ex_wave_dev 6 3 q = Ok (q', cs) \<and>
    wave_bytes cs = [10, 20, 30, 40, 50, 0, 10, 20, 30, 40, 50, 0]"
proof -
  from ex_wave_play obtain s1 where
    s1: "codec_play ex_codec_env ex_wave_param 0 ex_wave_codec = Some (MM_ERROR_NONE, 0, s1)" ..
  have "length (wd_data ex_wave) < 2 ^ 31" "wave_winv (cworld ex_wave_codec)"
    "plugins ex_wave_codec = Some (wave_interface 3 ex_wave_env) # [None, None]"
    "0 \<le> mp_repeat_count ex_wave_param" "mp_keytone ex_wave_param \<noteq> 1" "mp_keytone ex_wave_param \<noteq> 2"
    by (simp_all add: ex_wave_def ex_wave_codec_def ex_wave_param_def ex_mgr_param_def wave_winv_def)
  moreover have "0 < wave_open_period (ex_wave_env (cworld ex_wave_codec))"
    "wave_open_period (ex_wave_env (cworld ex_wave_codec)) \<le> WAVE_BUFFER_SIZE" "dummy_ok ex_wave_dev"
    "length (wd_data ex_wave) < 6" "nat (mp_repeat_count ex_wave_param) < 3"
    by (simp_all add: ex_wave_env_def WAVE_BUFFER_SIZE_def ex_wave_dev_def ex_wave_def ex_wave_param_def
        ex_mgr_param_def)
  ultimately have "\<exists>i a q q' cs s2. (0::int) = int i \<and>
    find_status STATUS_IDLE (slots ex_wave_codec) = Some i \<and>
    sl_plughandle (slots s1 ! i) = a \<and> wave_heap (cworld s1) a = Some q \<and>
    wave_running (\<lambda>_. STATE_PLAY) ex_wave_dev 6 3 q = Ok (q', cs) \<and>
    wave_bytes cs = concat (replicate (nat (mp_repeat_count ex_wave_param)) (wd_data ex_wave @
      replicate (padding (wave_open_period (ex_wave_env (cworld ex_wave_codec))) (length (wd_data ex_wave))) 0)) \<and>
    WaveStopCb 1 (int i) \<in> set cs \<and>
    codec_stop_callback i (wave_put a q' s1) = Some (MM_ERROR_NONE, s2) \<and>
    slots s2 = (slots ex_wave_codec)[i := zero_slot] \<and>
    dom (wave_heap (cworld s2)) = dom (wave_heap (cworld ex_wave_codec))"
    using s1 by (intro wave_playback [OF ex_wave_wf ex_wave_source])
  then obtain q q' cs where "wave_heap (cworld s1) (sl_plughandle (slots s1 ! 0)) = Some q"
    "wave_running (\<lambda>_. STATE_PLAY) ex_wave_dev 6 3 q = Ok (q', cs)"
    "wave_bytes cs = concat (replicate (nat (mp_repeat_count ex_wave_param)) (wd_data ex_wave @
      replicate (padding (wave_open_period (ex_wave_env (cworld ex_wave_codec))) (length (wd_data ex_wave))) 0))"
    by auto
  moreover have "nat (mp_repeat_count ex_wave_param) = Suc (Suc 0)"
    "padding (wave_open_period (ex_wave_env (cworld ex_wave_codec))) (length (wd_data ex_wave)) = Suc 0"
    "wd_data ex_wave = [10, 20, 30, 40, 50]"
    by (simp_all add: ex_wave_env_def ex_wave_def ex_wave_param_def ex_mgr_param_def padding_def)
  ultimately show ?thesis
    using s1 by (intro exI [of _ s1] exI [of _ q] exI [of _ q'] exI [of _ cs]) simp
qed

end
