(* ===== verification/Source_Props.thy ===== *)
theory Source_Props
  imports Wave_Props
begin

text \<open>
  The properties of media sources: a memory source is a bounded buffer, what opening and closing a
  file does to descriptors and mappings, and that a WAVE file, plain or in a DM container, is parsed
  as it was written once it has been opened.
\<close>

section \<open>Memory sources\<close>

text \<open>The contents a source of \<^verbatim>\<open>tot\<close> bytes should have: every piece that still fits is kept.\<close>

fun fill :: "nat \<Rightarrow> bytes \<Rightarrow> bytes list \<Rightarrow> bytes" where
  "fill tot bs [] = bs"
| "fill tot bs (p # ps) = fill tot (if length bs + length p \<le> tot then bs @ p else bs) ps"

fun append_all :: "bytes list \<Rightarrow> mm_source \<Rightarrow> mm_source access" where
  "append_all [] src = Ok src"
| "append_all (p # ps) src =
    andthen (mm_source_append_memory p (int (length p)) src) (\<lambda>(e, src'). append_all ps src')"

definition source_holds :: "mm_source \<Rightarrow> nat \<Rightarrow> bytes \<Rightarrow> bool" where
  "source_holds src tot bs \<longleftrightarrow> length (src_bytes src) = tot \<and> tot_size src = of_nat tot \<and>
     cur_size src = of_nat (length bs) \<and> length bs \<le> tot \<and> take (length bs) (src_bytes src) = bs"

lemma append_holds:
  assumes "source_holds src tot bs" "tot < 2 ^ 31" "length p < 2 ^ 31"
  shows "\<exists>e src'. mm_source_append_memory p (int (length p)) src = Ok (e, src') \<and>
    source_holds src' tot (if length bs + length p \<le> tot then bs @ p else bs) \<and>
    (e = MM_ERROR_NONE \<longleftrightarrow> length bs + length p \<le> tot)"
proof -
  have h: "length (src_bytes src) = tot" "tot_size src = of_nat tot"
    "cur_size src = of_nat (length bs)" "length bs \<le> tot" "take (length bs) (src_bytes src) = bs"
    using assms(1) by (simp_all add: source_holds_def)
  have u: "unat (of_nat (length bs + length p) :: 32 word) = length bs + length p"
    "unat (of_nat tot :: 32 word) = tot" "unat (of_nat (length bs) :: 32 word) = length bs"
    using assms(2,3) h(4) by (auto intro!: unat_small simp del: of_nat_add)
  have sum: "cur_size src + of_int (int (length p)) = of_nat (length bs + length p)" by (simp add: h(3))
  have full: "cur_size src + of_int (int (length p)) > tot_size src \<longleftrightarrow> \<not> length bs + length p \<le> tot"
    by (simp only: sum h(2) word_less_nat_alt u) linarith
  show ?thesis
  proof (cases "length bs + length p \<le> tot")
    case True
    have "\<not> cur_size src + of_int (int (length p)) > tot_size src" using full True by blast
    then show ?thesis
      using True h sum by (simp add: mm_source_append_memory_def source_holds_def u(3) Let_def)
  next
    case False
    have "cur_size src + of_int (int (length p)) > tot_size src" using full False by blast
    with False assms(1) show ?thesis by (simp add: mm_source_append_memory_def)
  qed
qed

lemma append_all_holds:
  assumes "source_holds src tot bs" "tot < 2 ^ 31" "list_all (\<lambda>p. length p < 2 ^ 31) ps"
  shows "\<exists>src'. append_all ps src = Ok src' \<and> source_holds src' tot (fill tot bs ps)"
  using assms(1,3)
proof (induction ps arbitrary: src bs)
  case (Cons p ps)
  from Cons.prems obtain e src1 where s1: "mm_source_append_memory p (int (length p)) src = Ok (e, src1)"
    "source_holds src1 tot (if length bs + length p \<le> tot then bs @ p else bs)"
    using append_holds [OF Cons.prems(1) assms(2), of p] by auto
  from Cons.IH [OF s1(2)] Cons.prems(2) s1(1) show ?case by simp
qed simp

text \<open>
  A memory source is a bounded buffer: opened with a first piece and extended by others, it holds
  exactly the pieces that fitted when they came, in order, and no piece is ever written behind the
  block or reported as stored when it was not.
\<close>

lemma memory_source_fills:
  assumes "fst block \<noteq> 0" "length (snd block) = tot" "tot < 2 ^ 31"
    "list_all (\<lambda>p. length p < 2 ^ 31) (p # ps)"
  shows "\<exists>src'. andthen (mm_source_open_memory block p (int tot) (int (length p)) src sys)
      (\<lambda>(e, s, sys'). append_all ps s) = Ok src' \<and> source_holds src' tot (fill tot [] (p # ps))"
proof -
  let ?s = "src\<lparr>src_type := MM_SOURCE_MEMORY, src_ptr := fst block, src_bytes := snd block, cur_size := 0,
    tot_size := of_int (int tot), src_fd := -1\<rparr>"
  have "source_holds ?s tot []" using assms(2) by (simp add: source_holds_def)
  from append_all_holds [OF this assms(3,4)] obtain src' where
    "append_all (p # ps) ?s = Ok src'" "source_holds src' tot (fill tot [] (p # ps))" by blast
  moreover have "andthen (mm_source_open_memory block p (int tot) (int (length p)) src sys)
      (\<lambda>(e, s, sys'). append_all ps s) = append_all (p # ps) ?s"
    using assms(1)
    by (cases "mm_source_append_memory p (int (length p)) ?s") (auto simp: mm_source_open_memory_def)
  ultimately show ?thesis by simp
qed

definition ex_sys :: src_sys where
  "ex_sys = \<lparr>open_fds = [0, 1, 2], mappings = [], blocks = [], structs = []\<rparr>"

section \<open>What a file source holds\<close>

lemma open_file_frame:
  assumes "mm_source_open_file E (Some f) drm src sys = Ok (e, src', sys')"
    "fe_map E = MAP_FAILED \<or> fe_map E AND 0xFFF = 0" "MAP_FAILED \<notin> fst ` set (mappings sys)"
  shows "(e = MM_ERROR_NONE \<longrightarrow> release_source src' sys' = sys \<and> src_fd src' \<in> set (open_fds sys')) \<and>
    (e \<noteq> MM_ERROR_NONE \<longrightarrow> src' = src \<and>
       sys' = (if \<not> (drm \<and> is_drm_file f) \<and> fe_open E \<noteq> -1 \<and> fe_fstat E \<and> dm_header E = None \<and>
                  map lower_char (drop (length f - 2) f) = ''dm''
               then sys\<lparr>open_fds := fe_open E # open_fds sys\<rparr> else sys))"
proof -
  have ptr: "fe_map E \<noteq> 0 \<Longrightarrow> off \<in> {0, 0x62, 0x63} \<Longrightarrow> fe_map E + off \<noteq> 0" for off
  proof
    assume "fe_map E + off = 0" and off: "off \<in> {0, 0x62, 0x63}" and "fe_map E \<noteq> 0"
    then have "fe_map E = - off" by (simp add: eq_neg_iff_add_eq_0)
    with off assms(2) \<open>fe_map E \<noteq> 0\<close> show False by (auto simp: MAP_FAILED_def)
  qed
  have dm: "off \<in> {0x62, 0x63}" if "dm_header E = Some (off, sz)" for off sz
    using that by (auto simp: dm_header_def Let_def split: if_splits)
  have failed: "remove1 (MAP_FAILED, n) (mappings sys) = mappings sys" for n
    using assms(3) by (intro remove1_idem) force
  have map: "(e' = MM_ERROR_NONE \<longrightarrow> release_source s t = sys \<and> src_fd s \<in> set (open_fds t)) \<and>
      (e' \<noteq> MM_ERROR_NONE \<longrightarrow> s = src \<and> t = sys)"
    if "map_file E off sz src (sys\<lparr>open_fds := fe_open E # open_fds sys\<rparr>) = (e', s, t)"
      "off \<in> {0, 0x62, 0x63}" for off sz e' s t
    using that(1) ptr [OF _ that(2)]
    by (auto simp: map_file_def release_source_def Let_def failed split: if_splits)
  show ?thesis
    using assms(1) dm map
    by (fastforce simp: mm_source_open_file_def Let_def split: if_splits option.splits prod.splits)
qed

text \<open>
  Closing the source of a file that was opened gives back the descriptor and the mapping; opening
  that is refused leaves nothing behind, except for a file whose name ends in dm and whose header is
  refused: its descriptor stays open.
\<close>

lemma open_file_resources:
  assumes "mm_source_open_file E (Some f) drm src sys = Ok (e, src', sys')"
    "fe_map E = MAP_FAILED \<or> fe_map E AND 0xFFF = 0" "MAP_FAILED \<notin> fst ` set (mappings sys)"
  shows "(e = MM_ERROR_NONE \<longrightarrow> release_source src' sys' = sys \<and> src_fd src' \<in> set (open_fds sys')) \<and>
    (e \<noteq> MM_ERROR_NONE \<longrightarrow> src' = src \<and>
       sys' = (if \<not> (drm \<and> is_drm_file f) \<and> fe_open E \<noteq> -1 \<and> fe_fstat E \<and> dm_header E = None \<and>
                  map lower_char (drop (length f - 2) f) = ''dm''
               then sys\<lparr>open_fds := fe_open E # open_fds sys\<rparr> else sys))"
  by (rule open_file_frame [OF assms])

definition ex_file :: "bytes \<Rightarrow> file_env" where
  "ex_file bs = \<lparr>fe_open = 5, fe_fstat = True, fe_content = bs, fe_read = True, fe_seek = True,
     fe_map = 0x10000, fe_junk = replicate 20 0\<rparr>"

section \<open>From a file to its format\<close>

definition bytes_of :: "string \<Rightarrow> bytes" where
  "bytes_of w = map (\<lambda>c. word_of_nat (of_char c)) w"

text \<open>The container: 98 bytes before the media, with the mark and the type, and 40 behind it.\<close>

definition dm_file :: "bytes \<Rightarrow> bytes \<Rightarrow> bytes \<Rightarrow> bytes \<Rightarrow> bytes" where
  "dm_file mid rest body foot =
     bytes_of ''--random'' @ mid @ bytes_of ''audio/wav'' @ [0xD] @ rest @ body @ foot"

lemma lower_bytes_of: "map (lower_char \<circ> byte_char) (bytes_of w) = map lower_char w"
proof -
  have "byte_char (word_of_nat (of_char c)) = c" for c
    by (simp add: byte_char_def unat_of_nat)
  then show ?thesis by (simp add: bytes_of_def comp_def)
qed

lemma length_bytes_of [simp]: "length (bytes_of w) = length w"
  by (simp add: bytes_of_def)

lemma dm_header_wav:
  assumes "length mid = 0x2A" "length rest = 0x26" "length foot = 0x28" "fe_read E" "fe_seek E"
    "fe_content E = dm_file mid rest body foot"
  shows "dm_header E = Some (0x62, of_nat (length body))"
proof -
  let ?c = "fe_content E" and ?j = "drop 9 (fe_junk E)"
  let ?tail = "rest @ body @ foot"
  have c: "take 8 ?c = bytes_of ''--random''" "\<not> length ?c < 8" "length ?c = length body + 0x8A"
    using assms(1-3) by (simp_all add: assms(6) dm_file_def)
  have r: "drop 0x32 ?c = bytes_of ''audio/wav'' @ 0xD # ?tail"
    using assms(1) by (simp add: assms(6) dm_file_def)
  have g: "buffer_is (take 8 ?c @ [0] @ ?j) ''--random''"
    by (simp add: c(1) buffer_is_def nth_append lower_bytes_of) (simp add: lower_char_def)
  obtain t5 where t: "take 15 (drop 0x32 ?c) = bytes_of ''audio/wav'' @ 0xD # t5" "length t5 = 5"
    using assms(2) by (simp add: r bytes_of_def)
  have u: "update_first (\<lambda>b. b = 0xD) (\<lambda>_. 0) (bytes_of ''audio/wav'' @ 0xD # t5) =
      bytes_of ''audio/wav'' @ 0 # t5"
    by (simp add: bytes_of_def)
  have l: "length (bytes_of ''audio/wav'' @ 0xD # t5) = 15" using t(2) by simp
  have is_type: "buffer_is (bytes_of ''audio/wav'' @ 0 # t5 @ x) ''audio/wav''"
    "\<not> buffer_is (bytes_of ''audio/wav'' @ 0 # t5 @ x) ''audio/mpeg''" for x
    by (simp_all add: buffer_is_def nth_append lower_bytes_of) (simp_all add: lower_char_def)
  show ?thesis
    using g c(2,3) assms(4,5) is_type
    by (simp add: dm_header_def Let_def t l u)
qed

text \<open>
  C25: a WAVE file that is opened by its name, as it is or in a DM container, is parsed as it was
  written: the size of the media, not of the container, bounds the search, and the parser finds the
  format and the samples.
\<close>

theorem opened_file_parses:
  assumes "fe_open E \<noteq> -1" "fe_fstat E" "fe_map E \<noteq> 0" "fe_map E \<noteq> MAP_FAILED" "\<not> is_drm_file f" "2 \<le> length f"
    "if map lower_char (drop (length f - 2) f) = ''dm''
     then fe_read E \<and> fe_seek E \<and> length mid = 0x2A \<and> length rest = 0x26 \<and> length foot = 0x28 \<and>
       fe_content E = dm_file mid rest (wave_file d) foot
     else fe_content E = wave_file d"
    "wave_wf d" "wave_fuel d \<le> fuel"
  shows "\<exists>s sys'. mm_source_open_file E (Some f) True src sys = Ok (MM_ERROR_NONE, s, sys') \<and>
    wave_parse fuel s info = Ok (MM_ERROR_NONE, s, wave_info_of d) \<and>
    take (length (wd_data d)) (drop (unat (info_doffset (wave_info_of d))) (src_bytes s)) = wd_data d"
proof -
  have "\<exists>s sys' slack. mm_source_open_file E (Some f) True src sys = Ok (MM_ERROR_NONE, s, sys') \<and>
    src_bytes s = wave_file d @ slack \<and> cur_size s = of_nat (length (wave_file d))"
  proof (cases "map lower_char (drop (length f - 2) f) = ''dm''")
    case True
    with assms(7) have c: "fe_read E" "fe_seek E" "length mid = 0x2A" "length rest = 0x26" "length foot = 0x28"
      "fe_content E = dm_file mid rest (wave_file d) foot" by simp_all
    have "drop (unat (0x62 :: 32 word)) (dm_file mid rest (wave_file d) foot) = wave_file d @ foot"
      using c(3,4) by (simp add: dm_file_def)
    with dm_header_wav [OF c(3-5,1,2,6)] True assms(1-6) c(6) show ?thesis
      by (auto simp: mm_source_open_file_def map_file_def Let_def)
  next
    case False
    with assms(1-7) show ?thesis by (auto simp: mm_source_open_file_def map_file_def Let_def)
  qed
  then obtain s sys' slack where s: "mm_source_open_file E (Some f) True src sys = Ok (MM_ERROR_NONE, s, sys')"
    "src_bytes s = wave_file d @ slack" "cur_size s = of_nat (length (wave_file d))" by blast
  from wave_parse_file [OF assms(8,9) s(2,3)] s(1) show ?thesis
    by (simp only: wave_offsets [OF assms(8)]) blast
qed

theorem opened_file_parses_witness:
  "\<exists>s sys'. mm_source_open_file
      (ex_file (dm_file (replicate 0x2A 0) (replicate 0x26 0) (wave_file ex_wave) (replicate 0x28 0)))
      (Some ''song.dm'') True zero_source ex_sys = Ok (MM_ERROR_NONE, s, sys') \<and>
    wave_parse 3 s (junk_info ex_codec_env) = Ok (MM_ERROR_NONE, s, wave_info_of ex_wave)"
proof -
  have "wave_fuel ex_wave \<le> 3" by (simp add: wave_fuel_def ex_wave_def)
  then show ?thesis
    using opened_file_parses [of "ex_file (dm_file (replicate 0x2A 0) (replicate 0x26 0) (wave_file ex_wave)
        (replicate 0x28 0))" "''song.dm''" "replicate 0x2A 0" "replicate 0x26 0" "replicate 0x28 0"
        ex_wave 3 zero_source ex_sys "junk_info ex_codec_env"] ex_wave_wf
    by (force simp: ex_file_def MAP_FAILED_def is_drm_file_def lower_char_def)
qed

end
