(* ===== verification/Plugins.thy ===== *)
theory Plugins
  imports Codec_Facts Tone_Facts Wave
begin

text \<open>
  The plugins of the server side by side: a plugin that keeps its own data as a part of the data of
  all plugins obeys the same contract; the server has the WAVE codec and the tone generator.
\<close>

section \<open>A plugin in a larger world\<close>

definition lift_interface ::
  "('v \<Rightarrow> 'w) \<Rightarrow> ('w \<Rightarrow> 'v \<Rightarrow> 'v) \<Rightarrow> 'w codec_interface \<Rightarrow> 'v codec_interface" where
  "lift_interface get put i =
    \<lparr>GetSupportTypes = GetSupportTypes i, Parse = Parse i,
     Create = (\<lambda>p info v. case Create i p info (get v) of (e, h, w) \<Rightarrow> (e, h, put w v)),
     Play = (\<lambda>a v. case Play i a (get v) of (e, w) \<Rightarrow> (e, put w v)),
     Stop = (\<lambda>a v. case Stop i a (get v) of (e, w) \<Rightarrow> (e, put w v)),
     Destroy = (\<lambda>a v. case Destroy i a (get v) of (e, w) \<Rightarrow> (e, put w v))\<rparr>"

lemma lift_interface_parse [simp]:
  "Parse (lift_interface get put i) = Parse i"
  "GetSupportTypes (lift_interface get put i) = GetSupportTypes i"
  by (simp_all add: lift_interface_def)

lemma lift_is_plugin:
  assumes "codec_plugin i winv live" "\<And>w v. get (put w v) = w"
  shows "codec_plugin (lift_interface get put i) (\<lambda>v. winv (get v)) (\<lambda>v. live (get v))"
proof
  fix v v' p info h a e
  assume v: "winv (get v)"
  show "Create (lift_interface get put i) p info v = (MM_ERROR_NONE, h, v') \<Longrightarrow>
      winv (get v') \<and> (\<exists>a. h = Some a \<and> a \<notin> live (get v) \<and> live (get v') = insert a (live (get v)))"
    using codec_plugin.create_ok [OF assms(1) v] assms(2)
    by (auto simp: lift_interface_def split: prod.splits)
  show "Create (lift_interface get put i) p info v = (e, h, v') \<Longrightarrow> e \<noteq> MM_ERROR_NONE \<Longrightarrow>
      winv (get v') \<and> h = None \<and> live (get v') = live (get v)"
    using codec_plugin.create_error [OF assms(1) v] assms(2)
    by (auto simp: lift_interface_def split: prod.splits)
  assume a: "a \<in> live (get v)"
  show "Play (lift_interface get put i) a v = (e, v') \<Longrightarrow> winv (get v') \<and> live (get v') = live (get v)"
    using codec_plugin.play_live [OF assms(1) v a] assms(2)
    by (auto simp: lift_interface_def split: prod.splits)
  show "Stop (lift_interface get put i) a v = (e, v') \<Longrightarrow>
      e = MM_ERROR_NONE \<and> winv (get v') \<and> live (get v') = live (get v)"
    using codec_plugin.stop_live [OF assms(1) v a] assms(2)
    by (auto simp: lift_interface_def split: prod.splits)
  show "Destroy (lift_interface get put i) a v = (e, v') \<Longrightarrow>
      e = MM_ERROR_NONE \<and> winv (get v') \<and> live (get v') = live (get v) - {a}"
    using codec_plugin.destroy_live [OF assms(1) v a] assms(2)
    by (auto simp: lift_interface_def split: prod.splits)
qed

section \<open>The plugins of the server\<close>

record plug_world =
  pw_wave :: wave_world
  pw_tone :: tone_world

definition server_wave :: "nat \<Rightarrow> (wave_world \<Rightarrow> wave_env) \<Rightarrow> plug_world codec_interface" where
  "server_wave fuel E = lift_interface pw_wave (\<lambda>w v. v\<lparr>pw_wave := w\<rparr>) (wave_interface fuel E)"

definition server_tone :: "(tone_world \<Rightarrow> tone_env) \<Rightarrow> plug_world codec_interface" where
  "server_tone E = lift_interface pw_tone (\<lambda>w v. v\<lparr>pw_tone := w\<rparr>) (tone_interface E)"

lemma server_wave_is_plugin:
  "codec_plugin (server_wave fuel E) (\<lambda>v. wave_winv (pw_wave v)) (\<lambda>v. dom (wave_heap (pw_wave v)))"
  unfolding server_wave_def by (rule lift_is_plugin [OF wave_is_plugin]) simp

lemma server_tone_is_plugin:
  "codec_plugin (server_tone E) (\<lambda>v. tone_winv (pw_tone v)) (\<lambda>v. dom (tone_heap (pw_tone v)))"
  unfolding server_tone_def by (rule lift_is_plugin [OF tone_is_plugin]) simp

interpretation server_wave: codec_plugin "server_wave fuel E" "\<lambda>v. wave_winv (pw_wave v)"
    "\<lambda>v. dom (wave_heap (pw_wave v))" for fuel E
  by (rule server_wave_is_plugin)

interpretation server_tone: codec_plugin "server_tone E" "\<lambda>v. tone_winv (pw_tone v)"
    "\<lambda>v. dom (tone_heap (pw_tone v))" for E
  by (rule server_tone_is_plugin)

end
