(* ===== verification/Messages.thy ===== *)
theory Messages
  imports Asm_List Complex_Main
begin

text \<open>
  The messages between clients and server (\<^verbatim>\<open>include/mm_ipc.h\<close>, \<^verbatim>\<open>include/mm_sound_msg.h\<close>): the types, the
  record, and the macro that fills in the head of an answer.
\<close>

text \<open>The last constructor stands for a number that is not in the enumeration; 0 is what a cleared
  message holds.\<close>

datatype msg_type =
    MM_SOUND_MSG_REQ_FILE | MM_SOUND_MSG_REQ_MEMORY | MM_SOUND_MSG_REQ_STOP
  | MM_SOUND_MSG_RES_FILE | MM_SOUND_MSG_RES_MEMORY | MM_SOUND_MSG_RES_STOP
  | MM_SOUND_MSG_INF_STOP_CB | MM_SOUND_MSG_RES_ERROR | MM_SOUND_MSG_INF_DESTROY_CB
  | MM_SOUND_MSG_REQ_GET_AUDIO_ROUTE | MM_SOUND_MSG_RES_GET_AUDIO_ROUTE
  | MM_SOUND_MSG_REQ_SET_AUDIO_ROUTE | MM_SOUND_MSG_RES_SET_AUDIO_ROUTE
  | MM_SOUND_MSG_REQ_IS_BT_A2DP_ON | MM_SOUND_MSG_RES_IS_BT_A2DP_ON
  | MM_SOUND_MSG_REQ_DTMF | MM_SOUND_MSG_RES_DTMF
  | MM_SOUND_MSG_REQ_IS_ROUTE_AVAILABLE | MM_SOUND_MSG_RES_IS_ROUTE_AVAILABLE
  | MM_SOUND_MSG_REQ_FOREACH_AVAILABLE_ROUTE_CB | MM_SOUND_MSG_RES_FOREACH_AVAILABLE_ROUTE_CB
  | MM_SOUND_MSG_INF_FOREACH_AVAILABLE_ROUTE_CB
  | MM_SOUND_MSG_REQ_SET_ACTIVE_ROUTE | MM_SOUND_MSG_RES_SET_ACTIVE_ROUTE
  | MM_SOUND_MSG_REQ_GET_ACTIVE_DEVICE | MM_SOUND_MSG_RES_GET_ACTIVE_DEVICE
  | MM_SOUND_MSG_REQ_ADD_ACTIVE_DEVICE_CB | MM_SOUND_MSG_RES_ADD_ACTIVE_DEVICE_CB
  | MM_SOUND_MSG_REQ_REMOVE_ACTIVE_DEVICE_CB | MM_SOUND_MSG_RES_REMOVE_ACTIVE_DEVICE_CB
  | MM_SOUND_MSG_INF_ACTIVE_DEVICE_CB
  | MM_SOUND_MSG_REQ_ADD_AVAILABLE_ROUTE_CB | MM_SOUND_MSG_RES_ADD_AVAILABLE_ROUTE_CB
  | MM_SOUND_MSG_REQ_REMOVE_AVAILABLE_ROUTE_CB | MM_SOUND_MSG_RES_REMOVE_AVAILABLE_ROUTE_CB
  | MM_SOUND_MSG_INF_AVAILABLE_ROUTE_CB
  | MM_SOUND_MSG_OTHER int

definition MEMTYPE_SUPPORT_MAX :: nat where
  "MEMTYPE_SUPPORT_MAX = 1024 * 1024"

definition FILE_PATH :: nat where
  "FILE_PATH = 512"

text \<open>The session types are those of \<^verbatim>\<open>mm_session.h\<close>, which is not under \<^verbatim>\<open>src/\<close>.\<close>

datatype mm_session_type =
    MM_SESSION_TYPE_SHARE | MM_SESSION_TYPE_EXCLUSIVE | MM_SESSION_TYPE_NOTIFY
  | MM_SESSION_TYPE_ALARM | MM_SESSION_TYPE_CALL | MM_SESSION_TYPE_VIDEOCALL
  | MM_SESSION_TYPE_OTHER int

record sound_msg =
  m_msgid :: pid
  m_msgtype :: msg_type
  m_code :: mm_err
  m_keytone :: int
  m_repeat :: int
  m_tone :: int
  m_volume :: real
  m_memsize :: int
  m_sharedkey :: int
  m_filename :: string
  m_route :: route
  m_device_in :: dev
  m_device_out :: dev
  m_is_available :: bool
  m_route_list :: "route list"
  m_handle :: int
  m_callback :: ptr
  m_cbdata :: ptr
  m_volume_table :: int
  m_session_type :: mm_session_type
  m_priority :: int
  m_handle_route :: int

definition zero_msg :: sound_msg where
  "zero_msg = \<lparr>m_msgid = 0, m_msgtype = MM_SOUND_MSG_OTHER 0, m_code = MM_ERROR_NONE, m_keytone = 0,
     m_repeat = 0, m_tone = 0, m_volume = 0, m_memsize = 0, m_sharedkey = 0, m_filename = [],
     m_route = 0, m_device_in = 0, m_device_out = 0, m_is_available = False,
     m_route_list = replicate MM_SOUND_ROUTE_NUM 0, m_handle = 0, m_callback = 0, m_cbdata = 0,
     m_volume_table = 0, m_session_type = MM_SESSION_TYPE_SHARE, m_priority = 0, m_handle_route = 0\<rparr>"

definition SOUND_MSG_SET :: "msg_type \<Rightarrow> int \<Rightarrow> mm_err \<Rightarrow> pid \<Rightarrow> sound_msg \<Rightarrow> sound_msg" where
  "SOUND_MSG_SET ty handle code msgid m =
    m\<lparr>m_msgid := msgid, m_msgtype := ty, m_code := code, m_handle := handle\<rparr>"

lemma SOUND_MSG_SET_parts [simp]:
  "m_msgid (SOUND_MSG_SET ty h c i m) = i" "m_msgtype (SOUND_MSG_SET ty h c i m) = ty"
  "m_code (SOUND_MSG_SET ty h c i m) = c" "m_handle (SOUND_MSG_SET ty h c i m) = h"
  "m_filename (SOUND_MSG_SET ty h c i m) = m_filename m"
  "m_route_list (SOUND_MSG_SET ty h c i m) = m_route_list m"
  "m_device_in (SOUND_MSG_SET ty h c i m) = m_device_in m"
  "m_device_out (SOUND_MSG_SET ty h c i m) = m_device_out m"
  "m_is_available (SOUND_MSG_SET ty h c i m) = m_is_available m"
  by (simp_all add: SOUND_MSG_SET_def)

end
