(* ===== verification/Ipc.thy ===== *)
theory Ipc
  imports Plugins Messages Session_Events
begin

text \<open>
  The dispatcher of the server (\<^verbatim>\<open>server/mm_sound_mgr_ipc.c\<close>): each request of a client is turned into
  calls of the codec manager, the session manager or the device manager, and answered.  A request has
  no value where the C code uses freed memory or a null pointer, or where a parser has none.  The
  thread pool runs the requests one after the other; the answers of the system are those of the
  environment of one request.
\<close>

record ipc_env =
  ie_files :: "string \<Rightarrow> file_env"
  ie_struct :: ptr
  ie_shm_open :: "string \<Rightarrow> int"
  ie_shm_map :: ptr
  ie_shm_bytes :: "string \<Rightarrow> bytes"
  ie_codec :: codec_env
  ie_sess :: sess_env
  ie_vol :: mm_err
  ie_msg_malloc :: bool
  ie_pool :: int

text \<open>The managers, and the messages sent to clients, newest first.\<close>

record ipc =
  ip_sess :: sess
  ip_codec :: "plug_world codec"
  ip_sent :: "sound_msg list"

definition ip_sys :: "ipc \<Rightarrow> src_sys" where
  "ip_sys s = wave_sys (pw_wave (cworld (ip_codec s)))"

definition on_sys :: "(src_sys \<Rightarrow> src_sys) \<Rightarrow> ipc \<Rightarrow> ipc" where
  "on_sys f s =
    (let c = ip_codec s; w = cworld c; v = pw_wave w
     in s\<lparr>ip_codec := c\<lparr>cworld := w\<lparr>pw_wave := v\<lparr>wave_sys := f (wave_sys v)\<rparr>\<rparr>\<rparr>\<rparr>)"

definition ipc_snd_msg :: "sound_msg \<Rightarrow> ipc \<Rightarrow> ipc" where
  "ipc_snd_msg m s = s\<lparr>ip_sent := m # ip_sent s\<rparr>"

section \<open>Sounds\<close>

definition session_event :: "mm_session_type \<Rightarrow> asm_event" where
  "session_event ty =
    (case ty of
       MM_SESSION_TYPE_SHARE \<Rightarrow> ASM_EVENT_SHARE_MMSOUND
     | MM_SESSION_TYPE_EXCLUSIVE \<Rightarrow> ASM_EVENT_EXCLUSIVE_MMSOUND
     | MM_SESSION_TYPE_NOTIFY \<Rightarrow> ASM_EVENT_NOTIFY
     | MM_SESSION_TYPE_ALARM \<Rightarrow> ASM_EVENT_ALARM
     | MM_SESSION_TYPE_CALL \<Rightarrow> ASM_EVENT_CALL
     | MM_SESSION_TYPE_VIDEOCALL \<Rightarrow> ASM_EVENT_VIDEOCALL
     | MM_SESSION_TYPE_OTHER n \<Rightarrow> ASM_EVENT_SHARE_MMSOUND)"

text \<open>The parameters common to all sounds; the callback is \<^verbatim>\<open>_MMSoundMgrStopCB\<close>.\<close>

definition sound_param :: "sound_msg \<Rightarrow> mm_source \<Rightarrow> mgr_param" where
  "sound_param m src =
    \<lparr>mp_tone = m_tone m, mp_repeat_count = m_repeat m, mp_volume = m_volume m,
     mp_session_type = ASM_EVENT_SHARE_MMPLAYER, mp_session_handle = 0, mp_keytone = 0, mp_callback = 1,
     mp_msgcallback = uint (m_callback m), mp_msgdata = uint (m_cbdata m), mp_param = m_msgid m,
     mp_source = src, mp_volume_table = m_volume_table m, mp_priority = m_priority m,
     mp_handle_route = 0\<rparr>"

definition file_param :: "sound_msg \<Rightarrow> mm_source \<Rightarrow> mgr_param" where
  "file_param m src = (sound_param m src)
    \<lparr>mp_session_type := session_event (m_session_type m), mp_keytone := m_keytone m,
     mp_handle_route := m_handle_route m\<rparr>"

definition memory_param :: "sound_msg \<Rightarrow> mm_source \<Rightarrow> mgr_param" where
  "memory_param m src = (sound_param m src)\<lparr>mp_keytone := m_keytone m\<rparr>"

definition dtmf_param :: "sound_msg \<Rightarrow> mgr_param" where
  "dtmf_param m = (sound_param m zero_source)\<lparr>mp_session_type := ASM_EVENT_SHARE_MMSOUND\<rparr>"

definition on_codec ::
  "(plug_world codec \<Rightarrow> (mm_err \<times> int \<times> plug_world codec) option) \<Rightarrow> ipc \<Rightarrow> (mm_err \<times> int \<times> ipc) option" where
  "on_codec f s = map_option (\<lambda>(e, h, c). (e, h, s\<lparr>ip_codec := c\<rparr>)) (f (ip_codec s))"

text \<open>A source that was opened is not closed when the sound is refused.\<close>

definition ipc_play_file :: "ipc_env \<Rightarrow> sound_msg \<Rightarrow> ipc \<Rightarrow> (mm_err \<times> int \<times> ipc) option" where
  "ipc_play_file E m s =
    (let a = ie_struct E;
         (src0, sys0) = (if a = 0 then (zero_source, ip_sys s) else alloc_source a (ip_sys s))
     in case mm_source_open_file (ie_files E (m_filename m)) (Some (m_filename m)) True src0 sys0 of
          Ok (e, src, sys1) \<Rightarrow>
            (if e \<noteq> MM_ERROR_NONE
             then Some (e, -1, on_sys (\<lambda>_. if a = 0 then sys1 else free_source src sys1) s)
             else if a = 0 then None
             else on_codec (codec_play (ie_codec E) (file_param m src) (-1)) (on_sys (\<lambda>_. sys1) s))
        | _ \<Rightarrow> None)"

definition ipc_stop :: "sound_msg \<Rightarrow> ipc \<Rightarrow> (mm_err \<times> ipc) option" where
  "ipc_stop m s = map_option (\<lambda>(e, c). (e, s\<lparr>ip_codec := c\<rparr>)) (codec_stop (m_handle m) (ip_codec s))"

text \<open>A sound in shared memory.  When the sound is refused the source is closed and freed, also when a
  plugin has freed it already.\<close>

definition play_shm ::
  "ipc_env \<Rightarrow> sound_msg \<Rightarrow> mm_source \<Rightarrow> ipc \<Rightarrow> (mm_err \<times> int \<times> ipc) option" where
  "play_shm E m src s =
    (case on_codec (codec_play (ie_codec E) (memory_param m src) (-1)) s of
       None \<Rightarrow> None
     | Some (e, h, s') \<Rightarrow>
         if e = MM_ERROR_NONE then Some (e, h, s')
         else if src_addr src \<notin> set (structs (ip_sys s')) then None
         else Some (e, h, on_sys (\<lambda>sys. free_source src (release_source src sys)) s'))"

definition ipc_play_memory :: "ipc_env \<Rightarrow> sound_msg \<Rightarrow> ipc \<Rightarrow> (mm_err \<times> int \<times> ipc) option" where
  "ipc_play_memory E m s =
    (let fd = ie_shm_open E (m_filename m); buf = ie_shm_map E; a = ie_struct E;
         s1 = on_sys (\<lambda>sys. sys\<lparr>open_fds := fd # open_fds sys\<rparr>) s;
         s2 = on_sys (\<lambda>sys. sys\<lparr>mappings := (buf, of_nat MEMTYPE_SUPPORT_MAX) # mappings sys\<rparr>) s1
     in if m_sharedkey m \<noteq> 1 then Some (MM_ERROR_SOUND_INVALID_PATH, -1, s)
        else if fd < 0 then Some (MM_ERROR_SOUND_INTERNAL, -1, s)
        else if buf = MAP_FAILED then Some (MM_ERROR_SOUND_INTERNAL, -1, s1)
        else if a = 0 then Some (MM_ERROR_OUT_OF_MEMORY, -1, s2)
        else
          (let (src0, sys0) = alloc_source a (ip_sys s2)
           in case mm_source_open_full_memory (0, []) buf (ie_shm_bytes E (m_filename m)) (m_memsize m)
                     False src0 sys0 of
                Ok (e, src, sys1) \<Rightarrow>
                  (if e \<noteq> MM_ERROR_NONE
                   then Some (MM_ERROR_SOUND_INTERNAL, -1, on_sys (\<lambda>_. free_source src sys1) s2)
                   else play_shm E m src (on_sys (\<lambda>_. sys1) s2))
              | _ \<Rightarrow> None))"

definition ipc_play_dtmf :: "ipc_env \<Rightarrow> sound_msg \<Rightarrow> ipc \<Rightarrow> (mm_err \<times> int \<times> ipc) option" where
  "ipc_play_dtmf E m s = on_codec (codec_play_dtmf (ie_codec E) (dtmf_param m) (-1)) s"

section \<open>Routes and callbacks\<close>

definition on_ip_sess :: "(sess \<Rightarrow> mm_err \<times> sess) \<Rightarrow> ipc \<Rightarrow> mm_err \<times> ipc" where
  "on_ip_sess f s = (case f (ip_sess s) of (e, t) \<Rightarrow> (e, s\<lparr>ip_sess := t\<rparr>))"

text \<open>The parameter of a callback request: the client, its callback and data.\<close>

definition client_param :: "sound_msg \<Rightarrow> cb_param" where
  "client_param m = \<lparr>cp_pid = m_msgid m, cp_route = 0, cp_callback = m_callback m, cp_cbdata = m_cbdata m\<rparr>"

definition ipc_set_active_route :: "ipc_env \<Rightarrow> sound_msg \<Rightarrow> ipc \<Rightarrow> mm_err \<times> ipc" where
  "ipc_set_active_route E m = on_ip_sess (set_active_route (ie_sess E) (m_route m) (ie_vol E))"

definition ipc_add_active_device_cb :: "sound_msg \<Rightarrow> ipc \<Rightarrow> mm_err \<times> ipc" where
  "ipc_add_active_device_cb m = on_ip_sess (add_active_device_callback (client_param m))"

definition ipc_remove_active_device_cb :: "sound_msg \<Rightarrow> ipc \<Rightarrow> mm_err \<times> ipc" where
  "ipc_remove_active_device_cb m = on_ip_sess (remove_active_device_callback (client_param m))"

definition ipc_add_available_device_cb :: "sound_msg \<Rightarrow> ipc \<Rightarrow> mm_err \<times> ipc" where
  "ipc_add_available_device_cb m = on_ip_sess (add_available_route_callback (client_param m))"

definition ipc_remove_available_device_cb :: "sound_msg \<Rightarrow> ipc \<Rightarrow> mm_err \<times> ipc" where
  "ipc_remove_available_device_cb m = on_ip_sess (remove_available_route_callback (client_param m))"

section \<open>Dispatch\<close>

text \<open>The answer to a request that was refused, or done.\<close>

definition ipc_answer :: "mm_err \<Rightarrow> msg_type \<Rightarrow> int \<Rightarrow> pid \<Rightarrow> sound_msg \<Rightarrow> sound_msg" where
  "ipc_answer e ty h msgid m =
    (if e \<noteq> MM_ERROR_NONE then SOUND_MSG_SET MM_SOUND_MSG_RES_ERROR (-1) e msgid m
     else SOUND_MSG_SET ty h MM_ERROR_NONE msgid m)"

definition sound_answer ::
  "sound_msg \<Rightarrow> msg_type \<Rightarrow> (mm_err \<times> int \<times> ipc) option \<Rightarrow> (sound_msg \<times> ipc) option" where
  "sound_answer m ty r = map_option (\<lambda>(e, h, s). (ipc_answer e ty h (m_msgid m) zero_msg, s)) r"

definition device_answer :: "sound_msg \<Rightarrow> msg_type \<Rightarrow> mm_err \<times> ipc \<Rightarrow> (sound_msg \<times> ipc) option" where
  "device_answer m ty r = (case r of (e, s) \<Rightarrow> Some (ipc_answer e ty 0 (m_msgid m) zero_msg, s))"

text \<open>\<^verbatim>\<open>MMSoundMgrPulseHandleIsBtA2DPOnReq\<close>: whether a Bluetooth device is connected is put into the error
  field as 0 or 1.\<close>

definition a2dp_answer :: "sound_msg \<Rightarrow> ipc \<Rightarrow> sound_msg" where
  "a2dp_answer m s =
    (let name = bt_name (ip_sess s)
     in (SOUND_MSG_SET MM_SOUND_MSG_RES_IS_BT_A2DP_ON (m_handle m)
           (if name \<noteq> [] then MM_ERROR_OTHER 1 else MM_ERROR_NONE) (m_msgid m) zero_msg)
          \<lparr>m_filename := take (FILE_PATH - 1) name\<rparr>)"

definition route_available_answer :: "sound_msg \<Rightarrow> ipc \<Rightarrow> sound_msg" where
  "route_available_answer m s =
    (case is_route_available (m_route m) (ip_sess s) of
       (e, b) \<Rightarrow> (ipc_answer e MM_SOUND_MSG_RES_IS_ROUTE_AVAILABLE 0 (m_msgid m) zero_msg)
                   \<lparr>m_is_available := (if e = MM_ERROR_NONE then b else False)\<rparr>)"

definition foreach_answer :: "sound_msg \<Rightarrow> ipc \<Rightarrow> sound_msg" where
  "foreach_answer m s =
    (case foreach_available_route (ip_sess s) (m_route_list zero_msg) of
       (e, n, rs) \<Rightarrow> ipc_answer e MM_SOUND_MSG_RES_FOREACH_AVAILABLE_ROUTE_CB 0 (m_msgid m)
                      (zero_msg\<lparr>m_route_list := rs\<rparr>))"

definition active_device_answer :: "sound_msg \<Rightarrow> ipc \<Rightarrow> sound_msg" where
  "active_device_answer m s =
    (case get_device_active (ip_sess s) of
       (device_out, device_in) \<Rightarrow>
         (ipc_answer MM_ERROR_NONE MM_SOUND_MSG_RES_GET_ACTIVE_DEVICE 0 (m_msgid m) zero_msg)
           \<lparr>m_device_in := device_in, m_device_out := device_out\<rparr>)"

text \<open>\<^verbatim>\<open>_MMSoundMgrRun\<close>: the answer and the state.\<close>

definition mgr_answer :: "ipc_env \<Rightarrow> sound_msg \<Rightarrow> ipc \<Rightarrow> (sound_msg \<times> ipc) option" where
  "mgr_answer E m s =
    (case m_msgtype m of
       MM_SOUND_MSG_REQ_FILE \<Rightarrow> sound_answer m MM_SOUND_MSG_RES_FILE (ipc_play_file E m s)
     | MM_SOUND_MSG_REQ_MEMORY \<Rightarrow> sound_answer m MM_SOUND_MSG_RES_MEMORY (ipc_play_memory E m s)
     | MM_SOUND_MSG_REQ_STOP \<Rightarrow>
         sound_answer m MM_SOUND_MSG_RES_STOP (map_option (\<lambda>(e, t). (e, m_handle m, t)) (ipc_stop m s))
     | MM_SOUND_MSG_REQ_IS_BT_A2DP_ON \<Rightarrow> Some (a2dp_answer m s, s)
     | MM_SOUND_MSG_REQ_DTMF \<Rightarrow> sound_answer m MM_SOUND_MSG_RES_DTMF (ipc_play_dtmf E m s)
     | MM_SOUND_MSG_REQ_IS_ROUTE_AVAILABLE \<Rightarrow> Some (route_available_answer m s, s)
     | MM_SOUND_MSG_REQ_FOREACH_AVAILABLE_ROUTE_CB \<Rightarrow> Some (foreach_answer m s, s)
     | MM_SOUND_MSG_REQ_SET_ACTIVE_ROUTE \<Rightarrow>
         device_answer m MM_SOUND_MSG_RES_SET_ACTIVE_ROUTE (ipc_set_active_route E m s)
     | MM_SOUND_MSG_REQ_GET_ACTIVE_DEVICE \<Rightarrow> Some (active_device_answer m s, s)
     | MM_SOUND_MSG_REQ_ADD_ACTIVE_DEVICE_CB \<Rightarrow>
         device_answer m MM_SOUND_MSG_RES_ADD_ACTIVE_DEVICE_CB (ipc_add_active_device_cb m s)
     | MM_SOUND_MSG_REQ_REMOVE_ACTIVE_DEVICE_CB \<Rightarrow>
         device_answer m MM_SOUND_MSG_RES_REMOVE_ACTIVE_DEVICE_CB (ipc_remove_active_device_cb m s)
     | MM_SOUND_MSG_REQ_ADD_AVAILABLE_ROUTE_CB \<Rightarrow>
         device_answer m MM_SOUND_MSG_RES_ADD_AVAILABLE_ROUTE_CB (ipc_add_available_device_cb m s)
     | MM_SOUND_MSG_REQ_REMOVE_AVAILABLE_ROUTE_CB \<Rightarrow>
         device_answer m MM_SOUND_MSG_RES_REMOVE_AVAILABLE_ROUTE_CB (ipc_remove_available_device_cb m s)
     | _ \<Rightarrow> Some (SOUND_MSG_SET MM_SOUND_MSG_RES_ERROR (-1) MM_ERROR_SOUND_INTERNAL (m_msgid m) zero_msg, s))"

definition mgr_run :: "ipc_env \<Rightarrow> sound_msg \<Rightarrow> ipc \<Rightarrow> ipc option" where
  "mgr_run E m s = map_option (\<lambda>(r, t). ipc_snd_msg r t) (mgr_answer E m s)"

text \<open>One turn of \<^verbatim>\<open>MMSoundMgrIpcReady\<close>: a known request goes to the thread pool; without memory for the
  copy it is dropped.  Here the error answers have handle and code the other way round.\<close>

definition known_request :: "msg_type \<Rightarrow> bool" where
  "known_request ty \<longleftrightarrow> ty \<in> set
    [MM_SOUND_MSG_REQ_FILE, MM_SOUND_MSG_REQ_MEMORY, MM_SOUND_MSG_REQ_STOP,
     MM_SOUND_MSG_REQ_GET_AUDIO_ROUTE, MM_SOUND_MSG_REQ_SET_AUDIO_ROUTE, MM_SOUND_MSG_REQ_IS_BT_A2DP_ON,
     MM_SOUND_MSG_REQ_DTMF, MM_SOUND_MSG_REQ_IS_ROUTE_AVAILABLE,
     MM_SOUND_MSG_REQ_FOREACH_AVAILABLE_ROUTE_CB, MM_SOUND_MSG_REQ_SET_ACTIVE_ROUTE,
     MM_SOUND_MSG_REQ_GET_ACTIVE_DEVICE, MM_SOUND_MSG_REQ_ADD_ACTIVE_DEVICE_CB,
     MM_SOUND_MSG_REQ_REMOVE_ACTIVE_DEVICE_CB, MM_SOUND_MSG_REQ_ADD_AVAILABLE_ROUTE_CB,
     MM_SOUND_MSG_REQ_REMOVE_AVAILABLE_ROUTE_CB]"

definition ipc_ready :: "ipc_env \<Rightarrow> sound_msg \<Rightarrow> ipc \<Rightarrow> ipc option" where
  "ipc_ready E m s =
    (if known_request (m_msgtype m) then
       (if \<not> ie_msg_malloc E then Some s
        else if ie_pool E \<noteq> 0 then
          Some (ipc_snd_msg (SOUND_MSG_SET MM_SOUND_MSG_RES_ERROR (ie_pool E) (MM_ERROR_OTHER (-1))
            (m_msgid m) zero_msg) s)
        else mgr_run E m s)
     else Some (ipc_snd_msg (SOUND_MSG_SET MM_SOUND_MSG_RES_ERROR 0 (MM_ERROR_OTHER (-1)) (m_msgid m)
       zero_msg) s))"

section \<open>The end of a sound\<close>

text \<open>\<^verbatim>\<open>_MMSoundMgrStopCB\<close>, the function that the codec manager calls for a slot with a message callback.\<close>

definition mgr_stop_cb :: "pid \<Rightarrow> int \<Rightarrow> int \<Rightarrow> sound_msg" where
  "mgr_stop_cb msgid callback data =
    (SOUND_MSG_SET MM_SOUND_MSG_INF_STOP_CB 0 MM_ERROR_NONE msgid zero_msg)
      \<lparr>m_callback := of_int callback, m_cbdata := of_int data\<rparr>"

fun stop_messages :: "codec_call list \<Rightarrow> sound_msg list" where
  "stop_messages [] = []"
| "stop_messages (ClientStopped cb p mcb md # cs) = mgr_stop_cb p mcb md # stop_messages cs"
| "stop_messages (_ # cs) = stop_messages cs"

definition ipc_sound_end :: "nat \<Rightarrow> ipc \<Rightarrow> ipc option" where
  "ipc_sound_end i s = map_option (\<lambda>(e, c). s\<lparr>ip_codec := c\<rparr>) (codec_stop_callback i (ip_codec s))"

text \<open>The messages that were sent to clients about sounds that ended.\<close>

definition cb_sent :: "ipc \<Rightarrow> sound_msg list" where
  "cb_sent s = stop_messages (ccalls (ip_codec s))"

end
