(* ===== verification/Ipc_Facts.thy ===== *)
theory Ipc_Facts
  imports Ipc Source_Props Session_Props Examples
begin

text \<open>
  Lemmas on the dispatcher (\<^verbatim>\<open>Ipc\<close>): the form of its answers, what a client sees of a route it
  activates, and the life of a sound from the request for a file to the message at its end, with
  everything it holds given back; and the state of a small server for examples.
\<close>

section \<open>Answers\<close>

text \<open>The type of the answer to a request that is done.\<close>

fun response_type :: "msg_type \<Rightarrow> msg_type" where
  "response_type MM_SOUND_MSG_REQ_FILE = MM_SOUND_MSG_RES_FILE"
| "response_type MM_SOUND_MSG_REQ_MEMORY = MM_SOUND_MSG_RES_MEMORY"
| "response_type MM_SOUND_MSG_REQ_STOP = MM_SOUND_MSG_RES_STOP"
| "response_type MM_SOUND_MSG_REQ_IS_BT_A2DP_ON = MM_SOUND_MSG_RES_IS_BT_A2DP_ON"
| "response_type MM_SOUND_MSG_REQ_DTMF = MM_SOUND_MSG_RES_DTMF"
| "response_type MM_SOUND_MSG_REQ_IS_ROUTE_AVAILABLE = MM_SOUND_MSG_RES_IS_ROUTE_AVAILABLE"
| "response_type MM_SOUND_MSG_REQ_FOREACH_AVAILABLE_ROUTE_CB = MM_SOUND_MSG_RES_FOREACH_AVAILABLE_ROUTE_CB"
| "response_type MM_SOUND_MSG_REQ_SET_ACTIVE_ROUTE = MM_SOUND_MSG_RES_SET_ACTIVE_ROUTE"
| "response_type MM_SOUND_MSG_REQ_GET_ACTIVE_DEVICE = MM_SOUND_MSG_RES_GET_ACTIVE_DEVICE"
| "response_type MM_SOUND_MSG_REQ_ADD_ACTIVE_DEVICE_CB = MM_SOUND_MSG_RES_ADD_ACTIVE_DEVICE_CB"
| "response_type MM_SOUND_MSG_REQ_REMOVE_ACTIVE_DEVICE_CB = MM_SOUND_MSG_RES_REMOVE_ACTIVE_DEVICE_CB"
| "response_type MM_SOUND_MSG_REQ_ADD_AVAILABLE_ROUTE_CB = MM_SOUND_MSG_RES_ADD_AVAILABLE_ROUTE_CB"
| "response_type MM_SOUND_MSG_REQ_REMOVE_AVAILABLE_ROUTE_CB = MM_SOUND_MSG_RES_REMOVE_AVAILABLE_ROUTE_CB"
| "response_type ty = MM_SOUND_MSG_RES_ERROR"

lemma ipc_answer_parts [simp]:
  "m_msgid (ipc_answer e ty h i m) = i"
  "m_msgtype (ipc_answer e ty h i m) = (if e = MM_ERROR_NONE then ty else MM_SOUND_MSG_RES_ERROR)"
  "m_code (ipc_answer e ty h i m) = e"
  "m_handle (ipc_answer e ty h i m) = (if e = MM_ERROR_NONE then h else -1)"
  by (simp_all add: ipc_answer_def)

text \<open>A well-formed answer to a request.\<close>

definition answers :: "sound_msg \<Rightarrow> sound_msg \<Rightarrow> bool" where
  "answers m r \<longleftrightarrow> m_msgid r = m_msgid m \<and>
     (m_msgtype r = MM_SOUND_MSG_RES_ERROR \<and> m_handle r = -1 \<and> m_code r \<noteq> MM_ERROR_NONE \<or>
      m_msgtype r = response_type (m_msgtype m) \<and> m_msgtype r \<noteq> MM_SOUND_MSG_RES_ERROR \<and>
      (m_msgtype r \<noteq> MM_SOUND_MSG_RES_IS_BT_A2DP_ON \<longrightarrow> m_code r = MM_ERROR_NONE))"

lemma sound_answers:
  "sound_answer m ty q = Some (r, s') \<Longrightarrow> ty = response_type (m_msgtype m) \<Longrightarrow> ty \<noteq> MM_SOUND_MSG_RES_ERROR \<Longrightarrow>
    answers m r"
  by (auto simp: sound_answer_def answers_def split: if_splits)

lemma device_answers:
  "device_answer m ty q = Some (r, s') \<Longrightarrow> ty = response_type (m_msgtype m) \<Longrightarrow> ty \<noteq> MM_SOUND_MSG_RES_ERROR \<Longrightarrow>
    answers m r"
  by (auto simp: device_answer_def answers_def split: prod.splits if_splits)

lemma query_answers:
  "m_msgtype m = MM_SOUND_MSG_REQ_IS_BT_A2DP_ON \<Longrightarrow> answers m (a2dp_answer m s)"
  "m_msgtype m = MM_SOUND_MSG_REQ_IS_ROUTE_AVAILABLE \<Longrightarrow> answers m (route_available_answer m s)"
  "m_msgtype m = MM_SOUND_MSG_REQ_FOREACH_AVAILABLE_ROUTE_CB \<Longrightarrow> answers m (foreach_answer m s)"
  "m_msgtype m = MM_SOUND_MSG_REQ_GET_ACTIVE_DEVICE \<Longrightarrow> answers m (active_device_answer m s)"
  by (simp_all add: answers_def a2dp_answer_def route_available_answer_def foreach_answer_def
      active_device_answer_def Let_def split: prod.splits)

lemma mgr_answer_answers: "mgr_answer E m s = Some (r, s') \<Longrightarrow> answers m r"
  by (cases "m_msgtype m")
    (auto simp: mgr_answer_def query_answers intro: sound_answers device_answers
      simp: answers_def [of m "SOUND_MSG_SET _ _ _ _ _"])

lemma sent_kept:
  "mgr_answer E m s = Some (r, s') \<Longrightarrow> ip_sent s' = ip_sent s"
  by (cases "m_msgtype m")
    (auto simp: mgr_answer_def sound_answer_def device_answer_def ipc_play_file_def ipc_play_memory_def
      play_shm_def ipc_play_dtmf_def ipc_stop_def on_codec_def on_sys_def Let_def on_ip_sess_def
      ipc_set_active_route_def ipc_add_active_device_cb_def ipc_remove_active_device_cb_def
      ipc_add_available_device_cb_def ipc_remove_available_device_cb_def
      split: prod.splits if_splits access.splits option.splits)

definition ex_plug_world :: plug_world where
  "ex_plug_world = \<lparr>pw_wave = \<lparr>wave_heap = Map.empty, wave_next = 1, wave_calls = [], wave_sys = ex_sys\<rparr>,
     pw_tone = \<lparr>tone_heap = Map.empty, tone_next = 1, tone_calls = []\<rparr>\<rparr>"

definition ex_ipc :: ipc where
  "ex_ipc = \<lparr>ip_sess = ex_sess,
     ip_codec = \<lparr>slots = [zero_slot],
       plugins = [Some (server_wave 3 ex_wave_env), Some (server_tone ex_tone_env), None],
       cworld = ex_plug_world, ccalls = []\<rparr>, ip_sent = []\<rparr>"

definition ex_ipc_env :: "wave_desc \<Rightarrow> ipc_env" where
  "ex_ipc_env d = \<lparr>ie_files = (\<lambda>_. ex_file (wave_file d)), ie_struct = 0x9000, ie_shm_open = (\<lambda>_. 6),
     ie_shm_map = 0x40000, ie_shm_bytes = (\<lambda>_. wave_file d), ie_codec = ex_codec_env,
     ie_sess = ex_senv, ie_vol = MM_ERROR_NONE, ie_msg_malloc = True, ie_pool = 0\<rparr>"

section \<open>Routes\<close>

lemma route_words:
  assumes "r \<in> set g_valid_route" "get_devices_from_route r = (i, ou)"
  shows "ou \<in> set out_words" "i \<in> set in_words"
  using assms by (auto simp: g_valid_route_values get_devices_from_route_def out_words_def in_words_def dev_bits)

text \<open>
  A client that activates a valid route and then asks for the active devices is told the devices
  of the route, when they are available, and the devices that were active before, when they are not;
  the activation is reported as a success in both cases.
\<close>

lemma activated_route_is_reported:
  assumes "sess_inv (ip_sess s)" "m_route m1 \<in> set g_valid_route"
    "m_msgtype m1 = MM_SOUND_MSG_REQ_SET_ACTIVE_ROUTE" "m_msgtype m2 = MM_SOUND_MSG_REQ_GET_ACTIVE_DEVICE"
    "get_devices_from_route (m_route m1) = (i, ou)" "get_device_active (ip_sess s) = (ou0, i0)"
  shows "\<exists>a1 s1 a2. mgr_answer E1 m1 s = Some (a1, s1) \<and> mgr_answer E2 m2 s1 = Some (a2, s1) \<and>
    m_msgtype a1 = MM_SOUND_MSG_RES_SET_ACTIVE_ROUTE \<and>
    (m_device_out a2, m_device_in a2) =
      (if (ou = 0 \<or> IS_AVAILABLE ou (ip_sess s)) \<and> (i = 0 \<or> IS_AVAILABLE i (ip_sess s))
       then (if ou \<noteq> 0 then ou else ou0, if i \<noteq> 0 then i else i0) else (ou0, i0))"
proof -
  note w = route_words [OF assms(2,5)]
  obtain e t where t: "set_device_active (ie_sess E1) ou i (ie_vol E1) (ip_sess s) = (e, t)" by fastforce
  have a1: "mgr_answer E1 m1 s = Some (ipc_answer MM_ERROR_NONE MM_SOUND_MSG_RES_SET_ACTIVE_ROUTE 0 (m_msgid m1) zero_msg,
      s\<lparr>ip_sess := t\<rparr>)"
    by (simp add: mgr_answer_def assms(3,5) device_answer_def ipc_set_active_route_def on_ip_sess_def
        set_active_route_def is_route_available_def t)
  have a2: "mgr_answer E2 m2 s' = Some (active_device_answer m2 s', s')" for s'
    by (simp add: mgr_answer_def assms(4))
  have dev: "(m_device_out (active_device_answer m2 s'), m_device_in (active_device_answer m2 s'))
      = get_device_active (ip_sess s')" for s'
    by (simp add: active_device_answer_def split: prod.split)
  have "get_device_active t =
    (if (ou = 0 \<or> IS_AVAILABLE ou (ip_sess s)) \<and> (i = 0 \<or> IS_AVAILABLE i (ip_sess s))
     then (if ou \<noteq> 0 then ou else ou0, if i \<noteq> 0 then i else i0) else (ou0, i0))"
    using set_device_active_devices [OF assms(1) w, where E = "ie_sess E1" and v = "ie_vol E1"] t assms(6)
    by (auto split: if_splits)
  then show ?thesis by (simp add: a1 a2 dev)
qed

definition ex_request :: "msg_type \<Rightarrow> sound_msg" where
  "ex_request ty = zero_msg\<lparr>m_msgid := 77, m_msgtype := ty, m_route := OUT_BT_A2DP, m_repeat := 2,
     m_filename := ''a.wav'', m_sharedkey := 1, m_callback := 0x50, m_cbdata := 0x60\<rparr>"

section \<open>The life of a sound\<close>

lemma on_sys_parts [simp]:
  "ip_sys (on_sys f s) = f (ip_sys s)" "slots (ip_codec (on_sys f s)) = slots (ip_codec s)"
  "plugins (ip_codec (on_sys f s)) = plugins (ip_codec s)" "ccalls (ip_codec (on_sys f s)) = ccalls (ip_codec s)"
  "wave_heap (pw_wave (cworld (ip_codec (on_sys f s)))) = wave_heap (pw_wave (cworld (ip_codec s)))"
  "wave_next (pw_wave (cworld (ip_codec (on_sys f s)))) = wave_next (pw_wave (cworld (ip_codec s)))"
  "pw_tone (cworld (ip_codec (on_sys f s))) = pw_tone (cworld (ip_codec s))"
  "ip_sess (on_sys f s) = ip_sess s"
  by (simp_all add: on_sys_def ip_sys_def Let_def)

lemma open_plain_file:
  assumes "mm_source_open_file E (Some f) drm src0 sys0 = Ok (MM_ERROR_NONE, src, sys1)"
    "map lower_char (drop (length f - 2) f) \<noteq> ''dm''" "fe_map E \<noteq> MAP_FAILED"
  shows "src_bytes src = fe_content E \<and> cur_size src = of_nat (length (fe_content E)) \<and>
    src_addr src = src_addr src0"
  using assms
  by (auto simp: mm_source_open_file_def map_file_def Let_def split: if_splits option.splits)

lemma server_wave_started:
  assumes "Create (server_wave fuel E) p info v = (MM_ERROR_NONE, Some a, v1)"
    "Play (server_wave fuel E) a v1 = (MM_ERROR_NONE, v2)"
  shows "\<exists>q. wave_heap (pw_wave v2) a = Some q \<and> wv_source q = codec_source p \<and>
    wv_repeat_count q = codec_repeat_count p \<and> wv_cb_param q = codec_cb_param p \<and>
    wave_sys (pw_wave v2) = wave_sys (pw_wave v)"
  using assms
  by (auto simp: server_wave_def lift_interface_def wave_interface_def wave_Create_def wave_on_heap_def
      wave_play_def wave_create_def split: sum.splits prod.splits if_splits option.splits)

lemma server_wave_destroy:
  assumes "wave_heap (pw_wave v) a = Some q" "wave_winv (pw_wave v)"
  shows "\<exists>v'. Destroy (server_wave fuel E) a v = (MM_ERROR_NONE, v') \<and>
    wave_sys (pw_wave v') = free_source (wv_source q) (release_source (wv_source q) (wave_sys (pw_wave v))) \<and>
    wave_heap (pw_wave v') = (wave_heap (pw_wave v))(a := None)"
proof -
  have "a \<noteq> 0" using assms by (fastforce simp: wave_winv_def)
  with assms(1) show ?thesis
    by (simp add: server_wave_def lift_interface_def wave_interface_def wave_Destroy_def)
qed

lemma find_codec_server_wave:
  assumes "wave_wf d" "wave_fuel d \<le> fuel" "src_bytes src = wave_file d @ slack"
    "cur_size src = of_nat (length (wave_file d))"
  shows "find_codec (Some (server_wave fuel E) # ps) 0 src info = Some (Found 0 src (wave_info_of d))"
  using wave_parse_file [OF assms] by (simp add: server_wave_def wave_interface_def wave_Parse_def)

text \<open>The request for a file: the file was opened, and the sound was started with its source.\<close>

lemma play_file_started:
  assumes "ipc_play_file E m s = Some (MM_ERROR_NONE, h, s1)"
    "fe_content (ie_files E (m_filename m)) = wave_file d" "wave_wf d" "wave_fuel d \<le> fuel"
    "map lower_char (drop (length (m_filename m) - 2) (m_filename m)) \<noteq> ''dm''"
    "fe_map (ie_files E (m_filename m)) AND 0xFFF = 0" "MAP_FAILED \<notin> fst ` set (mappings (ip_sys s))"
    "plugins (ip_codec s) = Some (server_wave fuel E0) # ps"
  shows "\<exists>src sys1. src_addr src = ie_struct E \<and> src_bytes src = wave_file d \<and>
    free_source src (release_source src sys1) = ip_sys s \<and> src_fd src \<in> set (open_fds sys1) \<and>
    find_codec (plugins (ip_codec s)) 0 src (junk_info (ie_codec E)) = Some (Found 0 src (wave_info_of d)) \<and>
    codec_play (ie_codec E) (file_param m src) (-1) (ip_codec (on_sys (\<lambda>_. sys1) s)) =
      Some (MM_ERROR_NONE, h, ip_codec s1)"
proof -
  let ?F = "ie_files E (m_filename m)" and ?a = "ie_struct E"
  have map: "fe_map ?F \<noteq> MAP_FAILED" using assms(6) by (auto simp: MAP_FAILED_def)
  have a: "?a \<noteq> 0"
    using assms(1) by (auto simp: ipc_play_file_def Let_def split: access.splits if_splits prod.splits)
  obtain src0 sys0 where al: "alloc_source ?a (ip_sys s) = (src0, sys0)" by fastforce
  with assms(1) a obtain src sys1 where op:
    "mm_source_open_file ?F (Some (m_filename m)) True src0 sys0 = Ok (MM_ERROR_NONE, src, sys1)"
    "on_codec (codec_play (ie_codec E) (file_param m src) (-1)) (on_sys (\<lambda>_. sys1) s) = Some (MM_ERROR_NONE, h, s1)"
    by (auto simp: ipc_play_file_def Let_def split: access.splits if_splits)
  note plain = open_plain_file [OF op(1) assms(5) map]
  have "MAP_FAILED \<notin> fst ` set (mappings sys0)"
    using assms(7) al by (auto simp: alloc_source_def)
  from open_file_frame [OF op(1) _ this] assms(6) have
    "release_source src sys1 = sys0" "src_fd src \<in> set (open_fds sys1)" by simp_all
  moreover have "free_source src sys0 = ip_sys s" "src_addr src = ?a"
    using al plain by (auto simp: alloc_source_def free_source_def)
  moreover have "codec_play (ie_codec E) (file_param m src) (-1) (ip_codec (on_sys (\<lambda>_. sys1) s)) =
      Some (MM_ERROR_NONE, h, ip_codec s1)"
    using op(2) by (auto simp: on_codec_def)
  moreover have "find_codec (plugins (ip_codec s)) 0 src (junk_info (ie_codec E)) = Some (Found 0 src (wave_info_of d))"
    unfolding assms(8) by (rule find_codec_server_wave [OF assms(3,4), where slack = "[]"]) (use plain assms(2) in simp_all)
  ultimately show ?thesis using plain assms(2) by (intro exI [of _ src] exI [of _ sys1]) simp
qed

lemma file_param_fields:
  "mp_msgcallback (file_param m src) = uint (m_callback m)" "mp_msgdata (file_param m src) = uint (m_cbdata m)"
  "mp_param (file_param m src) = m_msgid m" "mp_keytone (file_param m src) = m_keytone m"
  "mp_source (file_param m src) = src" "mp_repeat_count (file_param m src) = m_repeat m"
  by (simp_all add: file_param_def sound_param_def)

text \<open>
  The life of a sound that a client starts from a WAVE file: the answer carries the number of the
  first free slot, the plugin holds the samples of the file and the number of repetitions asked for;
  when the sound ends, the client is sent one message with its callback and data, the slot is free,
  and the descriptor, the mapping and the memory of the source have been given back.
\<close>

lemma file_sound_life:
  assumes "m_msgtype m = MM_SOUND_MSG_REQ_FILE" "m_keytone m \<noteq> 1" "m_keytone m \<noteq> 2" "m_callback m \<noteq> 0"
    "fe_content (ie_files E (m_filename m)) = wave_file d" "wave_wf d" "wave_fuel d \<le> fuel"
    "map lower_char (drop (length (m_filename m) - 2) (m_filename m)) \<noteq> ''dm''"
    "fe_map (ie_files E (m_filename m)) AND 0xFFF = 0" "MAP_FAILED \<notin> fst ` set (mappings (ip_sys s))"
    "plugins (ip_codec s) = Some (server_wave fuel E0) # ps" "wave_winv (pw_wave (cworld (ip_codec s)))"
    "mgr_answer E m s = Some (r, s1)" "m_msgtype r = MM_SOUND_MSG_RES_FILE"
  shows "\<exists>i a q msg s2. m_handle r = int i \<and> find_status STATUS_IDLE (slots (ip_codec s)) = Some i \<and>
    sl_plughandle (slots (ip_codec s1) ! i) = a \<and> wave_heap (pw_wave (cworld (ip_codec s1))) a = Some q \<and>
    src_bytes (wv_source q) = wave_file d \<and> wv_repeat_count q = m_repeat m \<and> wv_cb_param q = int i \<and>
    src_fd (wv_source q) \<in> set (open_fds (ip_sys s1)) \<and>
    ipc_sound_end i s1 = Some s2 \<and> cb_sent s2 = msg # cb_sent s \<and>
    m_msgid msg = m_msgid m \<and> m_msgtype msg = MM_SOUND_MSG_INF_STOP_CB \<and>
    m_callback msg = m_callback m \<and> m_cbdata msg = m_cbdata m \<and>
    slots (ip_codec s2) = (slots (ip_codec s))[i := zero_slot] \<and> ip_sys s2 = ip_sys s"
proof -
  from assms(1,13,14) obtain h where h: "ipc_play_file E m s = Some (MM_ERROR_NONE, h, s1)" "m_handle r = h"
    by (auto simp: mgr_answer_def sound_answer_def split: if_splits)
  from play_file_started [OF h(1) assms(5-11)] obtain src sys1 where src:
    "src_bytes src = wave_file d" "free_source src (release_source src sys1) = ip_sys s"
    "src_fd src \<in> set (open_fds sys1)"
    "find_codec (plugins (ip_codec s)) 0 src (junk_info (ie_codec E)) = Some (Found 0 src (wave_info_of d))"
    "codec_play (ie_codec E) (file_param m src) (-1) (ip_codec (on_sys (\<lambda>_. sys1) s)) =
      Some (MM_ERROR_NONE, h, ip_codec s1)" by blast
  let ?c = "ip_codec (on_sys (\<lambda>_. sys1) s)" and ?p = "file_param m src"
  have pre: "wave_winv (pw_wave (cworld ?c))" "plugins ?c ! 0 = Some (server_wave fuel E0)" "0 < length (plugins ?c)"
    "find_codec (plugins ?c) 0 (mp_source ?p) (junk_info (ie_codec E)) = Some (Found 0 src (wave_info_of d))"
    "mp_keytone ?p \<noteq> 1" "mp_keytone ?p \<noteq> 2"
    using assms(2,3,11,12) src(4) by (simp_all add: wave_winv_def file_param_fields)
  from server_wave.play_cycle [OF pre(1,4,2,3,5,6) src(5)] obtain i a kt w x where raw:
    "h = int i" "find_status STATUS_IDLE (slots ?c) = Some i"
    "sl_plughandle (slots (ip_codec s1) ! i) = a" "wave_winv (pw_wave (cworld (ip_codec s1)))"
    "plugin_of (ip_codec s1) i = Some (server_wave fuel E0)" "slots (ip_codec s1) = (slots ?c)[i := x]"
    "filled ?p 0 x" "sl_msgcallback x = mp_msgcallback ?p" "sl_msgdata x = mp_msgdata ?p"
    "ccalls (ip_codec s1) = (if needs_asm (mp_session_type ?p)
      then [AsmRegisterSound (mp_param ?p) (mp_session_type ?p) (int i)] else []) @ ccalls ?c"
    "Create (server_wave fuel E0) (plugin_param kt (mp_priority ?p) i ?p src) (wave_info_of d) (cworld ?c)
      = (MM_ERROR_NONE, Some a, w)"
    "Play (server_wave fuel E0) a w = (MM_ERROR_NONE, cworld (ip_codec s1))" by blast
  have "stop_messages (ccalls (ip_codec s1)) = cb_sent s" by (simp add: raw(10) cb_sent_def)
  note c = raw(1,2) [simplified] raw(3-5) raw(6) [simplified] raw(7) raw(8,9) [unfolded file_param_fields] this raw(11,12)
  from server_wave_started [OF c(11,12)] obtain q where q:
    "wave_heap (pw_wave (cworld (ip_codec s1))) a = Some q" "wv_source q = src" "wv_repeat_count q = m_repeat m"
    "wv_cb_param q = int i" "ip_sys s1 = sys1"
    by (auto simp: plugin_param_def file_param_fields ip_sys_def [symmetric])
  from server_wave_destroy [OF q(1) c(4), of fuel E0] obtain v where v:
    "Destroy (server_wave fuel E0) a (cworld (ip_codec s1)) = (MM_ERROR_NONE, v)"
    "wave_sys (pw_wave v) = ip_sys s" using src(2) q(2,5) by (auto simp: ip_sys_def)
  have len: "i < length (slots (ip_codec s))" using c(2) by (simp add: find_status_Some)
  then have x: "slots (ip_codec s1) ! i = x" by (simp add: c(6))
  have nz: "uint (m_callback m) \<noteq> 0" using assms(4) by (simp add: unsigned_eq_0_iff)
  have fields: "sl_param x = m_msgid m" using c(7) by (simp add: filled_def file_param_fields)
  have "Destroy (server_wave fuel E0) (sl_plughandle (slots (ip_codec s1) ! i)) (cworld (ip_codec s1)) = (MM_ERROR_NONE, v)"
    using v(1) c(3) by simp
  from stop_callback_result [OF c(5) this, unfolded x c(8,9) fields] obtain t where
    t: "codec_stop_callback i (ip_codec s1) = Some (MM_ERROR_NONE, t)" "cworld t = v"
    "slots t = (slots (ip_codec s1))[i := zero_slot]"
    "stop_messages (ccalls t) = mgr_stop_cb (m_msgid m) (uint (m_callback m)) (uint (m_cbdata m)) # cb_sent s"
    using nz c(10) by auto
  show ?thesis
    by (intro exI [of _ i] exI [of _ a] exI [of _ q]
        exI [of _ "mgr_stop_cb (m_msgid m) (uint (m_callback m)) (uint (m_cbdata m))"]
        exI [of _ "s1\<lparr>ip_codec := t\<rparr>"])
      (use h(2) c(1-3,6) q src(1,3) t v(2) in
        \<open>simp add: ipc_sound_end_def cb_sent_def ip_sys_def mgr_stop_cb_def\<close>)
qed

text \<open>When the device opens and the sound can be registered, a WAVE sound is started in the first free
  slot; one without samples is refused by the plugin after it was created, and destroyed.\<close>

definition wave_can_open :: "wave_env \<Rightarrow> bool" where
  "wave_can_open E \<longleftrightarrow> wave_pool_set E \<and> wave_malloc_ok E \<and> wave_open_handle E \<noteq> -1"

lemma server_wave_create:
  assumes "wave_can_open (E0 (pw_wave v))"
  shows "\<exists>q v1. Create (server_wave fuel E0) cp info v = (MM_ERROR_NONE, Some (wave_next (pw_wave v)), v1) \<and>
    wave_heap (pw_wave v1) (wave_next (pw_wave v)) = Some q \<and> wv_size q = sint (info_size info) \<and>
    wv_source q = codec_source cp \<and> wave_sys (pw_wave v1) = wave_sys (pw_wave v) \<and>
    wave_next (pw_wave v1) = wave_next (pw_wave v) + 1"
  using assms
  by (simp add: wave_can_open_def server_wave_def lift_interface_def wave_interface_def wave_Create_def wave_create_def)

lemma server_wave_play:
  assumes "wave_heap (pw_wave v) a = Some q"
  shows "Play (server_wave fuel E0) a v =
    (if wv_size q \<le> 0 then MM_ERROR_END_OF_FILE else MM_ERROR_NONE,
     v\<lparr>pw_wave := (pw_wave v)\<lparr>wave_heap := (wave_heap (pw_wave v))(a \<mapsto>
       (if wv_size q \<le> 0 then q else q\<lparr>wv_state := STATE_BEGIN\<rparr>))\<rparr>\<rparr>)"
  using assms
  by (simp add: server_wave_def lift_interface_def wave_interface_def wave_on_heap_def wave_play_def)

lemma server_wave_start:
  assumes "wave_can_open (E0 (pw_wave (cworld c)))" "i < length (slots c)" "0 < wave_next (pw_wave (cworld c))"
  shows "if 0 < sint (info_size info)
    then \<exists>c'. start_sound (server_wave fuel E0) cp info i c = (MM_ERROR_NONE, False, c')
    else \<exists>c'. start_sound (server_wave fuel E0) cp info i c = (MM_ERROR_END_OF_FILE, True, c') \<and>
      structs (wave_sys (pw_wave (cworld c'))) =
        remove1 (src_addr (codec_source cp)) (structs (wave_sys (pw_wave (cworld c))))"
proof -
  from server_wave_create [of E0 "cworld c" fuel cp info, OF assms(1)] obtain q v1 where q:
    "Create (server_wave fuel E0) cp info (cworld c) = (MM_ERROR_NONE, Some (wave_next (pw_wave (cworld c))), v1)"
    "wave_heap (pw_wave v1) (wave_next (pw_wave (cworld c))) = Some q" "wv_size q = sint (info_size info)"
    "wv_source q = codec_source cp" "wave_sys (pw_wave v1) = wave_sys (pw_wave (cworld c))" by blast
  let ?a = "wave_next (pw_wave (cworld c))"
  have rel: "structs (release_source src sys) = structs sys" for src sys
    by (simp add: release_source_def split: source_type.split)
  have destroy: "structs (wave_sys (pw_wave (snd (Destroy (server_wave fuel E0) ?a v)))) =
      remove1 (src_addr (codec_source cp)) (structs (wave_sys (pw_wave (cworld c))))"
    if "wave_heap (pw_wave v) ?a = Some q" "wave_sys (pw_wave v) = wave_sys (pw_wave v1)" for v
    using that assms(3) q(4,5)
    by (simp add: server_wave_def lift_interface_def wave_interface_def wave_Destroy_def free_source_def rel)
  show ?thesis
  proof (cases "0 < sint (info_size info)")
    case True
    then show ?thesis
      using assms(2) q server_wave_play [OF q(2), of fuel E0]
      by (simp add: start_sound_def codec_simps Let_def)
  next
    case False
    then show ?thesis
      using assms(2) q server_wave_play [OF q(2), of fuel E0]
      by (simp add: start_sound_def codec_simps Let_def destroy)
  qed
qed

lemma server_wave_codec_play:
  assumes "find_codec (plugins c) 0 (mp_source p) (junk_info F) = Some (Found 0 src info)"
    "plugins c ! 0 = Some (server_wave fuel E0)" "mp_keytone p \<noteq> 1" "mp_keytone p \<noteq> 2"
    "find_status STATUS_IDLE (slots c) = Some i" "asm_registers F = Some h"
    "wave_can_open (E0 (pw_wave (cworld c)))" "0 < wave_next (pw_wave (cworld c))"
  shows "if 0 < sint (info_size info)
    then \<exists>c'. codec_play F p k c = Some (MM_ERROR_NONE, int i, c')
    else \<exists>e c'. codec_play F p k c = Some (e, int i, c') \<and> e \<noteq> MM_ERROR_NONE \<and>
      structs (wave_sys (pw_wave (cworld c'))) = remove1 (src_addr src) (structs (wave_sys (pw_wave (cworld c))))"
proof -
  let ?c1 = "keytone_status p i (on_slot i (\<lambda>x. x\<lparr>sl_status := STATUS_SOUND\<rparr>) c)"
  obtain g c2 where r: "codec_register F p i ?c1 = (Some g, c2)"
    using assms(6) by (cases "needs_asm (mp_session_type p)") (simp_all add: codec_register_def)
  note r2 = codec_register_parts [OF r]
  let ?f = "\<lambda>x. x\<lparr>sl_pluginid := 0, sl_callback := mp_callback p, sl_msgcallback := mp_msgcallback p,
    sl_msgdata := mp_msgdata p, sl_param := mp_param p, sl_session_type := mp_session_type p,
    sl_session_handle := g\<rparr>"
  let ?cp = "plugin_param 0 (mp_priority p) i p src"
  have c3: "cworld (on_slot i ?f c2) = cworld c" "i < length (slots (on_slot i ?f c2))"
    using r2 assms(5) by (simp_all add: codec_simps find_status_Some)
  have eq: "codec_play F p k c =
    (case start_sound (server_wave fuel E0) ?cp info i (on_slot i ?f c2) of (e', un, c4) \<Rightarrow>
      (case (if un then codec_unregister F p g e' c4 else (e', c4)) of (e'', c5) \<Rightarrow> Some (e'', int i, c5)))"
    using assms(1-5) r
    by (simp add: codec_play_def stop_same_kind_def get_empty_slot_def Let_def)
  have src: "codec_source ?cp = src" by (simp add: plugin_param_def)
  show ?thesis
    using server_wave_start [of E0 "on_slot i ?f c2" i info fuel ?cp] c3 assms(7,8)
    by (auto simp: eq src codec_unregister_def codec_simps split: if_splits)
qed

lemma ex_file_request_at:
  assumes "m_msgtype m = MM_SOUND_MSG_REQ_FILE" "m_filename m = ''a.wav''" "m_keytone m = 0"
    and s: "plugins (ip_codec s) = Some (server_wave 3 ex_wave_env) # ps" "find_status STATUS_IDLE (slots (ip_codec s)) = Some 0"
      "cworld (ip_codec s) = ex_plug_world"
  shows "\<exists>r s1. mgr_answer (ex_ipc_env ex_wave) m s = Some (r, s1) \<and>
     m_msgtype r = MM_SOUND_MSG_RES_FILE \<and> m_handle r = 0"
proof -
  define src where "src = \<lparr>src_addr = 0x9000, src_type = MM_SOURCE_FILE, src_ptr = 0x10000,
    src_bytes = wave_file ex_wave, cur_size = of_nat (length (wave_file ex_wave)),
    tot_size = of_nat (length (wave_file ex_wave)), src_fd = 5, med_offset = 0\<rparr>"
  obtain src0 sys0 sys1 where op: "alloc_source 0x9000 (ip_sys s) = (src0, sys0)"
    "mm_source_open_file (ex_file (wave_file ex_wave)) (Some ''a.wav'') True src0 sys0 = Ok (MM_ERROR_NONE, src, sys1)"
    by (simp add: alloc_source_def mm_source_open_file_def ex_file_def is_drm_file_def map_file_def
        lower_char_def MAP_FAILED_def Let_def src_def)
  let ?c = "ip_codec (on_sys (\<lambda>_. sys1) s)" and ?p = "file_param m src"
  have fuel: "wave_fuel ex_wave \<le> 3" by (simp add: wave_fuel_def ex_wave_def)
  have found: "find_codec (plugins ?c) 0 (mp_source ?p) (junk_info ex_codec_env) = Some (Found 0 src (wave_info_of ex_wave))"
    unfolding on_sys_parts s(1) file_param_fields
    by (rule find_codec_server_wave [OF ex_wave_wf fuel, where slack = "[]"]) (simp_all add: src_def)
  have parts: "plugins ?c ! 0 = Some (server_wave 3 ex_wave_env)" "find_status STATUS_IDLE (slots ?c) = Some 0"
    "wave_can_open (ex_wave_env (pw_wave (cworld ?c)))" "0 < wave_next (pw_wave (cworld ?c))"
    using s by (simp_all add: ex_plug_world_def wave_can_open_def ex_wave_env_def)
  have param: "mp_keytone ?p \<noteq> 1" "mp_keytone ?p \<noteq> 2"
    by (simp_all add: file_param_fields assms(3))
  have "asm_registers ex_codec_env = Some 7" "0 < sint (info_size (wave_info_of ex_wave))"
    by (simp_all add: ex_codec_env_def wave_info_of_def ex_wave_def)
  with server_wave_codec_play [OF found parts(1) param parts(2) _ parts(3,4), of 7 "-1"] obtain c' where
    "codec_play ex_codec_env ?p (-1) ?c = Some (MM_ERROR_NONE, int 0, c')" by auto
  then show ?thesis
    by (simp add: mgr_answer_def assms(1,2) sound_answer_def ipc_play_file_def ex_ipc_env_def op
        Let_def on_codec_def)
qed

lemma ex_file_request:
  assumes "m_msgtype m = MM_SOUND_MSG_REQ_FILE" "m_filename m = ''a.wav''" "m_keytone m = 0"
  shows "\<exists>r s1. mgr_answer (ex_ipc_env ex_wave) m ex_ipc = Some (r, s1) \<and>
     m_msgtype r = MM_SOUND_MSG_RES_FILE \<and> m_handle r = 0"
  by (rule ex_file_request_at [OF assms, where ps = "[Some (server_tone ex_tone_env), None]"])
    (simp_all add: ex_ipc_def zero_slot_def)

end
