(* ===== verification/Ipc_Props.thy ===== *)
theory Ipc_Props
  imports Ipc_Facts
begin

text \<open>
  The properties of the dispatcher by itself: every request is answered once, to its sender, and a
  defect of the error path of a sound in memory.  What clients see is in \<^verbatim>\<open>Client_Props\<close>.
\<close>



text \<open>
  A sound in shared memory whose file has no samples is created and destroyed by the plugin, which
  frees its source; the dispatcher then closes and frees the same source again: the request has no
  defined outcome.
\<close>

lemma empty_memory_sound_freed_twice:
  assumes "m_msgtype m = MM_SOUND_MSG_REQ_MEMORY" "m_sharedkey m = 1" "m_keytone m \<noteq> 1" "m_keytone m \<noteq> 2"
    "0 \<le> ie_shm_open E (m_filename m)" "ie_shm_map E \<noteq> MAP_FAILED" "ie_shm_map E \<noteq> 0"
    "ie_struct E \<noteq> 0" "ie_struct E \<notin> set (structs (ip_sys s))"
    "ie_shm_bytes E (m_filename m) = wave_file d @ slack" "m_memsize m = int (length (wave_file d))"
    "wave_wf d" "wave_fuel d \<le> fuel" "wd_data d = []"
    "plugins (ip_codec s) = Some (server_wave fuel E0) # ps" "\<And>w. wave_can_open (E0 w)"
    "0 < wave_next (pw_wave (cworld (ip_codec s)))"
    "find_status STATUS_IDLE (slots (ip_codec s)) = Some i" "asm_registers (ie_codec E) = Some h"
  shows "mgr_run E m s = None"
proof -
  let ?a = "ie_struct E" and ?buf = "ie_shm_map E"
  obtain s2 where s2: "s2 = on_sys (\<lambda>sys. sys\<lparr>mappings := (?buf, of_nat MEMTYPE_SUPPORT_MAX) # mappings sys\<rparr>)
    (on_sys (\<lambda>sys. sys\<lparr>open_fds := ie_shm_open E (m_filename m) # open_fds sys\<rparr>) s)" by blast
  obtain src0 sys0 where al: "alloc_source ?a (ip_sys s2) = (src0, sys0)" by fastforce
  define src where "src = src0\<lparr>src_type := MM_SOURCE_MEMORY_NOTALLOC, src_ptr := ?buf,
    src_bytes := wave_file d @ slack, cur_size := of_int (m_memsize m), tot_size := of_int (m_memsize m), src_fd := -1\<rparr>"
  let ?s3 = "on_sys (\<lambda>_. sys0) s2" and ?p = "memory_param m src"
  have addr: "src_addr src = ?a" "structs sys0 = ?a # structs (ip_sys s)"
    using al by (auto simp: src_def alloc_source_def s2)
  have param: "mp_source ?p = src" "mp_keytone ?p \<noteq> 1" "mp_keytone ?p \<noteq> 2"
    using assms(3,4) by (simp_all add: memory_param_def sound_param_def)
  have found: "find_codec (plugins (ip_codec ?s3)) 0 (mp_source ?p) (junk_info (ie_codec E)) =
      Some (Found 0 src (wave_info_of d))"
    unfolding on_sys_parts s2 assms(15) param(1)
    by (rule find_codec_server_wave [OF assms(12,13), where slack = slack]) (simp_all add: src_def assms(11))
  have c: "plugins (ip_codec ?s3) ! 0 = Some (server_wave fuel E0)"
    "find_status STATUS_IDLE (slots (ip_codec ?s3)) = Some i"
    "0 < wave_next (pw_wave (cworld (ip_codec ?s3)))" "structs (wave_sys (pw_wave (cworld (ip_codec ?s3)))) = structs sys0"
    using assms(15,17,18) by (simp_all add: s2 ip_sys_def [symmetric])
  have "\<not> 0 < sint (info_size (wave_info_of d))" by (simp add: wave_info_of_def assms(14))
  with server_wave_codec_play [OF found c(1) param(2,3) c(2) assms(19,16) c(3), of "-1"] obtain e c' where
    c': "codec_play (ie_codec E) ?p (-1) (ip_codec ?s3) = Some (e, int i, c')" "e \<noteq> MM_ERROR_NONE"
    "structs (wave_sys (pw_wave (cworld c'))) = remove1 ?a (structs sys0)" by (auto simp: c(4) addr(1))
  have "?a \<notin> set (structs (ip_sys (?s3\<lparr>ip_codec := c'\<rparr>)))"
    using assms(9) by (simp add: ip_sys_def [of "_\<lparr>ip_codec := _\<rparr>"] c'(3) addr(2))
  with c' have "play_shm E m src ?s3 = None"
    by (simp add: play_shm_def on_codec_def addr(1))
  then show ?thesis
    using assms(1,2,5-8,10) al
    by (simp add: mgr_run_def mgr_answer_def sound_answer_def ipc_play_memory_def Let_def s2 [symmetric]
        mm_source_open_full_memory_def src_def)
qed

definition ex_silence :: wave_desc where
  "ex_silence = ex_wave\<lparr>wd_data := []\<rparr>"

lemma ex_silence_wf: "wave_wf ex_silence" "wave_fuel ex_silence \<le> 3"
proof -
  have "length (wave_file ex_silence) \<le> length (wave_file ex_wave)"
    by (simp add: wave_file_def wave_body_def format_body_def ex_silence_def ex_wave_def)
  with ex_wave_wf show "wave_wf ex_silence" by (simp add: wave_wf_def ex_silence_def)
  show "wave_fuel ex_silence \<le> 3" by (simp add: wave_fuel_def ex_silence_def ex_wave_def)
qed

end
