(* ===== verification/Volume.thy ===== *)
theory Volume
  imports Routes
begin

text \<open>
  The volume functions of the client library (\<^verbatim>\<open>mm_sound.c\<close>): one word of the configuration database
  for every volume type, with the volume of the speaker in its low byte and that of the earphone in
  the next, and the callbacks for its changes.  The database, the audio library and the server are
  given by their answers; the earphone volume is separate, as the package builds it.
\<close>

type_synonym volume_type = int

definition VOLUME_TYPE_SYSTEM :: volume_type where "VOLUME_TYPE_SYSTEM = 0"
definition VOLUME_TYPE_NOTIFICATION :: volume_type where "VOLUME_TYPE_NOTIFICATION = 1"
definition VOLUME_TYPE_ALARM :: volume_type where "VOLUME_TYPE_ALARM = 2"
definition VOLUME_TYPE_RINGTONE :: volume_type where "VOLUME_TYPE_RINGTONE = 3"
definition VOLUME_TYPE_MEDIA :: volume_type where "VOLUME_TYPE_MEDIA = 4"
definition VOLUME_TYPE_CALL :: volume_type where "VOLUME_TYPE_CALL = 5"
definition VOLUME_TYPE_EXT_ANDROID :: volume_type where "VOLUME_TYPE_EXT_ANDROID = 6"
definition VOLUME_TYPE_EXT_JAVA :: volume_type where "VOLUME_TYPE_EXT_JAVA = 7"
definition VOLUME_TYPE_MAX :: volume_type where "VOLUME_TYPE_MAX = 8"

lemmas volume_types = VOLUME_TYPE_SYSTEM_def VOLUME_TYPE_NOTIFICATION_def VOLUME_TYPE_ALARM_def
  VOLUME_TYPE_RINGTONE_def VOLUME_TYPE_MEDIA_def VOLUME_TYPE_CALL_def VOLUME_TYPE_EXT_ANDROID_def
  VOLUME_TYPE_EXT_JAVA_def VOLUME_TYPE_MAX_def

datatype playback_device =
    SYSTEM_AUDIO_ROUTE_PLAYBACK_DEVICE_NONE | SYSTEM_AUDIO_ROUTE_PLAYBACK_DEVICE_HANDSET
  | SYSTEM_AUDIO_ROUTE_PLAYBACK_DEVICE_BLUETOOTH | SYSTEM_AUDIO_ROUTE_PLAYBACK_DEVICE_EARPHONE

record vol_env =
  MAX_BASIC :: int
  MAX_MULTIMEDIA :: int
  MAX_SINGLE :: int
  vconf_get_ok :: bool
  vconf_set_ok :: bool
  vconf_watch :: mm_err
  shared_set :: mm_err
  active_out :: "dev option"
  max_answer :: "mm_err \<times> int"

record vol_cb =
  vc_func :: ptr
  vc_data :: ptr
  vc_type :: volume_type

record vol =
  vconf :: "volume_type \<Rightarrow> 32 word"
  vol_params :: "volume_type \<Rightarrow> vol_cb"
  vol_watched :: "volume_type \<Rightarrow> bool"
  vol_called :: "(ptr \<times> ptr) list"

section \<open>Values\<close>

definition validate_volume :: "vol_env \<Rightarrow> volume_type \<Rightarrow> int \<Rightarrow> int" where
  "validate_volume E ty v =
    (if v < 0 then -1
     else if ty = VOLUME_TYPE_CALL then (if v \<ge> MAX_BASIC E then -1 else 0)
     else if ty \<in> set [VOLUME_TYPE_SYSTEM, VOLUME_TYPE_MEDIA, VOLUME_TYPE_ALARM, VOLUME_TYPE_EXT_JAVA,
                       VOLUME_TYPE_NOTIFICATION, VOLUME_TYPE_RINGTONE]
     then (if v \<ge> MAX_MULTIMEDIA E then -1 else 0)
     else if ty = VOLUME_TYPE_EXT_ANDROID then (if v \<ge> MAX_SINGLE E then -1 else 0)
     else -1)"

text \<open>The device that plays, asked of the server; nothing is written when it cannot be asked.\<close>

definition route_get_playing_device :: "vol_env \<Rightarrow> mm_err \<times> playback_device option" where
  "route_get_playing_device E =
    (case active_out E of
       None \<Rightarrow> (MM_ERROR_SOUND_INTERNAL, None)
     | Some ou \<Rightarrow>
         (MM_ERROR_NONE,
          Some (if ou = OUT_SPEAKER then SYSTEM_AUDIO_ROUTE_PLAYBACK_DEVICE_HANDSET
                else if ou = OUT_BT_A2DP then SYSTEM_AUDIO_ROUTE_PLAYBACK_DEVICE_BLUETOOTH
                else if ou = OUT_WIRED then SYSTEM_AUDIO_ROUTE_PLAYBACK_DEVICE_EARPHONE
                else SYSTEM_AUDIO_ROUTE_PLAYBACK_DEVICE_NONE)))"

text \<open>The volume functions ignore the result; the device is 0 before.\<close>

definition on_earphone :: "vol_env \<Rightarrow> bool" where
  "on_earphone E \<longleftrightarrow>
    (case snd (route_get_playing_device E) of
       None \<Rightarrow> SYSTEM_AUDIO_ROUTE_PLAYBACK_DEVICE_NONE | Some d \<Rightarrow> d)
      = SYSTEM_AUDIO_ROUTE_PLAYBACK_DEVICE_EARPHONE"

definition volume_word :: "bool \<Rightarrow> 32 word \<Rightarrow> 32 word \<Rightarrow> 32 word" where
  "volume_word earphone old v =
    (if earphone then (0x10000 OR (old AND 0x00FF)) OR push_bit 8 v else (old AND 0xFF00) OR v)"

definition volume_part :: "bool \<Rightarrow> 32 word \<Rightarrow> 32 word" where
  "volume_part earphone w = (if earphone then drop_bit 8 w AND 0x00FF else w AND 0x00FF)"

definition volume_set_value :: "vol_env \<Rightarrow> volume_type \<Rightarrow> 32 word \<Rightarrow> vol \<Rightarrow> mm_err \<times> vol" where
  "volume_set_value E ty v s =
    (if 0 > validate_volume E ty (sint v) then (MM_ERROR_INVALID_ARGUMENT, s)
     else if \<not> vconf_get_ok E then (MM_ERROR_SOUND_INTERNAL, s)
     else if \<not> vconf_set_ok E then (MM_ERROR_SOUND_INTERNAL, s)
     else (shared_set E,
           s\<lparr>vconf := (vconf s)(ty := volume_word (on_earphone E) (vconf s ty) v)\<rparr>))"

text \<open>A value that cannot be read is 0; the error is returned, and a value is given all the same.\<close>

definition volume_get_value :: "vol_env \<Rightarrow> volume_type \<Rightarrow> bool \<Rightarrow> vol \<Rightarrow> mm_err \<times> 32 word option" where
  "volume_get_value E ty ptr_ok s =
    (if \<not> ptr_ok \<or> ty < 0 \<or> ty \<ge> VOLUME_TYPE_MAX then (MM_ERROR_INVALID_ARGUMENT, None)
     else if vconf_get_ok E then (MM_ERROR_NONE, Some (volume_part (on_earphone E) (vconf s ty)))
     else (MM_ERROR_SOUND_INTERNAL, Some (volume_part (on_earphone E) 0)))"

text \<open>An error of the audio library is overwritten by success.\<close>

definition volume_get_step :: "vol_env \<Rightarrow> volume_type \<Rightarrow> bool \<Rightarrow> mm_err \<times> int option" where
  "volume_get_step E ty ptr_ok =
    (if \<not> ptr_ok \<or> ty < VOLUME_TYPE_SYSTEM \<or> ty \<ge> VOLUME_TYPE_MAX then (MM_ERROR_INVALID_ARGUMENT, None)
     else (MM_ERROR_NONE, if fst (max_answer E) = MM_ERROR_NONE then Some (snd (max_answer E)) else None))"

section \<open>Callbacks\<close>

definition volume_add_callback :: "vol_env \<Rightarrow> volume_type \<Rightarrow> ptr \<Rightarrow> ptr \<Rightarrow> vol \<Rightarrow> mm_err \<times> vol" where
  "volume_add_callback E ty func data s =
    (if ty < VOLUME_TYPE_SYSTEM \<or> ty \<ge> VOLUME_TYPE_MAX \<or> func = 0 then (MM_ERROR_INVALID_ARGUMENT, s)
     else (vconf_watch E,
           s\<lparr>vol_params := (vol_params s)(ty := \<lparr>vc_func = func, vc_data = data, vc_type = ty\<rparr>),
             vol_watched := (if vconf_watch E = MM_ERROR_NONE then (vol_watched s)(ty := True)
                             else vol_watched s)\<rparr>))"

definition volume_remove_callback :: "vol_env \<Rightarrow> volume_type \<Rightarrow> vol \<Rightarrow> mm_err \<times> vol" where
  "volume_remove_callback E ty s =
    (if ty < VOLUME_TYPE_SYSTEM \<or> ty \<ge> VOLUME_TYPE_MAX then (MM_ERROR_INVALID_ARGUMENT, s)
     else (vconf_watch E,
           s\<lparr>vol_params := (vol_params s)(ty := \<lparr>vc_func = 0, vc_data = 0, vc_type = ty\<rparr>),
             vol_watched := (if vconf_watch E = MM_ERROR_NONE then (vol_watched s)(ty := False)
                             else vol_watched s)\<rparr>))"

text \<open>The database tells a watched key: \<^verbatim>\<open>volume_changed_cb\<close>.\<close>

definition volume_changed :: "volume_type \<Rightarrow> vol \<Rightarrow> vol" where
  "volume_changed ty s =
    (let p = vol_params s ty
     in if vol_watched s ty \<and> vc_func p \<noteq> 0 then s\<lparr>vol_called := (vc_func p, vc_data p) # vol_called s\<rparr>
        else s)"

section \<open>Parts of a word\<close>

lemma byte_bits: "(v :: 32 word) < 0x100 \<Longrightarrow> bit v n \<Longrightarrow> n < 8"
proof -
  assume "v < 0x100" "bit v n"
  then have "take_bit 8 v = v"
    by (simp add: take_bit_eq_mod word_unat_eq_iff unat_mod word_less_nat_alt)
  with \<open>bit v n\<close> show "n < 8" by (metis bit_take_bit_iff)
qed

lemma mask_bits:
  "bit (0xFF :: 32 word) n = (n < 8)" "bit (0xFF00 :: 32 word) n = (8 \<le> n \<and> n < 16)"
  "bit (0x10000 :: 32 word) n = (n = 16)" "bit (0x100 :: 32 word) n = (n = 8)"
proof -
  have "(0xFF :: 32 word) = mask 8" "(0xFF00 :: 32 word) = push_bit 8 (mask 8)"
    "(0x10000 :: 32 word) = push_bit 16 1" "(0x100 :: 32 word) = push_bit 8 1"
    by (simp_all add: mask_eq_exp_minus_1 push_bit_eq_mult)
  then show "bit (0xFF :: 32 word) n = (n < 8)" "bit (0xFF00 :: 32 word) n = (8 \<le> n \<and> n < 16)"
    "bit (0x10000 :: 32 word) n = (n = 16)" "bit (0x100 :: 32 word) n = (n = 8)"
    by (auto simp only: bit_simps) auto
qed

lemma volume_part_word:
  assumes "v < 0x100"
  shows "volume_part e' (volume_word e old v) = (if e = e' then v else volume_part e' old)"
proof (rule bit_word_eqI)
  fix n assume n: "n < LENGTH(32)"
  show "bit (volume_part e' (volume_word e old v)) n = bit (if e = e' then v else volume_part e' old) n"
    using byte_bits [OF assms, of n] byte_bits [OF assms, of "n - 8"] byte_bits [OF assms, of "8 + n"] n
    by (cases e; cases e')
      (auto simp: volume_part_def volume_word_def bit_simps mask_bits simp del: bit_numeral_word_iff)
qed

end
