(* ===== verification/Volume_Props.thy ===== *)
theory Volume_Props
  imports Volume
begin

text \<open>
  Properties of the volume functions (\<^verbatim>\<open>Volume\<close>): the two volumes of a type in one word do not disturb
  each other, and a change of a volume calls the function that was registered last.
\<close>

definition limits_fit :: "vol_env \<Rightarrow> bool" where
  "limits_fit E \<longleftrightarrow> MAX_BASIC E \<le> 256 \<and> MAX_MULTIMEDIA E \<le> 256 \<and> MAX_SINGLE E \<le> 256"

lemma validated_bounds:
  "validate_volume E ty n = 0 \<Longrightarrow> limits_fit E \<Longrightarrow> 0 \<le> n \<and> n < 256 \<and> 0 \<le> ty \<and> ty < VOLUME_TYPE_MAX"
  by (auto simp: validate_volume_def limits_fit_def volume_types split: if_splits)

lemma sint_byte: "0 \<le> sint v \<Longrightarrow> sint v < 256 \<Longrightarrow> v < (0x100 :: 32 word)"
proof -
  assume v: "0 \<le> sint v" "sint v < 256"
  have "uint (word_of_int k :: 32 word) = k" if "0 \<le> k" "k < 256" for k :: int
    using that by (simp add: unsigned_of_int take_bit_eq_mod)
  from this [OF v] v(2) show ?thesis by (simp add: word_less_def)
qed

text \<open>
  C27: a volume that was set is read back on the same kind of device; the volume of the other kind of
  device and the volumes of the other types are what they were.
\<close>

theorem volume_round_trip:
  assumes "limits_fit E" "validate_volume E ty (sint v) = 0"
    and "vconf_get_ok E" "vconf_set_ok E" "vconf_get_ok E'"
  shows "volume_get_value E' ty True (snd (volume_set_value E ty v s)) =
           (MM_ERROR_NONE,
            Some (if on_earphone E = on_earphone E' then v else volume_part (on_earphone E') (vconf s ty)))
         \<and> (\<forall>ty' p. ty' \<noteq> ty \<longrightarrow>
              volume_get_value E' ty' p (snd (volume_set_value E ty v s)) = volume_get_value E' ty' p s)"
proof -
  have b: "v < 0x100" "0 \<le> ty" "ty < VOLUME_TYPE_MAX"
    using validated_bounds [OF assms(2,1)] sint_byte by auto
  with assms show ?thesis
    by (simp add: volume_set_value_def volume_get_value_def volume_part_word)
qed

definition ex_vol_env :: "dev \<Rightarrow> vol_env" where
  "ex_vol_env d = \<lparr>MAX_BASIC = 7, MAX_MULTIMEDIA = 16, MAX_SINGLE = 101, vconf_get_ok = True,
     vconf_set_ok = True, vconf_watch = MM_ERROR_NONE, shared_set = MM_ERROR_NONE,
     active_out = Some d, max_answer = (MM_ERROR_NONE, 15)\<rparr>"

definition ex_vol :: vol where
  "ex_vol = \<lparr>vconf = (\<lambda>_. 0x10305), vol_params = (\<lambda>ty. \<lparr>vc_func = 0, vc_data = 0, vc_type = 0\<rparr>),
     vol_watched = (\<lambda>_. False), vol_called = []\<rparr>"

theorem volume_round_trip_witness:
  "volume_get_value (ex_vol_env OUT_SPEAKER) VOLUME_TYPE_MEDIA True
     (snd (volume_set_value (ex_vol_env OUT_WIRED) VOLUME_TYPE_MEDIA 11 ex_vol)) = (MM_ERROR_NONE, Some 5)
   \<and> volume_get_value (ex_vol_env OUT_WIRED) VOLUME_TYPE_MEDIA True
     (snd (volume_set_value (ex_vol_env OUT_WIRED) VOLUME_TYPE_MEDIA 11 ex_vol)) = (MM_ERROR_NONE, Some 11)"
proof -
  have e: "on_earphone (ex_vol_env OUT_WIRED)" "\<not> on_earphone (ex_vol_env OUT_SPEAKER)"
    by (simp_all add: on_earphone_def route_get_playing_device_def ex_vol_env_def dev_bits)
  have h: "limits_fit (ex_vol_env OUT_WIRED)"
    "validate_volume (ex_vol_env OUT_WIRED) VOLUME_TYPE_MEDIA (sint (11 :: 32 word)) = 0"
    "vconf_get_ok (ex_vol_env OUT_WIRED)" "vconf_set_ok (ex_vol_env OUT_WIRED)"
    "vconf_get_ok (ex_vol_env OUT_SPEAKER)"
    by (simp_all add: limits_fit_def validate_volume_def ex_vol_env_def volume_types)
  show ?thesis
    using volume_round_trip [OF h(1-5), of ex_vol] volume_round_trip [OF h(1-4,3), of ex_vol] e
    by (simp add: ex_vol_def volume_part_def)
qed

section \<open>Callbacks\<close>

datatype vol_op = VolAdd volume_type ptr ptr | VolRemove volume_type | VolSet volume_type "32 word"

fun vol_step :: "vol_env \<Rightarrow> vol_op \<Rightarrow> vol \<Rightarrow> vol" where
  "vol_step E (VolAdd ty f d) s = snd (volume_add_callback E ty f d s)"
| "vol_step E (VolRemove ty) s = snd (volume_remove_callback E ty s)"
| "vol_step E (VolSet ty v) s = snd (volume_set_value E ty v s)"

text \<open>The registrations as a map: what the functions promise.\<close>

fun vol_spec :: "vol_op \<Rightarrow> (volume_type \<Rightarrow> (ptr \<times> ptr) option) \<Rightarrow> volume_type \<Rightarrow> (ptr \<times> ptr) option" where
  "vol_spec (VolAdd ty f d) m =
    (if 0 \<le> ty \<and> ty < VOLUME_TYPE_MAX \<and> f \<noteq> 0 then m(ty \<mapsto> (f, d)) else m)"
| "vol_spec (VolRemove ty) m = m(ty := None)"
| "vol_spec (VolSet ty v) m = m"

definition vol_abs :: "vol \<Rightarrow> volume_type \<Rightarrow> (ptr \<times> ptr) option" where
  "vol_abs s ty =
    (if 0 \<le> ty \<and> ty < VOLUME_TYPE_MAX \<and> vol_watched s ty \<and> vc_func (vol_params s ty) \<noteq> 0
     then Some (vc_func (vol_params s ty), vc_data (vol_params s ty)) else None)"

lemma vol_step_abs:
  "vconf_watch E = MM_ERROR_NONE \<Longrightarrow> vol_abs (vol_step E op s) = vol_spec op (vol_abs s)"
  by (cases op)
    (auto simp: vol_abs_def volume_add_callback_def volume_remove_callback_def volume_set_value_def
      volume_types fun_eq_iff)

lemma vol_steps_abs:
  "vconf_watch E = MM_ERROR_NONE \<Longrightarrow> vol_abs (fold (vol_step E) ops s) = fold vol_spec ops (vol_abs s)"
  by (induction ops arbitrary: s) (simp_all add: vol_step_abs)

lemma vol_step_called: "vol_called (vol_step E op s) = vol_called s"
  by (cases op) (simp_all add: volume_add_callback_def volume_remove_callback_def volume_set_value_def)

lemma vol_steps_called: "vol_called (fold (vol_step E) ops s) = vol_called s"
  by (induction ops arbitrary: s) (simp_all add: vol_step_called)

text \<open>
  After any registrations, removals and volume changes, a change of a volume calls exactly the
  function that was registered last for the type and not removed since, with its data.
\<close>

lemma volume_change_calls_last:
  assumes "vconf_watch E = MM_ERROR_NONE" "0 \<le> ty" "ty < VOLUME_TYPE_MAX"
  shows "vol_called (volume_changed ty (fold (vol_step E) ops s)) =
    (case fold vol_spec ops (vol_abs s) ty of Some c \<Rightarrow> [c] | None \<Rightarrow> []) @ vol_called s"
proof -
  let ?t = "fold (vol_step E) ops s"
  have "fold vol_spec ops (vol_abs s) ty = vol_abs ?t ty" by (simp add: vol_steps_abs [OF assms(1)])
  then show ?thesis
    using assms(2,3) by (simp add: volume_changed_def vol_abs_def Let_def vol_steps_called)
qed

end
