(* ===== verification/Pcm.thy ===== *)
theory Pcm
  imports Messages Source
begin

text \<open>
  The PCM functions of the client library (\<^verbatim>\<open>mm_sound.c\<close>): handles for playback and capture, their
  registration with the audio session manager, and the state that guards reading and writing.  The
  audio session manager, the sound device and the session utilities are given by their answers, and
  their calls are logged, newest first.
\<close>

datatype pcm_channel = MMSOUND_PCM_MONO | MMSOUND_PCM_STEREO | MMSOUND_PCM_CHANNEL_OTHER int

datatype pcm_format = MMSOUND_PCM_U8 | MMSOUND_PCM_S16_LE | MMSOUND_PCM_FORMAT_OTHER int

definition MIN_SYSTEM_SAMPLERATE :: nat where "MIN_SYSTEM_SAMPLERATE = 8000"
definition MAX_SYSTEM_SAMPLERATE :: nat where "MAX_SYSTEM_SAMPLERATE = 48000"

datatype pcm_call =
    PcmRegister int asm_event
  | PcmUnregister int asm_event
  | PcmSetState int asm_event asm_sstate
  | PcmOpen int
  | PcmClose int
  | PcmCork int bool
  | PcmDrain int
  | PcmWrite int bytes
  | PcmRead int nat
  | PcmMessage ptr int ptr

record pcm =
  pc_audio :: int
  pc_asm_handle :: int
  pc_asm_event :: asm_event
  pc_started :: bool
  pc_playback :: bool
  pc_msg_cb :: ptr
  pc_msg_param :: ptr

text \<open>A handle after \<^verbatim>\<open>calloc\<close>; the event with the number 0 is that of the players.\<close>

definition zero_pcm :: pcm where
  "zero_pcm = \<lparr>pc_audio = 0, pc_asm_handle = 0, pc_asm_event = ASM_EVENT_SHARE_MMPLAYER,
     pc_started = False, pc_playback = False, pc_msg_cb = 0, pc_msg_param = 0\<rparr>"

record pcm_env =
  pe_calloc :: bool
  pe_session :: "mm_session_type option"
  pe_session_init :: bool
  pe_register :: "int option"
  pe_set_state :: bool
  pe_open :: "(int \<times> int) option"
  pe_cork :: mm_err
  pe_close :: bool
  pe_moved :: int

section \<open>Opening\<close>

definition get_asm_event_type :: "pcm_env \<Rightarrow> mm_err + asm_event" where
  "get_asm_event_type E =
    (case (case pe_session E of Some ty \<Rightarrow> Some ty
           | None \<Rightarrow> if pe_session_init E then Some MM_SESSION_TYPE_SHARE else None) of
       None \<Rightarrow> Inl MM_ERROR_SOUND_INTERNAL
     | Some MM_SESSION_TYPE_SHARE \<Rightarrow> Inr ASM_EVENT_SHARE_MMSOUND
     | Some MM_SESSION_TYPE_EXCLUSIVE \<Rightarrow> Inr ASM_EVENT_EXCLUSIVE_MMSOUND
     | Some MM_SESSION_TYPE_NOTIFY \<Rightarrow> Inr ASM_EVENT_NOTIFY
     | Some MM_SESSION_TYPE_ALARM \<Rightarrow> Inr ASM_EVENT_ALARM
     | Some MM_SESSION_TYPE_CALL \<Rightarrow> Inr ASM_EVENT_CALL
     | Some MM_SESSION_TYPE_VIDEOCALL \<Rightarrow> Inr ASM_EVENT_VIDEOCALL
     | Some (MM_SESSION_TYPE_OTHER n) \<Rightarrow> Inl MM_ERROR_SOUND_INTERNAL)"

definition no_call :: "asm_event \<Rightarrow> bool" where
  "no_call ev \<longleftrightarrow> ev \<noteq> ASM_EVENT_CALL \<and> ev \<noteq> ASM_EVENT_VIDEOCALL"

definition pcm_arguments :: "nat \<Rightarrow> pcm_channel \<Rightarrow> pcm_format \<Rightarrow> mm_err" where
  "pcm_arguments rate channel format =
    (if rate < MIN_SYSTEM_SAMPLERATE \<or> rate > MAX_SYSTEM_SAMPLERATE
     then MM_ERROR_SOUND_DEVICE_INVALID_SAMPLERATE
     else if channel \<noteq> MMSOUND_PCM_MONO \<and> channel \<noteq> MMSOUND_PCM_STEREO
     then MM_ERROR_SOUND_DEVICE_INVALID_CHANNEL
     else if format \<noteq> MMSOUND_PCM_U8 \<and> format \<noteq> MMSOUND_PCM_S16_LE
     then MM_ERROR_SOUND_DEVICE_INVALID_FORMAT
     else MM_ERROR_NONE)"

text \<open>Opening the device; a registration is not taken back when it fails.\<close>

definition pcm_device ::
  "pcm_env \<Rightarrow> bool \<Rightarrow> pcm \<Rightarrow> pcm_call list \<Rightarrow> (mm_err + pcm \<times> int) \<times> pcm_call list" where
  "pcm_device E playback p cs =
    (case pe_open E of
       None \<Rightarrow> (Inl MM_ERROR_SOUND_DEVICE_NOT_OPENED, cs)
     | Some (h, sz) \<Rightarrow> (Inr (p\<lparr>pc_audio := h, pc_playback := playback\<rparr>, sz), PcmOpen h # cs))"

definition pcm_capture_open ::
  "pcm_env \<Rightarrow> nat \<Rightarrow> pcm_channel \<Rightarrow> pcm_format \<Rightarrow> pcm_call list \<Rightarrow>
    (mm_err + pcm \<times> int) \<times> pcm_call list" where
  "pcm_capture_open E rate channel format cs =
    (if pcm_arguments rate channel format \<noteq> MM_ERROR_NONE then (Inl (pcm_arguments rate channel format), cs)
     else if \<not> pe_calloc E then (Inl MM_ERROR_OUT_OF_MEMORY, cs)
     else
       (case get_asm_event_type E of
          Inl e \<Rightarrow> (Inl MM_ERROR_POLICY_INTERNAL, cs)
        | Inr ev \<Rightarrow>
            if no_call ev then
              (case pe_register E of
                 None \<Rightarrow> (Inl MM_ERROR_POLICY_BLOCKED, cs)
               | Some a \<Rightarrow> pcm_device E False (zero_pcm\<lparr>pc_asm_handle := a, pc_asm_event := ev\<rparr>)
                             (PcmRegister a ev # cs))
            else pcm_device E False (zero_pcm\<lparr>pc_asm_event := ev\<rparr>) cs))"

text \<open>Without an event of its own a sound for playback is registered whatever the session is: the test
  reads the cleared handle.  With an event, the event is not stored in the handle.\<close>

definition pcm_play_open_ex ::
  "pcm_env \<Rightarrow> nat \<Rightarrow> pcm_channel \<Rightarrow> pcm_format \<Rightarrow> int \<Rightarrow> int \<Rightarrow> asm_event option \<Rightarrow> pcm_call list \<Rightarrow>
    (mm_err + pcm \<times> int) \<times> pcm_call list" where
  "pcm_play_open_ex E rate channel format vol_type vol_max asm_ev cs =
    (if vol_type < 0 \<or> vol_type \<ge> vol_max then (Inl MM_ERROR_INVALID_ARGUMENT, cs)
     else if pcm_arguments rate channel format \<noteq> MM_ERROR_NONE
     then (Inl (pcm_arguments rate channel format), cs)
     else if \<not> pe_calloc E then (Inl MM_ERROR_OUT_OF_MEMORY, cs)
     else
       (case asm_ev of
          None \<Rightarrow>
            if no_call (pc_asm_event zero_pcm) then
              (case get_asm_event_type E of
                 Inl e \<Rightarrow> (Inl MM_ERROR_POLICY_INTERNAL, cs)
               | Inr ev \<Rightarrow>
                   (case pe_register E of
                      None \<Rightarrow> (Inl MM_ERROR_POLICY_BLOCKED, cs)
                    | Some a \<Rightarrow> pcm_device E True (zero_pcm\<lparr>pc_asm_handle := a, pc_asm_event := ev\<rparr>)
                                  (PcmRegister a ev # cs)))
            else pcm_device E True zero_pcm cs
        | Some ev \<Rightarrow>
            (case pe_register E of
               None \<Rightarrow> (Inl MM_ERROR_POLICY_BLOCKED, cs)
             | Some a \<Rightarrow> pcm_device E True (zero_pcm\<lparr>pc_asm_handle := a\<rparr>) (PcmRegister a ev # cs))))"

definition pcm_play_open ::
  "pcm_env \<Rightarrow> nat \<Rightarrow> pcm_channel \<Rightarrow> pcm_format \<Rightarrow> int \<Rightarrow> int \<Rightarrow> pcm_call list \<Rightarrow>
    (mm_err + pcm \<times> int) \<times> pcm_call list" where
  "pcm_play_open E rate channel format vol_type vol_max cs =
    pcm_play_open_ex E rate channel format vol_type vol_max None cs"

section \<open>Starting and stopping\<close>

definition pcm_sound_start :: "pcm_env \<Rightarrow> pcm \<Rightarrow> pcm_call list \<Rightarrow> mm_err \<times> pcm \<times> pcm_call list" where
  "pcm_sound_start E p cs =
    (let cs1 = PcmSetState (pc_asm_handle p) (pc_asm_event p) ASM_STATE_PLAYING # cs
     in if \<not> pe_set_state E then (MM_ERROR_POLICY_BLOCKED, p, cs1)
        else (pe_cork E, p\<lparr>pc_started := True\<rparr>, PcmCork (pc_audio p) False # cs1))"

definition pcm_sound_stop_internal ::
  "pcm_env \<Rightarrow> pcm \<Rightarrow> pcm_call list \<Rightarrow> mm_err \<times> pcm \<times> pcm_call list" where
  "pcm_sound_stop_internal E p cs =
    (if \<not> pc_started p then (MM_ERROR_SOUND_INVALID_STATE, p, cs)
     else (pe_cork E, p\<lparr>pc_started := False\<rparr>,
           PcmCork (pc_audio p) True # (if pc_playback p then PcmDrain (pc_audio p) # cs else cs)))"

definition pcm_sound_stop :: "pcm_env \<Rightarrow> pcm \<Rightarrow> pcm_call list \<Rightarrow> mm_err \<times> pcm \<times> pcm_call list" where
  "pcm_sound_stop E p cs =
    (case pcm_sound_stop_internal E p cs of
       (e, p', cs') \<Rightarrow>
         if e = MM_ERROR_NONE
         then (if pe_set_state E then MM_ERROR_NONE else MM_ERROR_POLICY_BLOCKED, p',
               PcmSetState (pc_asm_handle p') (pc_asm_event p') ASM_STATE_STOP # cs')
         else (e, p', cs'))"

definition pcm_send_message :: "pcm \<Rightarrow> int \<Rightarrow> pcm_call list \<Rightarrow> pcm_call list" where
  "pcm_send_message p code cs =
    (if pc_msg_cb p \<noteq> 0 then PcmMessage (pc_msg_cb p) code (pc_msg_param p) # cs else cs)"

text \<open>The audio session manager interrupts the sound.\<close>

definition sound_pcm_asm_callback ::
  "pcm_env \<Rightarrow> asm_command \<Rightarrow> int \<Rightarrow> pcm \<Rightarrow> pcm_call list \<Rightarrow> asm_cb_res \<times> pcm \<times> pcm_call list" where
  "sound_pcm_asm_callback E cmd source p cs =
    (case (case cmd of
             ASM_COMMAND_STOP \<Rightarrow> (ASM_CB_RES_PAUSE, snd (pcm_sound_stop_internal E p cs))
           | _ \<Rightarrow> (ASM_CB_RES_IGNORE, p, cs)) of
       (r, p', cs') \<Rightarrow> (r, p', pcm_send_message p' source cs'))"

section \<open>Reading, writing, closing\<close>

definition pcm_play_write ::
  "pcm_env \<Rightarrow> pcm \<Rightarrow> bytes option \<Rightarrow> pcm_call list \<Rightarrow> (mm_err + int) \<times> pcm_call list" where
  "pcm_play_write E p buf cs =
    (case buf of
       None \<Rightarrow> (Inl MM_ERROR_SOUND_INVALID_POINTER, cs)
     | Some bs \<Rightarrow>
         if bs = [] then (Inr 0, cs)
         else if \<not> pc_started p then (Inl MM_ERROR_SOUND_INVALID_STATE, cs)
         else (Inr (pe_moved E), PcmWrite (pc_audio p) bs # cs))"

definition pcm_capture_read ::
  "pcm_env \<Rightarrow> pcm \<Rightarrow> bool \<Rightarrow> nat \<Rightarrow> pcm_call list \<Rightarrow> (mm_err + int) \<times> pcm_call list" where
  "pcm_capture_read E p buf n cs =
    (if \<not> buf then (Inl MM_ERROR_SOUND_INVALID_POINTER, cs)
     else if n = 0 then (Inr 0, cs)
     else if \<not> pc_started p then (Inl MM_ERROR_SOUND_INVALID_STATE, cs)
     else (Inr (pe_moved E), PcmRead (pc_audio p) n # cs))"

definition pcm_set_message_callback :: "ptr \<Rightarrow> ptr \<Rightarrow> pcm \<Rightarrow> mm_err \<times> pcm" where
  "pcm_set_message_callback f d p =
    (if f = 0 then (MM_ERROR_INVALID_ARGUMENT, p)
     else (MM_ERROR_NONE, p\<lparr>pc_msg_cb := f, pc_msg_param := d\<rparr>))"

definition pcm_close :: "pcm_env \<Rightarrow> pcm \<Rightarrow> pcm_call list \<Rightarrow> mm_err \<times> pcm_call list" where
  "pcm_close E p cs =
    (if pe_close E then MM_ERROR_NONE else MM_ERROR_SOUND_INTERNAL,
     (if no_call (pc_asm_event p) then [PcmUnregister (pc_asm_handle p) (pc_asm_event p)] else []) @
     PcmClose (pc_audio p) # cs)"

definition pcm_capture_close :: "pcm_env \<Rightarrow> pcm \<Rightarrow> pcm_call list \<Rightarrow> mm_err \<times> pcm_call list" where
  "pcm_capture_close E p cs = pcm_close E p cs"

definition pcm_play_close :: "pcm_env \<Rightarrow> pcm \<Rightarrow> pcm_call list \<Rightarrow> mm_err \<times> pcm_call list" where
  "pcm_play_close E p cs =
    pcm_close E p (if pc_started p then PcmDrain (pc_audio p) # cs else cs)"

text \<open>What a client and the audio session manager do with an open handle; every step has its own
  answers.\<close>

datatype pcm_op =
    PcmStart | PcmStop | PcmOpWrite "bytes option" | PcmOpRead bool nat
  | PcmAsmCommand asm_command int | PcmSetCallback ptr ptr

fun pcm_step :: "pcm_env \<times> pcm_op \<Rightarrow> pcm \<times> pcm_call list \<Rightarrow> pcm \<times> pcm_call list" where
  "pcm_step (E, PcmStart) (p, cs) = snd (pcm_sound_start E p cs)"
| "pcm_step (E, PcmStop) (p, cs) = snd (pcm_sound_stop E p cs)"
| "pcm_step (E, PcmOpWrite b) (p, cs) = (p, snd (pcm_play_write E p b cs))"
| "pcm_step (E, PcmOpRead b n) (p, cs) = (p, snd (pcm_capture_read E p b n cs))"
| "pcm_step (E, PcmAsmCommand c i) (p, cs) = snd (sound_pcm_asm_callback E c i p cs)"
| "pcm_step (E, PcmSetCallback f d) (p, cs) = (snd (pcm_set_message_callback f d p), cs)"

end
