(* ===== verification/Pcm_Props.thy ===== *)
theory Pcm_Props
  imports Pcm
begin

text \<open>
  Properties of the PCM functions (\<^verbatim>\<open>Pcm\<close>): sound data moves only while the device is uncorked, and
  what is left of the registration with the audio session manager when a handle is closed.
\<close>

section \<open>Data and corks\<close>

text \<open>Whether the last cork of a log, newest first, is an uncork, and whether data moved only then.\<close>

fun uncorked :: "pcm_call list \<Rightarrow> bool" where
  "uncorked [] = False"
| "uncorked (c # cs) = (case c of PcmCork h b \<Rightarrow> \<not> b | _ \<Rightarrow> uncorked cs)"

fun data_while_uncorked :: "pcm_call list \<Rightarrow> bool" where
  "data_while_uncorked [] = True"
| "data_while_uncorked (c # cs) =
    ((case c of PcmWrite h b \<Rightarrow> uncorked cs | PcmRead h n \<Rightarrow> uncorked cs | _ \<Rightarrow> True) \<and>
     data_while_uncorked cs)"

lemmas pcm_ops = pcm_sound_start_def pcm_sound_stop_def pcm_sound_stop_internal_def pcm_play_write_def
  pcm_capture_read_def pcm_set_message_callback_def sound_pcm_asm_callback_def pcm_send_message_def

definition pcm_ok :: "pcm \<times> pcm_call list \<Rightarrow> bool" where
  "pcm_ok = (\<lambda>(p, cs). (pc_started p \<longleftrightarrow> uncorked cs) \<and> data_while_uncorked cs)"

lemma pcm_step_ok: "pcm_ok s \<Longrightarrow> pcm_ok (pcm_step eo s)"
  by (cases "(eo, s)" rule: pcm_step.cases)
    (auto simp: pcm_ok_def pcm_ops Let_def split: if_splits option.splits asm_command.splits)

lemma pcm_steps_ok: "pcm_ok s \<Longrightarrow> pcm_ok (fold pcm_step eos s)"
  by (induction eos arbitrary: s) (simp_all add: pcm_step_ok)

lemma opened_not_started:
  "pcm_capture_open E r c f cs = (Inr (p, n), cs1) \<Longrightarrow> \<not> pc_started p"
  "pcm_play_open_ex E r c f vt vm ev cs = (Inr (p, n), cs1) \<Longrightarrow> \<not> pc_started p"
  by (auto simp: pcm_capture_open_def pcm_play_open_ex_def pcm_device_def zero_pcm_def Let_def
      split: if_splits option.splits sum.splits)


definition ex_pcm_env :: "mm_session_type \<Rightarrow> pcm_env" where
  "ex_pcm_env ty = \<lparr>pe_calloc = True, pe_session = Some ty, pe_session_init = True,
     pe_register = Some 4, pe_set_state = True, pe_open = Some (9, 512), pe_cork = MM_ERROR_NONE,
     pe_close = True, pe_moved = 2\<rparr>"

lemmas pcm_examples = ex_pcm_env_def pcm_capture_open_def pcm_play_open_ex_def pcm_device_def
  pcm_arguments_def MIN_SYSTEM_SAMPLERATE_def MAX_SYSTEM_SAMPLERATE_def get_asm_event_type_def
  no_call_def zero_pcm_def


section \<open>Registrations\<close>

fun open_registrations :: "pcm_call list \<Rightarrow> int" where
  "open_registrations [] = 0"
| "open_registrations (c # cs) =
    (case c of PcmRegister a ev \<Rightarrow> 1 | PcmUnregister a ev \<Rightarrow> -1 | _ \<Rightarrow> 0) + open_registrations cs"

lemma pcm_step_registration:
  "pc_asm_event (fst (pcm_step eo s)) = pc_asm_event (fst s) \<and>
   open_registrations (snd (pcm_step eo s)) = open_registrations (snd s)"
  by (cases "(eo, s)" rule: pcm_step.cases)
    (auto simp: pcm_ops Let_def split: if_splits option.splits asm_command.splits)

lemma pcm_steps_registration:
  "pc_asm_event (fst (fold pcm_step eos s)) = pc_asm_event (fst s) \<and>
   open_registrations (snd (fold pcm_step eos s)) = open_registrations (snd s)"
  by (induction eos arbitrary: s) (simp_all add: pcm_step_registration)

lemma pcm_close_registration:
  "open_registrations (snd (pcm_close E p cs)) =
    open_registrations cs - (if no_call (pc_asm_event p) then 1 else 0)"
  by (simp add: pcm_close_def)

text \<open>The life of a handle between opening and closing.\<close>

definition pcm_life ::
  "(pcm_env \<Rightarrow> pcm \<Rightarrow> pcm_call list \<Rightarrow> mm_err \<times> pcm_call list) \<Rightarrow> (pcm_env \<times> pcm_op) list \<Rightarrow> pcm_env \<Rightarrow>
    pcm \<Rightarrow> pcm_call list \<Rightarrow> pcm_call list" where
  "pcm_life cl eos E p cs = (case fold pcm_step eos (p, cs) of (p', cs') \<Rightarrow> snd (cl E p' cs'))"

lemma pcm_life_registrations:
  assumes "cl = pcm_capture_close \<or> cl = pcm_play_close"
  shows "open_registrations (pcm_life cl eos E p cs) =
    open_registrations cs - (if no_call (pc_asm_event p) then 1 else 0)"
  using pcm_steps_registration [of eos "(p, cs)"] assms
  by (auto simp: pcm_life_def pcm_capture_close_def pcm_play_close_def pcm_close_registration
      split: prod.splits)

text \<open>
  Opening and closing leaves no registration behind, whatever happens in between, with one
  exception: a handle for playback opened without an event in a session of a call is registered and
  never unregistered.  Capturing in such a session is not registered at all.
\<close>

lemma pcm_registrations:
  "(pcm_capture_open E r c f cs = (Inr (p, n), cs1) \<longrightarrow>
      open_registrations (pcm_life pcm_capture_close eos E' p cs1) = open_registrations cs)
   \<and> (pcm_play_open_ex E r c f vt vm ev cs = (Inr (p, n), cs1) \<longrightarrow>
      open_registrations (pcm_life pcm_play_close eos E' p cs1) =
        open_registrations cs +
        (if ev = None \<and> get_asm_event_type E \<in> {Inr ASM_EVENT_CALL, Inr ASM_EVENT_VIDEOCALL} then 1 else 0))"
  by (auto simp: pcm_life_registrations pcm_capture_open_def pcm_play_open_ex_def pcm_device_def
      zero_pcm_def no_call_def split: if_splits option.splits sum.splits)

text \<open>The event given to \<^verbatim>\<open>mm_sound_pcm_play_open_ex\<close> is lost: the handle keeps the event 0.\<close>

lemma given_event_lost:
  "pcm_play_open_ex E r c f vt vm (Some ev) cs = (Inr (p, n), cs1) \<Longrightarrow>
    (\<exists>a. PcmRegister a ev \<in> set cs1) \<and> pc_asm_event p = ASM_EVENT_SHARE_MMPLAYER"
  by (auto simp: pcm_play_open_ex_def pcm_device_def zero_pcm_def split: if_splits option.splits)

end
