(* ===== verification/Client.thy ===== *)
theory Client
  imports Messages Source
begin

text \<open>
  The client side of the requests (\<^verbatim>\<open>mm_sound_client.c\<close>): a request is put into the queue to the server
  and the answer is awaited in the queue from the server; the end of sounds and changes of devices
  arrive in a third queue and are turned into calls of the client's functions by a thread.  A call has
  no value while it waits for an answer, or where the C code reads through a null pointer or behind an
  array.
\<close>

section \<open>Queues\<close>

text \<open>What one attempt of \<^verbatim>\<open>msgrcv\<close> meets: messages that have arrived before, a signal, or an error; what
  happens after a request can depend on it.\<close>

datatype poll = Arrived "sound_msg list" | Interrupted | Broken

record cl_env =
  ce_pid :: pid
  ce_getmsg :: bool
  ce_session :: "mm_session_type option"
  ce_session_init :: bool
  ce_send :: bool
  ce_polls :: "sound_msg \<Rightarrow> poll list"
  ce_thread :: int
  ce_shm_open :: bool
  ce_ftruncate :: bool
  ce_mmap :: bool
  ce_close :: bool

text \<open>The globals of the library, the requests that were sent, newest first, the answers that wait, and
  the shared memory the client made.\<close>

record client =
  cl_mutex_initted :: bool
  cl_thread_id :: int
  cl_keybase :: int
  cl_sent :: "sound_msg list"
  cl_answers :: "sound_msg list"
  cl_shm :: "string \<Rightarrow> bytes option"

definition RETRIES :: nat where "RETRIES = 20000"

text \<open>The first message of a process is taken out of the queue.\<close>

fun take_for :: "pid \<Rightarrow> sound_msg list \<Rightarrow> (sound_msg \<times> sound_msg list) option" where
  "take_for p [] = None"
| "take_for p (m # q) =
    (if m_msgid m = p then Some (m, q) else map_option (\<lambda>(r, q'). (r, m # q')) (take_for p q))"

fun ipc_recv_msg ::
  "pid \<Rightarrow> nat \<Rightarrow> poll list \<Rightarrow> sound_msg list \<Rightarrow> ((mm_err + sound_msg) \<times> sound_msg list) option" where
  "ipc_recv_msg p n [] q = None"
| "ipc_recv_msg p n (Interrupted # ps) q = ipc_recv_msg p n ps q"
| "ipc_recv_msg p n (Broken # ps) q = Some (Inl MM_ERROR_COMMON_UNKNOWN, q)"
| "ipc_recv_msg p n (Arrived ms # ps) q =
    (case take_for p (q @ ms) of
       Some (m, q') \<Rightarrow> Some (Inr m, q')
     | None \<Rightarrow> if n < RETRIES then ipc_recv_msg p (Suc n) ps (q @ ms)
               else Some (Inl MM_ERROR_SOUND_INTERNAL, q @ ms))"

definition client_snd_msg :: "cl_env \<Rightarrow> sound_msg \<Rightarrow> client \<Rightarrow> mm_err \<times> client" where
  "client_snd_msg E m c =
    (if ce_send E then (MM_ERROR_NONE, c\<lparr>cl_sent := m # cl_sent c\<rparr>) else (MM_ERROR_SOUND_INTERNAL, c))"

text \<open>The queues are looked up at the first request only; a failure is reported once.\<close>

definition client_get_msg_queue :: "cl_env \<Rightarrow> client \<Rightarrow> mm_err \<times> client" where
  "client_get_msg_queue E c =
    (if cl_mutex_initted c then (MM_ERROR_NONE, c)
     else (if ce_getmsg E then MM_ERROR_NONE else MM_ERROR_SOUND_INTERNAL, c\<lparr>cl_mutex_initted := True\<rparr>))"

text \<open>Sending a request and waiting for its answer.\<close>

definition client_exchange ::
  "cl_env \<Rightarrow> sound_msg \<Rightarrow> client \<Rightarrow> ((mm_err + sound_msg) \<times> client) option" where
  "client_exchange E m c =
    (case client_snd_msg E m c of
       (e, c1) \<Rightarrow>
         if e \<noteq> MM_ERROR_NONE then Some (Inl e, c1)
         else map_option (\<lambda>(r, q). (r, c1\<lparr>cl_answers := q\<rparr>))
                (ipc_recv_msg (ce_pid E) 0 (ce_polls E m) (cl_answers c1)))"

text \<open>What the answer means: success when it has the expected type, otherwise its code, whatever it is.\<close>

definition answer_result :: "msg_type list \<Rightarrow> sound_msg \<Rightarrow> mm_err" where
  "answer_result tys r = (if m_msgtype r \<in> set tys then MM_ERROR_NONE else m_code r)"

definition sound_result :: "msg_type list \<Rightarrow> mm_err + sound_msg \<Rightarrow> mm_err" where
  "sound_result tys x = (case x of Inl e \<Rightarrow> e | Inr r \<Rightarrow> answer_result tys r)"

text \<open>The functions for routes and devices forget that a message could not be sent or received.\<close>

definition device_result :: "msg_type list \<Rightarrow> mm_err + sound_msg \<Rightarrow> mm_err" where
  "device_result tys x = (case x of Inl e \<Rightarrow> MM_ERROR_NONE | Inr r \<Rightarrow> answer_result tys r)"

section \<open>Sounds\<close>

definition client_session :: "cl_env \<Rightarrow> mm_err + mm_session_type" where
  "client_session E =
    (case ce_session E of
       Some ty \<Rightarrow> Inr ty
     | None \<Rightarrow> if ce_session_init E then Inr MM_SESSION_TYPE_SHARE else Inl MM_ERROR_POLICY_INTERNAL)"

text \<open>The handle that an answer of the expected type carries is given to the caller.\<close>

definition answer_handle :: "msg_type list \<Rightarrow> mm_err + sound_msg \<Rightarrow> int option" where
  "answer_handle tys x =
    (case x of Inl e \<Rightarrow> None | Inr r \<Rightarrow> if m_msgtype r \<in> set tys then Some (m_handle r) else None)"

definition MMSoundClientPlayTone ::
  "cl_env \<Rightarrow> int \<Rightarrow> int \<Rightarrow> real \<Rightarrow> int \<Rightarrow> client \<Rightarrow> (mm_err \<times> int option \<times> client) option" where
  "MMSoundClientPlayTone E number vol_type volume time c =
    (case client_get_msg_queue E c of
       (e, c1) \<Rightarrow>
         if e \<noteq> MM_ERROR_NONE then Some (MM_ERROR_NONE, None, c1)
         else
           (case client_session E of
              Inl e \<Rightarrow> Some (e, None, c1)
            | Inr ty \<Rightarrow>
                map_option (\<lambda>(x, c2). (sound_result [MM_SOUND_MSG_RES_DTMF] x,
                    answer_handle [MM_SOUND_MSG_RES_DTMF] x, c2))
                  (client_exchange E
                    (zero_msg\<lparr>m_msgtype := MM_SOUND_MSG_REQ_DTMF, m_msgid := ce_pid E,
                       m_session_type := ty, m_volume := volume, m_volume_table := vol_type,
                       m_tone := number, m_handle := -1, m_repeat := time\<rparr>) c1)))"

text \<open>The parameters of a sound; memory is given by the bytes that can be read there.\<close>

record sound_param_type =
  sp_filename :: "string option"
  sp_volume :: int
  sp_loop :: int
  sp_callback :: ptr
  sp_data :: ptr
  sp_mem_ptr :: "bytes option"
  sp_mem_size :: int
  sp_handle_route :: int
  sp_volume_table :: int
  sp_priority :: int

text \<open>The request that both kinds of sounds share.\<close>

definition sound_request :: "cl_env \<Rightarrow> sound_param_type \<Rightarrow> int \<Rightarrow> int \<Rightarrow> mm_session_type \<Rightarrow> sound_msg" where
  "sound_request E p tone keytone ty =
    zero_msg\<lparr>m_msgid := ce_pid E, m_callback := sp_callback p, m_cbdata := sp_data p,
      m_volume := real_of_int (sp_volume p), m_tone := tone, m_handle := -1, m_repeat := sp_loop p,
      m_volume_table := sp_volume_table p, m_keytone := keytone, m_session_type := ty,
      m_priority := sp_priority p, m_handle_route := sp_handle_route p\<rparr>"

fun digits :: "nat \<Rightarrow> string" where
  "digits n = (if n < 10 then [char_of (48 + n)] else digits (n div 10) @ [char_of (48 + n mod 10)])"

definition decimal :: "int \<Rightarrow> string" where
  "decimal n = (if n < 0 then CHR ''-'' # digits (nat (- n)) else digits (nat n))"

definition shm_name :: "pid \<Rightarrow> int \<Rightarrow> string" where
  "shm_name p k = decimal p @ CHR ''_'' # decimal k"

text \<open>The shared memory of a sound: the result when nothing is sent, or its name and the message.  Most
  failures leave the result as it was, which is success.\<close>

definition memory_request ::
  "cl_env \<Rightarrow> sound_param_type \<Rightarrow> bytes \<Rightarrow> sound_msg \<Rightarrow> client \<Rightarrow> ((mm_err + sound_msg) \<times> client) option" where
  "memory_request E p bs m c =
    (let name = shm_name (ce_pid E) (cl_keybase c);
         c1 = c\<lparr>cl_keybase := cl_keybase c + 1\<rparr>;
         c2 = c1\<lparr>cl_shm := (cl_shm c1)(name \<mapsto> [])\<rparr>;
         c3 = c1\<lparr>cl_shm := (cl_shm c1)(name \<mapsto> take (nat (sp_mem_size p)) bs)\<rparr>
     in if sp_mem_size p > int MEMTYPE_SUPPORT_MAX then Some (Inl MM_ERROR_NONE, c)
        else if \<not> ce_shm_open E then Some (Inl MM_ERROR_NONE, c1)
        else if sp_mem_size p < 0 \<or> \<not> ce_ftruncate E then Some (Inl MM_ERROR_NONE, c2)
        else if \<not> ce_mmap E then Some (Inl MM_ERROR_NONE, c2)
        else if length bs < nat (sp_mem_size p) then None
        else if \<not> ce_close E then Some (Inl MM_ERROR_SOUND_INTERNAL, c3)
        else Some (Inr (m\<lparr>m_msgtype := MM_SOUND_MSG_REQ_MEMORY, m_sharedkey := 1,
                           m_filename := take FILE_PATH name, m_memsize := sp_mem_size p\<rparr>), c3))"

text \<open>A name that is too long is left out of the message, which is sent all the same.\<close>

definition file_request ::
  "sound_param_type \<Rightarrow> sound_msg \<Rightarrow> client \<Rightarrow> ((mm_err + sound_msg) \<times> client) option" where
  "file_request p m c =
    map_option (\<lambda>f. (Inr (m\<lparr>m_msgtype := MM_SOUND_MSG_REQ_FILE,
                            m_filename := (if length f < FILE_PATH then f else [])\<rparr>), c)) (sp_filename p)"

text \<open>The thread for the callbacks is made with the first sound that has one.\<close>

definition client_thread :: "cl_env \<Rightarrow> client \<Rightarrow> mm_err \<times> client" where
  "client_thread E c =
    (if cl_thread_id c = -1 then
       (if ce_thread E = -1 then MM_ERROR_SOUND_INTERNAL else MM_ERROR_NONE, c\<lparr>cl_thread_id := ce_thread E\<rparr>)
     else (MM_ERROR_NONE, c))"

definition play_answer ::
  "sound_msg \<Rightarrow> (mm_err + sound_msg) \<times> client \<Rightarrow> mm_err \<times> int option \<times> client" where
  "play_answer m = (\<lambda>(x, c).
    (sound_result [MM_SOUND_MSG_RES_FILE, MM_SOUND_MSG_RES_MEMORY] x,
     answer_handle [MM_SOUND_MSG_RES_FILE, MM_SOUND_MSG_RES_MEMORY] x,
     (case x of
        Inl e \<Rightarrow> c
      | Inr r \<Rightarrow>
          if m_msgtype r = MM_SOUND_MSG_RES_MEMORY \<and> m_msgtype m = MM_SOUND_MSG_REQ_MEMORY
          then c\<lparr>cl_shm := (cl_shm c)(m_filename m := None)\<rparr> else c)))"

definition MMSoundClientPlaySound ::
  "cl_env \<Rightarrow> sound_param_type \<Rightarrow> int \<Rightarrow> int \<Rightarrow> client \<Rightarrow> (mm_err \<times> int option \<times> client) option" where
  "MMSoundClientPlaySound E p tone keytone c =
    (case client_get_msg_queue E c of
       (e, c1) \<Rightarrow>
         if e \<noteq> MM_ERROR_NONE then Some (e, None, c1)
         else
           (case client_session E of
              Inl e \<Rightarrow> Some (e, None, c1)
            | Inr ty \<Rightarrow>
                (case (if sp_callback p \<noteq> 0 then client_thread E c1 else (MM_ERROR_NONE, c1)) of
                   (e, c2) \<Rightarrow>
                     if e \<noteq> MM_ERROR_NONE then Some (e, None, c2)
                     else
                       (case (case sp_mem_ptr p of
                                Some bs \<Rightarrow>
                                  if sp_mem_size p \<noteq> 0
                                  then memory_request E p bs (sound_request E p tone keytone ty) c2
                                  else file_request p (sound_request E p tone keytone ty) c2
                              | None \<Rightarrow> file_request p (sound_request E p tone keytone ty) c2) of
                          None \<Rightarrow> None
                        | Some (Inl e, c3) \<Rightarrow> Some (e, None, c3)
                        | Some (Inr m, c3) \<Rightarrow> map_option (play_answer m) (client_exchange E m c3)))))"

definition MMSoundClientStopSound :: "cl_env \<Rightarrow> int \<Rightarrow> client \<Rightarrow> (mm_err \<times> client) option" where
  "MMSoundClientStopSound E handle c =
    (if handle < 0 then Some (MM_ERROR_INVALID_ARGUMENT, c)
     else
       (case client_get_msg_queue E c of
          (e, c1) \<Rightarrow>
            if e \<noteq> MM_ERROR_NONE then Some (MM_ERROR_NONE, c1)
            else map_option (\<lambda>(x, c2). (sound_result [MM_SOUND_MSG_RES_STOP] x, c2))
                   (client_exchange E (zero_msg\<lparr>m_msgtype := MM_SOUND_MSG_REQ_STOP, m_msgid := ce_pid E,
                      m_handle := handle\<rparr>) c1)))"

section \<open>Routes and devices\<close>

text \<open>The shape of the requests for routes and devices: the result, and what the answer was when it had
  the expected type.\<close>

definition device_request ::
  "cl_env \<Rightarrow> sound_msg \<Rightarrow> msg_type \<Rightarrow> client \<Rightarrow> (mm_err \<times> sound_msg option \<times> client) option" where
  "device_request E m ty c =
    (case client_get_msg_queue E c of
       (e, c1) \<Rightarrow>
         if e \<noteq> MM_ERROR_NONE then Some (MM_ERROR_NONE, None, c1)
         else map_option (\<lambda>(x, c2). (device_result [ty] x,
                  (case x of Inl e \<Rightarrow> None | Inr r \<Rightarrow> if m_msgtype r = ty then Some r else None), c2))
                (client_exchange E (m\<lparr>m_msgid := ce_pid E\<rparr>) c1))"

definition client_is_route_available :: "cl_env \<Rightarrow> route \<Rightarrow> client \<Rightarrow> (mm_err \<times> bool \<times> client) option" where
  "client_is_route_available E route c =
    map_option (\<lambda>(e, r, c'). (e, (case r of Some m \<Rightarrow> m_is_available m | None \<Rightarrow> False), c'))
      (device_request E (zero_msg\<lparr>m_msgtype := MM_SOUND_MSG_REQ_IS_ROUTE_AVAILABLE, m_route := route\<rparr>)
        MM_SOUND_MSG_RES_IS_ROUTE_AVAILABLE c)"

text \<open>The loop over the routes of the answer runs up to the number of bytes of the array: behind its end
  is the handle of the message, and then no value.\<close>

fun foreach_routes :: "(route \<Rightarrow> bool) \<Rightarrow> route list \<Rightarrow> route list \<Rightarrow> route list option" where
  "foreach_routes f called [] = None"
| "foreach_routes f called (r # rs) =
    (if r = 0 then Some called
     else if \<not> f r then Some (called @ [r])
     else foreach_routes f (called @ [r]) rs)"

definition handle_foreach_callback :: "(route \<Rightarrow> bool) \<Rightarrow> sound_msg \<Rightarrow> route list option" where
  "handle_foreach_callback f m = foreach_routes f [] (m_route_list m @ [of_int (m_handle m)])"

definition client_foreach_available_route ::
  "cl_env \<Rightarrow> (route \<Rightarrow> bool) \<Rightarrow> ptr \<Rightarrow> ptr \<Rightarrow> client \<Rightarrow> (mm_err \<times> route list \<times> client) option" where
  "client_foreach_available_route E f cb data c =
    (case device_request E (zero_msg\<lparr>m_msgtype := MM_SOUND_MSG_REQ_FOREACH_AVAILABLE_ROUTE_CB,
            m_callback := cb, m_cbdata := data\<rparr>) MM_SOUND_MSG_RES_FOREACH_AVAILABLE_ROUTE_CB c of
       None \<Rightarrow> None
     | Some (e, None, c') \<Rightarrow> Some (e, [], c')
     | Some (e, Some r, c') \<Rightarrow>
         if cb = 0 then Some (MM_ERROR_SOUND_INTERNAL, [], c')
         else map_option (\<lambda>rs. (MM_ERROR_NONE, rs, c')) (handle_foreach_callback f r))"

definition client_set_active_route :: "cl_env \<Rightarrow> route \<Rightarrow> client \<Rightarrow> (mm_err \<times> client) option" where
  "client_set_active_route E route c =
    map_option (\<lambda>(e, r, c'). (e, c'))
      (device_request E (zero_msg\<lparr>m_msgtype := MM_SOUND_MSG_REQ_SET_ACTIVE_ROUTE, m_route := route\<rparr>)
        MM_SOUND_MSG_RES_SET_ACTIVE_ROUTE c)"

text \<open>The devices are written only when the answer has the expected type.\<close>

definition client_get_active_device ::
  "cl_env \<Rightarrow> client \<Rightarrow> (mm_err \<times> (dev \<times> dev) option \<times> client) option" where
  "client_get_active_device E c =
    map_option (\<lambda>(e, r, c'). (e, map_option (\<lambda>m. (m_device_in m, m_device_out m)) r, c'))
      (device_request E (zero_msg\<lparr>m_msgtype := MM_SOUND_MSG_REQ_GET_ACTIVE_DEVICE\<rparr>)
        MM_SOUND_MSG_RES_GET_ACTIVE_DEVICE c)"

text \<open>Adding a callback makes the thread when the server has accepted it.\<close>

definition client_add_callback ::
  "cl_env \<Rightarrow> msg_type \<Rightarrow> msg_type \<Rightarrow> ptr \<Rightarrow> ptr \<Rightarrow> client \<Rightarrow> (mm_err \<times> client) option" where
  "client_add_callback E req res func data c =
    map_option (\<lambda>(e, r, c'). if r \<noteq> None then client_thread E c' else (e, c'))
      (device_request E (zero_msg\<lparr>m_msgtype := req, m_callback := func, m_cbdata := data\<rparr>) res c)"

definition client_remove_callback ::
  "cl_env \<Rightarrow> msg_type \<Rightarrow> msg_type \<Rightarrow> client \<Rightarrow> (mm_err \<times> client) option" where
  "client_remove_callback E req res c =
    map_option (\<lambda>(e, r, c'). (e, c')) (device_request E (zero_msg\<lparr>m_msgtype := req\<rparr>) res c)"

definition client_add_active_device_changed_callback ::
  "cl_env \<Rightarrow> ptr \<Rightarrow> ptr \<Rightarrow> client \<Rightarrow> (mm_err \<times> client) option" where
  "client_add_active_device_changed_callback E =
    client_add_callback E MM_SOUND_MSG_REQ_ADD_ACTIVE_DEVICE_CB MM_SOUND_MSG_RES_ADD_ACTIVE_DEVICE_CB"

definition client_remove_active_device_changed_callback ::
  "cl_env \<Rightarrow> client \<Rightarrow> (mm_err \<times> client) option" where
  "client_remove_active_device_changed_callback E =
    client_remove_callback E MM_SOUND_MSG_REQ_REMOVE_ACTIVE_DEVICE_CB MM_SOUND_MSG_RES_REMOVE_ACTIVE_DEVICE_CB"

definition client_add_available_route_changed_callback ::
  "cl_env \<Rightarrow> ptr \<Rightarrow> ptr \<Rightarrow> client \<Rightarrow> (mm_err \<times> client) option" where
  "client_add_available_route_changed_callback E =
    client_add_callback E MM_SOUND_MSG_REQ_ADD_AVAILABLE_ROUTE_CB MM_SOUND_MSG_RES_ADD_AVAILABLE_ROUTE_CB"

definition client_remove_available_route_changed_callback ::
  "cl_env \<Rightarrow> client \<Rightarrow> (mm_err \<times> client) option" where
  "client_remove_available_route_changed_callback E =
    client_remove_callback E MM_SOUND_MSG_REQ_REMOVE_AVAILABLE_ROUTE_CB
      MM_SOUND_MSG_RES_REMOVE_AVAILABLE_ROUTE_CB"

text \<open>Whether Bluetooth is on is read from the code of the answer.\<close>

definition MMSoundClientIsBtA2dpOn ::
  "cl_env \<Rightarrow> client \<Rightarrow> (mm_err \<times> (mm_err \<times> string option) option \<times> client) option" where
  "MMSoundClientIsBtA2dpOn E c =
    (case client_get_msg_queue E c of
       (e, c1) \<Rightarrow>
         if e \<noteq> MM_ERROR_NONE then Some (MM_ERROR_NONE, None, c1)
         else map_option (\<lambda>(x, c2). (sound_result [MM_SOUND_MSG_RES_IS_BT_A2DP_ON] x,
                  (case x of
                     Inl e \<Rightarrow> None
                   | Inr r \<Rightarrow>
                       if m_msgtype r = MM_SOUND_MSG_RES_IS_BT_A2DP_ON
                       then Some (m_code r, if m_code r \<noteq> MM_ERROR_NONE then Some (m_filename r) else None)
                       else None), c2))
                (client_exchange E (zero_msg\<lparr>m_msgtype := MM_SOUND_MSG_REQ_IS_BT_A2DP_ON,
                   m_msgid := ce_pid E\<rparr>) c1))"

section \<open>The callback thread\<close>

datatype client_call =
    StopCallback ptr ptr
  | DeviceCallback ptr dev dev ptr
  | RouteCallback ptr route bool ptr

text \<open>One turn of \<^verbatim>\<open>callbackfunc\<close>: the calls it makes, and whether it goes on.\<close>

definition callbackfunc :: "sound_msg \<Rightarrow> client_call list \<times> bool" where
  "callbackfunc m =
    (case m_msgtype m of
       MM_SOUND_MSG_INF_STOP_CB \<Rightarrow>
         (if m_callback m \<noteq> 0 then [StopCallback (m_callback m) (m_cbdata m)] else [], True)
     | MM_SOUND_MSG_INF_DESTROY_CB \<Rightarrow> ([], False)
     | MM_SOUND_MSG_INF_ACTIVE_DEVICE_CB \<Rightarrow>
         (if m_callback m \<noteq> 0
          then [DeviceCallback (m_callback m) (m_device_in m) (m_device_out m) (m_cbdata m)] else [], True)
     | MM_SOUND_MSG_INF_AVAILABLE_ROUTE_CB \<Rightarrow>
         (if m_callback m \<noteq> 0
          then map (\<lambda>r. RouteCallback (m_callback m) r (m_is_available m) (m_cbdata m))
                 (takeWhile (\<lambda>r. r \<noteq> 0) (m_route_list m))
          else [], True)
     | _ \<Rightarrow> ([], True))"

fun callback_thread :: "sound_msg list \<Rightarrow> client_call list \<times> bool" where
  "callback_thread [] = ([], True)"
| "callback_thread (m # ms) =
    (case callbackfunc m of
       (cs, go) \<Rightarrow> if go then (case callback_thread ms of (ds, r) \<Rightarrow> (cs @ ds, r)) else (cs, False))"

text \<open>At the end of the process the thread is told to leave, and awaited, also when the message was not
  sent or the thread could not be made.\<close>

definition MMSoundClientCallbackFini :: "cl_env \<Rightarrow> client \<Rightarrow> (mm_err \<times> client) option" where
  "MMSoundClientCallbackFini E c =
    (if cl_thread_id c \<noteq> -1 \<and> \<not> (cl_thread_id c = 0 \<and> ce_send E) then None
     else Some (MM_ERROR_NONE, c\<lparr>cl_mutex_initted := False\<rparr>))"

end
