(* ===== verification/Client_Api.thy ===== *)
theory Client_Api
  imports Client Volume Tone
begin

text \<open>
  The public functions of \<^verbatim>\<open>mm_sound.c\<close> for sounds, tones, routes and devices: they check their arguments
  and pass the request on (\<^verbatim>\<open>Client\<close>).
\<close>

text \<open>The numbers of the errors are negative; other codes are given by their number.\<close>

definition is_failure :: "mm_err \<Rightarrow> bool" where
  "is_failure e \<longleftrightarrow> (case e of MM_ERROR_NONE \<Rightarrow> False | MM_ERROR_OTHER n \<Rightarrow> n < 0 | _ \<Rightarrow> True)"

text \<open>The result of a sound: the handle is -1 when the answer did not give one.\<close>

definition sound_outcome ::
  "(mm_err \<times> int option \<times> client) option \<Rightarrow> (mm_err \<times> int option \<times> client) option" where
  "sound_outcome r = map_option (\<lambda>(e, h, c).
     if is_failure e then (e, None, c)
     else (MM_ERROR_NONE, Some (case h of Some n \<Rightarrow> n | None \<Rightarrow> -1), c)) r"

definition simple_param ::
  "string \<Rightarrow> volume_type \<Rightarrow> ptr \<Rightarrow> ptr \<Rightarrow> int \<Rightarrow> int \<Rightarrow> sound_param_type" where
  "simple_param f vt cb data prio route =
    \<lparr>sp_filename = Some f, sp_volume = 0, sp_loop = 1, sp_callback = cb, sp_data = data,
     sp_mem_ptr = None, sp_mem_size = 0, sp_handle_route = route, sp_volume_table = vt,
     sp_priority = prio\<rparr>"

text \<open>The priorities of the audio library.\<close>

record priorities =
  PRIORITY_NORMAL :: int
  PRIORITY_SOLO :: int

definition play_with ::
  "cl_env \<Rightarrow> int \<Rightarrow> int \<Rightarrow> string option \<Rightarrow> volume_type \<Rightarrow> ptr \<Rightarrow> ptr \<Rightarrow> client \<Rightarrow>
    (mm_err \<times> int option \<times> client) option" where
  "play_with E prio route filename vt cb data c =
    (case filename of
       None \<Rightarrow> Some (MM_ERROR_SOUND_FILE_NOT_FOUND, None, c)
     | Some f \<Rightarrow>
         if vt < 0 \<or> vt \<ge> VOLUME_TYPE_MAX then Some (MM_ERROR_INVALID_ARGUMENT, None, c)
         else sound_outcome (MMSoundClientPlaySound E (simple_param f vt cb data prio route) 0 0 c))"

definition mm_sound_play_loud_solo_sound ::
  "priorities \<Rightarrow> cl_env \<Rightarrow> string option \<Rightarrow> volume_type \<Rightarrow> ptr \<Rightarrow> ptr \<Rightarrow> client \<Rightarrow>
    (mm_err \<times> int option \<times> client) option" where
  "mm_sound_play_loud_solo_sound A E = play_with E (PRIORITY_SOLO A) 1"

definition mm_sound_play_solo_sound ::
  "priorities \<Rightarrow> cl_env \<Rightarrow> string option \<Rightarrow> volume_type \<Rightarrow> ptr \<Rightarrow> ptr \<Rightarrow> client \<Rightarrow>
    (mm_err \<times> int option \<times> client) option" where
  "mm_sound_play_solo_sound A E = play_with E (PRIORITY_SOLO A) 0"

definition mm_sound_play_sound ::
  "priorities \<Rightarrow> cl_env \<Rightarrow> string option \<Rightarrow> volume_type \<Rightarrow> ptr \<Rightarrow> ptr \<Rightarrow> client \<Rightarrow>
    (mm_err \<times> int option \<times> client) option" where
  "mm_sound_play_sound A E = play_with E (PRIORITY_NORMAL A) 0"

definition mm_sound_play_sound_ex ::
  "cl_env \<Rightarrow> sound_param_type option \<Rightarrow> client \<Rightarrow> (mm_err \<times> int option \<times> client) option" where
  "mm_sound_play_sound_ex E param c =
    (case param of
       None \<Rightarrow> Some (MM_ERROR_INVALID_ARGUMENT, None, c)
     | Some p \<Rightarrow> sound_outcome (MMSoundClientPlaySound E p 0 0 c))"

definition mm_sound_stop_sound :: "cl_env \<Rightarrow> int \<Rightarrow> client \<Rightarrow> (mm_err \<times> client) option" where
  "mm_sound_stop_sound E handle c =
    map_option (\<lambda>(e, c'). (if is_failure e then e else MM_ERROR_NONE, c')) (MMSoundClientStopSound E handle c)"

definition mm_sound_play_tone ::
  "cl_env \<Rightarrow> int \<Rightarrow> volume_type \<Rightarrow> real \<Rightarrow> int \<Rightarrow> client \<Rightarrow> (mm_err \<times> int option \<times> client) option" where
  "mm_sound_play_tone E num vt volume duration c =
    (if duration < -1 then Some (MM_ERROR_INVALID_ARGUMENT, None, c)
     else if num < 0 \<or> num \<ge> int MM_SOUND_TONE_NUM then Some (MM_ERROR_INVALID_ARGUMENT, None, c)
     else if vt < VOLUME_TYPE_SYSTEM \<or> vt \<ge> VOLUME_TYPE_MAX then Some (MM_ERROR_INVALID_ARGUMENT, None, c)
     else if volume < 0 \<or> volume > 1 then Some (MM_ERROR_INVALID_ARGUMENT, None, c)
     else sound_outcome (MMSoundClientPlayTone E num vt volume duration c))"

definition mm_sound_is_route_available ::
  "cl_env \<Rightarrow> route \<Rightarrow> bool \<Rightarrow> client \<Rightarrow> (mm_err \<times> bool option \<times> client) option" where
  "mm_sound_is_route_available E route ptr_ok c =
    (if \<not> mm_sound_is_route_valid route \<or> \<not> ptr_ok then Some (MM_ERROR_INVALID_ARGUMENT, None, c)
     else map_option (\<lambda>(e, b, c'). (e, Some b, c')) (client_is_route_available E route c))"

definition mm_sound_foreach_available_route_cb ::
  "cl_env \<Rightarrow> (route \<Rightarrow> bool) \<Rightarrow> ptr \<Rightarrow> ptr \<Rightarrow> client \<Rightarrow> (mm_err \<times> route list \<times> client) option" where
  "mm_sound_foreach_available_route_cb E f cb data c =
    (if cb = 0 then Some (MM_ERROR_INVALID_ARGUMENT, [], c)
     else client_foreach_available_route E f cb data c)"

definition mm_sound_set_active_route :: "cl_env \<Rightarrow> route \<Rightarrow> client \<Rightarrow> (mm_err \<times> client) option" where
  "mm_sound_set_active_route E route c =
    (if \<not> mm_sound_is_route_valid route then Some (MM_ERROR_INVALID_ARGUMENT, c)
     else client_set_active_route E route c)"

definition mm_sound_get_active_device ::
  "cl_env \<Rightarrow> bool \<Rightarrow> client \<Rightarrow> (mm_err \<times> (dev \<times> dev) option \<times> client) option" where
  "mm_sound_get_active_device E ptrs_ok c =
    (if \<not> ptrs_ok then Some (MM_ERROR_INVALID_ARGUMENT, None, c) else client_get_active_device E c)"

definition mm_sound_add_active_device_changed_callback ::
  "cl_env \<Rightarrow> ptr \<Rightarrow> ptr \<Rightarrow> client \<Rightarrow> (mm_err \<times> client) option" where
  "mm_sound_add_active_device_changed_callback E func data c =
    (if func = 0 then Some (MM_ERROR_INVALID_ARGUMENT, c)
     else client_add_active_device_changed_callback E func data c)"

definition mm_sound_add_available_route_changed_callback ::
  "cl_env \<Rightarrow> ptr \<Rightarrow> ptr \<Rightarrow> client \<Rightarrow> (mm_err \<times> client) option" where
  "mm_sound_add_available_route_changed_callback E func data c =
    (if func = 0 then Some (MM_ERROR_INVALID_ARGUMENT, c)
     else client_add_available_route_changed_callback E func data c)"

definition mm_sound_remove_active_device_changed_callback :: "cl_env \<Rightarrow> client \<Rightarrow> (mm_err \<times> client) option" where
  "mm_sound_remove_active_device_changed_callback E c = client_remove_active_device_changed_callback E c"

definition mm_sound_remove_available_route_changed_callback :: "cl_env \<Rightarrow> client \<Rightarrow> (mm_err \<times> client) option" where
  "mm_sound_remove_available_route_changed_callback E c = client_remove_available_route_changed_callback E c"

definition mm_sound_route_get_a2dp_status ::
  "cl_env \<Rightarrow> bool \<Rightarrow> client \<Rightarrow> (mm_err \<times> (mm_err \<times> string option) option \<times> client) option" where
  "mm_sound_route_get_a2dp_status E ptrs_ok c =
    (if \<not> ptrs_ok then Some (MM_ERROR_INVALID_ARGUMENT, None, c) else MMSoundClientIsBtA2dpOn E c)"

end
