(* ===== verification/Client_Facts.thy ===== *)
theory Client_Facts
  imports Client_Api Ipc_Facts Device_Props
begin

text \<open>
  The client's requests answered by a server (\<^verbatim>\<open>Client\<close>, \<^verbatim>\<open>Client_Api\<close>): receiving, the interface between
  clients and server with its interpretation by the dispatcher, and what the requests then return.
\<close>

section \<open>Receiving\<close>

lemma take_for_append:
  "take_for p (q @ ms) =
    (case take_for p q of
       Some (m, q') \<Rightarrow> Some (m, q' @ ms)
     | None \<Rightarrow> map_option (\<lambda>(m, q'). (m, q @ q')) (take_for p ms))"
  by (induction q) (auto simp: option.map_comp comp_def split_def option.map_ident split: option.splits)

lemma take_for_Some:
  "take_for p q = Some (m, q') \<Longrightarrow> m_msgid m = p \<and>
    filter (\<lambda>x. m_msgid x \<noteq> p) q' = filter (\<lambda>x. m_msgid x \<noteq> p) q"
  by (induction q arbitrary: q') (auto split: if_splits)

lemma recv_after_empty:
  assumes "take_for p q = None" "m_msgid r = p" "k + n \<le> RETRIES"
  shows "ipc_recv_msg p k (replicate n (Arrived []) @ Arrived (r # ms) # ps) q = Some (Inr r, q @ ms)"
  using assms(3)
proof (induction n arbitrary: k)
  case 0
  then show ?case using assms(1,2) by (simp add: take_for_append)
next
  case (Suc n)
  then show ?case using assms(1) Suc.IH [of "Suc k"] by simp
qed

lemma recv_waits:
  "take_for p q = None \<Longrightarrow> k + n \<le> RETRIES \<Longrightarrow> ipc_recv_msg p k (replicate n (Arrived [])) q = None"
  by (induction n arbitrary: k) auto

lemma recv_nothing:
  "take_for p q = None \<Longrightarrow> k + n = RETRIES \<Longrightarrow>
    ipc_recv_msg p k (replicate (Suc n) (Arrived []) @ ps) q = Some (Inl MM_ERROR_SOUND_INTERNAL, q)"
  by (induction n arbitrary: k) auto

text \<open>What has arrived after some attempts.\<close>

fun arrivals :: "poll list \<Rightarrow> sound_msg list" where
  "arrivals [] = []"
| "arrivals (Arrived ms # ps) = ms @ arrivals ps"
| "arrivals (_ # ps) = arrivals ps"

lemma recv_total:
  "RETRIES < n + length (filter (\<lambda>x. x \<noteq> Interrupted) ps) \<Longrightarrow> n \<le> RETRIES \<Longrightarrow>
    ipc_recv_msg p n ps q \<noteq> None"
  by (induction p n ps q rule: ipc_recv_msg.induct) (auto split: option.splits)

lemma recv_result:
  "ipc_recv_msg p n ps q = Some (x, q') \<Longrightarrow>
    \<exists>k. (case x of
           Inr m \<Rightarrow> take_for p (q @ arrivals (take k ps)) = Some (m, q')
         | Inl e \<Rightarrow> take_for p q = None \<longrightarrow>
             q' = q @ arrivals (take k ps) \<and> take_for p q' = None)"
proof (induction p n ps q rule: ipc_recv_msg.induct)
  case (1 p n q)
  then show ?case by simp
next
  case (2 p n ps q)
  then obtain k where k: "(case x of
           Inr m \<Rightarrow> take_for p (q @ arrivals (take k ps)) = Some (m, q')
         | Inl e \<Rightarrow> take_for p q = None \<longrightarrow> q' = q @ arrivals (take k ps) \<and> take_for p q' = None)"
    by auto
  then show ?case by (intro exI [of _ "Suc k"]) (cases x; auto)
next
  case (3 p n ps q)
  then show ?case by (intro exI [of _ 0]) auto
next
  case (4 p n ms ps q)
  show ?case
  proof (cases "take_for p (q @ ms)")
    case (Some y)
    with 4(2) show ?thesis by (intro exI [of _ 1]) (auto split: prod.splits)
  next
    case None
    show ?thesis
    proof (cases "n < RETRIES")
      case True
      from 4(1) [OF None True] 4(2) None True obtain k where k: "(case x of
           Inr m \<Rightarrow> take_for p ((q @ ms) @ arrivals (take k ps)) = Some (m, q')
         | Inl e \<Rightarrow> take_for p (q @ ms) = None \<longrightarrow>
             q' = (q @ ms) @ arrivals (take k ps) \<and> take_for p q' = None)" by auto
      with None show ?thesis by (intro exI [of _ "Suc k"]) (cases x; auto)
    next
      case False
      with 4(2) None show ?thesis by (intro exI [of _ 1]) auto
    qed
  qed
qed

section \<open>The interface between clients and server\<close>

text \<open>The environment of a client whose requests are answered by a server in the state \<^term>\<open>s\<close>, after
  some attempts that found nothing.\<close>

definition with_server ::
  "(sound_msg \<Rightarrow> 's \<Rightarrow> (sound_msg \<times> 's) option) \<Rightarrow> 's \<Rightarrow> nat \<Rightarrow> cl_env \<Rightarrow> cl_env" where
  "with_server serve s n E = E\<lparr>ce_send := True,
     ce_polls := (\<lambda>m. replicate n (Arrived []) @ (case serve m s of Some (r, t) \<Rightarrow> [Arrived [r]] | None \<Rightarrow> []))\<rparr>"

lemma with_server_parts [simp]:
  "ce_pid (with_server f s n E) = ce_pid E" "ce_session (with_server f s n E) = ce_session E"
  "ce_session_init (with_server f s n E) = ce_session_init E" "ce_thread (with_server f s n E) = ce_thread E"
  "ce_getmsg (with_server f s n E) = ce_getmsg E" "ce_send (with_server f s n E)"
  "client_session (with_server f s n E) = client_session E"
  by (simp_all add: with_server_def client_session_def)

text \<open>A client between two calls: the queues are known and no answer is left over.\<close>

definition client_ready :: "pid \<Rightarrow> client \<Rightarrow> bool" where
  "client_ready p c \<longleftrightarrow> cl_mutex_initted c \<and> take_for p (cl_answers c) = None"

lemma client_ready_sent: "client_ready p c \<Longrightarrow> client_ready p (c\<lparr>cl_sent := ms\<rparr>)"
  by (simp add: client_ready_def)

locale request_server =
  fixes serve :: "sound_msg \<Rightarrow> 's \<Rightarrow> (sound_msg \<times> 's) option"
  assumes serve_answers: "serve m s = Some (r, t) \<Longrightarrow> answers m r"
begin

lemma exchange:
  assumes "client_ready (ce_pid E) c" "n \<le> RETRIES" "m_msgid m = ce_pid E" "serve m s = Some (r, t)"
  shows "client_exchange (with_server serve s n E) m c = Some (Inr r, c\<lparr>cl_sent := m # cl_sent c\<rparr>)"
proof -
  have r: "m_msgid r = ce_pid E" using serve_answers [OF assms(4)] assms(3) by (simp add: answers_def)
  have "ce_polls (with_server serve s n E) m = replicate n (Arrived []) @ [Arrived [r]]"
    by (simp add: with_server_def assms(4))
  with recv_after_empty [of "ce_pid E" "cl_answers c" r 0 n "[]" "[]", OF _ r] assms(1,2) show ?thesis
    by (simp add: client_exchange_def client_snd_msg_def client_ready_def)
qed

lemma exchange_Some:
  assumes "client_ready (ce_pid E) c" "n \<le> RETRIES" "m_msgid m = ce_pid E"
    "client_exchange (with_server serve s n E) m c = Some (x, c')"
  shows "\<exists>r t. serve m s = Some (r, t) \<and> x = Inr r \<and> c' = c\<lparr>cl_sent := m # cl_sent c\<rparr>"
proof (cases "serve m s")
  case None
  then have "ce_polls (with_server serve s n E) m = replicate n (Arrived [])" by (simp add: with_server_def)
  with recv_waits [of "ce_pid E" "cl_answers c" 0 n] assms(1,2,4) show ?thesis
    by (simp add: client_exchange_def client_snd_msg_def client_ready_def)
next
  case (Some y)
  then obtain r t where "serve m s = Some (r, t)" by (cases y) simp
  with exchange [OF assms(1-3) this] assms(4) show ?thesis by auto
qed

text \<open>A request for routes or devices succeeds exactly when the server has done it.\<close>

lemma device_request:
  assumes "client_ready (ce_pid E) c" "n \<le> RETRIES" "serve (m\<lparr>m_msgid := ce_pid E\<rparr>) s = Some (r, t)"
    "ty = response_type (m_msgtype m)" "ty \<noteq> MM_SOUND_MSG_RES_ERROR"
    "ty \<noteq> MM_SOUND_MSG_RES_IS_BT_A2DP_ON"
  shows "device_request (with_server serve s n E) m ty c =
    Some (m_code r, if m_code r = MM_ERROR_NONE then Some r else None,
          c\<lparr>cl_sent := m\<lparr>m_msgid := ce_pid E\<rparr> # cl_sent c\<rparr>)"
proof -
  from serve_answers [OF assms(3)] assms(4-6) have
    "m_msgtype r = ty \<and> m_code r = MM_ERROR_NONE \<or> m_msgtype r \<noteq> ty \<and> m_code r \<noteq> MM_ERROR_NONE"
    by (auto simp: answers_def)
  with exchange [OF assms(1,2) _ assms(3)] assms(1) show ?thesis
    by (auto simp: device_request_def client_get_msg_queue_def client_ready_def device_result_def
        answer_result_def)
qed

end

interpretation dispatcher: request_server "mgr_answer F"
  by unfold_locales (rule mgr_answer_answers)

end
