(* ===== verification/Client_Props.thy ===== *)
theory Client_Props
  imports Client_Facts
begin

text \<open>
  What the clients of the library see (\<^verbatim>\<open>Client_Api\<close>) when the server (\<^verbatim>\<open>Ipc\<close>) answers: activating and
  listing routes, a sound from the call that starts it to the call of its function; and the receiving
  of answers by itself, also when they come too late.
\<close>

section \<open>Receiving\<close>

text \<open>
  C30: waiting for an answer ends after at most 20001 attempts that no signal interrupts.  A message that
  is returned is one for the process; no message is lost, and those of other processes stay in the
  queue in their order.
\<close>

theorem recv_terminates_in_order:
  assumes "RETRIES < length (filter (\<lambda>x. x \<noteq> Interrupted) ps)"
  shows "\<exists>x q'. ipc_recv_msg p 0 ps q = Some (x, q') \<and>
    (\<forall>m. x = Inr m \<longrightarrow> m_msgid m = p \<and>
      (\<exists>k. take_for p (q @ arrivals (take k ps)) = Some (m, q') \<and>
        filter (\<lambda>r. m_msgid r \<noteq> p) q' = filter (\<lambda>r. m_msgid r \<noteq> p) (q @ arrivals (take k ps))))"
proof -
  from recv_total [of 0 ps p q] assms obtain x q' where x: "ipc_recv_msg p 0 ps q = Some (x, q')" by auto
  from recv_result [OF this] x show ?thesis by (fastforce dest: take_for_Some)
qed

theorem recv_terminates_in_order_witness:
  "\<exists>x q'. ipc_recv_msg 77 0 (replicate (Suc RETRIES) (Arrived []) @ [Interrupted]) [] = Some (x, q')"
  using recv_terminates_in_order [of "replicate (Suc RETRIES) (Arrived []) @ [Interrupted]" 77 "[]"]
  by (auto simp: filter_replicate)

text \<open>
  C31: an answer that comes after the waiting was given up is taken for the answer to the next request:
  stopping a sound then returns the code of the answer to the tone before, and its own answer is left
  for the request after it.
\<close>

theorem late_answer_is_taken:
  assumes "client_ready (ce_pid E1) c" "client_session E1 = Inr ty" "ce_send E1" "ce_send E2" "0 \<le> h"
    "ce_polls E1 = (\<lambda>m. replicate (Suc RETRIES) (Arrived []))" "ce_pid E2 = ce_pid E1"
    "ce_polls E2 = (\<lambda>m. [Arrived [r1, r2]])" "m_msgid r1 = ce_pid E1" "m_msgid r2 = ce_pid E1"
    "m_msgtype r1 \<noteq> MM_SOUND_MSG_RES_STOP"
  shows "\<exists>c1 c2. MMSoundClientPlayTone E1 num vt v t c = Some (MM_ERROR_SOUND_INTERNAL, None, c1) \<and>
    MMSoundClientStopSound E2 h c1 = Some (m_code r1, c2) \<and> cl_answers c2 = cl_answers c @ [r2]"
proof -
  have none: "take_for (ce_pid E1) (cl_answers c) = None" "cl_mutex_initted c"
    using assms(1) by (simp_all add: client_ready_def)
  have "ipc_recv_msg (ce_pid E1) 0 (ce_polls E1 m) (cl_answers c) =
      Some (Inl MM_ERROR_SOUND_INTERNAL, cl_answers c)" for m
    using recv_nothing [OF none(1), of 0 RETRIES "[]"] by (simp add: assms(6))
  moreover have "ipc_recv_msg (ce_pid E1) 0 (ce_polls E2 m) (cl_answers c) = Some (Inr r1, cl_answers c @ [r2])" for m
    using recv_after_empty [OF none(1) assms(9), of 0 0 "[r2]" "[]"] by (simp add: assms(8))
  ultimately show ?thesis
    using none(2) assms(2-5,7,11)
    by (simp add: MMSoundClientPlayTone_def MMSoundClientStopSound_def client_get_msg_queue_def
        client_exchange_def client_snd_msg_def sound_result_def answer_result_def answer_handle_def)
qed

definition ex_client :: client where
  "ex_client = \<lparr>cl_mutex_initted = True, cl_thread_id = -1, cl_keybase = 0, cl_sent = [], cl_answers = [],
     cl_shm = Map.empty\<rparr>"

definition ex_cl_env :: "(sound_msg \<Rightarrow> poll list) \<Rightarrow> cl_env" where
  "ex_cl_env ps = \<lparr>ce_pid = 77, ce_getmsg = True, ce_session = Some MM_SESSION_TYPE_SHARE,
     ce_session_init = True, ce_send = True, ce_polls = ps, ce_thread = 0, ce_shm_open = True,
     ce_ftruncate = True, ce_mmap = True, ce_close = True\<rparr>"

lemma ex_client_ready: "client_ready 77 ex_client"
  by (simp add: client_ready_def ex_client_def)

theorem late_answer_is_taken_witness:
  "\<exists>c1 c2 t s. MMSoundClientPlayTone (ex_cl_env (\<lambda>m. replicate (Suc RETRIES) (Arrived []))) 3 4 1 100 ex_client =
      Some (MM_ERROR_SOUND_INTERNAL, None, c1) \<and>
    t = zero_msg\<lparr>m_msgid := 77, m_msgtype := MM_SOUND_MSG_RES_DTMF, m_handle := 2\<rparr> \<and>
    s = zero_msg\<lparr>m_msgid := 77, m_msgtype := MM_SOUND_MSG_RES_ERROR, m_code := MM_ERROR_INVALID_ARGUMENT\<rparr> \<and>
    MMSoundClientStopSound (ex_cl_env (\<lambda>m. [Arrived [t, s]])) 9 c1 = Some (MM_ERROR_NONE, c2)"
proof -
  let ?t = "zero_msg\<lparr>m_msgid := 77, m_msgtype := MM_SOUND_MSG_RES_DTMF, m_handle := 2\<rparr>"
  let ?s = "zero_msg\<lparr>m_msgid := 77, m_msgtype := MM_SOUND_MSG_RES_ERROR, m_code := MM_ERROR_INVALID_ARGUMENT\<rparr>"
  have "client_ready (ce_pid (ex_cl_env (\<lambda>m. replicate (Suc RETRIES) (Arrived [])))) ex_client"
    using ex_client_ready by (simp add: ex_cl_env_def)
  from late_answer_is_taken [OF this, of MM_SESSION_TYPE_SHARE "ex_cl_env (\<lambda>m. [Arrived [?t, ?s]])" 9 ?t ?s 3 4 1 100]
  show ?thesis by (simp add: ex_cl_env_def client_session_def zero_msg_def) blast
qed

section \<open>Routes\<close>

lemma set_active_route_served:
  assumes "client_ready (ce_pid E) c" "n \<le> RETRIES" "route \<in> set g_valid_route"
    "mgr_answer F (zero_msg\<lparr>m_msgid := ce_pid E, m_msgtype := MM_SOUND_MSG_REQ_SET_ACTIVE_ROUTE,
       m_route := route\<rparr>) s = Some (r, t)"
  shows "mm_sound_set_active_route (with_server (mgr_answer F) s n E) route c =
    Some (m_code r, c\<lparr>cl_sent := zero_msg\<lparr>m_msgid := ce_pid E,
      m_msgtype := MM_SOUND_MSG_REQ_SET_ACTIVE_ROUTE, m_route := route\<rparr> # cl_sent c\<rparr>)"
  using assms dispatcher.device_request [OF assms(1,2), where F = F and s = s and r = r and t = t and
      m = "zero_msg\<lparr>m_msgtype := MM_SOUND_MSG_REQ_SET_ACTIVE_ROUTE, m_route := route\<rparr>"]
  by (simp add: mm_sound_set_active_route_def mm_sound_is_route_valid_def route_search_iff
      client_set_active_route_def zero_msg_def)

lemma get_active_device_served:
  assumes "client_ready (ce_pid E) c" "n \<le> RETRIES"
    "mgr_answer F (zero_msg\<lparr>m_msgid := ce_pid E, m_msgtype := MM_SOUND_MSG_REQ_GET_ACTIVE_DEVICE\<rparr>) s = Some (r, t)"
    "m_code r = MM_ERROR_NONE"
  shows "\<exists>c'. mm_sound_get_active_device (with_server (mgr_answer F) s n E) True c =
    Some (MM_ERROR_NONE, Some (m_device_in r, m_device_out r), c')"
  using assms dispatcher.device_request [OF assms(1,2), where F = F and s = s and r = r and t = t and
      m = "zero_msg\<lparr>m_msgtype := MM_SOUND_MSG_REQ_GET_ACTIVE_DEVICE\<rparr>"]
  by (simp add: mm_sound_get_active_device_def client_get_active_device_def zero_msg_def)

text \<open>
  C12: a client that activates a valid route is told success; when it then asks for the active devices it
  gets the devices of the route, when they were available, and those that were active before, when they
  were not.  An invalid route is refused and nothing is sent.
\<close>

theorem client_activates_route:
  assumes "client_ready (ce_pid E) c" "n \<le> RETRIES" "n' \<le> RETRIES" "sess_inv (ip_sess s)"
    "get_devices_from_route route = (i, ou)" "get_device_active (ip_sess s) = (ou0, i0)"
  shows "if route \<in> set g_valid_route then
      (\<exists>c1 m r s1 c2.
        mm_sound_set_active_route (with_server (mgr_answer F) s n E) route c = Some (MM_ERROR_NONE, c1) \<and>
        cl_sent c1 = m # cl_sent c \<and> mgr_answer F m s = Some (r, s1) \<and>
        mm_sound_get_active_device (with_server (mgr_answer F') s1 n' E) True c1 =
          Some (MM_ERROR_NONE,
            Some (if (ou = 0 \<or> IS_AVAILABLE ou (ip_sess s)) \<and> (i = 0 \<or> IS_AVAILABLE i (ip_sess s))
                  then (if i \<noteq> 0 then i else i0, if ou \<noteq> 0 then ou else ou0) else (i0, ou0)), c2))
    else mm_sound_set_active_route (with_server (mgr_answer F) s n E) route c = Some (MM_ERROR_INVALID_ARGUMENT, c)"
proof (cases "route \<in> set g_valid_route")
  case False
  then show ?thesis by (simp add: mm_sound_set_active_route_def mm_sound_is_route_valid_def route_search_iff)
next
  case True
  let ?m1 = "zero_msg\<lparr>m_msgid := ce_pid E, m_msgtype := MM_SOUND_MSG_REQ_SET_ACTIVE_ROUTE, m_route := route\<rparr>"
  let ?m2 = "zero_msg\<lparr>m_msgid := ce_pid E, m_msgtype := MM_SOUND_MSG_REQ_GET_ACTIVE_DEVICE\<rparr>"
  let ?c1 = "c\<lparr>cl_sent := ?m1 # cl_sent c\<rparr>"
  from activated_route_is_reported [OF assms(4), of ?m1 ?m2 i ou ou0 i0 F F'] True assms(5,6)
  obtain a1 s1 a2 where a: "mgr_answer F ?m1 s = Some (a1, s1)" "mgr_answer F' ?m2 s1 = Some (a2, s1)"
    "m_msgtype a1 = MM_SOUND_MSG_RES_SET_ACTIVE_ROUTE"
    "(m_device_out a2, m_device_in a2) =
      (if (ou = 0 \<or> IS_AVAILABLE ou (ip_sess s)) \<and> (i = 0 \<or> IS_AVAILABLE i (ip_sess s))
       then (if ou \<noteq> 0 then ou else ou0, if i \<noteq> 0 then i else i0) else (ou0, i0))" by auto
  have codes: "m_code a1 = MM_ERROR_NONE" "m_code a2 = MM_ERROR_NONE"
    using mgr_answer_answers [OF a(1)] a(2,3)
    by (auto simp: answers_def mgr_answer_def active_device_answer_def split: prod.splits)
  have ready: "client_ready (ce_pid E) ?c1" by (rule client_ready_sent [OF assms(1)])
  from get_active_device_served [OF ready assms(3) a(2) codes(2)] obtain c2 where
    "mm_sound_get_active_device (with_server (mgr_answer F') s1 n' E) True ?c1 =
      Some (MM_ERROR_NONE, Some (m_device_in a2, m_device_out a2), c2)" by blast
  with set_active_route_served [OF assms(1,2) True a(1)] codes(1) a(1,4) True show ?thesis
    by (intro if_P [THEN iffD2]) (auto intro!: exI [of _ ?c1] split: if_splits)
qed

theorem client_activates_route_witness:
  "\<exists>c1 m r s1 c2. mm_sound_set_active_route (with_server (mgr_answer (ex_ipc_env ex_wave)) ex_ipc 3
        (ex_cl_env (\<lambda>_. []))) OUT_BT_A2DP ex_client = Some (MM_ERROR_NONE, c1) \<and>
     mgr_answer (ex_ipc_env ex_wave) m ex_ipc = Some (r, s1) \<and>
     mm_sound_get_active_device (with_server (mgr_answer (ex_ipc_env ex_wave)) s1 0 (ex_cl_env (\<lambda>_. []))) True c1 =
       Some (MM_ERROR_NONE, Some (IN_MIC, OUT_SPEAKER), c2)"
proof -
  have d: "get_devices_from_route OUT_BT_A2DP = (0, OUT_BT_A2DP)"
    "get_device_active ex_sess = (OUT_SPEAKER, IN_MIC)" "\<not> IS_AVAILABLE OUT_BT_A2DP ex_sess"
    by (simp_all add: get_devices_from_route_def get_device_active_def GET_ACTIVE_PLAYBACK_def
        GET_ACTIVE_CAPTURE_def IS_AVAILABLE_def ex_sess_def dev_bits)
  have o: "OUT_BT_A2DP \<noteq> 0" "OUT_BT_A2DP \<in> set g_valid_route" by (simp_all add: g_valid_route_def dev_bits)
  have c: "client_ready (ce_pid (ex_cl_env (\<lambda>_. []))) ex_client" "ip_sess ex_ipc = ex_sess"
    using ex_client_ready by (simp_all add: ex_cl_env_def ex_ipc_def)
  from client_activates_route [OF c(1), of 3 0 ex_ipc OUT_BT_A2DP 0 OUT_BT_A2DP OUT_SPEAKER IN_MIC
      "ex_ipc_env ex_wave" "ex_ipc_env ex_wave"] d o c(2)
  show ?thesis by (simp add: RETRIES_def) blast
qed

lemma foreach_routes_stop:
  "0 \<notin> set rs \<Longrightarrow> foreach_routes f called (rs @ 0 # zs) =
    Some (called @ takeWhile f rs @ take 1 (dropWhile f rs))"
  by (induction rs arbitrary: called) auto

text \<open>
  C29: a client that asks for the available routes has its function called with exactly these, in the
  order of the table, until the function declines.  When all ten routes are available the loop reads
  one number behind the list, the handle of the answer, which is 0 and ends it.
\<close>

theorem client_lists_routes:
  assumes "client_ready (ce_pid E) c" "n \<le> RETRIES" "cb \<noteq> 0"
  shows "\<exists>c1. mm_sound_foreach_available_route_cb (with_server (mgr_answer F) s n E) f cb data c =
    (let rs = filter (route_available (ip_sess s)) g_valid_route
     in Some (MM_ERROR_NONE, takeWhile f rs @ take 1 (dropWhile f rs), c1))"
proof -
  let ?rs = "filter (route_available (ip_sess s)) g_valid_route"
  let ?m = "zero_msg\<lparr>m_msgtype := MM_SOUND_MSG_REQ_FOREACH_AVAILABLE_ROUTE_CB, m_callback := cb, m_cbdata := data\<rparr>"
  have "length (m_route_list zero_msg) = MM_SOUND_ROUTE_NUM" by (simp add: zero_msg_def)
  from available_route_list [OF this, of "ip_sess s"] have fr:
    "foreach_available_route (ip_sess s) (m_route_list zero_msg) =
      (MM_ERROR_NONE, length ?rs, ?rs @ replicate (MM_SOUND_ROUTE_NUM - length ?rs) 0)"
    by (simp add: Let_def zero_msg_def)
  define r where "r = foreach_answer (?m\<lparr>m_msgid := ce_pid E\<rparr>) s"
  have r: "mgr_answer F (?m\<lparr>m_msgid := ce_pid E\<rparr>) s = Some (r, s)" "m_code r = MM_ERROR_NONE"
    "m_route_list r = ?rs @ replicate (MM_SOUND_ROUTE_NUM - length ?rs) 0" "m_handle r = 0"
    by (simp_all add: r_def mgr_answer_def foreach_answer_def fr ipc_answer_def)
  have "0 \<notin> set ?rs" by (simp add: g_valid_route_values)
  then have "handle_foreach_callback f r = Some (takeWhile f ?rs @ take 1 (dropWhile f ?rs))"
    using foreach_routes_stop [of ?rs f "[]" "replicate (MM_SOUND_ROUTE_NUM - length ?rs) 0"]
    by (simp add: handle_foreach_callback_def r(3,4) replicate_append_same)
  with dispatcher.device_request [OF assms(1,2) r(1)] r(2) assms(3) show ?thesis
    by (simp add: mm_sound_foreach_available_route_cb_def client_foreach_available_route_def Let_def)
qed

theorem client_lists_routes_witness:
  "\<exists>c1. mm_sound_foreach_available_route_cb (with_server (mgr_answer (ex_ipc_env ex_wave)) ex_ipc 0
      (ex_cl_env (\<lambda>_. []))) (\<lambda>r. r \<noteq> IN_MIC) 5 6 ex_client =
    Some (MM_ERROR_NONE, [OUT_SPEAKER, IN_MIC], c1)"
proof -
  have av: "device_available ex_sess = 0x101" by (simp add: ex_sess_def dev_bits)
  have "filter (route_available ex_sess) g_valid_route = [OUT_SPEAKER, IN_MIC, IN_MIC OR OUT_SPEAKER]"
    unfolding g_valid_route_values
    by (simp add: route_available_def get_devices_from_route_def is_device_available_def
        IS_AVAILABLE_def av dev_bits)
  moreover have "client_ready (ce_pid (ex_cl_env (\<lambda>_. []))) ex_client" "ip_sess ex_ipc = ex_sess"
    using ex_client_ready by (simp_all add: ex_cl_env_def ex_ipc_def)
  ultimately show ?thesis
    using client_lists_routes [of "ex_cl_env (\<lambda>_. [])" ex_client 0 5 "ex_ipc_env ex_wave" ex_ipc "\<lambda>r. r \<noteq> IN_MIC" 6]
    by (simp add: Let_def OUT_SPEAKER_def IN_MIC_def)
qed

section \<open>Sounds\<close>

lemma play_file_exchange:
  assumes "client_ready (ce_pid E) c" "n \<le> RETRIES" "client_session E = Inr ty" "length f < FILE_PATH"
    "mm_sound_play_sound A (with_server (mgr_answer F) s n E) (Some f) vt cb data c =
      Some (MM_ERROR_NONE, Some h, c1)" "h \<noteq> -1"
  shows "\<exists>m r s1. m = (sound_request E (simple_param f vt cb data (PRIORITY_NORMAL A) 0) 0 0 ty)
        \<lparr>m_msgtype := MM_SOUND_MSG_REQ_FILE, m_filename := f\<rparr> \<and>
      mgr_answer F m s = Some (r, s1) \<and> m_msgtype r = MM_SOUND_MSG_RES_FILE \<and> m_handle r = h \<and>
      cl_sent c1 = m # cl_sent c"
proof -
  let ?p = "simple_param f vt cb data (PRIORITY_NORMAL A) 0"
  let ?m = "(sound_request E ?p 0 0 ty)\<lparr>m_msgtype := MM_SOUND_MSG_REQ_FILE, m_filename := f\<rparr>"
  let ?E = "with_server (mgr_answer F) s n E"
  have q: "client_get_msg_queue ?E c = (MM_ERROR_NONE, c)" "client_session E = Inr ty"
    "sound_request ?E = sound_request E"
    using assms(1,3) by (simp_all add: client_get_msg_queue_def client_ready_def sound_request_def fun_eq_iff)
  obtain e c2 where th: "(if cb \<noteq> 0 then client_thread ?E c else (MM_ERROR_NONE, c)) = (e, c2)" by fastforce
  then have c2: "client_ready (ce_pid E) c2" "cl_sent c2 = cl_sent c"
    using assms(1) by (auto simp: client_thread_def client_ready_def split: if_splits)
  have p: "sp_callback ?p = cb" "sp_mem_ptr ?p = None" "sp_filename ?p = Some f" by (simp_all add: simple_param_def)
  have "sound_outcome (MMSoundClientPlaySound ?E ?p 0 0 c) = Some (MM_ERROR_NONE, Some h, c1)"
    using assms(5) by (simp add: mm_sound_play_sound_def play_with_def split: if_splits)
  moreover have "MMSoundClientPlaySound ?E ?p 0 0 c =
      (if e \<noteq> MM_ERROR_NONE then Some (e, None, c2) else map_option (play_answer ?m) (client_exchange ?E ?m c2))"
    using th assms(4) by (simp add: MMSoundClientPlaySound_def q p file_request_def)
  ultimately obtain x c3 where x: "client_exchange ?E ?m c2 = Some (x, c3)"
    "sound_outcome (Some (play_answer ?m (x, c3))) = Some (MM_ERROR_NONE, Some h, c1)"
    using assms(6) by (auto simp: sound_outcome_def split: if_splits)
  from dispatcher.exchange_Some [OF c2(1) assms(2) _ x(1)] obtain r s1 where
    r: "mgr_answer F ?m s = Some (r, s1)" "x = Inr r" "c3 = c2\<lparr>cl_sent := ?m # cl_sent c2\<rparr>"
    by (auto simp: sound_request_def)
  have "m_msgtype r = MM_SOUND_MSG_RES_FILE \<or> m_msgtype r = MM_SOUND_MSG_RES_ERROR"
    using mgr_answer_answers [OF r(1)] by (auto simp: answers_def)
  with x(2) assms(6) r(2,3) c2(2) have "m_msgtype r = MM_SOUND_MSG_RES_FILE" "m_handle r = h" "cl_sent c1 = ?m # cl_sent c"
    by (auto simp: sound_outcome_def play_answer_def answer_handle_def split: if_splits)
  with r(1) show ?thesis by blast
qed

text \<open>
  C2: the life of a sound.  A client that plays a WAVE file and gets a handle gets the number of the
  first free slot; the plugin holds the samples of the file, to be played once; when the sound ends, one
  message is sent to the client, whose thread calls the given function with the given data; the slot is
  free, and the descriptor, the mapping and the memory of the source have been given back.
\<close>

theorem client_sound_life:
  assumes "client_ready (ce_pid E) c" "n \<le> RETRIES" "client_session E = Inr ty" "length f < FILE_PATH" "cb \<noteq> 0"
    and wav: "fe_content (ie_files F f) = wave_file d" "wave_wf d" "wave_fuel d \<le> fuel"
      "map lower_char (drop (length f - 2) f) \<noteq> ''dm''" "fe_map (ie_files F f) AND 0xFFF = 0"
    and server: "MAP_FAILED \<notin> fst ` set (mappings (ip_sys s))" "wave_winv (pw_wave (cworld (ip_codec s)))"
      "plugins (ip_codec s) = Some (server_wave fuel E0) # ps"
    and play: "mm_sound_play_sound A (with_server (mgr_answer F) s n E) (Some f) vt cb data c =
      Some (MM_ERROR_NONE, Some h, c1)" "h \<noteq> -1"
  shows "\<exists>i m r s1 a q msg s2. h = int i \<and> find_status STATUS_IDLE (slots (ip_codec s)) = Some i \<and>
    cl_sent c1 = m # cl_sent c \<and> mgr_answer F m s = Some (r, s1) \<and>
    sl_plughandle (slots (ip_codec s1) ! i) = a \<and> wave_heap (pw_wave (cworld (ip_codec s1))) a = Some q \<and>
    src_bytes (wv_source q) = wave_file d \<and> wv_repeat_count q = 1 \<and> wv_cb_param q = int i \<and>
    ipc_sound_end i s1 = Some s2 \<and> cb_sent s2 = msg # cb_sent s \<and> m_msgid msg = ce_pid E \<and>
    callbackfunc msg = ([StopCallback cb data], True) \<and>
    slots (ip_codec s2) = (slots (ip_codec s))[i := zero_slot] \<and> ip_sys s2 = ip_sys s"
proof -
  from play_file_exchange [OF assms(1-4) play] obtain m r s1 where m:
    "m = (sound_request E (simple_param f vt cb data (PRIORITY_NORMAL A) 0) 0 0 ty)
        \<lparr>m_msgtype := MM_SOUND_MSG_REQ_FILE, m_filename := f\<rparr>"
    "mgr_answer F m s = Some (r, s1)" "m_msgtype r = MM_SOUND_MSG_RES_FILE" "m_handle r = h"
    "cl_sent c1 = m # cl_sent c" by blast
  have f: "m_msgtype m = MM_SOUND_MSG_REQ_FILE" "m_keytone m \<noteq> 1" "m_keytone m \<noteq> 2" "m_callback m = cb"
    "m_cbdata m = data" "m_filename m = f" "m_msgid m = ce_pid E" "m_repeat m = 1"
    by (simp_all add: m(1) sound_request_def simple_param_def)
  from file_sound_life [OF f(1-3) _ _ wav(2,3) _ _ server(1,3,2) m(2,3), unfolded f(4-8) m(4)]
    wav(1,4,5) assms(5)
  obtain i a q msg s2 where l:
    "h = int i" "find_status STATUS_IDLE (slots (ip_codec s)) = Some i"
    "sl_plughandle (slots (ip_codec s1) ! i) = a" "wave_heap (pw_wave (cworld (ip_codec s1))) a = Some q"
    "src_bytes (wv_source q) = wave_file d" "wv_repeat_count q = 1" "wv_cb_param q = int i"
    "ipc_sound_end i s1 = Some s2" "cb_sent s2 = msg # cb_sent s" "m_msgid msg = ce_pid E"
    "m_msgtype msg = MM_SOUND_MSG_INF_STOP_CB" "m_callback msg = cb" "m_cbdata msg = data"
    "slots (ip_codec s2) = (slots (ip_codec s))[i := zero_slot]" "ip_sys s2 = ip_sys s" by auto
  moreover have "callbackfunc msg = ([StopCallback cb data], True)"
    using l(11-13) assms(5) by (simp add: callbackfunc_def)
  ultimately show ?thesis using m(2,5) by blast
qed

lemma play_file_served:
  assumes "client_ready (ce_pid E) c" "n \<le> RETRIES" "client_session E = Inr ty" "length f < FILE_PATH"
    "0 \<le> vt" "vt < VOLUME_TYPE_MAX" "cl_thread_id c \<noteq> -1 \<or> ce_thread E \<noteq> -1"
    "m = (sound_request E (simple_param f vt cb data (PRIORITY_NORMAL A) 0) 0 0 ty)
        \<lparr>m_msgtype := MM_SOUND_MSG_REQ_FILE, m_filename := f\<rparr>"
    "mgr_answer F m s = Some (r, s1)" "m_msgtype r = MM_SOUND_MSG_RES_FILE"
  shows "\<exists>c1. mm_sound_play_sound A (with_server (mgr_answer F) s n E) (Some f) vt cb data c =
    Some (MM_ERROR_NONE, Some (m_handle r), c1)"
proof -
  let ?p = "simple_param f vt cb data (PRIORITY_NORMAL A) 0" and ?E = "with_server (mgr_answer F) s n E"
  have q: "client_get_msg_queue ?E c = (MM_ERROR_NONE, c)" "sound_request ?E = sound_request E"
    using assms(1) by (simp_all add: client_get_msg_queue_def client_ready_def sound_request_def fun_eq_iff)
  obtain e c2 where t: "(if cb \<noteq> 0 then client_thread ?E c else (MM_ERROR_NONE, c)) = (e, c2)" by fastforce
  with assms(1,7) have th: "(if cb \<noteq> 0 then client_thread ?E c else (MM_ERROR_NONE, c)) = (MM_ERROR_NONE, c2)"
    "client_ready (ce_pid E) c2"
    by (auto simp: client_thread_def client_ready_def split: if_splits)
  have p: "sp_callback ?p = cb" "sp_mem_ptr ?p = None" "sp_filename ?p = Some f" by (simp_all add: simple_param_def)
  have "m_msgid m = ce_pid E" by (simp add: assms(8) sound_request_def)
  from dispatcher.exchange [OF th(2) assms(2) this assms(9)] obtain c3 where
    "client_exchange ?E m c2 = Some (Inr r, c3)" by blast
  with th(1) have "\<exists>c1. MMSoundClientPlaySound ?E ?p 0 0 c = Some (MM_ERROR_NONE, Some (m_handle r), c1)"
    using assms(3,4,10)
    by (simp add: MMSoundClientPlaySound_def q p file_request_def assms(8) [symmetric] play_answer_def
        sound_result_def answer_result_def answer_handle_def)
  then obtain c1 where "MMSoundClientPlaySound ?E ?p 0 0 c = Some (MM_ERROR_NONE, Some (m_handle r), c1)" ..
  then show ?thesis
    using assms(5,6)
    by (intro exI [of _ c1]) (simp add: mm_sound_play_sound_def play_with_def sound_outcome_def is_failure_def)
qed

theorem client_sound_life_witness:
  "\<exists>A E c1 m r s1 msg s2.
    mm_sound_play_sound A (with_server (mgr_answer (ex_ipc_env ex_wave)) ex_ipc 7 E) (Some ''a.wav'')
      VOLUME_TYPE_MEDIA 0x50 0x60 ex_client = Some (MM_ERROR_NONE, Some 0, c1) \<and>
    mgr_answer (ex_ipc_env ex_wave) m ex_ipc = Some (r, s1) \<and> ipc_sound_end 0 s1 = Some s2 \<and>
    cb_sent s2 = [msg] \<and> callbackfunc msg = ([StopCallback 0x50 0x60], True) \<and> ip_sys s2 = ip_sys ex_ipc"
proof -
  let ?E = "ex_cl_env (\<lambda>_. [])" and ?F = "ex_ipc_env ex_wave"
  let ?A = "\<lparr>PRIORITY_NORMAL = 0, PRIORITY_SOLO = 1\<rparr>"
  let ?m = "(sound_request ?E (simple_param ''a.wav'' VOLUME_TYPE_MEDIA 0x50 0x60 (PRIORITY_NORMAL ?A) 0) 0 0
    MM_SESSION_TYPE_SHARE)\<lparr>m_msgtype := MM_SOUND_MSG_REQ_FILE, m_filename := ''a.wav''\<rparr>"
  have c: "client_ready (ce_pid ?E) ex_client" "(7 :: nat) \<le> RETRIES" "client_session ?E = Inr MM_SESSION_TYPE_SHARE"
    "length ''a.wav'' < FILE_PATH" "(0x50 :: ptr) \<noteq> 0"
    using ex_client_ready by (simp_all add: ex_cl_env_def RETRIES_def client_session_def FILE_PATH_def)
  from ex_file_request [of ?m] obtain r s1 where r: "mgr_answer ?F ?m ex_ipc = Some (r, s1)"
    "m_msgtype r = MM_SOUND_MSG_RES_FILE" "m_handle r = 0"
    by (auto simp: sound_request_def)
  have "0 \<le> VOLUME_TYPE_MEDIA" "VOLUME_TYPE_MEDIA < VOLUME_TYPE_MAX" "cl_thread_id ex_client \<noteq> -1 \<or> ce_thread ?E \<noteq> -1"
    by (simp_all add: volume_types ex_cl_env_def)
  from play_file_served [OF c(1-4) this refl r(1,2)] r(3) obtain c1 where
    p: "mm_sound_play_sound ?A (with_server (mgr_answer ?F) ex_ipc 7 ?E) (Some ''a.wav'') VOLUME_TYPE_MEDIA 0x50 0x60
      ex_client = Some (MM_ERROR_NONE, Some 0, c1)" by auto
  have fuel: "wave_fuel ex_wave \<le> 3" by (simp add: wave_fuel_def ex_wave_def)
  have wav: "fe_content (ie_files ?F ''a.wav'') = wave_file ex_wave"
    "map lower_char (drop (length ''a.wav'' - 2) ''a.wav'') \<noteq> ''dm''" "fe_map (ie_files ?F ''a.wav'') AND 0xFFF = 0"
    by (simp_all add: ex_ipc_env_def ex_file_def lower_char_def)
  have server: "MAP_FAILED \<notin> fst ` set (mappings (ip_sys ex_ipc))" "wave_winv (pw_wave (cworld (ip_codec ex_ipc)))"
    "plugins (ip_codec ex_ipc) = Some (server_wave 3 ex_wave_env) # [Some (server_tone ex_tone_env), None]"
    "cb_sent ex_ipc = []"
    by (simp_all add: ex_ipc_def ex_plug_world_def ip_sys_def ex_sys_def wave_winv_def cb_sent_def)
  from client_sound_life [OF c wav(1) ex_wave_wf fuel wav(2,3) server(1-3) p] server(4)
  obtain m r s1 msg s2 where "mgr_answer ?F m ex_ipc = Some (r, s1)" "ipc_sound_end 0 s1 = Some s2"
    "cb_sent s2 = [msg]" "callbackfunc msg = ([StopCallback 0x50 0x60], True)" "ip_sys s2 = ip_sys ex_ipc" by auto
  with p show ?thesis by blast
qed

end
