(* ===== verification/Keytone.thy ===== *)
theory Keytone
  imports Wave
begin

text \<open>
  The key tone plugin (\<^verbatim>\<open>server/plugin/keytone/mm_sound_plugin_run_key_tone.c\<close>): a thread that takes the
  requests from a pipe and one that renders the sounds, which share a state, a lock and a condition.
  A step of the model is a critical section or a piece of code between two of them, so that every
  interleaving of the threads is a sequence of steps.  A wait on the condition ends by a signal or by
  its timeout only.
\<close>

datatype render_state =
    RENDER_READY | RENDER_START | RENDER_STARTED | RENDER_STOP | RENDER_STOPED
  | RENDER_STOPED_N_WAIT | RENDER_COND_TIMED_WAIT

definition MAX_BUFFER_SIZE :: nat where "MAX_BUFFER_SIZE = 1920"

text \<open>A request from the pipe, with the answers of the file system and of the sound device: the period,
  or none when it cannot be opened.\<close>

record kt_req =
  kq_filename :: string
  kq_vol_type :: int
  kq_file :: file_env
  kq_device :: "nat option"

text \<open>Where the two threads are.\<close>

datatype kt_control = CtlRead | CtlWait kt_req | CtlWoken kt_req

datatype kt_render =
    RNone | RTop | RWaitStopped | RPick | RLoop | RWrite | RClose | RPost | RTimed | RTimedOut

datatype kt_call = KtOpen codec_info int | KtWrite bytes | KtClose

text \<open>The globals, the variables of the control thread, those of the render thread, the resources of the
  process and the calls of the sound device, newest first.\<close>

record kt =
  kt_state :: render_state
  kt_created :: bool
  kt_period :: nat
  kt_vol_type :: int
  kt_control :: kt_control
  kt_source :: mm_source
  kt_info :: codec_info
  kt_render :: kt_render
  kr_source :: mm_source
  kr_buf :: nat
  kr_size :: nat
  kt_sys :: src_sys
  kt_calls :: "kt_call list"

definition kt_init :: "codec_info \<Rightarrow> src_sys \<Rightarrow> kt" where
  "kt_init info sys =
    \<lparr>kt_state = RENDER_READY, kt_created = False, kt_period = 0, kt_vol_type = 0, kt_control = CtlRead,
     kt_source = zero_source, kt_info = info, kt_render = RNone, kr_source = zero_source,
     kr_buf = 0, kr_size = 0, kt_sys = sys, kt_calls = []\<rparr>"

text \<open>The parser is that of the WAVE plugin, word for word but for the messages.\<close>

definition keytone_parse ::
  "nat \<Rightarrow> mm_source \<Rightarrow> codec_info \<Rightarrow> (mm_err \<times> mm_source \<times> codec_info) access" where
  "keytone_parse fuel src info = wave_parse fuel src info"

definition create_audio_handle :: "nat option \<Rightarrow> codec_info \<Rightarrow> kt \<Rightarrow> mm_err \<times> kt" where
  "create_audio_handle dev info s =
    (case dev of
       None \<Rightarrow> (MM_ERROR_SOUND_INTERNAL, s)
     | Some p \<Rightarrow>
         (MM_ERROR_NONE,
          s\<lparr>kt_period := (if p > MAX_BUFFER_SIZE then MAX_BUFFER_SIZE else p),
            kt_calls := KtOpen info (kt_vol_type s) # kt_calls s\<rparr>))"

section \<open>The control thread\<close>

text \<open>Closing the source of the control thread, which then goes back to the pipe.\<close>

definition kt_drop_source :: "kt \<Rightarrow> kt" where
  "kt_drop_source s =
    s\<lparr>kt_sys := release_source (kt_source s) (kt_sys s), kt_source := zero_source, kt_control := CtlRead\<rparr>"

text \<open>A signal wakes the render thread when it waits.\<close>

definition kt_signal_render :: "kt \<Rightarrow> kt" where
  "kt_signal_render s =
    (case kt_render s of
       RWaitStopped \<Rightarrow> s\<lparr>kt_render := RPick\<rparr>
     | RTimed \<Rightarrow> s\<lparr>kt_render := RTop\<rparr>
     | _ \<Rightarrow> s)"

definition kt_start_sound :: "kt \<Rightarrow> kt" where
  "kt_start_sound s =
    (let s1 = (if kt_render s = RNone then s\<lparr>kt_render := RTop\<rparr> else s);
         s2 = (if kt_state s1 = RENDER_STOPED_N_WAIT \<or> kt_state s1 = RENDER_COND_TIMED_WAIT
               then kt_signal_render s1 else s1)
     in s2\<lparr>kt_state := RENDER_START, kt_control := CtlRead\<rparr>)"

text \<open>The rest of the turn, once no sound is being rendered.  There is no next state where the code
  reads outside the file, writes to it, or does not end.\<close>

definition kt_continue :: "nat \<Rightarrow> kt_req \<Rightarrow> kt \<Rightarrow> kt option" where
  "kt_continue fuel q s =
    (case mm_source_open_file (kq_file q) (Some (kq_filename q)) False (kt_source s) (kt_sys s) of
       Ok (e, src, sys) \<Rightarrow>
         (let s1 = s\<lparr>kt_source := src, kt_sys := sys\<rparr> in
          if e \<noteq> MM_ERROR_NONE then Some (s1\<lparr>kt_control := CtlRead\<rparr>)
          else
            (case keytone_parse fuel src (kt_info s) of
               Ok (e, src', info) \<Rightarrow>
                 (let s2 = s1\<lparr>kt_source := src', kt_info := info\<rparr> in
                  if e \<noteq> MM_ERROR_NONE then Some (kt_drop_source s2)
                  else if kt_created s2 then Some (kt_start_sound s2)
                  else
                    (case create_audio_handle (kq_device q) info s2 of
                       (e, s3) \<Rightarrow>
                         if e \<noteq> MM_ERROR_NONE then Some (kt_drop_source s3)
                         else Some (kt_start_sound (s3\<lparr>kt_created := True\<rparr>))))
             | _ \<Rightarrow> None))
     | _ \<Rightarrow> None)"

text \<open>A request: a sound that is being rendered is told to stop, and awaited.\<close>

definition kt_request :: "nat \<Rightarrow> kt_req \<Rightarrow> kt \<Rightarrow> kt option" where
  "kt_request fuel q s =
    (let s1 = s\<lparr>kt_vol_type := kq_vol_type q\<rparr> in
     if kt_state s1 = RENDER_STARTED
     then Some (s1\<lparr>kt_state := RENDER_STOP, kt_control := CtlWait q\<rparr>)
     else kt_continue fuel q s1)"

section \<open>The render thread\<close>

text \<open>Taking over the sound of the control thread.\<close>

definition kt_pick :: "kt \<Rightarrow> kt" where
  "kt_pick s =
    (if kt_state s = RENDER_START
     then s\<lparr>kr_source := kt_source s, kr_buf := unat (info_doffset (kt_info s)),
            kr_size := (if src_ptr (kt_source s) + info_doffset (kt_info s) = 0 then 0
                        else unat (info_size (kt_info s))),
            kt_state := RENDER_STARTED, kt_render := RLoop\<rparr>
     else s\<lparr>kt_render := RLoop\<rparr>)"

text \<open>Writing a period; after the last, incomplete one two periods of silence.\<close>

definition kt_write :: "kt \<Rightarrow> kt option" where
  "kt_write s =
    (let P = kt_period s; n = kr_size s; bs = src_bytes (kr_source s) in
     if n < P then
       (if kr_buf s + n > length bs then None
        else Some (s\<lparr>kt_calls := KtWrite (replicate P 0) # KtWrite (replicate P 0) #
                       KtWrite (take n (drop (kr_buf s) bs) @ replicate (P - n) 0) # kt_calls s,
                     kr_size := 0, kt_render := RLoop\<rparr>))
     else if kr_buf s + P > length bs then None
     else Some (s\<lparr>kt_calls := KtWrite (take P (drop (kr_buf s) bs)) # kt_calls s,
                  kr_size := n - P, kr_buf := kr_buf s + P, kt_render := RLoop\<rparr>))"

text \<open>After a sound: a control thread that waits is woken; otherwise the render thread waits for the next
  sound for some time.\<close>

definition kt_post :: "kt \<Rightarrow> kt" where
  "kt_post s =
    (if kt_state s = RENDER_STOP
     then s\<lparr>kt_state := RENDER_STOPED, kt_render := RTop,
            kt_control := (case kt_control s of CtlWait q \<Rightarrow> CtlWoken q | c \<Rightarrow> c)\<rparr>
     else s\<lparr>kt_state := RENDER_COND_TIMED_WAIT, kt_render := RTimed\<rparr>)"

text \<open>When no sound came in time the device is closed.\<close>

definition kt_timed_out :: "kt \<Rightarrow> kt" where
  "kt_timed_out s =
    (if kt_state s \<noteq> RENDER_START
     then s\<lparr>kt_calls := KtClose # kt_calls s, kt_created := False, kt_state := RENDER_STOPED, kt_render := RTop\<rparr>
     else s\<lparr>kt_render := RTop\<rparr>)"

definition kt_render_step :: "kt \<Rightarrow> kt option" where
  "kt_render_step s =
    (case kt_render s of
       RTop \<Rightarrow>
         Some (if kt_state s = RENDER_STOPED
               then s\<lparr>kt_state := RENDER_STOPED_N_WAIT, kt_render := RWaitStopped\<rparr> else kt_pick s)
     | RPick \<Rightarrow> Some (kt_pick s)
     | RLoop \<Rightarrow>
         Some (s\<lparr>kt_render := (if kr_size s = 0 \<or> kt_state s = RENDER_STOP then RClose else RWrite)\<rparr>)
     | RWrite \<Rightarrow> kt_write s
     | RClose \<Rightarrow>
         Some (s\<lparr>kt_sys := release_source (kr_source s) (kt_sys s), kr_source := zero_source,
                 kt_render := RPost\<rparr>)
     | RPost \<Rightarrow> Some (kt_post s)
     | RTimedOut \<Rightarrow> Some (kt_timed_out s)
     | _ \<Rightarrow> None)"

section \<open>Interleaving\<close>

datatype kt_action = Request kt_req | ControlWakes | Renders | TimeIsOver

fun kt_step :: "nat \<Rightarrow> kt_action \<Rightarrow> kt \<Rightarrow> kt option" where
  "kt_step fuel (Request q) s = (if kt_control s = CtlRead then kt_request fuel q s else None)"
| "kt_step fuel ControlWakes s = (case kt_control s of CtlWoken q \<Rightarrow> kt_continue fuel q s | _ \<Rightarrow> None)"
| "kt_step fuel Renders s = kt_render_step s"
| "kt_step fuel TimeIsOver s =
    (if kt_render s = RTimed then Some (s\<lparr>kt_render := RTimedOut\<rparr>) else None)"

inductive kt_reachable :: "nat \<Rightarrow> codec_info \<Rightarrow> src_sys \<Rightarrow> kt \<Rightarrow> bool" for fuel info sys where
  start: "kt_reachable fuel info sys (kt_init info sys)"
| step: "kt_reachable fuel info sys s \<Longrightarrow> kt_step fuel a s = Some t \<Longrightarrow> kt_reachable fuel info sys t"

fun kt_run :: "nat \<Rightarrow> kt_action list \<Rightarrow> kt \<Rightarrow> kt option" where
  "kt_run fuel [] s = Some s"
| "kt_run fuel (a # as) s = (case kt_step fuel a s of Some t \<Rightarrow> kt_run fuel as t | None \<Rightarrow> None)"

end
