(* ===== verification/Keytone_Props.thy ===== *)
theory Keytone_Props
  imports Keytone Source_Props
begin

text \<open>
  Properties of the key tone plugin (\<^verbatim>\<open>Keytone\<close>): an invariant of all interleavings of its two threads,
  the hand-over of a sound that is cut short, what is written for a key tone, and the tone that is lost.
\<close>

section \<open>The device\<close>

text \<open>Whether the last call of a log, newest first, left the device open, and whether the log opens only
  a closed device, and closes and writes to an open one only.\<close>

fun kt_open :: "kt_call list \<Rightarrow> bool" where
  "kt_open [] = False"
| "kt_open (c # cs) = (case c of KtOpen i v \<Rightarrow> True | KtClose \<Rightarrow> False | KtWrite b \<Rightarrow> kt_open cs)"

fun kt_log_ok :: "kt_call list \<Rightarrow> bool" where
  "kt_log_ok [] = True"
| "kt_log_ok (c # cs) = ((case c of KtOpen i v \<Rightarrow> \<not> kt_open cs | _ \<Rightarrow> kt_open cs) \<and> kt_log_ok cs)"

definition rendering :: "kt \<Rightarrow> bool" where
  "rendering s \<longleftrightarrow> kt_render s \<in> {RLoop, RWrite, RClose, RPost}"

text \<open>Where the render thread can be in every state of the shared variable.\<close>

definition kt_places :: "render_state \<Rightarrow> kt_render set" where
  "kt_places st =
    (case st of
       RENDER_READY \<Rightarrow> {RNone}
     | RENDER_START \<Rightarrow> {RTop, RPick, RTimedOut}
     | RENDER_STARTED \<Rightarrow> {RLoop, RWrite, RClose, RPost}
     | RENDER_STOP \<Rightarrow> {RLoop, RWrite, RClose, RPost}
     | RENDER_STOPED \<Rightarrow> {RTop}
     | RENDER_STOPED_N_WAIT \<Rightarrow> {RWaitStopped}
     | RENDER_COND_TIMED_WAIT \<Rightarrow> {RTimed, RTimedOut})"

definition kt_inv :: "kt \<Rightarrow> bool" where
  "kt_inv s \<longleftrightarrow> kt_render s \<in> kt_places (kt_state s) \<and>
    (kt_state s = RENDER_STOP \<longleftrightarrow> (\<exists>q. kt_control s = CtlWait q)) \<and>
    (\<forall>q. kt_control s = CtlWoken q \<longrightarrow> kt_state s = RENDER_STOPED \<or> kt_state s = RENDER_STOPED_N_WAIT) \<and>
    (kt_state s \<in> {RENDER_START, RENDER_STARTED, RENDER_STOP, RENDER_COND_TIMED_WAIT} \<longrightarrow> kt_created s) \<and>
    (kt_state s = RENDER_READY \<longrightarrow> \<not> kt_created s) \<and>
    (kt_created s \<longleftrightarrow> kt_open (kt_calls s)) \<and> kt_log_ok (kt_calls s) \<and>
    (kt_render s \<notin> {RLoop, RWrite, RClose} \<longrightarrow> kr_source s = zero_source) \<and>
    (kt_render s = RWrite \<longrightarrow> kr_size s \<noteq> 0)"

lemma kt_inv_vol: "kt_inv (s\<lparr>kt_vol_type := v\<rparr>) = kt_inv s"
  by (simp add: kt_inv_def)

lemma kt_drop_inv:
  "kt_inv s \<Longrightarrow> kt_state s \<noteq> RENDER_STOP \<Longrightarrow> kt_inv (s\<lparr>kt_source := src, kt_sys := sys, kt_info := i, kt_control := CtlRead\<rparr>)"
  by (auto simp: kt_inv_def)

text \<open>Starting a sound wakes a render thread that waits.\<close>

lemma kt_start_sound_inv:
  assumes "kt_inv s" "kt_state s \<noteq> RENDER_STOP" "kt_state s \<noteq> RENDER_STARTED"
    "kt_state s' = kt_state s" "kt_render s' = kt_render s" "kt_control s' = kt_control s"
    "kr_source s' = kr_source s" "kr_size s' = kr_size s" "kt_created s'" "kt_calls s' = cs"
    "cs = kt_calls s \<and> kt_created s \<or> (\<exists>i v. cs = KtOpen i v # kt_calls s) \<and> \<not> kt_created s"
  shows "kt_inv (kt_start_sound s')"
  using assms
  by (cases "kt_state s")
    (auto simp: kt_inv_def kt_places_def kt_start_sound_def kt_signal_render_def Let_def)

lemma kt_continue_inv:
  assumes "kt_inv s" "kt_state s \<noteq> RENDER_STOP" "kt_state s \<noteq> RENDER_STARTED" "kt_continue fuel q s = Some t"
  shows "kt_inv t"
proof -
  from assms(4) obtain e src sys where o:
    "mm_source_open_file (kq_file q) (Some (kq_filename q)) False (kt_source s) (kt_sys s) = Ok (e, src, sys)"
    by (auto simp: kt_continue_def split: access.splits)
  show ?thesis
  proof (cases "e = MM_ERROR_NONE")
    case False
    with o assms(1,2,4) kt_drop_inv [of s, where src = src and sys = sys and i = "kt_info s"] show ?thesis
      by (auto simp: kt_continue_def Let_def)
  next
    case True
    with o assms(4) obtain e' src' i where p: "keytone_parse fuel src (kt_info s) = Ok (e', src', i)"
      by (auto simp: kt_continue_def Let_def split: access.splits)
    let ?s = "s\<lparr>kt_sys := sys, kt_source := src', kt_info := i\<rparr>"
    have drop: "kt_inv (kt_drop_source ?s)"
      using assms(1,2) by (auto simp: kt_drop_source_def kt_inv_def)
    have "t = (if e' \<noteq> MM_ERROR_NONE then kt_drop_source ?s
         else if kt_created s then kt_start_sound ?s
         else (case kq_device q of None \<Rightarrow> kt_drop_source ?s
               | Some n \<Rightarrow> kt_start_sound (?s\<lparr>kt_period := (if n > MAX_BUFFER_SIZE then MAX_BUFFER_SIZE else n),
                   kt_calls := KtOpen i (kt_vol_type s) # kt_calls s, kt_created := True\<rparr>)))"
      using o p True assms(4)
      by (auto simp: kt_continue_def Let_def create_audio_handle_def split: option.splits if_splits)
    moreover have "kt_inv (kt_start_sound ?s)" if "kt_created s"
      by (rule kt_start_sound_inv [OF assms(1-3), where cs = "kt_calls s"]) (use that in simp_all)
    moreover have "kt_inv (kt_start_sound (?s\<lparr>kt_period := n,
                   kt_calls := KtOpen i (kt_vol_type s) # kt_calls s, kt_created := True\<rparr>))" if "\<not> kt_created s" for n
      by (rule kt_start_sound_inv [OF assms(1-3), where cs = "KtOpen i (kt_vol_type s) # kt_calls s"])
        (use that in auto)
    ultimately show ?thesis using drop by (auto split: option.splits)
  qed
qed

lemma kt_render_inv: "kt_inv s \<Longrightarrow> kt_render_step s = Some t \<Longrightarrow> kt_inv t"
  by (cases "kt_state s"; cases "kt_render s")
    (auto simp: kt_inv_def kt_places_def kt_render_step_def kt_pick_def kt_write_def kt_post_def
      kt_timed_out_def Let_def split: if_splits)

lemma kt_step_inv: "kt_inv s \<Longrightarrow> kt_step fuel a s = Some t \<Longrightarrow> kt_inv t"
proof (cases a)
  case (Request q)
  assume s: "kt_inv s" "kt_step fuel a s = Some t"
  let ?s = "s\<lparr>kt_vol_type := kq_vol_type q\<rparr>"
  from s(2) Request have c: "kt_control s = CtlRead" "kt_request fuel q s = Some t" by (simp_all split: if_splits)
  have inv: "kt_inv ?s" using s(1) by (simp add: kt_inv_vol)
  show ?thesis
  proof (cases "kt_state s = RENDER_STARTED")
    case True
    with c s(1) show ?thesis by (auto simp: kt_request_def Let_def kt_inv_def kt_places_def)
  next
    case False
    moreover have "kt_state s \<noteq> RENDER_STOP" using s(1) c(1) by (simp add: kt_inv_def)
    ultimately show ?thesis
      using kt_continue_inv [OF inv] c(2) by (simp add: kt_request_def Let_def)
  qed
next
  case ControlWakes
  assume s: "kt_inv s" "kt_step fuel a s = Some t"
  with ControlWakes obtain q where q: "kt_control s = CtlWoken q" "kt_continue fuel q s = Some t"
    by (auto split: kt_control.splits)
  with s(1) have "kt_state s \<noteq> RENDER_STOP" "kt_state s \<noteq> RENDER_STARTED" by (auto simp: kt_inv_def)
  then show ?thesis by (rule kt_continue_inv [OF s(1) _ _ q(2)])
next
  case Renders
  then show "kt_inv s \<Longrightarrow> kt_step fuel a s = Some t \<Longrightarrow> ?thesis" using kt_render_inv by simp
next
  case TimeIsOver
  then show "kt_inv s \<Longrightarrow> kt_step fuel a s = Some t \<Longrightarrow> ?thesis"
    by (cases "kt_state s") (auto simp: kt_inv_def kt_places_def split: if_splits)
qed

lemma kt_reachable_inv: "kt_reachable fuel info sys s \<Longrightarrow> kt_inv s"
proof (induction rule: kt_reachable.induct)
  case start
  show ?case by (simp add: kt_init_def kt_inv_def kt_places_def)
next
  case (step s a t)
  then show ?case using kt_step_inv by blast
qed

lemma kt_run_inv: "kt_inv s \<Longrightarrow> kt_run fuel as s = Some t \<Longrightarrow> kt_inv t"
  by (induction as arbitrary: s) (auto split: option.splits intro: kt_step_inv)

lemma kt_run_append:
  "kt_run fuel (as @ bs) s = (case kt_run fuel as s of Some t \<Rightarrow> kt_run fuel bs t | None \<Rightarrow> None)"
  by (induction as arbitrary: s) (simp_all split: option.split)

lemma kt_run_reachable:
  "kt_reachable fuel info sys s \<Longrightarrow> kt_run fuel as s = Some t \<Longrightarrow> kt_reachable fuel info sys t"
  by (induction as arbitrary: s) (auto split: option.splits intro: kt_reachable.step)

section \<open>The end of a sound that is cut short\<close>

lemma kt_waiting_step:
  assumes "kt_inv s" "kt_control s = CtlWait q" "kt_render s = RWrite \<longrightarrow> kt_write s \<noteq> None"
  shows "\<exists>n t. n \<le> 4 \<and> kt_run fuel (replicate n Renders) s = Some t \<and> kt_control t = CtlWoken q \<and>
    kt_state t = RENDER_STOPED \<and> kt_render t = RTop \<and>
    (\<exists>cs. kt_calls t = cs @ kt_calls s \<and> length cs \<le> 3) \<and> kt_sys t = (if kt_render s = RPost then kt_sys s
       else release_source (kr_source s) (kt_sys s))"
proof -
  have st: "kt_state s = RENDER_STOP" "rendering s"
    using assms(1,2) by (auto simp: kt_inv_def kt_places_def rendering_def)
  have post: "kt_render_step u = Some (u\<lparr>kt_state := RENDER_STOPED, kt_render := RTop, kt_control := CtlWoken q\<rparr>)"
    if "kt_render u = RPost" "kt_state u = RENDER_STOP" "kt_control u = CtlWait q" for u
    using that by (simp add: kt_render_step_def kt_post_def)
  have close: "kt_render_step u = Some (u\<lparr>kt_sys := release_source (kr_source u) (kt_sys u),
      kr_source := zero_source, kt_render := RPost\<rparr>)" if "kt_render u = RClose" for u
    using that by (simp add: kt_render_step_def)
  have loop: "kt_render_step u = Some (u\<lparr>kt_render := RClose\<rparr>)"
    if "kt_render u = RLoop" "kt_state u = RENDER_STOP" for u
    using that by (simp add: kt_render_step_def)
  from st(2) consider "kt_render s = RPost" | "kt_render s = RClose" | "kt_render s = RLoop" | "kt_render s = RWrite"
    by (auto simp: rendering_def)
  then show ?thesis
  proof cases
    case 1
    with st(1) assms(2) show ?thesis by (intro exI [of _ 1]) (simp add: post)
  next
    case 2
    with st(1) assms(2) show ?thesis by (intro exI [of _ 2]) (simp add: post close numeral_eq_Suc)
  next
    case 3
    with st(1) assms(2) show ?thesis by (intro exI [of _ 3]) (simp add: post close loop numeral_eq_Suc)
  next
    case 4
    with assms(3) obtain u where u: "kt_write s = Some u" by auto
    then have "kt_render_step s = Some u" by (simp add: kt_render_step_def 4)
    moreover have "kt_render u = RLoop" "kt_state u = RENDER_STOP" "kt_control u = CtlWait q"
      "kt_sys u = kt_sys s" "kr_source u = kr_source s" "\<exists>cs. kt_calls u = cs @ kt_calls s \<and> length cs \<le> 3"
      using u st(1) assms(2)
      by (auto simp: kt_write_def Let_def split: if_splits)
    ultimately show ?thesis
      by (intro exI [of _ 4]) (simp add: post close loop numeral_eq_Suc 4)
  qed
qed

section \<open>What is written for a key tone\<close>

fun kt_written :: "kt_call list \<Rightarrow> bytes" where
  "kt_written [] = []"
| "kt_written (c # cs) = kt_written cs @ (case c of KtWrite b \<Rightarrow> b | _ \<Rightarrow> [])"

text \<open>The silence after a sound: the rest of the last period and two periods, none when the sound fills
  its periods.\<close>

definition kt_silence :: "nat \<Rightarrow> nat \<Rightarrow> nat" where
  "kt_silence P n = (if n mod P = 0 then 0 else P - n mod P + 2 * P)"

lemma kt_rest_played:
  assumes "kt_render s = RLoop" "kt_state s = RENDER_STARTED" "0 < kt_period s"
    "kr_buf s + kr_size s \<le> length (src_bytes (kr_source s))"
  shows "\<exists>k t. kt_run fuel (replicate k Renders) s = Some t \<and> kt_render t = RTimed \<and>
    kt_written (kt_calls t) = kt_written (kt_calls s) @
      take (kr_size s) (drop (kr_buf s) (src_bytes (kr_source s))) @ replicate (kt_silence (kt_period s) (kr_size s)) 0 \<and>
    kt_sys t = release_source (kr_source s) (kt_sys s)"
  using assms
proof (induction "kr_size s" arbitrary: s rule: less_induct)
  case less
  let ?P = "kt_period s" and ?n = "kr_size s" and ?bs = "drop (kr_buf s) (src_bytes (kr_source s))"
  have finish: "\<exists>t. kt_run fuel [Renders, Renders, Renders] u = Some t \<and> kt_render t = RTimed \<and>
      kt_calls t = kt_calls u \<and> kt_sys t = release_source (kr_source u) (kt_sys u)"
    if "kt_render u = RLoop" "kt_state u = RENDER_STARTED" "kr_size u = 0" for u
    using that by (simp add: kt_render_step_def kt_post_def)
  consider "?n = 0" | "0 < ?n" "?n < ?P" | "?P \<le> ?n" "0 < ?n" by linarith
  then show ?case
  proof cases
    case 1
    with finish [OF less.prems(1,2)] show ?thesis
      by (intro exI [of _ 3]) (auto simp: numeral_eq_Suc kt_silence_def)
  next
    case 2
    let ?u = "s\<lparr>kt_calls := KtWrite (replicate ?P 0) # KtWrite (replicate ?P 0) #
        KtWrite (take ?n ?bs @ replicate (?P - ?n) 0) # kt_calls s, kr_size := 0, kt_render := RLoop\<rparr>"
    have "kt_run fuel [Renders, Renders] s = Some ?u"
      using less.prems 2 by (simp add: kt_render_step_def kt_write_def Let_def)
    moreover obtain t where "kt_run fuel [Renders, Renders, Renders] ?u = Some t \<and> kt_render t = RTimed \<and>
      kt_calls t = kt_calls ?u \<and> kt_sys t = release_source (kr_source ?u) (kt_sys ?u)"
      using finish [of ?u] less.prems(2) by auto
    moreover have "replicate (?P - ?n) (0 :: 8 word) @ replicate ?P 0 @ replicate ?P 0 =
        replicate (kt_silence ?P ?n) 0"
      using 2 by (simp add: kt_silence_def mult_2 flip: replicate_add)
    moreover have "replicate 5 Renders = [Renders, Renders] @ [Renders, Renders, Renders]" by (simp add: numeral_eq_Suc)
    ultimately show ?thesis
      by (intro exI [of _ 5]) (simp only: kt_run_append option.case kt_written.simps kt_call.case, simp)
  next
    case 3
    let ?u = "s\<lparr>kt_calls := KtWrite (take ?P ?bs) # kt_calls s, kr_size := ?n - ?P, kr_buf := kr_buf s + ?P,
        kt_render := RLoop\<rparr>"
    have run: "kt_run fuel [Renders, Renders] s = Some ?u"
      using less.prems 3 by (simp add: kt_render_step_def kt_write_def Let_def)
    have "kr_size ?u < ?n" using 3 less.prems(3) by simp
    from less.hyps [OF this] less.prems(2-4) 3 obtain k t where k:
      "kt_run fuel (replicate k Renders) ?u = Some t" "kt_render t = RTimed"
      "kt_written (kt_calls t) = kt_written (kt_calls ?u) @
        take (?n - ?P) (drop (kr_buf s + ?P) (src_bytes (kr_source s))) @ replicate (kt_silence ?P (?n - ?P)) 0"
      "kt_sys t = release_source (kr_source s) (kt_sys s)" by auto
    have "take ?n ?bs = take ?P ?bs @ take (?n - ?P) (drop (kr_buf s + ?P) (src_bytes (kr_source s)))"
      using 3(1) take_add [of ?P "?n - ?P" ?bs] by (simp add: add.commute)
    moreover have "kt_silence ?P ?n = kt_silence ?P (?n - ?P)"
      using 3(1) by (simp add: kt_silence_def le_mod_geq)
    moreover have "kt_run fuel (replicate (2 + k) Renders) s = Some t"
    proof -
      have "replicate (2 + k) Renders = [Renders, Renders] @ replicate k Renders" by (simp add: numeral_eq_Suc)
      then show ?thesis using run k(1) by (simp only: kt_run_append option.case)
    qed
    ultimately show ?thesis using k(2-4) by (intro exI [of _ "2 + k"] exI [of _ t]) simp
  qed
qed

lemma kt_started_played:
  assumes "kt_state s = RENDER_START" "kt_render s \<in> {RTop, RPick, RTimedOut}" "0 < kt_period s"
    "src_ptr (kt_source s) + info_doffset (kt_info s) \<noteq> 0"
    "unat (info_doffset (kt_info s)) + unat (info_size (kt_info s)) \<le> length (src_bytes (kt_source s))"
  shows "\<exists>k t. kt_run fuel (replicate k Renders) s = Some t \<and> kt_render t = RTimed \<and>
    kt_written (kt_calls t) = kt_written (kt_calls s) @
      take (unat (info_size (kt_info s))) (drop (unat (info_doffset (kt_info s))) (src_bytes (kt_source s))) @
      replicate (kt_silence (kt_period s) (unat (info_size (kt_info s)))) 0 \<and>
    kt_sys t = release_source (kt_source s) (kt_sys s)"
proof -
  have pick: "\<exists>k t. kt_run fuel (replicate k Renders) u = Some t \<and> kt_render t = RTimed \<and>
    kt_written (kt_calls t) = kt_written (kt_calls s) @
      take (unat (info_size (kt_info s))) (drop (unat (info_doffset (kt_info s))) (src_bytes (kt_source s))) @
      replicate (kt_silence (kt_period s) (unat (info_size (kt_info s)))) 0 \<and>
    kt_sys t = release_source (kt_source s) (kt_sys s)"
    if u: "kt_render_step u = Some (kt_pick s)" for u
  proof -
    from kt_rest_played [of "kt_pick s" fuel] assms obtain k t where
      "kt_run fuel (replicate k Renders) (kt_pick s) = Some t" "kt_render t = RTimed"
      "kt_written (kt_calls t) = kt_written (kt_calls s) @
        take (unat (info_size (kt_info s))) (drop (unat (info_doffset (kt_info s))) (src_bytes (kt_source s))) @
        replicate (kt_silence (kt_period s) (unat (info_size (kt_info s)))) 0"
      "kt_sys t = release_source (kt_source s) (kt_sys s)" by (auto simp: kt_pick_def)
    with u show ?thesis by (intro exI [of _ "Suc k"] exI [of _ t]) simp
  qed
  show ?thesis
  proof (cases "kt_render s = RTimedOut")
    case True
    with assms(1) have "kt_render_step s = Some (s\<lparr>kt_render := RTop\<rparr>)"
      by (simp add: kt_render_step_def kt_timed_out_def)
    moreover have "kt_render_step (s\<lparr>kt_render := RTop\<rparr>) = Some (kt_pick s)"
      using assms(1) by (simp add: kt_render_step_def kt_pick_def)
    ultimately show ?thesis
      using pick [of "s\<lparr>kt_render := RTop\<rparr>"] by (metis kt_run.simps(2) kt_step.simps(3) option.simps(5) replicate_Suc)
  next
    case False
    with assms(1,2) show ?thesis by (intro pick) (auto simp: kt_render_step_def)
  qed
qed

text \<open>A request for a WAVE file that can be opened and mapped.\<close>

definition plays_wave :: "nat \<Rightarrow> wave_desc \<Rightarrow> kt_req \<Rightarrow> bool" where
  "plays_wave fuel d q \<longleftrightarrow> (let E = kq_file q; f = kq_filename q in
     fe_open E \<noteq> -1 \<and> fe_fstat E \<and> fe_content E = wave_file d \<and> wave_wf d \<and> wave_fuel d \<le> fuel \<and>
     2 \<le> length f \<and> map lower_char (drop (length f - 2) f) \<noteq> ''dm'' \<and>
     fe_map E \<noteq> 0 \<and> fe_map E AND 0xFFF = 0 \<and> fe_map E + info_doffset (wave_info_of d) \<noteq> 0)"

text \<open>The period that is used for a sound: that of the open device, or of the one to be opened.\<close>

definition kt_period_for :: "kt_req \<Rightarrow> kt \<Rightarrow> nat" where
  "kt_period_for q s =
    (if kt_created s then kt_period s
     else case kq_device q of Some p \<Rightarrow> if p > MAX_BUFFER_SIZE then MAX_BUFFER_SIZE else p | None \<Rightarrow> 0)"

lemma kt_continue_wave:
  assumes "kt_inv s" "kt_state s \<noteq> RENDER_STOP" "kt_state s \<noteq> RENDER_STARTED" "plays_wave fuel d q"
    "MAP_FAILED \<notin> fst ` set (mappings (kt_sys s))" "kt_created s \<or> kq_device q \<noteq> None"
  shows "\<exists>t. kt_continue fuel q s = Some t \<and> kt_state t = RENDER_START \<and> kt_control t = CtlRead \<and>
    kt_render t \<in> {RTop, RPick, RTimedOut} \<and> kt_info t = wave_info_of d \<and>
    src_bytes (kt_source t) = wave_file d \<and> src_ptr (kt_source t) = fe_map (kq_file q) \<and>
    src_fd (kt_source t) = fe_open (kq_file q) \<and>
    open_fds (kt_sys t) = fe_open (kq_file q) # open_fds (kt_sys s) \<and>
    release_source (kt_source t) (kt_sys t) = kt_sys s \<and> kt_period t = kt_period_for q s \<and>
    kt_written (kt_calls t) = kt_written (kt_calls s) \<and> kt_created t \<and>
    (kt_render t = RTimedOut \<longrightarrow> kt_render s = RTimedOut) \<and>
    (\<exists>x. mappings (kt_sys t) = x # mappings (kt_sys s) \<and> fst x \<noteq> MAP_FAILED)"
proof -
  let ?E = "kq_file q"
  have q: "fe_open ?E \<noteq> -1" "fe_fstat ?E" "fe_content ?E = wave_file d" "wave_wf d" "wave_fuel d \<le> fuel"
    "2 \<le> length (kq_filename q)" "map lower_char (drop (length (kq_filename q) - 2) (kq_filename q)) \<noteq> ''dm''"
    "fe_map ?E \<noteq> 0" "fe_map ?E AND 0xFFF = 0"
    using assms(4) by (simp_all add: plays_wave_def Let_def)
  have map: "fe_map ?E \<noteq> MAP_FAILED" using q(9) by (auto simp: MAP_FAILED_def)
  obtain src sys where o: "mm_source_open_file ?E (Some (kq_filename q)) False (kt_source s) (kt_sys s)
      = Ok (MM_ERROR_NONE, src, sys)"
    "src_bytes src = wave_file d @ []" "cur_size src = of_nat (length (wave_file d))" "src_ptr src = fe_map ?E"
    "src_fd src = fe_open ?E" "open_fds sys = fe_open ?E # open_fds (kt_sys s)"
    "mappings sys = (fe_map ?E, of_nat (length (wave_file d))) # mappings (kt_sys s)"
    using q map by (auto simp: mm_source_open_file_def map_file_def Let_def)
  from open_file_frame [OF o(1) _ assms(5)] q(9) have rel: "release_source src sys = kt_sys s" by simp
  have p: "keytone_parse fuel src (kt_info s) = Ok (MM_ERROR_NONE, src, wave_info_of d)"
    using wave_parse_file [OF q(4,5) o(2,3)] by (simp add: keytone_parse_def)
  have places: "kt_render s \<in> kt_places (kt_state s)" using assms(1) by (simp add: kt_inv_def)
  have start: "kt_render (kt_start_sound u) \<in> {RTop, RPick, RTimedOut}"
    if "kt_render u = kt_render s" "kt_state u = kt_state s" for u
    using that places assms(2,3)
    by (cases "kt_state s") (auto simp: kt_places_def kt_start_sound_def kt_signal_render_def Let_def)
  have keep: "kt_state (kt_start_sound u) = RENDER_START" "kt_control (kt_start_sound u) = CtlRead"
    "kt_info (kt_start_sound u) = kt_info u" "kt_source (kt_start_sound u) = kt_source u"
    "kt_sys (kt_start_sound u) = kt_sys u" "kt_period (kt_start_sound u) = kt_period u"
    "kt_calls (kt_start_sound u) = kt_calls u" "kt_created (kt_start_sound u) = kt_created u" for u
    by (auto simp: kt_start_sound_def kt_signal_render_def Let_def split: kt_render.splits)
  have late: "kt_render (kt_start_sound u) = RTimedOut \<longleftrightarrow> kt_render u = RTimedOut" for u
    by (auto simp: kt_start_sound_def kt_signal_render_def Let_def split: kt_render.splits if_splits)
  show ?thesis
    using assms(6) o p rel map
    by (cases "kt_created s")
      (auto simp: kt_continue_def Let_def create_audio_handle_def keep kt_period_for_def start late
        simp del: insert_iff)
qed

lemma kt_inv_control:
  "kt_inv s \<Longrightarrow> kt_control s = CtlRead \<Longrightarrow> kt_state s \<noteq> RENDER_STOP"
  "kt_inv s \<Longrightarrow> kt_control s = CtlWoken q \<Longrightarrow> kt_state s \<noteq> RENDER_STOP \<and> kt_state s \<noteq> RENDER_STARTED"
  by (auto simp: kt_inv_def)

lemma kt_begin_plays:
  assumes "kt_inv s" "plays_wave fuel d q" "MAP_FAILED \<notin> fst ` set (mappings (kt_sys s))"
    "kt_created s \<or> kq_device q \<noteq> None"
    "a = Request q \<and> kt_control s = CtlRead \<and> kt_state s \<noteq> RENDER_STARTED \<or>
     a = ControlWakes \<and> kt_control s = CtlWoken q"
  shows "\<exists>u. kt_step fuel a s = Some u \<and> kt_inv u \<and> kt_state u = RENDER_START \<and> kt_control u = CtlRead \<and>
    kt_render u \<in> {RTop, RPick, RTimedOut} \<and> kt_info u = wave_info_of d \<and>
    src_bytes (kt_source u) = wave_file d \<and> src_ptr (kt_source u) = fe_map (kq_file q) \<and>
    open_fds (kt_sys u) = fe_open (kq_file q) # open_fds (kt_sys s) \<and>
    release_source (kt_source u) (kt_sys u) = kt_sys s \<and> kt_period u = kt_period_for q s \<and>
    kt_written (kt_calls u) = kt_written (kt_calls s) \<and> kt_created u \<and>
    (kt_render u = RTimedOut \<longrightarrow> kt_render s = RTimedOut) \<and>
    MAP_FAILED \<notin> fst ` set (mappings (kt_sys u))"
proof -
  let ?s = "if a = ControlWakes then s else s\<lparr>kt_vol_type := kq_vol_type q\<rparr>"
  have st: "kt_state s \<noteq> RENDER_STOP" "kt_state s \<noteq> RENDER_STARTED"
    using assms(5) kt_inv_control [OF assms(1)] by auto
  have step: "kt_step fuel a s = kt_continue fuel q ?s"
    using assms(5) st by (auto simp: kt_request_def Let_def)
  have "kt_inv ?s" using assms(1) by (simp add: kt_inv_vol)
  moreover have parts: "kt_state ?s = kt_state s" "kt_sys ?s = kt_sys s" "kt_created ?s = kt_created s"
    "kt_render ?s = kt_render s" "kt_calls ?s = kt_calls s" "kt_period_for q ?s = kt_period_for q s"
    by (simp_all add: kt_period_for_def)
  ultimately obtain u where
    "kt_continue fuel q ?s = Some u" "kt_state u = RENDER_START" "kt_control u = CtlRead"
    "kt_render u \<in> {RTop, RPick, RTimedOut}" "kt_info u = wave_info_of d"
    "src_bytes (kt_source u) = wave_file d" "src_ptr (kt_source u) = fe_map (kq_file q)"
    "open_fds (kt_sys u) = fe_open (kq_file q) # open_fds (kt_sys s)"
    "release_source (kt_source u) (kt_sys u) = kt_sys s" "kt_period u = kt_period_for q s"
    "kt_written (kt_calls u) = kt_written (kt_calls s)" "kt_created u"
    "kt_render u = RTimedOut \<longrightarrow> kt_render s = RTimedOut"
    "\<exists>x. mappings (kt_sys u) = x # mappings (kt_sys s) \<and> fst x \<noteq> MAP_FAILED"
    using kt_continue_wave [of ?s, OF _ _ _ assms(2), unfolded parts] st assms(3,4) by blast
  moreover from this(1) step have "kt_inv u" by (intro kt_step_inv [OF assms(1)]) simp
  ultimately show ?thesis using step assms(3) by auto
qed

lemma wave_samples:
  fixes src :: mm_source
  assumes "wave_wf d" "src_bytes src = wave_file d"
  shows "unat (info_doffset (wave_info_of d)) + unat (info_size (wave_info_of d)) \<le> length (src_bytes src)"
    and "unat (info_size (wave_info_of d)) = length (wd_data d)"
    and "take (unat (info_size (wave_info_of d))) (drop (unat (info_doffset (wave_info_of d))) (src_bytes src)) = wd_data d"
proof -
  have le: "length (wd_data d) \<le> length (wave_file d)" "length (wave_file d) < 2 ^ 32"
    using assms(1) by (simp_all add: wave_file_def wave_body_def wave_wf_def)
  then show n: "unat (info_size (wave_info_of d)) = length (wd_data d)"
    by (simp add: wave_info_of_def unat_small)
  have "unat (info_doffset (wave_info_of d)) = length (wave_file d) - length (wd_data d)"
    using le unat_small [of "length (wave_file d) - length (wd_data d)"]
    by (simp only: wave_info_of_def codec_info.simps)
  with n le assms(2) show "unat (info_doffset (wave_info_of d)) + unat (info_size (wave_info_of d)) \<le> length (src_bytes src)"
    by simp
  show "take (unat (info_size (wave_info_of d))) (drop (unat (info_doffset (wave_info_of d))) (src_bytes src)) = wd_data d"
    using wave_parse_file [OF assms(1), of "wave_fuel d" "src\<lparr>cur_size := of_nat (length (wave_file d))\<rparr>" "[]"] assms(2)
    by simp
qed

lemma kt_pending_played:
  assumes "kt_state u = RENDER_START" "kt_render u \<in> {RTop, RPick, RTimedOut}" "0 < kt_period u"
    "kt_info u = wave_info_of d" "src_bytes (kt_source u) = wave_file d" "wave_wf d"
    "src_ptr (kt_source u) + info_doffset (wave_info_of d) \<noteq> 0"
  shows "\<exists>k t. kt_run fuel (replicate k Renders) u = Some t \<and> kt_render t = RTimed \<and>
    kt_written (kt_calls t) = kt_written (kt_calls u) @ wd_data d @
      replicate (kt_silence (kt_period u) (length (wd_data d))) 0 \<and>
    kt_sys t = release_source (kt_source u) (kt_sys u)"
  using kt_started_played [OF assms(1-3), of fuel] wave_samples [OF assms(6,5)] assms(4,7) by simp

section \<open>The properties\<close>

definition ex_key :: "wave_desc \<Rightarrow> int \<Rightarrow> kt_req" where
  "ex_key d fd = \<lparr>kq_filename = ''key.wav'', kq_vol_type = 0,
     kq_file = (ex_file (wave_file d))\<lparr>fe_open := fd\<rparr>, kq_device = Some 4\<rparr>"

abbreviation ex_kt :: kt where
  "ex_kt \<equiv> kt_init (wave_info_of ex_wave) ex_sys"

lemma ex_kt_parts:
  "kt_reachable 3 (wave_info_of ex_wave) ex_sys ex_kt" "MAP_FAILED \<notin> fst ` set (mappings (kt_sys ex_kt))"
  "kt_control ex_kt = CtlRead" "kt_state ex_kt = RENDER_READY" "kt_render ex_kt = RNone"
  "kt_calls ex_kt = []" "kt_sys ex_kt = ex_sys" "\<not> kt_created ex_kt"
  by (simp_all add: kt_reachable.start) (simp_all add: kt_init_def ex_sys_def)

lemma ex_key_plays: "fd \<noteq> -1 \<Longrightarrow> plays_wave 3 ex_wave (ex_key ex_wave fd)"
proof -
  have "info_doffset (wave_info_of ex_wave) = 67"
    by (simp add: wave_info_of_def ex_wave_def wave_file_def wave_body_def format_body_def)
  then show "fd \<noteq> -1 \<Longrightarrow> plays_wave 3 ex_wave (ex_key ex_wave fd)"
    using ex_wave_wf
    by (simp add: plays_wave_def ex_key_def ex_file_def lower_char_def wave_fuel_def Let_def)
      (simp add: ex_wave_def)
qed

lemma ex_key_period: "kt_period_for (ex_key d fd) ex_kt = 4" "kq_device (ex_key d fd) \<noteq> None"
  by (simp_all add: kt_period_for_def ex_kt_parts(8) ex_key_def MAX_BUFFER_SIZE_def)

text \<open>A state in which a key tone is rendered.\<close>

lemma ex_kt_rendering:
  "\<exists>t. kt_run 3 [Request (ex_key ex_wave 5), Renders] ex_kt = Some t \<and> kt_state t = RENDER_STARTED \<and>
    kt_control t = CtlRead \<and> kt_render t = RLoop \<and> kt_created t"
proof -
  from kt_begin_plays [OF kt_reachable_inv [OF ex_kt_parts(1)] ex_key_plays [of 5] ex_kt_parts(2),
      of "Request (ex_key ex_wave 5)"] ex_kt_parts(3-5) ex_key_period(2)
  obtain u where u: "kt_step 3 (Request (ex_key ex_wave 5)) ex_kt = Some u" "kt_state u = RENDER_START"
    "kt_control u = CtlRead" "kt_render u \<in> {RTop, RPick, RTimedOut}" "kt_render u \<noteq> RTimedOut" "kt_created u"
    by auto
  then have "kt_render_step u = Some (kt_pick u)" by (auto simp: kt_render_step_def)
  with u show ?thesis by (simp add: kt_pick_def del: kt_step.simps(1))
qed



text \<open>
  C32: a control thread that waits for the end of a sound is woken after at most four steps of the render
  thread, in which at most one more period, or the end of the sound, is written, and the source of
  the sound has been given back.
\<close>

theorem key_tone_cut_short:
  assumes "kt_reachable fuel info sys s" "kt_control s = CtlWait q" "kt_render s = RWrite \<longrightarrow> kt_write s \<noteq> None"
  shows "\<exists>n t. n \<le> 4 \<and> kt_run fuel (replicate n Renders) s = Some t \<and> kt_control t = CtlWoken q \<and>
    kt_state t = RENDER_STOPED \<and> (\<exists>cs. kt_calls t = cs @ kt_calls s \<and> length cs \<le> 3) \<and>
    kt_sys t = release_source (kr_source s) (kt_sys s)"
proof -
  have inv: "kt_inv s" by (rule kt_reachable_inv [OF assms(1)])
  then have "kt_render s = RPost \<Longrightarrow> release_source (kr_source s) (kt_sys s) = kt_sys s"
    by (simp add: kt_inv_def zero_source_def release_source_def)
  with kt_waiting_step [OF inv assms(2,3), of fuel] show ?thesis by (metis (no_types, lifting))
qed

theorem key_tone_cut_short_witness:
  "\<exists>s n t q. kt_control s = CtlWait q \<and> n \<le> 4 \<and> kt_run 3 (replicate n Renders) s = Some t \<and> kt_control t = CtlWoken q"
proof -
  let ?q = "ex_key ex_wave 6"
  from ex_kt_rendering obtain t where t: "kt_run 3 [Request (ex_key ex_wave 5), Renders] ex_kt = Some t"
    "kt_state t = RENDER_STARTED" "kt_control t = CtlRead" "kt_render t = RLoop" by blast
  let ?s = "t\<lparr>kt_vol_type := kq_vol_type ?q, kt_state := RENDER_STOP, kt_control := CtlWait ?q\<rparr>"
  have "kt_step 3 (Request ?q) t = Some ?s" using t(2,3) by (simp add: kt_request_def Let_def)
  from kt_reachable.step [OF kt_run_reachable [OF ex_kt_parts(1) t(1)] this] have
    r: "kt_reachable 3 (wave_info_of ex_wave) ex_sys ?s" .
  from key_tone_cut_short [OF r, of ?q] t(4) obtain n u where "n \<le> 4"
    "kt_run 3 (replicate n Renders) ?s = Some u" "kt_control u = CtlWoken ?q" by auto
  moreover have "kt_control ?s = CtlWait ?q" by simp
  ultimately show ?thesis by blast
qed

text \<open>
  A request for a WAVE file, or one that waited for the end of another sound, has the samples of the
  file written to the device, followed by the rest of the last period and two periods of silence when
  they do not fill their periods; descriptor and mapping are then given back.
\<close>

lemma key_tone_played:
  assumes "kt_reachable fuel info sys s" "plays_wave fuel d q" "MAP_FAILED \<notin> fst ` set (mappings (kt_sys s))"
    "kt_created s \<or> kq_device q \<noteq> None" "0 < kt_period_for q s"
    "a = Request q \<and> kt_control s = CtlRead \<and> kt_state s \<noteq> RENDER_STARTED \<or>
     a = ControlWakes \<and> kt_control s = CtlWoken q"
  shows "\<exists>k t. kt_run fuel (a # replicate k Renders) s = Some t \<and>
    kt_written (kt_calls t) = kt_written (kt_calls s) @ wd_data d @
      replicate (kt_silence (kt_period_for q s) (length (wd_data d))) 0 \<and> kt_sys t = kt_sys s"
proof -
  from kt_begin_plays [OF kt_reachable_inv [OF assms(1)] assms(2-4,6)] obtain u where u:
    "kt_step fuel a s = Some u" "kt_state u = RENDER_START" "kt_render u \<in> {RTop, RPick, RTimedOut}"
    "kt_info u = wave_info_of d" "src_bytes (kt_source u) = wave_file d" "src_ptr (kt_source u) = fe_map (kq_file q)"
    "release_source (kt_source u) (kt_sys u) = kt_sys s" "kt_period u = kt_period_for q s"
    "kt_written (kt_calls u) = kt_written (kt_calls s)" by blast
  have "wave_wf d" "src_ptr (kt_source u) + info_doffset (wave_info_of d) \<noteq> 0"
    using assms(2) u(6) by (simp_all add: plays_wave_def Let_def)
  from kt_pending_played [OF u(2,3) _ u(4,5) this, of fuel, unfolded u(7-9)] assms(5) obtain k t where
    "kt_run fuel (replicate k Renders) u = Some t \<and> kt_written (kt_calls t) = kt_written (kt_calls s) @
      wd_data d @ replicate (kt_silence (kt_period_for q s) (length (wd_data d))) 0 \<and> kt_sys t = kt_sys s" by blast
  moreover from this u(1) have "kt_run fuel (a # replicate k Renders) s = Some t" by simp
  ultimately show ?thesis by blast
qed

text \<open>
  C33: of two key tones that come before the render thread has looked, only the second is written, and
  the descriptor of the first stays open.
\<close>

theorem key_tone_replaced:
  assumes "kt_reachable fuel info sys s" "kt_control s = CtlRead" "kt_state s \<noteq> RENDER_STARTED"
    "plays_wave fuel d1 q1" "plays_wave fuel d2 q2" "MAP_FAILED \<notin> fst ` set (mappings (kt_sys s))"
    "kt_created s \<or> kq_device q1 \<noteq> None" "0 < kt_period_for q1 s"
  shows "\<exists>k t. kt_run fuel (Request q1 # Request q2 # replicate k Renders) s = Some t \<and>
    kt_written (kt_calls t) = kt_written (kt_calls s) @ wd_data d2 @
      replicate (kt_silence (kt_period_for q1 s) (length (wd_data d2))) 0 \<and>
    open_fds (kt_sys t) = fe_open (kq_file q1) # open_fds (kt_sys s)"
proof -
  from kt_begin_plays [OF kt_reachable_inv [OF assms(1)] assms(4,6,7), of "Request q1"] assms(2,3) obtain u where u:
    "kt_step fuel (Request q1) s = Some u" "kt_inv u" "kt_state u = RENDER_START" "kt_control u = CtlRead"
    "open_fds (kt_sys u) = fe_open (kq_file q1) # open_fds (kt_sys s)" "kt_period u = kt_period_for q1 s"
    "kt_written (kt_calls u) = kt_written (kt_calls s)" "kt_created u"
    "MAP_FAILED \<notin> fst ` set (mappings (kt_sys u))" by blast
  from kt_begin_plays [OF u(2) assms(5) u(9), of "Request q2"] u(3,4,8) obtain v where v:
    "kt_step fuel (Request q2) u = Some v" "kt_state v = RENDER_START" "kt_render v \<in> {RTop, RPick, RTimedOut}"
    "kt_info v = wave_info_of d2" "src_bytes (kt_source v) = wave_file d2" "src_ptr (kt_source v) = fe_map (kq_file q2)"
    "release_source (kt_source v) (kt_sys v) = kt_sys u" "kt_period v = kt_period_for q2 u"
    "kt_written (kt_calls v) = kt_written (kt_calls u)" by auto
  have "wave_wf d2" "src_ptr (kt_source v) + info_doffset (wave_info_of d2) \<noteq> 0" "kt_period v = kt_period_for q1 s"
    using assms(5) v(6,8) u(6,8) by (simp_all add: plays_wave_def Let_def kt_period_for_def)
  then obtain k t where "kt_run fuel (replicate k Renders) v = Some t \<and>
      kt_written (kt_calls t) = kt_written (kt_calls s) @ wd_data d2 @
        replicate (kt_silence (kt_period_for q1 s) (length (wd_data d2))) 0 \<and> kt_sys t = kt_sys u"
    using kt_pending_played [OF v(2,3) _ v(4,5), of fuel, unfolded v(7,9) u(7)] assms(8) by metis
  moreover from this u(1) v(1) have "kt_run fuel (Request q1 # Request q2 # replicate k Renders) s = Some t"
    by (simp del: kt_step.simps)
  ultimately show ?thesis using u(5) by metis
qed

theorem key_tone_replaced_witness:
  "\<exists>k t. kt_run 3 (Request (ex_key ex_wave 5) # Request (ex_key ex_wave 6) # replicate k Renders) ex_kt = Some t \<and>
    kt_written (kt_calls t) = [10, 20, 30, 40, 50] @ replicate 11 0 \<and> open_fds (kt_sys t) = [5, 0, 1, 2]"
proof -
  have "kt_silence 4 (length (wd_data ex_wave)) = 11" "wd_data ex_wave = [10, 20, 30, 40, 50]"
    by (simp_all add: kt_silence_def ex_wave_def)
  then show ?thesis
    using key_tone_replaced [OF ex_kt_parts(1,3) _ ex_key_plays [of 5] ex_key_plays [of 6] ex_kt_parts(2)]
      ex_key_period [of ex_wave 5] ex_kt_parts(3,4,6,7)
    by (simp add: ex_key_def ex_sys_def)
qed

end
