(* ===== verification/Plugin_Loader.thy ===== *)
theory Plugin_Loader
  imports Plugins
begin

text \<open>
  Loading the plugins (\<^verbatim>\<open>server/mm_sound_plugin.c\<close>), the plugins that run by themselves
  (\<^verbatim>\<open>server/mm_sound_mgr_run.c\<close>), and the part of the codec manager that loads and unloads the codecs.
  The answers of the file system, of the dynamic linker and of the plugins themselves are parameters;
  there is no result where the code leaves an array or follows a pointer that is not valid.
\<close>

definition MM_SOUND_PLUGIN_TYPE_NONE :: int where "MM_SOUND_PLUGIN_TYPE_NONE = 0"
definition MM_SOUND_PLUGIN_TYPE_CODEC :: int where "MM_SOUND_PLUGIN_TYPE_CODEC = 1"
definition MM_SOUND_PLUGIN_TYPE_RUN :: int where "MM_SOUND_PLUGIN_TYPE_RUN = 2"
definition MM_SOUND_PLUGIN_TYPE_LAST :: int where "MM_SOUND_PLUGIN_TYPE_LAST = 3"

lemmas plugin_types = MM_SOUND_PLUGIN_TYPE_NONE_def MM_SOUND_PLUGIN_TYPE_CODEC_def MM_SOUND_PLUGIN_TYPE_RUN_def
  MM_SOUND_PLUGIN_TYPE_LAST_def

definition MMSoundPluginGetTypeName :: "int \<Rightarrow> string" where
  "MMSoundPluginGetTypeName t =
    (if t < MM_SOUND_PLUGIN_TYPE_LAST \<and> t > -1 then [''ERROR'', ''SOUND'', ''RUN''] ! nat t else ''Unknown'')"

record sound_plugin =
  sp_type :: int
  sp_module :: "nat option"

definition end_mark :: sound_plugin where
  "end_mark = \<lparr>sp_type = MM_SOUND_PLUGIN_TYPE_NONE, sp_module = None\<rparr>"

text \<open>The array of \<^verbatim>\<open>MMSoundPluginScan\<close>.\<close>

definition PLUGIN_ARRAY :: nat where "PLUGIN_ARRAY = 100"

datatype file_kind = Regular_File | Other_File

text \<open>The answers of \<^verbatim>\<open>scandir\<close> (sorted by name), \<^verbatim>\<open>chdir\<close>, \<^verbatim>\<open>stat\<close>, \<^verbatim>\<open>dlopen\<close> (all in a working directory),
  whether there is memory and \<^verbatim>\<open>getcwd\<close> succeeds, and the answer of the module to
  \<^verbatim>\<open>MMSoundGetPluginType\<close>.\<close>

record loader =
  ld_scandir :: "string \<Rightarrow> string \<Rightarrow> string list option"
  ld_chdir :: "string \<Rightarrow> string \<Rightarrow> string option"
  ld_stat :: "string \<Rightarrow> string \<Rightarrow> file_kind option"
  ld_dlopen :: "string \<Rightarrow> string \<Rightarrow> nat option"
  ld_type :: "nat \<Rightarrow> int option"
  ld_list_memory :: bool
  ld_getcwd :: bool
  ld_name_memory :: "string \<Rightarrow> bool"
  ld_array_memory :: bool

text \<open>The process: its working directory and the modules it has open, each as often as it was opened.\<close>

record modules =
  md_cwd :: string
  md_open :: "nat list"

definition dlclose :: "nat \<Rightarrow> modules \<Rightarrow> modules" where
  "dlclose h s = s\<lparr>md_open := remove1 h (md_open s)\<rparr>"

section \<open>The names of the files\<close>

definition strcatdup :: "loader \<Rightarrow> string \<Rightarrow> string \<Rightarrow> string option" where
  "strcatdup L a b = (if ld_name_memory L (a @ b) then Some (a @ b) else None)"

fun list_entries :: "loader \<Rightarrow> string \<Rightarrow> string \<Rightarrow> string list \<Rightarrow> string option list \<Rightarrow> string option list option" where
  "list_entries L cwd dir [] temp = Some temp"
| "list_entries L cwd dir (n # ns) temp =
    (case ld_stat L cwd n of
       None \<Rightarrow> None
     | Some Regular_File \<Rightarrow> list_entries L cwd dir ns (temp @ [strcatdup L dir n])
     | Some Other_File \<Rightarrow> list_entries L cwd dir ns temp)"

definition MMSoundPluginGetList :: "loader \<Rightarrow> string \<Rightarrow> modules \<Rightarrow> (mm_err + string option list) \<times> modules" where
  "MMSoundPluginGetList L dir s =
    (case ld_scandir L (md_cwd s) dir of
       None \<Rightarrow> (Inl MM_ERROR_INVALID_ARGUMENT, s)
     | Some entry \<Rightarrow>
         if \<not> ld_list_memory L then (Inl MM_ERROR_OUT_OF_MEMORY, s)
         else if \<not> ld_getcwd L then (Inl MM_ERROR_OUT_OF_STORAGE, s)
         else
           (let s1 = (case ld_chdir L (md_cwd s) dir of None \<Rightarrow> s | Some c \<Rightarrow> s\<lparr>md_cwd := c\<rparr>) in
            case list_entries L (md_cwd s1) dir (rev entry) [] of
              None \<Rightarrow> (Inl MM_ERROR_INVALID_ARGUMENT, s1)
            | Some temp \<Rightarrow> (Inr temp, s1)))"

section \<open>Modules\<close>

definition MMSoundPluginOpen :: "loader \<Rightarrow> string \<Rightarrow> modules \<Rightarrow> (mm_err + sound_plugin) \<times> modules" where
  "MMSoundPluginOpen L path s =
    (case ld_dlopen L (md_cwd s) path of
       None \<Rightarrow> (Inl MM_ERROR_SOUND_INVALID_FILE, s)
     | Some pdll \<Rightarrow>
         (let s1 = s\<lparr>md_open := pdll # md_open s\<rparr> in
          case ld_type L pdll of
            None \<Rightarrow> (Inl MM_ERROR_SOUND_INVALID_FILE, dlclose pdll s1)
          | Some t \<Rightarrow>
              if t = MM_SOUND_PLUGIN_TYPE_CODEC \<or> t = MM_SOUND_PLUGIN_TYPE_RUN
              then (Inr \<lparr>sp_type = t, sp_module = Some pdll\<rparr>, s1)
              else (Inl MM_ERROR_SOUND_INVALID_FILE, dlclose pdll s1)))"

definition MMSoundPluginClose :: "sound_plugin \<Rightarrow> modules \<Rightarrow> sound_plugin \<times> modules" where
  "MMSoundPluginClose p s =
    (end_mark, case sp_module p of None \<Rightarrow> s | Some h \<Rightarrow> dlclose h s)"

text \<open>The symbol is given as what \<^verbatim>\<open>dlsym\<close> answers for it in each module.\<close>

definition MMSoundPluginGetSymbol :: "sound_plugin \<Rightarrow> (nat \<Rightarrow> 'f option) \<Rightarrow> mm_err + 'f" where
  "MMSoundPluginGetSymbol p symbol =
    (case sp_module p of
       None \<Rightarrow> Inl MM_ERROR_SOUND_INVALID_FILE
     | Some h \<Rightarrow> (case symbol h of None \<Rightarrow> Inl MM_ERROR_SOUND_INVALID_FILE | Some fn \<Rightarrow> Inr fn))"

section \<open>Scanning\<close>

fun scan_items ::
  "loader \<Rightarrow> int \<Rightarrow> string option list \<Rightarrow> sound_plugin list \<Rightarrow> modules \<Rightarrow> (sound_plugin list \<times> modules) option" where
  "scan_items L type [] ps s = Some (ps, s)"
| "scan_items L type (None # items) ps s = Some (ps, s)"
| "scan_items L type (Some item # items) ps s =
    (case MMSoundPluginOpen L item s of
       (Inl e, s1) \<Rightarrow> scan_items L type items ps s1
     | (Inr p, s1) \<Rightarrow>
         if length ps \<ge> PLUGIN_ARRAY then None
         else if sp_type p \<noteq> type then scan_items L type items ps (snd (MMSoundPluginClose p s1))
         else scan_items L type items (ps @ [p]) s1)"

text \<open>The copy takes one element more than were found; without memory the pointer is 1.\<close>

definition MMSoundPluginScan ::
  "loader \<Rightarrow> string \<Rightarrow> int \<Rightarrow> modules \<Rightarrow> ((mm_err + sound_plugin list) \<times> modules) option" where
  "MMSoundPluginScan L plugindir type s =
    (case MMSoundPluginGetList L plugindir s of
       (Inl e, s1) \<Rightarrow> Some (Inl e, s1)
     | (Inr list, s1) \<Rightarrow>
         (case scan_items L type list [] s1 of
            None \<Rightarrow> None
          | Some (ps, s2) \<Rightarrow>
              if length ps \<ge> PLUGIN_ARRAY \<or> \<not> ld_array_memory L then None
              else Some (Inr (ps @ [end_mark]), s2)))"

fun MMSoundPluginRelease :: "sound_plugin list \<Rightarrow> modules \<Rightarrow> modules option" where
  "MMSoundPluginRelease [] s = None"
| "MMSoundPluginRelease (p # ps) s =
    (if sp_type p \<noteq> MM_SOUND_PLUGIN_TYPE_NONE then MMSoundPluginRelease ps (snd (MMSoundPluginClose p s))
     else Some s)"

section \<open>The plugin lists of the server\<close>

text \<open>The lists are behind pointers, which are null at first.\<close>

record 'w server_plugins =
  sv_modules :: modules
  g_run_plugins :: "sound_plugin list option"
  g_codec_plugins :: "sound_plugin list option"
  sv_codec :: "'w codec"

text \<open>The plugins of a list up to its end; leaving the array has no result.\<close>

fun plugins_until_end :: "sound_plugin list \<Rightarrow> sound_plugin list option" where
  "plugins_until_end [] = None"
| "plugins_until_end (p # ps) =
    (if sp_type p \<noteq> MM_SOUND_PLUGIN_TYPE_NONE then map_option ((#) p) (plugins_until_end ps) else Some [])"

text \<open>The interface a codec gives: the function is looked up and asked; an error clears the entry.\<close>

definition codec_of ::
  "(nat \<Rightarrow> (mm_err \<times> 'w codec_interface) option) \<Rightarrow> sound_plugin \<Rightarrow> 'w codec_interface option" where
  "codec_of getinterface p =
    (case MMSoundPluginGetSymbol p getinterface of
       Inl e \<Rightarrow> None
     | Inr (e, intf) \<Rightarrow> if e \<noteq> MM_ERROR_NONE then None else Some intf)"

definition MMSoundMgrCodecInit ::
  "loader \<Rightarrow> (nat \<Rightarrow> (mm_err \<times> 'w codec_interface) option) \<Rightarrow> string \<Rightarrow> 'w server_plugins \<Rightarrow>
    'w server_plugins option" where
  "MMSoundMgrCodecInit L getinterface targetdir s =
    (let c = (sv_codec s)\<lparr>slots := replicate MANAGER_HANDLE_MAX (zero_slot\<lparr>sl_plughandle := -1\<rparr>)\<rparr> in
     case (case g_codec_plugins s of None \<Rightarrow> Some (sv_modules s) | Some ps \<Rightarrow> MMSoundPluginRelease ps (sv_modules s)) of
       None \<Rightarrow> None
     | Some m \<Rightarrow>
         (case MMSoundPluginScan L targetdir MM_SOUND_PLUGIN_TYPE_CODEC m of
            Some (Inr list, m1) \<Rightarrow>
              (case plugins_until_end list of
                 None \<Rightarrow> None
               | Some ps \<Rightarrow>
                   Some (s\<lparr>sv_modules := m1, g_codec_plugins := Some list,
                     sv_codec := c\<lparr>plugins := fold (\<lambda>p qs. register_interface qs (codec_of getinterface p)) ps (plugins c)\<rparr>\<rparr>))
          | _ \<Rightarrow> None))"

definition MMSoundMgrCodecFini :: "'w server_plugins \<Rightarrow> 'w server_plugins option" where
  "MMSoundMgrCodecFini s =
    (case g_codec_plugins s of
       None \<Rightarrow> None
     | Some ps \<Rightarrow>
         (case MMSoundPluginRelease ps (sv_modules s) of
            None \<Rightarrow> None
          | Some m \<Rightarrow> Some (s\<lparr>sv_modules := m, g_codec_plugins := None, sv_codec := codec_fini (sv_codec s)\<rparr>)))"

section \<open>Plugins that run by themselves\<close>

definition MMSoundMgrRunInit :: "loader \<Rightarrow> string \<Rightarrow> 'w server_plugins \<Rightarrow> (mm_err \<times> 'w server_plugins) option" where
  "MMSoundMgrRunInit L targetdir s =
    (if g_run_plugins s \<noteq> None then Some (MM_ERROR_SOUND_INTERNAL, s)
     else
       (case MMSoundPluginScan L targetdir MM_SOUND_PLUGIN_TYPE_RUN (sv_modules s) of
          None \<Rightarrow> None
        | Some (Inl e, m) \<Rightarrow> Some (MM_ERROR_NONE, s\<lparr>sv_modules := m\<rparr>)
        | Some (Inr list, m) \<Rightarrow> Some (MM_ERROR_NONE, s\<lparr>sv_modules := m, g_run_plugins := Some list\<rparr>)))"

definition MMSoundMgrRunFini :: "'w server_plugins \<Rightarrow> 'w server_plugins option" where
  "MMSoundMgrRunFini s =
    (case g_run_plugins s of
       None \<Rightarrow> None
     | Some ps \<Rightarrow>
         (case MMSoundPluginRelease ps (sv_modules s) of
            None \<Rightarrow> None
          | Some m \<Rightarrow> Some (s\<lparr>sv_modules := m, g_run_plugins := None\<rparr>)))"

text \<open>The jobs given to the thread pool: the indices of the plugins.\<close>

definition MMSoundMgrRunRunAll :: "'w server_plugins \<Rightarrow> nat list option" where
  "MMSoundMgrRunRunAll s =
    (case g_run_plugins s of
       None \<Rightarrow> None
     | Some list \<Rightarrow> map_option (\<lambda>ps. [0..<length ps]) (plugins_until_end list))"

text \<open>The interface of such a plugin, by the module it comes from, and the calls made through it.\<close>

record run_interface =
  run_module :: nat
  run_SetThreadPool :: bool

datatype run_call = SetThreadPool nat | RunPlugin nat | StopPlugin nat

text \<open>One job.  The failures are only logged: without a symbol a null pointer is called, and after an
  error an interface that was not set is used.\<close>

definition MMSoundMgrRunRunInternal ::
  "(nat \<Rightarrow> (mm_err \<times> run_interface) option) \<Rightarrow> 'w server_plugins \<Rightarrow> nat \<Rightarrow> run_call list option" where
  "MMSoundMgrRunRunInternal getinterface s i =
    (case g_run_plugins s of
       None \<Rightarrow> None
     | Some list \<Rightarrow>
         if i \<ge> length list then None
         else
           (case MMSoundPluginGetSymbol (list ! i) getinterface of
              Inl e \<Rightarrow> None
            | Inr (e, intface) \<Rightarrow>
                if e \<noteq> MM_ERROR_NONE then None
                else Some ((if run_SetThreadPool intface then [SetThreadPool (run_module intface)] else [])
                  @ [RunPlugin (run_module intface)])))"

text \<open>Stopping keeps the function and the interface of the plugin before where a plugin gives none.\<close>

fun stop_plugins ::
  "(nat \<Rightarrow> (mm_err \<times> run_interface) option) \<Rightarrow> sound_plugin list \<Rightarrow> (mm_err \<times> run_interface) option \<Rightarrow>
    run_interface option \<Rightarrow> run_call list option" where
  "stop_plugins getinterface [] func intface = Some []"
| "stop_plugins getinterface (p # ps) func intface =
    (let func' = (case MMSoundPluginGetSymbol p getinterface of Inl e \<Rightarrow> func | Inr f \<Rightarrow> Some f) in
     case func' of
       None \<Rightarrow> None
     | Some (e, i) \<Rightarrow>
         (let intface' = (if e = MM_ERROR_NONE then Some i else intface) in
          case intface' of
            None \<Rightarrow> None
          | Some j \<Rightarrow> map_option ((#) (StopPlugin (run_module j))) (stop_plugins getinterface ps func' intface')))"

definition MMSoundMgrRunStopAll ::
  "(nat \<Rightarrow> (mm_err \<times> run_interface) option) \<Rightarrow> 'w server_plugins \<Rightarrow> run_call list option" where
  "MMSoundMgrRunStopAll getinterface s =
    (case g_run_plugins s of
       None \<Rightarrow> None
     | Some list \<Rightarrow>
         (case plugins_until_end list of None \<Rightarrow> None | Some ps \<Rightarrow> stop_plugins getinterface ps None None))"

section \<open>Loading and unloading by the server\<close>

definition PLUGIN_DIR :: string where "PLUGIN_DIR = ''/usr/lib/soundplugins/''"

definition server_load ::
  "loader \<Rightarrow> (nat \<Rightarrow> (mm_err \<times> 'w codec_interface) option) \<Rightarrow> string \<Rightarrow> 'w server_plugins \<Rightarrow> 'w server_plugins option" where
  "server_load L getinterface plugdir s =
    (case MMSoundMgrRunInit L plugdir s of
       None \<Rightarrow> None
     | Some (_, s1) \<Rightarrow> MMSoundMgrCodecInit L getinterface plugdir s1)"

definition server_unload :: "'w server_plugins \<Rightarrow> 'w server_plugins option" where
  "server_unload s = (case MMSoundMgrCodecFini s of None \<Rightarrow> None | Some s1 \<Rightarrow> MMSoundMgrRunFini s1)"

end
