(* ===== verification/Plugin_Loader_Props.thy ===== *)
theory Plugin_Loader_Props
  imports Plugin_Loader Ipc_Facts "HOL-Library.Multiset"
begin

text \<open>
  What a scan of the plugin directory finds and leaves open, that unloading closes exactly what was
  loaded, and which plugins the server has after its start.
\<close>

section \<open>Scanning\<close>

text \<open>What a file is found to be: the type it names, if it is one of the two known, and its module.\<close>

definition sound_module :: "loader \<Rightarrow> string \<Rightarrow> string \<Rightarrow> (int \<times> nat) option" where
  "sound_module L cwd path =
    (case ld_dlopen L cwd path of
       None \<Rightarrow> None
     | Some h \<Rightarrow>
         (case ld_type L h of
            None \<Rightarrow> None
          | Some t \<Rightarrow>
              if t = MM_SOUND_PLUGIN_TYPE_CODEC \<or> t = MM_SOUND_PLUGIN_TYPE_RUN then Some (t, h) else None))"

definition modules_of :: "loader \<Rightarrow> string \<Rightarrow> int \<Rightarrow> string list \<Rightarrow> nat list" where
  "modules_of L cwd type paths = map snd (filter (\<lambda>(t, h). t = type) (List.map_filter (sound_module L cwd) paths))"

lemma modules_of_simps:
  "modules_of L cwd type [] = []"
  "modules_of L cwd type (p # ps) =
    (case sound_module L cwd p of
       Some (t, h) \<Rightarrow> (if t = type then [h] else []) @ modules_of L cwd type ps
     | None \<Rightarrow> modules_of L cwd type ps)"
  by (auto simp: modules_of_def List.map_filter_simps split: option.split)

lemma plugin_open:
  "MMSoundPluginOpen L path s =
    (case sound_module L (md_cwd s) path of
       None \<Rightarrow> (Inl MM_ERROR_SOUND_INVALID_FILE, s)
     | Some (t, h) \<Rightarrow> (Inr \<lparr>sp_type = t, sp_module = Some h\<rparr>, s\<lparr>md_open := h # md_open s\<rparr>))"
  by (simp add: MMSoundPluginOpen_def sound_module_def dlclose_def Let_def split: option.split)

lemma scan_items_found:
  "length ps + length (modules_of L (md_cwd s) type paths) < PLUGIN_ARRAY \<Longrightarrow>
    scan_items L type (map Some paths) ps s =
      Some (ps @ map (\<lambda>h. \<lparr>sp_type = type, sp_module = Some h\<rparr>) (modules_of L (md_cwd s) type paths),
        s\<lparr>md_open := rev (modules_of L (md_cwd s) type paths) @ md_open s\<rparr>)"
proof (induction paths arbitrary: ps s)
  case (Cons p paths)
  show ?case
  proof (cases "sound_module L (md_cwd s) p")
    case None
    with Cons show ?thesis by (simp add: plugin_open modules_of_simps)
  next
    case (Some th)
    obtain t h where th: "th = (t, h)" by (cases th)
    show ?thesis
    proof (cases "t = type")
      case True
      have "length (ps @ [\<lparr>sp_type = type, sp_module = Some h\<rparr>]) +
          length (modules_of L (md_cwd (s\<lparr>md_open := h # md_open s\<rparr>)) type paths) < PLUGIN_ARRAY"
        using Cons.prems True by (simp add: Some th modules_of_simps)
      from Cons.IH [OF this] True Cons.prems show ?thesis by (simp add: Some th plugin_open modules_of_simps)
    next
      case False
      with Cons show ?thesis
        by (simp add: Some th plugin_open modules_of_simps MMSoundPluginClose_def dlclose_def)
    qed
  qed
qed (simp add: modules_of_simps)

lemma scan_items_full:
  "length ps + length (modules_of L (md_cwd s) type paths) \<ge> PLUGIN_ARRAY \<Longrightarrow>
    scan_items L type (map Some paths) ps s = Some (qs, t) \<Longrightarrow> length qs \<ge> PLUGIN_ARRAY"
proof (induction paths arbitrary: ps s)
  case (Cons p paths)
  show ?case
  proof (cases "sound_module L (md_cwd s) p")
    case None
    with Cons.prems show ?thesis by (intro Cons.IH [of ps s]) (simp_all add: plugin_open modules_of_simps)
  next
    case (Some th)
    obtain ty h where th: "th = (ty, h)" by (cases th)
    show ?thesis
    proof (cases "ty = type")
      case True
      with Cons.prems show ?thesis
        by (intro Cons.IH [of "ps @ [\<lparr>sp_type = type, sp_module = Some h\<rparr>]" "s\<lparr>md_open := h # md_open s\<rparr>"])
          (simp_all add: Some th plugin_open modules_of_simps split: if_splits)
    next
      case False
      with Cons.prems show ?thesis
        by (intro Cons.IH [of ps s])
          (simp_all add: Some th plugin_open modules_of_simps MMSoundPluginClose_def dlclose_def split: if_splits)
    qed
  qed
qed (simp add: modules_of_simps)

text \<open>A directory whose entries are \<^term>\<open>es\<close>, given by an absolute name, of a system that has memory.\<close>

definition scannable :: "loader \<Rightarrow> string \<Rightarrow> string \<Rightarrow> string list \<Rightarrow> bool" where
  "scannable L dir c es \<longleftrightarrow>
    (\<forall>cwd. ld_scandir L cwd dir = Some es) \<and> (\<forall>cwd. ld_chdir L cwd dir = Some c) \<and>
    ld_list_memory L \<and> ld_getcwd L \<and> ld_array_memory L \<and>
    (\<forall>n \<in> set es. ld_stat L c n \<noteq> None \<and> ld_name_memory L (dir @ n))"

text \<open>The files of a directory, in the order of the scan, which is the reverse of the alphabet.\<close>

definition scanned_paths :: "loader \<Rightarrow> string \<Rightarrow> string \<Rightarrow> string list \<Rightarrow> string list" where
  "scanned_paths L dir c es = map ((@) dir) (filter (\<lambda>n. ld_stat L c n = Some Regular_File) (rev es))"

lemma list_entries_found:
  "\<forall>n \<in> set ns. ld_stat L c n \<noteq> None \<and> ld_name_memory L (dir @ n) \<Longrightarrow>
    list_entries L c dir ns temp =
      Some (temp @ map (\<lambda>n. Some (dir @ n)) (filter (\<lambda>n. ld_stat L c n = Some Regular_File) ns))"
proof (induction ns arbitrary: temp)
  case (Cons n ns)
  then obtain k where "ld_stat L c n = Some k" by auto
  with Cons show ?case by (cases k) (simp_all add: strcatdup_def)
qed simp

lemma get_list_found:
  "scannable L dir c es \<Longrightarrow>
    MMSoundPluginGetList L dir s = (Inr (map Some (scanned_paths L dir c es)), s\<lparr>md_cwd := c\<rparr>)"
  by (simp add: MMSoundPluginGetList_def scannable_def Let_def list_entries_found scanned_paths_def comp_def)

abbreviation "found_modules L dir c es type \<equiv> modules_of L c type (scanned_paths L dir c es)"

abbreviation "plugin_array type hs \<equiv> map (\<lambda>h. \<lparr>sp_type = type, sp_module = Some h\<rparr>) hs @ [end_mark]"

lemma scan_found:
  assumes "scannable L dir c es" "length (found_modules L dir c es type) < PLUGIN_ARRAY"
  shows "MMSoundPluginScan L dir type s =
    Some (Inr (plugin_array type (found_modules L dir c es type)),
      s\<lparr>md_cwd := c, md_open := rev (found_modules L dir c es type) @ md_open s\<rparr>)"
  using scan_items_found [of "[]" L "s\<lparr>md_cwd := c\<rparr>" type "scanned_paths L dir c es"] assms
  by (simp add: MMSoundPluginScan_def get_list_found [OF assms(1)] scannable_def)

lemma scan_full:
  assumes "scannable L dir c es" "length (found_modules L dir c es type) \<ge> PLUGIN_ARRAY"
  shows "MMSoundPluginScan L dir type s = None"
  using scan_items_full [of "[]" L "s\<lparr>md_cwd := c\<rparr>" type "scanned_paths L dir c es"] assms
  by (auto simp: MMSoundPluginScan_def get_list_found [OF assms(1)] split: option.split)

section \<open>Releasing\<close>

lemma release_array:
  "type \<noteq> MM_SOUND_PLUGIN_TYPE_NONE \<Longrightarrow>
    MMSoundPluginRelease (plugin_array type hs) s = Some (s\<lparr>md_open := fold remove1 hs (md_open s)\<rparr>)"
proof (induction hs arbitrary: s)
  case Nil
  then show ?case by (cases s) (simp add: end_mark_def)
qed (simp add: MMSoundPluginClose_def dlclose_def)

lemma mset_fold_remove1 [simp]: "mset (fold remove1 hs xs) = mset xs - mset hs"
  by (induction hs arbitrary: xs) auto

lemma until_end_array:
  "type \<noteq> MM_SOUND_PLUGIN_TYPE_NONE \<Longrightarrow>
    plugins_until_end (plugin_array type hs) = Some (map (\<lambda>h. \<lparr>sp_type = type, sp_module = Some h\<rparr>) hs)"
  by (induction hs) (simp_all add: end_mark_def)

section \<open>Starting and stopping the server\<close>

lemma run_init:
  assumes "scannable L dir c es" "length (found_modules L dir c es MM_SOUND_PLUGIN_TYPE_RUN) < PLUGIN_ARRAY"
    "g_run_plugins s = None"
  shows "MMSoundMgrRunInit L dir s =
    Some (MM_ERROR_NONE, s\<lparr>sv_modules := (sv_modules s)\<lparr>md_cwd := c, md_open :=
        rev (found_modules L dir c es MM_SOUND_PLUGIN_TYPE_RUN) @ md_open (sv_modules s)\<rparr>,
      g_run_plugins := Some (plugin_array MM_SOUND_PLUGIN_TYPE_RUN (found_modules L dir c es MM_SOUND_PLUGIN_TYPE_RUN))\<rparr>)"
  using assms(3) by (simp add: MMSoundMgrRunInit_def scan_found [OF assms(1,2)])

lemma codec_init_found:
  fixes s :: "'w server_plugins"
  assumes "scannable L dir c es" "length (found_modules L dir c es MM_SOUND_PLUGIN_TYPE_CODEC) < PLUGIN_ARRAY"
    "g_codec_plugins s = None"
  defines "hs \<equiv> found_modules L dir c es MM_SOUND_PLUGIN_TYPE_CODEC"
  shows "MMSoundMgrCodecInit L G dir s =
    Some (s\<lparr>sv_modules := (sv_modules s)\<lparr>md_cwd := c, md_open := rev hs @ md_open (sv_modules s)\<rparr>,
      g_codec_plugins := Some (plugin_array MM_SOUND_PLUGIN_TYPE_CODEC hs),
      sv_codec := (sv_codec s)\<lparr>slots := replicate MANAGER_HANDLE_MAX (zero_slot\<lparr>sl_plughandle := -1\<rparr>),
        plugins := fold (\<lambda>h qs. register_interface qs
            (codec_of G \<lparr>sp_type = MM_SOUND_PLUGIN_TYPE_CODEC, sp_module = Some h\<rparr>)) hs (plugins (sv_codec s))\<rparr>\<rparr>)"
proof -
  have "MM_SOUND_PLUGIN_TYPE_CODEC \<noteq> MM_SOUND_PLUGIN_TYPE_NONE" by (simp add: plugin_types)
  note u = until_end_array [OF this]
  show ?thesis
    using assms(3)
    by (simp add: MMSoundMgrCodecInit_def scan_found [OF assms(1,2)] u fold_map hs_def Let_def comp_def)
qed

lemma server_load_found:
  fixes s :: "'w server_plugins"
  assumes "scannable L dir c es" "g_codec_plugins s = None" "g_run_plugins s = None"
    "length (found_modules L dir c es MM_SOUND_PLUGIN_TYPE_CODEC) < PLUGIN_ARRAY"
    "length (found_modules L dir c es MM_SOUND_PLUGIN_TYPE_RUN) < PLUGIN_ARRAY"
  defines "ch \<equiv> found_modules L dir c es MM_SOUND_PLUGIN_TYPE_CODEC"
    and "rh \<equiv> found_modules L dir c es MM_SOUND_PLUGIN_TYPE_RUN"
  shows "server_load L G dir s =
    Some (s\<lparr>sv_modules := (sv_modules s)\<lparr>md_cwd := c, md_open := rev ch @ rev rh @ md_open (sv_modules s)\<rparr>,
      g_run_plugins := Some (plugin_array MM_SOUND_PLUGIN_TYPE_RUN rh),
      g_codec_plugins := Some (plugin_array MM_SOUND_PLUGIN_TYPE_CODEC ch),
      sv_codec := (sv_codec s)\<lparr>slots := replicate MANAGER_HANDLE_MAX (zero_slot\<lparr>sl_plughandle := -1\<rparr>),
        plugins := fold (\<lambda>h qs. register_interface qs
            (codec_of G \<lparr>sp_type = MM_SOUND_PLUGIN_TYPE_CODEC, sp_module = Some h\<rparr>)) ch (plugins (sv_codec s))\<rparr>\<rparr>)"
  using assms(2)
  by (simp add: server_load_def run_init [OF assms(1,5,3)] codec_init_found [OF assms(1,4)] ch_def rh_def)

lemma server_unload_arrays:
  assumes "g_codec_plugins s = Some (plugin_array MM_SOUND_PLUGIN_TYPE_CODEC ch)"
    "g_run_plugins s = Some (plugin_array MM_SOUND_PLUGIN_TYPE_RUN rh)"
  shows "server_unload s =
    Some (s\<lparr>sv_modules := (sv_modules s)\<lparr>md_open := fold remove1 rh (fold remove1 ch (md_open (sv_modules s)))\<rparr>,
      g_codec_plugins := None, sv_codec := codec_fini (sv_codec s), g_run_plugins := None\<rparr>)"
proof -
  have "MM_SOUND_PLUGIN_TYPE_CODEC \<noteq> MM_SOUND_PLUGIN_TYPE_NONE" "MM_SOUND_PLUGIN_TYPE_RUN \<noteq> MM_SOUND_PLUGIN_TYPE_NONE"
    by (simp_all add: plugin_types)
  note r = this [THEN release_array]
  show ?thesis
    using assms by (simp add: server_unload_def MMSoundMgrCodecFini_def MMSoundMgrRunFini_def r)
qed

section \<open>The plugins of the repository\<close>

text \<open>The links that the build puts into the plugin directory, as \<^verbatim>\<open>scandir\<close> lists them.\<close>

definition server_files :: "string list" where
  "server_files = [''.'', ''..'', ''libsoundpluginkeytone.so'', ''libsoundplugintone.so'', ''libsoundpluginwave.so'']"

definition installed :: "loader \<Rightarrow> string \<Rightarrow> nat \<Rightarrow> nat \<Rightarrow> nat \<Rightarrow> bool" where
  "installed L c keytone tone wave \<longleftrightarrow> scannable L PLUGIN_DIR c server_files \<and>
    ld_stat L c ''.'' = Some Other_File \<and> ld_stat L c ''..'' = Some Other_File \<and>
    (\<forall>(n, t, h) \<in> set [(''libsoundpluginkeytone.so'', MM_SOUND_PLUGIN_TYPE_RUN, keytone),
        (''libsoundplugintone.so'', MM_SOUND_PLUGIN_TYPE_CODEC, tone),
        (''libsoundpluginwave.so'', MM_SOUND_PLUGIN_TYPE_CODEC, wave)].
      ld_stat L c n = Some Regular_File \<and> ld_dlopen L c (PLUGIN_DIR @ n) = Some h \<and> ld_type L h = Some t)"

lemma installed_modules:
  assumes "installed L c keytone tone wave"
  shows "found_modules L PLUGIN_DIR c server_files MM_SOUND_PLUGIN_TYPE_CODEC = [wave, tone]"
    "found_modules L PLUGIN_DIR c server_files MM_SOUND_PLUGIN_TYPE_RUN = [keytone]"
  using assms
  by (simp_all add: installed_def server_files_def scanned_paths_def modules_of_simps sound_module_def plugin_types)

text \<open>A system with the three plugins, for the examples.\<close>

definition ex_loader :: loader where
  "ex_loader =
    \<lparr>ld_scandir = (\<lambda>_ _. Some server_files), ld_chdir = (\<lambda>_ d. Some d),
     ld_stat = (\<lambda>_ n. Some (if n \<in> {''.'', ''..''} then Other_File else Regular_File)),
     ld_dlopen = (\<lambda>_ p. map_of (zip (map ((@) PLUGIN_DIR) server_files) [0, 0, 1, 2, 3]) p),
     ld_type = (\<lambda>h. Some (if h = 1 then MM_SOUND_PLUGIN_TYPE_RUN else MM_SOUND_PLUGIN_TYPE_CODEC)),
     ld_list_memory = True, ld_getcwd = True, ld_name_memory = (\<lambda>_. True), ld_array_memory = True\<rparr>"

definition ex_server_plugins :: "plug_world server_plugins" where
  "ex_server_plugins =
    \<lparr>sv_modules = \<lparr>md_cwd = ''/'', md_open = [7]\<rparr>, g_run_plugins = None, g_codec_plugins = None,
     sv_codec = codec_init [] ex_plug_world\<rparr>"

lemma ex_loader_scannable: "scannable ex_loader PLUGIN_DIR PLUGIN_DIR server_files"
  by (simp add: scannable_def ex_loader_def)

lemma ex_loader_installed: "installed ex_loader PLUGIN_DIR 1 2 3"
  using ex_loader_scannable
  by (simp add: installed_def ex_loader_def server_files_def plugin_types)

section \<open>Properties\<close>

text \<open>
  C34: a scan of the plugin directory by an absolute name finds exactly the modules of the wanted type, in
  the reverse order of their names, leaves these open and closes all others, when they are fewer than a hundred; with a
  hundred or more it leaves its array.
\<close>

theorem plugin_scan_finds:
  assumes "scannable L dir c es"
  shows "MMSoundPluginScan L dir type s =
    (let hs = modules_of L c type (map ((@) dir) (filter (\<lambda>n. ld_stat L c n = Some Regular_File) (rev es))) in
     if length hs < PLUGIN_ARRAY
     then Some (Inr (map (\<lambda>h. \<lparr>sp_type = type, sp_module = Some h\<rparr>) hs @ [end_mark]),
       s\<lparr>md_cwd := c, md_open := rev hs @ md_open s\<rparr>)
     else None)"
  using scan_found [OF assms, of type s] scan_full [OF assms, of type s]
  by (simp add: scanned_paths_def Let_def not_less)

theorem plugin_scan_finds_witness:
  "MMSoundPluginScan ex_loader PLUGIN_DIR MM_SOUND_PLUGIN_TYPE_CODEC \<lparr>md_cwd = ''/'', md_open = []\<rparr> =
    Some (Inr [\<lparr>sp_type = MM_SOUND_PLUGIN_TYPE_CODEC, sp_module = Some 3\<rparr>,
        \<lparr>sp_type = MM_SOUND_PLUGIN_TYPE_CODEC, sp_module = Some 2\<rparr>, end_mark],
      \<lparr>md_cwd = PLUGIN_DIR, md_open = [2, 3]\<rparr>)"
proof -
  have "modules_of ex_loader PLUGIN_DIR MM_SOUND_PLUGIN_TYPE_CODEC
      (map ((@) PLUGIN_DIR) (filter (\<lambda>n. ld_stat ex_loader PLUGIN_DIR n = Some Regular_File) (rev server_files))) = [3, 2]"
    using installed_modules(1) [OF ex_loader_installed] by (simp add: scanned_paths_def)
  then show ?thesis
    using plugin_scan_finds [OF ex_loader_scannable, of MM_SOUND_PLUGIN_TYPE_CODEC "\<lparr>md_cwd = ''/'', md_open = []\<rparr>"]
    by (simp add: PLUGIN_ARRAY_def Let_def)
qed

text \<open>
  Stopping the server closes every module that loading its plugins had opened, and no other, whatever
  the codec manager did in between; the lists and the table of codecs are empty again.
\<close>

lemma server_unloads_what_it_loaded:
  assumes "scannable L dir c es" "g_codec_plugins s = None" "g_run_plugins s = None"
    "length (modules_of L c MM_SOUND_PLUGIN_TYPE_CODEC (scanned_paths L dir c es)) < PLUGIN_ARRAY"
    "length (modules_of L c MM_SOUND_PLUGIN_TYPE_RUN (scanned_paths L dir c es)) < PLUGIN_ARRAY"
  shows "\<exists>t u. server_load L G dir s = Some t \<and> server_unload (t\<lparr>sv_codec := k\<rparr>) = Some u \<and>
    mset (md_open (sv_modules u)) = mset (md_open (sv_modules s)) \<and>
    g_codec_plugins u = None \<and> g_run_plugins u = None \<and> (\<forall>p \<in> set (plugins (sv_codec u)). p = None)"
  by (simp add: server_load_found [OF assms] server_unload_arrays codec_fini_def)

text \<open>
  A server that starts with the three plugins of the repository has the WAVE codec before the tone
  generator, so that a file is tried as WAVE first and a tone finds its generator, and one job, which
  gives the key tone plugin the thread pool and runs it.
\<close>

lemma server_plugins_loaded:
  assumes "installed L c keytone tone wave" "g_codec_plugins s = None" "g_run_plugins s = None"
    "plugins (sv_codec s) = replicate MM_SOUND_SUPPORTED_CODEC_NUM None"
    "G wave = Some (MM_ERROR_NONE, server_wave fuel E)" "G tone = Some (MM_ERROR_NONE, server_tone E')"
    "R keytone = Some (MM_ERROR_NONE, \<lparr>run_module = keytone, run_SetThreadPool = True\<rparr>)"
  shows "\<exists>t. server_load L G PLUGIN_DIR s = Some t \<and>
    plugins (sv_codec t) = [Some (server_wave fuel E), Some (server_tone E'), None] \<and>
    find_dtmf (plugins (sv_codec t)) 0 = Some (Some 1) \<and> length (slots (sv_codec t)) = MANAGER_HANDLE_MAX \<and>
    MMSoundMgrRunRunAll t = Some [0] \<and>
    MMSoundMgrRunRunInternal R t 0 = Some [SetThreadPool keytone, RunPlugin keytone] \<and>
    MMSoundMgrRunStopAll R t = Some [StopPlugin keytone]"
proof -
  have "GetSupportTypes (server_wave fuel E) = MM_SOUND_SUPPORTED_CODEC_WAVE"
    "GetSupportTypes (server_tone E') = MM_SOUND_SUPPORTED_CODEC_DTMF"
    by (simp_all add: server_wave_def server_tone_def wave_interface_def tone_interface_def
        wave_support_types_def tone_support_types_def)
  moreover have "scannable L PLUGIN_DIR c server_files" using assms(1) by (simp add: installed_def)
  ultimately show ?thesis
    using assms(2-7) installed_modules [OF assms(1)]
    by (simp add: server_load_found PLUGIN_ARRAY_def MM_SOUND_SUPPORTED_CODEC_NUM_def numeral_3_eq_3 codec_of_def
        MMSoundPluginGetSymbol_def MMSoundMgrRunRunAll_def MMSoundMgrRunRunInternal_def MMSoundMgrRunStopAll_def
        end_mark_def plugin_types)
qed

end
