(* ===== verification/Event_Sources.thy ===== *)
theory Event_Sources
  imports Server
begin

text \<open>
  The sources of device events: the thread that waits for the earjack
  (\<^verbatim>\<open>server/mm_sound_mgr_headset.c\<close>), the callbacks of PulseAudio and of the Bluetooth setting
  (\<^verbatim>\<open>server/mm_sound_mgr_pulse.c\<close>) and that of the docking station (\<^verbatim>\<open>server/mm_sound_mgr_dock.c\<close>).
  What the audio library, PulseAudio and the settings answer are parameters.
\<close>

section \<open>The earjack\<close>

text \<open>The states the audio library returns; the loop singles out one warning and one error, by which
  the library says that it does not hold its lock.\<close>

datatype av_state = AvSuccess | AvWarning (av_invalid_value: bool) | AvError (av_null_pointer: bool)

text \<open>The answers of one turn of the loop: of the wait, which may overwrite the current type, of the
  processing, and whether the lock can be given back.\<close>

record ear_event =
  ev_state :: av_state
  ev_current :: "int option"
  ev_new :: int
  ev_need_mute :: bool
  ev_process :: av_state
  ev_unlock :: bool

datatype ear_call = EarReset | EarInit | EarMute | EarUnmute | EarProcess int | EarUnlock | EarDeinit

record ear =
  current_type :: int
  eject_event_count :: nat
  ear_calls :: "ear_call list"

definition EARJACK_EJECTED :: int where "EARJACK_EJECTED = 0"

definition ear_log :: "ear_call \<Rightarrow> ear \<Rightarrow> ear" where
  "ear_log x h = h\<lparr>ear_calls := x # ear_calls h\<rparr>"

datatype ear_next = EarContinue | EarBreak | EarFail

definition ear_unlock :: "ear_event \<Rightarrow> ear_next \<Rightarrow> ear \<Rightarrow> ear_next \<times> ear" where
  "ear_unlock ev k h = (if ev_unlock ev then k else EarFail, ear_log EarUnlock h)"

text \<open>Telling the session manager.\<close>

definition ear_update :: "asm_cfg \<Rightarrow> sess_env \<Rightarrow> asm_lib \<Rightarrow> ear \<Rightarrow> asm \<Rightarrow> ear \<times> asm" where
  "ear_update c E L h s =
    (if current_type h = EARJACK_EJECTED then
       (let h1 = h\<lparr>eject_event_count := eject_event_count h + 1\<rparr>
        in (h1, if eject_event_count h1 = 1 then wired_available c E L False 0 s else s))
     else (h\<lparr>eject_event_count := 0\<rparr>, wired_available c E L True (current_type h) s))"

definition ear_changed ::
  "asm_cfg \<Rightarrow> sess_env \<Rightarrow> asm_lib \<Rightarrow> ear_event \<Rightarrow> ear \<Rightarrow> asm \<Rightarrow> ear_next \<times> ear \<times> asm" where
  "ear_changed c E L ev h s =
    (let h1 = (if ev_need_mute ev then ear_log EarMute h else h);
         (h2, s1) = ear_update c E L h1 s;
         h3 = ear_log (EarProcess (current_type h2)) h2;
         h4 = (if ev_need_mute ev then ear_log EarUnmute h3 else h3);
         (k, h5) = ear_unlock ev (case ev_process ev of AvError _ \<Rightarrow> EarBreak | _ \<Rightarrow> EarContinue) h4
     in (k, h5, s1))"

definition headset_turn ::
  "asm_cfg \<Rightarrow> sess_env \<Rightarrow> asm_lib \<Rightarrow> ear_event \<Rightarrow> ear \<Rightarrow> asm \<Rightarrow> ear_next \<times> ear \<times> asm" where
  "headset_turn c E L ev h s =
    (let h0 = (case ev_current ev of None \<Rightarrow> h | Some t \<Rightarrow> h\<lparr>current_type := t\<rparr>) in
     case ev_state ev of
       AvError null_pointer \<Rightarrow>
         if null_pointer then (EarBreak, h0, s)
         else (case ear_unlock ev EarBreak h0 of (k, h1) \<Rightarrow> (k, h1, s))
     | AvWarning invalid_value \<Rightarrow>
         if invalid_value then (EarContinue, h0, s)
         else (case ear_unlock ev EarContinue h0 of (k, h1) \<Rightarrow> (k, h1, s))
     | AvSuccess \<Rightarrow>
         if current_type h0 = ev_new ev
         then (case ear_unlock ev EarContinue h0 of (k, h1) \<Rightarrow> (k, h1, s))
         else ear_changed c E L ev (h0\<lparr>current_type := ev_new ev\<rparr>) s)"

text \<open>The loop over the turns to come; it may still be waiting when they are over.\<close>

datatype ear_end = EarWaits | EarReturns mm_err

fun headset_loop ::
  "asm_cfg \<Rightarrow> sess_env \<Rightarrow> asm_lib \<Rightarrow> bool \<Rightarrow> ear_event list \<Rightarrow> ear \<Rightarrow> asm \<Rightarrow> ear_end \<times> ear \<times> asm" where
  "headset_loop c E L deinit [] h s = (EarWaits, h, s)"
| "headset_loop c E L deinit (ev # evs) h s =
    (case headset_turn c E L ev h s of
       (EarContinue, h1, s1) \<Rightarrow> headset_loop c E L deinit evs h1 s1
     | (EarBreak, h1, s1) \<Rightarrow>
         (EarReturns (if deinit then MM_ERROR_NONE else MM_ERROR_SOUND_INTERNAL), ear_log EarDeinit h1, s1)
     | (EarFail, h1, s1) \<Rightarrow> (EarReturns MM_ERROR_SOUND_INTERNAL, h1, s1))"

text \<open>The library is started with the type that is plugged in, or cannot be started.\<close>

definition headset_main_run ::
  "asm_cfg \<Rightarrow> sess_env \<Rightarrow> asm_lib \<Rightarrow> int option \<Rightarrow> bool \<Rightarrow> ear_event list \<Rightarrow> asm \<Rightarrow> ear_end \<times> ear \<times> asm" where
  "headset_main_run c E L init deinit evs s =
    (let h = \<lparr>current_type = 0, eject_event_count = 0, ear_calls = [EarInit, EarReset]\<rparr> in
     case init of
       None \<Rightarrow> (EarReturns MM_ERROR_SOUND_DEVICE_NOT_OPENED, h, s)
     | Some t \<Rightarrow> headset_loop c E L deinit evs (h\<lparr>current_type := t\<rparr>) s)"

section \<open>PulseAudio and Bluetooth\<close>

text \<open>The default sink of the server.\<close>

definition server_info_cb :: "string option \<Rightarrow> asm \<Rightarrow> asm" where
  "server_info_cb info s = (case info of None \<Rightarrow> s | Some name \<Rightarrow> set_default_sink name s)"

text \<open>A card that has come, with its description if it has one; every card is taken to be a Bluetooth
  device.\<close>

definition card_info_cb ::
  "asm_cfg \<Rightarrow> sess_env \<Rightarrow> asm_lib \<Rightarrow> bool \<Rightarrow> string option option \<Rightarrow> asm \<Rightarrow> asm" where
  "card_info_cb c E L eol info s =
    (case info of
       None \<Rightarrow> s
     | Some desc \<Rightarrow>
         if eol then s
         else a2dp_available c E L True (Some (case desc of Some d \<Rightarrow> d | None \<Rightarrow> ''NONAME'')) s)"

datatype pa_facility = PA_CARD | PA_SERVER | PA_OTHER_FACILITY
datatype pa_event_type = PA_NEW | PA_CHANGE | PA_REMOVE

text \<open>A subscribed event; the queries it makes are answered later, by the callbacks above.\<close>

datatype pa_query = QueryCard nat | QueryServer

definition context_subscribe_cb ::
  "asm_cfg \<Rightarrow> sess_env \<Rightarrow> asm_lib \<Rightarrow> pa_facility \<Rightarrow> pa_event_type \<Rightarrow> nat \<Rightarrow> asm \<Rightarrow> pa_query list \<times> asm" where
  "context_subscribe_cb c E L facility t idx s =
    (case facility of
       PA_CARD \<Rightarrow>
         (case t of
            PA_REMOVE \<Rightarrow> ([], a2dp_available c E L False None s)
          | PA_NEW \<Rightarrow> ([QueryCard idx], s)
          | PA_CHANGE \<Rightarrow> ([], s))
     | PA_SERVER \<Rightarrow> ([QueryServer], s)
     | PA_OTHER_FACILITY \<Rightarrow> ([], s))"

text \<open>The Bluetooth setting, of which one bit says that a headset is connected; without an answer the
  value is \<^verbatim>\<open>VCONFKEY_BT_DEVICE_NONE\<close>, which has no bit set.\<close>

definition bt_changed_cb :: "sess_env \<Rightarrow> 32 word \<Rightarrow> 32 word option \<Rightarrow> asm \<Rightarrow> asm" where
  "bt_changed_cb E connected status s =
    sco_available E ((case status of Some b \<Rightarrow> b | None \<Rightarrow> 0) AND connected \<noteq> 0) s"

text \<open>Whether one of the cards at the start is a Bluetooth card, and the setting, as the session manager
  asks for them.\<close>

fun contains :: "string \<Rightarrow> string \<Rightarrow> bool" where
  "contains x [] = (x = [])"
| "contains x (y # ys) = (take (length x) (y # ys) = x \<or> contains x ys)"

definition init_card_info_cb :: "string \<Rightarrow> bool \<Rightarrow> bool" where
  "init_card_info_cb name init_bt_status = (if contains ''bluez'' name then True else init_bt_status)"

definition get_initial_bt_status :: "bool \<Rightarrow> 32 word \<Rightarrow> 32 word option \<Rightarrow> bool \<times> bool" where
  "get_initial_bt_status init_bt_status connected status =
    (init_bt_status, (case status of Some b \<Rightarrow> b | None \<Rightarrow> 0) AND connected \<noteq> 0)"

text \<open>Setting the default sink: every sink of the wanted kind is made the default, in the order of the
  list.\<close>

record pa_sink =
  si_name :: "string option"
  si_api :: "string option"

definition sink_info_cb :: "string \<Rightarrow> pa_sink \<Rightarrow> string option" where
  "sink_info_cb sink_to_find i =
    (case si_name i of
       None \<Rightarrow> None
     | Some n \<Rightarrow> (case si_api i of None \<Rightarrow> None | Some api \<Rightarrow> if api = sink_to_find then Some n else None))"

definition pulse_set_default_sink :: "string \<Rightarrow> pa_sink list \<Rightarrow> string list" where
  "pulse_set_default_sink name sinks = List.map_filter (sink_info_cb name) sinks"

section \<open>The docking station\<close>

text \<open>The number of the setting is passed on; without an answer it is 0.\<close>

definition dock_changed_cb :: "asm_cfg \<Rightarrow> sess_env \<Rightarrow> asm_lib \<Rightarrow> int option \<Rightarrow> asm \<Rightarrow> asm option" where
  "dock_changed_cb c E L status s =
    dock_available c E L ((case status of Some i \<Rightarrow> i | None \<Rightarrow> 0) \<noteq> 0) s"

section \<open>The server with its event sources\<close>

text \<open>The last that each source has said, and the state of the server.\<close>

record sources =
  so_ear :: ear
  so_card :: bool
  so_sco :: bool
  so_dock :: bool

datatype source_event =
    EarjackTurn ear_event
  | ServerInfo "string option"
  | CardInfo bool "string option option"
  | Subscribed pa_facility pa_event_type nat
  | BtChanged "32 word option"
  | DockChanged "int option"

fun source_step ::
  "asm_cfg \<Rightarrow> 32 word \<Rightarrow> sess_env \<Rightarrow> asm_lib \<Rightarrow> source_event \<Rightarrow> sources \<times> asm \<Rightarrow> (sources \<times> asm) option" where
  "source_step c conn E L (EarjackTurn ev) (h, s) =
    (case headset_turn c E L ev (so_ear h) s of (k, e, s1) \<Rightarrow> Some (h\<lparr>so_ear := e\<rparr>, s1))"
| "source_step c conn E L (ServerInfo info) (h, s) = Some (h, server_info_cb info s)"
| "source_step c conn E L (CardInfo eol info) (h, s) =
    Some (h\<lparr>so_card := so_card h \<or> \<not> eol \<and> info \<noteq> None\<rparr>, card_info_cb c E L eol info s)"
| "source_step c conn E L (Subscribed f t idx) (h, s) =
    Some (h\<lparr>so_card := so_card h \<and> \<not> (f = PA_CARD \<and> t = PA_REMOVE)\<rparr>, snd (context_subscribe_cb c E L f t idx s))"
| "source_step c conn E L (BtChanged st) (h, s) =
    Some (h\<lparr>so_sco := (case st of Some b \<Rightarrow> b AND conn \<noteq> 0 | None \<Rightarrow> False)\<rparr>, bt_changed_cb E conn st s)"
| "source_step c conn E L (DockChanged st) (h, s) =
    map_option (\<lambda>s1. (h\<lparr>so_dock := (case st of Some i \<Rightarrow> i \<noteq> 0 | None \<Rightarrow> False)\<rparr>, s1)) (dock_changed_cb c E L st s)"

text \<open>What the clients do.\<close>

inductive client_step :: "asm_cfg \<Rightarrow> asm \<Rightarrow> asm \<Rightarrow> bool" for c where
  request: "client_step c s (snd (asm_process_message c E b junk r s))"
| activate: "mm_sound_is_route_valid r \<Longrightarrow> client_step c s (on_sess (\<lambda>t. snd (set_active_route E r v t)) s)"
| add_active: "client_step c s (on_sess (\<lambda>t. snd (add_active_device_callback p t)) s)"
| remove_active: "client_step c s (on_sess (\<lambda>t. snd (remove_active_device_callback p t)) s)"
| add_route: "client_step c s (on_sess (\<lambda>t. snd (add_available_route_callback p t)) s)"
| remove_route: "client_step c s (on_sess (\<lambda>t. snd (remove_available_route_callback p t)) s)"

text \<open>Events and clients in any order, where the library does not touch the current type of the
  earjack loop.\<close>

inductive sys_reachable :: "asm_cfg \<Rightarrow> 32 word \<Rightarrow> sources \<times> asm \<Rightarrow> bool" for c conn where
  start: "active_cbs ss = [] \<Longrightarrow> avail_cbs ss = [] \<Longrightarrow> 0 \<le> type \<Longrightarrow>
    sys_reachable c conn
      (\<lparr>so_ear = \<lparr>current_type = type, eject_event_count = 0, ear_calls = []\<rparr>, so_card = a2dp, so_sco = sco,
        so_dock = False\<rparr>,
       snd (session_init c E L type a2dp sco (asm_init gcf (clear_info ss))))"
| source: "sys_reachable c conn x \<Longrightarrow> source_step c conn E L ev x = Some y \<Longrightarrow>
    (\<forall>e. ev = EarjackTurn e \<longrightarrow> ev_current e = None) \<Longrightarrow> sys_reachable c conn y"
| client: "sys_reachable c conn (h, s) \<Longrightarrow> client_step c s t \<Longrightarrow> sys_reachable c conn (h, t)"

end
