(* ===== verification/Event_Props.thy ===== *)
theory Event_Props
  imports Event_Sources Examples
begin

text \<open>
  The devices the session manager takes to be available are those the event sources have reported, in
  every interleaving with the requests of the clients; the earjack loop and its lock.
\<close>

section \<open>Only device events change what is plugged in\<close>

text \<open>The devices that can be plugged in: all but the built-in ones.\<close>

definition EXTERNAL :: dev where "EXTERNAL = 0x3C06"

definition plugged :: "asm \<Rightarrow> dev" where
  "plugged s = device_available (asess s) AND EXTERNAL"

lemma plugged_asess: "asess s' = asess s \<Longrightarrow> plugged s' = plugged s"
  by (simp add: plugged_def)

lemma plugged_avail: "device_available (asess s') = device_available (asess s) \<Longrightarrow> plugged s' = plugged s"
  by (simp add: plugged_def)

lemma external_receiver:
  "device_available (SET_AVAILABLE OUT_RECEIVER t) AND EXTERNAL = device_available t AND EXTERNAL"
  "device_available (UNSET_AVAILABLE OUT_RECEIVER t) AND EXTERNAL = device_available t AND EXTERNAL"
proof -
  have "OUT_RECEIVER AND EXTERNAL = 0" "NOT OUT_RECEIVER AND EXTERNAL = EXTERNAL"
    by (simp_all add: dev_bits EXTERNAL_def)
  then show "device_available (SET_AVAILABLE OUT_RECEIVER t) AND EXTERNAL = device_available t AND EXTERNAL"
    "device_available (UNSET_AVAILABLE OUT_RECEIVER t) AND EXTERNAL = device_available t AND EXTERNAL"
    by (simp_all add: SET_AVAILABLE_def UNSET_AVAILABLE_def bit.conj_disj_distrib2 and.assoc)
qed

lemma set_session_external:
  "device_available (snd (set_session E se st t)) AND EXTERNAL = device_available t AND EXTERNAL"
  by (simp add: set_session_def Let_def set_playback_route_communication_def set_playback_route_fmradio_def
      set_playback_route_notification_def set_sound_path_to_dual_def split_beta sess_simps external_receiver
      split: session_id.split session_state.split)

lemma plugged_simps [simp]:
  "plugged (asm_set_session E se st s) = plugged s" "plugged (updatePhoneStatus c s) = plugged s"
  "plugged (asm_log x s) = plugged s" "plugged (snd (do_callback c E p h cmd src s)) = plugged s"
  "plugged (asm_change_state_list c p h sst res s) = plugged s" "plugged (stop_monitor c E p src b s) = plugged s"
  "plugged (mark_resume ev p h s) = plugged s"
  by (simp_all add: plugged_def asm_set_session_def set_session_external asm_simps)

lemma plugged_insts [simp]: "plugged (s\<lparr>insts := xs\<rparr>) = plugged s"
  by (simp add: plugged_def)

lemma plugged_sessions [simp]:
  "plugged (end_fmradio_session E s) = plugged s" "plugged (start_media_session E ev s) = plugged s"
  "plugged (start_call_session E ev s) = plugged s"
  by (simp_all add: end_fmradio_session_def start_media_session_def start_call_session_def split: asm_event.split)

lemma plugged_list [simp]:
  "plugged (check_dead_process c E s) = plugged s" "plugged (snd (asm_unregister_list c h s)) = plugged s"
  "plugged (asm_register_list c p h ev st res s) = plugged s" "plugged (enter_request c r s) = plugged s"
  "plugged (asm_do_all_resume_callback c E src s) = plugged s" "plugged (set_ret b m s) = plugged s"
  by (simp_all add: plugged_def check_dead_process_def asm_unregister_list_def asm_register_list_def Let_def
      enter_request_def asm_do_all_resume_callback_def set_ret_def split_beta asm_simps split: option.split)

lemma plugged_stop [simp]: "plugged (conflict_stop c E r x s) = plugged s"
  by (simp add: conflict_stop_def Let_def split_beta)

lemma plugged_pause [simp]: "plugged (conflict_pause c E r x s) = plugged s"
  by (simp add: conflict_pause_def Let_def split_beta)

lemma plugged_mix [simp]: "plugged (conflict_mix c E r x s) = plugged s"
  by (simp add: conflict_mix_def Let_def split_beta)

lemma plugged_conflict_paused [simp]: "plugged (conflict_paused c E r x s) = plugged s"
  by (simp add: conflict_paused_def Let_def split_beta)

lemma plugged_policy_node: "plugged (snd (snd (snd (policy_node c E r x upd m s)))) = plugged s"
  by (simp add: policy_node_def enter_once_def split: asm_case.split)

lemma plugged_playing [simp]: "plugged (snd (snd (playing_loop c E r n upd m s))) = plugged s"
proof (induction n arbitrary: upd m s)
  case (Suc n)
  show ?case
  proof (cases "policy_node c E r (node_at n (insts s)) upd m s")
    case (fields skip upd1 m1 s1)
    with plugged_policy_node [of c E r "node_at n (insts s)" upd m s] Suc show ?thesis by (simp add: Let_def)
  qed
qed simp

lemma plugged_paused [simp]: "plugged (paused_loop c E r n s) = plugged s"
  by (induction n arbitrary: s) (simp_all add: Let_def)

lemma plugged_policy [simp]: "plugged (snd (asm_compare_priority_matrix c E b m r s)) = plugged s"
  by (simp add: asm_compare_priority_matrix_def Let_def split_beta)

lemma plugged_emergent [simp]: "plugged (emergent_exit c p s) = plugged s"
proof (induct c p s rule: emergent_exit.induct)
  case (1 c p s)
  show ?case
  proof (cases "find (\<lambda>x. instance_id x = p) (insts s)")
    case (Some x)
    show ?thesis
      by (subst emergent_exit.simps) (use 1 Some in \<open>simp add: Let_def split_beta\<close>)
  qed (subst emergent_exit.simps, use 1 in simp)
qed

lemma plugged_message [simp]: "plugged (snd (asm_process_message c E b junk r s)) = plugged s"
proof -
  have "plugged (s\<lparr>asess := snd (set_subsession E' i (asess s))\<rparr>) = plugged s" for E' i
    by (rule plugged_avail) (simp add: set_subsession_def sess_simps)
  then show ?thesis
    by (simp add: asm_process_message_def process_register_def process_unregister_def process_setstate_def
        process_getstate_def process_getmystate_def process_set_subsession_def process_get_subsession_def Let_def
        split_beta split: asm_request.split asm_event.split)
qed

lemma plugged_requests [simp]: "plugged (snd (serve_requests c qs s)) = plugged s"
proof (induction qs arbitrary: s)
  case (Cons q qs)
  then show ?case by (cases q) (simp add: Let_def split_beta)
qed simp

lemma plugged_lib [simp]: "plugged (snd (snd (lib_run c L q s))) = plugged s"
  by (simp add: lib_run_def split_beta)

lemma plugged_on_sess: "(\<And>t. device_available (f t) = device_available t) \<Longrightarrow> plugged (on_sess f s) = plugged s"
  by (simp add: plugged_def)

lemma plugged_headset_handle [simp]:
  "plugged (snd (asm_register_for_headset c L s)) = plugged s" "plugged (asm_pause_process c L h s) = plugged s"
  by (simp_all add: asm_register_for_headset_def asm_pause_process_def Let_def split_beta plugged_on_sess
      split: option.split)

lemma plugged_handlers [simp]:
  "plugged (handle_headset_on E type s) = plugged s" "plugged (handle_headset_off c E L s) = plugged s"
  "plugged (handle_bt_a2dp_on E s) = plugged s" "plugged (handle_bt_a2dp_off c E L s) = plugged s"
  "plugged (handle_bt_sco_off E s) = plugged s" "plugged (announce E i ou b s) = plugged s"
  by (simp_all add: handle_headset_on_def handle_headset_off_def handle_bt_a2dp_on_def handle_bt_a2dp_off_def
      handle_bt_sco_off_def announce_def headset_on_active_def headset_off_active_def Let_def plugged_on_sess
      sess_simps)

lemma plugged_dock_handlers:
  "handle_dock_on E L s = Some t \<Longrightarrow> plugged t = plugged s"
  "handle_dock_off c E L s = Some t \<Longrightarrow> plugged t = plugged s"
  by (auto simp: handle_dock_on_def handle_dock_off_def plugged_on_sess sess_simps split: if_splits)

lemma plugged_client: "client_step c s t \<Longrightarrow> plugged t = plugged s"
  by (induction rule: client_step.induct)
    (simp_all add: plugged_on_sess set_active_route_def set_device_active_def split_beta Let_def sess_simps
      add_active_device_callback_def remove_active_device_callback_def add_available_route_callback_def
      remove_available_route_callback_def)

section \<open>What the device events do\<close>

definition external_devices :: "dev list" where
  "external_devices = [OUT_WIRED, OUT_BT_SCO, OUT_BT_A2DP, OUT_DOCK, IN_WIRED, IN_BT_SCO]"

lemma external_and: "x \<in> set external_devices \<Longrightarrow> x AND EXTERNAL = x"
  by (auto simp: external_devices_def dev_bits EXTERNAL_def)

lemma is_available_plugged: "x \<in> set external_devices \<Longrightarrow> IS_AVAILABLE x (asess s) \<longleftrightarrow> plugged s AND x \<noteq> 0"
  using external_and [of x] by (simp add: IS_AVAILABLE_def plugged_def and.assoc and.commute [of EXTERNAL])

lemma plugged_set [simp]:
  "x \<in> set external_devices \<Longrightarrow> plugged (on_sess (SET_AVAILABLE x) s) = plugged s OR x"
  by (simp add: plugged_def SET_AVAILABLE_def bit.conj_disj_distrib2 external_and)

lemma plugged_unset [simp]: "plugged (on_sess (UNSET_AVAILABLE x) s) = plugged s AND NOT x"
  by (simp add: plugged_def UNSET_AVAILABLE_def and.assoc and.commute [of EXTERNAL])

lemma externals [simp]:
  "OUT_WIRED \<in> set external_devices" "OUT_BT_SCO \<in> set external_devices" "OUT_BT_A2DP \<in> set external_devices"
  "OUT_DOCK \<in> set external_devices" "IN_WIRED \<in> set external_devices" "IN_BT_SCO \<in> set external_devices"
  by (simp_all add: external_devices_def)

lemma external_disjoint:
  "x \<in> set external_devices \<Longrightarrow> y \<in> set external_devices \<Longrightarrow> x \<noteq> y \<Longrightarrow> x AND y = 0"
  "x \<in> set external_devices \<Longrightarrow> x \<noteq> 0"
  by (auto simp: external_devices_def dev_bits)

lemma or_hits: "(a OR x) AND y = 0 \<longleftrightarrow> a AND y = 0 \<and> x AND y = (0 :: dev)"
  by (simp add: bit.conj_disj_distrib2 or_eq_0_iff)

lemma unset_hits:
  "x AND y = 0 \<Longrightarrow> (a AND NOT x) AND y = a AND (y :: dev)" "(a AND NOT x) AND x = (0 :: dev)"
proof -
  show "(a AND NOT x) AND x = 0" by (simp add: and.assoc)
  assume "x AND y = 0"
  then have "NOT x AND y = y" by (intro bit_eqI) (auto simp: bit_eq_iff bit_simps)
  then show "(a AND NOT x) AND y = a AND y" by (simp add: and.assoc)
qed

text \<open>The bit of one device after each kind of event.\<close>

abbreviation plugged_in :: "dev \<Rightarrow> asm \<Rightarrow> bool" where
  "plugged_in x s \<equiv> plugged s AND x \<noteq> 0"

lemma external_neq:
  "OUT_WIRED \<noteq> OUT_BT_SCO" "OUT_WIRED \<noteq> OUT_BT_A2DP" "OUT_WIRED \<noteq> OUT_DOCK" "OUT_BT_SCO \<noteq> OUT_BT_A2DP"
  "OUT_BT_SCO \<noteq> OUT_DOCK" "OUT_BT_A2DP \<noteq> OUT_DOCK" "IN_WIRED \<noteq> OUT_WIRED" "IN_WIRED \<noteq> OUT_BT_SCO"
  "IN_WIRED \<noteq> OUT_BT_A2DP" "IN_WIRED \<noteq> OUT_DOCK" "IN_BT_SCO \<noteq> OUT_WIRED" "IN_BT_SCO \<noteq> OUT_BT_SCO"
  "IN_BT_SCO \<noteq> OUT_BT_A2DP" "IN_BT_SCO \<noteq> OUT_DOCK" "IN_WIRED \<noteq> IN_BT_SCO"
  by (simp_all add: dev_bits)

lemmas external_bits = external_disjoint external_neq external_neq [symmetric] or_hits unset_hits

lemma wired_plugged:
  "plugged (wired_available c E L b type s) AND OUT_WIRED = 0 \<longleftrightarrow> \<not> b"
  "x \<in> {OUT_BT_SCO, OUT_BT_A2DP, OUT_DOCK} \<Longrightarrow>
    plugged (wired_available c E L b type s) AND x = 0 \<longleftrightarrow> plugged s AND x = 0"
  by (auto simp: wired_available_def Let_def is_available_plugged external_bits)

lemma a2dp_plugged:
  "plugged (a2dp_available c E L b name s) AND OUT_BT_A2DP = 0 \<longleftrightarrow> \<not> b"
  "x \<in> {OUT_BT_SCO, OUT_WIRED, OUT_DOCK} \<Longrightarrow>
    plugged (a2dp_available c E L b name s) AND x = 0 \<longleftrightarrow> plugged s AND x = 0"
proof -
  define t where "t = on_sess (\<lambda>t. t\<lparr>bt_name := (case name of None \<Rightarrow> [] | Some n \<Rightarrow> n)\<rparr>) s"
  have "plugged t = plugged s" by (simp add: t_def plugged_on_sess del: asess_on_sess)
  moreover have "plugged (a2dp_available c E L b name s) AND OUT_BT_A2DP = 0 \<longleftrightarrow> \<not> b"
    "x \<in> {OUT_BT_SCO, OUT_WIRED, OUT_DOCK} \<Longrightarrow> plugged (a2dp_available c E L b name s) AND x = 0 \<longleftrightarrow> plugged t AND x = 0"
    unfolding a2dp_available_def Let_def t_def [symmetric]
    by (auto simp: is_available_plugged external_bits)
  ultimately show "plugged (a2dp_available c E L b name s) AND OUT_BT_A2DP = 0 \<longleftrightarrow> \<not> b"
    "x \<in> {OUT_BT_SCO, OUT_WIRED, OUT_DOCK} \<Longrightarrow> plugged (a2dp_available c E L b name s) AND x = 0 \<longleftrightarrow> plugged s AND x = 0"
    by simp_all
qed

lemma sco_plugged:
  "plugged (sco_available E b s) AND OUT_BT_SCO = 0 \<longleftrightarrow> \<not> b"
  "x \<in> {OUT_BT_A2DP, OUT_WIRED, OUT_DOCK} \<Longrightarrow> plugged (sco_available E b s) AND x = 0 \<longleftrightarrow> plugged s AND x = 0"
  by (auto simp: sco_available_def Let_def is_available_plugged external_bits)

lemma dock_plugged:
  assumes "dock_available c E L b s = Some t"
  shows "plugged t AND OUT_DOCK = 0 \<longleftrightarrow> \<not> b"
    "x \<in> {OUT_BT_A2DP, OUT_WIRED, OUT_BT_SCO} \<Longrightarrow> plugged t AND x = 0 \<longleftrightarrow> plugged s AND x = 0"
  using assms
  by (auto simp: dock_available_def is_available_plugged external_bits dest!: plugged_dock_handlers
      split: if_splits)

section \<open>The sources agree with the server\<close>

lemma ear_log_fields [simp]:
  "current_type (ear_log x h) = current_type h" "eject_event_count (ear_log x h) = eject_event_count h"
  "ear_calls (ear_log x h) = x # ear_calls h"
  by (simp_all add: ear_log_def)

lemma ear_unlock_fields [simp]:
  "snd (ear_unlock ev k h) = ear_log EarUnlock h"
  by (simp add: ear_unlock_def)

text \<open>The earjack loop believes what the session manager has been told.\<close>

definition ear_agrees :: "ear \<Rightarrow> asm \<Rightarrow> bool" where
  "ear_agrees h s \<longleftrightarrow> (plugged_in OUT_WIRED s \<longleftrightarrow> current_type h \<noteq> 0) \<and> (current_type h \<noteq> 0 \<longrightarrow> eject_event_count h = 0)"

text \<open>A turn is a change of availability of the accessory, or nothing, for the session manager.\<close>

lemma headset_turn_asm:
  "snd (snd (headset_turn c E L ev h s)) \<in> insert s {wired_available c E L b t s |b t. True}"
  by (cases "ev_state ev")
    (auto simp: headset_turn_def ear_changed_def ear_update_def Let_def split_beta)

lemma headset_turn_agrees:
  assumes "ear_agrees h s" "ev_current ev = None" "headset_turn c E L ev h s = (k, h', s')"
  shows "ear_agrees h' s'"
proof (cases "ev_state ev = AvSuccess \<and> current_type h \<noteq> ev_new ev")
  case True
  with assms show ?thesis
    by (auto simp: headset_turn_def ear_changed_def ear_update_def ear_agrees_def Let_def split_beta
        wired_plugged EARJACK_EJECTED_def split: if_splits)
next
  case False
  with assms(2,3) have "s' = s" "current_type h' = current_type h" "eject_event_count h' = eject_event_count h"
    by (cases "ev_state ev"; auto simp: headset_turn_def split_beta split: if_splits)+
  with assms(1) show ?thesis by (simp add: ear_agrees_def)
qed

text \<open>All four sources.\<close>

definition sources_agree :: "sources \<times> asm \<Rightarrow> bool" where
  "sources_agree x \<longleftrightarrow>
    (case x of (h, s) \<Rightarrow> ear_agrees (so_ear h) s \<and> (plugged_in OUT_BT_A2DP s \<longleftrightarrow> so_card h) \<and>
      (plugged_in OUT_BT_SCO s \<longleftrightarrow> so_sco h) \<and> (plugged_in OUT_DOCK s \<longleftrightarrow> so_dock h))"

lemma server_info_plugged: "plugged (server_info_cb info s) = plugged s"
  by (simp add: server_info_cb_def set_default_sink_def plugged_on_sess del: asess_on_sess split: option.split)

lemma source_step_agrees:
  assumes "sources_agree x" "source_step c conn E L ev x = Some y" "\<forall>e. ev = EarjackTurn e \<longrightarrow> ev_current e = None"
  shows "sources_agree y"
proof -
  obtain h s where x: "x = (h, s)" by (cases x)
  show ?thesis
  proof (cases ev)
    case (EarjackTurn e)
    obtain k h' s' where t: "headset_turn c E L e (so_ear h) s = (k, h', s')" by (cases "headset_turn c E L e (so_ear h) s")
    with headset_turn_agrees [OF _ _ t] headset_turn_asm [of c E L e "so_ear h" s] assms x EarjackTurn show ?thesis
      by (auto simp: sources_agree_def wired_plugged)
  next
    case (ServerInfo info)
    with assms x show ?thesis by (auto simp: sources_agree_def server_info_plugged ear_agrees_def)
  next
    case (CardInfo eol info)
    with assms x show ?thesis
      by (auto simp: sources_agree_def card_info_cb_def a2dp_plugged ear_agrees_def split: option.splits if_splits)
  next
    case (Subscribed f t idx)
    with assms x show ?thesis
      by (cases f; cases t)
        (auto simp: sources_agree_def context_subscribe_cb_def a2dp_plugged ear_agrees_def)
  next
    case (BtChanged st)
    with assms x show ?thesis
      by (auto simp: sources_agree_def bt_changed_cb_def sco_plugged ear_agrees_def split: option.splits)
  next
    case (DockChanged st)
    with assms x obtain t b where t: "dock_available c E L b s = Some t" "y = (h\<lparr>so_dock := b\<rparr>, t)"
      by (cases st) (auto simp: dock_changed_cb_def)
    have "plugged t AND OUT_DOCK = 0 \<longleftrightarrow> \<not> b" "plugged t AND OUT_WIRED = 0 \<longleftrightarrow> plugged s AND OUT_WIRED = 0"
      "plugged t AND OUT_BT_A2DP = 0 \<longleftrightarrow> plugged s AND OUT_BT_A2DP = 0"
      "plugged t AND OUT_BT_SCO = 0 \<longleftrightarrow> plugged s AND OUT_BT_SCO = 0"
      by (simp_all add: dock_plugged [OF t(1)])
    with assms(1) x t(2) show ?thesis by (simp add: sources_agree_def ear_agrees_def)
  qed
qed

lemma start_agrees:
  assumes "0 \<le> type"
  shows "sources_agree (\<lparr>so_ear = \<lparr>current_type = type, eject_event_count = 0, ear_calls = []\<rparr>, so_card = a2dp,
      so_sco = sco, so_dock = False\<rparr>, snd (session_init c E L type a2dp sco (asm_init gcf (clear_info ss))))"
proof -
  let ?t = "initial_available type a2dp sco (clear_info (clear_info ss))"
  have "plugged (snd (session_init c E L type a2dp sco (asm_init gcf (clear_info ss)))) = device_available ?t AND EXTERNAL"
    by (simp add: session_init_def) (simp add: plugged_def asm_init_def set_initial_active_device_def sess_simps
        select_playback_active_device_def select_capture_active_device_def)
  moreover have "x \<in> set external_devices \<Longrightarrow> (device_available ?t AND EXTERNAL) AND x = 0 \<longleftrightarrow> \<not> IS_AVAILABLE x ?t" for x
    using external_and [of x] by (simp add: IS_AVAILABLE_def and.assoc and.commute [of EXTERNAL])
  moreover have "IS_AVAILABLE OUT_WIRED ?t \<longleftrightarrow> type > 0" "IS_AVAILABLE OUT_BT_A2DP ?t \<longleftrightarrow> a2dp"
    "IS_AVAILABLE OUT_BT_SCO ?t \<longleftrightarrow> sco" "\<not> IS_AVAILABLE OUT_DOCK ?t"
    by (simp_all add: initial_available_def clear_info_def Let_def IS_AVAILABLE_def SET_AVAILABLE_def dev_bits)
  ultimately show ?thesis using assms by (auto simp: sources_agree_def ear_agrees_def)
qed

lemma sys_agrees: "sys_reachable c conn x \<Longrightarrow> sources_agree x"
proof (induction rule: sys_reachable.induct)
  case (start ss type a2dp sco E L gcf)
  then show ?case by (intro start_agrees)
next
  case (source x E L ev y)
  then show ?case by (blast intro: source_step_agrees)
next
  case (client h s t)
  then show ?case by (simp add: sources_agree_def ear_agrees_def plugged_client)
qed

text \<open>For the server an event is one of its own steps, or nothing.\<close>

lemma source_step_server:
  assumes "source_step c conn E L ev (h, s) = Some (h', s')"
  shows "s' = s \<or> srv_step c s s'"
proof -
  have d: "srv_step c s (wired_available c E L b t s)" "srv_step c s (a2dp_available c E L b n s)"
    "srv_step c s (sco_available E b s)" "dock_available c E L b s = Some r \<Longrightarrow> srv_step c s r" for b t n r
    using srv_step.device [of c E L DEVICE_WIRED b t None s] srv_step.device [of c E L DEVICE_BT_A2DP b 0 n s]
      srv_step.device [of c E L DEVICE_BT_SCO b 0 None s] srv_step.device [of c E L DEVICE_DOCK b 0 None s r]
    by (simp_all add: set_device_available_def)
  show ?thesis
  proof (cases ev)
    case (EarjackTurn e)
    with assms headset_turn_asm [of c E L e "so_ear h" s] d(1) show ?thesis
      by (cases "headset_turn c E L e (so_ear h) s") auto
  next
    case (ServerInfo info)
    with assms srv_step.default_sink show ?thesis by (auto simp: server_info_cb_def split: option.splits)
  next
    case (CardInfo eol info)
    with assms d(2) show ?thesis by (auto simp: card_info_cb_def split: option.splits)
  next
    case (Subscribed f t idx)
    with assms d(2) show ?thesis by (cases f; cases t) (auto simp: context_subscribe_cb_def)
  next
    case (BtChanged st)
    with assms d(3) show ?thesis by (auto simp: bt_changed_cb_def)
  next
    case (DockChanged st)
    with assms d(4) show ?thesis by (auto simp: dock_changed_cb_def)
  qed
qed

lemma client_step_server: "client_step c s t \<Longrightarrow> srv_step c s t"
  by (induction rule: client_step.induct) (blast intro: srv_step.intros)+

lemma sys_server_reachable: "sys_reachable c conn x \<Longrightarrow> srv_reachable c (snd x)"
proof (induction rule: sys_reachable.induct)
  case (source x E L ev y)
  then show ?case using source_step_server [of c conn E L ev "fst x" "snd x" "fst y" "snd y"]
    by (auto intro: srv_reachable.step)
qed (auto intro: srv_reachable.intros client_step_server)

section \<open>The lock of the audio library\<close>

text \<open>The answers with which the library keeps its lock for the loop.\<close>

definition holds_lock :: "ear_event \<Rightarrow> bool" where
  "holds_lock ev \<longleftrightarrow> ev_state ev \<noteq> AvWarning True \<and> ev_state ev \<noteq> AvError True"

lemma headset_turn_calls:
  assumes "headset_turn c E L ev h s = (k, h', s')"
  shows "\<exists>cs. ear_calls h' = (if holds_lock ev then [EarUnlock] else []) @ cs @ ear_calls h \<and>
    EarUnlock \<notin> set cs \<and> count_list cs EarMute = count_list cs EarUnmute"
proof (cases "ev_state ev = AvSuccess \<and> ev_new ev \<noteq> (case ev_current ev of None \<Rightarrow> current_type h | Some t \<Rightarrow> t)")
  case True
  with assms have "ear_calls h' = EarUnlock # (if ev_need_mute ev then [EarUnmute] else []) @ [EarProcess (ev_new ev)] @
      (if ev_need_mute ev then [EarMute] else []) @ ear_calls h"
    by (cases "ev_current ev")
      (auto simp: headset_turn_def ear_changed_def ear_update_def Let_def split_beta split: if_splits)
  with True show ?thesis
    by (intro exI [of _ "(if ev_need_mute ev then [EarUnmute] else []) @ [EarProcess (ev_new ev)] @
      (if ev_need_mute ev then [EarMute] else [])"]) (simp add: holds_lock_def)
next
  case False
  with assms have "ear_calls h' = (if holds_lock ev then [EarUnlock] else []) @ ear_calls h"
    by (cases "ev_current ev"; cases "ev_state ev")
      (auto simp: headset_turn_def holds_lock_def Let_def split_beta split: if_splits)
  then show ?thesis by (intro exI [of _ "[]"]) simp
qed

lemma headset_turn_count:
  assumes "headset_turn c E L ev h s = (k, h', s')"
  shows "count_list (ear_calls h') EarUnlock = count_list (ear_calls h) EarUnlock + length (filter holds_lock [ev])"
    "count_list (ear_calls h') EarMute + count_list (ear_calls h) EarUnmute =
      count_list (ear_calls h') EarUnmute + count_list (ear_calls h) EarMute"
  using headset_turn_calls [OF assms] by auto

section \<open>Properties\<close>


definition ex_ear_event :: "int \<Rightarrow> ear_event" where
  "ex_ear_event t = \<lparr>ev_state = AvSuccess, ev_current = None, ev_new = t, ev_need_mute = True, ev_process = AvSuccess,
     ev_unlock = True\<rparr>"

definition ex_ear_lib :: asm_lib where
  "ex_ear_lib = \<lparr>lib_requests = (\<lambda>_. []), lib_ok = (\<lambda>_ _. True), lib_handle = (\<lambda>_ _. Some 3),
     dock_sound_ends = False\<rparr>"


text \<open>
  The earjack loop gives the lock of the audio library back exactly once for every answer with which
  it was taken, on every path, and takes back every mute.
\<close>

lemma earjack_lock_given_back:
  assumes "headset_loop c E L deinit evs h s = (r, h', s')"
  shows "\<exists>n \<le> length evs. (r = EarWaits \<longrightarrow> n = length evs) \<and>
    count_list (ear_calls h') EarUnlock = count_list (ear_calls h) EarUnlock + length (filter holds_lock (take n evs)) \<and>
    count_list (ear_calls h') EarMute + count_list (ear_calls h) EarUnmute =
      count_list (ear_calls h') EarUnmute + count_list (ear_calls h) EarMute"
  using assms
proof (induction evs arbitrary: h s)
  case (Cons ev evs)
  obtain k h1 s1 where t: "headset_turn c E L ev h s = (k, h1, s1)" by (cases "headset_turn c E L ev h s")
  note n = headset_turn_count [OF t]
  show ?case
  proof (cases k)
    case EarContinue
    with Cons.prems t have "headset_loop c E L deinit evs h1 s1 = (r, h', s')" by simp
    from Cons.IH [OF this] n show ?thesis by (elim exE conjE) (rule exI [of _ "Suc _"]; force)
  next
    case EarBreak
    with Cons.prems t n show ?thesis by (intro exI [of _ 1]) auto
  next
    case EarFail
    with Cons.prems t n show ?thesis by (intro exI [of _ 1]) auto
  qed
qed simp

text \<open>
  When the type of the accessory changes while it stays plugged in, for instance from headphones to a
  headset with a microphone, the loop goes on with the new type but the session manager changes
  nothing.
\<close>

lemma earjack_type_change_ignored:
  assumes "IS_AVAILABLE OUT_WIRED (asess s)" "ev_state ev = AvSuccess" "ev_current ev = None" "ev_new ev \<noteq> 0"
  shows "snd (snd (headset_turn c E L ev h s)) = s \<and> current_type (fst (snd (headset_turn c E L ev h s))) = ev_new ev"
  using assms
  by (auto simp: headset_turn_def ear_changed_def ear_update_def Let_def split_beta wired_available_def
      EARJACK_EJECTED_def)

end
