(* ===== verification/Startup.thy ===== *)
theory Startup
  imports Plugin_Loader Volume
begin

text \<open>
  Starting the server (\<^verbatim>\<open>server/mm_sound_server.c\<close>): its options and the order in which its parts are
  started and stopped, the volumes it restores (\<^verbatim>\<open>server/mm_sound_recovery.c\<close>), the wait for the audio
  session manager, and the pool of threads its parts use (\<^verbatim>\<open>server/mm_sound_thread_pool.c\<close>, with the
  pool of GLib, as the file is built).
\<close>

section \<open>Volumes\<close>

text \<open>The keys, by the volume type they belong to, and the default volumes.\<close>

definition keystr :: "volume_type list" where
  "keystr = [VOLUME_TYPE_SYSTEM, VOLUME_TYPE_NOTIFICATION, VOLUME_TYPE_ALARM, VOLUME_TYPE_RINGTONE, VOLUME_TYPE_MEDIA,
    VOLUME_TYPE_CALL, VOLUME_TYPE_EXT_ANDROID, VOLUME_TYPE_EXT_JAVA, VOLUME_TYPE_MEDIA]"

definition default_volumes :: "32 word list" where
  "default_volumes = [5, 7, 6, 13, 7, 7, 0, 11, 11]"

text \<open>The number of volumes of the audio library, whether a key can be written, and the device that plays.\<close>

record recovery_env =
  AVSYS_AUDIO_VOLUME_TYPE_MAX :: nat
  re_set_ok :: "volume_type \<Rightarrow> bool"
  re_out :: dev

type_synonym volume_db = "volume_type \<rightharpoonup> 32 word"

definition recover_volume :: "recovery_env \<Rightarrow> nat \<Rightarrow> volume_db \<Rightarrow> 32 word \<times> volume_db" where
  "recover_volume E i db =
    (let key = keystr ! i;
         (v, db1) = (case db key of
             Some x \<Rightarrow> (x, db)
           | None \<Rightarrow> (default_volumes ! i, if re_set_ok E key then db(key \<mapsto> default_volumes ! i) else db))
     in (if re_out E = OUT_WIRED then signed_drop_bit 8 v else v AND 0xFF, db1))"

text \<open>The keys are read one after another; there is no result when the loop leaves their array.  The volumes
  are passed to the audio library.\<close>

fun recover_from :: "recovery_env \<Rightarrow> nat list \<Rightarrow> volume_db \<Rightarrow> (32 word list \<times> volume_db) option" where
  "recover_from E [] db = Some ([], db)"
| "recover_from E (i # is) db =
    (if i \<ge> length keystr then None
     else (case recover_volume E i db of (v, db1) \<Rightarrow> map_option (\<lambda>(vs, d). (v # vs, d)) (recover_from E is db1)))"

definition sound_system_bootup_recovery :: "recovery_env \<Rightarrow> volume_db \<Rightarrow> (32 word list \<times> volume_db) option" where
  "sound_system_bootup_recovery E db = recover_from E [0..<AVSYS_AUDIO_VOLUME_TYPE_MAX E] db"

section \<open>The thread pool\<close>

record thread_info =
  ti_func :: ptr
  ti_param :: int

text \<open>The descriptions of the tasks that are allocated, those that are queued, and the calls made.\<close>

record pool =
  tp_created :: bool
  tp_heap :: "nat \<rightharpoonup> thread_info"
  tp_queue :: "nat list"
  tp_ran :: "(ptr \<times> int) list"

text \<open>Whether there is memory and where, and whether the pool takes the task.\<close>

record pool_env =
  pe_malloc :: "nat option"
  pe_push :: bool

definition MMSoundThreadPoolRun :: "pool_env \<Rightarrow> int \<Rightarrow> ptr \<Rightarrow> pool \<Rightarrow> mm_err \<times> pool" where
  "MMSoundThreadPoolRun E param func s =
    (case pe_malloc E of
       None \<Rightarrow> (MM_ERROR_SOUND_INTERNAL, s)
     | Some a \<Rightarrow>
         (let s1 = s\<lparr>tp_heap := (tp_heap s)(a \<mapsto> \<lparr>ti_func = func, ti_param = param\<rparr>)\<rparr> in
          if pe_push E then (MM_ERROR_NONE, s1\<lparr>tp_queue := tp_queue s1 @ [a]\<rparr>)
          else (MM_ERROR_SOUND_INTERNAL, s1)))"

text \<open>A thread of the pool takes a description, calls its function and frees it.\<close>

definition ThreadWork :: "nat option \<Rightarrow> pool \<Rightarrow> pool" where
  "ThreadWork data s =
    (case data of
       None \<Rightarrow> s
     | Some a \<Rightarrow>
         (case tp_heap s a of
            None \<Rightarrow> s
          | Some info \<Rightarrow>
              (let s1 = (if ti_func info \<noteq> 0 then s\<lparr>tp_ran := (ti_func info, ti_param info) # tp_ran s\<rparr> else s)
               in s1\<lparr>tp_heap := (tp_heap s1)(a := None)\<rparr>)))"

text \<open>Any queued task may be the next one a thread takes.\<close>

definition pool_dispatch :: "nat \<Rightarrow> pool \<Rightarrow> pool option" where
  "pool_dispatch i s =
    (if i < length (tp_queue s)
     then Some (ThreadWork (Some (tp_queue s ! i)) (s\<lparr>tp_queue := take i (tp_queue s) @ drop (Suc i) (tp_queue s)\<rparr>))
     else None)"

datatype pool_event = Push pool_env int ptr | Dispatch nat

text \<open>Tasks come and are taken in any order; memory that is in use is not given out again.\<close>

fun pool_events :: "pool_event list \<Rightarrow> pool \<Rightarrow> pool option" where
  "pool_events [] s = Some s"
| "pool_events (Push E param func # evs) s =
    (if (case pe_malloc E of None \<Rightarrow> False | Some a \<Rightarrow> tp_heap s a \<noteq> None) then None
     else pool_events evs (snd (MMSoundThreadPoolRun E param func s)))"
| "pool_events (Dispatch i # evs) s =
    (case pool_dispatch i s of None \<Rightarrow> None | Some t \<Rightarrow> pool_events evs t)"

definition MAX_UNUSED_THREADS_IN_THREADPOOL :: nat where "MAX_UNUSED_THREADS_IN_THREADPOOL = 10"

text \<open>The pool starts with ten tasks that only sleep.\<close>

fun reserve_threads :: "(nat \<Rightarrow> pool_env) \<Rightarrow> ptr \<Rightarrow> nat list \<Rightarrow> pool \<Rightarrow> pool" where
  "reserve_threads E dummy [] s = s"
| "reserve_threads E dummy (i # is) s =
    reserve_threads E dummy is (snd (MMSoundThreadPoolRun (E i) (int i) dummy s))"

definition MMSoundThreadPoolInit :: "bool \<Rightarrow> (nat \<Rightarrow> pool_env) \<Rightarrow> ptr \<Rightarrow> pool \<Rightarrow> mm_err \<times> pool" where
  "MMSoundThreadPoolInit created E dummy s =
    (if \<not> created then (MM_ERROR_SOUND_INTERNAL, s\<lparr>tp_created := False\<rparr>)
     else (MM_ERROR_NONE, reserve_threads E dummy [0..<MAX_UNUSED_THREADS_IN_THREADPOOL] (s\<lparr>tp_created := True\<rparr>)))"

section \<open>Waiting for the audio session manager\<close>

text \<open>The answers to the question for the key; without one the value stays.  The result is the number of
  questions asked, when the wait ends.\<close>

fun wait_for_asm_ready :: "int \<Rightarrow> int option list \<Rightarrow> nat option" where
  "wait_for_asm_ready asm_ready [] = (if asm_ready \<noteq> 0 then Some 0 else None)"
| "wait_for_asm_ready asm_ready (a # as) =
    (if asm_ready \<noteq> 0 then Some 0
     else map_option Suc (wait_for_asm_ready (case a of Some v \<Rightarrow> v | None \<Rightarrow> asm_ready) as))"

section \<open>Options\<close>

record server_arg =
  plugdir :: string
  startserver :: bool
  printlist :: bool
  testmode :: bool

datatype main_call =
    Recovery | HeynotiInit | HeynotiClose
  | ThreadPoolInit | RunInit string | CodecInit string | IpcInit | PulseInit | ASMInit | WaitASM | DeviceInit
  | HeadsetInit | DockInit | SessionInit
  | RunRunAll | CheckHibernation | IpcReady
  | RunStopAll | IpcFini | CodecFini | RunFini | ThreadPoolFini | DockFini | HeadsetFini | SessionFini
  | DeviceFini | ASMFini | PulseFini
  | RestoreHandler int | Raise int

text \<open>The options as \<^verbatim>\<open>getopt_long\<close> gives them.  There are no arguments after the usage has been printed.\<close>

fun option_loop :: "(char \<times> string) list \<Rightarrow> server_arg \<Rightarrow> main_call list \<Rightarrow> server_arg option \<times> main_call list" where
  "option_loop [] a cs = (Some a, cs)"
| "option_loop ((c, optarg) # opts) a cs =
    (if c = CHR ''S'' then option_loop opts (a\<lparr>startserver := True\<rparr>) cs
     else if c = CHR ''L'' then option_loop opts (a\<lparr>printlist := True\<rparr>) cs
     else if c = CHR ''R'' then option_loop opts a (cs @ [CodecInit (plugdir a)])
     else if c = CHR ''P'' then option_loop opts (a\<lparr>plugdir := optarg\<rparr>) cs
     else if c = CHR ''T'' then option_loop opts (a\<lparr>testmode := True\<rparr>) cs
     else (None, cs))"

definition getOption :: "string option \<Rightarrow> nat \<Rightarrow> (char \<times> string) list \<Rightarrow> server_arg option \<times> main_call list" where
  "getOption plugin_env argc opts =
    (case option_loop opts \<lparr>plugdir = (case plugin_env of None \<Rightarrow> PLUGIN_DIR | Some d \<Rightarrow> d), startserver = False,
        printlist = False, testmode = False\<rparr> [] of
       (None, cs) \<Rightarrow> (None, cs)
     | (Some a, cs) \<Rightarrow> if argc = 1 then (None, cs) else (Some a, cs))"

section \<open>The main function\<close>

definition main_start :: "server_arg \<Rightarrow> main_call list" where
  "main_start a =
    [ThreadPoolInit, RunInit (plugdir a), CodecInit (plugdir a)] @ (if testmode a then [] else [IpcInit]) @
    [PulseInit, ASMInit, WaitASM, DeviceInit, HeadsetInit, DockInit, SessionInit]"

definition main_stop :: "server_arg \<Rightarrow> main_call list" where
  "main_stop a =
    [RunStopAll] @ (if testmode a then [] else [IpcFini]) @
    [CodecFini, RunFini, ThreadPoolFini, DockFini, HeadsetFini, SessionFini, DeviceFini, ASMFini, PulseFini, HeynotiClose]"

text \<open>The calls of the main function, when the loop of the dispatcher ends, and its result.  The server does not
  fork, as the system monitors its processes.\<close>

definition server_main :: "string option \<Rightarrow> nat \<Rightarrow> (char \<times> string) list \<Rightarrow> bool \<Rightarrow> int \<times> main_call list" where
  "server_main plugin_env argc opts loop_thread =
    (case getOption plugin_env argc opts of
       (None, cs) \<Rightarrow> (1, cs)
     | (Some a, cs) \<Rightarrow>
         (let cs1 = cs @ [Recovery, HeynotiInit] in
          if \<not> loop_thread then (3, cs1)
          else
            (let cs2 = (if startserver a \<or> printlist a then cs1 @ main_start a else cs1);
                 cs3 = (if startserver a then cs2 @ [RunRunAll, CheckHibernation, IpcReady] else cs2)
             in (0, if startserver a \<or> printlist a then cs3 @ main_stop a else cs3))))"

definition exit_handler :: "int list \<Rightarrow> int \<Rightarrow> main_call list" where
  "exit_handler handled sig = RunStopAll # (if sig \<in> set handled then [RestoreHandler sig] else []) @ [Raise sig]"

text \<open>What the calls do to the plugins.\<close>

fun plugin_call ::
  "loader \<Rightarrow> (nat \<Rightarrow> (mm_err \<times> 'w codec_interface) option) \<Rightarrow> main_call \<Rightarrow> 'w server_plugins \<Rightarrow> 'w server_plugins option" where
  "plugin_call L G (RunInit d) s = map_option snd (MMSoundMgrRunInit L d s)"
| "plugin_call L G (CodecInit d) s = MMSoundMgrCodecInit L G d s"
| "plugin_call L G CodecFini s = MMSoundMgrCodecFini s"
| "plugin_call L G RunFini s = MMSoundMgrRunFini s"
| "plugin_call L G c s = Some s"

fun plugin_calls ::
  "loader \<Rightarrow> (nat \<Rightarrow> (mm_err \<times> 'w codec_interface) option) \<Rightarrow> main_call list \<Rightarrow> 'w server_plugins \<Rightarrow> 'w server_plugins option" where
  "plugin_calls L G [] s = Some s"
| "plugin_calls L G (c # cs) s = (case plugin_call L G c s of None \<Rightarrow> None | Some t \<Rightarrow> plugin_calls L G cs t)"

end
