(* ===== verification/Startup_Props.thy ===== *)
theory Startup_Props
  imports Startup Plugin_Loader_Props
begin

text \<open>
  Restoring the volumes, the tasks of the thread pool, and the start and the end of the server.
\<close>

section \<open>Volumes\<close>

definition volume_part_of :: "recovery_env \<Rightarrow> 32 word \<Rightarrow> 32 word" where
  "volume_part_of E v = (if re_out E = OUT_WIRED then signed_drop_bit 8 v else v AND 0xFF)"

lemma recover_volume_parts:
  assumes "recover_volume E i db = (v, db1)" "\<forall>k. re_set_ok E k"
  shows "v = volume_part_of E (the (db1 (keystr ! i)))" "db1 (keystr ! i) \<noteq> None" "db k = Some x \<Longrightarrow> db1 k = Some x"
    "k \<noteq> keystr ! i \<Longrightarrow> db1 k = db k"
  using assms by (auto simp: recover_volume_def volume_part_of_def Let_def split: option.splits if_splits)

lemma recover_from_parts:
  "recover_from E is db = Some (vs, db') \<Longrightarrow> \<forall>k. re_set_ok E k \<Longrightarrow>
    vs = map (\<lambda>i. volume_part_of E (the (db' (keystr ! i)))) is \<and> (\<forall>i \<in> set is. db' (keystr ! i) \<noteq> None) \<and>
    (\<forall>k x. db k = Some x \<longrightarrow> db' k = Some x) \<and> (\<forall>k. k \<notin> (!) keystr ` set is \<longrightarrow> db' k = db k)"
proof (induction "is" arbitrary: db vs)
  case (Cons i "is")
  obtain v db1 where r: "recover_volume E i db = (v, db1)" by (cases "recover_volume E i db")
  with Cons.prems obtain ws where w: "recover_from E is db1 = Some (ws, db')" "vs = v # ws"
    by (auto split: if_splits)
  note ih = Cons.IH [OF w(1) Cons.prems(2)]
  note p = recover_volume_parts [OF r Cons.prems(2)]
  from p(2) obtain x where x: "db1 (keystr ! i) = Some x" by blast
  with ih have "db' (keystr ! i) = Some x" by blast
  with x ih w(2) p(1,3,4) show ?case by auto
qed simp

lemma recover_from_again:
  "\<forall>i \<in> set is. db (keystr ! i) \<noteq> None \<and> i < length keystr \<Longrightarrow>
    recover_from E is db = Some (map (\<lambda>i. volume_part_of E (the (db (keystr ! i)))) is, db)"
  by (induction "is") (auto simp: recover_volume_def volume_part_of_def Let_def)

lemma recover_from_defined:
  "recover_from E is db \<noteq> None \<longleftrightarrow> (\<forall>i \<in> set is. i < length keystr)"
proof (induction "is" arbitrary: db)
  case (Cons i "is")
  have "recover_from E (i # is) db \<noteq> None \<longleftrightarrow>
      i < length keystr \<and> recover_from E is (snd (recover_volume E i db)) \<noteq> None"
    by (simp add: split_beta not_le) blast
  with Cons show ?case by simp
qed simp

section \<open>The thread pool\<close>

text \<open>The tasks a sequence of events gives to the pool, and the number of those it refuses after their
  description was allocated.\<close>

fun accepted :: "pool_event list \<Rightarrow> (ptr \<times> int) list" where
  "accepted [] = []"
| "accepted (Push E param func # evs) =
    (if pe_malloc E \<noteq> None \<and> pe_push E \<and> func \<noteq> 0 then [(func, param)] else []) @ accepted evs"
| "accepted (Dispatch i # evs) = accepted evs"

fun refused :: "pool_event list \<Rightarrow> nat" where
  "refused [] = 0"
| "refused (Push E param func # evs) = (if pe_malloc E \<noteq> None \<and> \<not> pe_push E then 1 else 0) + refused evs"
| "refused (Dispatch i # evs) = refused evs"

definition queued :: "pool \<Rightarrow> (ptr \<times> int) list" where
  "queued s = filter (\<lambda>t. fst t \<noteq> 0) (map (\<lambda>a. (ti_func (the (tp_heap s a)), ti_param (the (tp_heap s a)))) (tp_queue s))"

definition pool_wf :: "pool \<Rightarrow> bool" where
  "pool_wf s \<longleftrightarrow> finite (dom (tp_heap s)) \<and> distinct (tp_queue s) \<and> set (tp_queue s) \<subseteq> dom (tp_heap s)"

lemma pool_push_parts:
  fixes func :: ptr and param :: int
  assumes "pool_wf s" "pe_malloc E = Some a" "tp_heap s a = None"
  defines "t \<equiv> snd (MMSoundThreadPoolRun E param func s)"
  shows "pool_wf t" "tp_ran t = tp_ran s"
    "queued t = queued s @ (if pe_push E \<and> func \<noteq> 0 then [(func, param)] else [])"
    "card (dom (tp_heap t)) = Suc (card (dom (tp_heap s)))"
    "length (tp_queue t) = length (tp_queue s) + (if pe_push E then 1 else 0)"
proof -
  have a: "a \<notin> set (tp_queue s)" "a \<notin> dom (tp_heap s)" using assms(1,3) by (auto simp: pool_wf_def)
  have eq: "map f (tp_queue s) = map g (tp_queue s)" if "\<And>b. b \<noteq> a \<Longrightarrow> f b = g b" for f g :: "nat \<Rightarrow> ptr \<times> int"
    using a that by (metis map_eq_conv)
  show "pool_wf t" using assms(1,2) a by (auto simp: pool_wf_def t_def MMSoundThreadPoolRun_def Let_def)
  show "tp_ran t = tp_ran s" "length (tp_queue t) = length (tp_queue s) + (if pe_push E then 1 else 0)"
    using assms(2) by (simp_all add: t_def MMSoundThreadPoolRun_def Let_def)
  have "dom (tp_heap t) = insert a (dom (tp_heap s))"
    using assms(2) by (auto simp: t_def MMSoundThreadPoolRun_def Let_def)
  with a(2) assms(1) show "card (dom (tp_heap t)) = Suc (card (dom (tp_heap s)))" by (simp add: pool_wf_def)
  have heap: "tp_heap t = (tp_heap s)(a \<mapsto> \<lparr>ti_func = func, ti_param = param\<rparr>)"
    "tp_queue t = tp_queue s @ (if pe_push E then [a] else [])"
    using assms(2) by (simp_all add: t_def MMSoundThreadPoolRun_def Let_def)
  have "map (\<lambda>b. (ti_func (the (tp_heap t b)), ti_param (the (tp_heap t b)))) (tp_queue s)
      = map (\<lambda>b. (ti_func (the (tp_heap s b)), ti_param (the (tp_heap s b)))) (tp_queue s)"
    by (rule eq) (simp add: heap)
  then have "queued t = queued s @ filter (\<lambda>t. fst t \<noteq> 0)
      (map (\<lambda>b. (ti_func (the (tp_heap t b)), ti_param (the (tp_heap t b)))) (if pe_push E then [a] else []))"
    by (simp only: queued_def heap(2) map_append filter_append)
  then show "queued t = queued s @ (if pe_push E \<and> func \<noteq> 0 then [(func, param)] else [])"
    by (simp add: heap(1))
qed

lemma pool_dispatch_parts:
  assumes "pool_wf s" "pool_dispatch i s = Some t"
  shows "pool_wf t" "mset (tp_ran t) + mset (queued t) = mset (tp_ran s) + mset (queued s)"
    "Suc (card (dom (tp_heap t))) = card (dom (tp_heap s))" "Suc (length (tp_queue t)) = length (tp_queue s)"
proof -
  define a where "a = tp_queue s ! i"
  define qs where "qs = take i (tp_queue s) @ drop (Suc i) (tp_queue s)"
  from assms(2) have i: "i < length (tp_queue s)" by (simp add: pool_dispatch_def split: if_splits)
  then have q: "tp_queue s = take i (tp_queue s) @ a # drop (Suc i) (tp_queue s)" by (simp add: a_def id_take_nth_drop)
  then have m: "mset (tp_queue s) = add_mset a (mset qs)" by (metis mset.simps(2) qs_def union_mset_add_mset_right mset_append)
  have "distinct (take i (tp_queue s) @ a # drop (Suc i) (tp_queue s))"
    using assms(1) by (subst q [symmetric]) (simp add: pool_wf_def)
  moreover have "a \<in> dom (tp_heap s)" using assms(1) nth_mem [OF i] unfolding pool_wf_def a_def by blast
  ultimately have a: "a \<notin> set qs" "distinct qs" "a \<in> dom (tp_heap s)" by (auto simp: qs_def)
  then obtain info where info: "tp_heap s a = Some info" by blast
  let ?f = "\<lambda>h b. (ti_func (the (h b)), ti_param (the (h b)))"
  have t: "tp_heap t = (tp_heap s)(a := None)" "tp_queue t = qs"
    "tp_ran t = (if ti_func info \<noteq> 0 then [(ti_func info, ti_param info)] else []) @ tp_ran s"
    using assms(2) i info
    by (auto simp: pool_dispatch_def ThreadWork_def a_def qs_def Let_def)
  show "Suc (length (tp_queue t)) = length (tp_queue s)" using t(2) m by (metis size_add_mset size_mset)
  have "set qs \<subseteq> set (tp_queue s)" by (auto simp: qs_def dest: in_set_takeD in_set_dropD)
  with assms(1) a(1,2) have "set qs \<subseteq> dom (tp_heap s) - {a}" "finite (dom (tp_heap s))" "distinct qs"
    by (auto simp: pool_wf_def)
  then show "pool_wf t" by (simp add: pool_wf_def t)
  from card_Suc_Diff1 [OF \<open>finite (dom (tp_heap s))\<close> a(3)]
  show "Suc (card (dom (tp_heap t))) = card (dom (tp_heap s))" by (simp add: t(1))
  have "map (?f (tp_heap t)) qs = map (?f (tp_heap s)) qs" using a(1) t(1) by (intro map_cong) auto
  then have "queued t = filter (\<lambda>t. fst t \<noteq> 0) (map (?f (tp_heap s)) qs)" by (simp only: queued_def t(2))
  then have "mset (queued t) = filter_mset (\<lambda>t. fst t \<noteq> 0) (image_mset (?f (tp_heap s)) (mset qs))" by simp
  moreover have "mset (queued s) = filter_mset (\<lambda>t. fst t \<noteq> 0) (image_mset (?f (tp_heap s)) (mset (tp_queue s)))"
    by (simp add: queued_def)
  ultimately show "mset (tp_ran t) + mset (queued t) = mset (tp_ran s) + mset (queued s)"
    using info by (simp add: m t(3))
qed

lemma pool_events_parts:
  "pool_events evs s = Some t \<Longrightarrow> pool_wf s \<Longrightarrow>
    pool_wf t \<and> mset (tp_ran t) + mset (queued t) = mset (tp_ran s) + mset (queued s) + mset (accepted evs) \<and>
    card (dom (tp_heap t)) + length (tp_queue s) = card (dom (tp_heap s)) + length (tp_queue t) + refused evs"
proof (induction evs arbitrary: s rule: accepted.induct)
  case (2 E param func evs)
  show ?case
  proof (cases "pe_malloc E")
    case None
    with "2.prems" have "pool_events evs s = Some t" by (simp add: MMSoundThreadPoolRun_def)
    from "2.IH" [OF this "2.prems"(2)] None show ?thesis by simp
  next
    case (Some a)
    with "2.prems"(1) have a: "tp_heap s a = None"
      "pool_events evs (snd (MMSoundThreadPoolRun E param func s)) = Some t"
      by (auto split: if_splits)
    note p = pool_push_parts [OF "2.prems"(2) Some a(1), of param func]
    from "2.IH" [OF a(2) p(1)] p(2-5) Some show ?thesis by (auto simp: ac_simps)
  qed
next
  case (3 i evs)
  then obtain u where u: "pool_dispatch i s = Some u" "pool_events evs u = Some t" by (auto split: option.splits)
  note p = pool_dispatch_parts [OF "3.prems"(2) u(1)]
  from "3.IH" [OF u(2) p(1)] p(2-4) show ?case by auto
qed simp

section \<open>The start and the end of the server\<close>

text \<open>The modules that are open are those of before and those of the two lists.\<close>

definition loaded :: "nat multiset \<Rightarrow> nat list option \<Rightarrow> nat list option \<Rightarrow> 'w server_plugins \<Rightarrow> bool" where
  "loaded base run codec s \<longleftrightarrow>
    g_run_plugins s = map_option (\<lambda>hs. plugin_array MM_SOUND_PLUGIN_TYPE_RUN hs) run \<and>
    g_codec_plugins s = map_option (\<lambda>hs. plugin_array MM_SOUND_PLUGIN_TYPE_CODEC hs) codec \<and>
    mset (md_open (sv_modules s)) =
      base + (case run of None \<Rightarrow> {#} | Some hs \<Rightarrow> mset hs) + (case codec of None \<Rightarrow> {#} | Some hs \<Rightarrow> mset hs)"

definition loadable :: "loader \<Rightarrow> string \<Rightarrow> bool" where
  "loadable L d \<longleftrightarrow> (\<exists>c es. scannable L d c es \<and>
    (\<forall>type \<in> {MM_SOUND_PLUGIN_TYPE_CODEC, MM_SOUND_PLUGIN_TYPE_RUN}. length (found_modules L d c es type) < PLUGIN_ARRAY))"

lemma loadable_scan:
  assumes "loadable L d" "type \<in> {MM_SOUND_PLUGIN_TYPE_CODEC, MM_SOUND_PLUGIN_TYPE_RUN}"
  obtains hs c where "\<And>s. MMSoundPluginScan L d type s =
    Some (Inr (plugin_array type hs), s\<lparr>md_cwd := c, md_open := rev hs @ md_open s\<rparr>)"
proof -
  from assms obtain c es where "scannable L d c es" "length (found_modules L d c es type) < PLUGIN_ARRAY"
    by (auto simp: loadable_def)
  from that [OF scan_found [OF this]] show thesis .
qed

lemma not_none_types: "MM_SOUND_PLUGIN_TYPE_CODEC \<noteq> MM_SOUND_PLUGIN_TYPE_NONE" "MM_SOUND_PLUGIN_TYPE_RUN \<noteq> MM_SOUND_PLUGIN_TYPE_NONE"
  by (simp_all add: plugin_types)

lemmas known_arrays = not_none_types [THEN release_array] not_none_types [THEN until_end_array]

lemma loaded_codec_init:
  assumes "loaded base run codec s" "loadable L d"
  shows "\<exists>t hs. MMSoundMgrCodecInit L G d s = Some t \<and> loaded base run (Some hs) t"
proof -
  obtain hs c where scan: "\<And>m. MMSoundPluginScan L d MM_SOUND_PLUGIN_TYPE_CODEC m =
      Some (Inr (plugin_array MM_SOUND_PLUGIN_TYPE_CODEC hs), m\<lparr>md_cwd := c, md_open := rev hs @ md_open m\<rparr>)"
    using loadable_scan [OF assms(2)] by blast
  obtain m where m: "(case g_codec_plugins s of None \<Rightarrow> Some (sv_modules s) | Some ps \<Rightarrow> MMSoundPluginRelease ps (sv_modules s))
      = Some m" "mset (md_open m) = base + (case run of None \<Rightarrow> {#} | Some hs \<Rightarrow> mset hs)"
    using assms(1) by (cases codec) (simp_all add: loaded_def known_arrays)
  have "\<exists>k. MMSoundMgrCodecInit L G d s = Some (s\<lparr>sv_modules := m\<lparr>md_cwd := c, md_open := rev hs @ md_open m\<rparr>,
      g_codec_plugins := Some (plugin_array MM_SOUND_PLUGIN_TYPE_CODEC hs), sv_codec := k\<rparr>)"
    unfolding MMSoundMgrCodecInit_def Let_def m(1) by (simp add: scan known_arrays) blast
  then obtain k where "MMSoundMgrCodecInit L G d s = Some (s\<lparr>sv_modules := m\<lparr>md_cwd := c, md_open := rev hs @ md_open m\<rparr>,
      g_codec_plugins := Some (plugin_array MM_SOUND_PLUGIN_TYPE_CODEC hs), sv_codec := k\<rparr>)" (is "_ = Some ?t") ..
  moreover from assms(1) m(2) have "loaded base run (Some hs) ?t" by (simp add: loaded_def)
  ultimately show ?thesis by blast
qed

lemma loaded_run_init:
  assumes "loaded base None codec s" "loadable L d"
  shows "\<exists>e t hs. MMSoundMgrRunInit L d s = Some (e, t) \<and> loaded base (Some hs) codec t"
proof -
  obtain hs c where scan: "\<And>m. MMSoundPluginScan L d MM_SOUND_PLUGIN_TYPE_RUN m =
      Some (Inr (plugin_array MM_SOUND_PLUGIN_TYPE_RUN hs), m\<lparr>md_cwd := c, md_open := rev hs @ md_open m\<rparr>)"
    using loadable_scan [OF assms(2)] by blast
  let ?t = "s\<lparr>sv_modules := (sv_modules s)\<lparr>md_cwd := c, md_open := rev hs @ md_open (sv_modules s)\<rparr>,
    g_run_plugins := Some (plugin_array MM_SOUND_PLUGIN_TYPE_RUN hs)\<rparr>"
  from assms(1) have "MMSoundMgrRunInit L d s = Some (MM_ERROR_NONE, ?t)"
    by (simp add: MMSoundMgrRunInit_def scan loaded_def)
  moreover from assms(1) have "loaded base (Some hs) codec ?t" by (simp add: loaded_def)
  ultimately show ?thesis by blast
qed

lemma loaded_unload:
  assumes "loaded base (Some rh) (Some ch) s"
  shows "\<exists>t u. MMSoundMgrCodecFini s = Some t \<and> MMSoundMgrRunFini t = Some u \<and> loaded base None None u"
proof -
  let ?t = "s\<lparr>sv_modules := (sv_modules s)\<lparr>md_open := fold remove1 ch (md_open (sv_modules s))\<rparr>, g_codec_plugins := None,
    sv_codec := codec_fini (sv_codec s)\<rparr>"
  from assms have "MMSoundMgrCodecFini s = Some ?t" "loaded base (Some rh) None ?t"
    by (simp_all add: MMSoundMgrCodecFini_def loaded_def known_arrays)
  moreover from this(2) have "MMSoundMgrRunFini ?t = Some (?t\<lparr>sv_modules := (sv_modules ?t)
      \<lparr>md_open := fold remove1 rh (md_open (sv_modules ?t))\<rparr>, g_run_plugins := None\<rparr>)"
    "loaded base None None (?t\<lparr>sv_modules := (sv_modules ?t)
      \<lparr>md_open := fold remove1 rh (md_open (sv_modules ?t))\<rparr>, g_run_plugins := None\<rparr>)"
    by (simp_all add: MMSoundMgrRunFini_def loaded_def known_arrays)
  ultimately show ?thesis by blast
qed

lemma plugin_calls_append:
  "plugin_calls L G (cs @ ds) s = (case plugin_calls L G cs s of None \<Rightarrow> None | Some t \<Rightarrow> plugin_calls L G ds t)"
  by (induction cs arbitrary: s) (auto split: option.split)

lemma option_loop_calls:
  assumes "option_loop opts a cs = (r, ds)"
  shows "\<exists>ps. ds = cs @ map CodecInit ps \<and> set ps \<subseteq> insert (plugdir a) (snd ` set opts) \<and>
    (\<forall>b. r = Some b \<longrightarrow> plugdir b \<in> insert (plugdir a) (snd ` set opts))"
  using assms
proof (induction opts arbitrary: a cs)
  case (Cons o' opts)
  obtain c v where o': "o' = (c, v)" by (cases o')
  consider (S) "c = CHR ''S''" | (L) "c = CHR ''L''" | (R) "c = CHR ''R''" | (P) "c = CHR ''P''" | (T) "c = CHR ''T''"
    | (other) "c \<notin> {CHR ''S'', CHR ''L'', CHR ''R'', CHR ''P'', CHR ''T''}" by blast
  then show ?case
  proof cases
    case R
    with Cons.prems o' have "option_loop opts a (cs @ [CodecInit (plugdir a)]) = (r, ds)" by simp
    from Cons.IH [OF this] obtain ps where "ds = cs @ map CodecInit (plugdir a # ps)"
      "set ps \<subseteq> insert (plugdir a) (snd ` set opts)" "\<forall>b. r = Some b \<longrightarrow> plugdir b \<in> insert (plugdir a) (snd ` set opts)"
      by auto
    then show ?thesis by (intro exI [of _ "plugdir a # ps"]) auto
  next
    case P
    with Cons.prems o' have "option_loop opts (a\<lparr>plugdir := v\<rparr>) cs = (r, ds)" by simp
    from Cons.IH [OF this] show ?thesis by (auto simp: o')
  next
    case S
    with Cons.prems o' have "option_loop opts (a\<lparr>startserver := True\<rparr>) cs = (r, ds)" by simp
    from Cons.IH [OF this] show ?thesis by (auto simp: o')
  next
    case L
    with Cons.prems o' have "option_loop opts (a\<lparr>printlist := True\<rparr>) cs = (r, ds)" by simp
    from Cons.IH [OF this] show ?thesis by (auto simp: o')
  next
    case T
    with Cons.prems o' have "option_loop opts (a\<lparr>testmode := True\<rparr>) cs = (r, ds)" by simp
    from Cons.IH [OF this] show ?thesis by (auto simp: o')
  next
    case other
    with Cons.prems o' show ?thesis by (intro exI [of _ "[]"]) auto
  qed
qed auto

lemma plugin_calls_codecs:
  "loaded base None codec s \<Longrightarrow> \<forall>d \<in> set ps. loadable L d \<Longrightarrow>
    \<exists>t codec'. plugin_calls L G (map CodecInit ps) s = Some t \<and> loaded base None codec' t"
proof (induction ps arbitrary: s codec)
  case (Cons p ps)
  from loaded_codec_init [OF Cons.prems(1), of L p G] Cons.prems(2) obtain t hs where
    t: "MMSoundMgrCodecInit L G p s = Some t" "loaded base None (Some hs) t" by auto
  from Cons.IH [OF t(2)] Cons.prems(2) t(1) show ?case by simp
qed auto

lemma option_loop_flags:
  "option_loop opts a cs = (Some b, ds) \<Longrightarrow>
    (startserver b \<longleftrightarrow> startserver a \<or> CHR ''S'' \<in> fst ` set opts) \<and> (printlist b \<longleftrightarrow> printlist a \<or> CHR ''L'' \<in> fst ` set opts)"
proof (induction opts arbitrary: a cs)
  case (Cons x opts)
  obtain c v where x: "x = (c, v)" by (cases x)
  show ?case
    using Cons.prems Cons.IH unfolding x by (simp split: if_splits)
qed simp

text \<open>The calls between loading and unloading leave the plugins alone.\<close>

lemma plugin_calls_main:
  assumes "loaded base None codec s" "loadable L (plugdir a)"
  shows "\<exists>t. plugin_calls L G ([Recovery, HeynotiInit] @ main_start a @ (if b then [RunRunAll, CheckHibernation, IpcReady] else []) @
      main_stop a) s = Some t \<and> loaded base None None t"
proof -
  from loaded_run_init [OF assms] obtain e s1 rh where
    s1: "MMSoundMgrRunInit L (plugdir a) s = Some (e, s1)" "loaded base (Some rh) codec s1" by blast
  from loaded_codec_init [OF s1(2) assms(2), of G] obtain s2 ch where
    s2: "MMSoundMgrCodecInit L G (plugdir a) s1 = Some s2" "loaded base (Some rh) (Some ch) s2" by blast
  from loaded_unload [OF s2(2)] obtain s3 s4 where
    s4: "MMSoundMgrCodecFini s2 = Some s3" "MMSoundMgrRunFini s3 = Some s4" "loaded base None None s4" by blast
  then show ?thesis
    by (cases "testmode a"; cases b) (simp_all add: main_start_def main_stop_def s1(1) s2(1))
qed

definition ex_recovery :: recovery_env where
  "ex_recovery = \<lparr>AVSYS_AUDIO_VOLUME_TYPE_MAX = 9, re_set_ok = (\<lambda>_. True), re_out = OUT_WIRED\<rparr>"

section \<open>Properties\<close>

text \<open>
  C36: a server that is started, or lists its plugins, with any other options, closes at its end exactly the
  modules that it opened, and has no list of plugins left.
\<close>

theorem server_main_closes_modules:
  assumes "server_main plugin_env argc opts True = (0, cs)" "CHR ''S'' \<in> fst ` set opts \<or> CHR ''L'' \<in> fst ` set opts"
    "\<forall>d \<in> insert (case plugin_env of None \<Rightarrow> PLUGIN_DIR | Some d \<Rightarrow> d) (snd ` set opts). loadable L d"
    "g_run_plugins s = None" "g_codec_plugins s = None"
  shows "\<exists>t. plugin_calls L G cs s = Some t \<and> mset (md_open (sv_modules t)) = mset (md_open (sv_modules s)) \<and>
    g_run_plugins t = None \<and> g_codec_plugins t = None"
proof -
  let ?a = "\<lparr>plugdir = (case plugin_env of None \<Rightarrow> PLUGIN_DIR | Some d \<Rightarrow> d), startserver = False, printlist = False,
    testmode = False\<rparr>"
  obtain r ds where loop: "option_loop opts ?a [] = (r, ds)" by (cases "option_loop opts ?a []")
  with assms(1) obtain a where a: "r = Some a" "getOption plugin_env argc opts = (Some a, ds)"
    by (cases r) (auto simp: server_main_def getOption_def split: if_splits)
  from option_loop_flags [OF loop [unfolded a(1)]] assms(2) have flags: "startserver a \<or> printlist a" by simp
  from option_loop_calls [OF loop] obtain ps where
    "ds = map CodecInit ps" "set ps \<subseteq> insert (plugdir ?a) (snd ` set opts)" "plugdir a \<in> insert (plugdir ?a) (snd ` set opts)"
    using a(1) by auto
  with assms(3) have ps: "ds = map CodecInit ps" "\<forall>d \<in> set ps. loadable L d" "loadable L (plugdir a)"
    unfolding server_arg.simps by blast+
  have s: "loaded (mset (md_open (sv_modules s))) None None s" using assms(4,5) by (simp add: loaded_def)
  from plugin_calls_codecs [OF s ps(2), of G] obtain s1 codec where
    s1: "plugin_calls L G ds s = Some s1" "loaded (mset (md_open (sv_modules s))) None codec s1" using ps(1) by blast
  have "cs = ds @ [Recovery, HeynotiInit] @ main_start a @
      (if startserver a then [RunRunAll, CheckHibernation, IpcReady] else []) @ main_stop a"
    using assms(1) flags by (auto simp: server_main_def a(2) Let_def)
  moreover from plugin_calls_main [OF s1(2) ps(3), of G "startserver a"] obtain t where
    "plugin_calls L G ([Recovery, HeynotiInit] @ main_start a @
      (if startserver a then [RunRunAll, CheckHibernation, IpcReady] else []) @ main_stop a) s1 = Some t"
    "loaded (mset (md_open (sv_modules s))) None None t" by blast
  ultimately show ?thesis by (simp add: plugin_calls_append s1(1) loaded_def del: append.simps)
qed

theorem server_main_closes_modules_witness:
  "\<exists>cs t. server_main None 3 [(CHR ''R'', []), (CHR ''S'', [])] True = (0, cs) \<and>
    plugin_calls ex_loader (\<lambda>_. None) cs ex_server_plugins = Some t \<and> mset (md_open (sv_modules t)) = {#7#}"
proof -
  have L: "loadable ex_loader d" for d
  proof -
    have "scannable ex_loader d d server_files" by (simp add: scannable_def ex_loader_def)
    moreover have "length (modules_of L c type ps) \<le> length ps" for L c type ps
      by (induction ps) (auto simp: modules_of_simps split: option.split)
    then have "length (found_modules ex_loader d d server_files type) < PLUGIN_ARRAY" for type
      by (rule le_less_trans) (simp add: scanned_paths_def server_files_def PLUGIN_ARRAY_def)
    ultimately show ?thesis by (auto simp: loadable_def)
  qed
  obtain cs where cs: "server_main None 3 [(CHR ''R'', []), (CHR ''S'', [])] True = (0, cs)"
    by (simp add: server_main_def getOption_def Let_def)
  have "g_run_plugins ex_server_plugins = None" "g_codec_plugins ex_server_plugins = None"
    "md_open (sv_modules ex_server_plugins) = [7]"
    by (simp_all add: ex_server_plugins_def)
  with server_main_closes_modules [OF cs, of ex_loader ex_server_plugins "\<lambda>_. None"] L cs show ?thesis by auto
qed

text \<open>
  Restoring the volumes gives every key a value, changes none that has one, and passes to the audio
  library, for each volume, the part of the word of the device in use; doing it again changes nothing and
  passes the same volumes.
\<close>

lemma volumes_recovered:
  assumes "AVSYS_AUDIO_VOLUME_TYPE_MAX E \<le> length keystr" "\<forall>k. re_set_ok E k"
  shows "\<exists>vs db'. sound_system_bootup_recovery E db = Some (vs, db') \<and>
    vs = map (\<lambda>k. if re_out E = OUT_WIRED then signed_drop_bit 8 (the (db' k)) else the (db' k) AND 0xFF)
      (take (AVSYS_AUDIO_VOLUME_TYPE_MAX E) keystr) \<and>
    set (take (AVSYS_AUDIO_VOLUME_TYPE_MAX E) keystr) \<subseteq> dom db' \<and> db \<subseteq>\<^sub>m db' \<and>
    sound_system_bootup_recovery E db' = Some (vs, db')"
proof -
  let ?is = "[0..<AVSYS_AUDIO_VOLUME_TYPE_MAX E]"
  have "recover_from E ?is db \<noteq> None" using assms(1) by (subst recover_from_defined) simp
  then obtain vs db' where r: "recover_from E ?is db = Some (vs, db')" by auto
  note p = recover_from_parts [OF r assms(2)]
  have take: "take (AVSYS_AUDIO_VOLUME_TYPE_MAX E) keystr = map ((!) keystr) ?is"
    using assms(1) by (intro nth_equalityI) simp_all
  from p assms(1) have "recover_from E ?is db' = Some (vs, db')"
    by (subst recover_from_again) auto
  with r p show ?thesis
    unfolding take sound_system_bootup_recovery_def volume_part_of_def map_le_def by (force simp: comp_def)
qed



end
