(* ===== verification/Keysound.thy ===== *)
theory Keysound
  imports Keytone_Props
begin

text \<open>
  Playing a key tone from a client (\<^verbatim>\<open>mm_sound_keysound.c\<close>): the function writes a structure with the file
  name and the volume type to the pipe of the key tone plugin, which reads it.
\<close>

definition FILE_FULL_PATH :: nat where "FILE_FULL_PATH = 1024"

text \<open>The structure in the pipe.\<close>

record key_msg =
  km_filename :: string
  km_vol_type :: "32 word"

text \<open>The answers of opening the file, of opening the pipe, and of writing.\<close>

datatype open_answer = Opened | NoEntry | OpenFailed

record keysound_env =
  ke_file :: open_answer
  ke_pipe :: bool
  ke_write :: bool

definition NUL :: char where "NUL = CHR 0x00"

definition strncpy :: "nat \<Rightarrow> string \<Rightarrow> string" where
  "strncpy n f = take n f @ replicate (n - length f) NUL"

definition mm_sound_play_keysound ::
  "keysound_env \<Rightarrow> string option \<Rightarrow> 32 word \<Rightarrow> key_msg list \<Rightarrow> mm_err \<times> key_msg list" where
  "mm_sound_play_keysound E filename vol_type pipe =
    (case filename of
       None \<Rightarrow> (MM_ERROR_SOUND_INVALID_FILE, pipe)
     | Some f \<Rightarrow>
         (case ke_file E of
            NoEntry \<Rightarrow> (MM_ERROR_SOUND_FILE_NOT_FOUND, pipe)
          | OpenFailed \<Rightarrow> (MM_ERROR_SOUND_INTERNAL, pipe)
          | Opened \<Rightarrow>
              if \<not> ke_pipe E then (MM_ERROR_SOUND_FILE_NOT_FOUND, pipe)
              else if \<not> ke_write E then (MM_ERROR_SOUND_INTERNAL, pipe)
              else (MM_ERROR_NONE, pipe @ [\<lparr>km_filename = strncpy FILE_FULL_PATH f, km_vol_type = vol_type\<rparr>])))"

section \<open>The other end of the pipe\<close>

text \<open>The bytes of the structure as the plugin sees them; the name ends at the first zero, which there need
  not be.\<close>

definition msg_chars :: "key_msg \<Rightarrow> string" where
  "msg_chars m = km_filename m @ map (\<lambda>b. char_of (unat b)) (le32 (km_vol_type m))"

definition msg_filename :: "key_msg \<Rightarrow> string option" where
  "msg_filename m = (if NUL \<in> set (msg_chars m) then Some (takeWhile (\<lambda>c. c \<noteq> NUL) (msg_chars m)) else None)"

text \<open>The request of the key tone plugin, with the files of the server and its sound device.\<close>

definition kt_req_of :: "(string \<Rightarrow> file_env) \<Rightarrow> nat option \<Rightarrow> key_msg \<Rightarrow> kt_req option" where
  "kt_req_of F dev m =
    map_option (\<lambda>f. \<lparr>kq_filename = f, kq_vol_type = sint (km_vol_type m), kq_file = F f, kq_device = dev\<rparr>) (msg_filename m)"

lemma char_of_NUL: "char_of (0 :: nat) = NUL" "0 < v \<Longrightarrow> v < 256 \<Longrightarrow> char_of (v :: nat) \<noteq> NUL"
proof -
  show z: "char_of (0 :: nat) = NUL" by (simp add: NUL_def char_of_def)
  assume "0 < v" "v < 256"
  then have "of_char (char_of v :: char) \<noteq> (of_char (char_of (0 :: nat) :: char) :: nat)" by simp
  with z show "char_of v \<noteq> NUL" by metis
qed

lemma takeWhile_name: "NUL \<notin> set f \<Longrightarrow> takeWhile (\<lambda>c. c \<noteq> NUL) (f @ NUL # ys) = f"
  by (subst takeWhile_append2) auto

text \<open>A name that is shorter than the field arrives as it is; a longer one is cut and goes on with the bytes of
  the volume type.\<close>

lemma msg_filename_short:
  assumes "NUL \<notin> set f" "length f < FILE_FULL_PATH"
  shows "msg_filename \<lparr>km_filename = strncpy FILE_FULL_PATH f, km_vol_type = v\<rparr> = Some f"
proof -
  from assms(2) obtain n where "FILE_FULL_PATH - length f = Suc n" by (metis Suc_diff_Suc)
  with assms have "msg_chars \<lparr>km_filename = strncpy FILE_FULL_PATH f, km_vol_type = v\<rparr> =
      f @ NUL # replicate n NUL @ map (\<lambda>b. char_of (unat b)) (le32 v)"
    by (simp add: msg_chars_def strncpy_def)
  with takeWhile_name [OF assms(1)] show ?thesis by (simp add: msg_filename_def)
qed

lemma msg_filename_long:
  assumes "NUL \<notin> set f" "FILE_FULL_PATH \<le> length f" "0 < v" "v < 256"
  shows "msg_filename \<lparr>km_filename = strncpy FILE_FULL_PATH f, km_vol_type = word_of_nat v\<rparr> =
    Some (take FILE_FULL_PATH f @ [char_of v])"
proof -
  have "unat (word_of_nat v :: 32 word) = v" using assms(4) by (simp add: unat_of_nat)
  moreover have "le32 w = [word_of_nat (unat w mod 256), word_of_nat (unat w div 256 mod 256),
      word_of_nat (unat w div 256 div 256 mod 256), word_of_nat (unat w div 256 div 256 div 256 mod 256)]" for w
  proof -
    have "(4 :: nat) = Suc (Suc (Suc (Suc 0)))" by simp
    then show ?thesis by (simp only: le32_def nat_le.simps)
  qed
  ultimately have "msg_chars \<lparr>km_filename = strncpy FILE_FULL_PATH f, km_vol_type = word_of_nat v\<rparr> =
      (take FILE_FULL_PATH f @ [char_of v]) @ NUL # [NUL, NUL]"
    using assms(2,4) by (simp add: msg_chars_def strncpy_def char_of_NUL(1) unat_of_nat)
  moreover have "NUL \<notin> set (take FILE_FULL_PATH f @ [char_of v])"
    using assms(1,3,4) by (auto simp: char_of_NUL(2) [symmetric] dest: in_set_takeD dest!: char_of_NUL(2) [OF _ assms(4)])
  note takeWhile_name [OF this, of "[NUL, NUL]"]
  ultimately show ?thesis by (simp add: msg_filename_def)
qed

section \<open>Properties\<close>

text \<open>
  C38: a key tone a client plays, with a name that fits, is written to the device of the server as it is in the
  file: the structure in the pipe is read back as the request for the same file, the render thread writes the
  samples, and the rest of the last period with two periods of silence, and gives back the
  descriptor and the mapping.
\<close>

theorem client_key_tone_played:
  assumes "mm_sound_play_keysound E (Some f) vt [] = (MM_ERROR_NONE, pipe)" "NUL \<notin> set f" "length f < FILE_FULL_PATH"
    "kt_reachable fuel info sys s" "kt_control s = CtlRead" "kt_state s \<noteq> RENDER_STARTED"
    "plays_wave fuel d \<lparr>kq_filename = f, kq_vol_type = sint vt, kq_file = F f, kq_device = Some p\<rparr>"
    "MAP_FAILED \<notin> fst ` set (mappings (kt_sys s))" "0 < p" "kt_created s \<longrightarrow> 0 < kt_period s"
  shows "\<exists>m q k t. pipe = [m] \<and> kt_req_of F (Some p) m = Some q \<and> kt_run fuel (Request q # replicate k Renders) s = Some t \<and>
    kt_written (kt_calls t) = kt_written (kt_calls s) @ wd_data d @
      replicate (kt_silence (kt_period_for q s) (length (wd_data d))) 0 \<and> kt_sys t = kt_sys s"
proof -
  let ?q = "\<lparr>kq_filename = f, kq_vol_type = sint vt, kq_file = F f, kq_device = Some p\<rparr>"
  let ?m = "\<lparr>km_filename = strncpy FILE_FULL_PATH f, km_vol_type = vt\<rparr>"
  have "pipe = [?m]"
    using assms(1) by (auto simp: mm_sound_play_keysound_def split: open_answer.splits if_splits)
  moreover have q: "kt_req_of F (Some p) ?m = Some ?q"
    by (simp add: kt_req_of_def msg_filename_short [OF assms(2,3)])
  moreover have "0 < kt_period_for ?q s" using assms(9,10) by (simp add: kt_period_for_def MAX_BUFFER_SIZE_def)
  note key_tone_played [OF assms(4,7,8) _ this, of "Request ?q"]
  ultimately show ?thesis using assms(5,6) by auto
qed

theorem client_key_tone_played_witness:
  "\<exists>q k t. mm_sound_play_keysound \<lparr>ke_file = Opened, ke_pipe = True, ke_write = True\<rparr> (Some ''key.wav'') 1 [] =
      (MM_ERROR_NONE, [\<lparr>km_filename = strncpy FILE_FULL_PATH ''key.wav'', km_vol_type = 1\<rparr>]) \<and>
    kt_run 3 (Request q # replicate k Renders) ex_kt = Some t \<and>
    kt_written (kt_calls t) = [10, 20, 30, 40, 50] @ replicate 11 0"
proof -
  have play: "mm_sound_play_keysound \<lparr>ke_file = Opened, ke_pipe = True, ke_write = True\<rparr> (Some ''key.wav'') 1 [] =
      (MM_ERROR_NONE, [\<lparr>km_filename = strncpy FILE_FULL_PATH ''key.wav'', km_vol_type = 1\<rparr>])"
    by (simp add: mm_sound_play_keysound_def)
  have f: "NUL \<notin> set ''key.wav''" "length ''key.wav'' < FILE_FULL_PATH" by (simp_all add: NUL_def FILE_FULL_PATH_def)
  have w: "plays_wave 3 ex_wave \<lparr>kq_filename = ''key.wav'', kq_vol_type = sint (1 :: 32 word),
      kq_file = (ex_file (wave_file ex_wave))\<lparr>fe_open := 5\<rparr>, kq_device = Some 4\<rparr>"
    using ex_key_plays [of 5] by (simp add: plays_wave_def ex_key_def)
  have "kt_silence 4 (length (wd_data ex_wave)) = 11" "wd_data ex_wave = [10, 20, 30, 40, 50]"
    by (simp_all add: kt_silence_def ex_wave_def)
  moreover have "kt_period_for q ex_kt = 4"
    if "kt_req_of (\<lambda>_. (ex_file (wave_file ex_wave))\<lparr>fe_open := 5\<rparr>) (Some 4) m = Some q" for m q
    using that by (auto simp: kt_req_of_def kt_period_for_def ex_kt_parts(8) MAX_BUFFER_SIZE_def)
  ultimately show ?thesis
    using client_key_tone_played [OF play f ex_kt_parts(1,3) _ w ex_kt_parts(2)] ex_kt_parts(4,6,8) play by fastforce
qed

end
