(* ===== verification/Ipc_Lock.thy ===== *)
theory Ipc_Lock
  imports Prelude
begin

text \<open>
  The lock that processes share (\<^verbatim>\<open>common/mm_ipc.c\<close>): a named semaphore with a time limit, after which a
  process that waits takes the lock for lost and posts the semaphore itself.  The processes and the answers of the
  system come as a sequence of events.
\<close>

text \<open>Where the processes are, the value of the semaphore, and how often it was posted by a process that
  waited.\<close>

record lock =
  lk_sem :: nat
  lk_waiting :: "pid list"
  lk_holding :: "pid list"
  lk_recovered :: nat

definition new_lock :: lock where
  "new_lock = \<lparr>lk_sem = 1, lk_waiting = [], lk_holding = [], lk_recovered = 0\<rparr>"

text \<open>What \<^verbatim>\<open>sem_timedwait\<close> answers; at the time limit the value of the semaphore is asked for, and it may be
  posted.\<close>

datatype lock_event =
    LockCalled pid bool
  | LockTaken pid
  | LockInterrupted pid
  | LockInvalid pid
  | LockTimedOut pid bool bool
  | UnlockCalled pid bool bool

text \<open>The new state and, when a call returns, its result.\<close>

fun lock_step :: "lock_event \<Rightarrow> lock \<Rightarrow> (mm_err option \<times> lock) option" where
  "lock_step (LockCalled p sem_open) s =
    (if p \<in> set (lk_waiting s) \<or> p \<in> set (lk_holding s) then None
     else if \<not> sem_open then Some (Some MM_ERROR_SOUND_INTERNAL, s)
     else Some (None, s\<lparr>lk_waiting := p # lk_waiting s\<rparr>))"
| "lock_step (LockTaken p) s =
    (if p \<in> set (lk_waiting s) \<and> 0 < lk_sem s
     then Some (Some MM_ERROR_NONE,
       s\<lparr>lk_sem := lk_sem s - 1, lk_waiting := remove1 p (lk_waiting s), lk_holding := p # lk_holding s\<rparr>)
     else None)"
| "lock_step (LockInterrupted p) s = (if p \<in> set (lk_waiting s) then Some (None, s) else None)"
| "lock_step (LockInvalid p) s =
    (if p \<in> set (lk_waiting s)
     then Some (Some MM_ERROR_SOUND_INTERNAL, s\<lparr>lk_waiting := remove1 p (lk_waiting s)\<rparr>) else None)"
| "lock_step (LockTimedOut p getvalue post) s =
    (if p \<notin> set (lk_waiting s) then None
     else if \<not> getvalue then Some (Some MM_ERROR_SOUND_INTERNAL, s\<lparr>lk_waiting := remove1 p (lk_waiting s)\<rparr>)
     else if lk_sem s \<noteq> 0 then Some (None, s)
     else if \<not> post then Some (Some MM_ERROR_SOUND_INTERNAL, s\<lparr>lk_waiting := remove1 p (lk_waiting s)\<rparr>)
     else Some (None, s\<lparr>lk_sem := lk_sem s + 1, lk_recovered := lk_recovered s + 1\<rparr>))"
| "lock_step (UnlockCalled p sem_open post) s =
    (if p \<notin> set (lk_holding s) then None
     else if \<not> sem_open \<or> \<not> post then Some (Some MM_ERROR_SOUND_INTERNAL, s)
     else Some (Some MM_ERROR_NONE, s\<lparr>lk_sem := lk_sem s + 1, lk_holding := remove1 p (lk_holding s)\<rparr>))"

fun lock_run :: "lock_event list \<Rightarrow> lock \<Rightarrow> lock option" where
  "lock_run [] s = Some s"
| "lock_run (e # es) s = (case lock_step e s of None \<Rightarrow> None | Some (r, t) \<Rightarrow> lock_run es t)"

lemma length_remove1_member: "p \<in> set xs \<Longrightarrow> Suc (length (remove1 p xs)) = length xs"
  by (induction xs) auto

lemma lock_step_count:
  "lock_step e s = Some (r, t) \<Longrightarrow>
    length (lk_holding t) + lk_sem t + lk_recovered s = length (lk_holding s) + lk_sem s + lk_recovered t"
  by (cases e) (auto dest: length_remove1_member split: if_splits)

lemma lock_run_count:
  "lock_run es s = Some t \<Longrightarrow>
    length (lk_holding t) + lk_sem t + lk_recovered s = length (lk_holding s) + lk_sem s + lk_recovered t"
proof (induction es arbitrary: s)
  case (Cons e es)
  then obtain r u where u: "lock_step e s = Some (r, u)" "lock_run es u = Some t"
    by (auto split: option.splits)
  from Cons.IH [OF u(2)] lock_step_count [OF u(1)] show ?case by simp
qed simp

section \<open>Property\<close>

text \<open>
  In every sequence of calls the processes that hold the lock are at most one more than the times a
  waiting process has posted the semaphore: without that, never two; the value of the semaphore is
  exactly what is left.
\<close>

lemma lock_holders_bounded:
  assumes "lock_run es new_lock = Some s"
  shows "length (lk_holding s) + lk_sem s = 1 + lk_recovered s"
  using lock_run_count [OF assms] by (simp add: new_lock_def)

end
