(* ===== verification/Tone_Doc.thy ===== *)
theory Tone_Doc
  imports Tone_Order
begin

text \<open>
  The tones as the header describes them (\<^verbatim>\<open>include/mm_sound.h\<close>, \<^verbatim>\<open>MMSoundTone_t\<close>): the name of every
  number and the sounds its comment lists, as groups with a number of repetitions; a sound is given by
  its frequencies in Hz, none for silence, and its time in milliseconds, -1 for a continuous sound.  The
  frequencies of the keys of a telephone, which the header only names, are those of the comments at the
  table of the plugin.  Where a comment ends with dots or a request to repeat, the whole is repeated.
\<close>

type_synonym tone_text = "(nat \<times> (int list \<times> int) list) list"

definition MMSoundTone_1 :: "(string \<times> tone_text) list" where
  "MMSoundTone_1 = [
    (''MM_SOUND_TONE_DTMF_0'',
       [(1, [([941, 1336], -1)])]),
    (''MM_SOUND_TONE_DTMF_1'',
       [(1, [([697, 1209], -1)])]),
    (''MM_SOUND_TONE_DTMF_2'',
       [(1, [([697, 1336], -1)])]),
    (''MM_SOUND_TONE_DTMF_3'',
       [(1, [([697, 1477], -1)])]),
    (''MM_SOUND_TONE_DTMF_4'',
       [(1, [([770, 1209], -1)])]),
    (''MM_SOUND_TONE_DTMF_5'',
       [(1, [([770, 1336], -1)])]),
    (''MM_SOUND_TONE_DTMF_6'',
       [(1, [([770, 1477], -1)])]),
    (''MM_SOUND_TONE_DTMF_7'',
       [(1, [([852, 1209], -1)])]),
    (''MM_SOUND_TONE_DTMF_8'',
       [(1, [([852, 1336], -1)])]),
    (''MM_SOUND_TONE_DTMF_9'',
       [(1, [([852, 1477], -1)])]),
    (''MM_SOUND_TONE_DTMF_S'',
       [(1, [([941, 1209], -1)])]),
    (''MM_SOUND_TONE_DTMF_P'',
       [(1, [([941, 1477], -1)])]),
    (''MM_SOUND_TONE_DTMF_A'',
       [(1, [([697, 1633], -1)])]),
    (''MM_SOUND_TONE_DTMF_B'',
       [(1, [([770, 1633], -1)])]),
    (''MM_SOUND_TONE_DTMF_C'',
       [(1, [([852, 1633], -1)])]),
    (''MM_SOUND_TONE_DTMF_D'',
       [(1, [([941, 1633], -1)])]),
    (''MM_SOUND_TONE_SUP_DIAL'',
       [(1, [([425], -1)])]),
    (''MM_SOUND_TONE_ANSI_DIAL'',
       [(1, [([350, 440], -1)])]),
    (''MM_SOUND_TONE_JAPAN_DIAL'',
       [(1, [([400], -1)])]),
    (''MM_SOUND_TONE_SUP_BUSY'',
       [(1, [([425], 500), ([], 500)])]),
    (''MM_SOUND_TONE_ANSI_BUSY'',
       [(1, [([480, 620], 500), ([], 500)])]),
    (''MM_SOUND_TONE_JAPAN_BUSY'',
       [(1, [([400], 500), ([], 500)])]),
    (''MM_SOUND_TONE_SUP_CONGESTION'',
       [(1, [([425], 200), ([], 200)])]),
    (''MM_SOUND_TONE_ANSI_CONGESTION'',
       [(1, [([480, 620], 250), ([], 250)])]),
    (''MM_SOUND_TONE_SUP_RADIO_ACK'',
       [(1, [([425], 200)])]),
    (''MM_SOUND_TONE_JAPAN_RADIO_ACK'',
       [(1, [([400], 1000), ([], 2000)])]),
    (''MM_SOUND_TONE_SUP_RADIO_NOTAVAIL'',
       [(3, [([425], 200), ([], 200)])]),
    (''MM_SOUND_TONE_SUP_ERROR'',
       [(1, [([950, 1400, 1800], 330), ([], 1000)])]),
    (''MM_SOUND_TONE_SUP_CALL_WAITING'',
       [(1, [([425], 200), ([], 600), ([425], 200), ([], 3000)])]),
    (''MM_SOUND_TONE_ANSI_CALL_WAITING'',
       [(1, [([440], 300), ([], 9700), ([440], 100), ([], 100), ([440], 100), ([], 9700)])]),
    (''MM_SOUND_TONE_SUP_RINGTONE'',
       [(1, [([425], 1000), ([], 4000)])]),
    (''MM_SOUND_TONE_ANSI_RINGTONE'',
       [(1, [([440, 480], 2000), ([], 4000)])])]"

definition MMSoundTone_2 :: "(string \<times> tone_text) list" where
  "MMSoundTone_2 = [
    (''MM_SOUND_TONE_PROP_BEEP'',
       [(1, [([400, 1200], 35)])]),
    (''MM_SOUND_TONE_PROP_ACK'',
       [(2, [([1200], 100), ([], 100)])]),
    (''MM_SOUND_TONE_PROP_NACK'',
       [(1, [([300, 400, 500], 400)])]),
    (''MM_SOUND_TONE_PROP_PROMPT'',
       [(1, [([400, 1200], 200)])]),
    (''MM_SOUND_TONE_PROP_BEEP2'',
       [(1, [([400, 1200], 35), ([], 200), ([400, 1200], 35)])]),
    (''MM_SOUND_TONE_SUP_INTERCEPT'',
       [(1, [([440], 250), ([620], 250)])]),
    (''MM_SOUND_TONE_SUP_INTERCEPT_ABBREV'',
       [(8, [([440], 250), ([620], 250)])]),
    (''MM_SOUND_TONE_SUP_CONGESTION_ABBREV'',
       [(8, [([480, 620], 250), ([], 250)])]),
    (''MM_SOUND_TONE_SUP_CONFIRM'',
       [(3, [([350, 440], 100), ([], 100)])]),
    (''MM_SOUND_TONE_SUP_PIP'',
       [(4, [([480], 100), ([], 100)])]),
    (''MM_SOUND_TONE_CDMA_DIAL_TONE_LITE'',
       [(1, [([425], -1)])]),
    (''MM_SOUND_TONE_CDMA_NETWORK_USA_RINGBACK'',
       [(1, [([440, 480], 2000), ([], 4000)])]),
    (''MM_SOUND_TONE_CDMA_INTERCEPT'',
       [(1, [([440], 250), ([620], 250)])]),
    (''MM_SOUND_TONE_CDMA_ABBR_INTERCEPT'',
       [(1, [([440], 250), ([620], 250)])]),
    (''MM_SOUND_TONE_CDMA_REORDER'',
       [(1, [([480, 620], 250), ([], 250)])]),
    (''MM_SOUND_TONE_CDMA_ABBR_REORDER'',
       [(8, [([480, 620], 250), ([], 250)])]),
    (''MM_SOUND_TONE_CDMA_NETWORK_BUSY'',
       [(1, [([480, 620], 500), ([], 500)])]),
    (''MM_SOUND_TONE_CDMA_CONFIRM'',
       [(3, [([350, 440], 100), ([], 100)])]),
    (''MM_SOUND_TONE_CDMA_ANSWER'',
       [(1, [([], -1)])]),
    (''MM_SOUND_TONE_CDMA_NETWORK_CALLWAITING'',
       [(1, [([440], 300)])]),
    (''MM_SOUND_TONE_CDMA_PIP'',
       [(4, [([480], 100), ([], 100)])]),
    (''MM_SOUND_TONE_CDMA_CALL_SIGNAL_ISDN_NORMAL'',
       [(20, [([2091], 32), ([2556], 64)]), (1, [([2091], 32), ([2556], 48), ([], 4000)])]),
    (''MM_SOUND_TONE_CDMA_CALL_SIGNAL_ISDN_INTERGROUP'',
       [(8, [([2091], 32), ([2556], 64)]), (1, [([2091], 32), ([], 400)]), (8, [([2091], 32), ([2556], 64)]), (1, [([2091], 32), ([], 4000)])]),
    (''MM_SOUND_TONE_CDMA_CALL_SIGNAL_ISDN_SP_PRI'',
       [(4, [([2091], 32), ([2556], 64)]), (1, [([2091], 16), ([], 200)]), (4, [([2091], 32), ([2556], 64)]), (1, [([2091], 16), ([], 200)])]),
    (''MM_SOUND_TONE_CDMA_CALL_SIGNAL_ISDN_PAT3'',
       [(1, [([], -1)])]),
    (''MM_SOUND_TONE_CDMA_CALL_SIGNAL_ISDN_PING_RING'',
       [(5, [([2091], 32), ([2556], 64)]), (1, [([2091], 20)])]),
    (''MM_SOUND_TONE_CDMA_CALL_SIGNAL_ISDN_PAT5'',
       [(1, [([], -1)])]),
    (''MM_SOUND_TONE_CDMA_CALL_SIGNAL_ISDN_PAT6'',
       [(1, [([], -1)])]),
    (''MM_SOUND_TONE_CDMA_CALL_SIGNAL_ISDN_PAT7'',
       [(1, [([], -1)])]),
    (''MM_SOUND_TONE_CDMA_HIGH_L'',
       [(40, [([3700], 25), ([4000], 25)]), (1, [([], 4000)])]),
    (''MM_SOUND_TONE_CDMA_MED_L'',
       [(40, [([2600], 25), ([2900], 25)]), (1, [([], 4000)])]),
    (''MM_SOUND_TONE_CDMA_LOW_L'',
       [(40, [([1300], 25), ([1450], 25)]), (1, [([], 4000)])])]"

definition MMSoundTone_3 :: "(string \<times> tone_text) list" where
  "MMSoundTone_3 = [
    (''MM_SOUND_TONE_CDMA_HIGH_SS'',
       [(16, [([3700], 25), ([4000], 25)]), (1, [([], 400)])]),
    (''MM_SOUND_TONE_CDMA_MED_SS'',
       [(16, [([2600], 25), ([2900], 25)]), (1, [([], 400)])]),
    (''MM_SOUND_TONE_CDMA_LOW_SS'',
       [(16, [([1300], 25), ([1450], 25)]), (1, [([], 400)])]),
    (''MM_SOUND_TONE_CDMA_HIGH_SSL'',
       [(8, [([3700], 25), ([4000], 25)]), (1, [([], 200)]), (8, [([3700], 25), ([4000], 25)]), (1, [([], 200)]), (16, [([3700], 25), ([4000], 25)]), (1, [([], 4000)])]),
    (''MM_SOUND_TONE_CDMA_MED_SSL'',
       [(8, [([2600], 25), ([2900], 25)]), (1, [([], 200)]), (8, [([2600], 25), ([2900], 25)]), (1, [([], 200)]), (16, [([2600], 25), ([2900], 25)]), (1, [([], 4000)])]),
    (''MM_SOUND_TONE_CDMA_LOW_SSL'',
       [(8, [([1300], 25), ([1450], 25)]), (1, [([], 200)]), (8, [([1300], 25), ([1450], 25)]), (1, [([], 200)]), (16, [([1300], 25), ([1450], 25)]), (1, [([], 4000)])]),
    (''MM_SOUND_TONE_CDMA_HIGH_SS_2'',
       [(20, [([3700], 25), ([4000], 25)]), (1, [([], 1000)]), (20, [([3700], 25), ([4000], 25)]), (1, [([], 3000)])]),
    (''MM_SOUND_TONE_CDMA_MED_SS_2'',
       [(20, [([2600], 25), ([2900], 25)]), (1, [([], 1000)]), (20, [([2600], 25), ([2900], 25)]), (1, [([], 3000)])]),
    (''MM_SOUND_TONE_CDMA_LOW_SS_2'',
       [(20, [([1300], 25), ([1450], 25)]), (1, [([], 1000)]), (20, [([1300], 25), ([1450], 25)]), (1, [([], 3000)])]),
    (''MM_SOUND_TONE_CDMA_HIGH_SLS'',
       [(10, [([3700], 25), ([4000], 25)]), (1, [([], 500)]), (20, [([3700], 25), ([4000], 25)]), (1, [([], 500)]), (10, [([3700], 25), ([4000], 25)]), (1, [([], 3000)])]),
    (''MM_SOUND_TONE_CDMA_MED_SLS'',
       [(10, [([2600], 25), ([2900], 25)]), (1, [([], 500)]), (20, [([2600], 25), ([2900], 25)]), (1, [([], 500)]), (10, [([2600], 25), ([2900], 25)]), (1, [([], 3000)])]),
    (''MM_SOUND_TONE_CDMA_LOW_SLS'',
       [(10, [([1300], 25), ([1450], 25)]), (1, [([], 500)]), (20, [([1300], 25), ([1450], 25)]), (1, [([], 500)]), (10, [([1300], 25), ([1450], 25)]), (1, [([], 3000)])]),
    (''MM_SOUND_TONE_CDMA_HIGH_S_X4'',
       [(10, [([3700], 25), ([4000], 25)]), (1, [([], 500)]), (10, [([3700], 25), ([4000], 25)]), (1, [([], 500)]), (10, [([3700], 25), ([4000], 25)]), (1, [([], 500)]), (10, [([3700], 25), ([4000], 25)]), (1, [([], 2500)])]),
    (''MM_SOUND_TONE_CDMA_MED_S_X4'',
       [(10, [([2600], 25), ([2900], 25)]), (1, [([], 500)]), (10, [([2600], 25), ([2900], 25)]), (1, [([], 500)]), (10, [([2600], 25), ([2900], 25)]), (1, [([], 500)]), (10, [([2600], 25), ([2900], 25)]), (1, [([], 2500)])]),
    (''MM_SOUND_TONE_CDMA_LOW_S_X4'',
       [(10, [([2600], 25), ([2900], 25)]), (1, [([], 500)]), (10, [([2600], 25), ([2900], 25)]), (1, [([], 500)]), (10, [([2600], 25), ([2900], 25)]), (1, [([], 500)]), (10, [([2600], 25), ([2900], 25)]), (1, [([], 2500)])]),
    (''MM_SOUND_TONE_CDMA_HIGH_PBX_L'',
       [(20, [([3700], 25), ([4000], 25)]), (1, [([], 2000)])]),
    (''MM_SOUND_TONE_CDMA_MED_PBX_L'',
       [(20, [([2600], 25), ([2900], 25)]), (1, [([], 2000)])]),
    (''MM_SOUND_TONE_CDMA_LOW_PBX_L'',
       [(20, [([1300], 25), ([1450], 25)]), (1, [([], 2000)])]),
    (''MM_SOUND_TONE_CDMA_HIGH_PBX_SS'',
       [(8, [([3700], 25), ([4000], 25)]), (1, [([], 200)]), (8, [([3700], 25), ([4000], 25)]), (1, [([], 2000)])]),
    (''MM_SOUND_TONE_CDMA_MED_PBX_SS'',
       [(8, [([2600], 25), ([2900], 25)]), (1, [([], 200)]), (8, [([2600], 25), ([2900], 25)]), (1, [([], 2000)])]),
    (''MM_SOUND_TONE_CDMA_LOW_PBX_SS'',
       [(8, [([1300], 25), ([1450], 25)]), (1, [([], 200)]), (8, [([1300], 25), ([1450], 25)]), (1, [([], 2000)])]),
    (''MM_SOUND_TONE_CDMA_HIGH_PBX_SSL'',
       [(8, [([3700], 25), ([4000], 25)]), (1, [([], 200)]), (8, [([3700], 25), ([4000], 25)]), (1, [([], 200)]), (16, [([3700], 25), ([4000], 25)]), (1, [([], 1000)])]),
    (''MM_SOUND_TONE_CDMA_MED_PBX_SSL'',
       [(8, [([2600], 25), ([2900], 25)]), (1, [([], 200)]), (8, [([2600], 25), ([2900], 25)]), (1, [([], 200)]), (16, [([2600], 25), ([2900], 25)]), (1, [([], 1000)])]),
    (''MM_SOUND_TONE_CDMA_LOW_PBX_SSL'',
       [(8, [([1300], 25), ([1450], 25)]), (1, [([], 200)]), (8, [([1300], 25), ([1450], 25)]), (1, [([], 200)]), (16, [([1300], 25), ([1450], 25)]), (1, [([], 1000)])])]"

definition MMSoundTone_4 :: "(string \<times> tone_text) list" where
  "MMSoundTone_4 = [
    (''MM_SOUND_TONE_CDMA_HIGH_PBX_SLS'',
       [(8, [([3700], 25), ([4000], 25)]), (1, [([], 200)]), (16, [([3700], 25), ([4000], 25)]), (1, [([], 200)]), (8, [([3700], 25), ([4000], 25)]), (1, [([], 1000)])]),
    (''MM_SOUND_TONE_CDMA_MED_PBX_SLS'',
       [(8, [([2600], 25), ([2900], 25)]), (1, [([], 200)]), (16, [([2600], 25), ([2900], 25)]), (1, [([], 200)]), (8, [([2600], 25), ([2900], 25)]), (1, [([], 1000)])]),
    (''MM_SOUND_TONE_CDMA_LOW_PBX_SLS'',
       [(8, [([1300], 25), ([1450], 25)]), (1, [([], 200)]), (16, [([1300], 25), ([1450], 25)]), (1, [([], 200)]), (8, [([1300], 25), ([1450], 25)]), (1, [([], 1000)])]),
    (''MM_SOUND_TONE_CDMA_HIGH_PBX_S_X4'',
       [(8, [([3700], 25), ([4000], 25)]), (1, [([], 200)]), (8, [([3700], 25), ([4000], 25)]), (1, [([], 200)]), (8, [([3700], 25), ([4000], 25)]), (1, [([], 200)]), (8, [([3700], 25), ([4000], 25)]), (1, [([], 800)])]),
    (''MM_SOUND_TONE_CDMA_MED_PBX_S_X4'',
       [(8, [([2600], 25), ([2900], 25)]), (1, [([], 200)]), (8, [([2600], 25), ([2900], 25)]), (1, [([], 200)]), (8, [([2600], 25), ([2900], 25)]), (1, [([], 200)]), (8, [([2600], 25), ([2900], 25)]), (1, [([], 800)])]),
    (''MM_SOUND_TONE_CDMA_LOW_PBX_S_X4'',
       [(8, [([1300], 25), ([1450], 25)]), (1, [([], 200)]), (8, [([1300], 25), ([1450], 25)]), (1, [([], 200)]), (8, [([1300], 25), ([1450], 25)]), (1, [([], 200)]), (8, [([1300], 25), ([1450], 25)]), (1, [([], 800)])]),
    (''MM_SOUND_TONE_CDMA_ALERT_NETWORK_LITE'',
       [(1, [([1109], 62), ([784], 62), ([740], 62), ([622], 62), ([1109], 62)])]),
    (''MM_SOUND_TONE_CDMA_ALERT_AUTOREDIAL_LITE'',
       [(3, [([1245], 62), ([659], 62)]), (1, [([1245], 62)])]),
    (''MM_SOUND_TONE_CDMA_ONE_MIN_BEEP'',
       [(1, [([1150, 770], 400)])]),
    (''MM_SOUND_TONE_CDMA_KEYPAD_VOLUME_KEY_LITE'',
       [(1, [([941, 1477], 120)])]),
    (''MM_SOUND_TONE_CDMA_PRESSHOLDKEY_LITE'',
       [(1, [([587], 375), ([1175], 125)])]),
    (''MM_SOUND_TONE_CDMA_ALERT_INCALL_LITE'',
       [(1, [([587], 62), ([784], 62), ([831], 62), ([784], 62), ([1109], 62), ([784], 62), ([831], 62), ([784], 62)])]),
    (''MM_SOUND_TONE_CDMA_EMERGENCY_RINGBACK'',
       [(3, [([941], 125), ([], 10)]), (1, [([], 4990)])]),
    (''MM_SOUND_TONE_CDMA_ALERT_CALL_GUARD'',
       [(3, [([1319], 125), ([], 125)])]),
    (''MM_SOUND_TONE_CDMA_SOFT_ERROR_LITE'',
       [(1, [([1047], 125), ([370], 125)])]),
    (''MM_SOUND_TONE_CDMA_CALLDROP_LITE'',
       [(1, [([1480], 125), ([1397], 125), ([784], 125)])]),
    (''MM_SOUND_TONE_CDMA_NETWORK_BUSY_ONE_SHOT'',
       [(1, [([425], 500), ([], 500)])]),
    (''MM_SOUND_TONE_CDMA_ABBR_ALERT'',
       [(1, [([1150, 770], 400)])]),
    (''MM_SOUND_TONE_CDMA_SIGNAL_OFF'',
       [(1, [([], -1)])])]"
definition MMSoundTone :: "(string \<times> tone_text) list" where
  "MMSoundTone = MMSoundTone_1 @ MMSoundTone_2 @ MMSoundTone_3 @ MMSoundTone_4"

lemmas MMSoundTone_defs = MMSoundTone_def MMSoundTone_1_def MMSoundTone_2_def MMSoundTone_3_def MMSoundTone_4_def

section \<open>What the comments describe and what is played\<close>

definition text_sounds :: "tone_text \<Rightarrow> (int list \<times> int) list" where
  "text_sounds ds = concat (map (\<lambda>(n, xs). concat (replicate n xs)) ds)"

definition described :: "int \<Rightarrow> (int list \<times> int) list" where
  "described key = text_sounds (snd (MMSoundTone ! nat key))"

definition heard :: "TONE \<Rightarrow> int list \<times> int" where
  "heard T = (filter (\<lambda>f. f \<noteq> 0) [low_frequency T, middle_frequency T, high_frequency T], playingTime T)"

text \<open>A sound is written in waves of at most a tenth of a second.\<close>

definition in_waves :: "(int list \<times> int) list \<Rightarrow> (int list \<times> int) list" where
  "in_waves xs = concat (map (\<lambda>(fs, ms). replicate (if ms = -1 then 1 else nat ((ms + 99) div 100)) (fs, ms)) xs)"

text \<open>The numbers of the tones that are played differently.\<close>

definition misdescribed :: "int list" where
  "misdescribed = [26, 33, 38, 39, 40, 41, 47, 49, 50, 52, 53, 55, 76, 77, 78, 88, 89, 90, 100, 101, 104]"

definition row_sounds :: "int list \<Rightarrow> (int list \<times> int) list" where
  "row_sounds row =
    (let ts = decode row in
     concat (map (\<lambda>i. heard (ts ! i) # concat (replicate (nat (loopCnt (ts ! i)))
                                (map (\<lambda>j. heard (ts ! j)) [nat (loopIndx (ts ! i))..<Suc i])))
               [0..<length ts - 1]))"

lemma heard_tone_plan: "map heard (tone_plan key) = row_sounds (TONE_SEGMENT ! nat key)"
  by (simp add: tone_plan_def row_sounds_def tone_rows_def map_concat comp_def Let_def map_replicate)

lemma tone_table_described:
  "list_all (\<lambda>(k, row, n, d). (row_sounds row = text_sounds d) = (k \<notin> set misdescribed))
     (zip [0..106] (zip TONE_SEGMENT MMSoundTone))"
  by code_simp

lemma tone_times:
  "list_all (\<lambda>row. list_all (\<lambda>(fs, ms). ms = -1 \<or> 0 < ms) (row_sounds row)) TONE_SEGMENT"
  "list_all (\<lambda>(n, d). list_all (\<lambda>(fs, ms). ms = -1 \<or> 0 < ms) (text_sounds d)) MMSoundTone"
  by code_simp+

lemma length_MMSoundTone: "length MMSoundTone = 107"
  by (simp add: MMSoundTone_defs)

lemma tone_described_iff:
  assumes "0 \<le> key" "key < 107"
  shows "map heard (tone_plan key) = described key \<longleftrightarrow> key \<notin> set misdescribed"
    "(fs, ms) \<in> set (map heard (tone_plan key)) \<union> set (described key) \<Longrightarrow> ms = -1 \<or> 0 < ms"
proof -
  obtain k where k: "key = int k" "k < 107" using assms by (metis nonneg_int_cases of_nat_less_iff of_nat_numeral)
  have up: "[0..106 :: int] ! k = int k" "length [0..106 :: int] = 107" using k(2) by (simp_all add: nth_upto)
  show "map heard (tone_plan key) = described key \<longleftrightarrow> key \<notin> set misdescribed"
    using tone_table_described k up
    by (auto simp: list_all_length length_TONE_SEGMENT length_MMSoundTone heard_tone_plan described_def
        case_prod_unfold)
  have "TONE_SEGMENT ! k \<in> set TONE_SEGMENT" "MMSoundTone ! k \<in> set MMSoundTone"
    using k(2) by (simp_all add: length_TONE_SEGMENT length_MMSoundTone)
  then show "(fs, ms) \<in> set (map heard (tone_plan key)) \<union> set (described key) \<Longrightarrow> ms = -1 \<or> 0 < ms"
    using tone_times unfolding list_all_iff
    by (fastforce simp: k(1) heard_tone_plan described_def case_prod_unfold)
qed

section \<open>Waves\<close>

lemma in_waves_simps [simp]:
  "in_waves [] = []"
  "in_waves ((fs, ms) # xs) = replicate (if ms = -1 then 1 else nat ((ms + 99) div 100)) (fs, ms) @ in_waves xs"
  "in_waves (xs @ ys) = in_waves xs @ in_waves ys"
  by (simp_all add: in_waves_def)

lemma heard_plan_waves: "map heard (plan_waves ts) = in_waves (map heard ts)"
  by (induction ts) (simp_all add: heard_def wave_number_def map_replicate)

lemma in_waves_replicate: "in_waves (concat (replicate m xs)) = concat (replicate m (in_waves xs))"
  by (induction m) simp_all

text \<open>The waves determine the sounds.\<close>

lemma in_waves_inject:
  assumes "in_waves xs = in_waves ys" "\<forall>(fs, ms) \<in> set xs \<union> set ys. ms = -1 \<or> 0 < ms"
  shows "xs = ys"
  using assms
proof (induction xs arbitrary: ys)
  case Nil
  then show ?case by (cases ys) (auto split: if_splits)
next
  case (Cons x xs)
  have some: "\<exists>n. in_waves (z # zs) = replicate (Suc n) z @ in_waves zs"
    if "case z of (fs, ms) \<Rightarrow> ms = -1 \<or> 0 < ms" for z zs
  proof (cases z)
    case (Pair fs ms)
    with that have "0 < (if ms = -1 then 1 else nat ((ms + 99) div 100))" by auto
    then show ?thesis using Pair by (metis Suc_pred in_waves_simps(2))
  qed
  obtain n where x: "in_waves (x # xs) = replicate (Suc n) x @ in_waves xs" using some Cons.prems(2) by fastforce
  from x Cons.prems obtain y ys' where ys: "ys = y # ys'" by (cases ys) auto
  obtain m where y: "in_waves (y # ys') = replicate (Suc m) y @ in_waves ys'"
    using some Cons.prems(2) unfolding ys by fastforce
  from x y Cons.prems(1) have "x = y" by (simp add: ys)
  with Cons.prems(1) have "in_waves xs = in_waves ys'" by (cases y) (simp add: ys)
  with Cons.IH Cons.prems(2) \<open>x = y\<close> show ?case by (simp add: ys)
qed

lemma concat_replicate_inject:
  assumes "concat (replicate m xs) = concat (replicate m ys)" "0 < m"
  shows "xs = ys"
proof -
  have "length (concat (replicate m zs)) = m * length zs" for zs :: "'a list"
    by (simp add: length_concat sum_list_replicate)
  with assms have "length xs = length ys" by (metis mult_cancel1 neq0_conv)
  with assms show ?thesis by (cases m) auto
qed



end
