(* ===== verification/Pulse_Conn.thy ===== *)
theory Pulse_Conn
  imports Event_Sources
begin

text \<open>
  The connection to PulseAudio (\<^verbatim>\<open>server/mm_sound_mgr_pulse.c\<close>): the server makes a main loop of
  PulseAudio, which runs in a thread of its own, connects and waits under the lock of the loop until a
  callback signals.  The callbacks run while the server waits; what PulseAudio tells them, and which
  states count as connected, are parameters.
\<close>

datatype pa_context_state =
    PA_CONTEXT_UNCONNECTED | PA_CONTEXT_CONNECTING | PA_CONTEXT_AUTHORIZING | PA_CONTEXT_SETTING_NAME
  | PA_CONTEXT_READY | PA_CONTEXT_FAILED | PA_CONTEXT_TERMINATED

datatype pulse_call =
    MainloopNew | MainloopStart | MainloopLock | MainloopUnlock | MainloopStop | MainloopFree
  | ContextNew | SetStateCallback bool | ContextConnect | ContextDisconnect | ContextUnref
  | SetSubscribeCallback | ContextSubscribe | GetCardInfoList | MainloopSignal
  | NotifyMono | NotifyBluetooth | SetMono int

text \<open>The structure of the server, the state of its context, and the calls made, newest first.\<close>

record pulse_conn =
  pu_context :: ptr
  pu_state :: pa_context_state
  init_bt_status :: bool
  pu_calls :: "pulse_call list"

text \<open>The result of starting the loop, the context that is made, its state after the attempt to connect, and
  whether a subscription can be made.\<close>

record pulse_env =
  pa_started :: int
  pa_new :: ptr
  pa_connected :: pa_context_state
  pa_subscribe :: bool

definition pulse_log :: "pulse_call \<Rightarrow> pulse_conn \<Rightarrow> pulse_conn" where
  "pulse_log x s = s\<lparr>pu_calls := x # pu_calls s\<rparr>"

section \<open>Callbacks\<close>

definition context_state_cb :: "pulse_env \<Rightarrow> ptr \<Rightarrow> pulse_conn \<Rightarrow> pulse_conn" where
  "context_state_cb E c s =
    (case pu_state s of
       PA_CONTEXT_READY \<Rightarrow>
         if pu_context s = c then
           (let s1 = pulse_log ContextSubscribe (pulse_log SetSubscribeCallback s)
            in if \<not> pa_subscribe E then s1 else pulse_log GetCardInfoList s1)
         else s
     | _ \<Rightarrow> s)"

text \<open>What the loop meets: a change of the state, or one answer to the query for the cards, of which the last
  has no card.  The second component says whether the waiting thread is signalled.\<close>

datatype pulse_event = ContextState pa_context_state | InitCard "string option" bool

definition card_list_end :: "pulse_event \<Rightarrow> bool" where
  "card_list_end ev \<longleftrightarrow> (case ev of InitCard i eol \<Rightarrow> eol \<or> i = None | _ \<Rightarrow> False)"

definition pulse_event :: "pulse_env \<Rightarrow> pulse_event \<Rightarrow> pulse_conn \<Rightarrow> bool \<times> pulse_conn" where
  "pulse_event E ev s =
    (case ev of
       ContextState st \<Rightarrow> (False, context_state_cb E (pu_context s) (s\<lparr>pu_state := st\<rparr>))
     | InitCard i eol \<Rightarrow>
         (case (eol, i) of
            (False, Some name) \<Rightarrow>
              (False, s\<lparr>init_bt_status := init_card_info_cb name (init_bt_status s)\<rparr>)
          | _ \<Rightarrow> (True, pulse_log MainloopSignal s)))"

section \<open>Connecting\<close>

text \<open>The thread sleeps until the next signal; it has no result when the events are over before.\<close>

fun mainloop_wait ::
  "pulse_env \<Rightarrow> pulse_event list \<Rightarrow> pulse_conn \<Rightarrow> (pulse_event list \<times> pulse_conn) option" where
  "mainloop_wait E [] s = None"
| "mainloop_wait E (ev # evs) s =
    (case pulse_event E ev s of (sig, t) \<Rightarrow> if sig then Some (evs, t) else mainloop_wait E evs t)"

lemma mainloop_wait_shorter: "mainloop_wait E evs s = Some (r, t) \<Longrightarrow> length r < length evs"
  by (induction evs arbitrary: s) (auto split: prod.splits if_splits intro: less_SucI)

function pulse_ready ::
  "(pa_context_state \<Rightarrow> bool) \<Rightarrow> pulse_env \<Rightarrow> pulse_event list \<Rightarrow> pulse_conn \<Rightarrow> pulse_conn option" where
  "pulse_ready good E evs s =
    (if \<not> good (pu_state s) then Some s
     else if pu_state s = PA_CONTEXT_READY then Some s
     else (case mainloop_wait E evs s of None \<Rightarrow> None | Some (r, t) \<Rightarrow> pulse_ready good E r t))"
  by pat_completeness auto
termination
  by (relation "measure (\<lambda>(good, E, evs, s). length evs)") (auto dest: mainloop_wait_shorter)

declare pulse_ready.simps [simp del]

definition pulse_connect :: "pulse_env \<Rightarrow> pulse_conn \<Rightarrow> pulse_conn" where
  "pulse_connect E s =
    (let s1 = pulse_log MainloopLock (pulse_log MainloopStart (pulse_log MainloopNew s));
         s2 = pulse_log ContextNew (s1\<lparr>pu_context := pa_new E, pu_state := PA_CONTEXT_UNCONNECTED\<rparr>)
     in (pulse_log ContextConnect (pulse_log (SetStateCallback True) s2))\<lparr>pu_state := pa_connected E\<rparr>)"

definition pulse_init ::
  "(pa_context_state \<Rightarrow> bool) \<Rightarrow> pulse_env \<Rightarrow> pulse_event list \<Rightarrow> pulse_conn \<Rightarrow> (int \<times> pulse_conn) option" where
  "pulse_init good E evs s =
    map_option (\<lambda>t. (pa_started E, pulse_log MainloopUnlock t)) (pulse_ready good E evs (pulse_connect E s))"

definition pulse_deinit :: "pulse_conn \<Rightarrow> int \<times> pulse_conn" where
  "pulse_deinit s =
    (let s1 = pulse_log MainloopLock s;
         s2 = (if pu_context s1 \<noteq> 0
               then (pulse_log ContextUnref (pulse_log (SetStateCallback False) (pulse_log ContextDisconnect s1)))
                      \<lparr>pu_context := 0\<rparr>
               else s1)
     in (0, pulse_log MainloopFree (pulse_log MainloopStop (pulse_log MainloopUnlock s2))))"

section \<open>The settings\<close>

text \<open>The variable for the key is not set when the setting cannot be read.\<close>

definition mono_changed_cb :: "int \<Rightarrow> int option \<Rightarrow> pulse_conn \<Rightarrow> pulse_conn" where
  "mono_changed_cb junk key s = pulse_log (SetMono (case key of Some v \<Rightarrow> v | None \<Rightarrow> junk)) s"

definition pulse_register_mono :: "int \<Rightarrow> pulse_conn \<Rightarrow> int \<times> pulse_conn" where
  "pulse_register_mono ret s = (ret, pulse_log NotifyMono s)"

definition pulse_register_bluetooth :: "int \<Rightarrow> pulse_conn \<Rightarrow> int \<times> pulse_conn" where
  "pulse_register_bluetooth ret s = (ret, pulse_log NotifyBluetooth s)"

text \<open>The start, on cleared memory, and the end.  The results of the steps are not looked at.\<close>

definition zero_pulse :: pulse_conn where
  "zero_pulse = \<lparr>pu_context = 0, pu_state = PA_CONTEXT_UNCONNECTED, init_bt_status = False, pu_calls = []\<rparr>"

definition MMSoundMgrPulseInit ::
  "(pa_context_state \<Rightarrow> bool) \<Rightarrow> pulse_env \<Rightarrow> int \<Rightarrow> int \<Rightarrow> pulse_event list \<Rightarrow> pulse_conn option" where
  "MMSoundMgrPulseInit good E mono_ret bt_ret evs =
    map_option (\<lambda>(res, s). snd (pulse_register_bluetooth bt_ret (snd (pulse_register_mono mono_ret s))))
      (pulse_init good E evs zero_pulse)"

definition MMSoundMgrPulseFini :: "pulse_conn \<Rightarrow> mm_err \<times> pulse_conn" where
  "MMSoundMgrPulseFini s = (MM_ERROR_NONE, snd (pulse_deinit s))"

section \<open>When the start returns\<close>

text \<open>What PulseAudio documents: cards are listed when they have been asked for, and a context that was ready, or
  has failed, does not get connected again.\<close>

fun pulse_documented :: "(pa_context_state \<Rightarrow> bool) \<Rightarrow> pulse_env \<Rightarrow> pulse_event list \<Rightarrow> pulse_conn \<Rightarrow> bool" where
  "pulse_documented good E [] s = True"
| "pulse_documented good E (ev # evs) s =
    ((case ev of
        InitCard i eol \<Rightarrow> GetCardInfoList \<in> set (pu_calls s)
      | ContextState st \<Rightarrow> (pu_state s = PA_CONTEXT_READY \<or> \<not> good (pu_state s)) \<longrightarrow> \<not> good st) \<and>
     pulse_documented good E evs (snd (pulse_event E ev s)))"

text \<open>Once the cards have been asked for the context is ready or has failed.\<close>

definition pulse_asked :: "(pa_context_state \<Rightarrow> bool) \<Rightarrow> pulse_conn \<Rightarrow> bool" where
  "pulse_asked good s \<longleftrightarrow>
    (GetCardInfoList \<in> set (pu_calls s) \<longrightarrow> pu_state s = PA_CONTEXT_READY \<or> \<not> good (pu_state s))"

lemma context_state_cb_keeps [simp]:
  "pu_state (context_state_cb E c s) = pu_state s" "pu_context (context_state_cb E c s) = pu_context s"
  "init_bt_status (context_state_cb E c s) = init_bt_status s"
  by (simp_all add: context_state_cb_def pulse_log_def Let_def split: pa_context_state.splits)

lemma context_state_cb_asks:
  "pu_state s \<noteq> PA_CONTEXT_READY \<Longrightarrow> context_state_cb E c s = s"
  by (simp add: context_state_cb_def split: pa_context_state.splits)

lemma pulse_event_signals: "fst (pulse_event E ev s) = card_list_end ev"
  by (auto simp: pulse_event_def card_list_end_def split: pulse_event.splits bool.splits option.splits)

lemma pulse_event_asked:
  assumes "pulse_asked good s" "pulse_documented good E (ev # evs) s"
  shows "pulse_asked good (snd (pulse_event E ev s))"
proof (cases ev)
  case (InitCard i eol)
  then show ?thesis
    using assms by (auto simp: pulse_asked_def pulse_event_def pulse_log_def split: option.splits bool.splits)
next
  case (ContextState st)
  then show ?thesis
    using assms context_state_cb_asks [of "s\<lparr>pu_state := st\<rparr>" E]
    by (cases "st = PA_CONTEXT_READY") (auto simp: pulse_asked_def pulse_event_def)
qed

lemma pulse_event_bt:
  "init_bt_status (snd (pulse_event E ev s)) \<longleftrightarrow>
    init_bt_status s \<or> \<not> card_list_end ev \<and> (\<exists>n. ev = InitCard (Some n) False \<and> contains ''bluez'' n)"
  by (auto simp: pulse_event_def card_list_end_def init_card_info_cb_def pulse_log_def
      split: pulse_event.splits bool.splits option.splits)

text \<open>A signal comes with the end of the list of cards, and never without.\<close>

lemma mainloop_wait_signal:
  assumes "pulse_asked good s" "pulse_documented good E evs s"
  shows "case mainloop_wait E evs s of
      None \<Rightarrow> \<forall>ev \<in> set evs. \<not> card_list_end ev
    | Some (r, t) \<Rightarrow> (\<exists>ev \<in> set evs. card_list_end ev) \<and>
        (pu_state t = PA_CONTEXT_READY \<or> \<not> good (pu_state t)) \<and>
        (init_bt_status t \<longleftrightarrow> init_bt_status s \<or>
          (\<exists>n. InitCard (Some n) False \<in> set (takeWhile (\<lambda>ev. \<not> card_list_end ev) evs) \<and> contains ''bluez'' n))"
  using assms
proof (induction evs arbitrary: s)
  case (Cons ev evs)
  let ?t = "snd (pulse_event E ev s)"
  show ?case
  proof (cases "card_list_end ev")
    case True
    then obtain i eol where ev: "ev = InitCard i eol" by (cases ev) (auto simp: card_list_end_def)
    with Cons.prems have "GetCardInfoList \<in> set (pu_calls s)" by simp
    then have "pu_state ?t = PA_CONTEXT_READY \<or> \<not> good (pu_state ?t)"
      using pulse_event_asked [OF Cons.prems]
      by (auto simp: pulse_asked_def ev pulse_event_def pulse_log_def split: option.splits bool.splits)
    with True show ?thesis
      using pulse_event_signals [of E ev s] pulse_event_bt [of E ev s] by (auto simp: case_prod_unfold)
  next
    case False
    have t: "pulse_asked good ?t" "pulse_documented good E evs ?t"
      using pulse_event_asked [OF Cons.prems] Cons.prems(2) by simp_all
    show ?thesis
      using Cons.IH [OF t] False pulse_event_signals [of E ev s] pulse_event_bt [of E ev s]
      by (auto simp: case_prod_unfold split: option.splits)
  qed
qed simp

text \<open>The calls that take and give back are made by the start and the end only.\<close>

definition pulse_own :: "pulse_call \<Rightarrow> bool" where
  "pulse_own x \<longleftrightarrow> x \<notin> {SetSubscribeCallback, ContextSubscribe, GetCardInfoList, MainloopSignal}"

lemma pulse_event_keeps:
  "filter pulse_own (pu_calls (snd (pulse_event E ev s))) = filter pulse_own (pu_calls s)"
  "pu_context (snd (pulse_event E ev s)) = pu_context s"
  by (auto simp: pulse_event_def context_state_cb_def pulse_log_def pulse_own_def Let_def
      split: pulse_event.splits bool.splits option.splits pa_context_state.splits)

lemma mainloop_wait_keeps:
  "mainloop_wait E evs s = Some (r, t) \<Longrightarrow>
    filter pulse_own (pu_calls t) = filter pulse_own (pu_calls s) \<and> pu_context t = pu_context s"
proof (induction evs arbitrary: s)
  case (Cons ev evs)
  then show ?case
    using pulse_event_keeps [of E ev s] by (auto simp: case_prod_unfold split: if_splits)
qed simp

lemma pulse_ready_keeps:
  "pulse_ready good E evs s = Some t \<Longrightarrow>
    filter pulse_own (pu_calls t) = filter pulse_own (pu_calls s) \<and> pu_context t = pu_context s"
proof (induction good E evs s rule: pulse_ready.induct)
  case (1 good E evs s)
  show ?case
  proof (cases "\<not> good (pu_state s) \<or> pu_state s = PA_CONTEXT_READY")
    case True
    with 1(2) show ?thesis by (auto simp: pulse_ready.simps [of good E evs s] split: if_splits)
  next
    case False
    with 1(2) obtain r u where u: "mainloop_wait E evs s = Some (r, u)" "pulse_ready good E r u = Some t"
      by (auto simp: pulse_ready.simps [of good E evs s] split: option.splits)
    with False show ?thesis
      using 1(1) [OF _ _ u(1) refl u(2)] mainloop_wait_keeps [OF u(1)] by simp
  qed
qed

lemma pulse_given_back:
  assumes "MMSoundMgrPulseInit good E m b evs = Some s" "pa_new E \<noteq> 0"
  shows "filter pulse_own (pu_calls (snd (MMSoundMgrPulseFini s))) =
    [MainloopFree, MainloopStop, MainloopUnlock, ContextUnref, SetStateCallback False, ContextDisconnect, MainloopLock,
     NotifyBluetooth, NotifyMono, MainloopUnlock,
     ContextConnect, SetStateCallback True, ContextNew, MainloopLock, MainloopStart, MainloopNew]"
proof -
  from assms(1) obtain t where t: "pulse_ready good E evs (pulse_connect E zero_pulse) = Some t"
    and s: "s = pulse_log NotifyBluetooth (pulse_log NotifyMono (pulse_log MainloopUnlock t))"
    by (auto simp: MMSoundMgrPulseInit_def pulse_init_def pulse_register_bluetooth_def pulse_register_mono_def)
  show ?thesis
    using pulse_ready_keeps [OF t] assms(2)
    by (simp add: s MMSoundMgrPulseFini_def pulse_deinit_def pulse_connect_def zero_pulse_def pulse_log_def
        pulse_own_def Let_def)
qed

section \<open>Properties\<close>


definition ex_good :: "pa_context_state \<Rightarrow> bool" where
  "ex_good st \<longleftrightarrow> st \<notin> {PA_CONTEXT_UNCONNECTED, PA_CONTEXT_FAILED, PA_CONTEXT_TERMINATED}"

definition ex_pulse :: pulse_env where
  "ex_pulse = \<lparr>pa_started = 0, pa_new = 0x500, pa_connected = PA_CONTEXT_CONNECTING, pa_subscribe = True\<rparr>"

definition ex_cards :: "pulse_event list" where
  "ex_cards = [ContextState PA_CONTEXT_AUTHORIZING, ContextState PA_CONTEXT_READY,
     InitCard (Some ''alsa_card.0'') False, InitCard (Some ''bluez_card.1'') False, InitCard None True]"


text \<open>A connection that fails while the server waits for it.\<close>

lemma pulse_start_hangs:
  assumes "good (pa_connected E)" "pa_connected E \<noteq> PA_CONTEXT_READY"
  shows "MMSoundMgrPulseInit good E m b [ContextState st, ContextState PA_CONTEXT_FAILED] = None"
  using assms
  by (simp add: MMSoundMgrPulseInit_def pulse_init_def pulse_connect_def pulse_log_def zero_pulse_def Let_def
      pulse_ready.simps pulse_event_def)

end
