(* ===== verification/Client_System.thy ===== *)
theory Client_System
  imports Client_Api Pcm
begin

text \<open>
  The functions of the client library (\<^verbatim>\<open>mm_sound.c\<close>) that pass a call on to the audio library: the
  primary volume of a process, the type that plays, the sound path and the capture status; and the
  functions kept for old programs, which do nothing.  The calls are logged, newest first.
\<close>

datatype av_call =
    SetPrimaryVolume pid volume_type
  | ClearPrimaryVolume pid
  | SetPath int int int int

text \<open>The results of the audio library: the states the library tells apart, the path, and whether a
  process captures.\<close>

datatype av_result = AV_SUCCESS | AV_ERR_ALLOCATION | AV_ERR_INVALID_MODE | AV_ERR_OTHER

record av_env =
  av_pid :: pid
  av_primary :: bool
  av_playing :: "av_result \<times> volume_type"
  av_set_path :: bool
  av_path :: "(int \<times> int \<times> int \<times> int) option"
  av_capture :: "int option"

section \<open>Volumes of the system\<close>

definition volume_primary_type_set :: "av_env \<Rightarrow> volume_type \<Rightarrow> av_call list \<Rightarrow> mm_err \<times> av_call list" where
  "volume_primary_type_set E ty cs =
    (if ty < VOLUME_TYPE_SYSTEM \<or> ty \<ge> VOLUME_TYPE_MAX then (MM_ERROR_INVALID_ARGUMENT, cs)
     else (if av_primary E then MM_ERROR_NONE else MM_ERROR_SOUND_INTERNAL,
           SetPrimaryVolume (av_pid E) ty # cs))"

definition volume_primary_type_clear :: "av_env \<Rightarrow> av_call list \<Rightarrow> mm_err \<times> av_call list" where
  "volume_primary_type_clear E cs =
    (if av_primary E then MM_ERROR_NONE else MM_ERROR_SOUND_INTERNAL, ClearPrimaryVolume (av_pid E) # cs)"

definition volume_get_current_playing_type :: "av_env \<Rightarrow> bool \<Rightarrow> mm_err \<times> volume_type option" where
  "volume_get_current_playing_type E ptr_ok =
    (if \<not> ptr_ok then (MM_ERROR_INVALID_ARGUMENT, None)
     else (case fst (av_playing E) of
             AV_SUCCESS \<Rightarrow> (MM_ERROR_NONE, Some (snd (av_playing E)))
           | AV_ERR_ALLOCATION \<Rightarrow> (MM_ERROR_SOUND_VOLUME_NO_INSTANCE, None)
           | AV_ERR_INVALID_MODE \<Rightarrow> (MM_ERROR_SOUND_VOLUME_CAPTURE_ONLY, None)
           | AV_ERR_OTHER \<Rightarrow> (MM_ERROR_SOUND_INTERNAL, None)))"

definition get_volume_step :: "vol_env \<Rightarrow> volume_type \<Rightarrow> bool \<Rightarrow> mm_err \<times> int option" where
  "get_volume_step E ty ptr_ok = volume_get_step E ty ptr_ok"

section \<open>Starting and stopping PCM sounds\<close>

definition pcm_capture_start :: "pcm_env \<Rightarrow> pcm \<Rightarrow> pcm_call list \<Rightarrow> mm_err \<times> pcm \<times> pcm_call list" where
  "pcm_capture_start E p cs = pcm_sound_start E p cs"

definition pcm_capture_stop :: "pcm_env \<Rightarrow> pcm \<Rightarrow> pcm_call list \<Rightarrow> mm_err \<times> pcm \<times> pcm_call list" where
  "pcm_capture_stop E p cs = pcm_sound_stop E p cs"

definition pcm_play_start :: "pcm_env \<Rightarrow> pcm \<Rightarrow> pcm_call list \<Rightarrow> mm_err \<times> pcm \<times> pcm_call list" where
  "pcm_play_start E p cs = pcm_sound_start E p cs"

definition pcm_play_stop :: "pcm_env \<Rightarrow> pcm \<Rightarrow> pcm_call list \<Rightarrow> mm_err \<times> pcm \<times> pcm_call list" where
  "pcm_play_stop E p cs = pcm_sound_stop E p cs"

section \<open>Paths and capture\<close>

definition sound_set_path :: "av_env \<Rightarrow> int \<Rightarrow> int \<Rightarrow> int \<Rightarrow> int \<Rightarrow> av_call list \<Rightarrow> mm_err \<times> av_call list" where
  "sound_set_path E gain output input option' cs =
    (if av_set_path E then MM_ERROR_NONE else MM_ERROR_SOUND_INTERNAL, SetPath gain output input option' # cs)"

text \<open>The pointers are not tested; the audio library writes through them.\<close>

definition sound_get_path :: "av_env \<Rightarrow> mm_err \<times> (int \<times> int \<times> int \<times> int) option" where
  "sound_get_path E = (if av_path E = None then MM_ERROR_SOUND_INTERNAL else MM_ERROR_NONE, av_path E)"

datatype capture_status = SYSTEM_AUDIO_CAPTURE_NONE | SYSTEM_AUDIO_CAPTURE_ACTIVE

definition system_get_capture_status :: "av_env \<Rightarrow> bool \<Rightarrow> mm_err \<times> capture_status option" where
  "system_get_capture_status E ptr_ok =
    (if \<not> ptr_ok then (MM_ERROR_INVALID_ARGUMENT, None)
     else (case av_capture E of
             None \<Rightarrow> (MM_ERROR_SOUND_INTERNAL, None)
           | Some on_capture \<Rightarrow>
               (MM_ERROR_NONE,
                Some (if on_capture \<noteq> 0 then SYSTEM_AUDIO_CAPTURE_ACTIVE else SYSTEM_AUDIO_CAPTURE_NONE))))"

section \<open>Functions without effect\<close>

definition route_set_system_policy :: "int \<Rightarrow> mm_err" where
  "route_set_system_policy route = MM_ERROR_NONE"

text \<open>The route is not written.\<close>

definition route_get_system_policy :: "int \<Rightarrow> mm_err \<times> int" where
  "route_get_system_policy old = (MM_ERROR_NONE, old)"

definition route_add_change_callback :: "ptr \<Rightarrow> ptr \<Rightarrow> mm_err" where
  "route_add_change_callback func data = MM_ERROR_NONE"

definition route_remove_change_callback :: mm_err where
  "route_remove_change_callback = MM_ERROR_NONE"

section \<open>The end of the process\<close>

definition mmfsnd_finalize :: "cl_env \<Rightarrow> client \<Rightarrow> client option" where
  "mmfsnd_finalize E c = map_option snd (MMSoundClientCallbackFini E c)"

definition MMSoundClientInit :: mm_err where
  "MMSoundClientInit = MM_ERROR_NONE"

text \<open>A type that is not one of the volume types never reaches the audio library, in any sequence of calls.\<close>

fun primary_calls :: "(av_env \<times> volume_type option) list \<Rightarrow> av_call list \<Rightarrow> av_call list" where
  "primary_calls [] cs = cs"
| "primary_calls ((E, Some ty) # xs) cs = primary_calls xs (snd (volume_primary_type_set E ty cs))"
| "primary_calls ((E, None) # xs) cs = primary_calls xs (snd (volume_primary_type_clear E cs))"

lemma primary_calls_valid:
  "SetPrimaryVolume p ty \<in> set (primary_calls xs cs) \<Longrightarrow>
    SetPrimaryVolume p ty \<in> set cs \<or> ty \<in> {VOLUME_TYPE_SYSTEM..<VOLUME_TYPE_MAX}"
proof (induction xs cs rule: primary_calls.induct)
  case (2 E t xs cs)
  then show ?case by (auto simp: volume_primary_type_set_def split: if_splits)
qed (auto simp: volume_primary_type_clear_def)

end
