(* ===== verification/Server_Parts.thy ===== *)
theory Server_Parts
  imports Startup Pulse_Conn
begin

text \<open>
  The small operations by which the parts of the server are started, asked and stopped: the values the
  session manager keeps (\<^verbatim>\<open>server/mm_sound_mgr_session.c\<close>), the queues of the audio session manager
  (\<^verbatim>\<open>server/mm_sound_mgr_asm.c\<close>), the threads of the event sources, the end of the thread pool, and what
  the server does when the system wakes up (\<^verbatim>\<open>server/mm_sound_server.c\<close>, \<^verbatim>\<open>common/mm_sound_utils.c\<close>).
\<close>

section \<open>The session manager\<close>

definition get_session :: "bool \<Rightarrow> sess \<Rightarrow> mm_err \<times> session_id option" where
  "get_session ptr_ok s =
    (if \<not> ptr_ok then (MM_ERROR_INVALID_ARGUMENT, None) else (MM_ERROR_NONE, Some (session s)))"

definition get_subsession :: "bool \<Rightarrow> sess \<Rightarrow> mm_err \<times> int option" where
  "get_subsession ptr_ok s =
    (if \<not> ptr_ok then (MM_ERROR_INVALID_ARGUMENT, None) else (MM_ERROR_NONE, Some (subsession s)))"

text \<open>The bytes of the name are given to the caller, not a copy.\<close>

definition get_bt_a2dp_name :: "sess \<Rightarrow> string" where
  "get_bt_a2dp_name s = bt_name s"

section \<open>The queues of the audio session manager\<close>

text \<open>Three queues are made; the process ends when one cannot be.\<close>

definition asm_create_message_queue :: "bool \<times> bool \<times> bool \<Rightarrow> unit option" where
  "asm_create_message_queue made =
    (case made of (r, s, c) \<Rightarrow> if \<not> s \<or> \<not> r \<or> \<not> c then None else Some ())"

text \<open>Old queues are removed with their messages: they are made, removed and made again.  A setting that
  cannot be read has its default.\<close>

definition GCF_DEFAULT :: bool where "GCF_DEFAULT = False"

definition asm_main_start ::
  "bool \<times> bool \<times> bool \<Rightarrow> bool \<times> bool \<times> bool \<Rightarrow> bool \<times> bool \<times> bool \<Rightarrow> bool option \<Rightarrow> sess \<Rightarrow> asm option" where
  "asm_main_start made removed again gcf ss =
    (case asm_create_message_queue made of
       None \<Rightarrow> None
     | Some _ \<Rightarrow>
         (case removed of (r1, r2, r3) \<Rightarrow>
            if \<not> r1 \<or> \<not> r2 \<or> \<not> r3 then None
            else (case asm_create_message_queue again of
                    None \<Rightarrow> None
                  | Some _ \<Rightarrow> Some (asm_init (case gcf of Some g \<Rightarrow> g | None \<Rightarrow> GCF_DEFAULT) ss))))"

definition MMSoundMgrASMInit :: "pool_env \<Rightarrow> ptr \<Rightarrow> pool \<Rightarrow> mm_err \<times> pool" where
  "MMSoundMgrASMInit E main_run p = MMSoundThreadPoolRun E 0 main_run p"

definition MMSoundMgrASMFini :: mm_err where
  "MMSoundMgrASMFini = MM_ERROR_NONE"

section \<open>The event sources\<close>

text \<open>Whether a thread could be started, or a setting be watched, is not told.\<close>

definition MMSoundMgrHeadsetInit :: "pool_env \<Rightarrow> ptr \<Rightarrow> pool \<Rightarrow> mm_err \<times> pool" where
  "MMSoundMgrHeadsetInit E main_run p = (MM_ERROR_NONE, snd (MMSoundThreadPoolRun E 0 main_run p))"

definition MMSoundMgrHeadsetGetType :: "int \<Rightarrow> bool \<Rightarrow> mm_err \<times> int option" where
  "MMSoundMgrHeadsetGetType type ptr_ok = (MM_ERROR_NONE, if ptr_ok then Some type else None)"

definition MMSoundMgrDockInit :: "bool \<Rightarrow> mm_err \<times> bool" where
  "MMSoundMgrDockInit watch_ok = (MM_ERROR_NONE, watch_ok)"

section \<open>The thread pool\<close>

text \<open>The pool is freed at once: no queued task is run any more, and its description stays.\<close>

definition MMSoundThreadPoolFini :: "pool \<Rightarrow> mm_err \<times> pool" where
  "MMSoundThreadPoolFini s = (MM_ERROR_NONE, s\<lparr>tp_created := False, tp_queue := []\<rparr>)"

lemma pool_fini_runs_nothing: "pool_dispatch i (snd (MMSoundThreadPoolFini s)) = None"
  by (simp add: pool_dispatch_def MMSoundThreadPoolFini_def)

section \<open>Waking up\<close>

text \<open>The settings are watched once more, and the volumes restored.\<close>

definition hibernation_leave_cb ::
  "recovery_env \<Rightarrow> int \<Rightarrow> int \<Rightarrow> pulse_conn \<Rightarrow> volume_db \<Rightarrow> (pulse_conn \<times> 32 word list \<times> volume_db) option" where
  "hibernation_leave_cb E mono_ret bt_ret p db =
    (let p1 = snd (pulse_register_mono mono_ret p);
         p2 = snd (pulse_register_bluetooth bt_ret p1)
     in map_option (\<lambda>(vs, d). (p2, vs, d)) (sound_system_bootup_recovery E db))"

text \<open>The file that tells the system that the sound server is up is made or opened.\<close>

definition check_hibernation :: "string option \<Rightarrow> bool \<Rightarrow> bool" where
  "check_hibernation path open_ok = (case path of None \<Rightarrow> False | Some p \<Rightarrow> open_ok)"

end
