(* ===== verification/Testsuite.thy ===== *)
theory Testsuite
  imports Client_System Keysound Tone_Doc
begin

text \<open>
  The test program of the library (\<^verbatim>\<open>testsuite/mm_sound_testsuite_simple.c\<close>): a menu read from the
  standard input, whose commands call the public functions.  The database, the audio library, the server
  and the session library are given by their answers.  A command may wait for ever, or have no defined
  behaviour, where the C code reads an uninitialised index or in front of an array.
\<close>

datatype menu_state =
    CURRENT_STATUS_MAINMENU | CURRENT_STATUS_FILENAME | CURRENT_STATUS_POSITION | CURRENT_STATUS_DIRNAME

definition MAX_STRING_LEN :: nat where "MAX_STRING_LEN = 256"
definition MAX_PATH_LEN :: nat where "MAX_PATH_LEN = 1024"
definition MIN_TONE_PLAY_TIME :: int where "MIN_TONE_PLAY_TIME = 300"
definition POWERON_FILE :: string where "POWERON_FILE = ''/usr/share/keysound/poweron.wav''"

text \<open>What is printed for the user, other than errors.\<close>

datatype printed =
    Menu menu_state
  | MediaVolume "32 word"
  | SystemVolume "32 word"
  | RouteName string
  | DeviceName "string option"
  | PolicySet mm_err
  | A2dpStatus mm_err
  | Status string

datatype session_call = SessionInit mm_session_type | SessionFinish

text \<open>The globals of the program and of the libraries in its process; what was printed and the calls of the
  session library, newest first; the timers that will show the menu.\<close>

record testsuite =
  g_menu_state :: menu_state
  g_volume_type :: volume_type
  g_volume_value :: "32 word"
  g_file_name :: string
  g_dir_name :: string
  ts_handle :: int
  ts_quit :: bool
  ts_timers :: nat
  ts_printed :: "printed list"
  ts_sessions :: "session_call list"
  ts_client :: client
  ts_vol :: vol
  ts_pipe :: "key_msg list"
  ts_av :: "av_call list"

text \<open>The words of the status that the session manager publishes; their bits are those of its header.\<close>

datatype asm_status =
    ASM_STATUS_NONE | ASM_STATUS_MONITOR
  | ASM_STATUS_SHARE_MMPLAYER | ASM_STATUS_EXCLUSIVE_MMPLAYER
  | ASM_STATUS_SHARE_MMSOUND | ASM_STATUS_EXCLUSIVE_MMSOUND
  | ASM_STATUS_SHARE_MMCAMCORDER | ASM_STATUS_EXCLUSIVE_MMCAMCORDER
  | ASM_STATUS_SHARE_OPENAL | ASM_STATUS_EXCLUSIVE_OPENAL
  | ASM_STATUS_SHARE_AVSYSTEM | ASM_STATUS_EXCLUSIVE_AVSYSTEM
  | ASM_STATUS_NOTIFY | ASM_STATUS_ALARM | ASM_STATUS_CALL | ASM_STATUS_VIDEOCALL

text \<open>An entry of a directory: its name, whether it is a regular file, whether the end of its sound is told.\<close>

record dir_entry =
  de_name :: string
  de_regular :: bool
  de_called :: bool

text \<open>The answers of the system.  \<^verbatim>\<open>te_strip\<close> is the function of GLib that drops white space at both ends,
  \<^verbatim>\<open>te_atof\<close> reads a number in the language of the user; \<^verbatim>\<open>te_step\<close> and \<^verbatim>\<open>te_route\<close> are what uninitialised
  variables hold; \<^verbatim>\<open>te_lines\<close> is what the reads from the standard input give, nothing at its end.\<close>

record ts_env =
  te_vol :: vol_env
  te_cl :: cl_env
  te_prio :: priorities
  te_av :: av_env
  te_key :: keysound_env
  te_strip :: "string \<Rightarrow> string"
  te_atof :: "string \<Rightarrow> real"
  te_step :: int
  te_route :: int
  te_status :: "32 word option"
  te_bits :: "asm_status \<Rightarrow> 32 word"
  te_lines :: "string option list"
  te_dir :: "string \<Rightarrow> dir_entry list option"
  te_mycallback :: ptr
  te_userdata :: ptr
  te_test_callback :: ptr
  te_volume_cb :: ptr
  te_volume_data :: ptr

datatype ts_stop = Waiting | Undefined

definition shows_line :: "printed \<Rightarrow> testsuite \<Rightarrow> testsuite" where
  "shows_line p s = s\<lparr>ts_printed := p # ts_printed s\<rparr>"

section \<open>Volumes\<close>

text \<open>The value is 100 before it is read.\<close>

definition read_volume :: "ts_env \<Rightarrow> volume_type \<Rightarrow> testsuite \<Rightarrow> mm_err \<times> 32 word" where
  "read_volume E ty s =
    (case volume_get_value (te_vol E) ty True (ts_vol s) of
       (e, v) \<Rightarrow> (e, case v of Some x \<Rightarrow> x | None \<Rightarrow> 100))"

definition get_volume :: "ts_env \<Rightarrow> volume_type \<Rightarrow> (32 word \<Rightarrow> printed) \<Rightarrow> testsuite \<Rightarrow> testsuite" where
  "get_volume E ty pr s =
    (case read_volume E ty s of
       (e, v) \<Rightarrow> if is_failure e then s else shows_line (pr v) (s\<lparr>g_volume_value := v\<rparr>))"

definition write_volume :: "ts_env \<Rightarrow> volume_type \<Rightarrow> printed option \<Rightarrow> 32 word \<Rightarrow> testsuite \<Rightarrow> testsuite" where
  "write_volume E ty pr v s =
    (case volume_set_value (te_vol E) ty v (ts_vol s) of
       (e, vo) \<Rightarrow>
         (case pr of
            Some p \<Rightarrow> if is_failure e then s\<lparr>ts_vol := vo\<rparr> else shows_line p (s\<lparr>ts_vol := vo\<rparr>)
          | None \<Rightarrow> s\<lparr>ts_vol := vo\<rparr>))"

text \<open>The comparison with the step, a signed variable, is one of unsigned words.\<close>

definition raised :: "ts_env \<Rightarrow> volume_type \<Rightarrow> 32 word \<Rightarrow> 32 word" where
  "raised E ty v =
    (let value = v + 1;
         step = word_of_int (case snd (volume_get_step (te_vol E) ty True) of Some n \<Rightarrow> n | None \<Rightarrow> te_step E)
     in if value \<ge> step then step - 1 else value)"

definition volume_up :: "ts_env \<Rightarrow> volume_type \<Rightarrow> bool \<Rightarrow> testsuite \<Rightarrow> testsuite" where
  "volume_up E ty tell s =
    (case read_volume E ty s of
       (e, v) \<Rightarrow>
         if is_failure e then s
         else (let value = raised E ty v
               in write_volume E ty (if tell then Some (SystemVolume value) else None) value s))"

definition lowered :: "32 word \<Rightarrow> 32 word" where
  "lowered v = (if v \<noteq> 0 then v - 1 else v)"

definition volume_down :: "ts_env \<Rightarrow> volume_type \<Rightarrow> bool \<Rightarrow> testsuite \<Rightarrow> testsuite" where
  "volume_down E ty tell s =
    (case read_volume E ty s of
       (e, v) \<Rightarrow>
         if is_failure e then s
         else write_volume E ty (if tell then Some (SystemVolume (lowered v)) else None) (lowered v) s)"

text \<open>The database tells of a change: the value is read again, of whichever type changed.\<close>

definition volume_change_callback :: "ts_env \<Rightarrow> testsuite \<Rightarrow> testsuite" where
  "volume_change_callback E s =
    (case snd (volume_get_value (te_vol E) (g_volume_type s) True (ts_vol s)) of
       Some v \<Rightarrow> s\<lparr>g_volume_value := v\<rparr> | None \<Rightarrow> s)"

definition volume_event :: "ts_env \<Rightarrow> volume_type \<Rightarrow> testsuite \<Rightarrow> testsuite" where
  "volume_event E ty s =
    (let vo = volume_changed ty (ts_vol s); t = s\<lparr>ts_vol := vo\<rparr>
     in if length (vol_called vo) > length (vol_called (ts_vol s)) \<and>
           hd (vol_called vo) = (te_volume_cb E, te_volume_data E)
        then volume_change_callback E t else t)"

section \<open>Sounds\<close>

definition took_handle ::
  "(mm_err \<times> int option \<times> client) option \<Rightarrow> testsuite \<Rightarrow> ts_stop + mm_err \<times> testsuite" where
  "took_handle r s =
    (case r of
       None \<Rightarrow> Inl Waiting
     | Some (e, h, c) \<Rightarrow>
         Inr (e, s\<lparr>ts_client := c, ts_handle := (case h of Some n \<Rightarrow> n | None \<Rightarrow> ts_handle s)\<rparr>))"

definition play_key :: "ts_env \<Rightarrow> testsuite \<Rightarrow> testsuite" where
  "play_key E s =
    s\<lparr>ts_pipe := snd (mm_sound_play_keysound (te_key E) (Some POWERON_FILE) 8 (ts_pipe s))\<rparr>"

definition play_file :: "ts_env \<Rightarrow> testsuite \<Rightarrow> ts_stop + testsuite" where
  "play_file E s =
    map_sum id snd (took_handle (mm_sound_play_sound (te_prio E) (te_cl E) (Some (g_file_name s))
      (g_volume_type s) (te_mycallback E) (te_userdata E) (ts_client s)) s)"

definition play_loud :: "ts_env \<Rightarrow> testsuite \<Rightarrow> ts_stop + testsuite" where
  "play_loud E s =
    map_sum id snd (took_handle (mm_sound_play_loud_solo_sound (te_prio E) (te_cl E) (Some (g_file_name s))
      (g_volume_type s) (te_mycallback E) (te_userdata E) (ts_client s)) s)"

definition play_ex :: "ts_env \<Rightarrow> testsuite \<Rightarrow> ts_stop + testsuite" where
  "play_ex E s =
    map_sum id snd (took_handle (mm_sound_play_sound_ex (te_cl E)
      (Some \<lparr>sp_filename = Some (g_file_name s), sp_volume = sint (g_volume_value s), sp_loop = -1,
             sp_callback = te_mycallback E, sp_data = 0, sp_mem_ptr = None, sp_mem_size = 0,
             sp_handle_route = 0, sp_volume_table = g_volume_type s, sp_priority = 0\<rparr>) (ts_client s)) s)"

definition stop_file :: "ts_env \<Rightarrow> testsuite \<Rightarrow> ts_stop + testsuite" where
  "stop_file E s =
    (case mm_sound_stop_sound (te_cl E) (ts_handle s) (ts_client s) of
       None \<Rightarrow> Inl Waiting
     | Some (e, c) \<Rightarrow> Inr (s\<lparr>ts_client := c\<rparr>))"

section \<open>Tones\<close>

text \<open>The keys of the tone menu other than digits, in the order of the tests.\<close>

definition tone_keys :: "(char \<times> string) list" where
  "tone_keys = [
    (CHR ''*'', ''MM_SOUND_TONE_DTMF_S''),
    (CHR ''#'', ''MM_SOUND_TONE_DTMF_P''),
    (CHR ''A'', ''MM_SOUND_TONE_DTMF_A''),
    (CHR ''B'', ''MM_SOUND_TONE_DTMF_B''),
    (CHR ''C'', ''MM_SOUND_TONE_DTMF_C''),
    (CHR ''D'', ''MM_SOUND_TONE_DTMF_D''),
    (CHR ''E'', ''MM_SOUND_TONE_SUP_DIAL''),
    (CHR ''F'', ''MM_SOUND_TONE_ANSI_DIAL''),
    (CHR ''G'', ''MM_SOUND_TONE_JAPAN_DIAL''),
    (CHR ''H'', ''MM_SOUND_TONE_SUP_BUSY''),
    (CHR ''I'', ''MM_SOUND_TONE_ANSI_BUSY''),
    (CHR ''J'', ''MM_SOUND_TONE_JAPAN_BUSY''),
    (CHR ''K'', ''MM_SOUND_TONE_SUP_CONGESTION''),
    (CHR ''L'', ''MM_SOUND_TONE_ANSI_CONGESTION''),
    (CHR ''M'', ''MM_SOUND_TONE_SUP_RADIO_ACK''),
    (CHR ''N'', ''MM_SOUND_TONE_JAPAN_RADIO_ACK''),
    (CHR ''O'', ''MM_SOUND_TONE_SUP_RADIO_NOTAVAIL''),
    (CHR ''P'', ''MM_SOUND_TONE_SUP_ERROR''),
    (CHR ''Q'', ''MM_SOUND_TONE_SUP_CALL_WAITING''),
    (CHR ''R'', ''MM_SOUND_TONE_ANSI_CALL_WAITING''),
    (CHR ''S'', ''MM_SOUND_TONE_SUP_RINGTONE''),
    (CHR ''T'', ''MM_SOUND_TONE_ANSI_RINGTONE''),
    (CHR ''U'', ''MM_SOUND_TONE_PROP_BEEP''),
    (CHR ''V'', ''MM_SOUND_TONE_PROP_ACK''),
    (CHR ''W'', ''MM_SOUND_TONE_PROP_NACK''),
    (CHR ''X'', ''MM_SOUND_TONE_PROP_PROMPT''),
    (CHR ''Y'', ''MM_SOUND_TONE_PROP_BEEP2''),
    (CHR ''Z'', ''MM_SOUND_TONE_CDMA_HIGH_SLS''),
    (CHR ''['', ''MM_SOUND_TONE_CDMA_MED_SLS''),
    (CHR '']'', ''MM_SOUND_TONE_CDMA_LOW_SLS''),
    (CHR ''^'', ''MM_SOUND_TONE_CDMA_HIGH_S_X4''),
    (CHR ''_'', ''MM_SOUND_TONE_CDMA_MED_S_X4''),
    (CHR ''a'', ''MM_SOUND_TONE_CDMA_LOW_S_X4''),
    (CHR ''b'', ''MM_SOUND_TONE_CDMA_HIGH_PBX_L''),
    (CHR ''c'', ''MM_SOUND_TONE_CDMA_MED_PBX_L''),
    (CHR ''d'', ''MM_SOUND_TONE_CDMA_LOW_PBX_L''),
    (CHR ''e'', ''MM_SOUND_TONE_CDMA_HIGH_PBX_SS''),
    (CHR ''f'', ''MM_SOUND_TONE_CDMA_MED_PBX_SS''),
    (CHR ''g'', ''MM_SOUND_TONE_CDMA_LOW_PBX_SS''),
    (CHR ''h'', ''MM_SOUND_TONE_CDMA_HIGH_PBX_SSL''),
    (CHR ''i'', ''MM_SOUND_TONE_CDMA_MED_PBX_SSL''),
    (CHR ''j'', ''MM_SOUND_TONE_CDMA_LOW_PBX_SSL''),
    (CHR ''k'', ''MM_SOUND_TONE_CDMA_HIGH_PBX_SLS''),
    (CHR ''l'', ''MM_SOUND_TONE_CDMA_MED_PBX_SLS''),
    (CHR ''m'', ''MM_SOUND_TONE_CDMA_LOW_PBX_SLS''),
    (CHR ''n'', ''MM_SOUND_TONE_CDMA_HIGH_PBX_S_X4''),
    (CHR ''o'', ''MM_SOUND_TONE_CDMA_MED_PBX_S_X4''),
    (CHR ''p'', ''MM_SOUND_TONE_CDMA_LOW_PBX_S_X4''),
    (CHR ''q'', ''MM_SOUND_TONE_CDMA_ALERT_NETWORK_LITE''),
    (CHR ''r'', ''MM_SOUND_TONE_CDMA_ALERT_AUTOREDIAL_LITE''),
    (CHR ''s'', ''MM_SOUND_TONE_CDMA_ONE_MIN_BEEP''),
    (CHR ''t'', ''MM_SOUND_TONE_CDMA_KEYPAD_VOLUME_KEY_LITE''),
    (CHR ''u'', ''MM_SOUND_TONE_CDMA_PRESSHOLDKEY_LITE''),
    (CHR ''v'', ''MM_SOUND_TONE_CDMA_ALERT_INCALL_LITE''),
    (CHR ''w'', ''MM_SOUND_TONE_CDMA_EMERGENCY_RINGBACK''),
    (CHR ''x'', ''MM_SOUND_TONE_CDMA_ALERT_CALL_GUARD''),
    (CHR ''y'', ''MM_SOUND_TONE_CDMA_SOFT_ERROR_LITE''),
    (CHR ''z'', ''MM_SOUND_TONE_CDMA_CALLDROP_LITE''),
    (CHR ''{'', ''MM_SOUND_TONE_CDMA_NETWORK_BUSY_ONE_SHOT''),
    (CHR ''}'', ''MM_SOUND_TONE_CDMA_CALL_SIGNAL_ISDN_PING_RING''),
    (CHR ''~'', ''MM_SOUND_TONE_CDMA_SIGNAL_OFF'')]"

text \<open>The number of an enumerator is its place.\<close>

fun place_of :: "'a \<Rightarrow> 'a list \<Rightarrow> int" where
  "place_of x [] = 0"
| "place_of x (y # ys) = (if x = y then 0 else 1 + place_of x ys)"

definition MMSoundTone_number :: "string \<Rightarrow> int" where
  "MMSoundTone_number name = place_of name (map fst MMSoundTone)"

abbreviation char_code :: "char \<Rightarrow> int" where
  "char_code c \<equiv> int (of_char c)"

definition is_digit :: "char \<Rightarrow> bool" where
  "is_digit c \<longleftrightarrow> char_code (CHR ''0'') \<le> char_code c \<and> char_code c \<le> char_code (CHR ''9'')"

text \<open>The tone of a key; the tone before stays for a key without one.\<close>

definition tone_of_key :: "char \<Rightarrow> int \<Rightarrow> int" where
  "tone_of_key c old =
    (if is_digit c then char_code c - char_code (CHR ''0'')
     else case map_of tone_keys c of Some name \<Rightarrow> MMSoundTone_number name | None \<Rightarrow> old)"

definition tone_key_allowed :: "char \<Rightarrow> bool" where
  "tone_key_allowed c \<longleftrightarrow>
    \<not> (char_code c < char_code (CHR ''0'') \<or> char_code c > char_code (CHR 0x7E)) \<or> c = CHR ''*'' \<or> c = CHR ''#''"

text \<open>\<^verbatim>\<open>strtok\<close> with a blank as delimiter: the parts of a line, and what the line is after its first part was
  taken: the blank behind it has become the end of the string.\<close>

function parts :: "string \<Rightarrow> string list" where
  "parts s =
    (case dropWhile (\<lambda>c. c = CHR '' '') s of
       [] \<Rightarrow> []
     | c # cs \<Rightarrow> takeWhile (\<lambda>c. c \<noteq> CHR '' '') (c # cs) # parts (dropWhile (\<lambda>c. c \<noteq> CHR '' '') (c # cs)))"
  by pat_completeness auto
termination
proof (relation "measure length", goal_cases)
  case (2 s c cs)
  then have "c \<noteq> CHR '' ''" using hd_dropWhile [of "\<lambda>c. c = CHR '' ''" s] by force
  moreover have "length (dropWhile P xs) \<le> length xs" for P and xs :: string by (simp add: length_dropWhile_le)
  note this [of "\<lambda>c. c \<noteq> CHR '' ''" cs] this [of "\<lambda>c. c = CHR '' ''" s]
  ultimately show ?case using 2 by simp
qed simp

declare parts.simps [simp del]

definition after_strtok :: "string \<Rightarrow> string" where
  "after_strtok s =
    (let blanks = takeWhile (\<lambda>c. c = CHR '' '') s; rest = dropWhile (\<lambda>c. c = CHR '' '') s
     in blanks @ takeWhile (\<lambda>c. c \<noteq> CHR '' '') rest)"

text \<open>\<^verbatim>\<open>atoi\<close>: white space, a sign, digits.\<close>

definition c_isspace :: "char \<Rightarrow> bool" where
  "c_isspace c \<longleftrightarrow> char_code c = 32 \<or> 9 \<le> char_code c \<and> char_code c \<le> 13"

definition digits_value :: "string \<Rightarrow> int" where
  "digits_value s = foldl (\<lambda>n c. 10 * n + (char_code c - char_code (CHR ''0''))) 0 (takeWhile is_digit s)"

definition atoi :: "string \<Rightarrow> int" where
  "atoi s =
    (case dropWhile c_isspace s of
       [] \<Rightarrow> 0
     | c # cs \<Rightarrow> if c = CHR ''-'' then - digits_value cs else if c = CHR ''+'' then digits_value cs
                 else digits_value (c # cs))"

definition nth_part :: "nat \<Rightarrow> string list \<Rightarrow> string option" where
  "nth_part n ts = (if n < length ts then Some (ts ! n) else None)"

text \<open>The loop of the tone menu over the reads from the standard input.  A read at the end of the input leaves
  the line as it is; tone, volume type and volume stay from the round before.\<close>

fun tone_menu_loop :: "ts_env \<Rightarrow> string option list \<Rightarrow> string \<Rightarrow> int \<Rightarrow> int \<Rightarrow> real \<Rightarrow> testsuite \<Rightarrow> ts_stop + testsuite" where
  "tone_menu_loop E [] line tone vt vol s = Inl Waiting"
| "tone_menu_loop E (r # rs) line tone vt vol s =
    (let l = (case r of Some x \<Rightarrow> x | None \<Rightarrow> line); ts = parts l; l' = after_strtok l
     in case ts of
          [] \<Rightarrow> tone_menu_loop E rs l' tone vt vol s
        | t # _ \<Rightarrow>
            let c = hd t
            in if c = CHR ''q'' then Inr s
               else if \<not> tone_key_allowed c then tone_menu_loop E rs l' tone vt vol s
               else (let tone' = tone_of_key c tone;
                         vt' = (case nth_part 1 ts of Some x \<Rightarrow> atoi x | None \<Rightarrow> vt);
                         vol' = (case nth_part 2 ts of Some x \<Rightarrow> te_atof E x | None \<Rightarrow> vol);
                         time = (case nth_part 3 ts of Some x \<Rightarrow> atoi x | None \<Rightarrow> MIN_TONE_PLAY_TIME)
                     in case took_handle (mm_sound_play_tone (te_cl E) tone' vt' vol' time (ts_client s)) s of
                          Inl w \<Rightarrow> Inl w
                        | Inr (e, s') \<Rightarrow> tone_menu_loop E rs l' tone' vt' vol' s'))"

definition play_tones :: "ts_env \<Rightarrow> testsuite \<Rightarrow> ts_stop + testsuite" where
  "play_tones E s = tone_menu_loop E (te_lines E) [] (MMSoundTone_number ''MM_SOUND_TONE_DTMF_0'') (-1) 1 s"

section \<open>Directories\<close>

text \<open>A file is played and its end awaited; the name is cut to what the buffer holds.\<close>

fun play_entries :: "ts_env \<Rightarrow> dir_entry list \<Rightarrow> testsuite \<Rightarrow> ts_stop + testsuite" where
  "play_entries E [] s = Inr s"
| "play_entries E (d # ds) s =
    (if take 1 (de_name d) = ''.'' then play_entries E ds s
     else if \<not> de_regular d then play_entries E ds s
     else (let full = take (MAX_PATH_LEN - 2) (g_dir_name s @ ''/'' @ de_name d)
           in case took_handle (mm_sound_play_sound (te_prio E) (te_cl E) (Some full) (g_volume_type s)
                    (te_test_callback E) 0 (ts_client s)) s of
                Inl w \<Rightarrow> Inl w
              | Inr (e, s') \<Rightarrow>
                  if e \<noteq> MM_ERROR_NONE then play_entries E ds s'
                  else if de_called d then play_entries E ds s'
                  else Inl Waiting))"

definition play_directory :: "ts_env \<Rightarrow> testsuite \<Rightarrow> ts_stop + testsuite" where
  "play_directory E s =
    (if g_dir_name s = [] then Inl Undefined
     else (let dir = (if last (g_dir_name s) = CHR ''/'' then butlast (g_dir_name s) else g_dir_name s);
               s' = s\<lparr>g_dir_name := dir\<rparr>
           in case te_dir E dir of None \<Rightarrow> Inr s' | Some ds \<Rightarrow> play_entries E ds s'))"

section \<open>Paths, routes and sessions\<close>

definition MM_SOUND_GAIN_KEYTONE :: int where "MM_SOUND_GAIN_KEYTONE = 0"
definition MM_SOUND_GAIN_VOICECALL :: int where "MM_SOUND_GAIN_VOICECALL = 6"
definition MM_SOUND_GAIN_VIDEOCALL :: int where "MM_SOUND_GAIN_VIDEOCALL = 7"
definition MM_SOUND_GAIN_VOICEREC :: int where "MM_SOUND_GAIN_VOICEREC = 9"
definition MM_SOUND_PATH_NONE :: int where "MM_SOUND_PATH_NONE = 0"
definition MM_SOUND_PATH_SPK :: int where "MM_SOUND_PATH_SPK = 1"
definition MM_SOUND_PATH_RECV :: int where "MM_SOUND_PATH_RECV = 2"
definition MM_SOUND_PATH_HEADSET :: int where "MM_SOUND_PATH_HEADSET = 3"
definition MM_SOUND_PATH_MIC :: int where "MM_SOUND_PATH_MIC = 1"
definition MM_SOUND_PATH_OPTION_NONE :: int where "MM_SOUND_PATH_OPTION_NONE = 0"

text \<open>The gain, output and input of the digits; the third and the fifth do nothing.\<close>

definition path_of_digit :: "char \<Rightarrow> (int \<times> int \<times> int) option" where
  "path_of_digit c =
    (if c = CHR ''1'' then Some (MM_SOUND_GAIN_KEYTONE, MM_SOUND_PATH_SPK, MM_SOUND_PATH_NONE)
     else if c = CHR ''2'' then Some (MM_SOUND_GAIN_KEYTONE, MM_SOUND_PATH_HEADSET, MM_SOUND_PATH_NONE)
     else if c = CHR ''4'' then Some (MM_SOUND_GAIN_VOICEREC, MM_SOUND_PATH_NONE, MM_SOUND_PATH_MIC)
     else if c = CHR ''6'' then Some (MM_SOUND_GAIN_VOICECALL, MM_SOUND_PATH_RECV, MM_SOUND_PATH_MIC)
     else if c = CHR ''7'' then Some (MM_SOUND_GAIN_VOICECALL, MM_SOUND_PATH_NONE, MM_SOUND_PATH_NONE)
     else if c = CHR ''8'' then Some (MM_SOUND_GAIN_VIDEOCALL, MM_SOUND_PATH_SPK, MM_SOUND_PATH_MIC)
     else if c = CHR ''9'' then Some (MM_SOUND_GAIN_VIDEOCALL, MM_SOUND_PATH_NONE, MM_SOUND_PATH_NONE)
     else None)"

definition set_path :: "ts_env \<Rightarrow> char \<Rightarrow> testsuite \<Rightarrow> testsuite" where
  "set_path E c s =
    (case path_of_digit c of
       None \<Rightarrow> s
     | Some (gain, out, inp) \<Rightarrow>
         s\<lparr>ts_av := snd (sound_set_path (te_av E) gain out inp MM_SOUND_PATH_OPTION_NONE (ts_av s))\<rparr>)"

definition str_route :: "string list" where "str_route = [''DEFAULT'', ''IGN_A2DP'', ''HANDSET'']"

definition get_route :: "ts_env \<Rightarrow> testsuite \<Rightarrow> ts_stop + testsuite" where
  "get_route E s =
    (let route = snd (route_get_system_policy (te_route E))
     in if 0 \<le> route \<and> route < int (length str_route)
        then Inr (shows_line (RouteName (str_route ! nat route)) s) else Inl Undefined)"

text \<open>The callback for changes of the policy, which the library never calls: it shows the policy it is told and
  the one it reads.\<close>

definition audio_route_policy_changed :: "ts_env \<Rightarrow> int \<Rightarrow> testsuite \<Rightarrow> ts_stop + testsuite" where
  "audio_route_policy_changed E policy s =
    (if 0 \<le> policy \<and> policy < int (length str_route)
     then get_route E (shows_line (RouteName (str_route ! nat policy)) s) else Inl Undefined)"

text \<open>The name of the earphone is given only in a variant of the build; its place is null otherwise.\<close>

fun str_dev :: "playback_device \<Rightarrow> string option" where
  "str_dev SYSTEM_AUDIO_ROUTE_PLAYBACK_DEVICE_NONE = Some ''None''"
| "str_dev SYSTEM_AUDIO_ROUTE_PLAYBACK_DEVICE_HANDSET = Some ''Handset''"
| "str_dev SYSTEM_AUDIO_ROUTE_PLAYBACK_DEVICE_BLUETOOTH = Some ''Bluetooth''"
| "str_dev SYSTEM_AUDIO_ROUTE_PLAYBACK_DEVICE_EARPHONE = None"

definition get_playing :: "ts_env \<Rightarrow> testsuite \<Rightarrow> testsuite" where
  "get_playing E s =
    shows_line (DeviceName (str_dev (case snd (route_get_playing_device (te_vol E)) of
      Some d \<Rightarrow> d | None \<Rightarrow> SYSTEM_AUDIO_ROUTE_PLAYBACK_DEVICE_NONE))) s"

definition set_policy :: "int \<Rightarrow> testsuite \<Rightarrow> testsuite" where
  "set_policy route s = shows_line (PolicySet (route_set_system_policy route)) s"

definition ask_a2dp :: "ts_env \<Rightarrow> testsuite \<Rightarrow> ts_stop + testsuite" where
  "ask_a2dp E s =
    (case mm_sound_route_get_a2dp_status (te_cl E) True (ts_client s) of
       None \<Rightarrow> Inl Waiting
     | Some (e, x, c) \<Rightarrow> Inr (shows_line (A2dpStatus e) (s\<lparr>ts_client := c\<rparr>)))"

definition session_call :: "session_call \<Rightarrow> testsuite \<Rightarrow> testsuite" where
  "session_call x s = s\<lparr>ts_sessions := x # ts_sessions s\<rparr>"

text \<open>The first test compares before it masks, as the operators of C bind.\<close>

definition status_names :: "(asm_status \<times> string) list" where
  "status_names =
    [(ASM_STATUS_SHARE_MMPLAYER, ''SHARE - PLAYER''), (ASM_STATUS_EXCLUSIVE_MMPLAYER, ''EXCLUSIVE - PLAYER''),
     (ASM_STATUS_SHARE_MMSOUND, ''SHARE - SOUND''), (ASM_STATUS_EXCLUSIVE_MMSOUND, ''EXCLUSIVE - SOUND''),
     (ASM_STATUS_SHARE_MMCAMCORDER, ''SHARE - CAMCORDER''),
     (ASM_STATUS_EXCLUSIVE_MMCAMCORDER, ''EXCLUSIVE - CAMCORDER''),
     (ASM_STATUS_SHARE_OPENAL, ''SHARE - OPENAL''), (ASM_STATUS_EXCLUSIVE_OPENAL, ''EXCLUSIVE - OPENAL''),
     (ASM_STATUS_SHARE_AVSYSTEM, ''SHARE - AVSYSTEM''), (ASM_STATUS_EXCLUSIVE_AVSYSTEM, ''EXCLUSIVE - AVSYSTEM''),
     (ASM_STATUS_NOTIFY, ''NOTIFY''), (ASM_STATUS_ALARM, ''ALARM''), (ASM_STATUS_CALL, ''CALL''),
     (ASM_STATUS_VIDEOCALL, ''VIDEOCALL'')]"

definition status_lines :: "(asm_status \<Rightarrow> 32 word) \<Rightarrow> 32 word \<Rightarrow> string list" where
  "status_lines B value =
    (if value = B ASM_STATUS_NONE \<or> of_bool (value = B ASM_STATUS_NONE) AND B ASM_STATUS_MONITOR \<noteq> 0
     then [''No Session Instance''] else []) @
    map snd (filter (\<lambda>(st, name). value AND B st \<noteq> 0) status_names)"

definition show_status :: "ts_env \<Rightarrow> testsuite \<Rightarrow> testsuite" where
  "show_status E s =
    (case te_status E of
       None \<Rightarrow> s
     | Some value \<Rightarrow> fold (\<lambda>l. shows_line (Status l)) (status_lines (te_bits E) value) s)"

section \<open>The menu\<close>

definition quit_program :: "testsuite \<Rightarrow> testsuite" where
  "quit_program s = s\<lparr>ts_quit := True\<rparr>"

text \<open>Commands are told by their first character; the commands that are not known do nothing.\<close>

definition command :: "ts_env \<Rightarrow> char \<Rightarrow> testsuite \<Rightarrow> ts_stop + testsuite" where
  "command E c s =
    (if c = CHR ''k'' then Inr (play_key E s)
     else if c = CHR ''q'' then Inr (get_volume E (g_volume_type s) MediaVolume s)
     else if c = CHR ''w'' then Inr (volume_up E (g_volume_type s) False s)
     else if c = CHR ''e'' then Inr (volume_down E (g_volume_type s) False s)
     else if c = CHR ''r'' then Inr (get_volume E VOLUME_TYPE_SYSTEM SystemVolume s)
     else if c = CHR ''t'' then Inr (volume_up E VOLUME_TYPE_SYSTEM True s)
     else if c = CHR ''y'' then Inr (volume_down E VOLUME_TYPE_SYSTEM True s)
     else if c = CHR ''a'' then play_file E s
     else if c = CHR ''A'' then play_loud E s
     else if c = CHR ''F'' then play_tones E s
     else if c = CHR ''b'' then play_directory E s
     else if c = CHR ''c'' then play_ex E s
     else if c = CHR ''f'' then Inr (s\<lparr>g_menu_state := CURRENT_STATUS_FILENAME\<rparr>)
     else if c = CHR ''d'' then Inr (s\<lparr>g_menu_state := CURRENT_STATUS_DIRNAME\<rparr>)
     else if c = CHR ''s'' then stop_file E s
     else if c \<in> set ''123456789'' then Inr (set_path E c s)
     else if c = CHR ''o'' then get_route E s
     else if c = CHR ''O'' then Inr (get_playing E s)
     else if c = CHR ''u'' then Inr (set_policy 1 s)
     else if c = CHR ''i'' then Inr (set_policy 0 s)
     else if c = CHR ''p'' then ask_a2dp E s
     else if c = CHR ''z'' then Inr (session_call (SessionInit MM_SESSION_TYPE_CALL) s)
     else if c = CHR ''Z'' then Inr (session_call (SessionInit MM_SESSION_TYPE_VIDEOCALL) s)
     else if c = CHR ''v'' then Inr (session_call SessionFinish s)
     else if c = CHR ''V'' then Inr (show_status E s)
     else if c = CHR ''x'' then Inr (quit_program s)
     else Inr s)"

definition input_filename :: "string \<Rightarrow> testsuite \<Rightarrow> testsuite" where
  "input_filename f s = s\<lparr>g_file_name := take (MAX_STRING_LEN - 1) f\<rparr>"

definition input_dirname :: "string \<Rightarrow> testsuite \<Rightarrow> testsuite" where
  "input_dirname d s = s\<lparr>g_dir_name := take (MAX_PATH_LEN - 1) d\<rparr>"

definition interpret_state :: "ts_env \<Rightarrow> string \<Rightarrow> testsuite \<Rightarrow> ts_stop + testsuite" where
  "interpret_state E cmd s =
    (case g_menu_state s of
       CURRENT_STATUS_MAINMENU \<Rightarrow> (case cmd of [] \<Rightarrow> Inr s | c # _ \<Rightarrow> command E c s)
     | CURRENT_STATUS_FILENAME \<Rightarrow> Inr ((input_filename cmd s)\<lparr>g_menu_state := CURRENT_STATUS_MAINMENU\<rparr>)
     | CURRENT_STATUS_DIRNAME \<Rightarrow> Inr ((input_dirname cmd s)\<lparr>g_menu_state := CURRENT_STATUS_MAINMENU\<rparr>)
     | CURRENT_STATUS_POSITION \<Rightarrow> Inr s)"

text \<open>A timer will show the menu again.\<close>

definition interpret_cmd :: "ts_env \<Rightarrow> string \<Rightarrow> testsuite \<Rightarrow> ts_stop + testsuite" where
  "interpret_cmd E cmd s = map_sum id (\<lambda>t. t\<lparr>ts_timers := Suc (ts_timers t)\<rparr>) (interpret_state E cmd s)"

definition displaymenu :: "testsuite \<Rightarrow> testsuite" where
  "displaymenu s =
    (if g_menu_state s \<in> {CURRENT_STATUS_MAINMENU, CURRENT_STATUS_FILENAME, CURRENT_STATUS_DIRNAME}
     then shows_line (Menu (g_menu_state s)) s else quit_program s)"

text \<open>The commands the menu names.\<close>

definition menu_commands :: string where
  "menu_commands = ''123456789kaAcFbsqwertyuioOpzZvVdfx''"

definition timeout_menu_display :: "testsuite \<Rightarrow> testsuite" where
  "timeout_menu_display s = displaymenu (s\<lparr>ts_timers := ts_timers s - 1\<rparr>)"

definition input_line :: "ts_env \<Rightarrow> string \<Rightarrow> testsuite \<Rightarrow> ts_stop + testsuite" where
  "input_line E raw s = interpret_cmd E (te_strip E (takeWhile (\<lambda>c. c \<noteq> NUL) (take MAX_STRING_LEN raw))) s"

section \<open>The main loop\<close>

datatype ts_event = Input string | Timer | VolumeEvent volume_type

text \<open>What the main loop meets, until the program is told to quit.\<close>

fun ts_events :: "ts_env \<Rightarrow> ts_event list \<Rightarrow> testsuite \<Rightarrow> ts_stop + testsuite" where
  "ts_events E [] s = Inr s"
| "ts_events E (e # es) s =
    (if ts_quit s then Inr s
     else case e of
            Input raw \<Rightarrow> (case input_line E raw s of Inl w \<Rightarrow> Inl w | Inr t \<Rightarrow> ts_events E es t)
          | Timer \<Rightarrow> ts_events E es (if ts_timers s = 0 then s else timeout_menu_display s)
          | VolumeEvent ty \<Rightarrow> ts_events E es (volume_event E ty s))"

definition ts_start :: "client \<Rightarrow> vol \<Rightarrow> key_msg list \<Rightarrow> testsuite" where
  "ts_start c v p =
    \<lparr>g_menu_state = CURRENT_STATUS_MAINMENU, g_volume_type = VOLUME_TYPE_MEDIA, g_volume_value = 0,
     g_file_name = [], g_dir_name = [], ts_handle = -1, ts_quit = False, ts_timers = 0, ts_printed = [],
     ts_sessions = [], ts_client = c, ts_vol = v, ts_pipe = p, ts_av = []\<rparr>"

definition ts_init :: "ts_env \<Rightarrow> testsuite \<Rightarrow> testsuite" where
  "ts_init E s =
    (let s1 = volume_change_callback E (s\<lparr>g_volume_type := VOLUME_TYPE_MEDIA\<rparr>);
         s2 = s1\<lparr>ts_vol := snd (volume_add_callback (te_vol E) (g_volume_type s1) (te_volume_cb E)
                                (te_volume_data E) (ts_vol s1))\<rparr>
     in displaymenu s2)"

definition ts_main :: "ts_env \<Rightarrow> client \<Rightarrow> vol \<Rightarrow> key_msg list \<Rightarrow> ts_event list \<Rightarrow> ts_stop + testsuite" where
  "ts_main E c v p es = ts_events E es (ts_init E (ts_start c v p))"

end
