(* ===== verification/Testsuite_Props.thy ===== *)
theory Testsuite_Props
  imports Testsuite Volume_Props Wave_Props
begin

text \<open>
  Properties of the test program (\<^verbatim>\<open>Testsuite\<close>): its volume keys over the volume functions of the library,
  its tone menu, and the directories it plays.
\<close>

section \<open>Volume keys\<close>

lemma raised_small:
  assumes "volume_get_step (te_vol E) ty True = (MM_ERROR_NONE, Some (int st))" "n < st" "st \<le> 256"
  shows "raised E ty (word_of_nat n) = word_of_nat (min (n + 1) (st - 1))"
proof -
  have "(word_of_nat n :: 32 word) + 1 = word_of_nat (n + 1)" by simp
  then have "(word_of_nat st \<le> (word_of_nat n :: 32 word) + 1) = (st \<le> n + 1)"
    using assms(2,3) by (simp add: word_le_nat_alt unat_small del: of_nat_Suc of_nat_add)
  moreover have "(word_of_nat st :: 32 word) - 1 = word_of_nat (st - 1)" using assms(2) by simp
  ultimately show ?thesis using assms by (auto simp: raised_def min_def)
qed

lemma lowered_small: "n < 257 \<Longrightarrow> lowered (word_of_nat n) = word_of_nat (n - 1)"
  using unat_small [of n] by (cases n) (auto simp: lowered_def)

text \<open>What the keys mean: the volume of a type is raised up to the last step and lowered down to zero.\<close>

definition volume_keys :: string where "volume_keys = ''wety''"

definition key_volume :: "char \<Rightarrow> volume_type" where
  "key_volume k = (if k \<in> set ''we'' then VOLUME_TYPE_MEDIA else VOLUME_TYPE_SYSTEM)"

definition volume_key :: "nat \<Rightarrow> char \<Rightarrow> (volume_type \<Rightarrow> nat) \<Rightarrow> volume_type \<Rightarrow> nat" where
  "volume_key st k m =
    m(key_volume k := (if k \<in> set ''wt'' then min (m (key_volume k) + 1) (st - 1) else m (key_volume k) - 1))"

text \<open>A library that stores every volume below the number of steps.\<close>

definition steps_stored :: "vol_env \<Rightarrow> nat \<Rightarrow> bool" where
  "steps_stored V st \<longleftrightarrow> limits_fit V \<and> vconf_get_ok V \<and> vconf_set_ok V \<and> vconf_watch V = MM_ERROR_NONE \<and>
    max_answer V = (MM_ERROR_NONE, int st) \<and> 0 < st \<and> int st \<le> MAX_MULTIMEDIA V"

definition holds_volumes :: "ts_env \<Rightarrow> nat \<Rightarrow> (volume_type \<Rightarrow> nat) \<Rightarrow> vol \<Rightarrow> bool" where
  "holds_volumes E st m v \<longleftrightarrow> (\<forall>ty\<in>{VOLUME_TYPE_MEDIA, VOLUME_TYPE_SYSTEM}.
     m ty < st \<and> volume_part (on_earphone (te_vol E)) (vconf v ty) = word_of_nat (m ty))"

definition at_menu :: "ts_env \<Rightarrow> nat \<Rightarrow> (volume_type \<Rightarrow> nat) \<Rightarrow> testsuite \<Rightarrow> bool" where
  "at_menu E st m s \<longleftrightarrow>
    g_menu_state s = CURRENT_STATUS_MAINMENU \<and> g_volume_type s = VOLUME_TYPE_MEDIA \<and> \<not> ts_quit s \<and>
    g_volume_value s = word_of_nat (m VOLUME_TYPE_MEDIA) \<and> holds_volumes E st m (ts_vol s) \<and>
    vol_params (ts_vol s) VOLUME_TYPE_MEDIA =
      \<lparr>vc_func = te_volume_cb E, vc_data = te_volume_data E, vc_type = VOLUME_TYPE_MEDIA\<rparr> \<and>
    vol_watched (ts_vol s) VOLUME_TYPE_MEDIA \<and> \<not> vol_watched (ts_vol s) VOLUME_TYPE_SYSTEM"

lemma volume_ty_cases: "ty \<in> {VOLUME_TYPE_MEDIA, VOLUME_TYPE_SYSTEM} \<Longrightarrow>
    0 \<le> ty \<and> ty < VOLUME_TYPE_MAX \<and> ty \<noteq> VOLUME_TYPE_CALL \<and> ty \<noteq> VOLUME_TYPE_EXT_ANDROID"
  by (auto simp: volume_types)

lemma steps_stored_step:
  "steps_stored V st \<Longrightarrow> ty \<in> {VOLUME_TYPE_MEDIA, VOLUME_TYPE_SYSTEM} \<Longrightarrow>
    volume_get_step V ty True = (MM_ERROR_NONE, Some (int st)) \<and> st \<le> 256"
  by (auto simp: steps_stored_def limits_fit_def volume_get_step_def volume_types)

lemma steps_stored_valid:
  "steps_stored V st \<Longrightarrow> ty \<in> {VOLUME_TYPE_MEDIA, VOLUME_TYPE_SYSTEM} \<Longrightarrow> n < st \<Longrightarrow>
    validate_volume V ty (sint (word_of_nat n :: 32 word)) = 0"
  using sint_small [of n]
  by (auto simp: steps_stored_def limits_fit_def validate_volume_def volume_types)

lemma read_volume_held:
  "steps_stored (te_vol E) st \<Longrightarrow> holds_volumes E st m (ts_vol s) \<Longrightarrow> ty \<in> {VOLUME_TYPE_MEDIA, VOLUME_TYPE_SYSTEM} \<Longrightarrow>
    volume_get_value (te_vol E) ty True (ts_vol s) = (MM_ERROR_NONE, Some (word_of_nat (m ty)))"
  using volume_ty_cases [of ty] by (auto simp: volume_get_value_def holds_volumes_def steps_stored_def)

lemma not_failure_NONE: "is_failure MM_ERROR_NONE = False"
  by (simp add: is_failure_def)

text \<open>Writing a volume: the new one is held, the functions registered stay.\<close>

lemma write_volume_held:
  assumes "steps_stored (te_vol E) st" "holds_volumes E st m (ts_vol s)"
    "ty \<in> {VOLUME_TYPE_MEDIA, VOLUME_TYPE_SYSTEM}" "n < st"
  shows "\<exists>p. write_volume E ty pr (word_of_nat n) s =
      s\<lparr>ts_vol := (ts_vol s)\<lparr>vconf := (vconf (ts_vol s))(ty :=
          volume_word (on_earphone (te_vol E)) (vconf (ts_vol s) ty) (word_of_nat n))\<rparr>, ts_printed := p\<rparr> \<and>
    holds_volumes E st (m(ty := n)) (ts_vol (write_volume E ty pr (word_of_nat n) s))"
proof -
  have n: "n < 256" using assms(4) steps_stored_step [OF assms(1,3)] by simp
  then have "(word_of_nat n :: 32 word) < 0x100" by (simp add: word_less_nat_alt unat_small)
  note w = volume_part_word [OF this]
  let ?v = "(ts_vol s)\<lparr>vconf := (vconf (ts_vol s))(ty :=
          volume_word (on_earphone (te_vol E)) (vconf (ts_vol s) ty) (word_of_nat n))\<rparr>"
  have set: "volume_set_value (te_vol E) ty (word_of_nat n) (ts_vol s) = (shared_set (te_vol E), ?v)"
    using assms(1) steps_stored_valid [OF assms(1,3,4)] by (simp add: volume_set_value_def steps_stored_def)
  moreover have "holds_volumes E st (m(ty := n)) ?v" using assms(2,4) w by (auto simp: holds_volumes_def)
  moreover have "s\<lparr>ts_vol := ?v\<rparr> = s\<lparr>ts_vol := ?v, ts_printed := ts_printed s\<rparr>" by simp
  moreover have "shows_line p (s\<lparr>ts_vol := ?v\<rparr>) = s\<lparr>ts_vol := ?v, ts_printed := p # ts_printed s\<rparr>" for p
    by (simp add: shows_line_def)
  ultimately show ?thesis by (auto simp: write_volume_def split: option.splits intro: exI [of _ "ts_printed s"])
qed

lemma volume_key_command:
  assumes "steps_stored (te_vol E) st" "at_menu E st m s" "k \<in> set volume_keys"
  shows "\<exists>n p. command E k s =
      Inr (write_volume E (key_volume k) p (word_of_nat n) s) \<and> n < st \<and> volume_key st k m = m(key_volume k := n)"
proof -
  let ?ty = "key_volume k"
  have ty: "?ty \<in> {VOLUME_TYPE_MEDIA, VOLUME_TYPE_SYSTEM}" by (simp add: key_volume_def)
  note step = steps_stored_step [OF assms(1) ty]
  have m: "m ?ty < st" using assms(2) ty by (auto simp: at_menu_def holds_volumes_def)
  have read: "read_volume E ?ty s = (MM_ERROR_NONE, word_of_nat (m ?ty))"
    using assms(2) read_volume_held [OF assms(1) _ ty, of m s] by (simp add: read_volume_def at_menu_def)
  have up: "\<exists>n p. volume_up E ?ty b s = write_volume E ?ty p (word_of_nat n) s \<and> n < st \<and> n = min (m ?ty + 1) (st - 1)" for b
    using read raised_small [OF _ m] step m by (auto simp: volume_up_def not_failure_NONE Let_def)
  have down: "\<exists>n p. volume_down E ?ty b s = write_volume E ?ty p (word_of_nat n) s \<and> n < st \<and> n = m ?ty - 1" for b
    using read lowered_small [of "m ?ty"] step m by (auto simp: volume_down_def not_failure_NONE)
  from assms(3) consider "k = CHR ''w''" | "k = CHR ''e''" | "k = CHR ''t''" | "k = CHR ''y''"
    by (auto simp: volume_keys_def)
  then show ?thesis
  proof cases
    case 1
    with assms(2) up [of False] show ?thesis
      by (auto simp: command_def at_menu_def volume_key_def key_volume_def)
  next
    case 2
    with assms(2) down [of False] show ?thesis
      by (auto simp: command_def at_menu_def volume_key_def key_volume_def)
  next
    case 3
    with up [of True] show ?thesis by (auto simp: command_def volume_key_def key_volume_def)
  next
    case 4
    with down [of True] show ?thesis by (auto simp: command_def volume_key_def key_volume_def)
  qed
qed

text \<open>The database tells of the change, and the program reads the volume that plays media again.\<close>

lemma volume_event_at_menu:
  assumes "steps_stored (te_vol E) st" "te_volume_cb E \<noteq> 0" "ty \<in> {VOLUME_TYPE_MEDIA, VOLUME_TYPE_SYSTEM}"
    "g_menu_state s = CURRENT_STATUS_MAINMENU" "g_volume_type s = VOLUME_TYPE_MEDIA" "\<not> ts_quit s"
    "ty = VOLUME_TYPE_SYSTEM \<longrightarrow> g_volume_value s = word_of_nat (m VOLUME_TYPE_MEDIA)"
    "holds_volumes E st m (ts_vol s)"
    "vol_params (ts_vol s) VOLUME_TYPE_MEDIA =
      \<lparr>vc_func = te_volume_cb E, vc_data = te_volume_data E, vc_type = VOLUME_TYPE_MEDIA\<rparr>"
    "vol_watched (ts_vol s) VOLUME_TYPE_MEDIA" "\<not> vol_watched (ts_vol s) VOLUME_TYPE_SYSTEM"
  shows "at_menu E st m (volume_event E ty s)"
proof (cases "ty = VOLUME_TYPE_SYSTEM")
  case True
  with assms show ?thesis by (simp add: volume_event_def volume_changed_def at_menu_def Let_def)
next
  case False
  with assms(3) have ty: "ty = VOLUME_TYPE_MEDIA" by simp
  let ?v = "volume_changed VOLUME_TYPE_MEDIA (ts_vol s)"
  have v: "?v = (ts_vol s)\<lparr>vol_called := (te_volume_cb E, te_volume_data E) # vol_called (ts_vol s)\<rparr>"
    using assms(2,9,10) by (simp add: volume_changed_def)
  have "holds_volumes E st m ?v" using assms(8) by (simp add: v holds_volumes_def)
  with read_volume_held [OF assms(1), of m "s\<lparr>ts_vol := ?v\<rparr>" VOLUME_TYPE_MEDIA]
  have "volume_get_value (te_vol E) VOLUME_TYPE_MEDIA True ?v =
      (MM_ERROR_NONE, Some (word_of_nat (m VOLUME_TYPE_MEDIA)))" by simp
  then have "volume_event E ty s = s\<lparr>ts_vol := ?v, g_volume_value := word_of_nat (m VOLUME_TYPE_MEDIA)\<rparr>"
    using assms(5) by (simp add: volume_event_def volume_change_callback_def ty v)
  with assms \<open>holds_volumes E st m ?v\<close> show ?thesis by (simp add: at_menu_def v)
qed

lemma volume_key_round:
  assumes "steps_stored (te_vol E) st" "at_menu E st m s" "k \<in> set volume_keys" "te_strip E [k] = [k]"
    "te_volume_cb E \<noteq> 0"
  shows "\<exists>t. ts_events E (Input [k] # VolumeEvent (key_volume k) # es) s = ts_events E es t \<and>
    at_menu E st (volume_key st k m) t"
proof -
  let ?ty = "key_volume k"
  have ty: "?ty \<in> {VOLUME_TYPE_MEDIA, VOLUME_TYPE_SYSTEM}" by (simp add: key_volume_def)
  from volume_key_command [OF assms(1-3)] obtain n p where c:
    "command E k s = Inr (write_volume E ?ty p (word_of_nat n) s)" "n < st" "volume_key st k m = m(?ty := n)" by auto
  have held: "holds_volumes E st m (ts_vol s)" using assms(2) by (simp add: at_menu_def)
  let ?w = "write_volume E ?ty p (word_of_nat n) s"
  let ?t = "?w\<lparr>ts_timers := Suc (ts_timers ?w)\<rparr>"
  from write_volume_held [OF assms(1) held ty c(2), of p] obtain q where w:
    "?w = s\<lparr>ts_vol := (ts_vol s)\<lparr>vconf := (vconf (ts_vol s))(?ty :=
        volume_word (on_earphone (te_vol E)) (vconf (ts_vol s) ?ty) (word_of_nat n))\<rparr>, ts_printed := q\<rparr>"
    "holds_volumes E st (m(?ty := n)) (ts_vol ?w)" by auto
  have "k \<noteq> NUL" using assms(3) by (auto simp: volume_keys_def NUL_def)
  then have "input_line E [k] s = Inr ?t"
    using assms(2,4) c(1) by (simp add: input_line_def interpret_cmd_def interpret_state_def at_menu_def MAX_STRING_LEN_def)
  moreover have gv: "g_volume_value ?w = word_of_nat (m VOLUME_TYPE_MEDIA)" using assms(2) by (simp add: w(1) at_menu_def)
  have "g_volume_value ?t = word_of_nat ((m(?ty := n)) VOLUME_TYPE_MEDIA)" if "?ty = VOLUME_TYPE_SYSTEM"
  proof -
    from that have "(m(?ty := n)) VOLUME_TYPE_MEDIA = m VOLUME_TYPE_MEDIA" by (simp add: volume_types)
    with gv show ?thesis by simp
  qed
  then have "at_menu E st (m(?ty := n)) (volume_event E ?ty ?t)"
    by (intro volume_event_at_menu [OF assms(1,5) ty] impI)
      (use assms(2) w(2) in \<open>simp_all add: at_menu_def w(1)\<close>)
  moreover have "ts_events E (Input [k] # VolumeEvent ?ty # es) s = ts_events E es (volume_event E ?ty ?t)"
    using \<open>input_line E [k] s = Inr ?t\<close> assms(2) by (simp add: at_menu_def w(1))
  ultimately show ?thesis using c(3) by auto
qed

definition key_events :: "string \<Rightarrow> ts_event list" where
  "key_events ks = concat (map (\<lambda>k. [Input [k], VolumeEvent (key_volume k)]) ks)"

lemma volume_key_rounds:
  assumes "steps_stored (te_vol E) st" "te_volume_cb E \<noteq> 0"
  shows "at_menu E st m s \<Longrightarrow> \<forall>k\<in>set ks. k \<in> set volume_keys \<and> te_strip E [k] = [k] \<Longrightarrow>
    \<exists>t. ts_events E (key_events ks) s = Inr t \<and> at_menu E st (fold (volume_key st) ks m) t"
proof (induction ks arbitrary: s m)
  case Nil
  then show ?case by (simp add: key_events_def)
next
  case (Cons k ks)
  then obtain t where "ts_events E (Input [k] # VolumeEvent (key_volume k) # key_events ks) s = ts_events E (key_events ks) t"
    "at_menu E st (volume_key st k m) t"
    using volume_key_round [OF assms(1) Cons.prems(1) _ _ assms(2), of k "key_events ks"] by auto
  with Cons.IH [of "volume_key st k m" t] Cons.prems(2) show ?case by (simp add: key_events_def)
qed

lemma ts_init_at_menu:
  assumes "steps_stored (te_vol E) st" "te_volume_cb E \<noteq> 0" "holds_volumes E st m v" "\<not> vol_watched v VOLUME_TYPE_SYSTEM"
  shows "at_menu E st m (ts_init E (ts_start c v p))"
proof -
  have "volume_get_value (te_vol E) VOLUME_TYPE_MEDIA True v = (MM_ERROR_NONE, Some (word_of_nat (m VOLUME_TYPE_MEDIA)))"
    using read_volume_held [OF assms(1), of m "ts_start c v p" VOLUME_TYPE_MEDIA] assms(3) by (simp add: ts_start_def)
  then show ?thesis using assms
    by (auto simp: ts_init_def ts_start_def volume_change_callback_def volume_add_callback_def displaymenu_def shows_line_def
      at_menu_def holds_volumes_def steps_stored_def volume_types Let_def)
qed


definition ex_ts_client :: client where
  "ex_ts_client = \<lparr>cl_mutex_initted = True, cl_thread_id = -1, cl_keybase = 0, cl_sent = [], cl_answers = [],
     cl_shm = (\<lambda>_. None)\<rparr>"

definition ex_ts_env :: ts_env where
  "ex_ts_env = \<lparr>te_vol = ex_vol_env OUT_SPEAKER, te_cl = \<lparr>ce_pid = 77, ce_getmsg = True, ce_session = None,
     ce_session_init = False, ce_send = True, ce_polls = (\<lambda>_. []), ce_thread = 1, ce_shm_open = True,
     ce_ftruncate = True, ce_mmap = True, ce_close = True\<rparr>,
     te_prio = \<lparr>PRIORITY_NORMAL = 0, PRIORITY_SOLO = 1\<rparr>,
     te_av = \<lparr>av_pid = 77, av_primary = True, av_playing = (AV_SUCCESS, 0), av_set_path = True, av_path = None,
       av_capture = None\<rparr>,
     te_key = \<lparr>ke_file = Opened, ke_pipe = True, ke_write = True\<rparr>, te_strip = id, te_atof = (\<lambda>_. 1), te_step = 0,
     te_route = 0, te_status = None, te_bits = (\<lambda>_. 0), te_lines = [], te_dir = (\<lambda>_. None), te_mycallback = 1,
     te_userdata = 2, te_test_callback = 3, te_volume_cb = 4, te_volume_data = 5\<rparr>"


section \<open>The tone menu\<close>

lemma dropWhile_eq_takeWhile_Nil: "dropWhile P xs = [] \<Longrightarrow> takeWhile P xs = xs"
  by (metis append_Nil2 takeWhile_dropWhile_id)

text \<open>Reading the line again finds its first part, and nothing behind it.\<close>

lemma parts_after_strtok: "parts (after_strtok l) = take 1 (parts l)"
proof (cases "dropWhile (\<lambda>c. c = CHR '' '') l")
  case Nil
  have "parts l = []" by (simp only: parts.simps [of l] Nil list.case)
  moreover have "after_strtok l = l"
    using dropWhile_eq_takeWhile_Nil [OF Nil] by (simp only: after_strtok_def Let_def Nil) simp
  ultimately show ?thesis by simp
next
  case (Cons c cs)
  then have c: "c \<noteq> CHR '' ''" by (metis (full_types) hd_dropWhile list.distinct(1) list.sel(1))
  let ?b = "takeWhile (\<lambda>c. c = CHR '' '') l"
  let ?t = "takeWhile (\<lambda>c. c \<noteq> CHR '' '') cs"
  have a: "after_strtok l = ?b @ c # ?t" using Cons c by (simp add: after_strtok_def)
  have "\<forall>x\<in>set ?b. x = CHR '' ''" by (auto dest: set_takeWhileD)
  then have d: "dropWhile (\<lambda>c. c = CHR '' '') (?b @ c # ?t) = c # ?t" using c by (subst dropWhile_append2) auto
  have t: "takeWhile (\<lambda>c. c \<noteq> CHR '' '') ?t = ?t" "dropWhile (\<lambda>c. c \<noteq> CHR '' '') ?t = []"
    by (auto simp: takeWhile_eq_all_conv dropWhile_eq_Nil_conv dest: set_takeWhileD)
  have n: "parts [] = []" by (subst parts.simps) simp
  have "parts (after_strtok l) = [c # ?t]"
    unfolding a by (subst parts.simps) (simp add: d c t n)
  moreover have "take 1 (parts l) = [c # ?t]" by (subst parts.simps) (simp add: Cons c)
  ultimately show ?thesis by simp
qed

text \<open>
  At the end of the input every further read leaves the line as it is: unless it was the key that leaves the
  menu, the program never returns to its main loop, and plays the last tone for ever.
\<close>

lemma tone_menu_at_end_of_input:
  assumes "\<And>t ts. parts line = t # ts \<Longrightarrow> hd t \<noteq> CHR ''q''"
  shows "tone_menu_loop E (replicate n None) line tone vt vol s = Inl Waiting"
  using assms
proof (induction n arbitrary: line tone vt vol s)
  case (Suc n)
  have "parts (after_strtok line) = t # ts \<Longrightarrow> hd t \<noteq> CHR ''q''" for t ts
    using Suc.prems by (cases "parts line") (auto simp: parts_after_strtok)
  note IH = Suc.IH [OF this]
  show ?case
  proof (cases "parts line")
    case Nil
    then show ?thesis using IH by simp
  next
    case (Cons t ts)
    then have "hd t \<noteq> CHR ''q''" using Suc.prems by simp
    then show ?thesis using Cons IH by (auto simp: Let_def took_handle_def split: option.splits)
  qed
qed simp

end
