(* ===== verification/Pool_Threads.thy ===== *)
theory Pool_Threads
  imports Prelude "HOL-Library.Multiset"
begin

text \<open>
  The variant of the thread pool that makes its own threads (\<^verbatim>\<open>server/mm_sound_thread_pool.c\<close>, without
  \<^verbatim>\<open>USE_G_THREAD_POOL\<close>): ten threads with a slot each, a condition variable per slot, and the caller that
  runs a task or ends the pool.  One step is what a thread does between two points at which another can
  see a difference; a section under \<^verbatim>\<open>startsync\<close> is one step, the writes of the caller into a slot are not.
\<close>

definition THREAD_POOL_MAX :: nat where "THREAD_POOL_MAX = 10"

type_synonym pool_task = "int \<times> ptr"

text \<open>Where a thread is in its loop, and where the owner of \<^verbatim>\<open>funcsync\<close> is.\<close>

datatype thread_pc =
    NotCreated | AtStart | AtWait | AtCond | Woken | Calling | Returned | FuncCleared | ParamCleared | MapReset
  | Exited

datatype caller_pc =
    Idle | Ended
  | InitNext nat | InitWaits nat
  | RunPick int ptr | RunParam nat int ptr | RunFunc nat int ptr | RunSignal nat int ptr
  | FiniFlag nat | FiniSignal nat | FiniJoin nat

record tpool =
  tp_map :: "nat \<Rightarrow> bool"
  tp_stop :: "nat \<Rightarrow> bool"
  tp_param :: "nat \<Rightarrow> int"
  tp_func :: "nat \<Rightarrow> ptr"
  tp_thread :: "nat \<Rightarrow> thread_pc"
  tp_caller :: caller_pc
  tp_results :: "mm_err list"
  tp_accepted :: "pool_task list"
  tp_called :: "pool_task list"

section \<open>Slots\<close>

function GetEmptyPool :: "(nat \<Rightarrow> bool) \<Rightarrow> nat \<Rightarrow> nat option" where
  "GetEmptyPool m i =
    (if i < THREAD_POOL_MAX \<and> m i then GetEmptyPool m (i + 1)
     else if i = THREAD_POOL_MAX then None else Some i)"
  by pat_completeness auto
termination by (relation "measure (\<lambda>(m, i). THREAD_POOL_MAX - i)") auto

declare GetEmptyPool.simps [simp del]

definition SetPool :: "nat \<Rightarrow> tpool \<Rightarrow> tpool" where
  "SetPool n s = s\<lparr>tp_map := (tp_map s)(n := True)\<rparr>"

definition ResetPool :: "nat \<Rightarrow> tpool \<Rightarrow> tpool" where
  "ResetPool n s = s\<lparr>tp_map := (tp_map s)(n := False)\<rparr>"

text \<open>All slots are empty before the threads are made.\<close>

definition InitPool :: tpool where
  "InitPool = \<lparr>tp_map = (\<lambda>_. False), tp_stop = (\<lambda>_. False), tp_param = (\<lambda>_. 0), tp_func = (\<lambda>_. 0),
     tp_thread = (\<lambda>_. NotCreated), tp_caller = InitNext 0, tp_results = [], tp_accepted = [], tp_called = []\<rparr>"

definition at :: "nat \<Rightarrow> thread_pc \<Rightarrow> tpool \<Rightarrow> tpool" where
  "at n pc s = s\<lparr>tp_thread := (tp_thread s)(n := pc)\<rparr>"

text \<open>A signal wakes the thread of the slot only while it waits.\<close>

definition signal_slot :: "nat \<Rightarrow> tpool \<Rightarrow> tpool" where
  "signal_slot n s = (if tp_thread s n = AtCond then at n Woken s else s)"

section \<open>The threads\<close>

text \<open>A new thread wakes the caller that waits for it.\<close>

definition started_one :: "caller_pc \<Rightarrow> caller_pc" where
  "started_one c = (case c of InitWaits k \<Rightarrow> InitNext (k + 1) | _ \<Rightarrow> c)"

definition thread_start :: "nat \<Rightarrow> tpool \<Rightarrow> tpool" where
  "thread_start n s = (at n AtWait s)\<lparr>tp_caller := started_one (tp_caller s)\<rparr>"

definition PoolThreadWork :: "nat \<Rightarrow> tpool \<Rightarrow> tpool option" where
  "PoolThreadWork n s =
    (case tp_thread s n of
       NotCreated \<Rightarrow> None
     | AtStart \<Rightarrow> Some (thread_start n s)
     | AtWait \<Rightarrow> Some (at n AtCond s)
     | AtCond \<Rightarrow> None
     | Woken \<Rightarrow>
         Some (if tp_func s n \<noteq> 0
               then at n Calling (s\<lparr>tp_called := (tp_param s n, tp_func s n) # tp_called s\<rparr>)
               else at n Returned s)
     | Calling \<Rightarrow> Some (at n Returned s)
     | Returned \<Rightarrow> Some (at n FuncCleared (s\<lparr>tp_func := (tp_func s)(n := 0)\<rparr>))
     | FuncCleared \<Rightarrow> Some (at n ParamCleared (s\<lparr>tp_param := (tp_param s)(n := 0)\<rparr>))
     | ParamCleared \<Rightarrow> Some (at n MapReset (ResetPool n s))
     | MapReset \<Rightarrow> Some (at n (if tp_stop s n then Exited else AtWait) s)
     | Exited \<Rightarrow> None)"

section \<open>The caller\<close>

definition returns :: "mm_err \<Rightarrow> caller_pc \<Rightarrow> tpool \<Rightarrow> tpool" where
  "returns e c s = s\<lparr>tp_caller := c, tp_results := e # tp_results s\<rparr>"

text \<open>A failure to make a thread is not noticed, since its number is positive: the caller waits all the same.\<close>

definition PoolInit :: "(nat \<Rightarrow> bool) \<Rightarrow> nat \<Rightarrow> tpool \<Rightarrow> tpool" where
  "PoolInit created k s =
    (if k < THREAD_POOL_MAX
     then s\<lparr>tp_stop := (tp_stop s)(k := False), tp_caller := InitWaits k,
            tp_thread := (if created k then (tp_thread s)(k := AtStart) else tp_thread s)\<rparr>
     else returns MM_ERROR_NONE Idle s)"

fun PoolRun :: "caller_pc \<Rightarrow> tpool \<Rightarrow> tpool option" where
  "PoolRun (RunPick p f) s =
    (case GetEmptyPool (tp_map s) 0 of
       None \<Rightarrow> Some (returns MM_ERROR_COMMON_NO_FREE_SPACE Idle s)
     | Some n \<Rightarrow> Some ((SetPool n s)\<lparr>tp_caller := RunParam n p f\<rparr>))"
| "PoolRun (RunParam n p f) s = Some (s\<lparr>tp_param := (tp_param s)(n := p), tp_caller := RunFunc n p f\<rparr>)"
| "PoolRun (RunFunc n p f) s = Some (s\<lparr>tp_func := (tp_func s)(n := f), tp_caller := RunSignal n p f\<rparr>)"
| "PoolRun (RunSignal n p f) s =
    Some (returns MM_ERROR_NONE Idle ((signal_slot n s)\<lparr>tp_accepted := (p, f) # tp_accepted s\<rparr>))"
| "PoolRun c s = None"

text \<open>Every thread is told to stop, woken, and awaited.\<close>

fun PoolFini :: "caller_pc \<Rightarrow> tpool \<Rightarrow> tpool option" where
  "PoolFini (FiniFlag k) s =
    (if k < THREAD_POOL_MAX then Some (s\<lparr>tp_stop := (tp_stop s)(k := True), tp_caller := FiniSignal k\<rparr>)
     else Some (returns MM_ERROR_NONE Ended s))"
| "PoolFini (FiniSignal k) s = Some ((signal_slot k s)\<lparr>tp_caller := FiniJoin k\<rparr>)"
| "PoolFini (FiniJoin k) s = (if tp_thread s k = Exited then Some (s\<lparr>tp_caller := FiniFlag (k + 1)\<rparr>) else None)"
| "PoolFini c s = None"

definition caller_step :: "(nat \<Rightarrow> bool) \<Rightarrow> tpool \<Rightarrow> tpool option" where
  "caller_step created s =
    (case tp_caller s of
       InitNext k \<Rightarrow> Some (PoolInit created k s)
     | RunPick p f \<Rightarrow> PoolRun (tp_caller s) s
     | RunParam n p f \<Rightarrow> PoolRun (tp_caller s) s
     | RunFunc n p f \<Rightarrow> PoolRun (tp_caller s) s
     | RunSignal n p f \<Rightarrow> PoolRun (tp_caller s) s
     | c \<Rightarrow> PoolFini c s)"

text \<open>What can happen: a thread or the caller goes on, or an idle caller begins a call.\<close>

datatype pool_move = ThreadGoes nat | CallerGoes | CallRun int ptr | CallFini

definition pool_step :: "(nat \<Rightarrow> bool) \<Rightarrow> pool_move \<Rightarrow> tpool \<Rightarrow> tpool option" where
  "pool_step created mv s =
    (case mv of
       ThreadGoes n \<Rightarrow> if n < THREAD_POOL_MAX then PoolThreadWork n s else None
     | CallerGoes \<Rightarrow> caller_step created s
     | CallRun p f \<Rightarrow> if tp_caller s = Idle then Some (s\<lparr>tp_caller := RunPick p f\<rparr>) else None
     | CallFini \<Rightarrow> if tp_caller s = Idle then Some (s\<lparr>tp_caller := FiniFlag 0\<rparr>) else None)"

fun pool_moves :: "(nat \<Rightarrow> bool) \<Rightarrow> pool_move list \<Rightarrow> tpool \<Rightarrow> tpool option" where
  "pool_moves created [] s = Some s"
| "pool_moves created (mv # mvs) s =
    (case pool_step created mv s of None \<Rightarrow> None | Some t \<Rightarrow> pool_moves created mvs t)"

text \<open>What the dump shows: the slots that run; the result is an error when one is ready.\<close>

definition PoolDump :: "tpool \<Rightarrow> mm_err \<times> (bool \<times> ptr) list" where
  "PoolDump s =
    (if \<forall>n < THREAD_POOL_MAX. tp_map s n then MM_ERROR_NONE else MM_ERROR_SOUND_INTERNAL,
     map (\<lambda>n. (tp_map s n, if tp_map s n then tp_func s n else 0)) [0..<THREAD_POOL_MAX])"

section \<open>Facts\<close>

lemma GetEmptyPool_Some: "GetEmptyPool m k = Some n \<Longrightarrow> k \<le> THREAD_POOL_MAX \<Longrightarrow> n < THREAD_POOL_MAX \<and> \<not> m n"
proof (induction m k rule: GetEmptyPool.induct)
  case (1 m k)
  from 1(2,3) 1(1) show ?case by (subst (asm) GetEmptyPool.simps) (auto split: if_splits)
qed

text \<open>The threads that have read their slot and not given it back.\<close>

definition serves :: "thread_pc \<Rightarrow> bool" where
  "serves pc \<longleftrightarrow> pc \<in> {Calling, Returned, FuncCleared, ParamCleared}"

definition written_by :: "caller_pc \<Rightarrow> nat \<Rightarrow> bool" where
  "written_by c n \<longleftrightarrow> (case c of RunParam k p f \<Rightarrow> k = n | RunFunc k p f \<Rightarrow> k = n | RunSignal k p f \<Rightarrow> k = n | _ \<Rightarrow> False)"

text \<open>A task that is in its slot, accepted and not called yet.\<close>

definition holds_task :: "tpool \<Rightarrow> nat \<Rightarrow> bool" where
  "holds_task s n \<longleftrightarrow> tp_func s n \<noteq> 0 \<and> \<not> serves (tp_thread s n) \<and> \<not> written_by (tp_caller s) n"

definition held :: "tpool \<Rightarrow> nat \<Rightarrow> pool_task multiset" where
  "held s n = (if holds_task s n then {#(tp_param s n, tp_func s n)#} else {#})"

definition ending :: "caller_pc \<Rightarrow> bool" where
  "ending c \<longleftrightarrow> (case c of FiniFlag k \<Rightarrow> True | FiniSignal k \<Rightarrow> True | FiniJoin k \<Rightarrow> True | Ended \<Rightarrow> True | _ \<Rightarrow> False)"

definition intends :: "caller_pc \<Rightarrow> nat \<Rightarrow> ptr \<Rightarrow> int \<Rightarrow> bool" where
  "intends c n func param \<longleftrightarrow>
    (case c of
       RunParam k p f \<Rightarrow> k = n \<longrightarrow> func = 0
     | RunFunc k p f \<Rightarrow> k = n \<longrightarrow> func = 0 \<and> param = p
     | RunSignal k p f \<Rightarrow> k = n \<longrightarrow> func = f \<and> param = p
     | _ \<Rightarrow> True)"

definition starting :: "caller_pc \<Rightarrow> bool" where
  "starting c \<longleftrightarrow> (case c of InitNext k \<Rightarrow> True | InitWaits k \<Rightarrow> True | _ \<Rightarrow> False)"

definition slot_ok :: "tpool \<Rightarrow> nat \<Rightarrow> bool" where
  "slot_ok s n \<longleftrightarrow>
    (\<not> tp_map s n \<longrightarrow> tp_func s n = 0 \<and> \<not> written_by (tp_caller s) n) \<and>
    (written_by (tp_caller s) n \<longrightarrow> \<not> serves (tp_thread s n) \<and> tp_thread s n \<noteq> Woken) \<and>
    intends (tp_caller s) n (tp_func s n) (tp_param s n) \<and>
    (starting (tp_caller s) \<longrightarrow> tp_func s n = 0) \<and>
    (serves (tp_thread s n) \<or> tp_thread s n = Woken \<longrightarrow> tp_map s n \<or> ending (tp_caller s)) \<and>
    (tp_thread s n \<in> {FuncCleared, ParamCleared} \<longrightarrow> tp_func s n = 0)"

definition real_tasks :: "pool_task list \<Rightarrow> pool_task multiset" where
  "real_tasks ts = filter_mset (\<lambda>(p, f). f \<noteq> 0) (mset ts)"

definition accounted :: "tpool \<Rightarrow> bool" where
  "accounted s \<longleftrightarrow> real_tasks (tp_accepted s) = mset (tp_called s) + (\<Sum>n < THREAD_POOL_MAX. held s n)"

definition pool_ok :: "tpool \<Rightarrow> bool" where
  "pool_ok s \<longleftrightarrow> (\<forall>n. slot_ok s n) \<and> (\<forall>n. written_by (tp_caller s) n \<longrightarrow> n < THREAD_POOL_MAX) \<and> accounted s"

lemma held_changes_at:
  assumes "n < THREAD_POOL_MAX" "\<And>m. m \<noteq> n \<Longrightarrow> held t m = held s m"
  shows "(\<Sum>m < THREAD_POOL_MAX. held t m) + held s n = (\<Sum>m < THREAD_POOL_MAX. held s m) + held t n"
proof -
  have r: "(\<Sum>m < THREAD_POOL_MAX. held u m) = held u n + (\<Sum>m \<in> {..<THREAD_POOL_MAX} - {n}. held u m)" for u
    using assms(1) by (intro sum.remove) auto
  have "(\<Sum>m \<in> {..<THREAD_POOL_MAX} - {n}. held t m) = (\<Sum>m \<in> {..<THREAD_POOL_MAX} - {n}. held s m)"
    using assms(2) by (intro sum.cong) auto
  then show ?thesis by (simp add: r ac_simps)
qed

lemma started_one_simps [simp]:
  "written_by (started_one c) n = written_by c n" "ending (started_one c) = ending c"
  "starting (started_one c) = starting c"
  "intends (started_one c) n fn pa = intends c n fn pa"
  by (cases c; simp add: started_one_def written_by_def ending_def starting_def intends_def)+

lemma intends_free: "\<not> written_by c n \<Longrightarrow> intends c n fn pa"
  by (cases c) (auto simp: written_by_def intends_def)

lemma serves_simps [simp]:
  "serves Calling" "serves Returned" "serves FuncCleared" "serves ParamCleared" "\<not> serves NotCreated" "\<not> serves AtStart"
  "\<not> serves AtWait" "\<not> serves AtCond" "\<not> serves Woken" "\<not> serves MapReset" "\<not> serves Exited"
  by (simp_all add: serves_def)

text \<open>A step that leaves what is held alone.\<close>

lemma accounted_kept:
  "accounted s \<Longrightarrow> tp_accepted t = tp_accepted s \<Longrightarrow> tp_called t = tp_called s \<Longrightarrow> (\<And>n. held t n = held s n) \<Longrightarrow>
    accounted t"
  by (simp add: accounted_def)

lemma accounted_called:
  assumes "accounted s" "n < THREAD_POOL_MAX" "tp_accepted t = tp_accepted s" "tp_called t = x # tp_called s"
    "held s n = {#x#}" "held t n = {#}" "\<And>m. m \<noteq> n \<Longrightarrow> held t m = held s m"
  shows "accounted t"
  using held_changes_at [of n t s, OF assms(2,7)] assms by (simp add: accounted_def)

lemma accounted_accepted:
  assumes "accounted s" "n < THREAD_POOL_MAX" "tp_accepted t = (p, f) # tp_accepted s" "tp_called t = tp_called s"
    "held s n = {#}" "held t n = (if f \<noteq> 0 then {#(p, f)#} else {#})" "\<And>m. m \<noteq> n \<Longrightarrow> held t m = held s m"
  shows "accounted t"
proof -
  have "(\<Sum>m < THREAD_POOL_MAX. held t m) = (\<Sum>m < THREAD_POOL_MAX. held s m) + held t n"
    using held_changes_at [of n t s, OF assms(2,7)] assms(5) by simp
  with assms show ?thesis by (simp add: accounted_def real_tasks_def)
qed

text \<open>A thread touches its own slot only, and the caller at most by waking it at the start.\<close>

lemma thread_other:
  "PoolThreadWork n s = Some t \<Longrightarrow> m \<noteq> n \<Longrightarrow> tp_map t m = tp_map s m \<and> tp_func t m = tp_func s m \<and>
    tp_param t m = tp_param s m \<and> tp_thread t m = tp_thread s m"
  by (cases "tp_thread s n") (auto simp: PoolThreadWork_def thread_start_def at_def ResetPool_def split: if_splits)

lemma thread_logs:
  "PoolThreadWork n s = Some t \<Longrightarrow> tp_caller t \<in> {tp_caller s, started_one (tp_caller s)} \<and>
    tp_accepted t = tp_accepted s \<and> (\<not> (tp_thread s n = Woken \<and> tp_func s n \<noteq> 0) \<longrightarrow> tp_called t = tp_called s)"
  by (cases "tp_thread s n") (auto simp: PoolThreadWork_def thread_start_def at_def ResetPool_def split: if_splits)

lemma thread_own:
  "PoolThreadWork n s = Some t \<Longrightarrow>
    tp_thread t n = (case tp_thread s n of NotCreated \<Rightarrow> NotCreated | AtStart \<Rightarrow> AtWait | AtWait \<Rightarrow> AtCond
      | AtCond \<Rightarrow> AtCond | Woken \<Rightarrow> if tp_func s n \<noteq> 0 then Calling else Returned | Calling \<Rightarrow> Returned
      | Returned \<Rightarrow> FuncCleared | FuncCleared \<Rightarrow> ParamCleared | ParamCleared \<Rightarrow> MapReset
      | MapReset \<Rightarrow> if tp_stop s n then Exited else AtWait | Exited \<Rightarrow> Exited) \<and>
    tp_map t n = (tp_map s n \<and> tp_thread s n \<noteq> ParamCleared) \<and>
    tp_func t n = (if tp_thread s n = Returned then 0 else tp_func s n) \<and>
    tp_param t n = (if tp_thread s n = FuncCleared then 0 else tp_param s n)"
  by (cases "tp_thread s n") (auto simp: PoolThreadWork_def thread_start_def at_def ResetPool_def split: if_splits)

lemma thread_caller:
  assumes "PoolThreadWork n s = Some t"
  shows "written_by (tp_caller t) m = written_by (tp_caller s) m" "ending (tp_caller t) = ending (tp_caller s)"
    "starting (tp_caller t) = starting (tp_caller s)"
    "intends (tp_caller t) m fn pa = intends (tp_caller s) m fn pa"
  using thread_logs [OF assms] by auto

lemma thread_slot_ok:
  assumes "slot_ok s n" "PoolThreadWork n s = Some t"
  shows "slot_ok t n"
proof -
  note same = thread_caller [OF assms(2)]
  show ?thesis
    using assms(1) thread_own [OF assms(2)] intends_free [of "tp_caller s" n]
    by (cases "tp_thread s n") (simp_all add: slot_ok_def same)
qed

lemma thread_keeps_ok:
  assumes "pool_ok s" "n < THREAD_POOL_MAX" "PoolThreadWork n s = Some t"
  shows "pool_ok t"
proof -
  have ok: "\<And>m. slot_ok s m" "slot_ok s n" "accounted s" using assms(1) by (simp_all add: pool_ok_def)
  note same = thread_caller [OF assms(3)] and other = thread_other [OF assms(3)]
  have slots: "slot_ok t m" for m
    using thread_slot_ok [OF ok(2) assms(3)] ok(1) [of m] other [of m]
    by (cases "m = n") (simp_all add: slot_ok_def same)
  have bound: "\<And>m. written_by (tp_caller t) m \<Longrightarrow> m < THREAD_POOL_MAX"
    using assms(1) by (simp add: same pool_ok_def)
  have out: "held t m = held s m" if "m \<noteq> n" for m
    using other [OF that] by (simp add: held_def holds_task_def same)
  show ?thesis
  proof (cases "tp_thread s n = Woken \<and> tp_func s n \<noteq> 0")
    case True
    with ok(2) have w: "\<not> written_by (tp_caller s) n" by (auto simp: slot_ok_def)
    have t: "t = at n Calling (s\<lparr>tp_called := (tp_param s n, tp_func s n) # tp_called s\<rparr>)"
      using True assms(3) by (simp add: PoolThreadWork_def)
    have "held s n = {#(tp_param s n, tp_func s n)#}" "held t n = {#}"
      using True w by (simp_all add: t held_def holds_task_def at_def)
    then have "accounted t"
      using accounted_called [OF ok(3) assms(2), of t, OF _ _ _ _ out] by (simp add: t at_def)
    with slots bound show ?thesis by (auto simp: pool_ok_def)
  next
    case False
    then have "held t n = held s n"
      using thread_own [OF assms(3)] ok(2)
      by (cases "tp_thread s n") (simp_all add: held_def holds_task_def slot_ok_def same)
    with out have "held t m = held s m" for m by (cases "m = n") auto
    then have "accounted t"
      using accounted_kept [OF ok(3)] thread_logs [OF assms(3)] False by blast
    with slots bound show ?thesis by (auto simp: pool_ok_def)
  qed
qed

lemma caller_simps [simp]:
  "\<not> written_by Idle n" "\<not> written_by Ended n" "\<not> written_by (InitNext k) n" "\<not> written_by (InitWaits k) n"
  "\<not> written_by (RunPick p f) n" "written_by (RunParam k p f) n = (k = n)" "written_by (RunFunc k p f) n = (k = n)"
  "written_by (RunSignal k p f) n = (k = n)" "\<not> written_by (FiniFlag k) n" "\<not> written_by (FiniSignal k) n"
  "\<not> written_by (FiniJoin k) n"
  "\<not> ending Idle" "ending Ended" "\<not> ending (InitNext k)" "\<not> ending (InitWaits k)" "\<not> ending (RunPick p f)"
  "\<not> ending (RunParam k p f)" "\<not> ending (RunFunc k p f)" "\<not> ending (RunSignal k p f)" "ending (FiniFlag k)"
  "ending (FiniSignal k)" "ending (FiniJoin k)"
  "\<not> starting Idle" "\<not> starting Ended" "starting (InitNext k)" "starting (InitWaits k)" "\<not> starting (RunPick p f)"
  "\<not> starting (RunParam k p f)" "\<not> starting (RunFunc k p f)" "\<not> starting (RunSignal k p f)"
  "\<not> starting (FiniFlag k)" "\<not> starting (FiniSignal k)" "\<not> starting (FiniJoin k)"
  "intends (RunParam k p f) n fn pa = (k = n \<longrightarrow> fn = 0)"
  "intends (RunFunc k p f) n fn pa = (k = n \<longrightarrow> fn = 0 \<and> pa = p)"
  "intends (RunSignal k p f) n fn pa = (k = n \<longrightarrow> fn = f \<and> pa = p)"
  by (simp_all add: written_by_def ending_def starting_def intends_def)

lemma pool_okI:
  "(\<And>n. slot_ok s n) \<Longrightarrow> (\<And>n. written_by (tp_caller s) n \<Longrightarrow> n < THREAD_POOL_MAX) \<Longrightarrow> accounted s \<Longrightarrow> pool_ok s"
  by (simp add: pool_ok_def)

text \<open>A step of the caller that changes nothing but where it is, outside of its writes to a slot.\<close>

lemma signal_slot_simps [simp]:
  "tp_map (signal_slot k s) = tp_map s" "tp_func (signal_slot k s) = tp_func s" "tp_param (signal_slot k s) = tp_param s"
  "tp_caller (signal_slot k s) = tp_caller s" "tp_accepted (signal_slot k s) = tp_accepted s"
  "tp_called (signal_slot k s) = tp_called s" "serves (tp_thread (signal_slot k s) n) = serves (tp_thread s n)"
  "tp_thread (signal_slot k s) n = FuncCleared \<longleftrightarrow> tp_thread s n = FuncCleared"
  "tp_thread (signal_slot k s) n = ParamCleared \<longleftrightarrow> tp_thread s n = ParamCleared"
  "tp_thread (signal_slot k s) n = Woken \<longleftrightarrow> tp_thread s n = Woken \<or> n = k \<and> tp_thread s n = AtCond"
  by (auto simp: signal_slot_def at_def)

lemma signal_slot_other: "k \<noteq> n \<Longrightarrow> tp_thread (signal_slot k s) n = tp_thread s n"
  by (simp add: signal_slot_def at_def)

lemma run_keeps_ok:
  assumes "pool_ok s" "PoolRun (tp_caller s) s = Some t"
  shows "pool_ok t"
proof -
  have ok: "\<And>m. slot_ok s m" "accounted s" "\<And>m. written_by (tp_caller s) m \<Longrightarrow> m < THREAD_POOL_MAX"
    using assms(1) by (simp_all add: pool_ok_def)
  show ?thesis
  proof (cases "tp_caller s")
    case (RunPick p f)
    show ?thesis
    proof (cases "GetEmptyPool (tp_map s) 0")
      case None
      with assms(2) RunPick have t: "t = returns MM_ERROR_COMMON_NO_FREE_SPACE Idle s" by simp
      show ?thesis
      proof (rule pool_okI)
        show "slot_ok t n" for n using ok(1) [of n] RunPick by (simp add: t returns_def slot_ok_def intends_free)
        show "accounted t" using ok(1) RunPick by (intro accounted_kept [OF ok(2)]) (simp_all add: t returns_def held_def holds_task_def)
      qed (simp add: t returns_def)
    next
      case (Some k)
      with assms(2) RunPick have t: "t = (SetPool k s)\<lparr>tp_caller := RunParam k p f\<rparr>" by simp
      note k = GetEmptyPool_Some [OF Some]
      have "tp_func s k = 0" using ok(1) [of k] k by (simp add: slot_ok_def)
      show ?thesis
      proof (rule pool_okI)
        show "slot_ok t n" for n using ok(1) [of n] ok(1) [of k] RunPick k by (auto simp: t SetPool_def slot_ok_def)
        show "accounted t" using RunPick \<open>tp_func s k = 0\<close>
          by (intro accounted_kept [OF ok(2)]) (auto simp: t SetPool_def held_def holds_task_def)
      qed (use k in \<open>simp add: t\<close>)
    qed
  next
    case (RunParam k p f)
    with assms(2) have t: "t = s\<lparr>tp_param := (tp_param s)(k := p), tp_caller := RunFunc k p f\<rparr>" by simp
    show ?thesis
    proof (rule pool_okI)
      show "slot_ok t n" for n using ok(1) [of n] RunParam by (cases "n = k") (simp_all add: t slot_ok_def)
      show "accounted t" using RunParam by (intro accounted_kept [OF ok(2)]) (auto simp: t held_def holds_task_def)
    qed (use ok(3) RunParam in \<open>simp add: t\<close>)
  next
    case (RunFunc k p f)
    with assms(2) have t: "t = s\<lparr>tp_func := (tp_func s)(k := f), tp_caller := RunSignal k p f\<rparr>" by simp
    show ?thesis
    proof (rule pool_okI)
      show "slot_ok t n" for n using ok(1) [of n] RunFunc by (cases "n = k"; cases "tp_thread s n") (simp_all add: t slot_ok_def)
      show "accounted t" using RunFunc by (intro accounted_kept [OF ok(2)]) (auto simp: t held_def holds_task_def)
    qed (use ok(3) RunFunc in \<open>simp add: t\<close>)
  next
    case (RunSignal k p f)
    with assms(2) have t: "t = returns MM_ERROR_NONE Idle ((signal_slot k s)\<lparr>tp_accepted := (p, f) # tp_accepted s\<rparr>)" by simp
    have k: "k < THREAD_POOL_MAX" "tp_map s k" using ok(3) [of k] ok(1) [of k] RunSignal by (auto simp: slot_ok_def)
    show ?thesis
    proof (rule pool_okI)
      show "slot_ok t n" for n
        using ok(1) [of n] RunSignal k(2)
        by (cases "n = k"; cases "tp_thread s n") (simp_all add: t returns_def slot_ok_def intends_free)
      have "held s k = {#}" using RunSignal by (simp add: held_def holds_task_def)
      moreover have "held t k = (if f \<noteq> 0 then {#(p, f)#} else {#})"
        using ok(1) [of k] RunSignal by (simp add: t returns_def held_def holds_task_def slot_ok_def)
      ultimately show "accounted t" using RunSignal
        by (intro accounted_accepted [OF ok(2) k(1), of t p f]) (simp_all add: t returns_def held_def holds_task_def)
    qed (simp add: t returns_def)
  qed (use assms(2) in simp_all)
qed

lemma fini_keeps_ok:
  assumes "pool_ok s" "PoolFini (tp_caller s) s = Some t"
  shows "pool_ok t"
proof -
  have ok: "\<And>m. slot_ok s m" "accounted s" "ending (tp_caller s)"
    using assms by (auto simp: pool_ok_def elim: PoolFini.elims)
  have c: "tp_map t = tp_map s \<and> tp_func t = tp_func s \<and> tp_param t = tp_param s \<and> tp_accepted t = tp_accepted s \<and>
      tp_called t = tp_called s \<and> ending (tp_caller t) \<and>
      (\<forall>n. serves (tp_thread t n) = serves (tp_thread s n)) \<and>
      (\<forall>n. tp_thread t n \<in> {FuncCleared, ParamCleared} \<longleftrightarrow> tp_thread s n \<in> {FuncCleared, ParamCleared})"
    using assms(2) by (cases "tp_caller s") (auto simp: returns_def split: if_splits)
  have e: "\<not> written_by c n" "\<not> starting c" if "ending c" for c n using that by (cases c; simp)+
  show ?thesis
  proof (rule pool_okI)
    show "slot_ok t n" for n using ok(1) [of n] ok(3) c by (simp add: slot_ok_def e intends_free)
    show "accounted t" using ok(3) c by (intro accounted_kept [OF ok(2)]) (simp_all add: held_def holds_task_def e)
  qed (use c in \<open>simp add: e\<close>)
qed

lemma init_keeps_ok:
  assumes "pool_ok s" "tp_caller s = InitNext k"
  shows "pool_ok (PoolInit created k s)"
proof -
  have ok: "\<And>m. slot_ok s m" "accounted s" using assms(1) by (simp_all add: pool_ok_def)
  have f: "tp_func s n = 0" for n using ok(1) [of n] assms(2) by (simp add: slot_ok_def)
  let ?t = "PoolInit created k s"
  have t: "tp_map ?t = tp_map s" "tp_func ?t = tp_func s" "tp_accepted ?t = tp_accepted s" "tp_called ?t = tp_called s"
    "tp_caller ?t \<in> {InitWaits k, Idle}" "tp_thread ?t n \<in> {tp_thread s n, AtStart}" for n
    by (simp_all add: PoolInit_def returns_def)
  show ?thesis
  proof (rule pool_okI)
    show "slot_ok ?t n" for n
      using ok(1) [of n] t(1,2,5) t(6) [of n] f [of n] assms(2) by (auto simp: slot_ok_def intends_free)
    show "accounted ?t" using f t by (intro accounted_kept [OF ok(2)]) (simp_all add: held_def holds_task_def)
  qed (use t(5) in auto)
qed

lemma idle_keeps_ok:
  assumes "pool_ok s" "tp_caller s = Idle" "c = RunPick p f \<or> c = FiniFlag 0"
  shows "pool_ok (s\<lparr>tp_caller := c\<rparr>)"
proof (rule pool_okI)
  have c: "\<not> written_by c n" "\<not> starting c" for n using assms(3) by auto
  have ok: "\<And>m. slot_ok s m" "accounted s" using assms(1) by (simp_all add: pool_ok_def)
  show "slot_ok (s\<lparr>tp_caller := c\<rparr>) n" for n using ok(1) [of n] assms(2) by (auto simp: slot_ok_def c intends_free)
  show "accounted (s\<lparr>tp_caller := c\<rparr>)" using assms(2)
    by (intro accounted_kept [OF ok(2)]) (simp_all add: held_def holds_task_def c)
  show "n < THREAD_POOL_MAX" if "written_by (tp_caller (s\<lparr>tp_caller := c\<rparr>)) n" for n using that by (simp add: c)
qed

lemma pool_step_ok:
  assumes "pool_ok s" "pool_step created mv s = Some t"
  shows "pool_ok t"
proof (cases mv)
  case (ThreadGoes n)
  with assms show ?thesis by (auto simp: pool_step_def split: if_splits intro: thread_keeps_ok)
next
  case CallerGoes
  with assms show ?thesis
    by (cases "tp_caller s") (auto simp: pool_step_def caller_step_def intro: init_keeps_ok run_keeps_ok fini_keeps_ok)
next
  case (CallRun p f)
  with assms have "tp_caller s = Idle" "t = s\<lparr>tp_caller := RunPick p f\<rparr>" by (auto simp: pool_step_def split: if_splits)
  with idle_keeps_ok [OF assms(1)] show ?thesis by simp
next
  case CallFini
  with assms have "tp_caller s = Idle" "t = s\<lparr>tp_caller := FiniFlag 0\<rparr>" by (auto simp: pool_step_def split: if_splits)
  with idle_keeps_ok [OF assms(1)] show ?thesis by simp
qed

lemma pool_moves_ok: "pool_ok s \<Longrightarrow> pool_moves created mvs s = Some t \<Longrightarrow> pool_ok t"
  by (induction mvs arbitrary: s) (auto split: option.splits dest: pool_step_ok)

lemma InitPool_ok: "pool_ok InitPool"
  by (simp add: pool_ok_def InitPool_def slot_ok_def intends_free accounted_def real_tasks_def held_def holds_task_def)

section \<open>A task whose signal nobody heard\<close>

definition lost :: "tpool \<Rightarrow> nat \<Rightarrow> bool" where
  "lost s n \<longleftrightarrow> holds_task s n \<and> tp_thread s n = AtCond \<and> \<not> ending (tp_caller s)"

text \<open>Only the end of the pool wakes the thread again.\<close>

lemma lost_step:
  assumes "pool_ok s" "lost s n" "pool_step created mv s = Some t" "mv \<noteq> CallFini"
  shows "lost t n"
proof (cases mv)
  case (ThreadGoes k)
  with assms(2,3) have "k < THREAD_POOL_MAX" "PoolThreadWork k s = Some t" "k \<noteq> n"
    by (auto simp: pool_step_def lost_def PoolThreadWork_def split: if_splits)
  with thread_other [of k s t n] thread_caller [of k s t] assms(2) show ?thesis
    by (simp add: lost_def holds_task_def)
next
  case CallerGoes
  have "slot_ok s n" using assms(1) by (simp add: pool_ok_def)
  with assms(2) have m: "tp_map s n" "\<not> starting (tp_caller s)" by (auto simp: lost_def holds_task_def slot_ok_def)
  show ?thesis
  proof (cases "tp_caller s")
    case (RunPick p f)
    with CallerGoes assms(2,3) m(1) GetEmptyPool_Some [of "tp_map s" 0] show ?thesis
      by (auto simp: pool_step_def caller_step_def lost_def holds_task_def returns_def SetPool_def split: option.splits)
  next
    case (RunSignal k p f)
    with assms(2) have "k \<noteq> n" by (simp add: lost_def holds_task_def)
    with RunSignal CallerGoes assms(2,3) show ?thesis
      by (auto simp: pool_step_def caller_step_def lost_def holds_task_def returns_def signal_slot_other)
  qed (use CallerGoes assms(2,3) m(2) in \<open>auto simp: pool_step_def caller_step_def lost_def holds_task_def\<close>)
next
  case (CallRun p f)
  with assms(2,3) show ?thesis by (auto simp: pool_step_def lost_def holds_task_def split: if_splits)
qed (use assms(4) in simp)

lemma lost_stays:
  "pool_ok s \<Longrightarrow> lost s n \<Longrightarrow> pool_moves created mvs s = Some t \<Longrightarrow> CallFini \<notin> set mvs \<Longrightarrow> lost t n"
  by (induction mvs arbitrary: s) (auto split: option.splits dest: lost_step pool_step_ok)

text \<open>A thread that waits when the signal comes calls the task as its next step.\<close>

lemma heard_signal_calls:
  assumes "tp_caller s = RunSignal n p f" "tp_thread s n = AtCond" "f \<noteq> 0" "n < THREAD_POOL_MAX" "pool_ok s"
  shows "\<exists>t. pool_moves created [CallerGoes, ThreadGoes n] s = Some t \<and> tp_called t = (p, f) # tp_called s"
proof -
  have "tp_func s n = f" "tp_param s n = p" using assms(1,5) by (auto simp: pool_ok_def slot_ok_def)
  with assms show ?thesis
    by (simp add: pool_step_def caller_step_def returns_def signal_slot_def at_def PoolThreadWork_def)
qed


definition pool_up :: "pool_move list" where
  "pool_up = concat (map (\<lambda>n. [CallerGoes, ThreadGoes n]) [0..<THREAD_POOL_MAX]) @ [CallerGoes]"

definition run_moves :: "int \<Rightarrow> ptr \<Rightarrow> pool_move list" where
  "run_moves p f = [CallRun p f, CallerGoes, CallerGoes, CallerGoes, CallerGoes]"

lemma pool_moves_append:
  "pool_moves created (xs @ ys) s = (case pool_moves created xs s of None \<Rightarrow> None | Some t \<Rightarrow> pool_moves created ys t)"
  by (induction xs arbitrary: s) (auto split: option.splits)

text \<open>The threads of a pool that has just been made have not begun to wait.\<close>

definition pool_made :: tpool where
  "pool_made = InitPool\<lparr>tp_thread := (\<lambda>n. if n < THREAD_POOL_MAX then AtWait else NotCreated), tp_caller := Idle,
     tp_results := [MM_ERROR_NONE]\<rparr>"

lemma pool_up_made: "pool_moves (\<lambda>_. True) pool_up InitPool = Some pool_made"
proof -
  have "pool_moves (\<lambda>_. True) (concat (map (\<lambda>n. [CallerGoes, ThreadGoes n]) [0..<k])) InitPool =
      Some (InitPool\<lparr>tp_thread := (\<lambda>n. if n < k then AtWait else NotCreated), tp_caller := InitNext k\<rparr>)"
    if "k \<le> THREAD_POOL_MAX" for k
    using that
  proof (induction k)
    case 0
    then show ?case by (simp add: InitPool_def)
  next
    case (Suc k)
    then show ?case
      by (auto simp: pool_moves_append pool_step_def caller_step_def PoolInit_def PoolThreadWork_def thread_start_def
          started_one_def at_def InitPool_def fun_eq_iff less_Suc_eq)
  qed
  then show ?thesis
    by (simp add: pool_up_def pool_moves_append pool_step_def caller_step_def PoolInit_def returns_def pool_made_def)
      (simp add: InitPool_def)
qed


end
