(* ===== verification/Sound_Table.thy ===== *)
theory Sound_Table
  imports Codec_Facts
begin

text \<open>
  The slots and the sounds of the plugins together (\<^verbatim>\<open>server/mm_sound_mgr_codec.c\<close> over its plugins): what the
  manager relies on of a list of plugins that share one world, and the invariant that every sound a plugin
  keeps sits in the slot whose number the plugin was given for its callback.
\<close>

section \<open>The contract of the plugins\<close>

text \<open>A live sound is named by its plugin and handle; it has the number that its callback is given.  Stopping
  a handle that is not alive changes nothing that counts here.\<close>

locale sound_plugins =
  fixes intf :: "nat \<Rightarrow> 'w codec_interface" and N :: nat and winv :: "'w \<Rightarrow> bool"
    and sounds :: "'w \<Rightarrow> nat \<times> int \<Rightarrow> int option"
  assumes create_sound: "n < N \<Longrightarrow> winv w \<Longrightarrow> Create (intf n) p i w = (MM_ERROR_NONE, h, w') \<Longrightarrow>
      winv w' \<and> (\<exists>a. h = Some a \<and> sounds w (n, a) = None \<and> sounds w' = (sounds w)((n, a) \<mapsto> codec_cb_param p))"
    and create_nothing: "n < N \<Longrightarrow> winv w \<Longrightarrow> Create (intf n) p i w = (e, h, w') \<Longrightarrow> e \<noteq> MM_ERROR_NONE \<Longrightarrow>
      winv w' \<and> h = None \<and> sounds w' = sounds w"
    and play_sound: "n < N \<Longrightarrow> winv w \<Longrightarrow> sounds w (n, a) \<noteq> None \<Longrightarrow> Play (intf n) a w = (e, w') \<Longrightarrow>
      winv w' \<and> sounds w' = sounds w"
    and stop_sound: "n < N \<Longrightarrow> winv w \<Longrightarrow> Stop (intf n) a w = (e, w') \<Longrightarrow> winv w' \<and> sounds w' = sounds w"
    and destroy_sound: "n < N \<Longrightarrow> winv w \<Longrightarrow> sounds w (n, a) \<noteq> None \<Longrightarrow> Destroy (intf n) a w = (e, w') \<Longrightarrow>
      winv w' \<and> sounds w' = (sounds w)((n, a) := None)"

section \<open>Slots\<close>

text \<open>The slot of a number is taken by the sound.\<close>

definition sits_in :: "codec_slot list \<Rightarrow> int \<Rightarrow> nat \<times> int \<Rightarrow> bool" where
  "sits_in sl i x \<longleftrightarrow>
    (\<exists>k < length sl. i = int k \<and> sl_status (sl ! k) \<noteq> STATUS_IDLE \<and> sl_pluginid (sl ! k) = fst x \<and>
       sl_plughandle (sl ! k) = snd x)"

definition in_slots :: "codec_slot list \<Rightarrow> (nat \<times> int \<Rightarrow> int option) \<Rightarrow> bool" where
  "in_slots sl f \<longleftrightarrow> (\<forall>x i. f x = Some i \<longrightarrow> sits_in sl i x)"

lemma sits_in_other: "sits_in sl i x \<Longrightarrow> i \<noteq> int k \<Longrightarrow> sits_in (sl[k := y]) i x"
  by (auto simp: sits_in_def nth_list_update)

lemma sits_in_same: "sits_in sl i x \<Longrightarrow> sits_in sl i y \<Longrightarrow> x = y"
  by (auto simp: sits_in_def prod_eq_iff)

lemma in_slots_inj: "in_slots sl f \<Longrightarrow> f x = Some i \<Longrightarrow> f y = Some i \<Longrightarrow> x = y"
  unfolding in_slots_def using sits_in_same by blast

text \<open>A slot that no live sound names may be written.\<close>

definition unnamed :: "(nat \<times> int \<Rightarrow> int option) \<Rightarrow> nat \<Rightarrow> bool" where
  "unnamed f k \<longleftrightarrow> (\<forall>x. f x \<noteq> Some (int k))"

lemma in_slots_write: "in_slots sl f \<Longrightarrow> unnamed f k \<Longrightarrow> in_slots (sl[k := y]) f"
  by (metis in_slots_def unnamed_def sits_in_other)

lemma idle_unnamed: "in_slots sl f \<Longrightarrow> sl_status (sl ! k) = STATUS_IDLE \<Longrightarrow> unnamed f k"
  by (metis in_slots_def unnamed_def sits_in_def of_nat_eq_iff)

lemma in_slots_new:
  assumes "in_slots sl f" "unnamed f k" "k < length sl" "sl_status y \<noteq> STATUS_IDLE" "sl_pluginid y = n" "sl_plughandle y = a"
  shows "in_slots (sl[k := y]) (f((n, a) \<mapsto> int k))"
proof -
  have "sits_in (sl[k := y]) (int k) (n, a)" using assms(3-6) by (auto simp: sits_in_def)
  with in_slots_write [OF assms(1,2)] show ?thesis by (auto simp: in_slots_def)
qed

lemma in_slots_gone:
  assumes "in_slots sl f" "f x = Some (int k)"
  shows "in_slots (sl[k := y]) (f(x := None))"
proof -
  have "unnamed (f(x := None)) k" using in_slots_inj [OF assms(1)] assms(2) unfolding unnamed_def by (metis fun_upd_apply option.distinct(1))
  moreover have "in_slots sl (f(x := None))" using assms(1) by (simp add: in_slots_def)
  ultimately show ?thesis by (rule in_slots_write [rotated])
qed

section \<open>The operations\<close>

lemma find_codec_bounds:
  "find_codec ps i src info = Some (Found n src' info') \<Longrightarrow> n < i + length (takeWhile (\<lambda>p. p \<noteq> None) ps)"
  by (induction ps i src info rule: find_codec.induct) (auto split: option.splits prod.splits if_splits)

lemma find_dtmf_bounds:
  "find_dtmf ps i = Some (Some n) \<Longrightarrow> n < i + length (takeWhile (\<lambda>p. p \<noteq> None) ps)"
  by (induction ps i rule: find_dtmf.induct) (auto split: if_splits)

definition table_inv ::
  "(nat \<Rightarrow> 'w codec_interface) \<Rightarrow> nat \<Rightarrow> ('w \<Rightarrow> bool) \<Rightarrow> ('w \<Rightarrow> nat \<times> int \<Rightarrow> int option) \<Rightarrow> 'w codec \<Rightarrow> bool" where
  "table_inv intf N winv sounds s \<longleftrightarrow> winv (cworld s) \<and> in_slots (slots s) (sounds (cworld s)) \<and>
    (\<exists>k. plugins s = map (\<lambda>n. Some (intf n)) [0..<N] @ replicate k None) \<and>
    (\<forall>x. sounds (cworld s) x \<noteq> None \<longrightarrow> fst x < N)"

context sound_plugins begin

abbreviation table_ok :: "'w codec \<Rightarrow> bool" where
  "table_ok \<equiv> table_inv intf N winv sounds"

lemmas table_ok_def = table_inv_def [of intf N winv sounds]

lemma plugin_below:
  assumes "table_ok s"
  shows "length (takeWhile (\<lambda>p. p \<noteq> None) (plugins s)) = N" "n < N \<Longrightarrow> plugins s ! n = Some (intf n)"
    "n < length (plugins s) \<Longrightarrow> plugins s ! n = Some p \<Longrightarrow> n < N \<and> p = intf n"
proof -
  from assms obtain k where k: "plugins s = map (\<lambda>n. Some (intf n)) [0..<N] @ replicate k None"
    by (auto simp: table_ok_def)
  have "takeWhile (\<lambda>p. p \<noteq> None) (plugins s) = map (\<lambda>n. Some (intf n)) [0..<N]"
    unfolding k by (subst takeWhile_append2) (auto intro: takeWhile_eq_Nil_iff [THEN iffD2])
  then show "length (takeWhile (\<lambda>p. p \<noteq> None) (plugins s)) = N" by simp
  show "n < N \<Longrightarrow> plugins s ! n = Some (intf n)" by (simp add: k nth_append)
  show "n < length (plugins s) \<Longrightarrow> plugins s ! n = Some p \<Longrightarrow> n < N \<and> p = intf n"
    by (auto simp: k nth_append split: if_splits)
qed

text \<open>The parts of the state that matter.\<close>

lemma table_ok_cong:
  "table_ok s \<Longrightarrow> plugins t = plugins s \<Longrightarrow> winv (cworld t) \<Longrightarrow> in_slots (slots t) (sounds (cworld t)) \<Longrightarrow>
    (\<And>x. sounds (cworld t) x \<noteq> None \<Longrightarrow> fst x < N) \<Longrightarrow> table_ok t"
  by (auto simp: table_ok_def)

lemma table_below: "table_ok s \<Longrightarrow> sounds (cworld s) x \<noteq> None \<Longrightarrow> fst x < N"
  unfolding table_ok_def by blast

lemma table_ok_slots:
  "table_ok s \<Longrightarrow> plugins t = plugins s \<Longrightarrow> cworld t = cworld s \<Longrightarrow> in_slots (slots t) (sounds (cworld s)) \<Longrightarrow> table_ok t"
  by (auto simp: table_ok_def)

lemma codec_stop_table:
  assumes "table_ok s" "codec_stop i s = Some (e, t)"
  shows "table_ok t \<and> sounds (cworld t) = sounds (cworld s)"
proof -
  note fr = codec_stop_frame [OF assms(2)]
  show ?thesis
  proof (cases "cworld t = cworld s")
    case True
    with fr assms(1) show ?thesis by (auto simp: table_ok_def)
  next
    case False
    with assms(2) obtain p where p: "plugin_of s (nat i) = Some p"
      "Stop p (sl_plughandle (slots s ! nat i)) (cworld s) = (e, cworld t)"
      by (auto simp: codec_stop_def split: if_splits option.splits prod.splits)
    let ?n = "sl_pluginid (slots s ! nat i)"
    have "?n < N" "p = intf ?n" using p(1) plugin_below(3) [OF assms(1)] by (auto simp: plugin_of_def split: if_splits)
    with stop_sound [of ?n "cworld s"] p(2) assms(1) have "winv (cworld t)" "sounds (cworld t) = sounds (cworld s)"
      by (auto simp: table_ok_def)
    with fr assms(1) show ?thesis by (auto simp: table_ok_def)
  qed
qed

lemma stop_same_kind_table:
  "table_ok s \<Longrightarrow> stop_same_kind p s = Some t \<Longrightarrow> table_ok t \<and> sounds (cworld t) = sounds (cworld s)"
  by (auto simp: stop_same_kind_def split: option.splits dest: codec_stop_table)

text \<open>A sound is started in a slot that no sound names: it sits there, unless it was refused.\<close>

lemma start_sound_table:
  assumes "table_ok s" "n < N" "k < length (slots s)" "unnamed (sounds (cworld s)) k"
    "sl_pluginid (slots s ! k) = n" "sl_status (slots s ! k) \<noteq> STATUS_IDLE" "codec_cb_param cp = int k"
    "start_sound (intf n) cp info k s = (e, un, t)"
  shows "table_ok t"
proof -
  have w: "winv (cworld s)" "in_slots (slots s) (sounds (cworld s))" using assms(1) by (simp_all add: table_ok_def)
  obtain ec h w1 where c: "Create (intf n) cp info (cworld s) = (ec, h, w1)" by (metis prod_cases3)
  show ?thesis
  proof (cases "ec = MM_ERROR_NONE")
    case False
    from create_nothing [OF assms(2) w(1) c False] assms(8) c False
    have "t = on_slot k (\<lambda>x. x\<lparr>sl_status := STATUS_IDLE\<rparr>) (s\<lparr>cworld := w1\<rparr>)" "winv w1" "sounds w1 = sounds (cworld s)"
      by (auto simp: start_sound_def)
    with in_slots_write [OF w(2) assms(4)] table_below [OF assms(1)] show ?thesis
      by (intro table_ok_cong [OF assms(1)]) (auto simp: codec_simps)
  next
    case True
    from create_sound [OF assms(2) w(1) c [unfolded True]] assms(7) obtain a where a: "h = Some a" "winv w1"
      "sounds w1 = (sounds (cworld s))((n, a) \<mapsto> int k)" by auto
    let ?s1 = "on_slot k (\<lambda>x. x\<lparr>sl_plughandle := a\<rparr>) s\<lparr>cworld := w1\<rparr>"
    have h1: "sl_plughandle (slots ?s1 ! k) = a" using assms(3) by (simp add: codec_simps)
    obtain ep w2 where p: "Play (intf n) a w1 = (ep, w2)" by fastforce
    from play_sound [OF assms(2) a(2) _ p] a(3) have w2: "winv w2" "sounds w2 = sounds w1" by auto
    have slots1: "in_slots (slots ?s1) (sounds w1)"
      using in_slots_new [OF w(2) assms(4,3), of "(slots s ! k)\<lparr>sl_plughandle := a\<rparr>" n a] assms(5,6) a(3)
      by (simp add: codec_simps)
    have below: "sounds w1 x \<noteq> None \<Longrightarrow> fst x < N" for x
      using table_below [OF assms(1), of x] a(3) assms(2) by (auto split: if_splits)
    show ?thesis
    proof (cases "ep = MM_ERROR_NONE")
      case True
      with assms(8) c \<open>ec = MM_ERROR_NONE\<close> a(1) p h1 have "t = ?s1\<lparr>cworld := w2\<rparr>" by (auto simp: start_sound_def Let_def)
      with slots1 w2 below show ?thesis by (intro table_ok_cong [OF assms(1)]) (auto simp: codec_simps)
    next
      case False
      obtain ed w3 where d: "Destroy (intf n) a w2 = (ed, w3)" by fastforce
      from destroy_sound [OF assms(2) w2(1) _ d] w2(2) a(3) have w3: "winv w3" "sounds w3 = (sounds w1)((n, a) := None)" by auto
      from False assms(8) c \<open>ec = MM_ERROR_NONE\<close> a(1) p h1 d have "t = ?s1\<lparr>cworld := w3\<rparr>" by (auto simp: start_sound_def Let_def)
      moreover have "in_slots (slots ?s1) (sounds w3)" using slots1 w3(2) by (simp add: in_slots_def)
      ultimately show ?thesis using w3 below
        by (intro table_ok_cong [OF assms(1)]) (auto simp: codec_simps split: if_splits)
    qed
  qed
qed

lemma codec_play_table:
  assumes "table_ok s" "find_status STATUS_IDLE (slots s) \<noteq> None" "codec_play E p j s = Some (e, slot, t)"
  shows "table_ok t"
proof -
  from assms(3) consider (none) "t = s"
    | (found) n src info where "find_codec (plugins s) 0 (mp_source p) (junk_info E) = Some (Found n src info)"
    by (auto simp: codec_play_def split: option.splits plugin_search.splits)
  then show ?thesis
  proof cases
    case found
    have n: "n < N" using find_codec_bounds [OF found] plugin_below(1) [OF assms(1)] by simp
    from assms(3) found obtain s0 where s0: "stop_same_kind p s = Some s0" by (auto simp: codec_play_def split: option.splits)
    note t0 = stop_same_kind_table [OF assms(1) s0] and f0 = stop_same_kind_frame [OF s0]
    from assms(2) obtain i where i: "find_status STATUS_IDLE (slots s) = Some i" by blast
    let ?s1 = "on_slot i (\<lambda>x. x\<lparr>sl_status := STATUS_SOUND\<rparr>) s0"
    have g: "get_empty_slot s0 = (MM_ERROR_NONE, int i, ?s1)" using i f0 by (simp add: get_empty_slot_def)
    have len: "i < length (slots s)" "sl_status (slots s ! i) = STATUS_IDLE" using i by (simp_all add: find_status_Some)
    have w: "in_slots (slots s0) (sounds (cworld s0))" using conjunct1 [OF t0] by (simp only: table_ok_def)
    then have un: "unnamed (sounds (cworld s0)) i" using idle_unnamed len(2) f0 by metis
    let ?s2 = "keytone_status p i ?s1"
    have st2: "slots ?s2 = (slots s0)[i := (slots s0 ! i)\<lparr>sl_status :=
        (if mp_keytone p = 1 then STATUS_KEYTONE else if mp_keytone p = 2 then STATUS_LOCALE else STATUS_SOUND)\<rparr>]"
      using len f0 by (simp add: codec_simps)
    obtain reg s3 where r: "codec_register E p i ?s2 = (reg, s3)" by fastforce
    note r3 = codec_register_parts [OF r]
    have ok3: "table_ok s3"
      using in_slots_write [OF w un] r3 st2 t0 by (intro table_ok_slots [OF conjunct1 [OF t0]]) (simp_all add: codec_simps)
    show ?thesis
    proof (cases reg)
      case None
      with assms(3) found s0 g r have "t = s3" by (simp add: codec_play_def)
      with ok3 show ?thesis by simp
    next
      case (Some h)
      have pl: "plugins s ! n = Some (intf n)" using plugin_below(2) [OF assms(1) n] .
      let ?f = "\<lambda>x. x\<lparr>sl_pluginid := n, sl_callback := mp_callback p, sl_msgcallback := mp_msgcallback p,
        sl_msgdata := mp_msgdata p, sl_param := mp_param p, sl_session_type := mp_session_type p,
        sl_session_handle := h\<rparr>"
      let ?kt = "if mp_keytone p = 1 \<or> mp_keytone p = 2 then mp_keytone p else 0"
      let ?cp = "plugin_param ?kt (mp_priority p) i p src"
      obtain e' u s4 where s4: "start_sound (intf n) ?cp info i (on_slot i ?f s3) = (e', u, s4)" by (metis prod_cases3)
      have len3: "i < length (slots s3)" using len r3 st2 f0 by simp
      have ok: "table_ok (on_slot i ?f s3)"
        using in_slots_write [OF w un] r3 st2 t0 by (intro table_ok_slots [OF ok3]) (simp_all add: codec_simps)
      have "table_ok s4"
        using len3 r3 un st2 f0 len
        by (intro start_sound_table [OF ok n _ _ _ _ _ s4]) (simp_all add: codec_simps plugin_param_def)
      moreover have "slots t = slots s4 \<and> plugins t = plugins s4 \<and> cworld t = cworld s4"
        using assms(3) found s0 g r Some pl s4
        by (auto simp: codec_play_def Let_def split: prod.splits if_splits dest: codec_unregister_parts)
      ultimately show ?thesis by (simp add: table_ok_def)
    qed
  qed (use assms(1) in simp)
qed

lemma codec_play_dtmf_table:
  assumes "table_ok s" "find_status STATUS_IDLE (slots s) \<noteq> None" "codec_play_dtmf E p j s = Some (e, slot, t)"
  shows "table_ok t"
proof -
  from assms(3) consider (none) "t = s" | (found) n where "find_dtmf (plugins s) 0 = Some (Some n)"
    by (auto simp: codec_play_dtmf_def split: option.splits)
  then show ?thesis
  proof cases
    case found
    have n: "n < N" using find_dtmf_bounds [OF found] plugin_below(1) [OF assms(1)] by simp
    from assms(2) obtain i where i: "find_status STATUS_IDLE (slots s) = Some i" by blast
    let ?s1 = "on_slot i (\<lambda>x. x\<lparr>sl_status := STATUS_SOUND\<rparr>) s"
    have g: "get_empty_slot s = (MM_ERROR_NONE, int i, ?s1)" using i by (simp add: get_empty_slot_def)
    have len: "i < length (slots s)" "sl_status (slots s ! i) = STATUS_IDLE" using i by (simp_all add: find_status_Some)
    have w: "in_slots (slots s) (sounds (cworld s))" using assms(1) by (simp add: table_ok_def)
    note un = idle_unnamed [OF w len(2)]
    obtain reg s3 where r: "codec_register E p i ?s1 = (reg, s3)" by fastforce
    note r3 = codec_register_parts [OF r]
    have ok3: "table_ok s3"
      using in_slots_write [OF w un] r3 by (intro table_ok_slots [OF assms(1)]) (simp_all add: codec_simps)
    show ?thesis
    proof (cases reg)
      case None
      with assms(3) found g r have "t = s3" by (simp add: codec_play_dtmf_def)
      with ok3 show ?thesis by simp
    next
      case (Some h)
      have pl: "plugins s ! n = Some (intf n)" using plugin_below(2) [OF assms(1) n] .
      let ?f = "\<lambda>x. x\<lparr>sl_pluginid := n, sl_callback := mp_callback p, sl_param := mp_param p,
        sl_session_type := mp_session_type p, sl_session_handle := h\<rparr>"
      obtain e' u s4 where s4:
        "start_sound (intf n) (plugin_param 0 0 i p (mp_source p)) (junk_info E) i (on_slot i ?f s3) = (e', u, s4)"
        by (metis prod_cases3)
      have ok: "table_ok (on_slot i ?f s3)"
        using in_slots_write [OF w un] r3 by (intro table_ok_slots [OF ok3]) (simp_all add: codec_simps)
      have "table_ok s4"
        using r3 un len
        by (intro start_sound_table [OF ok n _ _ _ _ _ s4]) (simp_all add: codec_simps plugin_param_def)
      moreover have "t = s4"
        using assms(3) found g r Some pl s4 by (auto simp: codec_play_dtmf_def Let_def split: prod.splits)
      ultimately show ?thesis by simp
    qed
  qed (use assms(1) in simp)
qed

text \<open>The end of a live sound destroys it and frees the slot it sits in, and nothing else.\<close>

lemma sound_end_table:
  assumes "table_ok s" "sounds (cworld s) (n, a) = Some (int k)"
  shows "\<exists>e t. codec_stop_callback k s = Some (e, t) \<and> table_ok t \<and> slots t = (slots s)[k := zero_slot] \<and>
    sounds (cworld t) = (sounds (cworld s))((n, a) := None)"
proof -
  have w: "winv (cworld s)" "in_slots (slots s) (sounds (cworld s))" using assms(1) by (simp_all add: table_ok_def)
  then have "sits_in (slots s) (int k) (n, a)" using assms(2) by (simp add: in_slots_def)
  then have k: "k < length (slots s)" "sl_pluginid (slots s ! k) = n" "sl_plughandle (slots s ! k) = a"
    by (auto simp: sits_in_def)
  have n: "n < N" using table_below [OF assms(1), of "(n, a)"] assms(2) by simp
  have p: "plugin_of s k = Some (intf n)"
    using plugin_below(2) [OF assms(1) n] plugin_below(1) [OF assms(1)] n k(2) length_takeWhile_le [of "\<lambda>p. p \<noteq> None" "plugins s"]
    by (simp add: plugin_of_def)
  obtain e w1 where d: "Destroy (intf n) a (cworld s) = (e, w1)" by fastforce
  from destroy_sound [OF n w(1) _ d] assms(2) have w1: "winv w1" "sounds w1 = (sounds (cworld s))((n, a) := None)" by auto
  from stop_callback_result [OF p d [folded k(3)]] obtain t where t: "codec_stop_callback k s = Some (e, t)"
    "cworld t = w1" "slots t = (slots s)[k := zero_slot]" by blast
  have "plugins t = plugins s" using t(1) by (auto simp: codec_stop_callback_def Let_def codec_simps split: option.splits prod.splits if_splits)
  moreover have "in_slots (slots t) (sounds w1)" using in_slots_gone [OF w(2) assms(2)] by (simp add: t(3) w1(2))
  ultimately have "table_ok t"
    using w1 t(2) table_below [OF assms(1)] by (intro table_ok_cong [OF assms(1)]) (auto split: if_splits)
  with t w1 show ?thesis by auto
qed

end

end
