(* ===== verification/Sound_Table_Props.thy ===== *)
theory Sound_Table_Props
  imports Sound_Table Ipc_Facts
begin

text \<open>
  The slot table of the server over every order of requests, commands of the audio session manager and ends of
  sounds (\<^verbatim>\<open>server/mm_sound_mgr_ipc.c\<close>, \<^verbatim>\<open>server/mm_sound_mgr_codec.c\<close>, with the WAVE and tone plugins): which slot
  belongs to which sound.
\<close>

section \<open>The plugins of the server\<close>

text \<open>The two plugins come in the order in which the files are found.\<close>

definition server_plugin ::
  "bool \<Rightarrow> nat \<Rightarrow> (wave_world \<Rightarrow> wave_env) \<Rightarrow> (tone_world \<Rightarrow> tone_env) \<Rightarrow> nat \<Rightarrow> plug_world codec_interface" where
  "server_plugin wv fuel E0 E1 n = (if n = (if wv then 0 else 1) then server_wave fuel E0 else server_tone E1)"

definition plug_winv :: "plug_world \<Rightarrow> bool" where
  "plug_winv v \<longleftrightarrow> wave_winv (pw_wave v) \<and> tone_winv (pw_tone v)"

text \<open>The sounds that the plugins keep, with the number each gives to the function it calls at its end.\<close>

definition live_sounds :: "bool \<Rightarrow> plug_world \<Rightarrow> nat \<times> int \<Rightarrow> int option" where
  "live_sounds wv v x =
    (if fst x = (if wv then 0 else 1) then map_option wv_cb_param (wave_heap (pw_wave v) (snd x))
     else if fst x < 2 then map_option ti_cb_param (tone_heap (pw_tone v) (snd x)) else None)"

lemma wave_winv_alt:
  "wave_winv w \<longleftrightarrow> 0 < wave_next w \<and> (\<forall>a q. wave_heap w a = Some q \<longrightarrow> 0 < a \<and> a < wave_next w)"
  by (auto simp: wave_winv_def)

lemma tone_winv_alt:
  "tone_winv w \<longleftrightarrow> 0 < tone_next w \<and> (\<forall>a q. tone_heap w a = Some q \<longrightarrow> 0 < a \<and> a < tone_next w)"
  by (auto simp: tone_winv_def)

lemma wave_fresh: "wave_winv w \<Longrightarrow> wave_heap w (wave_next w) = None"
  by (cases "wave_heap w (wave_next w)") (auto simp: wave_winv_alt)

lemma tone_fresh: "tone_winv w \<Longrightarrow> tone_heap w (tone_next w) = None"
  by (cases "tone_heap w (tone_next w)") (auto simp: tone_winv_alt)

lemma wave_create_result:
  "wave_create E p i = (x, cs) \<Longrightarrow> (case x of Inl e \<Rightarrow> e \<noteq> MM_ERROR_NONE | Inr q \<Rightarrow> wv_cb_param q = codec_cb_param p)"
  by (auto simp: wave_create_def Let_def split: if_splits option.splits)

lemma tone_create_result:
  "tone_create E p = (x, cs) \<Longrightarrow> (case x of Inl e \<Rightarrow> e \<noteq> MM_ERROR_NONE | Inr q \<Rightarrow> ti_cb_param q = codec_cb_param p)"
  by (auto simp: tone_create_def Let_def split: if_splits option.splits)

lemma wave_Create_result:
  assumes "wave_Create E p i w = (e, h, w')" "wave_winv w"
  shows "wave_winv w' \<and>
    (if e = MM_ERROR_NONE
     then h = Some (wave_next w) \<and> (\<forall>b. map_option wv_cb_param (wave_heap w' b) =
       (if b = wave_next w then Some (codec_cb_param p) else map_option wv_cb_param (wave_heap w b)))
     else h = None \<and> wave_heap w' = wave_heap w)"
proof -
  obtain x cs where c: "wave_create (E w) p i = (x, cs)" by fastforce
  have "a \<le> wave_next w" if "wave_heap w a = Some q" for a q using assms(2) that by (fastforce simp: wave_winv_alt)
  with wave_create_result [OF c] c assms show ?thesis
    by (auto simp: wave_Create_def wave_winv_alt split: sum.splits if_splits)
qed

lemma tone_Create_result:
  assumes "tone_Create E p i w = (e, h, w')" "tone_winv w"
  shows "tone_winv w' \<and>
    (if e = MM_ERROR_NONE
     then h = Some (tone_next w) \<and> (\<forall>b. map_option ti_cb_param (tone_heap w' b) =
       (if b = tone_next w then Some (codec_cb_param p) else map_option ti_cb_param (tone_heap w b)))
     else h = None \<and> tone_heap w' = tone_heap w)"
proof -
  obtain x cs where c: "tone_create (E w) p = (x, cs)" by fastforce
  have "a \<le> tone_next w" if "tone_heap w a = Some q" for a q using assms(2) that by (fastforce simp: tone_winv_alt)
  with tone_create_result [OF c] c assms show ?thesis
    by (auto simp: tone_Create_def tone_winv_alt split: sum.splits if_splits)
qed

text \<open>Playing and stopping change no sound but its state.\<close>

lemma wave_on_heap_result:
  assumes "wave_on_heap f a w = (e, w')" "wave_winv w" "\<And>q. wv_cb_param (snd (f q)) = wv_cb_param q"
  shows "wave_winv w' \<and> (\<forall>b. map_option wv_cb_param (wave_heap w' b) = map_option wv_cb_param (wave_heap w b))"
proof (cases "wave_heap w a")
  case (Some q)
  with assms(1) have "w' = w\<lparr>wave_heap := (wave_heap w)(a \<mapsto> snd (f q))\<rparr>"
    by (auto simp: wave_on_heap_def split: prod.splits)
  with assms(2) assms(3) [of q] Some show ?thesis by (auto simp: wave_winv_alt)
qed (use assms(1,2) in \<open>auto simp: wave_on_heap_def\<close>)

lemma tone_on_heap_result:
  assumes "tone_on_heap f a w = (e, w')" "tone_winv w" "\<And>q. ti_cb_param (snd (f q)) = ti_cb_param q"
  shows "tone_winv w' \<and> (\<forall>b. map_option ti_cb_param (tone_heap w' b) = map_option ti_cb_param (tone_heap w b))"
proof (cases "tone_heap w a")
  case (Some q)
  with assms(1) have "w' = w\<lparr>tone_heap := (tone_heap w)(a \<mapsto> snd (f q))\<rparr>"
    by (auto simp: tone_on_heap_def split: prod.splits)
  with assms(2) assms(3) [of q] Some show ?thesis by (auto simp: tone_winv_alt)
qed (use assms(1,2) in \<open>auto simp: tone_on_heap_def\<close>)

lemma plays_keep_cb:
  "wv_cb_param (snd (wave_play q)) = wv_cb_param q" "wv_cb_param (snd (wave_stop q)) = wv_cb_param q"
  "ti_cb_param (snd (tone_play r)) = ti_cb_param r" "ti_cb_param (snd (tone_stop r)) = ti_cb_param r"
  by (simp_all add: wave_play_def wave_stop_def tone_play_def tone_stop_def)

lemma lift_parts:
  "Create (lift_interface get put i) p info v = (case Create i p info (get v) of (e, h, w) \<Rightarrow> (e, h, put w v))"
  "Play (lift_interface get put i) a v = (case Play i a (get v) of (e, w) \<Rightarrow> (e, put w v))"
  "Stop (lift_interface get put i) a v = (case Stop i a (get v) of (e, w) \<Rightarrow> (e, put w v))"
  "Destroy (lift_interface get put i) a v = (case Destroy i a (get v) of (e, w) \<Rightarrow> (e, put w v))"
  by (simp_all add: lift_interface_def)

lemma server_plugin_cases:
  "n < 2 \<Longrightarrow> (n = (if wv then 0 else 1) \<Longrightarrow> server_plugin wv fuel E0 E1 n = server_wave fuel E0 \<Longrightarrow> P) \<Longrightarrow>
    (n \<noteq> (if wv then 0 else 1) \<Longrightarrow> server_plugin wv fuel E0 E1 n = server_tone E1 \<Longrightarrow> P) \<Longrightarrow> P"
  by (cases "n = (if wv then 0 else 1)") (auto simp: server_plugin_def)

interpretation server_sounds: sound_plugins "server_plugin wv fuel E0 E1" 2 plug_winv "live_sounds wv" for wv fuel E0 E1
proof
  fix n :: nat and v v' :: plug_world and p i h e and a :: int
  assume n: "n < 2" and v: "plug_winv v"
  show "Create (server_plugin wv fuel E0 E1 n) p i v = (MM_ERROR_NONE, h, v') \<Longrightarrow> plug_winv v' \<and>
      (\<exists>a. h = Some a \<and> live_sounds wv v (n, a) = None \<and> live_sounds wv v' = (live_sounds wv v)((n, a) \<mapsto> codec_cb_param p))"
    using v n wave_fresh [of "pw_wave v"] tone_fresh [of "pw_tone v"]
    by (cases rule: server_plugin_cases [OF n, of wv fuel E0 E1])
      (auto simp: server_wave_def server_tone_def lift_parts wave_interface_def tone_interface_def plug_winv_def
        live_sounds_def fun_eq_iff split: prod.splits if_splits dest!: wave_Create_result tone_Create_result)
  show "Create (server_plugin wv fuel E0 E1 n) p i v = (e, h, v') \<Longrightarrow> e \<noteq> MM_ERROR_NONE \<Longrightarrow> plug_winv v' \<and>
      h = None \<and> live_sounds wv v' = live_sounds wv v"
    using v n
    by (cases rule: server_plugin_cases [OF n, of wv fuel E0 E1])
      (auto simp: server_wave_def server_tone_def lift_parts wave_interface_def tone_interface_def plug_winv_def
        live_sounds_def fun_eq_iff split: prod.splits if_splits dest!: wave_Create_result tone_Create_result)
  show "Stop (server_plugin wv fuel E0 E1 n) a v = (e, v') \<Longrightarrow> plug_winv v' \<and> live_sounds wv v' = live_sounds wv v"
    using v n
    by (cases rule: server_plugin_cases [OF n, of wv fuel E0 E1])
      (auto simp: server_wave_def server_tone_def lift_parts wave_interface_def tone_interface_def plug_winv_def
        live_sounds_def fun_eq_iff plays_keep_cb split: prod.splits dest!: wave_on_heap_result tone_on_heap_result)
  show "Play (server_plugin wv fuel E0 E1 n) a v = (e, v') \<Longrightarrow> plug_winv v' \<and> live_sounds wv v' = live_sounds wv v"
    using v n
    by (cases rule: server_plugin_cases [OF n, of wv fuel E0 E1])
      (auto simp: server_wave_def server_tone_def lift_parts wave_interface_def tone_interface_def plug_winv_def
        live_sounds_def fun_eq_iff plays_keep_cb split: prod.splits dest!: wave_on_heap_result tone_on_heap_result)
  show "live_sounds wv v (n, a) \<noteq> None \<Longrightarrow> Destroy (server_plugin wv fuel E0 E1 n) a v = (e, v') \<Longrightarrow>
      plug_winv v' \<and> live_sounds wv v' = (live_sounds wv v)((n, a) := None)"
    using v n
    by (cases rule: server_plugin_cases [OF n, of wv fuel E0 E1])
      (auto simp: server_wave_def server_tone_def lift_parts wave_interface_def tone_interface_def plug_winv_def
        live_sounds_def fun_eq_iff wave_Destroy_def tone_Destroy_def wave_winv_def tone_winv_def
        split: prod.splits if_splits)
qed

section \<open>Requests\<close>

definition ipc_table_ok ::
  "bool \<Rightarrow> nat \<Rightarrow> (wave_world \<Rightarrow> wave_env) \<Rightarrow> (tone_world \<Rightarrow> tone_env) \<Rightarrow> ipc \<Rightarrow> bool" where
  "ipc_table_ok wv fuel E0 E1 s \<longleftrightarrow> table_inv (server_plugin wv fuel E0 E1) 2 plug_winv (live_sounds wv) (ip_codec s)"

lemma on_sys_table [simp]:
  "ipc_table_ok wv fuel E0 E1 (on_sys f s) = ipc_table_ok wv fuel E0 E1 s"
proof -
  have "plug_winv (cworld (ip_codec (on_sys f s))) = plug_winv (cworld (ip_codec s))"
    by (simp add: plug_winv_def wave_winv_def)
  moreover have "live_sounds wv (cworld (ip_codec (on_sys f s))) = live_sounds wv (cworld (ip_codec s))"
    by (simp add: live_sounds_def fun_eq_iff)
  ultimately show ?thesis by (simp add: ipc_table_ok_def table_inv_def)
qed

definition has_free_slot :: "ipc \<Rightarrow> bool" where
  "has_free_slot s \<longleftrightarrow> find_status STATUS_IDLE (slots (ip_codec s)) \<noteq> None"

lemma on_sys_free [simp]: "has_free_slot (on_sys f s) = has_free_slot s"
  by (simp add: has_free_slot_def)

lemma on_codec_table:
  "ipc_table_ok wv fuel E0 E1 s \<Longrightarrow> has_free_slot s \<Longrightarrow> on_codec (codec_play E p j) s = Some (e, h, t) \<Longrightarrow>
    ipc_table_ok wv fuel E0 E1 t"
  "ipc_table_ok wv fuel E0 E1 s \<Longrightarrow> has_free_slot s \<Longrightarrow> on_codec (codec_play_dtmf E p j) s = Some (e, h, t) \<Longrightarrow>
    ipc_table_ok wv fuel E0 E1 t"
  by (auto simp: on_codec_def ipc_table_ok_def has_free_slot_def
      dest: server_sounds.codec_play_table server_sounds.codec_play_dtmf_table)

lemma play_file_table:
  assumes "ipc_table_ok wv fuel E0 E1 s" "has_free_slot s" "ipc_play_file E m s = Some (e, h, t)"
  shows "ipc_table_ok wv fuel E0 E1 t"
  using assms
  by (auto simp: ipc_play_file_def Let_def split: access.splits prod.splits if_splits elim: on_codec_table(1) [rotated 2])

lemma play_shm_table:
  assumes "ipc_table_ok wv fuel E0 E1 s" "has_free_slot s" "play_shm E m src s = Some (e, h, t)"
  shows "ipc_table_ok wv fuel E0 E1 t"
  using assms(3) on_codec_table(1) [OF assms(1,2)]
  by (auto simp: play_shm_def split: option.splits prod.splits if_splits)

lemma play_memory_table:
  assumes "ipc_table_ok wv fuel E0 E1 s" "has_free_slot s" "ipc_play_memory E m s = Some (e, h, t)"
  shows "ipc_table_ok wv fuel E0 E1 t"
  using assms
  by (auto simp: ipc_play_memory_def Let_def split: access.splits prod.splits if_splits elim: play_shm_table [rotated 2])

text \<open>Every request keeps the table, provided that one that starts a sound finds a slot free.\<close>

definition starts_sound :: "msg_type \<Rightarrow> bool" where
  "starts_sound ty \<longleftrightarrow> ty \<in> {MM_SOUND_MSG_REQ_FILE, MM_SOUND_MSG_REQ_MEMORY, MM_SOUND_MSG_REQ_DTMF}"

lemma ip_codec_kept:
  "ip_codec (snd (on_ip_sess f s)) = ip_codec s" "ip_codec (ipc_snd_msg r s) = ip_codec s"
  by (simp_all add: on_ip_sess_def ipc_snd_msg_def split: prod.split)

lemma device_answer_codec: "device_answer m ty (on_ip_sess f s) = Some (r, t) \<Longrightarrow> ip_codec t = ip_codec s"
  by (auto simp: device_answer_def on_ip_sess_def split: prod.splits)

lemma mgr_answer_table:
  assumes "ipc_table_ok wv fuel E0 E1 s" "mgr_answer E m s = Some (r, t)" "starts_sound (m_msgtype m) \<longrightarrow> has_free_slot s"
  shows "ipc_table_ok wv fuel E0 E1 t"
proof -
  have same: "ip_codec t = ip_codec s \<Longrightarrow> ?thesis" using assms(1) by (simp add: ipc_table_ok_def)
  show ?thesis
  proof (cases "m_msgtype m")
    case MM_SOUND_MSG_REQ_FILE
    with assms show ?thesis by (auto simp: mgr_answer_def sound_answer_def starts_sound_def elim: play_file_table [rotated 2])
  next
    case MM_SOUND_MSG_REQ_MEMORY
    with assms show ?thesis by (auto simp: mgr_answer_def sound_answer_def starts_sound_def elim: play_memory_table [rotated 2])
  next
    case MM_SOUND_MSG_REQ_DTMF
    with assms show ?thesis
      by (auto simp: mgr_answer_def sound_answer_def starts_sound_def ipc_play_dtmf_def elim: on_codec_table(2) [rotated 2])
  next
    case MM_SOUND_MSG_REQ_STOP
    with assms show ?thesis
      by (auto simp: mgr_answer_def sound_answer_def ipc_stop_def ipc_table_ok_def
          dest: server_sounds.codec_stop_table [of wv fuel E0 E1, THEN conjunct1, rotated])
  qed (use assms(2) same in \<open>auto simp: mgr_answer_def ipc_set_active_route_def ipc_add_active_device_cb_def
      ipc_remove_active_device_cb_def ipc_add_available_device_cb_def ipc_remove_available_device_cb_def
      dest: device_answer_codec\<close>)
qed

section \<open>All orders of events\<close>

text \<open>The states of a server that was just started with the two plugins, over requests, commands of the audio
  session manager and ends of sounds that play; \<^verbatim>\<open>ok\<close> is what the system may answer to a request.\<close>

inductive sound_run ::
  "(ipc_env \<Rightarrow> sound_msg \<Rightarrow> ipc \<Rightarrow> bool) \<Rightarrow> bool \<Rightarrow> nat \<Rightarrow> (wave_world \<Rightarrow> wave_env) \<Rightarrow> (tone_world \<Rightarrow> tone_env) \<Rightarrow> ipc \<Rightarrow> bool"
  for ok wv fuel E0 E1 where
  started: "ip_codec s = codec_init (map (\<lambda>n. Some (server_plugin wv fuel E0 E1 n)) [0, 1]) v \<Longrightarrow> plug_winv v \<Longrightarrow>
      live_sounds wv v = Map.empty \<Longrightarrow> sound_run ok wv fuel E0 E1 s"
| request: "sound_run ok wv fuel E0 E1 s \<Longrightarrow> mgr_run E m s = Some t \<Longrightarrow>
      starts_sound (m_msgtype m) \<longrightarrow> has_free_slot s \<Longrightarrow> ok E m s \<Longrightarrow> sound_run ok wv fuel E0 E1 t"
| asm_command: "sound_run ok wv fuel E0 E1 s \<Longrightarrow> codec_asm_callback cmd slot (ip_codec s) = Some (r, c) \<Longrightarrow>
      sound_run ok wv fuel E0 E1 (s\<lparr>ip_codec := c\<rparr>)"
| ended: "sound_run ok wv fuel E0 E1 s \<Longrightarrow> live_sounds wv (cworld (ip_codec s)) x = Some (int k) \<Longrightarrow>
      ipc_sound_end k s = Some t \<Longrightarrow> sound_run ok wv fuel E0 E1 t"

lemma sound_end_ipc:
  assumes "ipc_table_ok wv fuel E0 E1 s" "live_sounds wv (cworld (ip_codec s)) x = Some (int k)"
  shows "\<exists>t. ipc_sound_end k s = Some t \<and> ipc_table_ok wv fuel E0 E1 t \<and>
    slots (ip_codec t) = (slots (ip_codec s))[k := zero_slot] \<and>
    live_sounds wv (cworld (ip_codec t)) = (live_sounds wv (cworld (ip_codec s)))(x := None)"
  using server_sounds.sound_end_table [of wv fuel E0 E1 "ip_codec s" "fst x" "snd x" k] assms
  by (auto simp: ipc_sound_end_def ipc_table_ok_def)

lemma init_table:
  assumes "ip_codec s = codec_init (map (\<lambda>n. Some (server_plugin wv fuel E0 E1 n)) [0, 1]) v" "plug_winv v"
    "live_sounds wv v = Map.empty"
  shows "ipc_table_ok wv fuel E0 E1 s"
proof -
  have "plugins (ip_codec s) = map (\<lambda>n. Some (server_plugin wv fuel E0 E1 n)) [0..<2] @ replicate 1 None"
    by (simp add: assms(1) codec_init_def MM_SOUND_SUPPORTED_CODEC_NUM_def eval_nat_numeral)
  then show ?thesis using assms
    by (auto simp: ipc_table_ok_def table_inv_def codec_init_def in_slots_def intro: exI [of _ 1])
qed

lemma sound_run_table: "sound_run ok wv fuel E0 E1 s \<Longrightarrow> ipc_table_ok wv fuel E0 E1 s"
proof (induction rule: sound_run.induct)
  case (started s v)
  then show ?case by (rule init_table)
next
  case (request s E m t)
  then show ?case
    by (auto simp: mgr_run_def ipc_table_ok_def ip_codec_kept dest: mgr_answer_table [unfolded ipc_table_ok_def, rotated])
next
  case (asm_command s cmd slot r c)
  then show ?case
    by (cases cmd) (auto simp: codec_asm_callback_def ipc_table_ok_def
        dest: server_sounds.codec_stop_table [of wv fuel E0 E1, THEN conjunct1, rotated])
next
  case (ended s x k t)
  from sound_end_ipc [OF ended.IH ended.hyps(2)] ended.hyps(3) show ?case by auto
qed


definition ex_server :: ipc where
  "ex_server = ex_ipc\<lparr>ip_codec := codec_init (map (\<lambda>n. Some (server_plugin True 3 ex_wave_env ex_tone_env n)) [0, 1]) ex_plug_world\<rparr>"

lemma ex_server_parts:
  "slots (ip_codec ex_server) = replicate MANAGER_HANDLE_MAX (zero_slot\<lparr>sl_plughandle := -1\<rparr>)"
  "plugins (ip_codec ex_server) = [Some (server_wave 3 ex_wave_env), Some (server_tone ex_tone_env), None]"
  "cworld (ip_codec ex_server) = ex_plug_world"
  by (simp_all add: ex_server_def codec_init_def MM_SOUND_SUPPORTED_CODEC_NUM_def server_plugin_def eval_nat_numeral)

lemma ex_server_run: "sound_run (\<lambda>_ _ _. True) True 3 ex_wave_env ex_tone_env ex_server"
  by (rule sound_run.started [where v = ex_plug_world])
    (simp_all add: ex_server_def ex_plug_world_def plug_winv_def wave_winv_def tone_winv_def live_sounds_def fun_eq_iff)

lemma ex_server_tone:
  "\<exists>t. mgr_run (ex_ipc_env ex_wave) (ex_request MM_SOUND_MSG_REQ_DTMF) ex_server = Some t \<and>
    live_sounds True (cworld (ip_codec t)) (1, 1) = Some 0"
proof -
  have "find_status STATUS_IDLE (slots (ip_codec ex_server)) = Some 0"
    by (simp add: find_status_Some ex_server_parts MANAGER_HANDLE_MAX_def zero_slot_def)
  then have g: "get_empty_slot (ip_codec ex_server) =
      (MM_ERROR_NONE, 0, on_slot 0 (\<lambda>x. x\<lparr>sl_status := STATUS_SOUND\<rparr>) (ip_codec ex_server))"
    by (simp add: get_empty_slot_def)
  show ?thesis
    by (simp add: mgr_run_def mgr_answer_def sound_answer_def ipc_play_dtmf_def on_codec_def codec_play_dtmf_def g
        server_wave_def wave_interface_def wave_support_types_def tone_support_types_def
        codec_register_def ex_ipc_env_def ex_codec_env_def ex_server_parts codec_simps start_sound_def server_tone_def
        lift_parts tone_interface_def tone_Create_def tone_create_def ex_tone_env_def ex_plug_world_def ex_request_def
        dtmf_param_def sound_param_def zero_msg_def plugin_param_def tone_on_heap_def tone_play_def live_sounds_def
        MANAGER_HANDLE_MAX_def needs_asm_def ipc_snd_msg_def Let_def)
qed


text \<open>Without the proviso it does not hold: a sound that is started when every slot is taken is refused, and all
  slots are given up, also those of the sounds that play.\<close>

lemma full_table_gives_up_all:
  assumes "find_status STATUS_IDLE (slots s) = None" "find_dtmf (plugins s) 0 = Some (Some n)"
    "codec_play_dtmf E p j s = Some (e, slot, t)" "k < length (slots s)"
  shows "e = MM_ERROR_SOUND_INTERNAL \<and> cworld t = cworld s \<and> sl_status (slots t ! k) = STATUS_IDLE"
  using assms by (simp add: codec_play_dtmf_def get_empty_slot_def split: option.splits) auto

end
