(* ===== verification/Sound_Sources.thy ===== *)
theory Sound_Sources
  imports Sound_Table_Props
begin

text \<open>
  The sources of sounds that play (\<^verbatim>\<open>common/mm_source.c\<close> under the WAVE plugin): what a sound holds of the system,
  and how the plugins and the operations of the codec manager change it.
\<close>

section \<open>Sources that are held\<close>

text \<open>Where the memory of a source begins that was mapped for it.\<close>

definition src_base :: "mm_source \<Rightarrow> ptr" where
  "src_base q = src_ptr q - med_offset q"

definition held_by :: "mm_source \<Rightarrow> src_sys \<Rightarrow> bool" where
  "held_by q sys \<longleftrightarrow> src_addr q \<in> set (structs sys) \<and>
    (case src_type q of
       MM_SOURCE_FILE \<Rightarrow> src_fd q \<in> set (open_fds sys) \<and> (src_base q, tot_size q) \<in> set (mappings sys)
     | MM_SOURCE_MEMORY_NOTALLOC \<Rightarrow> (src_base q, of_nat MEMTYPE_SUPPORT_MAX) \<in> set (mappings sys)
     | _ \<Rightarrow> False)"

text \<open>Two sources that share nothing.\<close>

definition apart :: "mm_source \<Rightarrow> mm_source \<Rightarrow> bool" where
  "apart q r \<longleftrightarrow> src_addr q \<noteq> src_addr r \<and> src_base q \<noteq> src_base r \<and>
    (src_type q = MM_SOURCE_FILE \<and> src_type r = MM_SOURCE_FILE \<longrightarrow> src_fd q \<noteq> src_fd r)"

definition sources_held :: "(int \<rightharpoonup> mm_source) \<Rightarrow> src_sys \<Rightarrow> bool" where
  "sources_held f sys \<longleftrightarrow> (\<forall>a q. f a = Some q \<longrightarrow> held_by q sys) \<and>
    (\<forall>a b q r. a \<noteq> b \<and> f a = Some q \<and> f b = Some r \<longrightarrow> apart q r)"

definition unowned :: "mm_source \<Rightarrow> (int \<rightharpoonup> mm_source) \<Rightarrow> bool" where
  "unowned src f \<longleftrightarrow> (\<forall>a q. f a = Some q \<longrightarrow> apart src q)"

lemma source_bytes_simps [simp]:
  "held_by (q\<lparr>src_bytes := b\<rparr>) sys = held_by q sys" "apart (q\<lparr>src_bytes := b\<rparr>) r = apart q r"
  "unowned (q\<lparr>src_bytes := b\<rparr>) f = unowned q f"
  by (simp_all add: held_by_def apart_def unowned_def src_base_def cong: source_type.case_cong)

lemma apart_sym: "apart q r = apart r q"
  by (auto simp: apart_def)

lemma held_mono:
  "held_by r sys \<Longrightarrow> (src_addr r \<in> set (structs sys) \<Longrightarrow> src_addr r \<in> set (structs sys')) \<Longrightarrow>
    set (open_fds sys) \<subseteq> set (open_fds sys') \<Longrightarrow> set (mappings sys) \<subseteq> set (mappings sys') \<Longrightarrow> held_by r sys'"
  by (auto simp: held_by_def split: source_type.splits)

lemma released_keeps:
  "held_by r sys \<Longrightarrow> apart q r \<Longrightarrow> held_by r (free_source q (release_source q sys))"
  by (cases "src_type q"; cases "src_type r") (auto simp: held_by_def apart_def free_source_def release_source_def src_base_def)

lemma freed_keeps: "held_by r sys \<Longrightarrow> src_addr q \<noteq> src_addr r \<Longrightarrow> held_by r (free_source q sys)"
  by (rule held_mono) (auto simp: free_source_def)

lemma sources_new:
  "sources_held f sys \<Longrightarrow> held_by q sys \<Longrightarrow> unowned q f \<Longrightarrow> sources_held (f(a \<mapsto> q)) sys"
  by (auto simp: sources_held_def unowned_def apart_sym [of _ q])

lemma sources_gone:
  "sources_held f sys \<Longrightarrow> f a = Some q \<Longrightarrow> sources_held (f(a := None)) (free_source q (release_source q sys))"
  unfolding sources_held_def by (auto split: if_splits) (metis released_keeps)

lemma sources_mono:
  "sources_held f sys \<Longrightarrow> (\<And>a q. held_by q sys \<Longrightarrow> f a = Some q \<Longrightarrow> held_by q sys') \<Longrightarrow> sources_held f sys'"
  by (auto simp: sources_held_def)

section \<open>The plugins\<close>

definition wave_sources :: "plug_world \<Rightarrow> int \<rightharpoonup> mm_source" where
  "wave_sources v a = map_option wv_source (wave_heap (pw_wave v) a)"

abbreviation plug_sys :: "plug_world \<Rightarrow> src_sys" where
  "plug_sys v \<equiv> wave_sys (pw_wave v)"

lemma wave_create_source: "wave_create E p i = (Inr q, cs) \<Longrightarrow> wv_source q = codec_source p"
  by (auto simp: wave_create_def Let_def split: if_splits option.splits)

lemma create_sources:
  assumes "Create (server_plugin wv fuel E0 E1 n) p i v = (e, h, v')" "n < 2"
  shows "plug_sys v' = plug_sys v \<and>
    (wave_sources v' = wave_sources v \<or>
     e = MM_ERROR_NONE \<and> (\<exists>a. n = (if wv then 0 else 1) \<and> h = Some a \<and> wave_sources v' = (wave_sources v)(a \<mapsto> codec_source p)))"
  using assms(1) wave_create_source
  by (cases rule: server_plugin_cases [OF assms(2), of wv fuel E0 E1])
    (fastforce simp: server_wave_def server_tone_def lift_parts wave_interface_def tone_interface_def wave_Create_def
      tone_Create_def wave_sources_def fun_eq_iff split: prod.splits sum.splits)+

lemma on_heap_sources:
  assumes "wave_on_heap f a w = (e, w')" "\<And>q. wv_source (snd (f q)) = wv_source q"
  shows "wave_sys w' = wave_sys w \<and> (\<forall>b. map_option wv_source (wave_heap w' b) = map_option wv_source (wave_heap w b))"
proof (cases "wave_heap w a")
  case (Some q)
  with assms(1) have "w' = w\<lparr>wave_heap := (wave_heap w)(a \<mapsto> snd (f q))\<rparr>"
    by (auto simp: wave_on_heap_def split: prod.splits)
  with assms(2) [of q] Some show ?thesis by auto
qed (use assms(1) in \<open>auto simp: wave_on_heap_def\<close>)

lemma play_sources:
  assumes "n < 2" "Play (server_plugin wv fuel E0 E1 n) a v = (e, v') \<or> Stop (server_plugin wv fuel E0 E1 n) a v = (e, v')"
  shows "plug_sys v' = plug_sys v \<and> wave_sources v' = wave_sources v"
proof -
  have f: "wv_source (snd (wave_play q)) = wv_source q" "wv_source (snd (wave_stop q)) = wv_source q" for q
    by (simp_all add: wave_play_def wave_stop_def)
  show ?thesis using assms(2)
    by (cases rule: server_plugin_cases [OF assms(1), of wv fuel E0 E1])
      (auto simp: server_wave_def server_tone_def lift_parts wave_interface_def tone_interface_def wave_sources_def
        fun_eq_iff f split: prod.splits dest!: on_heap_sources)
qed

lemma destroy_sources:
  assumes "n < 2" "plug_winv v" "Destroy (server_plugin wv fuel E0 E1 n) a v = (e, v')"
  shows "if n = (if wv then 0 else 1) \<and> wave_sources v a \<noteq> None
    then wave_sources v' = (wave_sources v)(a := None) \<and>
      plug_sys v' = free_source (the (wave_sources v a)) (release_source (the (wave_sources v a)) (plug_sys v))
    else wave_sources v' = wave_sources v \<and> plug_sys v' = plug_sys v"
proof -
  have "wave_heap (pw_wave v) 0 = None"
    using assms(2) by (cases "wave_heap (pw_wave v) 0") (auto simp: plug_winv_def wave_winv_alt)
  then show ?thesis using assms(3)
    by (cases rule: server_plugin_cases [OF assms(1), of wv fuel E0 E1])
      (auto simp: server_wave_def server_tone_def lift_parts wave_interface_def tone_interface_def wave_Destroy_def
        tone_Destroy_def wave_sources_def fun_eq_iff split: if_splits option.splits)
qed

text \<open>Parsing changes the bytes of a source at most.\<close>

lemma parse_chunks_source: "parse_chunks fuel src info = Ok (e, src', info') \<Longrightarrow> src' = src"
  unfolding parse_chunks_def parse_rejected_def Let_def andthen_Ok
  by (elim exE conjE) (auto simp: andthen_Ok split: option.splits prod.splits)

lemma wave_parse_source:
  assumes "wave_parse fuel src info = Ok (e, src', info')"
  shows "src' = src\<lparr>src_bytes := src_bytes src'\<rparr>"
proof -
  from assms consider "src' = src" | bs where "parse_chunks fuel (src\<lparr>src_bytes := bs\<rparr>) info = Ok (e, src', info')"
    | "parse_chunks fuel src info = Ok (e, src', info')"
    by (auto simp: wave_parse_def parse_rejected_def andthen_Ok Let_def split: if_splits)
  then show ?thesis by cases (auto dest: parse_chunks_source)
qed

lemma find_codec_source:
  assumes "\<And>p s i e s' i'. Some p \<in> set ps \<Longrightarrow> Parse p s i = Some (e, s', i') \<Longrightarrow> s' = s\<lparr>src_bytes := src_bytes s'\<rparr>"
  shows "find_codec ps k src info = Some (Found n src' info') \<Longrightarrow> src' = src\<lparr>src_bytes := src_bytes src'\<rparr>"
  using assms
proof (induction ps k src info rule: find_codec.induct)
  case (3 p ps i src info)
  from "3.prems"(1) obtain e s1 i1 where p: "Parse p src info = Some (e, s1, i1)"
    "(if e = MM_ERROR_NONE then Some (Found i s1 i1) else find_codec ps (Suc i) s1 i1) = Some (Found n src' info')"
    by (auto split: option.splits)
  have s1: "s1 = src\<lparr>src_bytes := src_bytes s1\<rparr>" using "3.prems"(2) [of p src info e s1 i1] p(1) by simp
  show ?case
  proof (cases "e = MM_ERROR_NONE")
    case False
    with "3.IH" [OF p(1) refl refl False] p(2) "3.prems"(2) have "src' = s1\<lparr>src_bytes := src_bytes src'\<rparr>" by fastforce
    with s1 show ?thesis by (metis mm_source.surjective mm_source.update_convs(4))
  qed (use p(2) s1 in simp)
qed auto

section \<open>The codec manager\<close>

text \<open>How the world of the plugins changes when a sound is played: not but by stopping one, or as \<^verbatim>\<open>start_sound\<close>
  leaves it.\<close>

lemma codec_play_world:
  assumes "codec_play E p j s = Some (e, slot, t)"
  obtains (refused) s0 where "stop_same_kind p s = Some s0 \<or> s0 = s" "cworld t = cworld s0" "e \<noteq> MM_ERROR_NONE"
  | (begun) n src info s0 pl cp i s2 e' un s4 where
      "find_codec (plugins s) 0 (mp_source p) (junk_info E) = Some (Found n src info)" "stop_same_kind p s = Some s0"
      "plugins s ! n = Some pl" "codec_source cp = src" "i < length (slots s2)" "cworld s2 = cworld s0"
      "start_sound pl cp info i s2 = (e', un, s4)" "cworld t = cworld s4" "e \<noteq> MM_ERROR_NONE \<longrightarrow> e' \<noteq> MM_ERROR_NONE"
proof -
  from assms consider (none) "t = s" "e \<noteq> MM_ERROR_NONE"
    | (found) n src info where "find_codec (plugins s) 0 (mp_source p) (junk_info E) = Some (Found n src info)"
    by (auto simp: codec_play_def split: option.splits plugin_search.splits)
  then show thesis
  proof cases
    case none
    then show thesis using refused [of s] by simp
  next
    case found
    from assms found obtain s0 where s0: "stop_same_kind p s = Some s0" by (auto simp: codec_play_def split: option.splits)
    obtain eg sg s1 where g: "get_empty_slot s0 = (eg, sg, s1)" by (metis prod_cases3)
    show thesis
    proof (cases "eg = MM_ERROR_NONE")
      case False
      with assms found s0 g have t: "t = s1" "e \<noteq> MM_ERROR_NONE" by (auto simp: codec_play_def)
      have "cworld s1 = cworld s0" using get_empty_slot_ok(2) [OF g False] by simp
      with t s0 show thesis using refused [of s0] by simp
    next
      case True
      then obtain i where i: "sg = int i" "find_status STATUS_IDLE (slots s0) = Some i"
        "s1 = on_slot i (\<lambda>x. x\<lparr>sl_status := STATUS_SOUND\<rparr>) s0" using get_empty_slot_ok(1) [OF g] by blast
      obtain reg s3 where r: "codec_register E p i (keytone_status p i s1) = (reg, s3)" by fastforce
      note r3 = codec_register_parts [OF r]
      have w3: "cworld s3 = cworld s0" using r3 i(3) by (simp add: codec_simps)
      show thesis
      proof (cases reg)
        case None
        with assms found s0 g True i(1) r have t: "t = s3" "e \<noteq> MM_ERROR_NONE" by (auto simp: codec_play_def)
        with w3 s0 show thesis using refused [of s0] by simp
      next
        case (Some h)
        with assms found s0 g True i(1) r obtain pl where pl: "plugins s ! n = Some pl"
          by (auto simp: codec_play_def split: option.splits)
        let ?f = "\<lambda>x. x\<lparr>sl_pluginid := n, sl_callback := mp_callback p, sl_msgcallback := mp_msgcallback p,
          sl_msgdata := mp_msgdata p, sl_param := mp_param p, sl_session_type := mp_session_type p,
          sl_session_handle := h\<rparr>"
        let ?kt = "if mp_keytone p = 1 \<or> mp_keytone p = 2 then mp_keytone p else 0"
        let ?cp = "plugin_param ?kt (mp_priority p) i p src"
        obtain e' u s4 where s4: "start_sound pl ?cp info i (on_slot i ?f s3) = (e', u, s4)" by (metis prod_cases3)
        have "i < length (slots (on_slot i ?f s3))" using i(2,3) r3 by (simp add: find_status_Some codec_simps)
        moreover have "cworld t = cworld s4" "e \<noteq> MM_ERROR_NONE \<longrightarrow> e' \<noteq> MM_ERROR_NONE"
          using assms found s0 g True i(1) r Some pl s4
          by (auto simp: codec_play_def Let_def start_sound_def split: prod.splits if_splits dest: codec_unregister_parts)
        ultimately show thesis
          using begun [OF found s0 pl _ _ _ s4] w3 by (simp add: codec_simps plugin_param_def)
      qed
    qed
  qed
qed

text \<open>The world after a sound was created in a filled slot.\<close>

lemma start_sound_world:
  assumes "start_sound pl cp info i s = (e, un, t)" "i < length (slots s)" "Create pl cp info (cworld s) = (ec, h, w1)"
    "ec = MM_ERROR_NONE \<Longrightarrow> h = Some a"
  shows "if ec \<noteq> MM_ERROR_NONE then e = ec \<and> cworld t = w1
    else (\<exists>ep w2. Play pl a w1 = (ep, w2) \<and> e = ep \<and>
      cworld t = (if ep = MM_ERROR_NONE then w2 else snd (Destroy pl a w2)))"
proof (cases "ec = MM_ERROR_NONE")
  case True
  have h1: "sl_plughandle (slots (on_slot i (\<lambda>x. x\<lparr>sl_plughandle := a\<rparr>) s\<lparr>cworld := w1\<rparr>) ! i) = a"
    using assms(2) by (simp add: codec_simps)
  obtain ep w2 where "Play pl a w1 = (ep, w2)" by fastforce
  with assms True h1 show ?thesis by (auto simp: start_sound_def Let_def)
qed (use assms in \<open>auto simp: start_sound_def codec_simps split: option.splits\<close>)

lemma start_sound_sources:
  fixes s :: "plug_world codec"
  assumes "sources_held (wave_sources (cworld s)) (plug_sys (cworld s))" "plug_winv (cworld s)" "n < 2"
    "held_by (codec_source cp) (plug_sys (cworld s))" "unowned (codec_source cp) (wave_sources (cworld s))"
    "i < length (slots s)" "start_sound (server_plugin wv fuel E0 E1 n) cp info i s = (e, un, t)"
  shows "sources_held (wave_sources (cworld t)) (plug_sys (cworld t)) \<and>
    (e \<noteq> MM_ERROR_NONE \<longrightarrow> unowned (codec_source cp) (wave_sources (cworld t)))"
proof -
  let ?pl = "server_plugin wv fuel E0 E1 n"
  let ?v = "cworld s"
  obtain ec h w1 where c: "Create ?pl cp info ?v = (ec, h, w1)" by (metis prod_cases3)
  note cs = create_sources [OF c assms(3)]
  note made = server_sounds.create_sound [OF assms(3,2), of wv fuel E0 E1 cp info h w1]
  show ?thesis
  proof (cases "ec = MM_ERROR_NONE")
    case False
    with start_sound_world [OF assms(7,6) c, of 0] cs assms(1,5) show ?thesis by simp
  next
    case True
    from made c True obtain a where a: "h = Some a" "plug_winv w1" "live_sounds wv w1 (n, a) \<noteq> None" by auto
    from start_sound_world [OF assms(7,6) c, of a] a(1) True obtain ep w2 where
      p: "Play ?pl a w1 = (ep, w2)" "e = ep" "cworld t = (if ep = MM_ERROR_NONE then w2 else snd (Destroy ?pl a w2))" by auto
    have ps: "plug_sys w2 = plug_sys w1" "wave_sources w2 = wave_sources w1" using play_sources [OF assms(3)] p(1) by blast+
    have w2: "plug_winv w2" using server_sounds.play_sound [OF assms(3) a(2,3) p(1)] by blast
    from cs a(1) consider (same) "wave_sources w1 = wave_sources ?v" | (new) "n = (if wv then 0 else 1)"
      "wave_sources w1 = (wave_sources ?v)(a \<mapsto> codec_source cp)" by auto
    then show ?thesis
    proof cases
      case same
      obtain ed w3 where d: "Destroy ?pl a w2 = (ed, w3)" by fastforce
      have "sources_held (wave_sources w3) (plug_sys w3) \<and> unowned (codec_source cp) (wave_sources w3)"
        using destroy_sources [OF assms(3) w2 d] ps same cs assms(1,5) sources_gone [of "wave_sources ?v" "plug_sys ?v" a]
        by (auto simp: unowned_def split: if_splits)
      with p ps same cs assms(1,5) d show ?thesis by simp
    next
      case new
      have h1: "sources_held (wave_sources w1) (plug_sys w1)"
        using sources_new [OF assms(1,4,5)] new(2) cs by simp
      obtain ed w3 where d: "Destroy ?pl a w2 = (ed, w3)" by fastforce
      have w3: "wave_sources w3 = (wave_sources ?v)(a := None)"
        "plug_sys w3 = free_source (codec_source cp) (release_source (codec_source cp) (plug_sys w1))"
        using destroy_sources [OF assms(3) w2 d] ps new by simp_all
      have "sources_held (wave_sources w3) (plug_sys w3)"
        using sources_gone [OF h1, of a] unfolding w3 new(2) by simp
      moreover have "unowned (codec_source cp) (wave_sources w3)" using assms(5) unfolding w3 by (auto simp: unowned_def)
      ultimately show ?thesis using p ps h1 d by (cases "ep = MM_ERROR_NONE") simp_all
    qed
  qed
qed

lemma tone_keeps_wave:
  "Create (server_tone E1) cp info v = (e, h, v') \<Longrightarrow> pw_wave v' = pw_wave v"
  "Play (server_tone E1) a v = (e, v') \<Longrightarrow> pw_wave v' = pw_wave v"
  "Destroy (server_tone E1) a v = (e, v') \<Longrightarrow> pw_wave v' = pw_wave v"
  by (auto simp: server_tone_def lift_parts split: prod.splits)

lemma start_tone_wave:
  fixes s :: "plug_world codec"
  assumes "start_sound (server_tone E1) cp info i s = (e, un, t)"
  shows "pw_wave (cworld t) = pw_wave (cworld s)"
proof -
  have d: "pw_wave (snd (Destroy (server_tone E1) a v)) = pw_wave v" for a v
    using tone_keeps_wave(3) by (metis prod.collapse)
  show ?thesis using assms
    by (auto simp: start_sound_def Let_def codec_simps d split: prod.splits option.splits if_splits
        dest!: tone_keeps_wave(1,2))
qed

section \<open>The operations of the codec manager\<close>

definition world_held :: "plug_world \<Rightarrow> bool" where
  "world_held v \<longleftrightarrow> sources_held (wave_sources v) (plug_sys v)"

lemma wave_part_held: "wave_sources w = wave_sources v \<Longrightarrow> plug_sys w = plug_sys v \<Longrightarrow> world_held w = world_held v"
  by (simp add: world_held_def)

lemma plugin_of_server:
  assumes "ipc_table_ok wv fuel E0 E1 s" "plugin_of (ip_codec s) i = Some p"
  shows "sl_pluginid (slots (ip_codec s) ! i) < 2" "p = server_plugin wv fuel E0 E1 (sl_pluginid (slots (ip_codec s) ! i))"
  using server_sounds.plugin_below(3) [of wv fuel E0 E1 "ip_codec s"] assms
  by (auto simp: ipc_table_ok_def plugin_of_def split: if_splits)

lemma codec_stop_sources:
  assumes "table_inv (server_plugin wv fuel E0 E1) 2 plug_winv (live_sounds wv) c" "codec_stop i c = Some (e, d)"
  shows "wave_sources (cworld d) = wave_sources (cworld c) \<and> plug_sys (cworld d) = plug_sys (cworld c)"
proof (cases "cworld d = cworld c")
  case False
  with assms(2) obtain p where p: "plugin_of c (nat i) = Some p"
    "Stop p (sl_plughandle (slots c ! nat i)) (cworld c) = (e, cworld d)"
    by (auto simp: codec_stop_def split: if_splits option.splits prod.splits)
  let ?n = "sl_pluginid (slots c ! nat i)"
  have "?n < 2" "p = server_plugin wv fuel E0 E1 ?n"
    using p(1) server_sounds.plugin_below(3) [OF assms(1)] by (auto simp: plugin_of_def split: if_splits)
  with play_sources p(2) show ?thesis by blast
qed simp

lemma stop_same_kind_sources:
  assumes "table_inv (server_plugin wv fuel E0 E1) 2 plug_winv (live_sounds wv) c" "stop_same_kind p c = Some d"
  shows "wave_sources (cworld d) = wave_sources (cworld c) \<and> plug_sys (cworld d) = plug_sys (cworld c) \<and> plug_winv (cworld d)"
proof -
  have ok: "plug_winv (cworld c)" using assms(1) by (simp add: table_inv_def)
  from assms(2) consider "d = c" | i e where "codec_stop i c = Some (e, d)"
    by (auto simp: stop_same_kind_def split: option.splits if_splits)
  then show ?thesis
  proof cases
    case 2
    have "plug_winv (cworld d)" using server_sounds.codec_stop_table [OF assms(1) 2] by (simp add: table_inv_def)
    with codec_stop_sources [OF assms(1) 2] show ?thesis by simp
  qed (use ok in simp)
qed

lemma plugin_parse_source:
  assumes "n < 2" "Parse (server_plugin wv fuel E0 E1 n) src info = Some (e, src', info')"
  shows "src' = src\<lparr>src_bytes := src_bytes src'\<rparr>"
  using assms(2)
  by (cases rule: server_plugin_cases [OF assms(1), of wv fuel E0 E1])
    (auto simp: server_wave_def server_tone_def lift_interface_def wave_interface_def tone_interface_def wave_Parse_def
      tone_parse_def dest: wave_parse_source split: access.splits prod.splits)

text \<open>A sound that is played takes the source it is given, and nothing of another sound's; when it is refused it
  shares nothing with those that play.\<close>

lemma codec_play_sources:
  assumes ok: "table_inv (server_plugin wv fuel E0 E1) 2 plug_winv (live_sounds wv) c"
    and held: "world_held (cworld c)" "held_by (mp_source p) (plug_sys (cworld c))" "unowned (mp_source p) (wave_sources (cworld c))"
    and run: "codec_play E p j c = Some (e, slot, t)"
  shows "world_held (cworld t) \<and> (e \<noteq> MM_ERROR_NONE \<longrightarrow> unowned (mp_source p) (wave_sources (cworld t)))"
  using run
proof (cases rule: codec_play_world)
  case (refused s0)
  then have "wave_sources (cworld s0) = wave_sources (cworld c) \<and> plug_sys (cworld s0) = plug_sys (cworld c)"
    using stop_same_kind_sources [OF ok] by blast
  with refused held show ?thesis by (simp add: world_held_def)
next
  case (begun n src info s0 pl cp i s2 e' un s4)
  note s0 = stop_same_kind_sources [OF ok begun(2)]
  have n: "n < 2" using find_codec_bounds [OF begun(1)] server_sounds.plugin_below(1) [OF ok] by simp
  then have pl: "pl = server_plugin wv fuel E0 E1 n" using server_sounds.plugin_below(2) [OF ok n] begun(3) by simp
  have "q = server_plugin wv fuel E0 E1 0 \<or> q = server_plugin wv fuel E0 E1 1" if "Some q \<in> set (plugins c)" for q
    using server_sounds.plugin_below(3) [OF ok] that by (auto simp: in_set_conv_nth less_2_cases_iff)
  then have src: "src = mp_source p\<lparr>src_bytes := src_bytes src\<rparr>"
    using find_codec_source [OF _ begun(1)] plugin_parse_source [of 0 wv fuel E0 E1] plugin_parse_source [of 1 wv fuel E0 E1] by fastforce
  have "held_by src (plug_sys (cworld s2))" "unowned src (wave_sources (cworld s2))"
    using held(2,3) s0 begun(6) by (subst src; simp)+
  with start_sound_sources [of s2 n cp i wv fuel E0 E1 info e' un s4] begun pl n s0 held(1)
  have "world_held (cworld s4)" "e' \<noteq> MM_ERROR_NONE \<longrightarrow> unowned src (wave_sources (cworld s4))"
    by (simp_all add: world_held_def)
  moreover have "unowned (mp_source p) f = unowned src f" for f by (subst src) simp
  ultimately show ?thesis using begun(8,9) by simp
qed

lemma find_dtmf_supports:
  "find_dtmf ps i = Some (Some n) \<Longrightarrow> i \<le> n \<and> (\<exists>p. ps ! (n - i) = Some p \<and> GetSupportTypes p = MM_SOUND_SUPPORTED_CODEC_DTMF)"
proof (induction ps i rule: find_dtmf.induct)
  case (3 p ps i)
  then show ?case by (cases "n = i") (auto simp: nth_Cons' split: if_splits)
qed auto

lemma codec_play_dtmf_sources:
  assumes ok: "table_inv (server_plugin wv fuel E0 E1) 2 plug_winv (live_sounds wv) c"
    and run: "codec_play_dtmf E p j c = Some (e, slot, t)"
  shows "pw_wave (cworld t) = pw_wave (cworld c)"
proof -
  have find: "pl = server_tone E1" if "find_dtmf (plugins c) 0 = Some (Some n)" "plugins c ! n = Some pl" for n pl
  proof -
    have n: "n < 2" using find_dtmf_bounds [OF that(1)] server_sounds.plugin_below(1) [OF ok] by simp
    have "GetSupportTypes pl = MM_SOUND_SUPPORTED_CODEC_DTMF" using find_dtmf_supports [OF that(1)] that(2) by simp
    moreover have "pl = server_plugin wv fuel E0 E1 n" using server_sounds.plugin_below(2) [OF ok n] that(2) by simp
    ultimately show ?thesis
      by (auto simp: server_plugin_def server_wave_def lift_interface_def wave_interface_def wave_support_types_def split: if_splits)
  qed
  have empty: "cworld s1 = cworld c" if "get_empty_slot c = (eg, sg, s1)" for eg sg s1
    using that by (auto simp: get_empty_slot_def codec_simps split: option.splits)
  show ?thesis using run
    by (auto simp: codec_play_dtmf_def Let_def codec_simps split: option.splits prod.splits if_splits
        dest!: codec_register_parts start_tone_wave empty find)
qed

end
