(* ===== verification/Sound_Sources_Props.thy ===== *)
theory Sound_Sources_Props
  imports Sound_Sources
begin

text \<open>
  The sources of the WAVE sounds over every order of requests, commands of the audio session manager and ends of
  sounds (\<^verbatim>\<open>server/mm_sound_mgr_ipc.c\<close>): what a sound that plays reads from stays open and mapped.
\<close>

section \<open>Requests\<close>

definition ipc_held :: "ipc \<Rightarrow> bool" where
  "ipc_held s \<longleftrightarrow> world_held (cworld (ip_codec s))"

abbreviation ipc_sources :: "ipc \<Rightarrow> int \<rightharpoonup> mm_source" where
  "ipc_sources s \<equiv> wave_sources (cworld (ip_codec s))"

lemma ip_sys_alt: "plug_sys (cworld (ip_codec s)) = ip_sys s"
  by (simp add: ip_sys_def)

lemma ipc_held_alt: "ipc_held s \<longleftrightarrow> sources_held (ipc_sources s) (ip_sys s)"
  by (simp add: ipc_held_def world_held_def ip_sys_alt)

lemma on_sys_sources [simp]: "ipc_sources (on_sys f s) = ipc_sources s"
  by (simp add: wave_sources_def fun_eq_iff)

text \<open>What the system answers: an address that is not in use, a descriptor that is not open, a mapping that
  does not begin where another does.\<close>

definition fresh_answers :: "ipc_env \<Rightarrow> sound_msg \<Rightarrow> ipc \<Rightarrow> bool" where
  "fresh_answers E m s \<longleftrightarrow> ie_struct E \<notin> set (structs (ip_sys s)) \<and>
    (m_msgtype m = MM_SOUND_MSG_REQ_FILE \<longrightarrow>
       (let F = ie_files E (m_filename m)
        in fe_open F \<notin> set (open_fds (ip_sys s)) \<and> fe_map F \<notin> fst ` set (mappings (ip_sys s)) \<and> fe_map F \<noteq> MAP_FAILED)) \<and>
    (m_msgtype m = MM_SOUND_MSG_REQ_MEMORY \<longrightarrow> ie_shm_map E \<notin> fst ` set (mappings (ip_sys s)))"

lemma held_base: "held_by r sys \<Longrightarrow> src_base r \<in> fst ` set (mappings sys)"
  by (force simp: held_by_def split: source_type.splits)

lemma held_fd: "held_by r sys \<Longrightarrow> src_type r = MM_SOURCE_FILE \<Longrightarrow> src_fd r \<in> set (open_fds sys)"
  by (simp add: held_by_def)

lemma held_addr: "held_by r sys \<Longrightarrow> src_addr r \<in> set (structs sys)"
  by (simp add: held_by_def)

lemma fresh_unowned:
  assumes "sources_held f sys" "src_addr q \<notin> set (structs sys)" "src_base q \<notin> fst ` set (mappings sys)"
    "src_type q = MM_SOURCE_FILE \<Longrightarrow> src_fd q \<notin> set (open_fds sys)"
  shows "unowned q f"
  using assms unfolding unowned_def apart_def sources_held_def by (metis held_base held_fd held_addr)

lemma remove1_others: "set xs - {x} \<subseteq> set (remove1 x xs)"
  by (induction xs) auto

text \<open>Opening takes; what is taken for a file that cannot be mapped is given back.\<close>

lemma map_file_takes:
  assumes "map_file F off sz q sys = (e, q', sys')"
  shows "src_addr q' = src_addr q \<and> structs sys' = structs sys \<and> set (mappings sys) \<subseteq> set (mappings sys') \<and>
    set (open_fds sys) - {fe_open F} \<subseteq> set (open_fds sys') \<and>
    (e = MM_ERROR_NONE \<longrightarrow> open_fds sys' = open_fds sys \<and> src_type q' = MM_SOURCE_FILE \<and> src_base q' = fe_map F \<and>
       src_fd q' = fe_open F \<and> (fe_map F \<noteq> MAP_FAILED \<longrightarrow> (fe_map F, tot_size q') \<in> set (mappings sys')))"
  using assms remove1_others [of "open_fds sys" "fe_open F"]
  by (simp add: map_file_def Let_def src_base_def split: if_splits) auto

lemma open_file_takes:
  assumes "mm_source_open_file F f drm q sys = Ok (e, q', sys')" "fe_open F \<notin> set (open_fds sys)"
  shows "src_addr q' = src_addr q \<and> structs sys' = structs sys \<and> set (mappings sys) \<subseteq> set (mappings sys') \<and>
    set (open_fds sys) \<subseteq> set (open_fds sys') \<and>
    (e = MM_ERROR_NONE \<longrightarrow> src_type q' = MM_SOURCE_FILE \<and> src_base q' = fe_map F \<and>
       src_fd q' = fe_open F \<and> fe_open F \<in> set (open_fds sys') \<and>
       (fe_map F \<noteq> MAP_FAILED \<longrightarrow> (fe_map F, tot_size q') \<in> set (mappings sys')))"
proof -
  let ?s1 = "sys\<lparr>open_fds := fe_open F # open_fds sys\<rparr>"
  from assms(1) consider (same) "q' = q" "sys' = sys" "e \<noteq> MM_ERROR_NONE" | (opened) "q' = q" "sys' = ?s1" "e \<noteq> MM_ERROR_NONE"
    | (mapped) off sz where "map_file F off sz q ?s1 = (e, q', sys')"
    by (auto simp: mm_source_open_file_def Let_def split: option.splits if_splits prod.splits)
  then show ?thesis
  proof cases
    case mapped
    from map_file_takes [OF this] assms(2) show ?thesis by auto
  qed auto
qed

lemma ipc_play_file_sources:
  assumes ok: "ipc_table_ok wv fuel E0 E1 s" "ipc_held s" and fr: "fresh_answers E m s" "m_msgtype m = MM_SOUND_MSG_REQ_FILE"
    and run: "ipc_play_file E m s = Some (e, h, t)"
  shows "ipc_held t"
proof -
  let ?F = "ie_files E (m_filename m)" and ?a = "ie_struct E"
  have fresh: "?a \<notin> set (structs (ip_sys s))" "fe_open ?F \<notin> set (open_fds (ip_sys s))"
    "fe_map ?F \<notin> fst ` set (mappings (ip_sys s))" "fe_map ?F \<noteq> MAP_FAILED"
    using fr by (simp_all add: fresh_answers_def Let_def)
  obtain src0 sys0 where al: "(if ?a = 0 then (zero_source, ip_sys s) else alloc_source ?a (ip_sys s)) = (src0, sys0)" by fastforce
  then have src0: "src_addr src0 = ?a" "open_fds sys0 = open_fds (ip_sys s)" "mappings sys0 = mappings (ip_sys s)"
    "structs sys0 = (if ?a = 0 then structs (ip_sys s) else ?a # structs (ip_sys s))"
    by (auto simp: alloc_source_def zero_source_def split: if_splits)
  from run al obtain eo src sys1 where op: "mm_source_open_file ?F (Some (m_filename m)) True src0 sys0 = Ok (eo, src, sys1)"
    by (auto simp: ipc_play_file_def Let_def split: access.splits)
  have "fe_open ?F \<notin> set (open_fds sys0)" using fresh(2) src0(2) by simp
  note tk = open_file_takes [OF op this]
  have keep: "held_by r sys1" if "held_by r (ip_sys s)" for r
    using that by (rule held_mono) (use tk fresh src0 in auto)
  have keep': "held_by r (free_source src sys1)" if "held_by r (ip_sys s)" for r
  proof (rule freed_keeps [OF keep [OF that]])
    have "src_addr src = ?a" using tk src0 by simp
    with held_addr [OF that] fresh(1) show "src_addr src \<noteq> src_addr r" by metis
  qed
  have held: "sources_held (ipc_sources s) (ip_sys s)" using ok(2) by (simp add: ipc_held_alt)
  show ?thesis
  proof (cases "eo = MM_ERROR_NONE")
    case False
    with run al op have "t = on_sys (\<lambda>_. if ?a = 0 then sys1 else free_source src sys1) s"
      by (simp add: ipc_play_file_def Let_def)
    with sources_mono [OF held] keep keep' show ?thesis by (simp add: ipc_held_alt)
  next
    case True
    with run al op have a: "?a \<noteq> 0" and c: "on_codec (codec_play (ie_codec E) (file_param m src) (-1)) (on_sys (\<lambda>_. sys1) s) = Some (e, h, t)"
      by (auto simp: ipc_play_file_def Let_def split: if_splits)
    let ?s = "on_sys (\<lambda>_. sys1) s"
    from c obtain c' where c': "codec_play (ie_codec E) (file_param m src) (-1) (ip_codec ?s) = Some (e, h, c')" "t = ?s\<lparr>ip_codec := c'\<rparr>"
      by (auto simp: on_codec_def)
    have tab: "ipc_table_ok wv fuel E0 E1 ?s" using ok(1) by simp
    have "world_held (cworld c')"
    proof (rule codec_play_sources [OF tab [unfolded ipc_table_ok_def] _ _ _ c'(1), THEN conjunct1])
      show "world_held (cworld (ip_codec ?s))" using sources_mono [OF held keep] by (simp add: world_held_def ip_sys_alt)
      show "held_by (mp_source (file_param m src)) (plug_sys (cworld (ip_codec ?s)))"
        using tk True fresh src0 a by (simp add: held_by_def ip_sys_alt file_param_def sound_param_def)
      show "unowned (mp_source (file_param m src)) (wave_sources (cworld (ip_codec ?s)))"
        using fresh_unowned [OF held, of src] tk True fresh src0 by (simp add: file_param_def sound_param_def)
    qed
    with c'(2) show ?thesis by (simp add: ipc_held_def)
  qed
qed

lemma play_shm_sources:
  assumes ok: "ipc_table_ok wv fuel E0 E1 s" "ipc_held s"
    and src: "held_by src (ip_sys s)" "unowned src (ipc_sources s)" "src_type src = MM_SOURCE_MEMORY_NOTALLOC"
    and run: "play_shm E m src s = Some (e, h, t)"
  shows "ipc_held t"
proof -
  have mp: "mp_source (memory_param m src) = src" by (simp add: memory_param_def sound_param_def)
  from run obtain s' where c: "on_codec (codec_play (ie_codec E) (memory_param m src) (-1)) s = Some (e, h, s')"
    "t = (if e = MM_ERROR_NONE then s' else on_sys (\<lambda>sys. free_source src (release_source src sys)) s')"
    by (auto simp: play_shm_def split: option.splits prod.splits if_splits)
  then obtain c' where c': "codec_play (ie_codec E) (memory_param m src) (-1) (ip_codec s) = Some (e, h, c')" "s' = s\<lparr>ip_codec := c'\<rparr>"
    by (auto simp: on_codec_def)
  have "world_held (cworld c') \<and> (e \<noteq> MM_ERROR_NONE \<longrightarrow> unowned src (wave_sources (cworld c')))"
    using codec_play_sources [OF ok(1) [unfolded ipc_table_ok_def] _ _ _ c'(1)] ok(2) src(1,2)
    by (simp add: mp ipc_held_def ip_sys_alt)
  then have s': "sources_held (ipc_sources s') (ip_sys s')" "e \<noteq> MM_ERROR_NONE \<longrightarrow> unowned src (ipc_sources s')"
    using c'(2) by (simp_all add: world_held_def ip_sys_def)
  show ?thesis
  proof (cases "e = MM_ERROR_NONE")
    case False
    have "held_by q (free_source src (release_source src (ip_sys s')))" if "held_by q (ip_sys s')" "ipc_sources s' a = Some q" for a q
      using released_keeps [OF that(1)] s'(2) False that(2) by (simp add: unowned_def)
    with sources_mono [OF s'(1)] False c(2) show ?thesis by (simp add: ipc_held_alt)
  qed (use s'(1) c(2) in \<open>simp add: ipc_held_alt\<close>)
qed

lemma ipc_play_memory_sources:
  assumes ok: "ipc_table_ok wv fuel E0 E1 s" "ipc_held s"
    and fr: "fresh_answers E m s" "m_msgtype m = MM_SOUND_MSG_REQ_MEMORY"
    and run: "ipc_play_memory E m s = Some (e, h, t)"
  shows "ipc_held t"
proof -
  let ?a = "ie_struct E" and ?buf = "ie_shm_map E"
  let ?opened = "\<lambda>sys. sys\<lparr>open_fds := ie_shm_open E (m_filename m) # open_fds sys\<rparr>"
  let ?mapped = "\<lambda>sys. ?opened sys\<lparr>mappings := (?buf, of_nat MEMTYPE_SUPPORT_MAX) # mappings sys\<rparr>"
  let ?src = "zero_source\<lparr>src_addr := ?a, src_type := MM_SOURCE_MEMORY_NOTALLOC, src_ptr := ?buf,
    src_bytes := ie_shm_bytes E (m_filename m), cur_size := of_int (m_memsize m), tot_size := of_int (m_memsize m), src_fd := -1\<rparr>"
  have fresh: "?a \<notin> set (structs (ip_sys s))" "?buf \<notin> fst ` set (mappings (ip_sys s))"
    using fr by (simp_all add: fresh_answers_def)
  have held: "sources_held (ipc_sources s) (ip_sys s)" using ok(2) by (simp add: ipc_held_alt)
  have more: "ipc_held (on_sys g s)"
    if "\<And>r. held_by r (ip_sys s) \<Longrightarrow> held_by r (g (ip_sys s))" for g
    using sources_mono [OF held that] by (simp add: ipc_held_alt)
  have keep: "held_by r (?opened (ip_sys s))" "held_by r (?mapped (ip_sys s))"
    if "held_by r (ip_sys s)" for r
    by (rule held_mono [OF that]; auto)+
  have keep3: "held_by r (free_source q (?mapped (ip_sys s)\<lparr>structs := ?a # structs (ip_sys s)\<rparr>))"
    if "held_by r (ip_sys s)" "src_addr q = ?a" "src_addr r \<noteq> ?a" for r q
    by (rule held_mono [OF that(1)]; use that(2,3) in \<open>auto simp: free_source_def\<close>)
  have ne: "src_addr r \<noteq> ?a" if "held_by r (ip_sys s)" for r using held_addr [OF that] fresh(1) by metis
  have on: "on_sys f (on_sys g u) = on_sys (f \<circ> g) u" for f g u by (simp add: on_sys_def Let_def)
  from run consider "t = s" | "t = on_sys ?opened s" | "t = on_sys ?mapped s"
    | q where "t = on_sys (\<lambda>sys. free_source q (?mapped (ip_sys s)\<lparr>structs := ?a # structs (ip_sys s)\<rparr>)) s" "src_addr q = ?a"
    | (plays) "play_shm E m ?src (on_sys (\<lambda>_. ?mapped (ip_sys s)\<lparr>structs := ?a # structs (ip_sys s)\<rparr>) s) = Some (e, h, t)"
    by (auto simp: ipc_play_memory_def Let_def alloc_source_def mm_source_open_full_memory_def on comp_def zero_source_def split: if_splits)
  then show ?thesis
  proof cases
    case 4
    with ne keep3 show ?thesis by (auto intro!: more)
  next
    case plays
    let ?s = "on_sys (\<lambda>_. ?mapped (ip_sys s)\<lparr>structs := ?a # structs (ip_sys s)\<rparr>) s"
    show ?thesis
    proof (rule play_shm_sources [OF _ _ _ _ _ plays])
      show "ipc_table_ok wv fuel E0 E1 ?s" using ok(1) by simp
      show "ipc_held ?s" by (rule more, rule held_mono) auto
      show "held_by ?src (ip_sys ?s)" by (simp add: held_by_def src_base_def zero_source_def)
      show "unowned ?src (ipc_sources ?s)"
        using fresh_unowned [OF held, of ?src] fresh by (simp add: src_base_def zero_source_def)
    qed simp
  qed (use ok(2) keep in \<open>auto intro!: more\<close>)
qed

lemma mgr_answer_sources:
  assumes ok: "ipc_table_ok wv fuel E0 E1 s" "ipc_held s" and fr: "fresh_answers E m s" and run: "mgr_answer E m s = Some (r, t)"
  shows "ipc_held t"
proof -
  have same: "ip_codec t = ip_codec s \<Longrightarrow> ?thesis" using ok(2) by (simp add: ipc_held_def)
  show ?thesis
  proof (cases "m_msgtype m")
    case MM_SOUND_MSG_REQ_FILE
    with run ipc_play_file_sources [OF ok fr] show ?thesis by (auto simp: mgr_answer_def sound_answer_def)
  next
    case MM_SOUND_MSG_REQ_MEMORY
    with run ipc_play_memory_sources [OF ok fr] show ?thesis by (auto simp: mgr_answer_def sound_answer_def)
  next
    case MM_SOUND_MSG_REQ_DTMF
    with run obtain e h c where c: "codec_play_dtmf (ie_codec E) (dtmf_param m) (-1) (ip_codec s) = Some (e, h, c)"
      "t = s\<lparr>ip_codec := c\<rparr>"
      by (auto simp: mgr_answer_def sound_answer_def ipc_play_dtmf_def on_codec_def)
    have "pw_wave (cworld c) = pw_wave (cworld (ip_codec s))" using codec_play_dtmf_sources [OF ok(1) [unfolded ipc_table_ok_def] c(1)] .
    with ok(2) c(2) show ?thesis by (simp add: ipc_held_def world_held_def wave_sources_def [abs_def])
  next
    case MM_SOUND_MSG_REQ_STOP
    with run obtain e c where c: "codec_stop (m_handle m) (ip_codec s) = Some (e, c)" "t = s\<lparr>ip_codec := c\<rparr>"
      by (auto simp: mgr_answer_def sound_answer_def ipc_stop_def)
    with codec_stop_sources [OF ok(1) [unfolded ipc_table_ok_def] c(1)] ok(2) show ?thesis
      by (simp add: ipc_held_def world_held_def)
  qed (use run same in \<open>auto simp: mgr_answer_def ipc_set_active_route_def ipc_add_active_device_cb_def
      ipc_remove_active_device_cb_def ipc_add_available_device_cb_def ipc_remove_available_device_cb_def
      dest: device_answer_codec\<close>)
qed

section \<open>All orders of events\<close>

lemma sound_end_sources:
  assumes ok: "ipc_table_ok wv fuel E0 E1 s" "ipc_held s" and run: "ipc_sound_end k s = Some t"
  shows "ipc_held t"
proof -
  let ?v = "cworld (ip_codec s)" and ?x = "slots (ip_codec s) ! k"
  from run obtain e c where c: "codec_stop_callback k (ip_codec s) = Some (e, c)" "t = s\<lparr>ip_codec := c\<rparr>"
    by (auto simp: ipc_sound_end_def)
  then obtain p ed w where p: "plugin_of (ip_codec s) k = Some p" "Destroy p (sl_plughandle ?x) ?v = (ed, w)" "cworld c = w"
    by (auto simp: codec_stop_callback_def Let_def plugin_of_def codec_simps split: option.splits prod.splits if_splits)
  note n = plugin_of_server [OF ok(1) p(1)]
  have winv: "plug_winv ?v" using ok(1) by (simp add: ipc_table_ok_def table_inv_def)
  from ok(2) have held: "sources_held (wave_sources ?v) (plug_sys ?v)" by (simp add: ipc_held_def world_held_def)
  have "world_held w"
    using destroy_sources [OF n(1) winv p(2) [unfolded n(2)]] sources_gone [OF held] held
    by (auto simp: world_held_def split: if_splits)
  with c(2) p(3) show ?thesis by (simp add: ipc_held_def)
qed

lemma no_sounds_held:
  assumes "live_sounds wv v = Map.empty"
  shows "world_held v"
proof -
  have "wave_heap (pw_wave v) a = None" for a
    using fun_cong [OF assms, of "(if wv then 0 else 1, a)"] by (simp add: live_sounds_def)
  then show ?thesis by (simp add: world_held_def sources_held_def wave_sources_def)
qed

lemma sound_run_held:
  "sound_run fresh_answers wv fuel E0 E1 s \<Longrightarrow> ipc_held s"
proof (induction rule: sound_run.induct)
  case (started s v)
  then show ?case by (simp add: ipc_held_def codec_init_def no_sounds_held)
next
  case (request s E m t)
  from request.hyps(2) obtain r u where u: "mgr_answer E m s = Some (r, u)" "t = ipc_snd_msg r u" by (auto simp: mgr_run_def)
  have "ipc_held u" using mgr_answer_sources [OF sound_run_table [OF request.hyps(1)] request.IH request.hyps(4) u(1)] .
  with u(2) show ?case by (simp add: ipc_held_def ip_codec_kept)
next
  case (asm_command s cmd slot r c)
  from asm_command.hyps(2) consider "c = ip_codec s" | e where "codec_stop slot (ip_codec s) = Some (e, c)"
    by (auto simp: codec_asm_callback_def split: asm_command.splits)
  then show ?case
  proof cases
    case 2
    with codec_stop_sources [OF sound_run_table [OF asm_command.hyps(1), unfolded ipc_table_ok_def] 2] asm_command.IH
    show ?thesis by (simp add: ipc_held_def world_held_def)
  qed (use asm_command.IH in simp)
next
  case (ended s x k t)
  then show ?case using sound_end_sources [OF sound_run_table [OF ended.hyps(1)]] by blast
qed



end
