(* ===== verification/Ipc_Queues.thy ===== *)
theory Ipc_Queues
  imports Client_Facts
begin

text \<open>
  The three message queues between the clients and the server (\<^verbatim>\<open>server/mm_sound_mgr_ipc.c\<close>, \<^verbatim>\<open>mm_sound_client.c\<close>):
  how both sides find them, send and receive, and the thread of a client that calls its functions, in every
  interleaving of clients with servers that start and die.

  A queue is a list of messages; each message carries the process it is from or for as its type.  A queue that
  is full makes its sender wait, which is a step that is not taken.  The three keys are all that exists.
\<close>

section \<open>Queues of the system\<close>

datatype queue_key = RCV_MSG | SND_MSG | CB_MSG

datatype thread_state = NotStarted | Runs | Left

text \<open>The queues with what was put into and taken from each, oldest first; the globals \<^verbatim>\<open>g_rcvid\<close>, \<^verbatim>\<open>g_sndid\<close> and
  \<^verbatim>\<open>g_cbid\<close> of a server that runs; \<^verbatim>\<open>g_msg_scsnd\<close>, \<^verbatim>\<open>g_msg_scrcv\<close> and \<^verbatim>\<open>g_msg_sccb\<close> of each client that looked its
  queues up; and the threads of the clients with the functions they called.\<close>

record mqs =
  mq_ids :: "queue_key \<rightharpoonup> int"
  mq_next :: int
  mq_msgs :: "int \<Rightarrow> sound_msg list"
  mq_sent :: "int \<Rightarrow> sound_msg list"
  mq_got :: "int \<Rightarrow> sound_msg list"
  mq_server :: "(int \<times> int \<times> int) option"
  mq_clients :: "pid \<rightharpoonup> int \<times> int \<times> int"
  mq_threads :: "pid \<Rightarrow> thread_state"
  mq_calls :: "pid \<Rightarrow> client_call list"

definition no_queues :: mqs where
  "no_queues = \<lparr>mq_ids = Map.empty, mq_next = 0, mq_msgs = (\<lambda>_. []), mq_sent = (\<lambda>_. []), mq_got = (\<lambda>_. []),
     mq_server = None, mq_clients = Map.empty, mq_threads = (\<lambda>_. NotStarted), mq_calls = (\<lambda>_. [])\<rparr>"

definition is_queue :: "int \<Rightarrow> mqs \<Rightarrow> bool" where
  "is_queue i q \<longleftrightarrow> (\<exists>k \<in> {RCV_MSG, SND_MSG, CB_MSG}. mq_ids q k = Some i)"

text \<open>\<^verbatim>\<open>msgget\<close>, with or without \<^verbatim>\<open>IPC_CREAT\<close>; -1 when it fails.\<close>

definition msgget :: "bool \<Rightarrow> bool \<Rightarrow> queue_key \<Rightarrow> mqs \<Rightarrow> int \<times> mqs" where
  "msgget creat works k q =
    (if \<not> works then (-1, q)
     else case mq_ids q k of
            Some i \<Rightarrow> (i, q)
          | None \<Rightarrow> if creat then (mq_next q, q\<lparr>mq_ids := (mq_ids q)(k \<mapsto> mq_next q), mq_next := mq_next q + 1\<rparr>)
                    else (-1, q))"

definition msgsnd :: "bool \<Rightarrow> int \<Rightarrow> sound_msg \<Rightarrow> mqs \<Rightarrow> bool \<times> mqs" where
  "msgsnd works i m q =
    (if works \<and> is_queue i q \<and> 1 \<le> m_msgid m
     then (True, q\<lparr>mq_msgs := (mq_msgs q)(i := mq_msgs q i @ [m]), mq_sent := (mq_sent q)(i := mq_sent q i @ [m])\<rparr>)
     else (False, q))"

text \<open>The first message of a type, or of any type when it is 0.\<close>

datatype rcv_result = Received sound_msg mqs | NoMessage | RcvFailed

definition take_msg :: "pid \<Rightarrow> sound_msg list \<Rightarrow> (sound_msg \<times> sound_msg list) option" where
  "take_msg ty ms =
    (if ty = 0 then (case ms of [] \<Rightarrow> None | m # r \<Rightarrow> Some (m, r)) else take_for ty ms)"

definition msgrcv :: "bool \<Rightarrow> int \<Rightarrow> pid \<Rightarrow> mqs \<Rightarrow> rcv_result" where
  "msgrcv works i ty q =
    (if \<not> works \<or> \<not> is_queue i q then RcvFailed
     else case take_msg ty (mq_msgs q i) of
            None \<Rightarrow> NoMessage
          | Some (m, ms) \<Rightarrow>
              Received m (q\<lparr>mq_msgs := (mq_msgs q)(i := ms), mq_got := (mq_got q)(i := mq_got q i @ [m])\<rparr>))"

section \<open>The server\<close>

text \<open>\<^verbatim>\<open>MMSoundMgrIpcInit\<close>; no result stands for \<^verbatim>\<open>exit\<close>.\<close>

definition MMSoundMgrIpcInit :: "(queue_key \<Rightarrow> bool) \<Rightarrow> mqs \<Rightarrow> mm_err option \<times> mqs" where
  "MMSoundMgrIpcInit works q =
    (let (r, q1) = msgget True (works RCV_MSG) RCV_MSG q;
         (s, q2) = msgget True (works SND_MSG) SND_MSG q1;
         (c, q3) = msgget True (works CB_MSG) CB_MSG q2
     in if r = -1 \<or> s = -1 \<or> c = -1 then (None, q3\<lparr>mq_server := None\<rparr>)
        else (Some MM_ERROR_NONE, q3\<lparr>mq_server := Some (r, s, c)\<rparr>))"

definition MMSoundMgrIpcFini :: "mqs \<Rightarrow> mm_err \<times> mqs" where
  "MMSoundMgrIpcFini q = (MM_ERROR_NONE, q)"

text \<open>The next request; a call that fails, also one that a signal interrupts, ends the server.  No value while
  it waits.\<close>

definition mgr_rcv_msg :: "bool \<Rightarrow> int \<Rightarrow> mqs \<Rightarrow> ((mm_err + sound_msg) \<times> mqs) option" where
  "mgr_rcv_msg works rcvid q =
    (case msgrcv works rcvid 0 q of
       RcvFailed \<Rightarrow> Some (Inl MM_ERROR_COMMON_UNKNOWN, q)
     | NoMessage \<Rightarrow> None
     | Received m q' \<Rightarrow> Some (Inr m, q'))"

definition ipc_ready_turn :: "bool \<Rightarrow> int \<Rightarrow> mqs \<Rightarrow> (sound_msg option \<times> mqs) option" where
  "ipc_ready_turn works rcvid q =
    (case mgr_rcv_msg works rcvid q of
       None \<Rightarrow> None
     | Some (Inl e, q') \<Rightarrow> Some (None, q'\<lparr>mq_server := None\<rparr>)
     | Some (Inr m, q') \<Rightarrow> Some (Some m, q'))"

definition mgr_snd_msg :: "bool \<Rightarrow> int \<Rightarrow> sound_msg \<Rightarrow> mqs \<Rightarrow> mm_err \<times> mqs" where
  "mgr_snd_msg works sndid m q =
    (case msgsnd works sndid m q of (ok, q') \<Rightarrow> (if ok then MM_ERROR_NONE else MM_ERROR_SOUND_INTERNAL, q'))"

definition mgr_cb_snd_msg :: "bool \<Rightarrow> int \<Rightarrow> sound_msg \<Rightarrow> mqs \<Rightarrow> mm_err \<times> mqs" where
  "mgr_cb_snd_msg works cbid m q =
    (case msgsnd works cbid m q of (ok, q') \<Rightarrow> (if ok then MM_ERROR_NONE else MM_ERROR_SOUND_INTERNAL, q'))"

section \<open>The clients\<close>

text \<open>What the client sends to is what the server receives from.\<close>

definition MMSoundGetMsg :: "(queue_key \<Rightarrow> bool) \<Rightarrow> pid \<Rightarrow> mqs \<Rightarrow> mm_err \<times> mqs" where
  "MMSoundGetMsg works p q =
    (let (scsnd, q1) = msgget False (works RCV_MSG) RCV_MSG q;
         (scrcv, q2) = msgget False (works SND_MSG) SND_MSG q1;
         (sccb, q3) = msgget False (works CB_MSG) CB_MSG q2
     in (if scsnd = -1 \<or> scrcv = -1 \<or> sccb = -1 then MM_ERROR_SOUND_INTERNAL else MM_ERROR_NONE,
         q3\<lparr>mq_clients := (mq_clients q3)(p \<mapsto> (scsnd, scrcv, sccb))\<rparr>))"

definition sc_snd_msg :: "bool \<Rightarrow> int \<Rightarrow> sound_msg \<Rightarrow> mqs \<Rightarrow> mm_err \<times> mqs" where
  "sc_snd_msg works scsnd m q =
    (case msgsnd works scsnd m q of (ok, q') \<Rightarrow> (if ok then MM_ERROR_NONE else MM_ERROR_SOUND_INTERNAL, q'))"

definition sc_cb_snd_msg :: "bool \<Rightarrow> int \<Rightarrow> sound_msg \<Rightarrow> mqs \<Rightarrow> mm_err \<times> mqs" where
  "sc_cb_snd_msg works sccb m q =
    (case msgsnd works sccb m q of (ok, q') \<Rightarrow> (if ok then MM_ERROR_NONE else MM_ERROR_COMMON_UNKNOWN, q'))"

definition sc_cb_rcv_msg :: "bool \<Rightarrow> int \<Rightarrow> pid \<Rightarrow> mqs \<Rightarrow> ((mm_err + sound_msg) \<times> mqs) option" where
  "sc_cb_rcv_msg works sccb ty q =
    (case msgrcv works sccb ty q of
       RcvFailed \<Rightarrow> Some (Inl MM_ERROR_COMMON_UNKNOWN, q)
     | NoMessage \<Rightarrow> None
     | Received m q' \<Rightarrow> Some (Inr m, q'))"

text \<open>One turn of the thread; a call that fails is repeated.\<close>

definition callback_turn :: "bool \<Rightarrow> int \<Rightarrow> pid \<Rightarrow> mqs \<Rightarrow> mqs option" where
  "callback_turn works sccb p q =
    (case sc_cb_rcv_msg works sccb p q of
       None \<Rightarrow> None
     | Some (Inl e, q') \<Rightarrow> Some q'
     | Some (Inr m, q') \<Rightarrow>
         (case callbackfunc m of
            (cs, run) \<Rightarrow> Some (q'\<lparr>mq_calls := (mq_calls q')(p := mq_calls q' p @ cs),
              mq_threads := (mq_threads q')(p := if run then Runs else Left)\<rparr>)))"

text \<open>The message that ends the thread, as \<^verbatim>\<open>MMSoundClientCallbackFini\<close> sends it.\<close>

definition destroy_msg :: "pid \<Rightarrow> sound_msg" where
  "destroy_msg p = zero_msg\<lparr>m_msgtype := MM_SOUND_MSG_INF_DESTROY_CB, m_msgid := p\<rparr>"

section \<open>All interleavings\<close>

inductive queue_run :: "mqs \<Rightarrow> bool" where
  boot: "queue_run no_queues"
| server_started: "queue_run q \<Longrightarrow> mq_server q = None \<Longrightarrow> MMSoundMgrIpcInit works q = (r, q') \<Longrightarrow> queue_run q'"
| server_ended: "queue_run q \<Longrightarrow> queue_run (snd (MMSoundMgrIpcFini q)\<lparr>mq_server := None\<rparr>)"
| server_turn: "queue_run q \<Longrightarrow> mq_server q = Some (r, s, c) \<Longrightarrow> ipc_ready_turn works r q = Some (m, q') \<Longrightarrow> queue_run q'"
| server_answer: "queue_run q \<Longrightarrow> mq_server q = Some (r, s, c) \<Longrightarrow> mgr_snd_msg works s m q = (e, q') \<Longrightarrow> queue_run q'"
| server_callback: "queue_run q \<Longrightarrow> mq_server q = Some (r, s, c) \<Longrightarrow> mgr_cb_snd_msg works c m q = (e, q') \<Longrightarrow> queue_run q'"
| client_joined: "queue_run q \<Longrightarrow> 0 < p \<Longrightarrow> mq_clients q p = None \<Longrightarrow> MMSoundGetMsg works p q = (e, q') \<Longrightarrow> queue_run q'"
| client_request: "queue_run q \<Longrightarrow> mq_clients q p = Some (a, b, d) \<Longrightarrow> m_msgid m = p \<Longrightarrow>
    sc_snd_msg works a m q = (e, q') \<Longrightarrow> queue_run q'"
| client_answered: "queue_run q \<Longrightarrow> mq_clients q p = Some (a, b, d) \<Longrightarrow> msgrcv works b p q = Received m q' \<Longrightarrow> queue_run q'"
| thread_started: "queue_run q \<Longrightarrow> mq_clients q p = Some (a, b, d) \<Longrightarrow> mq_threads q p = NotStarted \<Longrightarrow>
    queue_run (q\<lparr>mq_threads := (mq_threads q)(p := Runs)\<rparr>)"
| thread_turn: "queue_run q \<Longrightarrow> mq_clients q p = Some (a, b, d) \<Longrightarrow> mq_threads q p = Runs \<Longrightarrow>
    callback_turn works d p q = Some q' \<Longrightarrow> queue_run q'"
| thread_told: "queue_run q \<Longrightarrow> mq_clients q p = Some (a, b, d) \<Longrightarrow>
    sc_cb_snd_msg works d (destroy_msg p) q = (e, q') \<Longrightarrow> queue_run q'"

section \<open>What always holds\<close>

abbreviation of_pid :: "pid \<Rightarrow> sound_msg list \<Rightarrow> sound_msg list" where
  "of_pid p \<equiv> filter (\<lambda>m. m_msgid m = p)"

definition ids_ok :: "mqs \<Rightarrow> bool" where
  "ids_ok q \<longleftrightarrow> 0 \<le> mq_next q \<and> (\<forall>k i. mq_ids q k = Some i \<longrightarrow> 0 \<le> i \<and> i < mq_next q) \<and>
    (\<forall>k l i. mq_ids q k = Some i \<longrightarrow> mq_ids q l = Some i \<longrightarrow> k = l)"

text \<open>A number that a process has is that of the queue with its key, or -1.\<close>

definition knows :: "mqs \<Rightarrow> queue_key \<Rightarrow> int \<Rightarrow> bool" where
  "knows q k i \<longleftrightarrow> i = -1 \<or> mq_ids q k = Some i"

definition joined :: "mqs \<Rightarrow> bool" where
  "joined q \<longleftrightarrow>
    (\<forall>r s c. mq_server q = Some (r, s, c) \<longrightarrow> mq_ids q RCV_MSG = Some r \<and> mq_ids q SND_MSG = Some s \<and> mq_ids q CB_MSG = Some c) \<and>
    (\<forall>p a b d. mq_clients q p = Some (a, b, d) \<longrightarrow> 0 < p \<and> knows q RCV_MSG a \<and> knows q SND_MSG b \<and> knows q CB_MSG d)"

definition in_order :: "mqs \<Rightarrow> bool" where
  "in_order q \<longleftrightarrow> (\<forall>i p. of_pid p (mq_got q i) @ of_pid p (mq_msgs q i) = of_pid p (mq_sent q i)) \<and>
    (\<forall>r. mq_ids q RCV_MSG = Some r \<longrightarrow> mq_got q r @ mq_msgs q r = mq_sent q r) \<and>
    (\<forall>i. mq_next q \<le> i \<longrightarrow> mq_got q i = [] \<and> mq_msgs q i = [] \<and> mq_sent q i = [])"

definition calls_made :: "mqs \<Rightarrow> bool" where
  "calls_made q \<longleftrightarrow> (\<forall>p.
    callback_thread (case mq_ids q CB_MSG of None \<Rightarrow> [] | Some c \<Rightarrow> of_pid p (mq_got q c)) = (mq_calls q p, mq_threads q p \<noteq> Left))"

definition queue_inv :: "mqs \<Rightarrow> bool" where
  "queue_inv q \<longleftrightarrow> ids_ok q \<and> joined q \<and> in_order q \<and> calls_made q"

text \<open>Finding or making queues.\<close>

definition grown :: "mqs \<Rightarrow> mqs \<Rightarrow> bool" where
  "grown q q' \<longleftrightarrow> ids_ok q' \<and> mq_next q \<le> mq_next q' \<and> mq_ids q \<subseteq>\<^sub>m mq_ids q' \<and>
    (\<forall>l j. mq_ids q' l = Some j \<longrightarrow> mq_ids q l = Some j \<or> mq_next q \<le> j) \<and>
    mq_msgs q' = mq_msgs q \<and> mq_sent q' = mq_sent q \<and> mq_got q' = mq_got q \<and> mq_server q' = mq_server q \<and>
    mq_clients q' = mq_clients q \<and> mq_threads q' = mq_threads q \<and> mq_calls q' = mq_calls q"

lemma grown_trans: "grown q q1 \<Longrightarrow> grown q1 q2 \<Longrightarrow> grown q q2"
  by (auto simp: grown_def intro: map_le_trans) (meson order_trans)

lemma knows_grown: "knows q k i \<Longrightarrow> grown q q' \<Longrightarrow> knows q' k i"
  by (auto simp: knows_def grown_def map_le_def dom_def)

lemma msgget_grown:
  assumes "ids_ok q" "msgget cr w k q = (i, q')"
  shows "grown q q' \<and> knows q' k i \<and> (i \<noteq> -1 \<longrightarrow> mq_ids q' k = Some i)"
proof (cases "w \<and> mq_ids q k = None \<and> cr")
  case True
  with assms(2) have "i = mq_next q" "q' = q\<lparr>mq_ids := (mq_ids q)(k \<mapsto> mq_next q), mq_next := mq_next q + 1\<rparr>"
    by (auto simp: msgget_def)
  moreover have "j < mq_next q + 1" "j \<noteq> mq_next q" if "mq_ids q l = Some j" for l j
    using assms(1) that by (auto simp: ids_ok_def) (smt (verit))+
  ultimately show ?thesis using assms(1) True by (auto simp: grown_def ids_ok_def knows_def map_le_def)
next
  case False
  with assms show ?thesis
    by (auto simp: msgget_def grown_def knows_def split: if_splits option.splits)
qed

lemma three_found:
  assumes "ids_ok q" "msgget cr w1 RCV_MSG q = (a, q1)" "msgget cr w2 SND_MSG q1 = (b, q2)" "msgget cr w3 CB_MSG q2 = (d, q3)"
  shows "grown q q3 \<and> knows q3 RCV_MSG a \<and> knows q3 SND_MSG b \<and> knows q3 CB_MSG d"
proof -
  note g1 = msgget_grown [OF assms(1,2)]
  then have "ids_ok q1" by (simp add: grown_def)
  note g2 = msgget_grown [OF this assms(3)]
  then have "ids_ok q2" by (simp add: grown_def)
  note g3 = msgget_grown [OF this assms(4)]
  show ?thesis using g1 g2 g3 knows_grown grown_trans by blast
qed

lemma grown_inv:
  assumes "queue_inv q" "grown q q'"
  shows "queue_inv q'"
proof -
  have new: "mq_got q j = [] \<and> mq_msgs q j = [] \<and> mq_sent q j = []" if "mq_next q \<le> j" for j
    using assms(1) that by (simp add: queue_inv_def in_order_def)
  have kept: "mq_ids q' l = Some j" if "mq_ids q l = Some j" for l j
    using assms(2) that by (auto simp: grown_def map_le_def dom_def)
  have before: "mq_ids q l = Some j \<or> mq_next q \<le> j" if "mq_ids q' l = Some j" for l j
    using assms(2) that by (simp add: grown_def)
  have same: "mq_msgs q' = mq_msgs q" "mq_sent q' = mq_sent q" "mq_got q' = mq_got q" "mq_server q' = mq_server q"
    "mq_clients q' = mq_clients q" "mq_threads q' = mq_threads q" "mq_calls q' = mq_calls q" "mq_next q \<le> mq_next q'" "ids_ok q'"
    using assms(2) by (simp_all add: grown_def)
  have "joined q'"
    using assms(1) kept knows_grown [OF _ assms(2)] unfolding queue_inv_def joined_def same by blast
  moreover have "in_order q'"
    using assms(1) new before same(8) unfolding queue_inv_def in_order_def same by (metis append.right_neutral order_trans)
  moreover have "calls_made q'"
  proof (cases "mq_ids q CB_MSG")
    case None
    then have "mq_got q c = []" if "mq_ids q' CB_MSG = Some c" for c using before [OF that] new by simp
    with None assms(1) show ?thesis by (auto simp: queue_inv_def calls_made_def same split: option.splits)
  qed (use assms(1) kept in \<open>auto simp: queue_inv_def calls_made_def same\<close>)
  ultimately show ?thesis using same(9) by (simp add: queue_inv_def)
qed

text \<open>Sending.\<close>

lemma is_queue_id: "is_queue i q \<Longrightarrow> \<exists>k. mq_ids q k = Some i"
  by (auto simp: is_queue_def)

lemma queue_id_ok: "ids_ok q \<Longrightarrow> mq_ids q k = Some i \<Longrightarrow> 0 \<le> i \<and> i < mq_next q"
  by (simp add: ids_ok_def)

lemma queue_id_inj: "ids_ok q \<Longrightarrow> mq_ids q k = Some i \<Longrightarrow> k \<noteq> l \<Longrightarrow> mq_ids q l \<noteq> Some i"
  by (auto simp: ids_ok_def)

lemma knows_queue: "ids_ok q \<Longrightarrow> is_queue i q \<Longrightarrow> knows q k i \<Longrightarrow> mq_ids q k = Some i"
  using is_queue_id queue_id_ok by (fastforce simp: knows_def)

lemma msgsnd_inv:
  assumes "queue_inv q" "msgsnd w i m q = (ok, q')"
  shows "queue_inv q'"
proof (cases "q' = q")
  case False
  with assms(2) have q': "is_queue i q" "q' = q\<lparr>mq_msgs := (mq_msgs q)(i := mq_msgs q i @ [m]), mq_sent := (mq_sent q)(i := mq_sent q i @ [m])\<rparr>"
    by (auto simp: msgsnd_def split: if_splits)
  then have "i < mq_next q" using assms(1) is_queue_id by (auto simp: queue_inv_def ids_ok_def)
  with assms(1) have "in_order q'" unfolding q'(2) in_order_def queue_inv_def by (auto simp flip: append_assoc)
  with assms(1) show ?thesis unfolding q'(2) by (simp add: queue_inv_def ids_ok_def joined_def knows_def calls_made_def cong: option.case_cong)
qed (use assms(1) in simp)

text \<open>Receiving.\<close>

lemma take_for_order: "take_for p ms = Some (m, r) \<Longrightarrow> m_msgid m = p \<and> (\<forall>x. of_pid x ms = of_pid x (m # r))"
  by (induction ms arbitrary: r) (auto split: if_splits)

lemma take_msg_order: "take_msg ty ms = Some (m, r) \<Longrightarrow> of_pid x ms = of_pid x (m # r)"
  by (auto simp: take_msg_def dest: take_for_order split: if_splits list.splits)

lemma msgrcv_parts:
  assumes "msgrcv w i ty q = Received m q'"
  obtains ms where "is_queue i q" "ty \<noteq> 0 \<longrightarrow> m_msgid m = ty" "take_msg ty (mq_msgs q i) = Some (m, ms)"
    "q' = q\<lparr>mq_msgs := (mq_msgs q)(i := ms), mq_got := (mq_got q)(i := mq_got q i @ [m])\<rparr>"
  using assms take_for_order by (auto simp: msgrcv_def take_msg_def split: if_splits option.splits)

lemma msgrcv_order:
  assumes "queue_inv q" "msgrcv w i ty q = Received m q'" "mq_ids q RCV_MSG = Some i \<longrightarrow> ty = 0"
  shows "ids_ok q' \<and> joined q' \<and> in_order q'"
proof -
  from msgrcv_parts [OF assms(2)] obtain ms where q': "is_queue i q" "take_msg ty (mq_msgs q i) = Some (m, ms)"
    "q' = q\<lparr>mq_msgs := (mq_msgs q)(i := ms), mq_got := (mq_got q)(i := mq_got q i @ [m])\<rparr>" by metis
  have i: "i < mq_next q" using q'(1) assms(1) is_queue_id by (auto simp: queue_inv_def ids_ok_def)
  have ord: "of_pid x (mq_got q j) @ of_pid x (mq_msgs q j) = of_pid x (mq_sent q j)"
    "mq_ids q RCV_MSG = Some r \<Longrightarrow> mq_got q r @ mq_msgs q r = mq_sent q r" for x j r
    using assms(1) by (simp_all add: queue_inv_def in_order_def)
  have "of_pid x (mq_msgs q i) = of_pid x (m # ms)" for x using take_msg_order [OF q'(2)] .
  with ord(1) [where j = i] have "of_pid x (mq_got q i @ [m]) @ of_pid x ms = of_pid x (mq_sent q i)" for x
    by (metis append_Cons append_Nil append_assoc filter_append)
  moreover have "(mq_got q i @ [m]) @ ms = mq_sent q i" if "mq_ids q RCV_MSG = Some i"
    using ord(2) [OF that] assms(3) q'(2) that by (auto simp: take_msg_def split: list.splits)
  ultimately have "in_order q'" using assms(1) ord i by (auto simp: q'(3) in_order_def queue_inv_def)
  with assms(1) show ?thesis by (simp add: q'(3) queue_inv_def ids_ok_def joined_def knows_def)
qed

lemma msgrcv_inv:
  assumes "queue_inv q" "msgrcv w i ty q = Received m q'" "mq_ids q RCV_MSG = Some i \<longrightarrow> ty = 0" "mq_ids q CB_MSG \<noteq> Some i"
  shows "queue_inv q'"
proof -
  from msgrcv_parts [OF assms(2)] obtain ms where
    q': "q' = q\<lparr>mq_msgs := (mq_msgs q)(i := ms), mq_got := (mq_got q)(i := mq_got q i @ [m])\<rparr>" by metis
  have "calls_made q'" using assms(1,4) by (auto simp: q' queue_inv_def calls_made_def split: option.splits)
  with msgrcv_order [OF assms(1-3)] show ?thesis by (simp add: queue_inv_def)
qed

lemma callback_thread_snoc:
  "callback_thread ms = (cs, True) \<Longrightarrow>
    callback_thread (ms @ [m]) = (cs @ fst (callbackfunc m), snd (callbackfunc m))"
  by (induction ms arbitrary: cs) (auto split: prod.splits if_splits)

lemma callback_turn_inv:
  assumes "queue_inv q" "mq_clients q p = Some (a, b, d)" "mq_threads q p = Runs" "callback_turn w d p q = Some q'"
  shows "queue_inv q'"
proof -
  from assms(4) consider "q' = q" | m q1 where "msgrcv w d p q = Received m q1"
    "q' = q1\<lparr>mq_calls := (mq_calls q1)(p := mq_calls q1 p @ fst (callbackfunc m)),
       mq_threads := (mq_threads q1)(p := if snd (callbackfunc m) then Runs else Left)\<rparr>"
    by (auto simp: callback_turn_def sc_cb_rcv_msg_def split: rcv_result.splits prod.splits)
  then show ?thesis
  proof cases
    case 2
    from msgrcv_parts [OF 2(1)] obtain ms where q1: "is_queue d q" "p \<noteq> 0 \<longrightarrow> m_msgid m = p"
      "q1 = q\<lparr>mq_msgs := (mq_msgs q)(d := ms), mq_got := (mq_got q)(d := mq_got q d @ [m])\<rparr>" by metis
    have k: "0 < p" "knows q CB_MSG d" using assms(1,2) unfolding queue_inv_def joined_def by blast+
    have p: "0 < p" "mq_ids q CB_MSG = Some d" using k knows_queue [OF _ q1(1)] assms(1) by (simp_all add: queue_inv_def)
    then have "mq_ids q RCV_MSG \<noteq> Some d" using queue_id_inj assms(1) by (simp add: queue_inv_def)
    with msgrcv_order [OF assms(1) 2(1)] have ok: "ids_ok q1" "joined q1" "in_order q1" by simp_all
    have old: "callback_thread (of_pid x (mq_got q d)) = (mq_calls q x, mq_threads q x \<noteq> Left)" for x
      using assms(1) p(2) by (simp add: queue_inv_def calls_made_def)
    have f: "mq_ids q1 = mq_ids q" "mq_got q1 = (mq_got q)(d := mq_got q d @ [m])" "mq_calls q1 = mq_calls q"
      "mq_threads q1 = mq_threads q" by (simp_all add: q1(3))
    have m: "m_msgid m = p" using q1(2) p(1) by simp
    have "callback_thread (of_pid p (mq_got q d) @ [m]) = (mq_calls q p @ fst (callbackfunc m), snd (callbackfunc m))"
      using old [of p] assms(3) by (intro callback_thread_snoc) simp
    with old have "calls_made q'" by (simp add: 2(2) calls_made_def f p(2) m)
    moreover have "ids_ok q'" "joined q'" "in_order q'"
      using ok by (simp_all add: 2(2) ids_ok_def joined_def in_order_def knows_def)
    ultimately show ?thesis by (simp add: queue_inv_def)
  qed (use assms(1) in simp)
qed

lemma server_gone_inv: "queue_inv q \<Longrightarrow> queue_inv (q\<lparr>mq_server := None\<rparr>)"
  by (simp add: queue_inv_def ids_ok_def joined_def knows_def in_order_def calls_made_def cong: option.case_cong)

lemma no_queues_inv: "queue_inv no_queues"
  by (simp add: queue_inv_def ids_ok_def joined_def in_order_def calls_made_def no_queues_def)

lemma ipc_init_inv:
  assumes "queue_inv q" "MMSoundMgrIpcInit w q = (x, q')"
  shows "queue_inv q'"
proof -
  obtain r q1 s q2 c q3 where m: "msgget True (w RCV_MSG) RCV_MSG q = (r, q1)" "msgget True (w SND_MSG) SND_MSG q1 = (s, q2)"
    "msgget True (w CB_MSG) CB_MSG q2 = (c, q3)" by (metis surj_pair)
  have f: "grown q q3 \<and> knows q3 RCV_MSG r \<and> knows q3 SND_MSG s \<and> knows q3 CB_MSG c"
    using three_found [OF _ m] assms(1) by (simp add: queue_inv_def)
  then have q3: "queue_inv q3" using grown_inv [OF assms(1)] by blast
  show ?thesis
  proof (cases "r = -1 \<or> s = -1 \<or> c = -1")
    case True
    with assms(2) m have "q' = q3\<lparr>mq_server := None\<rparr>" by (auto simp: MMSoundMgrIpcInit_def)
    with server_gone_inv [OF q3] show ?thesis by simp
  next
    case False
    with assms(2) m have "q' = q3\<lparr>mq_server := Some (r, s, c)\<rparr>" by (auto simp: MMSoundMgrIpcInit_def)
    with q3 f False show ?thesis
      by (simp add: queue_inv_def ids_ok_def joined_def knows_def in_order_def calls_made_def cong: option.case_cong)
  qed
qed

lemma get_msg_inv:
  assumes "queue_inv q" "0 < p" "MMSoundGetMsg w p q = (e, q')"
  shows "queue_inv q'"
proof -
  obtain a q1 b q2 d q3 where m: "msgget False (w RCV_MSG) RCV_MSG q = (a, q1)" "msgget False (w SND_MSG) SND_MSG q1 = (b, q2)"
    "msgget False (w CB_MSG) CB_MSG q2 = (d, q3)" by (metis surj_pair)
  have f: "grown q q3 \<and> knows q3 RCV_MSG a \<and> knows q3 SND_MSG b \<and> knows q3 CB_MSG d"
    using three_found [OF _ m] assms(1) by (simp add: queue_inv_def)
  then have q3: "queue_inv q3" using grown_inv [OF assms(1)] by blast
  have "q' = q3\<lparr>mq_clients := (mq_clients q3)(p \<mapsto> (a, b, d))\<rparr>" using assms(3) m by (simp add: MMSoundGetMsg_def)
  with q3 f assms(2) show ?thesis
    by (auto simp: queue_inv_def ids_ok_def joined_def knows_def in_order_def calls_made_def cong: option.case_cong)
qed

lemma ready_turn_inv:
  assumes "queue_inv q" "mq_server q = Some (r, s, c)" "ipc_ready_turn w r q = Some (m, q')"
  shows "queue_inv q'"
proof -
  have r: "mq_ids q RCV_MSG = Some r" using assms(1,2) by (simp add: queue_inv_def joined_def)
  then have "mq_ids q CB_MSG \<noteq> Some r" using queue_id_inj assms(1) by (simp add: queue_inv_def)
  with assms(3) r show ?thesis
    by (auto simp: ipc_ready_turn_def mgr_rcv_msg_def server_gone_inv [OF assms(1)]
        dest: msgrcv_inv [OF assms(1), rotated -1] split: rcv_result.splits option.splits sum.splits)
qed

lemma answered_inv:
  assumes "queue_inv q" "mq_clients q p = Some (a, b, d)" "msgrcv w b p q = Received m q'"
  shows "queue_inv q'"
proof -
  have "knows q SND_MSG b" using assms(1,2) unfolding queue_inv_def joined_def by blast
  moreover have ok: "ids_ok q" using assms(1) by (simp add: queue_inv_def)
  moreover have "is_queue b q" using assms(3) by (rule msgrcv_parts)
  ultimately have "mq_ids q SND_MSG = Some b" using knows_queue by blast
  then have "mq_ids q RCV_MSG \<noteq> Some b" "mq_ids q CB_MSG \<noteq> Some b" using queue_id_inj [OF ok] by simp_all
  then show ?thesis using msgrcv_inv [OF assms(1,3)] by simp
qed

lemma queue_run_inv: "queue_run q \<Longrightarrow> queue_inv q"
proof (induction rule: queue_run.induct)
  case boot
  show ?case by (rule no_queues_inv)
next
  case (server_ended q)
  then show ?case by (simp add: MMSoundMgrIpcFini_def server_gone_inv)
next
  case (thread_started q p a b d)
  then show ?case by (simp add: queue_inv_def ids_ok_def joined_def knows_def in_order_def calls_made_def cong: option.case_cong)
qed (auto simp: mgr_snd_msg_def mgr_cb_snd_msg_def sc_snd_msg_def sc_cb_snd_msg_def split: prod.splits
    intro: ipc_init_inv ready_turn_inv get_msg_inv answered_inv callback_turn_inv msgsnd_inv)

text \<open>A thread that has not left called everything it was sent.\<close>

lemma callback_thread_all:
  "callback_thread ms = (cs, True) \<Longrightarrow> cs = concat (map (\<lambda>m. fst (callbackfunc m)) ms)"
  by (induction ms arbitrary: cs) (auto split: prod.splits if_splits)

text \<open>
  C7: in every interleaving of servers that start, fail and end with clients that join, send and wait: a server
  that runs and a client that found the queues have the same ones, also when the server was started again after
  the client had joined; the requests that servers took are those that were sent, in their order, and the rest
  waits; each client takes its answers in the order in which they were sent to it; and the functions that the
  thread of a client called are those of the messages to it, in their order, until the one that ends the thread.
\<close>

theorem messages_in_order:
  assumes "queue_run q" "mq_server q = Some (r, s, c)"
  shows "(\<forall>p a b d. mq_clients q p = Some (a, b, d) \<longrightarrow> a \<in> {-1, r} \<and> b \<in> {-1, s} \<and> d \<in> {-1, c}) \<and>
    mq_got q r @ mq_msgs q r = mq_sent q r \<and>
    (\<forall>p. of_pid p (mq_got q s) @ of_pid p (mq_msgs q s) = of_pid p (mq_sent q s)) \<and>
    (\<forall>p. \<exists>ms. ms @ of_pid p (mq_msgs q c) = of_pid p (mq_sent q c) \<and>
      callback_thread ms = (mq_calls q p, mq_threads q p \<noteq> Left))"
proof -
  note inv = queue_run_inv [OF assms(1)]
  then have ids: "mq_ids q RCV_MSG = Some r" "mq_ids q SND_MSG = Some s" "mq_ids q CB_MSG = Some c"
    using assms(2) by (simp_all add: queue_inv_def joined_def)
  have "\<forall>p a b d. mq_clients q p = Some (a, b, d) \<longrightarrow> knows q RCV_MSG a \<and> knows q SND_MSG b \<and> knows q CB_MSG d"
    using inv unfolding queue_inv_def joined_def by blast
  then have "\<forall>p a b d. mq_clients q p = Some (a, b, d) \<longrightarrow> a \<in> {-1, r} \<and> b \<in> {-1, s} \<and> d \<in> {-1, c}"
    by (simp add: knows_def ids) blast
  moreover have "\<forall>p. \<exists>ms. ms @ of_pid p (mq_msgs q c) = of_pid p (mq_sent q c) \<and>
      callback_thread ms = (mq_calls q p, mq_threads q p \<noteq> Left)"
    using inv ids(3) unfolding queue_inv_def in_order_def calls_made_def by (metis option.simps(5))
  ultimately show ?thesis using inv ids by (simp add: queue_inv_def in_order_def)
qed

definition ex_started :: mqs where
  "ex_started = no_queues\<lparr>mq_ids := [RCV_MSG \<mapsto> 0, SND_MSG \<mapsto> 1, CB_MSG \<mapsto> 2], mq_next := 3, mq_server := Some (0, 1, 2)\<rparr>"

definition ex_stop_cb :: sound_msg where
  "ex_stop_cb = zero_msg\<lparr>m_msgid := 5, m_msgtype := MM_SOUND_MSG_INF_STOP_CB, m_callback := 0x50, m_cbdata := 0x60\<rparr>"

lemma ex_started_run: "queue_run ex_started"
proof (rule queue_run.server_started [OF queue_run.boot])
  show "mq_server no_queues = None" by (simp add: no_queues_def)
  show "MMSoundMgrIpcInit (\<lambda>_. True) no_queues = (Some MM_ERROR_NONE, ex_started)"
    by (simp add: MMSoundMgrIpcInit_def msgget_def ex_started_def no_queues_def)
qed

text \<open>A client joins, its thread starts, the server is replaced by another, and a sound has ended.\<close>

theorem messages_in_order_witness:
  "\<exists>q'. queue_run q' \<and> mq_server q' = Some (0, 1, 2) \<and> mq_clients q' 5 = Some (0, 1, 2) \<and>
    mq_sent q' 2 = [ex_stop_cb] \<and> mq_msgs q' 2 = [] \<and> mq_calls q' 5 = [StopCallback 0x50 0x60]"
proof -
  let ?q1 = "ex_started\<lparr>mq_clients := [5 \<mapsto> (0, 1, 2)]\<rparr>"
  have "MMSoundGetMsg (\<lambda>_. True) 5 ex_started = (MM_ERROR_NONE, ?q1)"
    by (simp add: MMSoundGetMsg_def msgget_def ex_started_def no_queues_def)
  then have "queue_run ?q1"
    by (rule queue_run.client_joined [OF ex_started_run, rotated 2]) (simp_all add: ex_started_def no_queues_def)
  then have "queue_run (?q1\<lparr>mq_threads := (mq_threads ?q1)(5 := Runs)\<rparr>)" (is "queue_run ?q2")
    by (rule queue_run.thread_started) (simp_all add: ex_started_def no_queues_def)
  then have "queue_run (snd (MMSoundMgrIpcFini ?q2)\<lparr>mq_server := None\<rparr>)" (is "queue_run ?q3") by (rule queue_run.server_ended)
  moreover have "mq_server ?q3 = None" by simp
  moreover have "MMSoundMgrIpcInit (\<lambda>_. True) ?q3 = (Some MM_ERROR_NONE, ?q2)"
    by (simp add: MMSoundMgrIpcInit_def MMSoundMgrIpcFini_def msgget_def ex_started_def no_queues_def)
  ultimately have "queue_run ?q2" by (rule queue_run.server_started)
  moreover have "mq_server ?q2 = Some (0, 1, 2)" by (simp add: ex_started_def)
  moreover have "mgr_cb_snd_msg True 2 ex_stop_cb ?q2 = (MM_ERROR_NONE,
      ?q2\<lparr>mq_msgs := (\<lambda>_. [])(2 := [ex_stop_cb]), mq_sent := (\<lambda>_. [])(2 := [ex_stop_cb])\<rparr>)" (is "_ = (_, ?q4)")
    by (simp add: mgr_cb_snd_msg_def msgsnd_def is_queue_def ex_started_def no_queues_def ex_stop_cb_def)
  ultimately have "queue_run ?q4" by (rule queue_run.server_callback)
  moreover have "mq_clients ?q4 5 = Some (0, 1, 2)" "mq_threads ?q4 5 = Runs" by simp_all
  moreover have "callback_turn True 2 5 ?q4 = Some (?q4\<lparr>mq_msgs := (\<lambda>_. []), mq_got := (\<lambda>_. [])(2 := [ex_stop_cb]),
      mq_calls := (\<lambda>_. [])(5 := [StopCallback 0x50 0x60])\<rparr>)" (is "_ = Some ?q5")
    by (simp add: callback_turn_def sc_cb_rcv_msg_def msgrcv_def take_msg_def is_queue_def ex_started_def no_queues_def
        callbackfunc_def ex_stop_cb_def fun_eq_iff)
  ultimately have q5: "queue_run ?q5" by (rule queue_run.thread_turn)
  have "mq_server ?q5 = Some (0, 1, 2)" by (simp add: ex_started_def)
  from messages_in_order [OF q5 this] have "\<exists>ms. ms @ of_pid 5 (mq_msgs ?q5 2) = of_pid 5 (mq_sent ?q5 2) \<and>
    callback_thread ms = (mq_calls ?q5 5, mq_threads ?q5 5 \<noteq> Left)" by blast
  with q5 show ?thesis by (intro exI [of _ ?q5]) (simp add: ex_started_def)
qed

text \<open>A client whose first request comes before the server has started keeps -1 for its queues, for it looks
  them up only once, and nothing can be sent there.\<close>

lemma early_client_never_joins:
  assumes "mq_ids q = Map.empty" "MMSoundGetMsg w p q = (e, q')"
  shows "e = MM_ERROR_SOUND_INTERNAL \<and> mq_clients q' p = Some (-1, -1, -1) \<and>
    (queue_run t \<longrightarrow> sc_snd_msg w' (-1) m t = (MM_ERROR_SOUND_INTERNAL, t))"
proof -
  have "\<not> is_queue (-1) t" if "queue_run t"
    using queue_run_inv [OF that] is_queue_id queue_id_ok by (fastforce simp: queue_inv_def)
  with assms show ?thesis by (auto simp: MMSoundGetMsg_def msgget_def sc_snd_msg_def msgsnd_def split: if_splits)
qed

end
