(* ===== verification/Spec2Isabelle.thy ===== *)
theory Spec2Isabelle
  imports Session_Props Device_Props Asm_Props Tone_Props Codec_Props Wave_Props Source_Props Ipc_Props Volume_Props Pcm_Props Client_Props Keytone_Props Plugin_Loader_Props Event_Props Startup_Props Keysound Ipc_Lock Tone_Doc Pulse_Conn Client_System Server_Parts Testsuite_Props Pool_Threads Sound_Sources_Props Ipc_Queues
begin

text \<open>
  Verification development of libmm-sound, the sound library and sound server of Tizen.

  \<^bold>\<open>The program.\<close>  Programs link the client library (\<^verbatim>\<open>src/mm_sound.c\<close>, \<^verbatim>\<open>src/mm_sound_client.c\<close>,
  \<^verbatim>\<open>src/mm_sound_keysound.c\<close>).  It sends requests through a System V message queue to the sound server and
  waits for the answers in a second one; the ends of sounds and changes of devices come back through a
  third.  Key tones go to the server through a named pipe.  The server (\<^verbatim>\<open>src/server/\<close>) has a dispatcher
  (\<^verbatim>\<open>mm_sound_mgr_ipc.c\<close>) that runs each request in a pool of threads and hands it to the codec manager
  (\<^verbatim>\<open>mm_sound_mgr_codec.c\<close>), whose plugins play WAVE files and tones, or to the device manager
  (\<^verbatim>\<open>mm_sound_mgr_device.c\<close>).  Beside them the audio session manager (\<^verbatim>\<open>mm_sound_mgr_asm.c\<close>) decides which
  process may sound, from its own queues; the session manager (\<^verbatim>\<open>mm_sound_mgr_session.c\<close>) keeps the sessions
  and the devices and sets the audio path; and the event sources (headset, PulseAudio, Bluetooth, dock)
  tell it which devices there are.  The main program (\<^verbatim>\<open>mm_sound_server.c\<close>) loads the plugins, restores the
  volumes and starts and stops the parts.

  \<^bold>\<open>Conventions.\<close>  A C structure or the globals of a file are a record, an enumeration a datatype, a function
  a definition over the explicit state, named as in the code where that is possible.  Bit masks,
  addresses, offsets in files and volumes are words of their width.  Errors are values: \<^verbatim>\<open>mm_err\<close>, a sum or
  an option.  What the sources call but do not define (the audio library avsys, PulseAudio, GLib, the
  settings vconf, the files and queues of the system, the client library of the audio session manager) is
  an argument: a record of answers, such as \<^verbatim>\<open>sess_env\<close>, \<^verbatim>\<open>asm_env\<close>, \<^verbatim>\<open>cl_env\<close>, \<^verbatim>\<open>ipc_env\<close>, or a function.  The calls
  that go out are logged in the state, newest first.  No value (\<^verbatim>\<open>None\<close>) stands for a call that does not
  return or has no defined outcome, such as reading freed memory; each theory says which.

  \<^bold>\<open>Theories.\<close>
  \<^item> \<^verbatim>\<open>Prelude\<close>: errors, machine words, the collections of rewrite rules, lemmas on lists.
  \<^item> \<^verbatim>\<open>Routes\<close>: devices and routes (\<^verbatim>\<open>include/mm_sound.h\<close>, \<^verbatim>\<open>common/mm_sound_utils.c\<close>).
  \<^item> \<^verbatim>\<open>Session_State\<close>, \<^verbatim>\<open>Device\<close>, \<^verbatim>\<open>Session\<close>, \<^verbatim>\<open>Session_Events\<close>: the session manager and the device manager, record
    \<^verbatim>\<open>sess\<close> for \<^verbatim>\<open>g_info\<close> and the two lists of callbacks.  \<^verbatim>\<open>Session_Facts\<close> and \<^verbatim>\<open>Session_Inv\<close> have the frame of
    every operation, the invariant \<^verbatim>\<open>sess_inv\<close> and the specification of the device switches.
  \<^item> \<^verbatim>\<open>Asm_List\<close>, \<^verbatim>\<open>Asm_Policy\<close>, \<^verbatim>\<open>Asm_Server\<close>: the audio session manager, record \<^verbatim>\<open>asm\<close> with the list of
    instances, the status words and the session manager it shares a process with.  \<^verbatim>\<open>Asm_Heap\<close> is the
    clean-up of dead processes as a program on pointers.  \<^verbatim>\<open>Asm_Facts\<close>, \<^verbatim>\<open>Asm_Inv\<close>, \<^verbatim>\<open>Asm_Policy_Facts\<close> and
    \<^verbatim>\<open>Asm_Results\<close> have the invariant \<^verbatim>\<open>asm_inv\<close> and the policy as a pure function of the list.
  \<^item> \<^verbatim>\<open>Server\<close>: requests, device events, activations and callbacks in any order, as an inductive relation.
  \<^item> \<^verbatim>\<open>Event_Sources\<close>, \<^verbatim>\<open>Pulse_Conn\<close>: the earjack loop, the callbacks of PulseAudio, Bluetooth and the dock, and
    the connection to PulseAudio.
  \<^item> \<^verbatim>\<open>Bytes\<close>, \<^verbatim>\<open>Source\<close>: memory as bytes, media sources (\<^verbatim>\<open>common/mm_source.c\<close>) with what they hold open.
  \<^item> \<^verbatim>\<open>Codec_Interface\<close>, \<^verbatim>\<open>Codec\<close>, \<^verbatim>\<open>Codec_Facts\<close>: the interface of a plugin and the table of slots.
  \<^item> \<^verbatim>\<open>Wave\<close>, \<^verbatim>\<open>Wave_Facts\<close>: the WAVE plugin.  \<^verbatim>\<open>Tone_Table\<close>, \<^verbatim>\<open>Tone\<close>, \<^verbatim>\<open>Tone_Facts\<close>, \<^verbatim>\<open>Tone_Order\<close>: the tone generator.
    \<^verbatim>\<open>Tone_Doc\<close>: the named tones of the public header with what their comments describe.
    \<^verbatim>\<open>Plugins\<close>: both plugins in one server.
  \<^item> \<^verbatim>\<open>Sound_Table\<close>, \<^verbatim>\<open>Sound_Sources\<close>: the sounds that play beside each other, which slots and which files and
    mappings are whose.
  \<^item> \<^verbatim>\<open>Keytone\<close>: the key tone plugin with its two threads.  \<^verbatim>\<open>Keysound\<close>: the client's side of it.
  \<^item> \<^verbatim>\<open>Messages\<close>, \<^verbatim>\<open>Ipc\<close>, \<^verbatim>\<open>Ipc_Facts\<close>: messages and the dispatcher.  \<^verbatim>\<open>Ipc_Queues\<close>: the message
    queues, which both sides find and use.  \<^verbatim>\<open>Ipc_Lock\<close>: the lock that processes share.
  \<^item> \<^verbatim>\<open>Client\<close>, \<^verbatim>\<open>Client_Api\<close>, \<^verbatim>\<open>Client_System\<close>, \<^verbatim>\<open>Volume\<close>, \<^verbatim>\<open>Pcm\<close>: the client library.  \<^verbatim>\<open>Client_Facts\<close>: its
    requests answered by a server.
  \<^item> \<^verbatim>\<open>Plugin_Loader\<close>, \<^verbatim>\<open>Startup\<close>, \<^verbatim>\<open>Server_Parts\<close>: loading plugins, start and end of the server, volumes after a
    restart, the pool of threads, and the small operations by which the parts are started and asked.
  \<^item> \<^verbatim>\<open>Testsuite\<close>: the interactive test program (\<^verbatim>\<open>testsuite/mm_sound_testsuite_simple.c\<close>) over the client library.
  \<^item> \<^verbatim>\<open>Pool_Threads\<close>: the pool that makes its own threads, which the build leaves out, one step of a thread at a time.
  \<^item> \<^verbatim>\<open>Examples\<close>: concrete environments and states.  The theories whose names end in \<^verbatim>\<open>_Props\<close> hold the
    properties, with a concrete instance after each.

  \<^bold>\<open>Interfaces.\<close>  \<^verbatim>\<open>codec_plugin\<close> (\<^verbatim>\<open>Codec_Interface\<close>) is what the codec manager asks of a plugin; the life of a sound
  is proved inside it once, and it is interpreted by the tone generator, the WAVE plugin and both side by
  side in the server.  \<^verbatim>\<open>sound_plugins\<close> (\<^verbatim>\<open>Sound_Table\<close>) is what it relies on of all plugins together, interpreted
  by the two of the server in either order.  \<^verbatim>\<open>pid_registry\<close> (\<^verbatim>\<open>Device\<close>) is a list of callbacks seen as a map, interpreted by both lists.
  \<^verbatim>\<open>handle_table\<close> (\<^verbatim>\<open>Asm_Facts\<close>) is the allocation of handles.  \<^verbatim>\<open>request_server\<close> (\<^verbatim>\<open>Client_Facts\<close>) is what a
  client asks of a server, interpreted by the dispatcher.

  \<^bold>\<open>What is shown.\<close>  Every state the server reaches is well formed (C1); in every interleaving of events and
  clients a device is available exactly when its source has last said so (C4).  In every order of requests and
  ends of sounds each sound keeps its own slot (C6) and what it reads from stays open and mapped (C5).  Messages
  are taken in the order in which they were sent, whatever servers and clients come and go (C7).  The policy of
  the audio session manager is a pure function of the list (C10), stops whom it says it stops (C3) and refuses
  exactly when it must (C15).  A sound is followed from the call of a client to its function at the end, with
  everything given back (C2), a file to the device (C9, C24, C25), a tone through its table and its time (C22,
  C23) and compared with its documentation (C11).  Calls, accessories and activations switch the devices as
  specified (C12, C13, C16, C18, C19).  The threads of the key tone plugin exclude and wake each other (C8, C32,
  C33), and a client's key tone is written as it is in its file (C38); the pool runs a task once (C37, C40);
  every request has one answer of its type (C26), and waiting for answers ends (C30).  Handles, dead processes,
  callback lists and routes are C14, C17, C20, C21 and C29; volumes, PCM sounds, plugins, the PulseAudio
  connection and the end of the server C27, C28 and C34 to C36; the test program C39.
  Several theorems state what the code does where that is not what it means to do (C11, C17, C31, C33, C35, C37,
  C40); their texts say so.

  \<^bold>\<open>Bounds and fuel.\<close>  A client waits at most 20000 attempts (\<^verbatim>\<open>RETRIES\<close>), as in the code.  The parser of WAVE
  files may run for ever on a chunk of size -8, so it has fuel: one more than the number of chunks is
  enough for every file an encoder writes (\<^verbatim>\<open>wave_fuel\<close>), and that no fuel is enough for the bad chunk is
  a lemma.  The loops that play have fuel for their rounds; the theorems give amounts that are enough (more
  than the bytes to play, and the repetitions) and state the result, not only that it is right if there
  is one.  The tone loop with a time ends within the fuel the theorem names; without a time it goes on, and
  the theorem is about every number of cycles.  A scan of plugins has room for 99 modules (\<^verbatim>\<open>PLUGIN_ARRAY\<close>), beyond
  which the C code writes behind its array.  Loops that wait for other threads or for the system
  run over the list of what they meet, and may still be waiting at its end.

  \<^bold>\<open>Not modelled.\<close>  The build files and the packaging; the variants of the client's callback thread that
  the build leaves out; log messages and the functions that only print; the registration of signal handlers,
  of the hibernation service and the main loop of GLib, which are calls of libraries without state of the
  program; spurious wake-ups of condition variables and \<^verbatim>\<open>stop_flag\<close> of the key tone plugin, which nothing
  clears while the server runs; \<^verbatim>\<open>__do_callback_wo_retcb\<close>, which nothing calls.  Functions that hold a lock
  throughout are atomic steps.  The samples of a tone are computed over the reals, not in floating point.
\<close>


end
